(* ===== verification/Prelude.thy ===== *)
theory Prelude
  imports Main "HOL-Library.AList" "HOL-Library.Char_ord" "HOL-Library.List_Lexorder"
    "HOL-Library.Product_Lexorder" "HOL-Library.Sublist" "HOL-Library.Multiset"
begin

text \<open>
  Shared vocabulary of the development.

  \<^item> \<open>exn\<close>: the exceptions the modelled code raises or handles, as values.
  \<^item> \<open>'a res\<close>: the result of a pure operation that may raise (\<open>Inl\<close> the exception).
  \<^item> \<open>('s, 'a) act\<close>: an operation on a world of type \<open>'s\<close>; it returns or raises, and either
    way leaves a new world behind, so that the effects made before an exception are kept.
  \<^item> Python dictionaries are association lists in insertion order (\<open>AList.update\<close> replaces a
    value in place and appends a new key, \<open>AList.delete\<close> is \<open>del\<close>).
  \<^item> \<open>keeps P m\<close>: the operation \<open>m\<close> preserves \<open>P\<close> whether it returns or raises.
\<close>

section \<open>Exceptions and results\<close>

datatype exn =
    AssertionError
  | KeyError
  | IndexError
  | TypeError
  | ValueError
  | RuntimeError
  | OSError
  | FileNotFoundError
  | CryptoError
  | S3RetryingError
  | ClickhouseError bool string
  | ClickhouseBackupError
  | StorageError
  | InvalidBackupStruct
  | UnknownBackupStateError
  | BackupNotFound string
  | ConfigurationError
  | UnknownEncryptionError
  | ClientError string int
  | BotoCoreError
  | HTTPError
  | RequestsConnectionError
  | RequestException
  | KazooException
  | NoNodeError
  | LockTimeout
  | TerminatingSignal
  | SystemExit
  | OtherException string
  | Hangs

text \<open>\<open>TerminatingSignal\<close> and \<open>SystemExit\<close> derive from \<open>BaseException\<close>: \<open>except Exception\<close> does not
  catch them. \<open>ClickhouseError retriable text\<close> is \<open>ClickhouseErrorRetriable\<close> or
  \<open>ClickhouseErrorNotRetriable\<close> with its message. \<open>RequestsConnectionError\<close> and \<open>RequestException\<close> are those
  of requests, \<open>NoNodeError\<close> and \<open>LockTimeout\<close> are kazoo's, subclasses of \<open>KazooException\<close>.
  \<open>ClientError code status\<close> is botocore's, with the error code and the HTTP status of the response.
  \<open>Hangs\<close> is not an exception of the code: it stands for an operation that never returns. No handler
  catches it and no \<open>finally\<close> block runs after it.\<close>

definition is_exception :: "exn \<Rightarrow> bool" where
  "is_exception e \<longleftrightarrow> e \<noteq> TerminatingSignal \<and> e \<noteq> SystemExit"

text \<open>The handlers of a base class catch its subclasses. The exceptions of requests are \<open>OSError\<close>s.\<close>

definition is_clickhouse_error :: "exn \<Rightarrow> bool" where
  "is_clickhouse_error e = (case e of ClickhouseError retriable msg \<Rightarrow> True | _ \<Rightarrow> False)"

definition is_backup_error :: "exn \<Rightarrow> bool" where
  "is_backup_error e =
     (case e of ClickhouseBackupError \<Rightarrow> True | StorageError \<Rightarrow> True | InvalidBackupStruct \<Rightarrow> True
      | UnknownBackupStateError \<Rightarrow> True | BackupNotFound n \<Rightarrow> True | ConfigurationError \<Rightarrow> True
      | UnknownEncryptionError \<Rightarrow> True | _ \<Rightarrow> False)"

definition is_os_error :: "exn \<Rightarrow> bool" where
  "is_os_error e =
     (case e of OSError \<Rightarrow> True | FileNotFoundError \<Rightarrow> True | RequestsConnectionError \<Rightarrow> True
      | RequestException \<Rightarrow> True | _ \<Rightarrow> False)"

definition is_request_error :: "exn \<Rightarrow> bool" where
  "is_request_error e = (case e of RequestsConnectionError \<Rightarrow> True | RequestException \<Rightarrow> True | _ \<Rightarrow> False)"

definition is_kazoo_error :: "exn \<Rightarrow> bool" where
  "is_kazoo_error e =
     (case e of KazooException \<Rightarrow> True | NoNodeError \<Rightarrow> True | LockTimeout \<Rightarrow> True | _ \<Rightarrow> False)"

definition returns_or_hangs :: "'a option \<Rightarrow> exn + 'a" where
  "returns_or_hangs x = (case x of None \<Rightarrow> Inl Hangs | Some y \<Rightarrow> Inr y)"

type_synonym 'a res = "exn + 'a"

definition bind_res :: "'a res \<Rightarrow> ('a \<Rightarrow> 'b res) \<Rightarrow> 'b res" where
  "bind_res r f = (case r of Inl e \<Rightarrow> Inl e | Inr x \<Rightarrow> f x)"

definition assert_res :: "bool \<Rightarrow> unit res" where
  "assert_res b = (if b then Inr () else Inl AssertionError)"

fun map_res :: "('a \<Rightarrow> 'b res) \<Rightarrow> 'a list \<Rightarrow> 'b list res" where
  "map_res f [] = Inr []"
| "map_res f (x # xs) = bind_res (f x) (\<lambda>y. bind_res (map_res f xs) (\<lambda>ys. Inr (y # ys)))"

fun fold_res :: "('a \<Rightarrow> 'c \<Rightarrow> 'c res) \<Rightarrow> 'a list \<Rightarrow> 'c \<Rightarrow> 'c res" where
  "fold_res f [] c = Inr c"
| "fold_res f (x # xs) c = bind_res (f x c) (fold_res f xs)"

lemma bind_res_simps [simp]:
  "bind_res (Inl e) f = Inl e" "bind_res (Inr x) f = f x"
  by (simp_all add: bind_res_def)

lemma bind_res_Inr_iff [simp]:
  "bind_res r f = Inr y \<longleftrightarrow> (\<exists>x. r = Inr x \<and> f x = Inr y)"
  by (cases r) auto

lemma assert_res_Inr [simp]: "assert_res b = Inr u \<longleftrightarrow> b"
  by (simp add: assert_res_def)

lemma map_res_Inr_iff:
  "map_res f xs = Inr ys \<longleftrightarrow> list_all2 (\<lambda>x y. f x = Inr y) xs ys"
  by (induction xs arbitrary: ys) (auto simp: list_all2_Cons1)

lemma map_res_all_Inr: "(\<And>x. x \<in> set xs \<Longrightarrow> f x = Inr (g x)) \<Longrightarrow> map_res f xs = Inr (map g xs)"
  by (induction xs) auto

lemma fold_res_append:
  "fold_res f (xs @ ys) c = bind_res (fold_res f xs c) (fold_res f ys)"
proof (induction xs arbitrary: c)
  case (Cons x xs)
  then show ?case by (cases "f x c") simp_all
qed simp

lemma fold_res_inv:
  assumes "fold_res f xs c = Inr c'" and "P c"
    and "\<And>x c c'. x \<in> set xs \<Longrightarrow> P c \<Longrightarrow> f x c = Inr c' \<Longrightarrow> P c'"
  shows "P c'"
  using assms by (induction xs arbitrary: c) auto

text \<open>A fold whose every step adds a set to what the result stands for.\<close>

lemma fold_res_union:
  assumes "fold_res f xs c = Inr c'"
    and "\<And>x c c'. x \<in> set xs \<Longrightarrow> f x c = Inr c' \<Longrightarrow> R c' = R c \<union> A x"
  shows "R c' = R c \<union> (\<Union>x \<in> set xs. A x)"
  using assms
proof (induction xs arbitrary: c)
  case (Cons x xs)
  from Cons.prems(1) obtain c1 where 1: "f x c = Inr c1" and 2: "fold_res f xs c1 = Inr c'" by auto
  have "R c1 = R c \<union> A x" by (rule Cons.prems(2) [OF _ 1]) simp
  moreover have "R c' = R c1 \<union> (\<Union>x \<in> set xs. A x)"
    by (rule Cons.IH [OF 2]) (rule Cons.prems(2), simp_all)
  ultimately show ?case by auto
qed simp

section \<open>Dictionaries\<close>

type_synonym ('k, 'v) dict = "('k \<times> 'v) list"

definition dict_get :: "('k, 'v) dict \<Rightarrow> 'k \<Rightarrow> 'v res" where
  "dict_get d k = (case map_of d k of None \<Rightarrow> Inl KeyError | Some v \<Rightarrow> Inr v)"

abbreviation dict_set :: "('k, 'v) dict \<Rightarrow> 'k \<Rightarrow> 'v \<Rightarrow> ('k, 'v) dict" where
  "dict_set d k v \<equiv> AList.update k v d"

definition dict_del :: "('k, 'v) dict \<Rightarrow> 'k \<Rightarrow> ('k, 'v) dict res" where
  "dict_del d k = (if k \<in> fst ` set d then Inr (AList.delete k d) else Inl KeyError)"

abbreviation dict_keys :: "('k, 'v) dict \<Rightarrow> 'k list" where
  "dict_keys d \<equiv> map fst d"

definition dict_ok :: "('k, 'v) dict \<Rightarrow> bool" where
  "dict_ok d \<longleftrightarrow> distinct (map fst d)"

lemma dict_get_Inr [simp]: "dict_get d k = Inr v \<longleftrightarrow> map_of d k = Some v"
  by (simp add: dict_get_def split: option.splits)

lemma dict_get_Inl [simp]: "dict_get d k = Inl e \<longleftrightarrow> map_of d k = None \<and> e = KeyError"
  by (auto simp: dict_get_def split: option.splits)

lemma dict_ok_simps [simp]: "dict_ok []" "dict_ok (p # d) \<longleftrightarrow> fst p \<notin> fst ` set d \<and> dict_ok d"
  by (auto simp: dict_ok_def)

lemma dict_ok_update [simp]: "dict_ok d \<Longrightarrow> dict_ok (dict_set d k v)"
  by (simp add: dict_ok_def distinct_update)

lemma map_of_dict_set [simp]: "map_of (dict_set d k v) = (map_of d)(k \<mapsto> v)"
  by (rule update_conv')

lemma dict_ok_map_of: "dict_ok d \<Longrightarrow> (k, v) \<in> set d \<longleftrightarrow> map_of d k = Some v"
  by (simp add: dict_ok_def)

lemma set_dict_set: "set (dict_set d k v) \<subseteq> insert (k, v) (set d)"
  by (induction d) auto

lemma dict_set_fresh: "k \<notin> fst ` set d \<Longrightarrow> dict_set d k v = d @ [(k, v)]"
  by (induction d) auto

lemma map_of_None_keys: "map_of d k = None \<longleftrightarrow> k \<notin> fst ` set d"
  by (rule map_of_eq_None_iff)

lemma sum_list_update_dict:
  fixes f :: "'v \<Rightarrow> int"
  assumes "map_of d k = Some old"
  shows "(\<Sum>p \<leftarrow> dict_set d k new. f (snd p)) = (\<Sum>p \<leftarrow> d. f (snd p)) - f old + f new"
  using assms by (induction d) (auto split: if_splits)

lemma sum_list_delete_dict:
  fixes f :: "'k \<times> 'v \<Rightarrow> int"
  assumes "dict_ok d" "map_of d k = Some v"
  shows "(\<Sum>p \<leftarrow> AList.delete k d. f p) = (\<Sum>p \<leftarrow> d. f p) - f (k, v)"
  using assms
proof (induction d)
  case (Cons p d)
  show ?case
  proof (cases "fst p = k")
    case True
    with Cons.prems have "k \<notin> fst ` set d" and "snd p = v" by auto
    with True show ?thesis by (cases p) simp
  next
    case False
    with Cons show ?thesis by (auto split: if_splits)
  qed
qed simp

lemma map_of_filter_keys:
  "k \<notin> X \<Longrightarrow> map_of (filter (\<lambda>p. fst p \<notin> X) d) k = map_of d k"
  by (induction d) auto

section \<open>Operations with effects\<close>

type_synonym ('s, 'a) act = "'s \<Rightarrow> (exn + 'a) \<times> 's"

definition ret :: "'a \<Rightarrow> ('s, 'a) act" where
  "ret x s = (Inr x, s)"

definition raise :: "exn \<Rightarrow> ('s, 'a) act" where
  "raise e s = (Inl e, s)"

definition bind_act :: "('s, 'a) act \<Rightarrow> ('a \<Rightarrow> ('s, 'b) act) \<Rightarrow> ('s, 'b) act" where
  "bind_act m f s = (case m s of (Inl e, s') \<Rightarrow> (Inl e, s') | (Inr x, s') \<Rightarrow> f x s')"

definition seq_act :: "('s, 'a) act \<Rightarrow> ('s, 'b) act \<Rightarrow> ('s, 'b) act" where
  "seq_act m k = bind_act m (\<lambda>_. k)"

definition lift_res :: "'a res \<Rightarrow> ('s, 'a) act" where
  "lift_res r s = (r, s)"

definition when_act :: "bool \<Rightarrow> ('s, unit) act \<Rightarrow> ('s, unit) act" where
  "when_act b m = (if b then m else ret ())"

definition hangs :: "'a res \<Rightarrow> bool" where
  "hangs r = (case r of Inl e \<Rightarrow> e = Hangs | Inr x \<Rightarrow> False)"

lemma hangs_simps [simp]: "hangs (Inl e) \<longleftrightarrow> e = Hangs" "\<not> hangs (Inr x)"
  by (simp_all add: hangs_def)

text \<open>An operation that also changes an object it holds runs on the pair of the world and the object.\<close>

definition on_world :: "('w, 'a) act \<Rightarrow> ('w \<times> 'b, 'a) act" where
  "on_world m s = (case m (fst s) of (r, w) \<Rightarrow> (r, (w, snd s)))"

definition on_object :: "('b, 'a) act \<Rightarrow> ('w \<times> 'b, 'a) act" where
  "on_object m s = (case m (snd s) of (r, b) \<Rightarrow> (r, (fst s, b)))"

definition with_object :: "'b \<Rightarrow> ('w \<times> 'b, 'a) act \<Rightarrow> ('w, 'a) act" where
  "with_object b m w = (case m (w, b) of (r, (w', b')) \<Rightarrow> (r, w'))"

text \<open>The object may be a part of the world, that other operations reach too: a field with its update.\<close>

definition on_field :: "('w \<Rightarrow> 'b) \<Rightarrow> ('b \<Rightarrow> 'w \<Rightarrow> 'w) \<Rightarrow> ('w \<times> 'b, 'a) act \<Rightarrow> ('w, 'a) act" where
  "on_field field put m w = (case m (w, field w) of (r, (w', b)) \<Rightarrow> (r, put b w'))"

definition get_object :: "('b \<Rightarrow> 'a) \<Rightarrow> ('w \<times> 'b, 'a) act" where
  "get_object f s = (Inr (f (snd s)), s)"

definition set_object :: "('b \<Rightarrow> 'b) \<Rightarrow> ('w \<times> 'b, unit) act" where
  "set_object f s = (Inr (), (fst s, f (snd s)))"

text \<open>\<open>retry_act C n m\<close>: at most \<open>n\<close> further attempts after an exception in \<open>C\<close>; the last one is raised.\<close>

fun retry_act :: "(exn \<Rightarrow> bool) \<Rightarrow> nat \<Rightarrow> ('s, 'a) act \<Rightarrow> ('s, 'a) act" where
  "retry_act C 0 m = m"
| "retry_act C (Suc n) m =
     (\<lambda>s. case m s of
        (Inl e, s') \<Rightarrow> if C e \<and> e \<noteq> Hangs then retry_act C n m s' else (Inl e, s')
      | (Inr x, s') \<Rightarrow> (Inr x, s'))"

text \<open>\<open>try: m except C as e: h e\<close>, with \<open>C\<close> the predicate of the caught exceptions.\<close>

definition try_act :: "('s, 'a) act \<Rightarrow> (exn \<Rightarrow> bool) \<Rightarrow> (exn \<Rightarrow> ('s, 'a) act) \<Rightarrow> ('s, 'a) act" where
  "try_act m C h s =
     (case m s of (Inl e, s') \<Rightarrow> (if C e \<and> e \<noteq> Hangs then h e s' else (Inl e, s'))
      | (Inr x, s') \<Rightarrow> (Inr x, s'))"

text \<open>\<open>try: m finally: f\<close>: an exception of \<open>f\<close> replaces the outcome of \<open>m\<close>.\<close>

definition finally_act :: "('s, 'a) act \<Rightarrow> ('s, 'b) act \<Rightarrow> ('s, 'a) act" where
  "finally_act m f s =
     (case m s of (r, s1) \<Rightarrow>
        if hangs r then (r, s1)
        else (case f s1 of (Inl e, s2) \<Rightarrow> (Inl e, s2) | (Inr _, s2) \<Rightarrow> (r, s2)))"

text \<open>A \<open>for\<close> loop that threads the local variables \<open>c\<close>.\<close>

fun for_act :: "'a list \<Rightarrow> ('a \<Rightarrow> 'c \<Rightarrow> ('s, 'c) act) \<Rightarrow> 'c \<Rightarrow> ('s, 'c) act" where
  "for_act [] f c = ret c"
| "for_act (x # xs) f c = bind_act (f x c) (for_act xs f)"

text \<open>A stage or comprehension that runs an operation on every element and collects the results.\<close>

fun map_act :: "('a \<Rightarrow> ('s, 'b) act) \<Rightarrow> 'a list \<Rightarrow> ('s, 'b list) act" where
  "map_act f [] = ret []"
| "map_act f (x # xs) = bind_act (f x) (\<lambda>y. bind_act (map_act f xs) (\<lambda>ys. ret (y # ys)))"

lemma act_simps [simp]:
  "ret x s = (Inr x, s)" "raise e s = (Inl e, s)" "lift_res r s = (r, s)"
  by (simp_all add: ret_def raise_def lift_res_def)

lemma bind_act_Inr: "m s = (Inr x, s') \<Longrightarrow> bind_act m f s = f x s'"
  by (simp add: bind_act_def)

lemma bind_act_Inl: "m s = (Inl e, s') \<Longrightarrow> bind_act m f s = (Inl e, s')"
  by (simp add: bind_act_def)

lemma bind_act_ret [simp]: "bind_act (ret x) f = f x"
  by (rule ext) (simp add: bind_act_def)

lemma bind_act_raise [simp]: "bind_act (raise e) f = raise e"
  by (rule ext) (simp add: bind_act_def)

lemma bind_act_lift_Inr [simp]: "bind_act (lift_res (Inr x)) f = f x"
  by (rule ext) (simp add: bind_act_def)

lemma bind_act_lift_Inl [simp]: "bind_act (lift_res (Inl e)) f = raise e"
  by (rule ext) (simp add: bind_act_def)

lemma bind_act_result:
  "bind_act m f s = (Inr y, t) \<longleftrightarrow> (\<exists>x s'. m s = (Inr x, s') \<and> f x s' = (Inr y, t))"
  by (auto simp: bind_act_def split: prod.splits sum.splits)

lemma map_act_Cons_result:
  "map_act f (x # xs) s = (Inr zs, t) \<longleftrightarrow>
     (\<exists>y s' ys. f x s = (Inr y, s') \<and> map_act f xs s' = (Inr ys, t) \<and> zs = y # ys)"
  unfolding map_act.simps bind_act_result by auto

lemma map_act_results:
  assumes "map_act f xs s = (Inr ys, t)"
    and "\<And>x s y s'. x \<in> set xs \<Longrightarrow> f x s = (Inr y, s') \<Longrightarrow> R x y"
  shows "list_all2 R xs ys"
  using assms
proof (induction xs arbitrary: s ys)
  case (Cons x xs)
  from Cons.prems(1) obtain y s' zs where "f x s = (Inr y, s')" "map_act f xs s' = (Inr zs, t)" "ys = y # zs"
    unfolding map_act_Cons_result by blast
  with Cons.IH [of s' zs] Cons.prems(2) show ?case by simp
qed simp

lemma lift_res_result [simp]: "lift_res r s = (q, t) \<longleftrightarrow> q = r \<and> t = s"
  by auto

subsection \<open>What an operation preserves\<close>

named_theorems keeps_rules \<open>preservation rules for operations with effects\<close>

definition keeps :: "('s \<Rightarrow> bool) \<Rightarrow> ('s, 'a) act \<Rightarrow> bool" where
  "keeps P m \<longleftrightarrow> (\<forall>s. P s \<longrightarrow> P (snd (m s)))"

lemma keepsI: "(\<And>s. P s \<Longrightarrow> P (snd (m s))) \<Longrightarrow> keeps P m"
  by (simp add: keeps_def)

lemma keepsD: "keeps P m \<Longrightarrow> P s \<Longrightarrow> P (snd (m s))"
  by (simp add: keeps_def)

lemma keeps_ret [keeps_rules]: "keeps P (ret x)"
  by (simp add: keeps_def)

lemma keeps_raise [keeps_rules]: "keeps P (raise e)"
  by (simp add: keeps_def)

lemma keeps_lift [keeps_rules]: "keeps P (lift_res r)"
  by (simp add: keeps_def)

lemma keeps_bind [keeps_rules]:
  "keeps P m \<Longrightarrow> (\<And>x. keeps P (f x)) \<Longrightarrow> keeps P (bind_act m f)"
  by (auto simp: keeps_def bind_act_def split: prod.splits sum.splits)

lemma keeps_seq [keeps_rules]: "keeps P m \<Longrightarrow> keeps P k \<Longrightarrow> keeps P (seq_act m k)"
  unfolding seq_act_def by (rule keeps_bind)

lemma keeps_when [keeps_rules]: "(b \<Longrightarrow> keeps P m) \<Longrightarrow> keeps P (when_act b m)"
  by (simp add: when_act_def keeps_ret)

lemma keeps_try [keeps_rules]:
  "keeps P m \<Longrightarrow> (\<And>e. keeps P (h e)) \<Longrightarrow> keeps P (try_act m C h)"
  by (auto simp: keeps_def try_act_def split: prod.splits sum.splits)

lemma keeps_finally [keeps_rules]:
  "keeps P m \<Longrightarrow> keeps P f \<Longrightarrow> keeps P (finally_act m f)"
  by (auto simp: keeps_def finally_act_def split: prod.splits sum.splits)

lemma keeps_for [keeps_rules]:
  "(\<And>x c. x \<in> set xs \<Longrightarrow> keeps P (f x c)) \<Longrightarrow> keeps P (for_act xs f c)"
proof (induction xs arbitrary: c)
  case (Cons x xs)
  then show ?case by (auto intro!: keeps_bind)
qed (simp add: keeps_ret)

lemma keeps_map_act [keeps_rules]:
  "(\<And>x. x \<in> set xs \<Longrightarrow> keeps P (f x)) \<Longrightarrow> keeps P (map_act f xs)"
proof (induction xs)
  case (Cons x xs)
  have "keeps P (map_act f xs)" by (rule Cons.IH) (simp add: Cons.prems)
  then show ?case unfolding map_act.simps by (intro keeps_bind keeps_ret Cons.prems) simp
qed (simp add: keeps_ret)

lemma keeps_retry [keeps_rules]: "keeps P m \<Longrightarrow> keeps P (retry_act C n m)"
  by (induction n) (auto simp: keeps_def split: prod.splits sum.splits)

lemma retry_act_result:
  assumes "retry_act C n m s = (r, s')" "P s" "keeps P m"
  shows "\<exists>s1. m s1 = (r, s') \<and> P s1"
  using assms
proof (induction n arbitrary: s)
  case (Suc n)
  show ?case
  proof (cases "m s")
    case (Pair q s1)
    have "P s1" using keepsD [OF Suc.prems(3,2)] Pair by simp
    then show ?thesis
      using Suc.IH [of s1] Suc.prems Pair by (auto split: sum.splits if_splits)
  qed
qed auto

text \<open>What the failed attempts keep holds when the successful one starts.\<close>

lemma retry_act_Inr:
  assumes "retry_act C n m s = (Inr x, s')" "P s"
    and "\<And>s e s'. P s \<Longrightarrow> m s = (Inl e, s') \<Longrightarrow> P s'"
  shows "\<exists>s1. P s1 \<and> m s1 = (Inr x, s')"
  using assms(1,2)
proof (induction n arbitrary: s)
  case (Suc n)
  show ?case
  proof (cases "m s")
    case (Pair q s1)
    then show ?thesis
      using Suc.IH [of s1] Suc.prems assms(3) [of s _ s1] by (auto split: sum.splits if_splits)
  qed
qed auto

lemma on_world_result:
  "on_world m s = (r, s') \<longleftrightarrow> m (fst s) = (r, fst s') \<and> snd s' = snd s"
  by (cases s') (auto simp: on_world_def split: prod.splits)

lemma snd_on_world: "snd (on_world m s) = (snd (m (fst s)), snd s)"
  by (simp add: on_world_def split: prod.splits)

lemma with_object_result:
  "with_object b m w = (r, w') \<longleftrightarrow> (\<exists>b'. m (w, b) = (r, (w', b')))"
  by (auto simp: with_object_def split: prod.splits)

lemma on_world_keeps:
  "keeps P m \<Longrightarrow> keeps (\<lambda>s. P (fst s) \<and> Q (snd s)) (on_world m)"
  by (auto simp: keeps_def on_world_def split: prod.splits)

lemma on_world_keeps_fst [keeps_rules]: "keeps P m \<Longrightarrow> keeps (\<lambda>s. P (fst s)) (on_world m)"
  by (auto simp: keeps_def on_world_def split: prod.splits)

lemma on_object_keeps_fst [keeps_rules]: "keeps (\<lambda>s. P (fst s)) (on_object m)"
  by (auto simp: keeps_def on_object_def split: prod.splits)

lemma with_object_keeps [keeps_rules]: "keeps (\<lambda>s. P (fst s)) m \<Longrightarrow> keeps P (with_object b m)"
proof (rule keepsI)
  fix w assume "keeps (\<lambda>s. P (fst s)) m" "P w"
  from keepsD [OF this(1), of "(w, b)"] this(2) show "P (snd (with_object b m w))"
    by (auto simp: with_object_def split: prod.splits)
qed

lemma keeps_if [keeps_rules]:
  "(b \<Longrightarrow> keeps P m) \<Longrightarrow> (\<not> b \<Longrightarrow> keeps P k) \<Longrightarrow> keeps P (if b then m else k)"
  by simp

text \<open>The same for one starting state.\<close>

lemma bind_act_snd:
  "P (snd (m s)) \<Longrightarrow> (\<And>x s'. m s = (Inr x, s') \<Longrightarrow> P (snd (f x s'))) \<Longrightarrow> P (snd (bind_act m f s))"
  by (auto simp: bind_act_def split: prod.splits sum.splits)

lemma try_act_snd:
  "P (snd (m s)) \<Longrightarrow> (\<And>e. keeps P (h e)) \<Longrightarrow> P (snd (try_act m C h s))"
  by (auto simp: keeps_def try_act_def split: prod.splits sum.splits)

lemma finally_act_snd:
  "P (snd (m s)) \<Longrightarrow> keeps P f \<Longrightarrow> P (snd (finally_act m f s))"
  by (auto simp: keeps_def finally_act_def split: prod.splits sum.splits)

text \<open>A loop: what every iteration establishes of the threaded variables holds of the result.\<close>

lemma for_act_result:
  assumes "for_act xs f c s = (Inr c', s')" "Q c"
    and "\<And>x c s c' s'. x \<in> set xs \<Longrightarrow> Q c \<Longrightarrow> f x c s = (Inr c', s') \<Longrightarrow> Q c'"
  shows "Q c'"
  using assms
proof (induction xs arbitrary: c s)
  case (Cons x xs)
  from Cons.prems(1) obtain c1 s1 where 1: "f x c s = (Inr c1, s1)"
    and 2: "for_act xs f c1 s1 = (Inr c', s')"
    by (auto simp: bind_act_result)
  have "Q c1" by (rule Cons.prems(3) [OF _ Cons.prems(2) 1]) simp
  show ?case by (rule Cons.IH [OF 2 \<open>Q c1\<close>]) (rule Cons.prems(3), simp_all)
qed simp

lemma for_act_keeps_inv:
  assumes "P s" "Q c"
    and "\<And>x c s. x \<in> set xs \<Longrightarrow> P s \<Longrightarrow> Q c \<Longrightarrow> P (snd (f x c s))"
    and "\<And>x c s c' s'. x \<in> set xs \<Longrightarrow> P s \<Longrightarrow> Q c \<Longrightarrow> f x c s = (Inr c', s') \<Longrightarrow> Q c'"
  shows "P (snd (for_act xs f c s))"
  using assms
proof (induction xs arbitrary: c s)
  case (Cons x xs)
  show ?case
  proof (cases "f x c s")
    case (Pair r s1)
    have P1: "P s1" using Cons.prems(3) [OF _ Cons.prems(1,2), of x] Pair by simp
    show ?thesis
    proof (cases r)
      case (Inl e)
      with Pair P1 show ?thesis by (simp add: bind_act_def)
    next
      case (Inr c1)
      have "Q c1" by (rule Cons.prems(4) [OF _ Cons.prems(1,2), of x c1 s1]) (simp_all add: Pair Inr)
      have "P (snd (for_act xs f c1 s1))"
        by (rule Cons.IH [OF P1 \<open>Q c1\<close>]) (rule Cons.prems(3,4); simp)+
      with Pair Inr show ?thesis by (simp add: bind_act_def)
    qed
  qed
next
  case Nil
  show ?case using Nil.prems(1) by simp
qed

text \<open>A sequence whose second operation depends on what the first returned.\<close>

lemma keeps_bind_result:
  assumes "keeps P m" "\<And>x s s'. P s \<Longrightarrow> m s = (Inr x, s') \<Longrightarrow> P s' \<Longrightarrow> P (snd (f x s'))"
  shows "keeps P (bind_act m f)"
proof (rule keepsI)
  fix s assume "P s"
  with assms(1) have "P (snd (m s))" by (rule keepsD)
  with assms(2) \<open>P s\<close> show "P (snd (bind_act m f s))"
    by (auto simp: bind_act_def split: prod.splits sum.splits)
qed

subsection \<open>Pure operations: the world is only read\<close>

definition reads :: "('s, 'a) act \<Rightarrow> bool" where
  "reads m \<longleftrightarrow> (\<forall>s. snd (m s) = s)"

lemma readsD: "reads m \<Longrightarrow> m s = (r, s') \<Longrightarrow> s' = s"
  by (metis reads_def snd_conv)

lemma reads_keeps: "reads m \<Longrightarrow> keeps P m"
  by (simp add: reads_def keeps_def)

lemma reads_basic [simp]: "reads (ret x)" "reads (raise e)" "reads (lift_res r)"
  by (simp_all add: reads_def)

lemma reads_bind: "reads m \<Longrightarrow> (\<And>x. reads (f x)) \<Longrightarrow> reads (bind_act m f)"
  by (auto simp: reads_def bind_act_def split: prod.splits sum.splits) (metis snd_conv)+

end
