(* ===== verification/PyStr.thy ===== *)
theory PyStr
  imports Prelude
begin

text \<open>
  The string functions of the Python standard library that the modelled code calls, and the
  two percent-encodings of the code base. A Python string is the list of the bytes of its UTF-8
  encoding; for every function here that is the same as working on code points, because the
  characters the functions look for (\<open>/\<close>, \<open>.\<close>, \<open>_\<close>, digits, letters) are ASCII, and because the
  two encoders encode the UTF-8 bytes.

  \<^item> \<open>split_on\<close>, \<open>split_max\<close>: \<open>s.split(c)\<close> and \<open>s.split(c, n)\<close>; \<open>join_str\<close>: \<open>sep.join(xs)\<close>;
  \<^item> \<open>path_join\<close>, \<open>base_name\<close>, \<open>dir_name\<close>: \<open>os.path.join\<close>, \<open>basename\<close>, \<open>dirname\<close> (POSIX);
  \<^item> \<open>py_int\<close>: \<open>int(s)\<close> for ASCII strings, with its optional sign, surrounding white space and
    single underscores between digits;
  \<^item> \<open>escape_metadata_file_name\<close> (util.py) and \<open>quote_name\<close> (layout.py).
\<close>

section \<open>Searching and splitting\<close>

fun contains :: "string \<Rightarrow> string \<Rightarrow> bool" where
  "contains sub [] = (sub = [])"
| "contains sub (x # xs) = (prefix sub (x # xs) \<or> contains sub xs)"

lemma contains_iff_sublist: "contains sub s \<longleftrightarrow> sublist sub s"
  by (induction s) (auto simp: sublist_Cons_right)

fun split_on :: "char \<Rightarrow> string \<Rightarrow> string list" where
  "split_on c [] = [[]]"
| "split_on c (x # xs) =
     (if x = c then [] # split_on c xs
      else (case split_on c xs of [] \<Rightarrow> [[x]] | w # ws \<Rightarrow> (x # w) # ws))"

fun split_max :: "char \<Rightarrow> nat \<Rightarrow> string \<Rightarrow> string list" where
  "split_max c 0 s = [s]"
| "split_max c (Suc n) [] = [[]]"
| "split_max c (Suc n) (x # xs) =
     (if x = c then [] # split_max c n xs
      else (case split_max c (Suc n) xs of [] \<Rightarrow> [[x]] | w # ws \<Rightarrow> (x # w) # ws))"

fun join_str :: "string \<Rightarrow> string list \<Rightarrow> string" where
  "join_str sep [] = []"
| "join_str sep [w] = w"
| "join_str sep (w # ws) = w @ sep @ join_str sep ws"

definition rstrip_chr :: "char \<Rightarrow> string \<Rightarrow> string" where
  "rstrip_chr c s = rev (dropWhile (\<lambda>x. x = c) (rev s))"

definition lstrip_chr :: "char \<Rightarrow> string \<Rightarrow> string" where
  "lstrip_chr c s = dropWhile (\<lambda>x. x = c) s"

lemma split_on_nonempty [simp]: "split_on c s \<noteq> []"
  by (induction s) (auto split: list.splits)

lemma split_max_nonempty [simp]: "split_max c n s \<noteq> []"
  by (induction c n s rule: split_max.induct) (auto split: list.splits)

lemma join_str_Cons: "ws \<noteq> [] \<Longrightarrow> join_str sep (w # ws) = w @ sep @ join_str sep ws"
  by (cases ws) simp_all

lemma join_split_on: "join_str [c] (split_on c s) = s"
proof (induction s)
  case (Cons x xs)
  show ?case
  proof (cases "split_on c xs")
    case (Cons w ws)
    with Cons.IH show ?thesis by (cases ws) simp_all
  qed simp
qed simp

lemma split_on_no_sep: "c \<notin> set s \<Longrightarrow> split_on c s = [s]"
  by (induction s) auto

lemma split_on_append:
  "c \<notin> set s \<Longrightarrow> split_on c (s @ c # t) = s # split_on c t"
  by (induction s) auto

lemma split_max_append:
  "c \<notin> set s \<Longrightarrow> split_max c (Suc n) (s @ c # t) = s # split_max c n t"
  by (induction s) auto

lemma split_max_no_sep: "c \<notin> set s \<Longrightarrow> split_max c n s = [s]"
proof (induction s)
  case Nil
  then show ?case by (cases n) simp_all
next
  case (Cons x xs)
  then show ?case by (cases n) auto
qed

lemma length_split_max: "length (split_max c n s) \<le> Suc n"
  by (induction c n s rule: split_max.induct) (auto split: list.splits)

section \<open>POSIX paths\<close>

definition path_join :: "string \<Rightarrow> string \<Rightarrow> string" where
  "path_join a b =
     (if b \<noteq> [] \<and> hd b = CHR ''/'' then b
      else if a = [] \<or> last a = CHR ''/'' then a @ b
      else a @ ''/'' @ b)"

definition path_joins :: "string \<Rightarrow> string list \<Rightarrow> string" where
  "path_joins a bs = foldl path_join a bs"

definition base_name :: "string \<Rightarrow> string" where
  "base_name p = rev (takeWhile (\<lambda>x. x \<noteq> CHR ''/'') (rev p))"

definition dir_name :: "string \<Rightarrow> string" where
  "dir_name p =
     (let head = rev (dropWhile (\<lambda>x. x \<noteq> CHR ''/'') (rev p))
      in if head \<noteq> [] \<and> \<not> list_all (\<lambda>x. x = CHR ''/'') head then rstrip_chr CHR ''/'' head
         else head)"

abbreviation plain_component :: "string \<Rightarrow> bool" where
  "plain_component s \<equiv> s \<noteq> [] \<and> CHR ''/'' \<notin> set s"

abbreviation plain_dir :: "string \<Rightarrow> bool" where
  "plain_dir s \<equiv> s \<noteq> [] \<and> last s \<noteq> CHR ''/''"

lemma path_join_plain:
  "plain_dir a \<Longrightarrow> b = [] \<or> hd b \<noteq> CHR ''/'' \<Longrightarrow> path_join a b = a @ ''/'' @ b"
  by (auto simp: path_join_def)

lemma plain_component_hd: "CHR ''/'' \<notin> set s \<Longrightarrow> s = [] \<or> hd s \<noteq> CHR ''/''"
  by (cases s) auto

lemma path_join_component:
  "plain_dir a \<Longrightarrow> CHR ''/'' \<notin> set b \<Longrightarrow> path_join a b = a @ ''/'' @ b"
  by (rule path_join_plain) (simp_all add: plain_component_hd)

lemma plain_dir_path_join:
  "plain_dir a \<Longrightarrow> plain_component b \<Longrightarrow> plain_dir (path_join a b)"
  by (simp add: path_join_component) (metis last_in_set)

lemma base_name_no_slash: "CHR ''/'' \<notin> set s \<Longrightarrow> base_name s = s"
proof -
  assume "CHR ''/'' \<notin> set s"
  then have "takeWhile (\<lambda>x. x \<noteq> CHR ''/'') (rev s) = rev s"
    by (auto simp: takeWhile_eq_all_conv)
  then show ?thesis by (simp only: base_name_def rev_rev_ident)
qed

lemma base_name_append: "CHR ''/'' \<notin> set s \<Longrightarrow> base_name (d @ CHR ''/'' # s) = s"
proof -
  assume "CHR ''/'' \<notin> set s"
  then have "takeWhile (\<lambda>x. x \<noteq> CHR ''/'') (rev s @ CHR ''/'' # rev d) = rev s"
    by (subst takeWhile_append2) auto
  then show ?thesis by (simp add: base_name_def)
qed

lemma base_name_path_join: "CHR ''/'' \<notin> set b \<Longrightarrow> plain_dir a \<Longrightarrow> base_name (path_join a b) = b"
  by (simp add: path_join_component base_name_append)

lemma rstrip_chr_id: "s = [] \<or> last s \<noteq> c \<Longrightarrow> rstrip_chr c s = s"
  by (cases s rule: rev_cases) (auto simp: rstrip_chr_def)

section \<open>Numbers in strings\<close>

definition is_digit :: "char \<Rightarrow> bool" where
  "is_digit c \<longleftrightarrow> (48::nat) \<le> of_char c \<and> of_char c \<le> (57::nat)"

definition digit_val :: "char \<Rightarrow> int" where
  "digit_val c = of_char c - 48"

text \<open>The digits of \<open>int(s)\<close>: the flag says whether the previous character was a digit, which is
  what allows an underscore or the end of the string.\<close>

fun int_digits :: "bool \<Rightarrow> int \<Rightarrow> string \<Rightarrow> int option" where
  "int_digits b acc [] = (if b then Some acc else None)"
| "int_digits b acc (c # cs) =
     (if is_digit c then int_digits True (acc * 10 + digit_val c) cs
      else if c = CHR ''_'' \<and> b then int_digits False acc cs
      else None)"

definition is_space :: "char \<Rightarrow> bool" where
  "is_space c \<longleftrightarrow> (let n = (of_char c :: nat) in n = 32 \<or> (9 \<le> n \<and> n \<le> 13) \<or> (28 \<le> n \<and> n \<le> 31))"

definition strip :: "string \<Rightarrow> string" where
  "strip s = rev (dropWhile is_space (rev (dropWhile is_space s)))"

definition py_int :: "string \<Rightarrow> int res" where
  "py_int s =
     (case (case strip s of
              [] \<Rightarrow> None
            | c # cs \<Rightarrow> (if c = CHR ''-'' then map_option uminus (int_digits False 0 cs)
                        else if c = CHR ''+'' then int_digits False 0 cs
                        else int_digits False 0 (c # cs))) of
        None \<Rightarrow> Inl ValueError | Some n \<Rightarrow> Inr n)"

section \<open>Percent encodings\<close>

definition is_alnum :: "char \<Rightarrow> bool" where
  "is_alnum c \<longleftrightarrow> (let n = (of_char c :: nat) in
     (48 \<le> n \<and> n \<le> 57) \<or> (65 \<le> n \<and> n \<le> 90) \<or> (97 \<le> n \<and> n \<le> 122))"

text \<open>\<open>_HEX_UPPERCASE_TABLE\<close>\<close>

definition hex_upper :: "nat \<Rightarrow> char" where
  "hex_upper n = ''0123456789ABCDEF'' ! n"

definition pct_byte :: "char \<Rightarrow> string" where
  "pct_byte c = [CHR ''%'', hex_upper (of_char c div 16), hex_upper (of_char c mod 16)]"

definition pct_encode :: "(char \<Rightarrow> bool) \<Rightarrow> string \<Rightarrow> string" where
  "pct_encode keep s = concat (map (\<lambda>c. if keep c then [c] else pct_byte c) s)"

definition escape_metadata_file_name :: "string \<Rightarrow> string" where
  "escape_metadata_file_name name = pct_encode (\<lambda>c. is_alnum c \<or> c = CHR ''_'') name"

text \<open>\<open>urllib.parse.quote(value, safe="")\<close>: letters, digits and \<open>_.-~\<close> stay.\<close>

definition url_quote :: "string \<Rightarrow> string" where
  "url_quote value =
     pct_encode (\<lambda>c. is_alnum c \<or> c = CHR ''_'' \<or> c = CHR ''.'' \<or> c = CHR ''-'' \<or> c = CHR ''~'') value"

text \<open>\<open>_quote\<close> of layout.py: \<open>quote(value, safe="").translate({".": "%2E", "-": "%2D"})\<close>.\<close>

definition quote_name :: "string \<Rightarrow> string" where
  "quote_name value =
     concat (map (\<lambda>c. if c = CHR ''.'' then ''%2E'' else if c = CHR ''-'' then ''%2D'' else [c])
                 (url_quote value))"

definition hex_val :: "char \<Rightarrow> nat" where
  "hex_val c = (if is_digit c then of_char c - 48 else of_char c - 55)"

fun pct_decode :: "string \<Rightarrow> string" where
  "pct_decode (c # a # b # rest) =
     (if c = CHR ''%'' then char_of (hex_val a * 16 + hex_val b) # pct_decode rest
      else c # pct_decode (a # b # rest))"
| "pct_decode (c # rest) = c # pct_decode rest"
| "pct_decode [] = []"

lemma hex_upper_cases: "n < 16 \<Longrightarrow> hex_val (hex_upper n) = n \<and> hex_upper n \<noteq> CHR ''/''"
proof -
  have "list_all (\<lambda>n. hex_val (hex_upper n) = n \<and> hex_upper n \<noteq> CHR ''/'') [0..<16]"
    by code_simp
  then show "n < 16 \<Longrightarrow> hex_val (hex_upper n) = n \<and> hex_upper n \<noteq> CHR ''/''"
    by (auto simp: list_all_iff)
qed

lemma of_char_bounds: "(of_char c :: nat) div 16 < 16" "(of_char c :: nat) mod 16 < 16"
  using nat_of_char_less_256 [of c] by (simp_all add: less_mult_imp_div_less)

lemma pct_decode_byte: "pct_decode (pct_byte c @ rest) = c # pct_decode rest"
proof -
  have "hex_val (hex_upper (of_char c div 16)) * 16 + hex_val (hex_upper (of_char c mod 16))
      = (of_char c :: nat)"
    using hex_upper_cases of_char_bounds by simp
  then show ?thesis by (simp add: pct_byte_def)
qed

lemma pct_decode_keep: "c \<noteq> CHR ''%'' \<Longrightarrow> pct_decode (c # rest) = c # pct_decode rest"
proof (cases rest)
  case (Cons a as)
  then show "c \<noteq> CHR ''%'' \<Longrightarrow> ?thesis" by (cases as) simp_all
qed simp

lemma pct_encode_simps [simp]:
  "pct_encode keep [] = []"
  "pct_encode keep (c # s) = (if keep c then [c] else pct_byte c) @ pct_encode keep s"
  by (simp_all add: pct_encode_def)

lemma pct_encode_append: "pct_encode keep (s @ t) = pct_encode keep s @ pct_encode keep t"
  by (simp add: pct_encode_def)

lemma pct_decode_encode: "\<not> keep CHR ''%'' \<Longrightarrow> pct_decode (pct_encode keep s) = s"
proof (induction s)
  case (Cons c s)
  then show ?case by (cases "c = CHR ''%''") (simp_all add: pct_decode_byte pct_decode_keep)
qed simp

lemma pct_encode_no_slash: "\<not> keep CHR ''/'' \<Longrightarrow> CHR ''/'' \<notin> set (pct_encode keep s)"
proof (induction s)
  case (Cons c s)
  have "CHR ''/'' \<noteq> hex_upper n" if "n < 16" for n
    using hex_upper_cases [OF that] by metis
  then have "CHR ''/'' \<notin> set (pct_byte c)"
    using of_char_bounds by (simp add: pct_byte_def)
  with Cons show ?case by auto
qed simp

lemma pct_encode_empty [simp]: "pct_encode keep s = [] \<longleftrightarrow> s = []"
  by (cases s) (simp_all add: pct_byte_def)

lemma not_alnum [simp]: "\<not> is_alnum CHR ''%''" "\<not> is_alnum CHR ''/''" "\<not> is_alnum CHR ''.''"
  "\<not> is_alnum CHR ''-''"
  by (simp_all add: is_alnum_def)

lemma hex_upper_plain: "n < 16 \<Longrightarrow> hex_upper n \<noteq> CHR ''.'' \<and> hex_upper n \<noteq> CHR ''-''"
proof -
  have "list_all (\<lambda>n. hex_upper n \<noteq> CHR ''.'' \<and> hex_upper n \<noteq> CHR ''-'') [0..<16]"
    by code_simp
  then show "n < 16 \<Longrightarrow> hex_upper n \<noteq> CHR ''.'' \<and> hex_upper n \<noteq> CHR ''-''"
    by (auto simp: list_all_iff)
qed

text \<open>The two passes of \<open>_quote\<close> are one percent-encoding that keeps letters, digits, \<open>_\<close> and \<open>~\<close>.\<close>

lemma quote_name_encode:
  "quote_name s = pct_encode (\<lambda>c. is_alnum c \<or> c = CHR ''_'' \<or> c = CHR ''~'') s"
proof (induction s)
  case (Cons c s)
  have dot: "pct_byte CHR ''.'' = ''%2E''" and dash: "pct_byte CHR ''-'' = ''%2D''"
    by code_simp+
  have "concat (map (\<lambda>c. if c = CHR ''.'' then ''%2E'' else if c = CHR ''-'' then ''%2D'' else [c])
          (pct_byte c)) = pct_byte c"
    using hex_upper_plain of_char_bounds by (simp add: pct_byte_def)
  with Cons show ?case
    by (auto simp: quote_name_def url_quote_def dot dash)
qed (simp add: quote_name_def url_quote_def)

lemma quote_name_inj [simp]: "quote_name s = quote_name t \<longleftrightarrow> s = t"
proof
  assume "quote_name s = quote_name t"
  then have "pct_decode (quote_name s) = pct_decode (quote_name t)" by simp
  then show "s = t" by (simp add: quote_name_encode pct_decode_encode)
qed simp

lemma quote_name_no_slash [simp]: "CHR ''/'' \<notin> set (quote_name s)"
  unfolding quote_name_encode by (rule pct_encode_no_slash) simp

lemma quote_name_empty [simp]: "quote_name s = [] \<longleftrightarrow> s = []"
  by (simp add: quote_name_encode)

lemma escape_metadata_decode: "pct_decode (escape_metadata_file_name s) = s"
  unfolding escape_metadata_file_name_def by (rule pct_decode_encode) simp

end
