(* ===== verification/Models.thy ===== *)
theory Models
  imports PyStr
begin

text \<open>
  The ClickHouse resource models of \<^verbatim>\<open>ch_backup/clickhouse/models.py\<close>: disks, tables, databases
  and frozen parts as records, with their predicates on engine names. A field that may be
  \<open>None\<close> in the code is an option.
\<close>

section \<open>Paths\<close>

text \<open>\<open>os.path.normpath\<close> and \<open>os.path.relpath\<close> for absolute paths, on path components; the
  accumulator is the list of the components kept so far, last one first.\<close>

fun norm_components :: "string list \<Rightarrow> string list \<Rightarrow> string list" where
  "norm_components acc [] = rev acc"
| "norm_components acc (c # cs) =
     (if c = [] \<or> c = ''.'' then norm_components acc cs
      else if c = ''..'' then norm_components (tl acc) cs
      else norm_components (c # acc) cs)"

definition abs_components :: "string \<Rightarrow> string list" where
  "abs_components p = norm_components [] (split_on CHR ''/'' p)"

fun common_prefix_length :: "string list \<Rightarrow> string list \<Rightarrow> nat" where
  "common_prefix_length (x # xs) (y # ys) =
     (if x = y then Suc (common_prefix_length xs ys) else 0)"
| "common_prefix_length _ _ = 0"

definition rel_path :: "string \<Rightarrow> string \<Rightarrow> string" where
  "rel_path path start =
     (let sl = abs_components start; pl = abs_components path; i = common_prefix_length sl pl;
          rel = replicate (length sl - i) ''..'' @ drop i pl
      in if rel = [] then ''.'' else join_str ''/'' rel)"

section \<open>Disks\<close>

record disk =
  dk_name :: string
  dk_path :: string
  dk_type :: string
  dk_object_storage_type :: "string option"
  dk_metadata_storage_type :: "string option"
  dk_cache_path :: "string option"

definition lower_char :: "char \<Rightarrow> char" where
  "lower_char c = (let n = (of_char c :: nat) in if 65 \<le> n \<and> n \<le> 90 then char_of (n + 32) else c)"

definition lower :: "string \<Rightarrow> string" where
  "lower s = map lower_char s"

text \<open>The \<open>type\<close> property: an object storage disk reports its object storage type.\<close>

definition disk_type :: "disk \<Rightarrow> string res" where
  "disk_type d =
     (if dk_type d = ''ObjectStorage'' then
        (case dk_object_storage_type d of
           None \<Rightarrow> Inl AssertionError
         | Some t \<Rightarrow> if t = [] then Inl AssertionError else Inr (lower t))
      else Inr (lower (dk_type d)))"

section \<open>Tables\<close>

record table =
  tb_database :: string
  tb_name :: string
  tb_engine :: string
  tb_create_statement :: string
  tb_uuid_raw :: "string option"
  tb_paths_with_disks :: "(string \<times> disk) list"
  tb_metadata_path :: string
  tb_path_on_disk :: "string option"

definition ZERO_UUID :: string where
  "ZERO_UUID = ''00000000-0000-0000-0000-000000000000''"

definition map_path_to_disk :: "disk list \<Rightarrow> string \<Rightarrow> disk res" where
  "map_path_to_disk disks data_path =
     (case filter (\<lambda>d. prefix (dk_path d) data_path) disks of
        [] \<Rightarrow> Inl IndexError
      | d # _ \<Rightarrow> Inr d)"

definition map_paths_to_disks :: "disk list \<Rightarrow> string list \<Rightarrow> (string \<times> disk) list res" where
  "map_paths_to_disks disks data_paths =
     map_res (\<lambda>p. bind_res (map_path_to_disk disks p) (\<lambda>d. Inr (p, d))) data_paths"

definition mk_table ::
  "string \<Rightarrow> string \<Rightarrow> string \<Rightarrow> disk list \<Rightarrow> string list \<Rightarrow> string \<Rightarrow> string \<Rightarrow> string option \<Rightarrow> table res" where
  "mk_table database name engine disks data_paths metadata_path create_statement uuid =
     bind_res (map_paths_to_disks disks data_paths) (\<lambda>pds.
       Inr \<lparr>tb_database = database, tb_name = name, tb_engine = engine,
            tb_create_statement = create_statement, tb_uuid_raw = uuid,
            tb_paths_with_disks = pds, tb_metadata_path = metadata_path,
            tb_path_on_disk =
              (case pds of [] \<Rightarrow> None | (path, d) # _ \<Rightarrow> Some (rel_path path (dk_path d)))\<rparr>)"

definition make_dummy :: "string \<Rightarrow> string \<Rightarrow> string option \<Rightarrow> string \<Rightarrow> table" where
  "make_dummy database name uuid metadata_path =
     \<lparr>tb_database = database, tb_name = name, tb_engine = '''', tb_create_statement = '''',
      tb_uuid_raw = uuid, tb_paths_with_disks = [], tb_metadata_path = metadata_path,
      tb_path_on_disk = None\<rparr>"

definition table_uuid :: "table \<Rightarrow> string option" where
  "table_uuid t = (if tb_uuid_raw t = Some ZERO_UUID then None else tb_uuid_raw t)"

definition engine_is_replicated :: "string \<Rightarrow> bool" where
  "engine_is_replicated engine \<longleftrightarrow> contains ''MergeTree'' engine \<and> contains ''Replicated'' engine"

definition is_replicated :: "table \<Rightarrow> bool" where
  "is_replicated t = engine_is_replicated (tb_engine t)"

definition is_merge_tree :: "table \<Rightarrow> bool" where
  "is_merge_tree t = contains ''MergeTree'' (tb_engine t)"

definition is_view :: "table \<Rightarrow> bool" where
  "is_view t \<longleftrightarrow> tb_engine t \<in> {''View'', ''LiveView'', ''MaterializedView''}"

definition is_distributed :: "table \<Rightarrow> bool" where
  "is_distributed t \<longleftrightarrow> tb_engine t = ''Distributed''"

definition is_materialized_view :: "table \<Rightarrow> bool" where
  "is_materialized_view t \<longleftrightarrow> tb_engine t = ''MaterializedView''"

definition is_external_engine :: "table \<Rightarrow> bool" where
  "is_external_engine t \<longleftrightarrow>
     List.member [''COSN'', ''ExternalDistributed'', ''HDFS'', ''Hive'', ''JDBC'', ''Kafka'',
       ''MeiliSearch'', ''MongoDB'', ''MySQL'', ''ODBC'', ''PostgreSQL'', ''MaterializedPostgreSQL'',
       ''RabbitMQ'', ''S3'', ''URL'', ''AzureBlobStorage'', ''AzureQueue'', ''DeltaLake'', ''Hudi'',
       ''NATS'', ''Redis'', ''SQLite''] (tb_engine t)
     \<or> prefix ''Iceberg'' (tb_engine t)"

definition is_dictionary :: "table \<Rightarrow> bool" where
  "is_dictionary t \<longleftrightarrow> tb_engine t = ''Dictionary''"

text \<open>\<open>Table.__eq__\<close> and \<open>__hash__\<close> compare the database and the name only.\<close>

definition table_key :: "table \<Rightarrow> string \<times> string" where
  "table_key t = (tb_database t, tb_name t)"

section \<open>Databases\<close>

record database =
  db_name :: string
  db_engine :: "string option"
  db_metadata_path :: "string option"
  db_uuid :: "string option"
  db_engine_full :: "string option"

definition is_atomic :: "database \<Rightarrow> bool" where
  "is_atomic db \<longleftrightarrow> db_engine db = Some ''Atomic'' \<or> db_engine db = Some ''Replicated''"

definition is_replicated_db_engine :: "database \<Rightarrow> bool" where
  "is_replicated_db_engine db \<longleftrightarrow> db_engine db = Some ''Replicated''"

definition is_external_db_engine :: "database \<Rightarrow> bool" where
  "is_external_db_engine db \<longleftrightarrow>
     db_engine db \<in> {Some ''MySQL'', Some ''MaterializedMySQL'', Some ''PostgreSQL'',
                     Some ''MaterializedPostgreSQL''}"

definition has_embedded_metadata :: "database \<Rightarrow> bool" where
  "has_embedded_metadata db \<longleftrightarrow>
     db_name db \<in> {''default'', ''system'', ''_temporary_and_external_tables'',
                   ''information_schema'', ''INFORMATION_SCHEMA''}"

section \<open>Frozen parts\<close>

record frozen_part =
  fp_database :: string
  fp_table :: string
  fp_name :: string
  fp_disk_name :: string
  fp_path :: string
  fp_checksum :: string
  fp_size :: int
  fp_files :: "string list"

section \<open>Facts used elsewhere\<close>

lemma is_replicated_merge_tree: "is_replicated t \<Longrightarrow> is_merge_tree t"
  by (simp add: is_replicated_def is_merge_tree_def engine_is_replicated_def)

lemma table_uuid_nonzero: "table_uuid t = Some u \<Longrightarrow> u \<noteq> ZERO_UUID"
  by (auto simp: table_uuid_def split: if_splits)

lemma map_path_to_disk_Inr:
  "map_path_to_disk disks p = Inr d \<Longrightarrow> d \<in> set disks \<and> prefix (dk_path d) p"
  by (auto simp: map_path_to_disk_def split: list.splits dest: filter_eq_ConsD)

section \<open>Workload entities\<close>

datatype entity_type = WORKLOAD | RESOURCE

definition type_value :: "entity_type \<Rightarrow> string" where
  "type_value t = (case t of WORKLOAD \<Rightarrow> ''workload'' | RESOURCE \<Rightarrow> ''resource'')"

end
