(* ===== verification/Parts.thy ===== *)
theory Parts
  imports Models
begin

text \<open>
  Data parts and tables of a backup (\<^verbatim>\<open>backup/metadata/part_metadata.py\<close> and
  \<^verbatim>\<open>table_metadata.py\<close>).

  A backup stores the description of a part as a dictionary; \<open>raw_part\<close> is that dictionary, with
  an option for each key that \<open>PartMetadata.load\<close> reads with \<open>.get\<close> (\<open>None\<close>: the key is absent; for
  the two links a null value is the same).
  \<open>part_metadata\<close> is the in-memory object built from it. \<open>split_part_name\<close> parses ClickHouse part
  names, and \<open>part_info\<close> is ordered as the named tuple is, by which \<open>get_parts\<close> sorts.
\<close>

section \<open>Part metadata\<close>

record raw_metadata =
  rm_checksum :: string
  rm_size :: int
  rm_files :: "string list"
  rm_tarball :: bool
  rm_link :: "string option"
  rm_link_part_name :: "string option"
  rm_disk_name :: "string option"
  rm_encrypted :: bool

record part_metadata =
  pm_database :: string
  pm_table :: string
  pm_name :: string
  pm_raw :: raw_metadata

text \<open>The dictionary of a part inside the backup metadata.\<close>

record raw_part =
  rp_checksum :: string
  rp_bytes :: int
  rp_files :: "string list"
  rp_link :: "string option"
  rp_link_part_name :: "string option"
  rp_tarball :: "bool option"
  rp_disk_name :: "string option"
  rp_encrypted :: "bool option"

text \<open>\<open>x or None\<close> for strings: the empty string is falsy.\<close>

definition non_empty :: "string option \<Rightarrow> string option" where
  "non_empty x = (case x of Some s \<Rightarrow> if s = [] then None else Some s | None \<Rightarrow> None)"

definition normalize_backup_link :: "string option \<Rightarrow> string option" where
  "normalize_backup_link raw_link =
     (case non_empty raw_link of
        None \<Rightarrow> None
      | Some l \<Rightarrow> Some (base_name (rstrip_chr CHR ''/'' l)))"

definition part_load :: "string \<Rightarrow> string \<Rightarrow> string \<Rightarrow> raw_part \<Rightarrow> part_metadata" where
  "part_load db tbl name rp =
     \<lparr>pm_database = db, pm_table = tbl, pm_name = name,
      pm_raw = \<lparr>rm_checksum = rp_checksum rp, rm_size = rp_bytes rp, rm_files = rp_files rp,
                rm_tarball = (case rp_tarball rp of None \<Rightarrow> False | Some b \<Rightarrow> b),
                rm_link = normalize_backup_link (rp_link rp),
                rm_link_part_name = non_empty (rp_link_part_name rp),
                rm_disk_name = (case rp_disk_name rp of None \<Rightarrow> Some ''default'' | Some d \<Rightarrow> Some d),
                rm_encrypted = (case rp_encrypted rp of None \<Rightarrow> True | Some b \<Rightarrow> b)\<rparr>\<rparr>"

definition from_frozen_part :: "frozen_part \<Rightarrow> bool \<Rightarrow> part_metadata" where
  "from_frozen_part fp encrypted =
     \<lparr>pm_database = fp_database fp, pm_table = fp_table fp, pm_name = fp_name fp,
      pm_raw = \<lparr>rm_checksum = fp_checksum fp, rm_size = fp_size fp, rm_files = fp_files fp,
                rm_tarball = True, rm_link = None, rm_link_part_name = None,
                rm_disk_name = Some (fp_disk_name fp), rm_encrypted = encrypted\<rparr>\<rparr>"

abbreviation part_size :: "part_metadata \<Rightarrow> int" where
  "part_size p \<equiv> rm_size (pm_raw p)"

abbreviation part_link :: "part_metadata \<Rightarrow> string option" where
  "part_link p \<equiv> rm_link (pm_raw p)"

text \<open>\<open>if part.link\<close>: the truth value of the link.\<close>

definition has_link :: "part_metadata \<Rightarrow> bool" where
  "has_link p \<longleftrightarrow> non_empty (part_link p) \<noteq> None"

definition deduplicated_part_name :: "part_metadata \<Rightarrow> string" where
  "deduplicated_part_name p =
     (case non_empty (rm_link_part_name (pm_raw p)) of Some n \<Rightarrow> n | None \<Rightarrow> pm_name p)"

definition part_disk_name :: "part_metadata \<Rightarrow> string" where
  "part_disk_name p =
     (case non_empty (rm_disk_name (pm_raw p)) of Some d \<Rightarrow> d | None \<Rightarrow> ''default'')"

section \<open>Part names\<close>

datatype part_info =
  PartInfo (partition_id: string) (min_block_num: int) (max_block_num: int) (level: int)
    (mutation: int)

definition info_key :: "part_info \<Rightarrow> string \<times> int \<times> int \<times> int \<times> int" where
  "info_key i = (partition_id i, min_block_num i, max_block_num i, level i, mutation i)"

lemma info_key_inj: "info_key i = info_key j \<Longrightarrow> i = j"
  by (cases i; cases j) (simp add: info_key_def)

instantiation part_info :: linorder
begin

definition less_eq_part_info :: "part_info \<Rightarrow> part_info \<Rightarrow> bool" where
  "less_eq_part_info i j \<longleftrightarrow> info_key i \<le> info_key j"

definition less_part_info :: "part_info \<Rightarrow> part_info \<Rightarrow> bool" where
  "less_part_info i j \<longleftrightarrow> info_key i < info_key j"

instance
proof
  fix i j k :: part_info
  show "i < j \<longleftrightarrow> i \<le> j \<and> \<not> j \<le> i"
    by (auto simp: less_part_info_def less_eq_part_info_def)
  show "i \<le> i"
    by (simp add: less_eq_part_info_def)
  show "i \<le> j \<Longrightarrow> j \<le> k \<Longrightarrow> i \<le> k"
    unfolding less_eq_part_info_def by (rule order_trans)
  show "i \<le> j \<Longrightarrow> j \<le> i \<Longrightarrow> i = j"
    unfolding less_eq_part_info_def by (intro info_key_inj order_antisym)
  show "i \<le> j \<or> j \<le> i"
    unfolding less_eq_part_info_def by (rule linear)
qed

end

definition split_part_name :: "string \<Rightarrow> part_info res" where
  "split_part_name part =
     (let chunks = split_max CHR ''_'' 4 part in
      if length chunks < 4 then Inl ValueError
      else bind_res (py_int (chunks ! 1)) (\<lambda>min_block.
           bind_res (py_int (chunks ! 2)) (\<lambda>max_block.
           bind_res (py_int (chunks ! 3)) (\<lambda>lvl.
           bind_res (if length chunks = 5 then py_int (chunks ! 4) else Inr 0) (\<lambda>mut.
             Inr (PartInfo (chunks ! 0) min_block max_block lvl mut))))))"

definition is_mutation_renamed :: "string \<Rightarrow> string \<Rightarrow> bool res" where
  "is_mutation_renamed current_name dedup_part_name =
     bind_res (split_part_name current_name) (\<lambda>c.
     bind_res (split_part_name dedup_part_name) (\<lambda>d.
       Inr (partition_id c = partition_id d \<and> min_block_num c = min_block_num d \<and>
            max_block_num c = max_block_num d \<and> level c = level d)))"

section \<open>Table metadata\<close>

text \<open>The dictionary of a table inside the backup metadata.\<close>

record raw_table =
  rt_engine :: string
  rt_uuid :: "string option"
  rt_parts :: "(string, raw_part) dict"

record table_metadata =
  tm_database :: string
  tm_name :: string
  tm_raw :: raw_table

definition new_table_metadata :: "string \<Rightarrow> string \<Rightarrow> string \<Rightarrow> string option \<Rightarrow> table_metadata" where
  "new_table_metadata db name engine uuid =
     \<lparr>tm_database = db, tm_name = name, tm_raw = \<lparr>rt_engine = engine, rt_uuid = uuid, rt_parts = []\<rparr>\<rparr>"

definition table_load :: "string \<Rightarrow> string \<Rightarrow> raw_table \<Rightarrow> table_metadata" where
  "table_load db name raw =
     (let t = new_table_metadata db name (rt_engine raw) (rt_uuid raw)
      in t\<lparr>tm_raw := (tm_raw t)\<lparr>rt_parts := rt_parts raw\<rparr>\<rparr>)"

text \<open>The parts of a table in the order of its dictionary, before sorting.\<close>

definition listed_parts :: "string set \<Rightarrow> table_metadata \<Rightarrow> part_metadata list" where
  "listed_parts excluded t =
     map (\<lambda>(name, rp). part_load (tm_database t) (tm_name t) name rp)
       (filter (\<lambda>(name, rp). name \<notin> excluded) (rt_parts (tm_raw t)))"

text \<open>\<open>result.sort(key=...)\<close>: a stable sort that computes the key of every element first.\<close>

definition get_parts :: "string set \<Rightarrow> table_metadata \<Rightarrow> part_metadata list res" where
  "get_parts excluded t =
     bind_res (map_res (\<lambda>p. bind_res (split_part_name (pm_name p)) (\<lambda>k. Inr (k, p)))
                (listed_parts excluded t)) (\<lambda>kps.
       Inr (map snd (sort_key fst kps)))"

definition raw_of_part :: "part_metadata \<Rightarrow> raw_part" where
  "raw_of_part p =
     \<lparr>rp_checksum = rm_checksum (pm_raw p), rp_bytes = rm_size (pm_raw p),
      rp_files = rm_files (pm_raw p), rp_link = rm_link (pm_raw p),
      rp_link_part_name = rm_link_part_name (pm_raw p), rp_tarball = Some (rm_tarball (pm_raw p)),
      rp_disk_name = Some (part_disk_name p), rp_encrypted = Some (rm_encrypted (pm_raw p))\<rparr>"

definition table_add_part :: "table_metadata \<Rightarrow> part_metadata \<Rightarrow> table_metadata res" where
  "table_add_part t p =
     bind_res (assert_res (pm_database p = tm_database t)) (\<lambda>_.
     bind_res (assert_res (pm_table p = tm_name t)) (\<lambda>_.
     bind_res (assert_res (pm_name p \<notin> fst ` set (rt_parts (tm_raw t)))) (\<lambda>_.
       Inr (t\<lparr>tm_raw := (tm_raw t)\<lparr>rt_parts := dict_set (rt_parts (tm_raw t)) (pm_name p) (raw_of_part p)\<rparr>\<rparr>))))"

section \<open>Lemmas\<close>

lemma non_empty_simps [simp]:
  "non_empty None = None" "non_empty (Some []) = None" "s \<noteq> [] \<Longrightarrow> non_empty (Some s) = Some s"
  by (simp_all add: non_empty_def)

lemma non_empty_Some [simp]: "non_empty x = Some s \<longleftrightarrow> x = Some s \<and> s \<noteq> []"
  by (auto simp: non_empty_def split: option.splits if_splits)

lemma non_empty_None [simp]: "non_empty x = None \<longleftrightarrow> x = None \<or> x = Some []"
  by (auto simp: non_empty_def split: option.splits if_splits)

lemma part_load_fields [simp]:
  "pm_database (part_load db t n rp) = db" "pm_table (part_load db t n rp) = t"
  "pm_name (part_load db t n rp) = n" "part_size (part_load db t n rp) = rp_bytes rp"
  by (simp_all add: part_load_def)

lemma from_frozen_part_no_link [simp]:
  "\<not> has_link (from_frozen_part fp e)"
  "rm_link_part_name (pm_raw (from_frozen_part fp e)) = None"
  "deduplicated_part_name (from_frozen_part fp e) = fp_name fp"
  by (simp_all add: from_frozen_part_def has_link_def deduplicated_part_name_def)

lemma table_load_fields [simp]:
  "tm_database (table_load db n r) = db" "tm_name (table_load db n r) = n"
  "rt_parts (tm_raw (table_load db n r)) = rt_parts r"
  "tm_raw (table_load db n r) = r"
  by (simp_all add: table_load_def new_table_metadata_def)

lemma get_parts_Inr:
  assumes "get_parts X t = Inr ps"
  shows "mset ps = mset (listed_parts X t)"
    and "sorted_wrt (\<lambda>p q. \<exists>i j. split_part_name (pm_name p) = Inr i \<and>
           split_part_name (pm_name q) = Inr j \<and> i \<le> j) ps"
proof -
  let ?f = "\<lambda>p. bind_res (split_part_name (pm_name p)) (\<lambda>k. Inr (k, p))"
  from assms obtain kps where kps: "map_res ?f (listed_parts X t) = Inr kps"
    and ps: "ps = map snd (sort_key fst kps)"
    by (auto simp: get_parts_def)
  from kps have l2: "list_all2 (\<lambda>p kp. ?f p = Inr kp) (listed_parts X t) kps"
    by (simp add: map_res_Inr_iff)
  then have "map snd kps = listed_parts X t"
    by (induction rule: list_all2_induct) auto
  then show "mset ps = mset (listed_parts X t)"
    unfolding ps by (metis mset_map mset_sort)
  have keys: "\<forall>kp \<in> set kps. split_part_name (pm_name (snd kp)) = Inr (fst kp)"
    using l2 by (induction rule: list_all2_induct) auto
  have "sorted_wrt (\<lambda>x y. fst x \<le> fst y) (sort_key fst kps)"
    by (metis sorted_map sorted_sort_key)
  then show "sorted_wrt (\<lambda>p q. \<exists>i j. split_part_name (pm_name p) = Inr i \<and>
      split_part_name (pm_name q) = Inr j \<and> i \<le> j) ps"
    unfolding ps sorted_wrt_map
    by (rule sorted_wrt_mono_rel[rotated]) (use keys in auto)
qed

lemma get_parts_set: "get_parts X t = Inr ps \<Longrightarrow> set ps = set (listed_parts X t)"
  using get_parts_Inr(1) mset_eq_setD by blast

end
