(* ===== verification/BackupMeta.thy ===== *)
theory BackupMeta
  imports Parts
begin

text \<open>
  The metadata of one backup (\<^verbatim>\<open>backup/metadata/backup_metadata.py\<close>,
  \<^verbatim>\<open>access_control_metadata.py\<close>, \<^verbatim>\<open>cloud_storage_metadata.py\<close>).

  \<open>backup_metadata\<close> is the in-memory object; \<open>backup_doc\<close> is the dictionary that \<open>dump\<close> returns and
  \<open>load\<close> reads, with an option for every key that may be absent. The JSON text of a document is
  identified with the document. Methods that change the object are operations with effects on it,
  so a method that raises half-way leaves the changes it has made.

  A time is an aware \<open>datetime\<close>: the instant (in seconds) and the offset from UTC of its time zone.
  \<open>strftime\<close> and \<open>strptime\<close> for the configured format are given as the record \<open>time_codec\<close>.
\<close>

section \<open>Times\<close>

datatype py_time = PyTime (instant: int) (utc_offset: int)

text \<open>The order of \<open>t.isoformat()\<close> as a string, for whole seconds and four-digit years: the local
  wall clock first, then the sign of the offset (\<open>+\<close> sorts before \<open>-\<close>) and its size.\<close>

definition iso_key :: "py_time \<Rightarrow> int \<times> bool \<times> int" where
  "iso_key t = (instant t + utc_offset t, utc_offset t < 0, abs (utc_offset t))"

record time_codec =
  tc_format :: "string \<Rightarrow> py_time \<Rightarrow> string"
  tc_parse :: "string \<Rightarrow> string \<Rightarrow> py_time res"

section \<open>Access control and cloud storage metadata\<close>

datatype backup_storage_format = PLAIN | TAR

definition format_value :: "backup_storage_format \<Rightarrow> string" where
  "format_value f = (case f of PLAIN \<Rightarrow> ''plain'' | TAR \<Rightarrow> ''tar'')"

definition storage_format :: "string \<Rightarrow> backup_storage_format res" where
  "storage_format v =
     (if v = ''plain'' then Inr PLAIN else if v = ''tar'' then Inr TAR else Inl ValueError)"

record access_control_metadata =
  ac_ids :: "string list"
  ac_meta :: "(string, string \<times> string) dict"
  ac_format :: backup_storage_format

record acl_doc =
  ad_ids :: "string list option"
  ad_meta :: "(string, string \<times> string) dict option"
  ad_format :: "string option"

record acl_object =
  ao_id :: string
  ao_name :: string
  ao_char :: string

definition nat_str :: "nat \<Rightarrow> string" where
  "nat_str n = rev (map (\<lambda>d. char_of (48 + d))
     (if n = 0 then [0] else map (\<lambda>k. n div 10 ^ k mod 10) (filter (\<lambda>k. 10 ^ k \<le> n) [0..<Suc n])))"

definition acl_empty :: access_control_metadata where
  "acl_empty = \<lparr>ac_ids = [], ac_meta = [], ac_format = TAR\<rparr>"

definition acl_from_ch_objects :: "acl_object list \<Rightarrow> access_control_metadata" where
  "acl_from_ch_objects objects =
     fold (\<lambda>(i, o') a. a\<lparr>ac_ids := ac_ids a @ [ao_id o'],
                        ac_meta := dict_set (ac_meta a) (nat_str i) (ao_name o', ao_char o')\<rparr>)
       (enumerate 0 objects) acl_empty"

definition acl_load :: "acl_doc \<Rightarrow> access_control_metadata res" where
  "acl_load d =
     bind_res (case ad_format d of None \<Rightarrow> Inr TAR | Some v \<Rightarrow> storage_format v) (\<lambda>f.
       Inr \<lparr>ac_ids = (case ad_ids d of None \<Rightarrow> [] | Some x \<Rightarrow> x),
            ac_meta = (case ad_meta d of None \<Rightarrow> [] | Some x \<Rightarrow> x), ac_format = f\<rparr>)"

definition acl_dump :: "access_control_metadata \<Rightarrow> acl_doc" where
  "acl_dump a = \<lparr>ad_ids = Some (ac_ids a), ad_meta = Some (ac_meta a),
                 ad_format = Some (format_value (ac_format a))\<rparr>"

record cloud_storage_metadata =
  cs_encryption :: bool
  cs_compression :: bool
  cs_disks :: "string list"

record cloud_storage_doc =
  cd_encryption :: "bool option"
  cd_compression :: "bool option"
  cd_disks :: "string list option"

definition new_cloud_storage :: cloud_storage_metadata where
  "new_cloud_storage = \<lparr>cs_encryption = True, cs_compression = True, cs_disks = []\<rparr>"

definition cs_enabled :: "cloud_storage_metadata \<Rightarrow> bool" where
  "cs_enabled c \<longleftrightarrow> length (cs_disks c) > 0"

definition cs_add_disk :: "cloud_storage_metadata \<Rightarrow> string \<Rightarrow> cloud_storage_metadata" where
  "cs_add_disk c d = (if List.member (cs_disks c) d then c else c\<lparr>cs_disks := cs_disks c @ [d]\<rparr>)"

definition cs_encrypt :: "cloud_storage_metadata \<Rightarrow> cloud_storage_metadata" where
  "cs_encrypt c = c\<lparr>cs_encryption := True\<rparr>"

definition cs_compress :: "cloud_storage_metadata \<Rightarrow> cloud_storage_metadata" where
  "cs_compress c = c\<lparr>cs_compression := True\<rparr>"

definition cs_load :: "cloud_storage_doc \<Rightarrow> cloud_storage_metadata" where
  "cs_load d =
     \<lparr>cs_encryption = (case cd_encryption d of None \<Rightarrow> True | Some b \<Rightarrow> b),
      cs_compression = (case cd_compression d of None \<Rightarrow> False | Some b \<Rightarrow> b),
      cs_disks = (case cd_disks d of None \<Rightarrow> [] | Some x \<Rightarrow> x)\<rparr>"

definition cs_dump :: "cloud_storage_metadata \<Rightarrow> cloud_storage_doc" where
  "cs_dump c = \<lparr>cd_encryption = Some (cs_encryption c), cd_compression = Some (cs_compression c),
                cd_disks = Some (cs_disks c)\<rparr>"

section \<open>The backup object\<close>

datatype backup_state = CREATED | CREATING | DELETING | PARTIALLY_DELETED | FAILED

definition state_value :: "backup_state \<Rightarrow> string" where
  "state_value s = (case s of CREATED \<Rightarrow> ''created'' | CREATING \<Rightarrow> ''creating''
     | DELETING \<Rightarrow> ''deleting'' | PARTIALLY_DELETED \<Rightarrow> ''partially_deleted'' | FAILED \<Rightarrow> ''failed'')"

definition state_of_value :: "string \<Rightarrow> backup_state res" where
  "state_of_value v =
     (if v = ''created'' then Inr CREATED else if v = ''creating'' then Inr CREATING
      else if v = ''deleting'' then Inr DELETING
      else if v = ''partially_deleted'' then Inr PARTIALLY_DELETED
      else if v = ''failed'' then Inr FAILED else Inl ValueError)"

record db_meta =
  dm_engine :: "string option"
  dm_metadata_path :: "string option"
  dm_uuid :: "string option"
  dm_engine_full :: "string option"
  dm_tables :: "(string, raw_table) dict"

record backup_metadata =
  bm_name :: string
  bm_path :: string
  bm_version :: string
  bm_ch_version :: string
  bm_hostname :: string
  bm_labels :: "(string, string option) dict"
  bm_time_format :: string
  bm_start_time :: "py_time option"
  bm_end_time :: "py_time option"
  bm_size :: int
  bm_real_size :: int
  bm_schema_only :: bool
  bm_encrypted :: bool
  bm_cloud_storage :: cloud_storage_metadata
  bm_state :: backup_state
  bm_exception :: "string option"
  bm_databases :: "(string, db_meta) dict"
  bm_access_control :: access_control_metadata
  bm_user_defined_functions :: "string list"
  bm_named_collections :: "string list"
  bm_workload_entities :: "string list"

text \<open>\<open>__init__\<close>; \<open>fqdn\<close> and \<open>now\<close> are what \<open>socket.getfqdn()\<close> and the clock return.\<close>

definition new_backup_metadata ::
  "string \<Rightarrow> py_time \<Rightarrow> string \<Rightarrow> string \<Rightarrow> string \<Rightarrow> string \<Rightarrow> string option
     \<Rightarrow> (string, string option) dict \<Rightarrow> bool \<Rightarrow> bool \<Rightarrow> string option \<Rightarrow> backup_metadata" where
  "new_backup_metadata fqdn now name version ch_version time_format hostname labels
      schema_only encrypted path =
     \<lparr>bm_name = name, bm_path = (case path of None \<Rightarrow> name | Some p \<Rightarrow> p), bm_version = version,
      bm_ch_version = ch_version,
      bm_hostname = (case non_empty hostname of None \<Rightarrow> fqdn | Some h \<Rightarrow> h),
      bm_labels = labels, bm_time_format = time_format, bm_start_time = Some now,
      bm_end_time = None, bm_size = 0, bm_real_size = 0, bm_schema_only = schema_only,
      bm_encrypted = encrypted, bm_cloud_storage = new_cloud_storage, bm_state = CREATING,
      bm_exception = None, bm_databases = [], bm_access_control = acl_empty,
      bm_user_defined_functions = [], bm_named_collections = [], bm_workload_entities = []\<rparr>"

section \<open>Dump and load\<close>

record meta_doc =
  md_name :: "string option"
  md_path :: "string option"
  md_version :: "string option"
  md_ch_version :: "string option"
  md_hostname :: "string option"
  md_time_format :: "string option"
  md_start_time :: "string option"
  md_end_time :: "string option"
  md_bytes :: "int option"
  md_real_bytes :: "int option"
  md_state :: "string option"
  md_exception :: "string option"
  md_labels :: "(string, string option) dict option"
  md_schema_only :: "bool option"
  md_encrypted :: "bool option"
  md_user_defined_functions :: "string list option"
  md_named_collections :: "string list option"
  md_workload_entities :: "string list option"

record backup_doc =
  bd_meta :: "meta_doc option"
  bd_databases :: "(string, db_meta) dict option"
  bd_access_control :: "string list option"
  bd_access_control_meta :: "(string, string \<times> string) dict option"
  bd_access_controls :: "acl_doc option"
  bd_cloud_storage :: "cloud_storage_doc option"
  bd_user_defined_functions :: "string list option"
  bd_named_collections :: "string list option"
  bd_workload_entities :: "string list option"

definition map_raw_parts :: "(raw_part \<Rightarrow> raw_part) \<Rightarrow> (string, db_meta) dict \<Rightarrow> (string, db_meta) dict" where
  "map_raw_parts f dbs =
     map (map_prod id (\<lambda>db. db\<lparr>dm_tables :=
       map (map_prod id (\<lambda>t. t\<lparr>rt_parts := map (map_prod id f) (rt_parts t)\<rparr>)) (dm_tables db)\<rparr>)) dbs"

definition legacy_link :: "string \<Rightarrow> raw_part \<Rightarrow> raw_part" where
  "legacy_link path_root rp =
     (case non_empty (rp_link rp) of
        None \<Rightarrow> rp
      | Some link \<Rightarrow>
          if List.member link CHR ''/'' then rp
          else rp\<lparr>rp_link := Some (if path_root \<noteq> [] then path_join path_root link else link)\<rparr>)"

definition databases_with_legacy_part_links :: "backup_metadata \<Rightarrow> (string, db_meta) dict" where
  "databases_with_legacy_part_links b =
     (let path_root = (if bm_path b \<noteq> [] then dir_name (bm_path b) else '''')
      in map_raw_parts (legacy_link path_root) (bm_databases b))"

text \<open>A missing start time has no \<open>strftime\<close>: an \<open>AttributeError\<close>.\<close>

definition bm_dump :: "time_codec \<Rightarrow> bool \<Rightarrow> backup_metadata \<Rightarrow> backup_doc res" where
  "bm_dump tc light b =
     bind_res (case bm_start_time b of None \<Rightarrow> Inl (OtherException ''AttributeError'')
               | Some t \<Rightarrow> Inr (tc_format tc (bm_time_format b) t)) (\<lambda>start.
     Inr \<lparr>bd_meta = Some
            \<lparr>md_name = Some (bm_name b), md_path = Some (bm_path b), md_version = Some (bm_version b),
             md_ch_version = Some (bm_ch_version b), md_hostname = Some (bm_hostname b),
             md_time_format = Some (bm_time_format b), md_start_time = Some start,
             md_end_time = map_option (tc_format tc (bm_time_format b)) (bm_end_time b),
             md_bytes = Some (bm_size b), md_real_bytes = Some (bm_real_size b),
             md_state = Some (state_value (bm_state b)), md_exception = bm_exception b,
             md_labels = Some (bm_labels b), md_schema_only = Some (bm_schema_only b),
             md_encrypted = Some (bm_encrypted b), md_user_defined_functions = None,
             md_named_collections = None, md_workload_entities = None\<rparr>,
          bd_databases = Some (if light then [] else databases_with_legacy_part_links b),
          bd_access_control = None, bd_access_control_meta = None,
          bd_access_controls = Some (if light then \<lparr>ad_ids = None, ad_meta = None, ad_format = None\<rparr>
                                     else acl_dump (bm_access_control b)),
          bd_cloud_storage = Some (cs_dump (bm_cloud_storage b)),
          bd_user_defined_functions = Some (if light then [] else bm_user_defined_functions b),
          bd_named_collections = Some (if light then [] else bm_named_collections b),
          bd_workload_entities = Some (if light then [] else bm_workload_entities b)\<rparr>)"

definition need :: "'a option \<Rightarrow> 'a res" where
  "need x = (case x of None \<Rightarrow> Inl KeyError | Some v \<Rightarrow> Inr v)"

definition option_or :: "'a option \<Rightarrow> 'a \<Rightarrow> 'a" where
  "option_or x d = (case x of None \<Rightarrow> d | Some v \<Rightarrow> v)"

definition load_time :: "time_codec \<Rightarrow> string \<Rightarrow> string option \<Rightarrow> py_time option res" where
  "load_time tc time_format value =
     (case non_empty value of
        None \<Rightarrow> Inr None
      | Some v \<Rightarrow> bind_res (tc_parse tc time_format v) (\<lambda>t. Inr (Some t)))"

definition load_access_control :: "backup_doc \<Rightarrow> access_control_metadata res" where
  "load_access_control d =
     (case bd_access_control d of
        Some ids \<Rightarrow> Inr \<lparr>ac_ids = ids, ac_meta = option_or (bd_access_control_meta d) [],
                         ac_format = PLAIN\<rparr>
      | None \<Rightarrow> acl_load (option_or (bd_access_controls d)
                            \<lparr>ad_ids = None, ad_meta = None, ad_format = None\<rparr>))"

definition load_body :: "time_codec \<Rightarrow> backup_doc \<Rightarrow> backup_metadata res" where
  "load_body tc d =
     bind_res (need (bd_meta d)) (\<lambda>meta.
     bind_res (need (md_name meta)) (\<lambda>name.
     bind_res (need (md_hostname meta)) (\<lambda>hostname.
     bind_res (need (md_time_format meta)) (\<lambda>time_format.
     bind_res (need (bd_databases d)) (\<lambda>databases.
     bind_res (load_access_control d) (\<lambda>acl.
     bind_res (load_time tc time_format (md_start_time meta)) (\<lambda>start_time.
     bind_res (load_time tc time_format (md_end_time meta)) (\<lambda>end_time.
     bind_res (need (md_bytes meta)) (\<lambda>size'.
     bind_res (need (md_real_bytes meta)) (\<lambda>real_size.
     bind_res (bind_res (need (md_state meta)) state_of_value) (\<lambda>state.
     bind_res (need (md_ch_version meta)) (\<lambda>ch_version.
     bind_res (need (md_labels meta)) (\<lambda>labels.
     bind_res (need (md_version meta)) (\<lambda>version.
       Inr \<lparr>bm_name = name, bm_path = option_or (md_path meta) name, bm_version = version,
            bm_ch_version = ch_version, bm_hostname = hostname, bm_labels = labels,
            bm_time_format = time_format, bm_start_time = start_time, bm_end_time = end_time,
            bm_size = size', bm_real_size = real_size,
            bm_schema_only = option_or (md_schema_only meta) False,
            bm_encrypted = option_or (md_encrypted meta) True,
            bm_cloud_storage = cs_load (option_or (bd_cloud_storage d)
              \<lparr>cd_encryption = None, cd_compression = None, cd_disks = None\<rparr>),
            bm_state = state, bm_exception = md_exception meta, bm_databases = databases,
            bm_access_control = acl,
            bm_user_defined_functions = option_or (bd_user_defined_functions d)
              (option_or (md_user_defined_functions meta) []),
            bm_named_collections = option_or (bd_named_collections d)
              (option_or (md_named_collections meta) []),
            bm_workload_entities = option_or (bd_workload_entities d)
              (option_or (md_workload_entities meta) [])\<rparr>))))))))))))))"

definition bm_load :: "time_codec \<Rightarrow> backup_doc \<Rightarrow> backup_metadata res" where
  "bm_load tc d =
     (case load_body tc d of
        Inl e \<Rightarrow> Inl (if e = ValueError \<or> e = KeyError then InvalidBackupStruct else e)
      | Inr b \<Rightarrow> Inr b)"

section \<open>The filters of the metadata report\<close>

definition table_spec :: "string option \<Rightarrow> string option \<Rightarrow> (string option \<times> string option) res" where
  "table_spec database table =
     (case non_empty table of
        None \<Rightarrow> Inr (database, None)
      | Some t \<Rightarrow>
          if List.member t CHR ''.'' then
            (let ws = split_max CHR ''.'' 1 t; db = ws ! 0; tn = ws ! 1 in
             if (case non_empty database of None \<Rightarrow> False | Some d \<Rightarrow> d \<noteq> db) then Inl ValueError
             else Inr (Some db, Some tn))
          else if non_empty database \<noteq> None then Inr (database, Some t)
          else Inl ValueError)"

definition filter_databases ::
  "string option \<Rightarrow> string option \<Rightarrow> (string, db_meta) dict \<Rightarrow> (string, db_meta) dict res" where
  "filter_databases database table_name dbs =
     (case non_empty database of
        None \<Rightarrow> Inr dbs
      | Some d \<Rightarrow>
          (case map_of dbs d of
             None \<Rightarrow> Inl ValueError
           | Some db \<Rightarrow>
               (case non_empty table_name of
                  None \<Rightarrow> Inr [(d, db)]
                | Some tn \<Rightarrow>
                    (case map_of (dm_tables db) tn of
                       None \<Rightarrow> Inl ValueError
                     | Some t \<Rightarrow> Inr [(d, db\<lparr>dm_tables := [(tn, t)]\<rparr>)]))))"

definition bm_dump_json ::
  "time_codec \<Rightarrow> bool \<Rightarrow> string option \<Rightarrow> string option \<Rightarrow> backup_metadata \<Rightarrow> backup_doc res" where
  "bm_dump_json tc light database table b =
     (if non_empty database = None \<and> non_empty table = None then bm_dump tc light b
      else bind_res (bm_dump tc light b) (\<lambda>doc.
           bind_res (table_spec database table) (\<lambda>(database', table_name).
           bind_res (filter_databases database' table_name (option_or (bd_databases doc) [])) (\<lambda>dbs.
             Inr (doc\<lparr>bd_databases := Some dbs\<rparr>)))))"

end
