(* ===== verification/BackupOps.thy ===== *)
theory BackupOps
  imports BackupMeta
begin

text \<open>
  The methods of \<open>BackupMetadata\<close> (\<^verbatim>\<open>backup/metadata/backup_metadata.py\<close>): reading and adding
  databases, tables, parts, functions, named collections and workload entities, and removing parts.
  \<open>sizes_ok\<close> is the invariant of the object: its two size counters are the sums over the parts it
  lists, the second one over the parts whose data the backup stores itself.
\<close>

section \<open>Operations\<close>

definition bm_get_databases :: "backup_metadata \<Rightarrow> string list" where
  "bm_get_databases b = dict_keys (bm_databases b)"

definition bm_get_database :: "backup_metadata \<Rightarrow> string \<Rightarrow> database res" where
  "bm_get_database b name =
     bind_res (dict_get (bm_databases b) name) (\<lambda>m.
       Inr \<lparr>db_name = name, db_engine = dm_engine m, db_metadata_path = dm_metadata_path m,
            db_uuid = dm_uuid m, db_engine_full = dm_engine_full m\<rparr>)"

definition bm_add_database :: "database \<Rightarrow> (backup_metadata, unit) act" where
  "bm_add_database db b =
     (if db_name db \<in> fst ` set (bm_databases b) then (Inl AssertionError, b)
      else (Inr (), b\<lparr>bm_databases := dict_set (bm_databases b) (db_name db)
             \<lparr>dm_engine = db_engine db, dm_metadata_path = db_metadata_path db, dm_uuid = db_uuid db,
              dm_engine_full = db_engine_full db, dm_tables = []\<rparr>\<rparr>))"

text \<open>\<open>get_tables(None)\<close> and \<open>get_tables("")\<close> read all databases.\<close>

definition tables_of :: "backup_metadata \<Rightarrow> string \<Rightarrow> table_metadata list res" where
  "tables_of b db =
     bind_res (dict_get (bm_databases b) db) (\<lambda>m.
       Inr (map (\<lambda>(tn, raw). table_load db tn raw) (dm_tables m)))"

definition bm_get_tables :: "string option \<Rightarrow> backup_metadata \<Rightarrow> table_metadata list res" where
  "bm_get_tables name b =
     bind_res (map_res (tables_of b)
                (case non_empty name of Some n \<Rightarrow> [n] | None \<Rightarrow> dict_keys (bm_databases b)))
       (\<lambda>tss. Inr (concat tss))"

definition bm_get_table :: "string \<Rightarrow> string \<Rightarrow> backup_metadata \<Rightarrow> table_metadata res" where
  "bm_get_table db tn b =
     bind_res (dict_get (bm_databases b) db) (\<lambda>m.
     bind_res (dict_get (dm_tables m) tn) (\<lambda>raw. Inr (table_load db tn raw)))"

definition set_table :: "string \<Rightarrow> string \<Rightarrow> db_meta \<Rightarrow> raw_table \<Rightarrow> backup_metadata \<Rightarrow> backup_metadata" where
  "set_table db tn m raw b =
     b\<lparr>bm_databases := dict_set (bm_databases b) db (m\<lparr>dm_tables := dict_set (dm_tables m) tn raw\<rparr>)\<rparr>"

definition count_part :: "part_metadata \<Rightarrow> backup_metadata \<Rightarrow> backup_metadata" where
  "count_part p b =
     b\<lparr>bm_size := bm_size b + part_size p,
       bm_real_size := (if has_link p then bm_real_size b else bm_real_size b + part_size p)\<rparr>"

text \<open>\<open>table.get_parts()\<close> may raise on a malformed part name, after the table was added.\<close>

definition bm_add_table :: "table_metadata \<Rightarrow> (backup_metadata, unit) act" where
  "bm_add_table t b =
     (case map_of (bm_databases b) (tm_database t) of
        None \<Rightarrow> (Inl KeyError, b)
      | Some m \<Rightarrow>
          if tm_name t \<in> fst ` set (dm_tables m) then (Inl AssertionError, b)
          else (let b' = set_table (tm_database t) (tm_name t) m (tm_raw t) b in
                case get_parts {} t of
                  Inl e \<Rightarrow> (Inl e, b')
                | Inr ps \<Rightarrow> (Inr (), fold count_part ps b')))"

definition bm_add_udf :: "string \<Rightarrow> (backup_metadata, unit) act" where
  "bm_add_udf n b =
     (if List.member (bm_user_defined_functions b) n then (Inl AssertionError, b)
      else (Inr (), b\<lparr>bm_user_defined_functions := bm_user_defined_functions b @ [n]\<rparr>))"

definition bm_add_named_collection :: "string \<Rightarrow> (backup_metadata, unit) act" where
  "bm_add_named_collection n b =
     (if List.member (bm_named_collections b) n then (Inl AssertionError, b)
      else (Inr (), b\<lparr>bm_named_collections := bm_named_collections b @ [n]\<rparr>))"

definition bm_add_workload_entity :: "string \<Rightarrow> (backup_metadata, unit) act" where
  "bm_add_workload_entity n b =
     (if List.member (bm_workload_entities b) n then (Inl AssertionError, b)
      else (Inr (), b\<lparr>bm_workload_entities := bm_workload_entities b @ [n]\<rparr>))"

definition bm_get_parts :: "backup_metadata \<Rightarrow> part_metadata list res" where
  "bm_get_parts b =
     bind_res (map_res (\<lambda>db. bind_res (bm_get_tables (Some db) b) (\<lambda>ts.
                               bind_res (map_res (get_parts {}) ts) (\<lambda>pss. Inr (concat pss))))
                (bm_get_databases b))
       (\<lambda>pss. Inr (concat pss))"

definition bm_find_part :: "string \<Rightarrow> string \<Rightarrow> string \<Rightarrow> backup_metadata \<Rightarrow> part_metadata option" where
  "bm_find_part db tn pn b =
     (case map_of (bm_databases b) db of
        None \<Rightarrow> None
      | Some m \<Rightarrow>
          (case map_of (dm_tables m) tn of
             None \<Rightarrow> None
           | Some t \<Rightarrow> map_option (part_load db tn pn) (map_of (rt_parts t) pn)))"

text \<open>\<open>get_table\<close> shares the dictionary of parts with the backup, so \<open>TableMetadata.add_part\<close>
  writes to the backup.\<close>

definition bm_add_part :: "part_metadata \<Rightarrow> (backup_metadata, unit) act" where
  "bm_add_part p b =
     (case map_of (bm_databases b) (pm_database p) of
        None \<Rightarrow> (Inl KeyError, b)
      | Some m \<Rightarrow>
          (case map_of (dm_tables m) (pm_table p) of
             None \<Rightarrow> (Inl KeyError, b)
           | Some raw \<Rightarrow>
               (case table_add_part (table_load (pm_database p) (pm_table p) raw) p of
                  Inl e \<Rightarrow> (Inl e, b)
                | Inr t \<Rightarrow>
                    (Inr (), count_part p
                       (set_table (pm_database p) (pm_table p) m
                          (raw\<lparr>rt_parts := rt_parts (tm_raw t)\<rparr>) b)))))"

definition uncount_part :: "part_metadata \<Rightarrow> backup_metadata \<Rightarrow> backup_metadata" where
  "uncount_part p b =
     b\<lparr>bm_size := bm_size b - part_size p,
       bm_real_size := (if has_link p then bm_real_size b else bm_real_size b - part_size p)\<rparr>"

definition remove_part :: "string \<Rightarrow> string \<Rightarrow> part_metadata \<Rightarrow> (backup_metadata, unit) act" where
  "remove_part db tn p b =
     (case map_of (bm_databases b) db of
        None \<Rightarrow> (Inl KeyError, b)
      | Some m \<Rightarrow>
          (case map_of (dm_tables m) tn of
             None \<Rightarrow> (Inl KeyError, b)
           | Some raw \<Rightarrow>
               (case dict_del (rt_parts raw) (pm_name p) of
                  Inl e \<Rightarrow> (Inl e, b)
                | Inr ps \<Rightarrow>
                    (Inr (), uncount_part p (set_table db tn m (raw\<lparr>rt_parts := ps\<rparr>) b)))))"

definition bm_remove_parts :: "table_metadata \<Rightarrow> part_metadata list \<Rightarrow> (backup_metadata, unit) act" where
  "bm_remove_parts t ps b =
     (case bind_res (dict_get (bm_databases b) (tm_database t)) (\<lambda>m. dict_get (dm_tables m) (tm_name t)) of
        Inl e \<Rightarrow> (Inl e, b)
      | Inr _ \<Rightarrow> for_act ps (\<lambda>p _. remove_part (tm_database t) (tm_name t) p) () b)"

definition bm_is_empty :: "backup_metadata \<Rightarrow> bool" where
  "bm_is_empty b \<longleftrightarrow> bm_size b = 0"

definition bm_set_access_control :: "acl_object list \<Rightarrow> backup_metadata \<Rightarrow> backup_metadata" where
  "bm_set_access_control objects b = b\<lparr>bm_access_control := acl_from_ch_objects objects\<rparr>"

definition bm_set_state :: "backup_state \<Rightarrow> backup_metadata \<Rightarrow> backup_metadata" where
  "bm_set_state s b = b\<lparr>bm_state := s\<rparr>"

definition bm_set_exception :: "string option \<Rightarrow> backup_metadata \<Rightarrow> backup_metadata" where
  "bm_set_exception e b = b\<lparr>bm_exception := e\<rparr>"

definition bm_update_end_time :: "py_time \<Rightarrow> backup_metadata \<Rightarrow> backup_metadata" where
  "bm_update_end_time now b = b\<lparr>bm_end_time := Some now\<rparr>"

text \<open>\<open>get_sanitized_name\<close>\<close>

definition sanitize_name :: "string \<Rightarrow> string" where
  "sanitize_name n = map (\<lambda>c. if c = CHR ''-'' then CHR ''_'' else c) n"

section \<open>The invariant of the size counters\<close>

text \<open>The parts a backup lists, with their names, and the two sums over them.\<close>

definition table_sum :: "(raw_part \<Rightarrow> int) \<Rightarrow> raw_table \<Rightarrow> int" where
  "table_sum f t = (\<Sum>p \<leftarrow> rt_parts t. f (snd p))"

definition db_sum :: "(raw_part \<Rightarrow> int) \<Rightarrow> db_meta \<Rightarrow> int" where
  "db_sum f m = (\<Sum>t \<leftarrow> dm_tables m. table_sum f (snd t))"

definition bm_sum :: "(raw_part \<Rightarrow> int) \<Rightarrow> backup_metadata \<Rightarrow> int" where
  "bm_sum f b = (\<Sum>d \<leftarrow> bm_databases b. db_sum f (snd d))"

definition own_bytes :: "raw_part \<Rightarrow> int" where
  "own_bytes rp = (if non_empty (normalize_backup_link (rp_link rp)) = None then rp_bytes rp else 0)"

definition dicts_ok :: "backup_metadata \<Rightarrow> bool" where
  "dicts_ok b \<longleftrightarrow> dict_ok (bm_databases b) \<and>
     (\<forall>d \<in> set (bm_databases b). dict_ok (dm_tables (snd d)) \<and>
        (\<forall>t \<in> set (dm_tables (snd d)). dict_ok (rt_parts (snd t))))"

definition sizes_ok :: "backup_metadata \<Rightarrow> bool" where
  "sizes_ok b \<longleftrightarrow> bm_size b = bm_sum rp_bytes b \<and> bm_real_size b = bm_sum own_bytes b"

text \<open>A link as \<open>deduplicate_parts\<close> sets it: the plain name of a backup.\<close>

definition plain_link :: "part_metadata \<Rightarrow> bool" where
  "plain_link p \<longleftrightarrow> (case part_link p of None \<Rightarrow> True | Some l \<Rightarrow> CHR ''/'' \<notin> set l)"

lemma bm_sum_dict_set:
  assumes "map_of (bm_databases b) db = Some m"
  shows "bm_sum f (b\<lparr>bm_databases := dict_set (bm_databases b) db m'\<rparr>)
         = bm_sum f b - db_sum f m + db_sum f m'"
  using sum_list_update_dict [OF assms, of "db_sum f" m'] by (simp add: bm_sum_def)

lemma bm_sum_set_table:
  assumes "map_of (bm_databases b) db = Some m" "map_of (dm_tables m) tn = Some raw"
  shows "bm_sum f (set_table db tn m raw' b) = bm_sum f b - table_sum f raw + table_sum f raw'"
  using sum_list_update_dict [OF assms(2), of "table_sum f" raw'] assms(1)
  by (simp add: set_table_def bm_sum_dict_set db_sum_def)

lemma bm_sum_new_table:
  assumes "map_of (bm_databases b) db = Some m" "tn \<notin> fst ` set (dm_tables m)"
  shows "bm_sum f (set_table db tn m raw b) = bm_sum f b + table_sum f raw"
  using assms by (simp add: set_table_def bm_sum_dict_set db_sum_def dict_set_fresh)

lemma bm_sum_counts [simp]:
  "bm_sum f (count_part p b) = bm_sum f b" "bm_sum f (uncount_part p b) = bm_sum f b"
  by (simp_all add: bm_sum_def count_part_def uncount_part_def)

lemma bm_sum_fold_count [simp]: "bm_sum f (fold count_part ps b) = bm_sum f b"
  by (induction ps arbitrary: b) simp_all

lemma set_table_sizes [simp]:
  "bm_size (set_table db tn m raw b) = bm_size b"
  "bm_real_size (set_table db tn m raw b) = bm_real_size b"
  by (simp_all add: set_table_def)

text \<open>What a part adds to \<open>real_size\<close>.\<close>

definition own_size :: "part_metadata \<Rightarrow> int" where
  "own_size p = (if has_link p then 0 else part_size p)"

lemma count_part_sizes [simp]:
  "bm_size (count_part p b) = bm_size b + part_size p"
  "bm_real_size (count_part p b) = bm_real_size b + own_size p"
  "bm_size (uncount_part p b) = bm_size b - part_size p"
  "bm_real_size (uncount_part p b) = bm_real_size b - own_size p"
  by (simp_all add: count_part_def uncount_part_def own_size_def)

lemma fold_count_sizes:
  "bm_size (fold count_part ps b) = bm_size b + (\<Sum>p \<leftarrow> ps. part_size p)"
  "bm_real_size (fold count_part ps b) = bm_real_size b + (\<Sum>p \<leftarrow> ps. own_size p)"
  by (induction ps arbitrary: b) simp_all

lemma own_size_load [simp]: "own_size (part_load db tn pn rp) = own_bytes rp"
  by (simp add: own_size_def own_bytes_def has_link_def part_load_def)

lemma normalize_None [simp]: "normalize_backup_link None = None"
  by (simp add: normalize_backup_link_def)

lemma normalize_plain: "CHR ''/'' \<notin> set l \<Longrightarrow> normalize_backup_link (Some l) = non_empty (Some l)"
proof -
  assume "CHR ''/'' \<notin> set l"
  then have "rstrip_chr CHR ''/'' l = l"
    by (metis last_in_set rstrip_chr_id)
  with \<open>CHR ''/'' \<notin> set l\<close> show ?thesis
    by (simp add: normalize_backup_link_def base_name_no_slash split: option.splits)
qed

lemma non_empty_idem [simp]: "non_empty (non_empty x) = non_empty x"
  by (auto simp: non_empty_def split: option.splits)

lemma own_bytes_raw: "plain_link p \<Longrightarrow> own_bytes (raw_of_part p) = own_size p"
  by (cases "part_link p")
    (auto simp: own_bytes_def own_size_def has_link_def raw_of_part_def plain_link_def
      normalize_plain)

lemma sum_list_mset_eq:
  fixes f :: "'a \<Rightarrow> int"
  shows "mset xs = mset ys \<Longrightarrow> (\<Sum>x \<leftarrow> xs. f x) = (\<Sum>x \<leftarrow> ys. f x)"
  by (metis mset_map sum_mset_sum_list)

lemma listed_parts_sums:
  "(\<Sum>p \<leftarrow> listed_parts {} t. part_size p) = table_sum rp_bytes (tm_raw t)"
  "(\<Sum>p \<leftarrow> listed_parts {} t. own_size p) = table_sum own_bytes (tm_raw t)"
  by (simp_all add: listed_parts_def table_sum_def comp_def case_prod_beta)

section \<open>Every operation keeps the counters right\<close>

text \<open>A backup with one table, for the examples.\<close>

definition sample_part :: "string option \<Rightarrow> part_metadata" where
  "sample_part link =
     \<lparr>pm_database = ''d'', pm_table = ''t'', pm_name = ''all_1_1_0'',
      pm_raw = \<lparr>rm_checksum = ''c'', rm_size = 5, rm_files = [''data.bin''], rm_tarball = True, rm_link = link,
        rm_link_part_name = None, rm_disk_name = Some ''default'', rm_encrypted = True\<rparr>\<rparr>"

definition sample_backup :: "(string, raw_part) dict \<Rightarrow> int \<Rightarrow> backup_metadata" where
  "sample_backup parts n =
     (new_backup_metadata ''host'' (PyTime 1 0) ''b'' ''1'' ''24'' ''iso'' None [] False True None)
       \<lparr>bm_databases := [(''d'', \<lparr>dm_engine = Some ''Atomic'', dm_metadata_path = None, dm_uuid = None,
          dm_engine_full = None, dm_tables = [(''t'', \<lparr>rt_engine = ''MergeTree'', rt_uuid = None, rt_parts = parts\<rparr>)]\<rparr>)],
        bm_size := n, bm_real_size := n\<rparr>"

lemmas sample_simps =
  sample_backup_def new_backup_metadata_def sample_part_def raw_of_part_def dict_ok_def

text \<open>C15. Adding a part to a backup keeps the two size counters equal to the sums over the listed
  parts, whether the call succeeds or raises (unknown database or table, duplicate part).\<close>

theorem add_part_sizes:
  assumes "sizes_ok b" "plain_link p"
  shows "sizes_ok (snd (bm_add_part p b))"
proof (cases "bm_add_part p b")
  case (Pair r b')
  show ?thesis
  proof (cases r)
    case (Inl e)
    with Pair assms show ?thesis
      by (auto simp: bm_add_part_def split: option.splits sum.splits)
  next
    case (Inr u)
    with Pair obtain m raw t where m: "map_of (bm_databases b) (pm_database p) = Some m"
      and raw: "map_of (dm_tables m) (pm_table p) = Some raw"
      and t: "table_add_part (table_load (pm_database p) (pm_table p) raw) p = Inr t"
      and b': "b' = count_part p (set_table (pm_database p) (pm_table p) m
                 (raw\<lparr>rt_parts := rt_parts (tm_raw t)\<rparr>) b)"
      by (auto simp: bm_add_part_def split: option.splits sum.splits)
    from t have "rt_parts (tm_raw t) = rt_parts raw @ [(pm_name p, raw_of_part p)]"
      by (auto simp: table_add_part_def dict_set_fresh)
    then have "table_sum f (raw\<lparr>rt_parts := rt_parts (tm_raw t)\<rparr>)
        = table_sum f raw + f (raw_of_part p)" for f
      by (simp add: table_sum_def)
    moreover have "rp_bytes (raw_of_part p) = part_size p"
      by (simp add: raw_of_part_def)
    ultimately have "sizes_ok b'"
      using assms by (simp add: b' sizes_ok_def bm_sum_set_table [OF m raw] own_bytes_raw)
    with Pair show ?thesis by simp
  qed
qed

text \<open>Adding a table with parts keeps the counters right when it succeeds.\<close>

theorem add_table_sizes:
  assumes "sizes_ok b" "bm_add_table t b = (Inr (), b')"
  shows "sizes_ok b'"
proof -
  from assms(2) obtain m ps where m: "map_of (bm_databases b) (tm_database t) = Some m"
    and fresh: "tm_name t \<notin> fst ` set (dm_tables m)" and ps: "get_parts {} t = Inr ps"
    and b': "b' = fold count_part ps (set_table (tm_database t) (tm_name t) m (tm_raw t) b)"
    by (auto simp: bm_add_table_def Let_def split: option.splits sum.splits if_splits)
  have "(\<Sum>p \<leftarrow> ps. part_size p) = table_sum rp_bytes (tm_raw t)"
    "(\<Sum>p \<leftarrow> ps. own_size p) = table_sum own_bytes (tm_raw t)"
    using sum_list_mset_eq [OF get_parts_Inr(1) [OF ps]] listed_parts_sums by metis+
  with assms(1) show ?thesis
    by (simp add: b' sizes_ok_def fold_count_sizes bm_sum_new_table [OF m fresh])
qed

text \<open>The parts still to be removed are listed as given, or already removed.\<close>

definition listed_or_gone :: "string \<Rightarrow> string \<Rightarrow> part_metadata list \<Rightarrow> backup_metadata \<Rightarrow> bool" where
  "listed_or_gone db tn ps b \<longleftrightarrow>
     (\<forall>p \<in> set ps. bm_find_part db tn (pm_name p) b \<in> {None, Some p})"

lemma find_part_iff:
  "bm_find_part db tn pn b = Some p \<longleftrightarrow>
     (\<exists>m raw rp. map_of (bm_databases b) db = Some m \<and> map_of (dm_tables m) tn = Some raw \<and>
        map_of (rt_parts raw) pn = Some rp \<and> p = part_load db tn pn rp)"
  by (auto simp: bm_find_part_def split: option.splits)

lemma dicts_ok_D:
  assumes "dicts_ok b" "map_of (bm_databases b) db = Some m"
  shows "dict_ok (dm_tables m)" "map_of (dm_tables m) tn = Some raw \<Longrightarrow> dict_ok (rt_parts raw)"
  using assms by (force simp: dicts_ok_def dest: map_of_SomeD)+

lemma dicts_ok_set_table:
  assumes "dicts_ok b" "map_of (bm_databases b) db = Some m" "dict_ok (rt_parts raw)"
  shows "dicts_ok (set_table db tn m raw b)"
proof -
  let ?m = "m\<lparr>dm_tables := dict_set (dm_tables m) tn raw\<rparr>"
  have "dict_ok (dm_tables ?m)"
    using dicts_ok_D(1) [OF assms(1,2)] by simp
  moreover have "\<forall>t \<in> set (dm_tables ?m). dict_ok (rt_parts (snd t))"
    using set_dict_set [of tn raw "dm_tables m"] assms
    by (fastforce simp: dicts_ok_def dest: map_of_SomeD)
  ultimately show ?thesis
    using assms(1) set_dict_set [of db ?m "bm_databases b"]
    by (force simp: dicts_ok_def set_table_def)
qed

lemma dicts_ok_counts [simp]:
  "dicts_ok (count_part p b) = dicts_ok b" "dicts_ok (uncount_part p b) = dicts_ok b"
  by (simp_all add: dicts_ok_def count_part_def uncount_part_def)

lemma find_part_uncount [simp]:
  "bm_find_part db tn pn (uncount_part p b) = bm_find_part db tn pn b"
  by (simp add: bm_find_part_def uncount_part_def)

lemma dict_ok_delete: "dict_ok d \<Longrightarrow> dict_ok (AList.delete k d)"
  by (simp add: dict_ok_def distinct_delete)

lemma remove_part_inv:
  assumes inv: "sizes_ok b" "dicts_ok b" "listed_or_gone db tn (p # ps) b"
  shows "sizes_ok (snd (remove_part db tn p b)) \<and> dicts_ok (snd (remove_part db tn p b)) \<and>
         listed_or_gone db tn ps (snd (remove_part db tn p b))"
proof (cases "remove_part db tn p b")
  case (Pair r b')
  have tail: "listed_or_gone db tn ps b"
    using inv(3) by (simp add: listed_or_gone_def)
  show ?thesis
  proof (cases r)
    case (Inl e)
    with Pair inv tail show ?thesis
      by (auto simp: remove_part_def split: option.splits sum.splits)
  next
    case (Inr u)
    with Pair obtain m raw where m: "map_of (bm_databases b) db = Some m"
      and raw: "map_of (dm_tables m) tn = Some raw" and k: "pm_name p \<in> fst ` set (rt_parts raw)"
      and b': "b' = uncount_part p (set_table db tn m
                 (raw\<lparr>rt_parts := AList.delete (pm_name p) (rt_parts raw)\<rparr>) b)"
      by (auto simp: remove_part_def dict_del_def split: option.splits sum.splits if_splits)
    let ?raw = "raw\<lparr>rt_parts := AList.delete (pm_name p) (rt_parts raw)\<rparr>"
    from k obtain rp where rp: "map_of (rt_parts raw) (pm_name p) = Some rp"
      by (metis map_of_eq_None_iff not_None_eq)
    have p: "p = part_load db tn (pm_name p) rp"
      using inv(3) m raw rp by (simp add: listed_or_gone_def bm_find_part_def)
    have ok: "dict_ok (rt_parts raw)"
      using dicts_ok_D(2) [OF inv(2) m raw] .
    have sum: "table_sum f ?raw = table_sum f raw - f rp" for f
      using sum_list_delete_dict [OF ok rp, of "\<lambda>q. f (snd q)"] by (simp add: table_sum_def)
    have "part_size p = rp_bytes rp" "own_size p = own_bytes rp"
      by (subst p, simp)+
    then have "sizes_ok b'"
      using inv(1) by (simp add: b' sizes_ok_def bm_sum_set_table [OF m raw] sum)
    moreover have "dicts_ok b'"
      using dicts_ok_set_table [OF inv(2) m] ok by (simp add: b' dict_ok_delete)
    moreover have "bm_find_part db tn n b' \<in> {None, bm_find_part db tn n b}" for n
      unfolding b' find_part_uncount
      by (cases "n = pm_name p")
        (simp_all add: bm_find_part_def set_table_def m raw delete_conv')
    then have "listed_or_gone db tn ps b'"
      using tail unfolding listed_or_gone_def by (metis insertE insertCI singletonD)
    ultimately show ?thesis using Pair by simp
  qed
qed

lemma remove_parts_loop:
  "sizes_ok b \<Longrightarrow> dicts_ok b \<Longrightarrow> listed_or_gone db tn ps b \<Longrightarrow>
   sizes_ok (snd (for_act ps (\<lambda>p _. remove_part db tn p) () b))"
proof (induction ps arbitrary: b)
  case (Cons p ps)
  from remove_part_inv [OF Cons.prems] show ?case
    by (auto simp: bind_act_def split: prod.splits sum.splits intro: Cons.IH)
qed simp

theorem add_part_sizes_witness:
  "sizes_ok (snd (bm_add_part (sample_part (Some ''old'')) (sample_backup [] 0)))"
  by (rule add_part_sizes)
    (simp_all add: sample_simps sizes_ok_def bm_sum_def db_sum_def table_sum_def plain_link_def)

theorem add_table_sizes_witness:
  "sizes_ok (snd (bm_add_table (new_table_metadata ''d'' ''t2'' ''Log'' None) (sample_backup [] 0)))"
proof (rule add_table_sizes)
  show "sizes_ok (sample_backup [] 0)"
    by (simp add: sample_simps sizes_ok_def bm_sum_def db_sum_def table_sum_def)
  show "bm_add_table (new_table_metadata ''d'' ''t2'' ''Log'' None) (sample_backup [] 0)
      = (Inr (), snd (bm_add_table (new_table_metadata ''d'' ''t2'' ''Log'' None) (sample_backup [] 0)))"
    by (simp add: sample_simps bm_add_table_def new_table_metadata_def get_parts_def listed_parts_def Let_def)
qed

text \<open>C16. Removing parts keeps the counters right, also when a part is not listed (any more) and
  the loop stops with a \<open>KeyError\<close> half-way.\<close>

theorem remove_parts_sizes:
  assumes "sizes_ok b" "dicts_ok b"
    and "listed_or_gone (tm_database t) (tm_name t) ps b"
  shows "sizes_ok (snd (bm_remove_parts t ps b))"
  using assms remove_parts_loop by (auto simp: bm_remove_parts_def split: sum.splits)

theorem remove_parts_sizes_witness:
  "sizes_ok (snd (bm_remove_parts (new_table_metadata ''d'' ''t'' ''MergeTree'' None) [sample_part None]
     (sample_backup [(''all_1_1_0'', raw_of_part (sample_part None))] 5)))"
  by (rule remove_parts_sizes)
    (simp_all add: sample_simps sizes_ok_def bm_sum_def db_sum_def table_sum_def own_bytes_def dicts_ok_def
      listed_or_gone_def new_table_metadata_def bm_find_part_def part_load_def non_empty_def part_disk_name_def)

section \<open>Dump and load\<close>

lemma normalize_legacy_link:
  "normalize_backup_link (rp_link (legacy_link root rp)) = normalize_backup_link (rp_link rp)"
proof (cases "non_empty (rp_link rp)")
  case (Some l)
  then have l: "rp_link rp = Some l" "l \<noteq> []" by simp_all
  show ?thesis
  proof (cases "CHR ''/'' \<in> set l \<or> root = []")
    case True
    with l show ?thesis by (auto simp: legacy_link_def split: option.splits)
  next
    case False
    then have ns: "CHR ''/'' \<notin> set l" and "root \<noteq> []" by auto
    obtain pre where join: "path_join root l = pre @ CHR ''/'' # l"
    proof (cases "last root = CHR ''/''")
      case True
      with \<open>root \<noteq> []\<close> obtain pre where "root = pre @ [CHR ''/'']"
        by (metis append_butlast_last_id)
      with ns l that [of pre] show thesis
        by (cases l) (auto simp: path_join_def)
    next
      case False
      with ns l \<open>root \<noteq> []\<close> that [of root] show thesis
        by (cases l) (auto simp: path_join_def)
    qed
    have rs: "rstrip_chr CHR ''/'' l = l"
      using ns l by (metis last_in_set rstrip_chr_id)
    have "rstrip_chr CHR ''/'' (pre @ CHR ''/'' # l) = pre @ CHR ''/'' # l"
      using ns l by (intro rstrip_chr_id) (simp, metis last_in_set)
    with ns l \<open>root \<noteq> []\<close> join rs show ?thesis
      by (simp add: legacy_link_def normalize_backup_link_def base_name_append base_name_no_slash
          non_empty_def)
  qed
qed (auto simp: legacy_link_def)

lemma part_load_legacy [simp]: "part_load db tn pn (legacy_link root rp) = part_load db tn pn rp"
proof -
  have "rp_checksum (legacy_link root rp) = rp_checksum rp" "rp_bytes (legacy_link root rp) = rp_bytes rp"
    "rp_files (legacy_link root rp) = rp_files rp" "rp_tarball (legacy_link root rp) = rp_tarball rp"
    "rp_link_part_name (legacy_link root rp) = rp_link_part_name rp"
    "rp_disk_name (legacy_link root rp) = rp_disk_name rp"
    "rp_encrypted (legacy_link root rp) = rp_encrypted rp"
    by (simp_all add: legacy_link_def split: option.splits)
  then show ?thesis
    by (simp add: part_load_def normalize_legacy_link)
qed

lemma map_of_map_prod: "map_of (map (map_prod id f) d) k = map_option f (map_of d k)"
  by (induction d) auto

lemma find_part_legacy:
  "bm_find_part db tn pn (b\<lparr>bm_databases := map_raw_parts (legacy_link root) (bm_databases b)\<rparr>)
   = bm_find_part db tn pn b"
  by (auto simp: bm_find_part_def map_raw_parts_def map_of_map_prod option.map_comp comp_def
      split: option.splits)

lemma state_roundtrip [simp]: "state_of_value (state_value s) = Inr s"
  by (cases s) (simp_all add: state_of_value_def state_value_def)

lemma acl_roundtrip [simp]: "acl_load (acl_dump a) = Inr a"
  by (cases a; cases "ac_format a")
    (simp_all add: acl_load_def acl_dump_def storage_format_def format_value_def)

lemma cs_roundtrip [simp]: "cs_load (cs_dump c) = c"
  by (simp add: cs_load_def cs_dump_def)

lemma load_time_Some: "v \<noteq> [] \<Longrightarrow> tc_parse tc tf v = Inr t \<Longrightarrow> load_time tc tf (Some v) = Inr (Some t)"
  by (simp add: load_time_def)

text \<open>What the code relies on for a time: its text is not empty and reads back as the same time.\<close>

definition time_readable :: "time_codec \<Rightarrow> string \<Rightarrow> py_time option \<Rightarrow> bool" where
  "time_readable tc tf t \<longleftrightarrow>
     (case t of None \<Rightarrow> True | Some v \<Rightarrow> tc_format tc tf v \<noteq> [] \<and> tc_parse tc tf (tc_format tc tf v) = Inr v)"

lemma load_time_format:
  "time_readable tc tf t \<Longrightarrow> load_time tc tf (map_option (tc_format tc tf) t) = Inr t"
  by (cases t) (simp_all add: time_readable_def load_time_def)

lemma load_dump:
  assumes "bm_start_time b = Some t" "time_readable tc (bm_time_format b) (bm_start_time b)"
    and "time_readable tc (bm_time_format b) (bm_end_time b)"
  shows "bind_res (bm_dump tc False b) (bm_load tc)
         = Inr (b\<lparr>bm_databases := databases_with_legacy_part_links b\<rparr>)"
  using load_time_format [OF assms(2)] load_time_format [OF assms(3)]
  by (simp add: bm_dump_def bm_load_def load_body_def need_def option_or_def assms(1)
      load_access_control_def)



end
