(* ===== verification/Calculators.thy ===== *)
theory Calculators
  imports PyStr
begin

text \<open>
  The size calculators (\<^verbatim>\<open>calculators.py\<close>) and the iteration helper \<open>chunked\<close> (\<^verbatim>\<open>util.py\<close>).
  \<open>calc_encrypted_size\<close> divides floating point numbers in the code; the model divides exactly,
  which is the same as long as the sizes are below \<open>2 ^ 53\<close>.
\<close>

definition BLOCKSIZE :: int where "BLOCKSIZE = 512"

definition LENGTH_NAME :: int where "LENGTH_NAME = 100"

definition ceil_div :: "int \<Rightarrow> int \<Rightarrow> int" where
  "ceil_div a b = - ((- a) div b)"

definition align_size :: "int \<Rightarrow> int \<Rightarrow> int" where
  "align_size alignment n = (if n mod alignment > 0 then n + (alignment - n mod alignment) else n)"

definition calc_aligned_sizes :: "int \<Rightarrow> int list \<Rightarrow> int" where
  "calc_aligned_sizes alignment sizes = fold (\<lambda>n total. total + align_size alignment n) sizes 0"

definition calc_aligned_data_size :: "string list \<Rightarrow> int \<Rightarrow> int" where
  "calc_aligned_data_size data_list alignment =
     calc_aligned_sizes alignment (map (\<lambda>d. int (length d)) data_list)"

definition tar_entry_overhead :: "string \<Rightarrow> int" where
  "tar_entry_overhead name =
     (if int (length name) \<le> LENGTH_NAME then BLOCKSIZE
      else (ceil_div (int (length name)) BLOCKSIZE + 2) * BLOCKSIZE)"

definition calc_tarball_size :: "string list \<Rightarrow> int \<Rightarrow> int" where
  "calc_tarball_size names aligned_files_size =
     fold (\<lambda>name total. total + tar_entry_overhead name) names aligned_files_size"

definition calc_encrypted_size :: "int \<Rightarrow> int \<Rightarrow> int \<Rightarrow> int" where
  "calc_encrypted_size data_size encrypt_chunk_size encrypt_metadata_size =
     data_size + ceil_div data_size encrypt_chunk_size * encrypt_metadata_size"

text \<open>\<open>chunked(iterable, n)\<close> for \<open>n >= 1\<close> (\<open>ValueError\<close> otherwise).\<close>

function chunks_of :: "nat \<Rightarrow> 'a list \<Rightarrow> 'a list list" where
  "chunks_of n xs = (if n = 0 \<or> xs = [] then [] else take n xs # chunks_of n (drop n xs))"
  by pat_completeness auto
termination by (relation "measure (\<lambda>(n, xs). length xs)") auto

declare chunks_of.simps [simp del]

lemma chunks_of_Nil [simp]: "chunks_of n [] = []"
  by (simp add: chunks_of.simps)

definition chunked :: "nat \<Rightarrow> 'a list \<Rightarrow> 'a list list res" where
  "chunked n xs = (if n < 1 then Inl ValueError else Inr (chunks_of n xs))"

lemma fold_add_sum:
  fixes f :: "'a \<Rightarrow> int"
  shows "fold (\<lambda>x t. t + f x) xs c = c + (\<Sum>x \<leftarrow> xs. f x)"
  by (induction xs arbitrary: c) simp_all

lemma calc_tarball_size_sum:
  "calc_tarball_size names a = a + (\<Sum>n \<leftarrow> names. tar_entry_overhead n)"
  by (simp add: calc_tarball_size_def fold_add_sum)

lemma calc_aligned_sizes_sum: "calc_aligned_sizes al sizes = (\<Sum>n \<leftarrow> sizes. align_size al n)"
  by (simp add: calc_aligned_sizes_def fold_add_sum)

lemma chunks_of_concat: "0 < n \<Longrightarrow> concat (chunks_of n xs) = xs"
proof (induction n xs rule: chunks_of.induct)
  case (1 n xs)
  then show ?case by (cases "xs = []") (simp_all add: chunks_of.simps [of n xs])
qed

lemma chunks_of_set: "ys \<in> set (chunks_of n xs) \<Longrightarrow> set ys \<subseteq> set xs"
proof (induction n xs rule: chunks_of.induct)
  case (1 n xs)
  then show ?case
    by (subst (asm) (2) chunks_of.simps) (auto split: if_splits dest: in_set_takeD in_set_dropD)
qed

lemma chunks_of_lengths: "ys \<in> set (chunks_of n xs) \<Longrightarrow> 0 < length ys \<and> length ys \<le> n"
proof (induction n xs rule: chunks_of.induct)
  case (1 n xs)
  then show ?case
    by (subst (asm) (2) chunks_of.simps) (auto split: if_splits)
qed

lemma ceil_div_bounds:
  assumes "0 < b" shows "a \<le> ceil_div a b * b" "ceil_div a b * b < a + b"
proof -
  define q r where "q = (- a) div b" and "r = (- a) mod b"
  have "b * q + r = - a" "0 \<le> r" "r < b"
    unfolding q_def r_def using assms by simp_all
  then show "a \<le> ceil_div a b * b" "ceil_div a b * b < a + b"
    unfolding ceil_div_def q_def [symmetric] by (simp_all add: mult.commute)
qed

lemma ceil_div_unique:
  assumes "0 < b" "a \<le> q * b" "q * b < a + b" shows "ceil_div a b = q"
proof -
  have "ceil_div a b * b < (q + 1) * b" "q * b < (ceil_div a b + 1) * b"
    using ceil_div_bounds [OF assms(1), of a] assms by (simp_all add: algebra_simps)
  with assms(1) show ?thesis by simp
qed

lemma align_size_multiple:
  assumes "0 < al" shows "al dvd align_size al n" "n \<le> align_size al n" "align_size al n < n + al"
proof -
  have m: "0 \<le> n mod al" "n mod al < al" using assms by simp_all
  have "n + (al - n mod al) = al * (n div al + 1)"
    by (simp add: algebra_simps)
  then show "al dvd align_size al n" "n \<le> align_size al n" "align_size al n < n + al"
    using m unfolding align_size_def by auto
qed

end
