(* ===== verification/Storage.thy ===== *)
theory Storage
  imports BackupOps Calculators
begin

text \<open>
  The interface of the storage loader (\<^verbatim>\<open>storage/loader.py\<close>) as its clients see it, and the local
  file system calls of the layout. \<open>'w\<close> is the state of the world outside the process (object
  storage, local disks, ClickHouse) together with the jobs that wait in the process pool.

  The locale \<open>storage_loader\<close> states what the clients rely on:
  \<^item> \<open>intact k c w\<close>: the object \<open>k\<close> is stored with content \<open>c\<close> and no waiting job will change it;
  \<^item> \<open>decode e c\<close>: what downloading content \<open>c\<close> gives, with decryption if \<open>e\<close>;
  \<^item> \<open>idle w\<close>: no job is waiting.
\<close>

datatype file_target = LocalPath string | OpenedFile string

record 'w loader =
  ld_upload_data :: "string \<Rightarrow> string \<Rightarrow> bool \<Rightarrow> ('w, unit) act"
  ld_upload_data_tarball :: "string list \<Rightarrow> string list \<Rightarrow> string \<Rightarrow> bool \<Rightarrow> bool \<Rightarrow> ('w, unit) act"
  ld_upload_file :: "string \<Rightarrow> string \<Rightarrow> bool \<Rightarrow> ('w, unit) act"
  ld_upload_files_tarball ::
    "string \<Rightarrow> string \<Rightarrow> string list \<Rightarrow> bool \<Rightarrow> bool \<Rightarrow> bool \<Rightarrow> part_metadata option \<Rightarrow> ('w, unit) act"
  ld_upload_files_tarball_scan ::
    "string \<Rightarrow> string \<Rightarrow> string \<Rightarrow> string list \<Rightarrow> bool \<Rightarrow> bool \<Rightarrow> bool \<Rightarrow> ('w, unit) act"
  ld_download_data :: "string \<Rightarrow> bool \<Rightarrow> ('w, string) act"
  ld_download_data_tarball :: "string \<Rightarrow> bool \<Rightarrow> bool \<Rightarrow> ('w, (string \<times> string) list) act"
  ld_download_file :: "string \<Rightarrow> file_target \<Rightarrow> bool \<Rightarrow> bool \<Rightarrow> bool \<Rightarrow> ('w, unit) act"
  ld_download_files ::
    "string \<Rightarrow> string \<Rightarrow> bool \<Rightarrow> bool \<Rightarrow> bool \<Rightarrow> part_metadata option \<Rightarrow> ('w, unit) act"
  ld_delete_files :: "string list \<Rightarrow> ('w, unit) act"
  ld_wait :: "bool \<Rightarrow> ('w, unit) act"
  ld_list_dir :: "string \<Rightarrow> bool \<Rightarrow> bool \<Rightarrow> ('w, string list) act"
  ld_path_exists :: "string \<Rightarrow> bool \<Rightarrow> ('w, bool) act"
  ld_get_file_size :: "string \<Rightarrow> ('w, int) act"

text \<open>Local files: \<open>fs_scan\<close> lists the files below a directory, as \<open>scan_dir_files\<close> does.\<close>

record 'w file_system =
  fs_read_bytes :: "string \<Rightarrow> ('w, string) act"
  fs_write_text :: "string \<Rightarrow> string \<Rightarrow> ('w, unit) act"
  fs_scan :: "string \<Rightarrow> string list \<Rightarrow> ('w, string list) act"
  fs_makedirs :: "string \<Rightarrow> ('w, unit) act"
  fs_exists :: "string \<Rightarrow> ('w, bool) act"
  fs_open_write :: "string \<Rightarrow> ('w, unit) act"

text \<open>The S3 key of a remote path. Most engine calls strip leading slashes; the multipart upload does not,
  so an upload may write to the path as it is, too.\<close>

definition object_key :: "string \<Rightarrow> string" where
  "object_key path = lstrip_chr CHR ''/'' path"

lemma object_key_idem [simp]: "object_key (object_key p) = object_key p"
  by (induction p) (simp_all add: object_key_def lstrip_chr_def)

text \<open>The prefix under which \<open>list_dir\<close> looks for the objects of a directory.\<close>

definition dir_prefix :: "string \<Rightarrow> string" where
  "dir_prefix path = rstrip_chr CHR ''/'' (lstrip_chr CHR ''/'' path) @ ''/''"

locale storage_loader =
  fixes ld :: "'w loader"
    and intact :: "string \<Rightarrow> 'o \<Rightarrow> 'w \<Rightarrow> bool"
    and decode :: "bool \<Rightarrow> 'o \<Rightarrow> string res"
    and idle :: "'w \<Rightarrow> bool"
  assumes upload_data_keeps:
      "k \<noteq> p \<Longrightarrow> k \<noteq> object_key p \<Longrightarrow> keeps (intact k c) (ld_upload_data ld d p e)"
    and download_data_keeps: "keeps (intact k c) (ld_download_data ld p e)"
    and delete_files_keeps:
      "k \<notin> object_key ` set ps \<Longrightarrow> keeps (intact k c) (ld_delete_files ld ps)"
    and wait_keeps: "keeps (intact k c) (ld_wait ld kg)"
    and list_dir_keeps: "keeps (intact k c) (ld_list_dir ld p rec absolute)"
    and path_exists_keeps: "keeps (intact k c) (ld_path_exists ld p dir)"
    and get_file_size_keeps: "keeps (intact k c) (ld_get_file_size ld p)"
    and download_data_decodes:
      "intact (object_key p) c w \<Longrightarrow> ld_download_data ld p e w = (Inr d, w') \<Longrightarrow> decode e c = Inr d"
    and list_dir_prefix:
      "ld_list_dir ld p True True w = (Inr ks, w') \<Longrightarrow> k \<in> set ks \<Longrightarrow> prefix (dir_prefix p) k"
    and wait_idle: "ld_wait ld kg w = (Inr (), w') \<Longrightarrow> idle w'"
    and upload_data_stores:
      "idle w \<Longrightarrow> object_key p = p \<Longrightarrow> d \<noteq> [] \<Longrightarrow> ld_upload_data ld d p e w = (Inr (), w') \<Longrightarrow>
         \<exists>c. intact p c w' \<and> decode e c = Inr d"
    and upload_data_idle: "keeps idle (ld_upload_data ld d p e)"
begin

lemmas loader_keeps =
  upload_data_keeps download_data_keeps delete_files_keeps wait_keeps list_dir_keeps
  path_exists_keeps get_file_size_keeps

end

end
