(* ===== verification/Fifo.thy ===== *)
theory Fifo
  imports Prelude
begin

text \<open>
  The circular byte buffer of the pipelines (\<^verbatim>\<open>storage/async_pipeline/base_pipeline/bytes_fifo.py\<close>).

  \<open>fifo\<close> is the object as the code has it: the bytes of the \<open>BytesIO\<close>, the size, the number of bytes
  filled and the two pointers. \<open>fifo_content\<close> is the queue it represents. The locale \<open>byte_queue\<close>
  states what a client relies on; \<open>fifo\<close> is shown to provide it, so the arithmetic of the pointers
  (a read or write may wrap around the end, and a pointer may rest at the end) stays in this file.
\<close>

section \<open>BytesIO\<close>

definition bio_read :: "char list \<Rightarrow> nat \<Rightarrow> nat \<Rightarrow> char list" where
  "bio_read buf pos n = take n (drop pos buf)"

text \<open>Writing behind the end fills the gap with zero bytes.\<close>

definition bio_write :: "char list \<Rightarrow> nat \<Rightarrow> char list \<Rightarrow> char list" where
  "bio_write buf pos data =
     (if data = [] then buf
      else take pos (buf @ replicate (pos - length buf) (CHR 0x00)) @ data @ drop (pos + length data) buf)"

section \<open>The FIFO\<close>

record fifo =
  ff_buffer :: "char list"
  ff_size :: nat
  ff_filled :: nat
  ff_read_ptr :: nat
  ff_write_ptr :: nat

definition new_fifo :: "nat \<Rightarrow> fifo" where
  "new_fifo init_size =
     \<lparr>ff_buffer = replicate init_size (CHR 0x00), ff_size = init_size, ff_filled = 0,
      ff_read_ptr = 0, ff_write_ptr = 0\<rparr>"

definition fifo_free :: "fifo \<Rightarrow> nat" where
  "fifo_free f = ff_size f - ff_filled f"

definition fifo_empty :: "fifo \<Rightarrow> bool" where
  "fifo_empty f \<longleftrightarrow> ff_filled f = 0"

definition fifo_full :: "fifo \<Rightarrow> bool" where
  "fifo_full f \<longleftrightarrow> ff_filled f = ff_size f"

definition fifo_capacity :: "fifo \<Rightarrow> nat" where
  "fifo_capacity f = ff_size f"

definition fifo_flush :: "fifo \<Rightarrow> fifo" where
  "fifo_flush f = f\<lparr>ff_filled := 0, ff_read_ptr := 0, ff_write_ptr := 0\<rparr>"

definition fifo_read :: "int \<Rightarrow> fifo \<Rightarrow> char list \<times> fifo" where
  "fifo_read size0 f =
     (let size1 = (if size0 < 0 then ff_filled f else nat size0);
          size' = min size1 (ff_filled f);
          contiguous_size = ff_size f - ff_read_ptr f;
          contiguous_read = min contiguous_size size';
          ret1 = bio_read (ff_buffer f) (ff_read_ptr f) contiguous_read;
          leftover = size' - contiguous_read
      in if contiguous_read < size'
         then (ret1 @ bio_read (ff_buffer f) 0 leftover,
               f\<lparr>ff_read_ptr := leftover, ff_filled := ff_filled f - size'\<rparr>)
         else (ret1, f\<lparr>ff_read_ptr := ff_read_ptr f + contiguous_read,
                       ff_filled := ff_filled f - size'\<rparr>))"

definition fifo_write :: "char list \<Rightarrow> fifo \<Rightarrow> nat \<times> fifo" where
  "fifo_write data f =
     (let write_size = min (length data) (fifo_free f);
          contiguous_size = ff_size f - ff_write_ptr f;
          contiguous_write = min contiguous_size write_size;
          buf1 = bio_write (ff_buffer f) (ff_write_ptr f) (take contiguous_write data);
          f1 = (if write_size = 0 then f
                else if contiguous_size < write_size
                then f\<lparr>ff_buffer := bio_write buf1 0 (drop contiguous_write (take write_size data)),
                       ff_write_ptr := write_size - contiguous_write\<rparr>
                else f\<lparr>ff_buffer := buf1, ff_write_ptr := ff_write_ptr f + contiguous_write\<rparr>)
      in (write_size, f1\<lparr>ff_filled := ff_filled f + write_size\<rparr>))"

definition fifo_resize :: "int \<Rightarrow> fifo \<Rightarrow> fifo res" where
  "fifo_resize new_size f =
     (if new_size < 1 then Inl ValueError
      else if new_size < int (ff_filled f) then Inl ValueError
      else
        (let f1 = (if ff_read_ptr f \<ge> ff_write_ptr f then
                     (case fifo_read (int (ff_filled f)) f of (old_data, g) \<Rightarrow>
                        g\<lparr>ff_buffer := bio_write (ff_buffer g) 0 old_data, ff_filled := length old_data,
                          ff_read_ptr := 0, ff_write_ptr := length old_data\<rparr>)
                   else f)
         in Inr (f1\<lparr>ff_size := nat new_size\<rparr>)))"

section \<open>The queue it represents\<close>

text \<open>The pointers: the buffer is as long as the size; the write pointer is \<open>filled\<close> places behind the
  read pointer, modulo the size; both may rest at the end.\<close>

definition fifo_ok :: "fifo \<Rightarrow> bool" where
  "fifo_ok f \<longleftrightarrow> length (ff_buffer f) = ff_size f \<and> ff_filled f \<le> ff_size f \<and>
     ff_read_ptr f \<le> ff_size f \<and> ff_write_ptr f \<le> ff_size f \<and>
     (ff_read_ptr f + ff_filled f = ff_write_ptr f \<or>
      ff_read_ptr f + ff_filled f = ff_write_ptr f + ff_size f)"

definition fifo_content :: "fifo \<Rightarrow> char list" where
  "fifo_content f =
     take (ff_filled f) (drop (ff_read_ptr f) (ff_buffer f) @ take (ff_read_ptr f) (ff_buffer f))"

locale byte_queue =
  fixes ok :: "'q \<Rightarrow> bool" and content :: "'q \<Rightarrow> char list" and capacity :: "'q \<Rightarrow> nat"
    and qlen :: "'q \<Rightarrow> nat" and qread :: "int \<Rightarrow> 'q \<Rightarrow> char list \<times> 'q"
    and qwrite :: "char list \<Rightarrow> 'q \<Rightarrow> nat \<times> 'q"
  assumes qlen: "ok q \<Longrightarrow> qlen q = length (content q)"
    and bound: "ok q \<Longrightarrow> length (content q) \<le> capacity q"
    and read_all: "ok q \<Longrightarrow> n < 0 \<Longrightarrow> fst (qread n q) = content q \<and> content (snd (qread n q)) = []"
    and read_some: "ok q \<Longrightarrow> fst (qread (int m) q) = take m (content q) \<and>
                     content (snd (qread (int m) q)) = drop m (content q)"
    and read_ok: "ok q \<Longrightarrow> ok (snd (qread n q)) \<and> capacity (snd (qread n q)) = capacity q"
    and write_count: "ok q \<Longrightarrow> fst (qwrite d q) = min (length d) (capacity q - length (content q))"
    and write_content: "ok q \<Longrightarrow> content (snd (qwrite d q)) = content q @ take (fst (qwrite d q)) d"
    and write_ok: "ok q \<Longrightarrow> ok (snd (qwrite d q)) \<and> capacity (snd (qwrite d q)) = capacity q"

section \<open>The FIFO is a queue\<close>

lemma fifo_content_length: "fifo_ok f \<Longrightarrow> length (fifo_content f) = ff_filled f"
  by (auto simp: fifo_ok_def fifo_content_def)

lemma new_fifo_ok [simp]: "fifo_ok (new_fifo n)" "fifo_content (new_fifo n) = []"
  "fifo_capacity (new_fifo n) = n"
  by (simp_all add: fifo_ok_def new_fifo_def fifo_content_def fifo_capacity_def)

lemma fifo_flush_ok: "fifo_ok f \<Longrightarrow> fifo_ok (fifo_flush f) \<and> fifo_content (fifo_flush f) = []"
  by (simp add: fifo_ok_def fifo_flush_def fifo_content_def)

lemma rotate_split: "r \<le> length B \<Longrightarrow> drop r B @ take r B = rotate r B"
  by (cases "r = length B") (simp_all add: rotate_drop_take)

lemma fifo_content_rotate:
  "fifo_ok f \<Longrightarrow> fifo_content f = take (ff_filled f) (rotate (ff_read_ptr f) (ff_buffer f))"
  by (simp add: fifo_content_def rotate_split fifo_ok_def)

text \<open>A read of \<open>m\<close> bytes, \<open>m\<close> at most the number filled.\<close>

lemma fifo_read_exact:
  assumes "fifo_ok f" "m \<le> ff_filled f"
  shows "fst (fifo_read (int m) f) = take m (fifo_content f) \<and>
         fifo_ok (snd (fifo_read (int m) f)) \<and>
         fifo_content (snd (fifo_read (int m) f)) = drop m (fifo_content f)"
proof -
  define B r n k where "B = ff_buffer f" and "r = ff_read_ptr f" and "n = ff_size f" and "k = ff_filled f"
  have B: "length B = n" "r \<le> n" "k \<le> n" "m \<le> k"
    using assms by (auto simp: fifo_ok_def B_def r_def n_def k_def)
  let ?p = "if m \<le> n - r then r + m else m - (n - r)"
  let ?g = "f\<lparr>ff_read_ptr := ?p, ff_filled := k - m\<rparr>"
  have ok: "fifo_ok ?g"
    using assms(1) B by (auto simp: fifo_ok_def r_def n_def k_def)
  have fields: "ff_buffer f = B" "ff_read_ptr f = r" "ff_size f = n" "ff_filled f = k" "min m k = m"
    using B by (simp_all add: B_def r_def n_def k_def)
  have res: "fifo_read (int m) f = (take m (drop r B @ take r B), ?g)"
  proof (cases "m \<le> n - r")
    case True
    then have "min (n - r) m = m" "take m (drop r B @ take r B) = take m (drop r B)" using B by simp_all
    with True show ?thesis
      by (simp only: fifo_read_def bio_read_def Let_def fields of_nat_less_0_iff if_False nat_int
          less_irrefl if_True)
  next
    case False
    then have mi: "min (n - r) m = n - r" "n - r < m" by simp_all
    have "take m (drop r B @ take r B) = take (n - r) (drop r B) @ take (m - (n - r)) (drop 0 B)"
    proof -
      have "m - (n - r) \<le> r" using B by simp
      then have "take (m - (n - r)) (take r B) = take (m - (n - r)) B" by (simp add: min_absorb1)
      moreover have "take m (drop r B) = drop r B" "take (n - r) (drop r B) = drop r B"
        using B False by simp_all
      moreover have "length (drop r B) = n - r" using B by simp
      ultimately show ?thesis by (simp only: take_append drop_0)
    qed
    then show ?thesis using mi
      by (simp only: fifo_read_def bio_read_def Let_def fields mi of_nat_less_0_iff if_False
          nat_int if_True)
        (use False in simp)
  qed
  have out: "fst (fifo_read (int m) f) = take m (rotate r B)" and g: "snd (fifo_read (int m) f) = ?g"
    using res B by (simp_all add: rotate_split)
  have pr: "rotate ?p B = rotate (r + m) B"
  proof (cases "m \<le> n - r")
    case False
    then have "r + m = (m - (n - r)) + n" using B by simp
    then have "(r + m) mod n = (m - (n - r)) mod n" by (simp only: mod_add_self2)
    then show ?thesis
      using False B(1) by (metis rotate_conv_mod)
  qed simp
  also have sw: "rotate (r + m) B = drop m (rotate r B) @ take m (rotate r B)"
    using B rotate_split [of m "rotate r B"] by (simp add: rotate_rotate add.commute)
  finally have "take (k - m) (rotate ?p B) = take (k - m) (drop m (rotate r B) @ take m (rotate r B))"
    by (rule arg_cong)
  also have "\<dots> = take (k - m) (drop m (rotate r B))" using B by simp
  also have "\<dots> = drop m (take k (rotate r B))" by (simp add: drop_take)
  finally have c1: "fifo_content ?g = drop m (fifo_content f)"
    using fifo_content_rotate [OF ok] fifo_content_rotate [OF assms(1)]
    by (simp add: B_def r_def k_def)
  have c2: "take m (rotate r B) = take m (fifo_content f)"
    using B fifo_content_rotate [OF assms(1)] fields by (simp only: take_take fields)
  show ?thesis using ok out g c1 c2 by (simp only: simp_thms)
qed

lemma fifo_read_clamp:
  "fifo_read (int m) f = fifo_read (int (min m (ff_filled f))) f"
  "n < 0 \<Longrightarrow> fifo_read n f = fifo_read (int (ff_filled f)) f"
  by (simp_all add: fifo_read_def Let_def)

lemma fifo_read_capacity [simp]: "fifo_capacity (snd (fifo_read n f)) = fifo_capacity f"
  by (simp add: fifo_read_def Let_def fifo_capacity_def)

text \<open>A write at a pointer, seen from that pointer.\<close>

lemma circular_write:
  assumes "length B = n" "p \<le> n" "length d \<le> n" "d \<noteq> []"
    and "B' = (if length d \<le> n - p then bio_write B p d
               else bio_write (bio_write B p (take (n - p) d)) 0 (drop (n - p) d))"
  shows "length B' = n \<and> rotate p B' = d @ drop (length d) (rotate p B)"
proof (cases "length d \<le> n - p")
  case True
  then have B': "B' = take p B @ d @ drop (p + length d) B"
    using assms by (simp add: bio_write_def)
  then have len: "length B' = n" using True assms(1,2) by simp
  have "rotate p B' = drop p B' @ take p B'"
    using len assms(2) by (simp add: rotate_split)
  also have "\<dots> = d @ drop (p + length d) B @ take p B"
    using assms(1,2) by (simp add: B')
  also have "drop (p + length d) B @ take p B = drop (length d) (drop p B @ take p B)"
    using True assms(1,2) by (simp add: add.commute)
  finally show ?thesis using len assms(1,2) by (simp add: rotate_split)
next
  case False
  let ?c = "n - p"
  have B1: "bio_write B p (take ?c d) = take p B @ take ?c d"
  proof -
    have "take ?c d \<noteq> [] \<or> p = n" "p = n \<Longrightarrow> take p B = B" using False assms(1,2) by auto
    then show ?thesis using False assms(1,2) by (auto simp: bio_write_def)
  qed
  have B': "B' = drop ?c d @ drop (length d - ?c) (take p B) @ take ?c d"
  proof -
    have ne: "drop ?c d \<noteq> []" using False by simp
    have "drop (length (drop ?c d)) (take p B @ take ?c d)
        = drop (length d - ?c) (take p B) @ take ?c d"
      using assms(1-3) False by simp
    then have "bio_write (take p B @ take ?c d) 0 (drop ?c d)
        = drop ?c d @ drop (length d - ?c) (take p B) @ take ?c d"
      unfolding bio_write_def using ne by simp
    with False assms(5) show ?thesis by (simp only: B1 if_False)
  qed
  then have len: "length B' = n" using False assms(1-3) by simp
  have pre: "length (drop ?c d @ drop (length d - ?c) (take p B)) = p"
    using False assms(1-3) by simp
  have "rotate p B' = drop p B' @ take p B'"
    using len assms(2) by (simp add: rotate_split)
  also have "\<dots> = take ?c d @ drop ?c d @ drop (length d - ?c) (take p B)"
    using pre B' by (metis append_assoc append_eq_conv_conj)
  also have "\<dots> = d @ drop (length d - ?c) (take p B)" by simp
  also have "drop (length d - ?c) (take p B) = drop (length d) (drop p B @ take p B)"
    using False assms(1,2) by simp
  finally show ?thesis using len assms(1,2) by (simp add: rotate_split)
qed

lemma fifo_write_ok:
  assumes "fifo_ok f"
  shows "fst (fifo_write d f) = min (length d) (fifo_free f) \<and>
         fifo_ok (snd (fifo_write d f)) \<and>
         fifo_content (snd (fifo_write d f)) = fifo_content f @ take (fst (fifo_write d f)) d \<and>
         fifo_capacity (snd (fifo_write d f)) = fifo_capacity f"
proof (cases "min (length d) (fifo_free f) = 0")
  case True
  then show ?thesis using assms
    by (simp add: fifo_write_def Let_def)
next
  case False
  define B r p n k w where "B = ff_buffer f" and "r = ff_read_ptr f" and "p = ff_write_ptr f"
    and "n = ff_size f" and "k = ff_filled f" and "w = min (length d) (n - k)"
  have B: "length B = n" "r \<le> n" "p \<le> n" "k \<le> n" "w \<le> n - k" "0 < w" "w \<le> length d"
    and pk: "r + k = p \<or> r + k = p + n"
    using assms False
    by (auto simp: fifo_ok_def B_def r_def p_def n_def k_def w_def fifo_free_def)
  let ?d = "take w d"
  define B' where "B' = (if length ?d \<le> n - p then bio_write B p ?d
      else bio_write (bio_write B p (take (n - p) ?d)) 0 (drop (n - p) ?d))"
  define p' where "p' = (if w \<le> n - p then p + w else w - (n - p))"
  let ?g = "f\<lparr>ff_buffer := B', ff_write_ptr := p', ff_filled := k + w\<rparr>"
  have fields: "ff_buffer f = B" "ff_write_ptr f = p" "ff_size f = n" "ff_filled f = k"
    "min (length d) (fifo_free f) = w" "length ?d = w"
    using B by (simp_all add: B_def p_def n_def k_def w_def fifo_free_def)
  have res: "fifo_write d f = (w, ?g)"
  proof (cases "w \<le> n - p")
    case True
    then have "min (n - p) w = w" by simp
    with True B(6) show ?thesis by (simp add: fifo_write_def Let_def fields B'_def p'_def)
  next
    case False
    then have mi: "min (n - p) w = n - p" "n - p < w" by simp_all
    have "take (n - p) (take w d) = take (n - p) d" using mi(2) by (simp add: min_absorb1)
    with mi False B(6) show ?thesis
      by (simp only: fifo_write_def Let_def fields B'_def p'_def if_True if_False less_numeral_extra) simp
  qed
  have len: "length B' = n" and rot: "rotate p B' = ?d @ drop w (rotate p B)"
  proof -
    have "?d \<noteq> []" using B by auto
    then show "length B' = n" "rotate p B' = ?d @ drop w (rotate p B)"
      using circular_write [OF B(1,3) _ _ B'_def] B fields(6) by simp_all
  qed
  have ok: "fifo_ok ?g"
    using assms B pk len by (auto simp: fifo_ok_def p'_def r_def n_def k_def p_def)
  let ?X = "rotate r B" and ?X' = "rotate r B'"
  have rp: "rotate p Y = rotate k (rotate r Y)" if "length Y = n" for Y :: "char list"
    using pk that by (metis add.commute mod_add_self2 rotate_conv_mod rotate_rotate)
  have "drop k ?X' @ take k ?X' = ?d @ drop w (drop k ?X @ take k ?X)"
    using rot B len by (simp add: rp rotate_split)
  also have "\<dots> = (?d @ drop (w + k) ?X) @ take k ?X"
    using B by simp
  finally have "take k ?X' = take k ?X \<and> drop k ?X' = ?d @ drop (w + k) ?X"
    using B len by (subst (asm) append_eq_append_conv) auto
  then have "take (k + w) ?X' = take k ?X @ ?d"
    using B by (simp add: take_add)
  then have "fifo_content ?g = fifo_content f @ ?d"
    using fifo_content_rotate [OF ok] fifo_content_rotate [OF assms]
    by (simp add: B_def r_def k_def)
  with ok res show ?thesis
    by (simp add: fifo_capacity_def fifo_free_def w_def n_def k_def)
qed

interpretation fifo_queue: byte_queue fifo_ok fifo_content fifo_capacity ff_filled fifo_read fifo_write
proof
  fix q n m d assume q: "fifo_ok q"
  have len: "ff_filled q = length (fifo_content q)" using fifo_content_length [OF q] by simp
  show "ff_filled q = length (fifo_content q)" by (rule len)
  show "length (fifo_content q) \<le> fifo_capacity q"
    using q len by (simp add: fifo_ok_def fifo_capacity_def)
  show "fst (fifo_read n q) = fifo_content q \<and> fifo_content (snd (fifo_read n q)) = []" if "n < 0"
    using fifo_read_exact [OF q, of "ff_filled q"] that by (simp add: fifo_read_clamp(2) len)
  show "fst (fifo_read (int m) q) = take m (fifo_content q) \<and>
      fifo_content (snd (fifo_read (int m) q)) = drop m (fifo_content q)"
    using fifo_read_exact [OF q, of "min m (ff_filled q)"] len
    by (subst (1 2) fifo_read_clamp(1)) (auto simp: min_def)
  show "fifo_ok (snd (fifo_read n q)) \<and> fifo_capacity (snd (fifo_read n q)) = fifo_capacity q"
  proof (cases "n < 0")
    case True
    then show ?thesis using fifo_read_exact [OF q, of "ff_filled q"] by (simp add: fifo_read_clamp(2))
  next
    case False
    then have "n = int (nat n)" by simp
    then show ?thesis
      using fifo_read_exact [OF q, of "min (nat n) (ff_filled q)"]
      by (metis fifo_read_capacity fifo_read_clamp(1) min.cobounded2)
  qed
  show "fst (fifo_write d q) = min (length d) (fifo_capacity q - length (fifo_content q))"
    using fifo_write_ok [OF q, of d] len by (simp add: fifo_free_def fifo_capacity_def)
  show "fifo_content (snd (fifo_write d q)) = fifo_content q @ take (fst (fifo_write d q)) d"
    using fifo_write_ok [OF q, of d] by simp
  show "fifo_ok (snd (fifo_write d q)) \<and> fifo_capacity (snd (fifo_write d q)) = fifo_capacity q"
    using fifo_write_ok [OF q, of d] by simp
qed

text \<open>C17. The circular buffer is a first-in first-out queue: a write appends as many bytes as are
  free, a read takes bytes from the front, whatever the positions of the two pointers.\<close>

theorem fifo_is_queue:
  assumes "fifo_ok f"
  shows "fifo_content (snd (fifo_write d f)) = fifo_content f @ take (fifo_free f) d \<and>
    fst (fifo_write d f) = min (length d) (fifo_free f) \<and>
    fst (fifo_read (int m) f) = take m (fifo_content f) \<and>
    fifo_content (snd (fifo_read (int m) f)) = drop m (fifo_content f) \<and>
    fifo_ok (snd (fifo_write d f)) \<and> fifo_ok (snd (fifo_read (int m) f))"
proof (intro conjI)
  have "take (min (length d) (fifo_free f)) d = take (fifo_free f) d" by (simp add: min_def)
  then show "fifo_content (snd (fifo_write d f)) = fifo_content f @ take (fifo_free f) d"
    using fifo_write_ok [OF assms, of d] by simp
  show "fst (fifo_write d f) = min (length d) (fifo_free f)"
    using fifo_write_ok [OF assms, of d] by simp
qed (use fifo_queue.read_some [OF assms] fifo_queue.read_ok [OF assms] fifo_queue.write_ok [OF assms] in auto)

theorem fifo_is_queue_witness:
  "fifo_content (snd (fifo_write ''abcdef'' (new_fifo 4))) = ''abcd''"
proof -
  have ok: "fifo_ok (new_fifo 4)" by (simp add: fifo_ok_def new_fifo_def)
  have "fifo_content (new_fifo 4) = []" "fifo_free (new_fifo 4) = 4"
    by (simp_all add: fifo_content_def fifo_free_def new_fifo_def)
  with fifo_is_queue [OF ok, of "''abcdef''" 0] show ?thesis by simp
qed

end
