(* ===== verification/Chunking.thy ===== *)
theory Chunking
  imports Fifo Calculators
begin

text \<open>
  Stages that cut and limit a stream of byte blocks: \<^verbatim>\<open>stages/filesystem/chunking_stage.py\<close>,
  \<^verbatim>\<open>base_pipeline/rate_limiter.py\<close> and \<^verbatim>\<open>stages/storage/rate_limiter_stage.py\<close>.

  The two loops of the chunking stage are partial functions: with a chunk size of zero the code does
  not return. The reference is \<open>chunks_of\<close>, the cutting of the whole stream; the stage is shown to
  return and to produce exactly these pieces, however the incoming blocks are cut.
\<close>

section \<open>ChunkingStage\<close>

record chunking =
  cg_chunk_size :: nat
  cg_buffer :: fifo

definition new_chunking :: "nat \<Rightarrow> nat \<Rightarrow> chunking res" where
  "new_chunking chunk_size buffer_size =
     (if chunk_size > buffer_size then Inl ValueError
      else Inr \<lparr>cg_chunk_size = chunk_size, cg_buffer = new_fifo buffer_size\<rparr>)"

text \<open>\<open>while len(self._buffer) >= self._chunk_size: yield self._buffer.read(self._chunk_size)\<close>\<close>

partial_function (option) chunk_drain :: "nat \<Rightarrow> fifo \<Rightarrow> (string list \<times> fifo) option" where
  "chunk_drain n f =
     (if n \<le> ff_filled f
      then Option.bind (chunk_drain n (snd (fifo_read (int n) f)))
             (\<lambda>(ds, g). Some (fst (fifo_read (int n) f) # ds, g))
      else Some ([], f))"

partial_function (option) chunk_feed :: "nat \<Rightarrow> string \<Rightarrow> fifo \<Rightarrow> (string list \<times> fifo) option" where
  "chunk_feed n value f =
     (if value = [] then Some ([], f)
      else Option.bind (chunk_drain n (snd (fifo_write value f))) (\<lambda>(ds, g).
             Option.bind (chunk_feed n (drop (fst (fifo_write value f)) value) g)
               (\<lambda>(es, h). Some (ds @ es, h))))"

definition chunking_call :: "string \<Rightarrow> chunking \<Rightarrow> (string list \<times> chunking) option" where
  "chunking_call value cg =
     (case chunk_feed (cg_chunk_size cg) value (cg_buffer cg) of
        None \<Rightarrow> None
      | Some (ds, f) \<Rightarrow> Some (ds, cg\<lparr>cg_buffer := f\<rparr>))"

definition chunking_done :: "chunking \<Rightarrow> string list res" where
  "chunking_done cg =
     (if \<not> ff_filled (cg_buffer cg) < cg_chunk_size cg then Inl AssertionError
      else (let data = fst (fifo_read (-1) (cg_buffer cg)) in
            Inr (if length data > 0 then [data] else [])))"

text \<open>The stage on a whole stream: the results of the calls, then those of \<open>on_done\<close>.\<close>

fun chunking_calls :: "string list \<Rightarrow> chunking \<Rightarrow> (string list \<times> chunking) option" where
  "chunking_calls [] cg = Some ([], cg)"
| "chunking_calls (v # vs) cg =
     Option.bind (chunking_call v cg) (\<lambda>(ds, cg1).
       Option.bind (chunking_calls vs cg1) (\<lambda>(es, cg2). Some (ds @ es, cg2)))"

definition rechunk :: "nat \<Rightarrow> nat \<Rightarrow> string list \<Rightarrow> string list res option" where
  "rechunk chunk_size buffer_size values =
     (case new_chunking chunk_size buffer_size of
        Inl e \<Rightarrow> Some (Inl e)
      | Inr cg \<Rightarrow>
          Option.bind (chunking_calls values cg) (\<lambda>(ds, cg1).
            Some (bind_res (chunking_done cg1) (\<lambda>es. Inr (ds @ es)))))"

section \<open>The stage cuts the stream\<close>

text \<open>\<open>full_chunks n xs\<close>: the complete pieces of \<open>xs\<close>, and what is left over.\<close>

definition full_chunks :: "nat \<Rightarrow> 'a list \<Rightarrow> 'a list list" where
  "full_chunks n xs = chunks_of n (take (length xs div n * n) xs)"

definition remainder_of :: "nat \<Rightarrow> 'a list \<Rightarrow> 'a list" where
  "remainder_of n xs = drop (length xs div n * n) xs"

lemma full_chunks_small: "length xs < n \<Longrightarrow> full_chunks n xs = [] \<and> remainder_of n xs = xs"
  by (simp add: full_chunks_def remainder_of_def)

lemma full_chunks_step:
  assumes "0 < n" "n \<le> length xs"
  shows "full_chunks n xs = take n xs # full_chunks n (drop n xs)"
    and "remainder_of n xs = remainder_of n (drop n xs)"
proof -
  obtain q where q: "length xs div n = Suc q" "length (drop n xs) div n = q"
    using assms by (metis div_greater_zero_iff gr0_implies_Suc le_div_geq length_drop diff_Suc_1
        not_less not_le plus_1_eq_Suc div_if)
  then show "remainder_of n xs = remainder_of n (drop n xs)"
    by (simp add: remainder_of_def add.commute)
  have "take (Suc q * n) xs \<noteq> []" using assms by auto
  then show "full_chunks n xs = take n xs # full_chunks n (drop n xs)"
    using assms q by (simp add: full_chunks_def chunks_of.simps [of n "take (n + q * n) xs"]
        min_def drop_take)
qed

lemma full_chunks_append:
  assumes "0 < n"
  shows "full_chunks n (xs @ ys) = full_chunks n xs @ full_chunks n (remainder_of n xs @ ys) \<and>
         remainder_of n (xs @ ys) = remainder_of n (remainder_of n xs @ ys)"
proof (induction "length xs" arbitrary: xs rule: less_induct)
  case less
  show ?case
  proof (cases "length xs < n")
    case True
    then show ?thesis by (simp add: full_chunks_small)
  next
    case False
    then have le: "n \<le> length xs" "n \<le> length (xs @ ys)" by simp_all
    have "length (drop n xs) < length xs" using le assms by simp
    from less [OF this] show ?thesis
      using full_chunks_step [OF assms le(1)] full_chunks_step [OF assms le(2)] le(1) by simp
  qed
qed

lemma remainder_of_length: "0 < n \<Longrightarrow> length (remainder_of n xs) < n"
  by (simp add: remainder_of_def minus_div_mult_eq_mod)

lemma chunks_of_full:
  assumes "0 < n"
  shows "chunks_of n xs = full_chunks n xs @ (if remainder_of n xs = [] then [] else [remainder_of n xs])"
proof (induction "length xs" arbitrary: xs rule: less_induct)
  case less
  show ?case
  proof (cases "length xs < n")
    case True
    then show ?thesis using assms
      by (simp add: full_chunks_small chunks_of.simps [of n xs] chunks_of.simps [of n "[]"])
  next
    case False
    then have le: "n \<le> length xs" by simp
    then have "xs \<noteq> []" using assms by auto
    moreover have "length (drop n xs) < length xs" using le assms by simp
    ultimately show ?thesis
      using less full_chunks_step [OF assms le] assms by (simp add: chunks_of.simps [of n xs])
  qed
qed

lemma full_chunks_lengths: "0 < n \<Longrightarrow> c \<in> set (full_chunks n xs) \<Longrightarrow> length c = n"
proof (induction "length xs" arbitrary: xs rule: less_induct)
  case less
  show ?case
  proof (cases "length xs < n")
    case True
    with less.prems show ?thesis by (simp add: full_chunks_small)
  next
    case False
    then have le: "n \<le> length xs" by simp
    have "length (drop n xs) < length xs" using le less.prems(1) by simp
    from less.hyps [OF this less.prems(1)] less.prems(2) le show ?thesis
      unfolding full_chunks_step(1) [OF less.prems(1) le] by auto
  qed
qed

lemma chunk_drain_full:
  assumes "0 < n" "fifo_ok f"
  shows "\<exists>g. chunk_drain n f = Some (full_chunks n (fifo_content f), g) \<and> fifo_ok g \<and>
             fifo_content g = remainder_of n (fifo_content f) \<and> fifo_capacity g = fifo_capacity f"
  using assms(2)
proof (induction "length (fifo_content f)" arbitrary: f rule: less_induct)
  case less
  have len: "ff_filled f = length (fifo_content f)" by (rule fifo_queue.qlen [OF less.prems])
  show ?case
  proof (cases "length (fifo_content f) < n")
    case True
    with less.prems show ?thesis
      by (simp add: chunk_drain.simps [of n f] len full_chunks_small)
  next
    case False
    then have le: "n \<le> length (fifo_content f)" by simp
    let ?g = "snd (fifo_read (int n) f)"
    have g: "fifo_ok ?g" "fifo_content ?g = drop n (fifo_content f)" "fifo_capacity ?g = fifo_capacity f"
      "fst (fifo_read (int n) f) = take n (fifo_content f)"
      using fifo_queue.read_some [OF less.prems, of n] fifo_queue.read_ok [OF less.prems] by simp_all
    have "length (fifo_content ?g) < length (fifo_content f)" using le assms(1) g(2) by simp
    from less.hyps [OF this g(1)] g le show ?thesis
      using full_chunks_step [OF assms(1) le]
      by (subst chunk_drain.simps) (auto simp: len)
  qed
qed

lemma chunk_feed_full:
  assumes "0 < n" "n \<le> fifo_capacity f" "fifo_ok f" "length (fifo_content f) < n"
  shows "\<exists>g. chunk_feed n v f = Some (full_chunks n (fifo_content f @ v), g) \<and> fifo_ok g \<and>
             fifo_content g = remainder_of n (fifo_content f @ v) \<and> fifo_capacity g = fifo_capacity f"
  using assms(2-)
proof (induction "length v" arbitrary: v f rule: less_induct)
  case less
  show ?case
  proof (cases "v = []")
    case True
    with less.prems show ?thesis by (simp add: chunk_feed.simps [of n "[]" f] full_chunks_small)
  next
    case False
    let ?w = "fst (fifo_write v f)" and ?f1 = "snd (fifo_write v f)"
    have w: "?w = min (length v) (fifo_capacity f - length (fifo_content f))"
      and f1: "fifo_content ?f1 = fifo_content f @ take ?w v" "fifo_ok ?f1" "fifo_capacity ?f1 = fifo_capacity f"
      using fifo_queue.write_count [OF less.prems(2)] fifo_queue.write_content [OF less.prems(2)]
        fifo_queue.write_ok [OF less.prems(2)] by simp_all
    have pos: "0 < ?w" using w False less.prems by simp
    obtain g where g: "chunk_drain n ?f1 = Some (full_chunks n (fifo_content ?f1), g)" "fifo_ok g"
      "fifo_content g = remainder_of n (fifo_content ?f1)" "fifo_capacity g = fifo_capacity f"
      using chunk_drain_full [OF assms(1) f1(2)] f1(3) by auto
    have "length (drop ?w v) < length v" using pos False by simp
    moreover have "length (fifo_content g) < n" using g(3) remainder_of_length [OF assms(1)] by simp
    ultimately obtain h where h: "chunk_feed n (drop ?w v) g = Some (full_chunks n (fifo_content g @ drop ?w v), h)"
      "fifo_ok h" "fifo_content h = remainder_of n (fifo_content g @ drop ?w v)" "fifo_capacity h = fifo_capacity g"
      using less.hyps [of "drop ?w v" g] g(2,4) less.prems(1) by auto
    have eq: "fifo_content f @ v = fifo_content ?f1 @ drop ?w v" by (simp add: f1(1))
    show ?thesis
      using False g h full_chunks_append [OF assms(1), of "fifo_content ?f1" "drop ?w v"]
      by (subst chunk_feed.simps) (simp add: eq del: append_assoc)
  qed
qed

definition chunking_ok :: "nat \<Rightarrow> chunking \<Rightarrow> bool" where
  "chunking_ok n cg \<longleftrightarrow> cg_chunk_size cg = n \<and> fifo_ok (cg_buffer cg) \<and> n \<le> fifo_capacity (cg_buffer cg) \<and>
     length (fifo_content (cg_buffer cg)) < n"

lemma chunking_calls_full:
  assumes "0 < n" "chunking_ok n cg"
  shows "\<exists>cg'. chunking_calls vs cg = Some (full_chunks n (fifo_content (cg_buffer cg) @ concat vs), cg') \<and>
           chunking_ok n cg' \<and>
           fifo_content (cg_buffer cg') = remainder_of n (fifo_content (cg_buffer cg) @ concat vs)"
  using assms(2)
proof (induction vs arbitrary: cg)
  case Nil
  then show ?case by (simp add: chunking_ok_def full_chunks_small)
next
  case (Cons v vs)
  let ?c = "fifo_content (cg_buffer cg)"
  obtain g where g: "chunk_feed n v (cg_buffer cg) = Some (full_chunks n (?c @ v), g)" "fifo_ok g"
    "fifo_content g = remainder_of n (?c @ v)" "fifo_capacity g = fifo_capacity (cg_buffer cg)"
    using chunk_feed_full [OF assms(1), of "cg_buffer cg" v] Cons.prems by (auto simp: chunking_ok_def)
  let ?cg1 = "cg\<lparr>cg_buffer := g\<rparr>"
  have call: "chunking_call v cg = Some (full_chunks n (?c @ v), ?cg1)"
    using g(1) Cons.prems by (simp add: chunking_call_def chunking_ok_def)
  have ok: "chunking_ok n ?cg1"
    using g Cons.prems remainder_of_length [OF assms(1)] by (simp add: chunking_ok_def)
  from Cons.IH [OF ok] obtain cg' where
    "chunking_calls vs ?cg1 = Some (full_chunks n (fifo_content g @ concat vs), cg')" "chunking_ok n cg'"
    "fifo_content (cg_buffer cg') = remainder_of n (fifo_content g @ concat vs)" by auto
  then show ?case
    using full_chunks_append [OF assms(1), of "?c @ v" "concat vs"] g(3) by (simp add: call)
qed

lemma rechunk_chunks_of:
  assumes "0 < n" "n \<le> buffer_size"
  shows "rechunk n buffer_size vs = Some (Inr (chunks_of n (concat vs)))"
proof -
  let ?cg = "\<lparr>cg_chunk_size = n, cg_buffer = new_fifo buffer_size\<rparr>"
  have ok: "chunking_ok n ?cg" using assms by (simp add: chunking_ok_def)
  from chunking_calls_full [OF assms(1) ok, of vs] obtain cg' where
    c: "chunking_calls vs ?cg = Some (full_chunks n (concat vs), cg')" "chunking_ok n cg'"
    "fifo_content (cg_buffer cg') = remainder_of n (concat vs)" by auto
  then have fo: "fifo_ok (cg_buffer cg')" by (simp add: chunking_ok_def)
  have "fst (fifo_read (-1) (cg_buffer cg')) = remainder_of n (concat vs)"
    using fifo_queue.read_all [OF fo, of "-1"] c(3) by simp
  moreover have "ff_filled (cg_buffer cg') < cg_chunk_size cg'"
    using c(2) fifo_queue.qlen [OF fo] by (simp add: chunking_ok_def)
  ultimately show ?thesis
    using assms c(1) by (simp add: rechunk_def new_chunking_def chunking_done_def chunks_of_full Let_def)
qed

text \<open>C19. Re-chunking returns, and its result is the stream cut into pieces of the chunk size: nothing
  is lost, duplicated or reordered, and only the last piece may be shorter, whatever the sizes of the
  incoming blocks and of the buffer (as long as a chunk fits into it).\<close>

theorem rechunk_stream:
  assumes "0 < n" "n \<le> buffer_size"
  shows "\<exists>cs. rechunk n buffer_size vs = Some (Inr cs) \<and> concat cs = concat vs \<and>
           (\<forall>c \<in> set cs. 0 < length c \<and> length c \<le> n) \<and> (\<forall>c \<in> set (butlast cs). length c = n)"
proof -
  have "\<forall>c \<in> set (butlast (chunks_of n (concat vs))). length c = n"
    using full_chunks_lengths [OF assms(1), of _ "concat vs"]
    by (auto simp: chunks_of_full [OF assms(1)] dest: in_set_butlastD)
  then show ?thesis
    using rechunk_chunks_of [OF assms, of vs] chunks_of_concat [OF assms(1), of "concat vs"]
      chunks_of_lengths [of _ n "concat vs"] by blast
qed

theorem rechunk_stream_witness:
  "\<exists>cs. rechunk 4 5 [''abc'', '''', ''defgh'', ''ij''] = Some (Inr cs) \<and> concat cs = ''abcdefghij''"
  using rechunk_stream [of 4 5 "[''abc'', '''', ''defgh'', ''ij'']"] by auto

section \<open>The rate limiter\<close>

text \<open>Times are microseconds; \<open>int(lapse * limit)\<close> truncates towards zero. A reading of the clock is an
  argument: \<open>clock i\<close> is the \<open>i\<close>-th value of \<open>time.time()\<close>, and the stage counts its readings.\<close>

record rate_limiter =
  rl_limit :: int
  rl_tokens :: int
  rl_last :: int

definition trunc_div :: "int \<Rightarrow> int \<Rightarrow> int" where
  "trunc_div a b = (if a < 0 then - ((- a) div b) else a div b)"

definition new_rate_limiter :: "int \<Rightarrow> int \<Rightarrow> rate_limiter" where
  "new_rate_limiter limit now = \<lparr>rl_limit = limit, rl_tokens = limit, rl_last = now\<rparr>"

definition replenish_bucket :: "int \<Rightarrow> rate_limiter \<Rightarrow> rate_limiter" where
  "replenish_bucket now rl =
     rl\<lparr>rl_tokens := min (rl_limit rl)
           (rl_tokens rl + trunc_div ((now - rl_last rl) * rl_limit rl) 1000000),
        rl_last := now\<rparr>"

definition extract_tokens :: "int \<Rightarrow> int \<Rightarrow> rate_limiter \<Rightarrow> int \<times> rate_limiter" where
  "extract_tokens now desired rl =
     (if rl_limit rl = 0 then (desired, rl)
      else (let rl1 = replenish_bucket now rl; extracted = min desired (rl_tokens rl1)
            in (extracted, rl1\<lparr>rl_tokens := rl_tokens rl1 - extracted\<rparr>)))"

definition grant :: "int \<Rightarrow> int \<Rightarrow> rate_limiter \<Rightarrow> bool \<times> rate_limiter" where
  "grant now tokens rl =
     (if rl_limit rl = 0 then (True, rl)
      else (let rl1 = replenish_bucket now rl in
            if rl_tokens rl1 \<ge> tokens then (True, rl1\<lparr>rl_tokens := rl_tokens rl1 - tokens\<rparr>)
            else (False, rl1)))"

text \<open>Slices \<open>value[:k]\<close> and \<open>value[k:]\<close>, for negative \<open>k\<close> too.\<close>

definition slice_index :: "int \<Rightarrow> 'a list \<Rightarrow> nat" where
  "slice_index k xs = (if k < 0 then length xs - nat (- k) else nat k)"

partial_function (option) rate_limiter_call ::
  "(nat \<Rightarrow> int) \<Rightarrow> string \<Rightarrow> rate_limiter \<Rightarrow> nat \<Rightarrow> (string list \<times> rate_limiter \<times> nat) option" where
  "rate_limiter_call clock value rl i =
     (if value = [] then Some ([], rl, i)
      else (case extract_tokens (clock i) (int (length value)) rl of (available_tokens, rl1) \<Rightarrow>
        let pass_bytes = min available_tokens (int (length value)); k = slice_index pass_bytes value in
        Option.bind (rate_limiter_call clock (drop k value) rl1 (Suc i))
          (\<lambda>(ds, rl2, j). Some (take k value # ds, rl2, j))))"

fun rate_limiter_calls ::
  "(nat \<Rightarrow> int) \<Rightarrow> string list \<Rightarrow> rate_limiter \<Rightarrow> nat \<Rightarrow> (string list \<times> rate_limiter \<times> nat) option" where
  "rate_limiter_calls clock [] rl i = Some ([], rl, i)"
| "rate_limiter_calls clock (v # vs) rl i =
     Option.bind (rate_limiter_call clock v rl i) (\<lambda>(ds, rl1, j).
       Option.bind (rate_limiter_calls clock vs rl1 j) (\<lambda>(es, rl2, k). Some (ds @ es, rl2, k)))"

definition rate_limit :: "(nat \<Rightarrow> int) \<Rightarrow> int \<Rightarrow> string list \<Rightarrow> string list option" where
  "rate_limit clock limit values =
     map_option fst (rate_limiter_calls clock values (new_rate_limiter limit (clock 0)) 1)"

text \<open>What the stage passes on is the stream, cut differently.\<close>

lemma rate_limiter_call_concat:
  assumes "rate_limiter_call clock value rl i = Some y"
  shows "concat (fst y) = value"
proof (rule rate_limiter_call.raw_induct
    [where P = "\<lambda>clock value rl i y. concat (fst y) = value", OF _ assms])
  fix f :: "(nat \<Rightarrow> int) \<Rightarrow> string \<Rightarrow> rate_limiter \<Rightarrow> nat \<Rightarrow> (string list \<times> rate_limiter \<times> nat) option"
    and clock "value" rl i y
  assume IH: "\<And>clock value rl i y. f clock value rl i = Some y \<Longrightarrow> concat (fst y) = value"
    and body: "(if value = [] then Some ([], rl, i)
      else (case extract_tokens (clock i) (int (length value)) rl of (available_tokens, rl1) \<Rightarrow>
        let pass_bytes = min available_tokens (int (length value)); k = slice_index pass_bytes value in
        Option.bind (f clock (drop k value) rl1 (Suc i))
          (\<lambda>(ds, rl2, j). Some (take k value # ds, rl2, j)))) = Some y"
  from body show "concat (fst y) = value"
    by (auto simp: Let_def bind_eq_Some_conv split: if_splits prod.splits dest!: IH)
qed

lemma rate_limiter_calls_concat:
  "rate_limiter_calls clock vs rl i = Some (ds, rl', j) \<Longrightarrow> concat ds = concat vs"
  by (induction vs arbitrary: ds rl i)
    (auto simp: bind_eq_Some_conv dest: rate_limiter_call_concat)

lemma trunc_div_pos: "0 \<le> a \<Longrightarrow> 0 < b \<Longrightarrow> trunc_div a b * b \<le> a \<and> 0 \<le> trunc_div a b"
  using pos_mod_sign [of b a] unfolding trunc_div_def
  by (simp add: pos_imp_zdiv_nonneg_iff) (simp flip: minus_mod_eq_div_mult)

text \<open>A bucket in use: not overdrawn, not above the limit.\<close>

definition bucket_ok :: "rate_limiter \<Rightarrow> bool" where
  "bucket_ok rl \<longleftrightarrow> 0 \<le> rl_tokens rl \<and> rl_tokens rl \<le> rl_limit rl"

lemma extract_tokens_step:
  assumes "bucket_ok rl" "0 < rl_limit rl" "0 \<le> desired" "rl_last rl \<le> now"
    and "extract_tokens now desired rl = (e, rl')"
  shows "bucket_ok rl' \<and> rl_limit rl' = rl_limit rl \<and> rl_last rl' = now \<and> 0 \<le> e \<and> e \<le> desired \<and>
         (e + rl_tokens rl') * 1000000 \<le> rl_tokens rl * 1000000 + rl_limit rl * (now - rl_last rl)"
proof -
  let ?d = "trunc_div ((now - rl_last rl) * rl_limit rl) 1000000"
  have d: "?d * 1000000 \<le> (now - rl_last rl) * rl_limit rl" "0 \<le> ?d"
    using assms trunc_div_pos [of "(now - rl_last rl) * rl_limit rl" 1000000] by simp_all
  let ?t = "min (rl_limit rl) (rl_tokens rl + ?d)"
  have e: "e = min desired ?t" "rl' = rl\<lparr>rl_tokens := ?t - e, rl_last := now\<rparr>"
    using assms(2,5) by (auto simp: extract_tokens_def replenish_bucket_def Let_def)
  have "?t * 1000000 \<le> (rl_tokens rl + ?d) * 1000000" by (rule mult_right_mono) simp_all
  also have "\<dots> \<le> rl_tokens rl * 1000000 + rl_limit rl * (now - rl_last rl)"
    using d(1) by (simp add: algebra_simps)
  finally have "?t * 1000000 \<le> rl_tokens rl * 1000000 + rl_limit rl * (now - rl_last rl)" .
  moreover have "0 \<le> ?t" using assms(1,2) d(2) by (simp add: bucket_ok_def)
  ultimately show ?thesis using assms(1,3) e by (auto simp: bucket_ok_def)
qed

text \<open>A run of requests, each with its reading of the clock.\<close>

fun extracts :: "(int \<times> int) list \<Rightarrow> rate_limiter \<Rightarrow> int list \<times> rate_limiter" where
  "extracts [] rl = ([], rl)"
| "extracts ((now, desired) # rs) rl =
     (case extract_tokens now desired rl of (e, rl1) \<Rightarrow>
        case extracts rs rl1 of (es, rl2) \<Rightarrow> (e # es, rl2))"

lemma extracts_bound:
  assumes "bucket_ok rl" "0 < rl_limit rl" "\<And>r. r \<in> set rs \<Longrightarrow> 0 \<le> snd r"
    and "sorted (rl_last rl # map fst rs)" "extracts rs rl = (es, rl')"
  shows "(sum_list es + rl_tokens rl') * 1000000
           \<le> rl_tokens rl * 1000000 + rl_limit rl * (rl_last rl' - rl_last rl) \<and> bucket_ok rl'"
  using assms
proof (induction rs arbitrary: rl es)
  case (Cons r rs)
  obtain now desired where r: "r = (now, desired)" by fastforce
  obtain e rl1 where e: "extract_tokens now desired rl = (e, rl1)" by fastforce
  obtain fs where fs: "extracts rs rl1 = (fs, rl')" "es = e # fs"
    using Cons.prems(5) by (auto simp: r e split: prod.splits)
  have d: "0 \<le> desired" "rl_last rl \<le> now" using Cons.prems(3) [of r] Cons.prems(4) by (simp_all add: r)
  note s = extract_tokens_step [OF Cons.prems(1,2) d e]
  have "(sum_list fs + rl_tokens rl') * 1000000
      \<le> rl_tokens rl1 * 1000000 + rl_limit rl1 * (rl_last rl' - rl_last rl1) \<and> bucket_ok rl'"
    using Cons.prems s by (intro Cons.IH [OF _ _ _ _ fs(1)]) (auto simp: r)
  with s show ?case by (auto simp: fs(2) algebra_simps)
qed simp



text \<open>The loop of the stage returns when every reading of the clock brings at least one token, as the
  pause of \<open>retry_interval\<close> between two readings is meant to achieve.\<close>

lemma rate_limiter_call_returns:
  assumes "0 < rl_limit rl" "bucket_ok rl" "rl_last rl \<le> clock i" "mono clock"
    and "\<And>j. 1000000 \<le> (clock (Suc j) - clock j) * rl_limit rl"
    and "i \<noteq> 0" "rl_last rl = clock (i - 1)"
  shows "\<exists>ds rl' j. rate_limiter_call clock value rl i = Some (ds, rl', j) \<and> 0 < rl_limit rl' \<and>
     bucket_ok rl' \<and> rl_limit rl' = rl_limit rl \<and> j \<noteq> 0 \<and> rl_last rl' = clock (j - 1)"
  using assms
proof (induction "length value" arbitrary: "value" rl i rule: less_induct)
  case less
  show ?case
  proof (cases "value = []")
    case True
    with less.prems show ?thesis by (simp add: rate_limiter_call.simps [of clock "[]"])
  next
    case False
    obtain e rl1 where e: "extract_tokens (clock i) (int (length value)) rl = (e, rl1)" by fastforce
    note s = extract_tokens_step [OF less.prems(2,1) _ less.prems(3) e]
    have gain: "1000000 \<le> (clock i - rl_last rl) * rl_limit rl"
      using less.prems(5) [of "i - 1"] less.prems(6,7) by simp
    then have "1 \<le> trunc_div ((clock i - rl_last rl) * rl_limit rl) 1000000"
      by (simp add: trunc_div_def)
    then have e1: "1 \<le> e"
      using e less.prems(1,2) False
      by (auto simp: extract_tokens_def replenish_bucket_def Let_def bucket_ok_def Suc_le_eq)
    let ?k = "slice_index (min e (int (length value))) value"
    have k: "?k = nat e" using s e1 by (simp add: slice_index_def min_def)
    have "length (drop ?k value) < length value" using False e1 k by simp
    moreover have "clock i \<le> clock (Suc i)" using less.prems(4) by (simp add: monoD)
    ultimately obtain ds rl' j where "rate_limiter_call clock (drop ?k value) rl1 (Suc i) = Some (ds, rl', j)"
      "0 < rl_limit rl'" "bucket_ok rl'" "rl_limit rl' = rl_limit rl1" "j \<noteq> 0" "rl_last rl' = clock (j - 1)"
      using less.hyps [of "drop ?k value" rl1 "Suc i"] s less.prems by auto
    then show ?thesis
      using s e False by (subst rate_limiter_call.simps) (simp add: Let_def)
  qed
qed

lemma rate_limit_concat: "rate_limit clock limit vs = Some ds \<Longrightarrow> concat ds = concat vs"
  by (auto simp: rate_limit_def dest: rate_limiter_calls_concat)

lemma chunks_of_unique:
  assumes "0 < m" "\<And>c. c \<in> set (butlast cs) \<Longrightarrow> length c = m"
    and "cs \<noteq> [] \<Longrightarrow> last cs \<noteq> [] \<and> length (last cs) \<le> m"
  shows "chunks_of m (concat cs) = cs"
  using assms(2,3)
proof (induction cs)
  case (Cons c cs)
  show ?case
  proof (cases "cs = []")
    case True
    with Cons.prems(2) assms(1) show ?thesis by (simp add: chunks_of.simps [of m c])
  next
    case False
    then have c: "length c = m" using Cons.prems(1) [of c] by simp
    moreover have "chunks_of m (concat cs) = cs"
      using False Cons.prems by (intro Cons.IH) auto
    moreover have "c @ concat cs \<noteq> []" using c assms(1) by auto
    ultimately show ?thesis
      using assms(1) by (simp add: chunks_of.simps [of m "c @ concat cs"])
  qed
qed simp

lemma chunks_of_shape:
  assumes "0 < n" "chunks_of n xs \<noteq> []"
  shows "\<forall>c \<in> set (butlast (chunks_of n xs)). length c = n"
    and "last (chunks_of n xs) \<noteq> [] \<and> length (last (chunks_of n xs)) \<le> n"
proof -
  show "\<forall>c \<in> set (butlast (chunks_of n xs)). length c = n"
    using full_chunks_lengths [OF assms(1), of _ xs]
    by (auto simp: chunks_of_full [OF assms(1)] dest: in_set_butlastD)
  show "last (chunks_of n xs) \<noteq> [] \<and> length (last (chunks_of n xs)) \<le> n"
    using chunks_of_lengths [OF last_in_set [OF assms(2)]] by simp
qed

lemma length_chunks_of: "0 < n \<Longrightarrow> int (length (chunks_of n xs)) = ceil_div (int (length xs)) (int n)"
proof (induction n xs rule: chunks_of.induct)
  case (1 n xs)
  show ?case
  proof (cases "xs = []")
    case True
    then show ?thesis by (simp add: ceil_div_def)
  next
    case False
    let ?l = "int (length xs)" and ?r = "int (length (drop n xs))"
    have "ceil_div ?l (int n) = ceil_div ?r (int n) + 1"
    proof (rule ceil_div_unique)
      show "0 < int n" using 1 by simp
      have b: "?r \<le> ceil_div ?r (int n) * int n" "ceil_div ?r (int n) * int n < ?r + int n"
        using ceil_div_bounds [of "int n" ?r] 1 by simp_all
      show "?l \<le> (ceil_div ?r (int n) + 1) * int n"
        using b by (simp add: algebra_simps)
      show "(ceil_div ?r (int n) + 1) * int n < ?l + int n"
      proof (cases "length xs \<le> n")
        case True
        then have "?r = 0" by simp
        then show ?thesis using False by (simp add: ceil_div_def)
      next
        case False
        then have "?r = ?l - int n" by simp
        with b show ?thesis by (simp add: algebra_simps)
      qed
    qed
    with 1 False show ?thesis by (simp add: chunks_of.simps [of n xs])
  qed
qed

end
