(* ===== verification/Engine.thy ===== *)
theory Engine
  imports Storage Chunking
begin

text \<open>
  The S3 storage engine (\<^verbatim>\<open>storage/engine/s3/s3_engine.py\<close>), its multipart uploader
  (\<^verbatim>\<open>s3_multipart_uploader.py\<close>) and the retry wrapper of its metaclass (\<^verbatim>\<open>s3_retry.py\<close>).

  boto3 is the parameter \<open>s3_client\<close>: the calls that the engine makes on one bucket. An engine object
  keeps the multipart uploads and downloads that are under way; its methods run on the pair of the
  world and that object. \<open>engine_call\<close> is the wrapper that the metaclass puts around every public
  method: an error of the S3 library resets the cached client and becomes an \<open>S3RetryingError\<close>, and
  the method is tried up to thirty times as long as it raises that error.
\<close>

section \<open>The client library\<close>

record s3_page =
  pg_common_prefixes :: "string list option"
  pg_contents :: "string list option"

record s3_part =
  pt_body :: string
  pt_etag :: "string option"
  pt_range_total :: "int option"
  pt_content_length :: int

record 'w s3_client =
  c3_put_object :: "string \<Rightarrow> string \<Rightarrow> ('w, unit) act"
  c3_download :: "string \<Rightarrow> ('w, string) act"
  c3_delete_object :: "string \<Rightarrow> ('w, unit) act"
  c3_delete_objects :: "string list \<Rightarrow> ('w, unit) act"
  c3_paginate :: "string \<Rightarrow> string option \<Rightarrow> ('w, s3_page list) act"
  c3_list_objects :: "string \<Rightarrow> string \<Rightarrow> ('w, s3_page) act"
  c3_head_object :: "string \<Rightarrow> ('w, int \<times> string) act"
  c3_get_object :: "string \<Rightarrow> (int \<times> int) option \<Rightarrow> ('w, s3_part) act"
  c3_create_multipart_upload :: "string \<Rightarrow> ('w, string) act"
  c3_upload_part :: "string \<Rightarrow> string \<Rightarrow> string \<Rightarrow> nat \<Rightarrow> ('w, string) act"
  c3_complete_multipart_upload :: "string \<Rightarrow> string \<Rightarrow> (string \<times> nat) list \<Rightarrow> ('w, unit) act"
  c3_reset :: "('w, unit) act"

section \<open>The engine object\<close>

record multipart_download =
  md_path :: string
  md_range_start :: int
  md_total_size :: int
  md_etag :: string

record engine_obj =
  eo_uploads :: "(string, (string \<times> nat) list) dict"
  eo_downloads :: "(string, multipart_download) dict"

definition new_engine :: engine_obj where
  "new_engine = \<lparr>eo_uploads = [], eo_downloads = []\<rparr>"

record 'w engine =
  en_client :: "'w s3_client"
  en_fs_read :: "string \<Rightarrow> ('w, string) act"
  en_fs_write :: "string \<Rightarrow> string \<Rightarrow> ('w, unit) act"
  en_time_suffix :: "('w, string) act"
  en_bulk_delete_enabled :: bool

type_synonym ('w, 'a) engine_act = "('w \<times> engine_obj, 'a) act"

definition read_object :: "(engine_obj \<Rightarrow> 'a res) \<Rightarrow> ('w, 'a) engine_act" where
  "read_object f s = (f (snd s), s)"

definition change_object :: "(engine_obj \<Rightarrow> engine_obj) \<Rightarrow> ('w, unit) engine_act" where
  "change_object f s = (Inr (), (fst s, f (snd s)))"

section \<open>Retrying\<close>

definition is_s3_error :: "exn \<Rightarrow> bool" where
  "is_s3_error e \<longleftrightarrow> (\<exists>code status. e = ClientError code status) \<or> e = BotoCoreError \<or> e = HTTPError"

lemma is_s3_error_code [code]:
  "is_s3_error e = (case e of ClientError code status \<Rightarrow> True | BotoCoreError \<Rightarrow> True | HTTPError \<Rightarrow> True | _ \<Rightarrow> False)"
  by (cases e) (simp_all add: is_s3_error_def)

definition s3_exception_wrapper :: "'w engine \<Rightarrow> ('w, 'a) engine_act \<Rightarrow> ('w, 'a) engine_act" where
  "s3_exception_wrapper en m =
     try_act m is_s3_error (\<lambda>_. bind_act (on_world (c3_reset (en_client en))) (\<lambda>_. raise S3RetryingError))"

definition max_attempts :: nat where "max_attempts = 30"

definition engine_call :: "'w engine \<Rightarrow> ('w, 'a) engine_act \<Rightarrow> ('w, 'a) engine_act" where
  "engine_call en m = retry_act (\<lambda>e. e = S3RetryingError) (max_attempts - 1) (s3_exception_wrapper en m)"

section \<open>Whole objects\<close>

definition engine_upload_file :: "'w engine \<Rightarrow> string \<Rightarrow> string \<Rightarrow> ('w, string) engine_act" where
  "engine_upload_file en local_path remote_path =
     engine_call en
       (bind_act (on_world (en_fs_read en local_path)) (\<lambda>data.
        bind_act (on_world (c3_put_object (en_client en) (object_key remote_path) data)) (\<lambda>_.
          ret (object_key remote_path))))"

definition engine_upload_data :: "'w engine \<Rightarrow> string \<Rightarrow> string \<Rightarrow> ('w, string) engine_act" where
  "engine_upload_data en data remote_path =
     engine_call en
       (bind_act (on_world (c3_put_object (en_client en) (object_key remote_path) data)) (\<lambda>_.
          ret (object_key remote_path)))"

definition engine_download_file :: "'w engine \<Rightarrow> string \<Rightarrow> string \<Rightarrow> ('w, unit) engine_act" where
  "engine_download_file en remote_path local_path =
     engine_call en
       (bind_act (on_world (c3_download (en_client en) (object_key remote_path))) (\<lambda>data.
          on_world (en_fs_write en local_path data)))"

definition engine_download_data :: "'w engine \<Rightarrow> string \<Rightarrow> ('w, string) engine_act" where
  "engine_download_data en remote_path =
     engine_call en (on_world (c3_download (en_client en) (object_key remote_path)))"

definition is_no_such_key :: "exn \<Rightarrow> bool" where
  "is_no_such_key e = (case e of ClientError code status \<Rightarrow> code = ''NoSuchKey'' | _ \<Rightarrow> False)"

definition engine_delete_file :: "'w engine \<Rightarrow> string \<Rightarrow> ('w, unit) engine_act" where
  "engine_delete_file en remote_path =
     engine_call en
       (try_act (on_world (c3_delete_object (en_client en) (object_key remote_path)))
          is_no_such_key (\<lambda>_. ret ()))"

definition delete_by_one :: "'w engine \<Rightarrow> string list \<Rightarrow> ('w, unit) engine_act" where
  "delete_by_one en remote_paths = for_act remote_paths (\<lambda>p _. engine_delete_file en p) ()"

definition is_malformed_xml :: "exn \<Rightarrow> bool" where
  "is_malformed_xml e = (case e of ClientError code status \<Rightarrow> code = ''MalformedXML'' | _ \<Rightarrow> False)"

definition engine_delete_files :: "'w engine \<Rightarrow> string list \<Rightarrow> ('w, unit) engine_act" where
  "engine_delete_files en remote_paths =
     engine_call en
       (if \<not> en_bulk_delete_enabled en then delete_by_one en remote_paths
        else try_act (on_world (c3_delete_objects (en_client en) (map object_key remote_paths)))
               is_malformed_xml (\<lambda>_. delete_by_one en remote_paths))"

section \<open>Listing\<close>

definition page_entries :: "string \<Rightarrow> bool \<Rightarrow> s3_page \<Rightarrow> string list" where
  "page_entries dir absolute page =
     (let show = (\<lambda>p. if absolute then p else rel_path p dir) in
      map show (case pg_common_prefixes page of None \<Rightarrow> [] | Some ps \<Rightarrow> ps) @
      map show (case pg_contents page of None \<Rightarrow> [] | Some ks \<Rightarrow> ks))"

definition engine_list_dir :: "'w engine \<Rightarrow> string \<Rightarrow> bool \<Rightarrow> bool \<Rightarrow> ('w, string list) engine_act" where
  "engine_list_dir en remote_path recursive absolute =
     engine_call en
       (bind_act (on_world (c3_paginate (en_client en) (dir_prefix remote_path)
                    (if recursive then None else Some ''/''))) (\<lambda>pages.
          ret (concat (map (page_entries (dir_prefix remote_path) absolute) pages))))"

definition is_not_found :: "exn \<Rightarrow> bool" where
  "is_not_found e = (case e of ClientError code status \<Rightarrow> status = 404 | _ \<Rightarrow> False)"

definition directory_exists :: "'w engine \<Rightarrow> string \<Rightarrow> ('w, bool) engine_act" where
  "directory_exists en remote_path =
     (let path = rstrip_chr CHR ''/'' remote_path in
      bind_act (on_world (c3_list_objects (en_client en) path ''/'')) (\<lambda>resp.
        ret (List.member (map (rstrip_chr CHR ''/'')
               (case pg_common_prefixes resp of None \<Rightarrow> [] | Some ps \<Rightarrow> ps)) path)))"

text \<open>Unlike the other methods this one does not strip the leading slash of the path.\<close>

definition engine_path_exists :: "'w engine \<Rightarrow> string \<Rightarrow> bool \<Rightarrow> ('w, bool) engine_act" where
  "engine_path_exists en remote_path is_dir =
     engine_call en
       (if is_dir then directory_exists en remote_path
        else try_act (bind_act (on_world (c3_head_object (en_client en) remote_path)) (\<lambda>_. ret True))
               is_not_found (\<lambda>_. ret False))"

definition engine_get_object_size :: "'w engine \<Rightarrow> string \<Rightarrow> ('w, int) engine_act" where
  "engine_get_object_size en remote_path =
     engine_call en (bind_act (on_world (c3_get_object (en_client en) remote_path None)) (\<lambda>p.
       ret (pt_content_length p)))"

section \<open>Multipart upload\<close>

definition uploader_create :: "'w engine \<Rightarrow> string \<Rightarrow> ('w, string) engine_act" where
  "uploader_create en remote_path =
     bind_act (on_world (c3_create_multipart_upload (en_client en) remote_path)) (\<lambda>upload_id.
     bind_act (change_object (\<lambda>o1. o1\<lparr>eo_uploads := dict_set (eo_uploads o1) upload_id []\<rparr>)) (\<lambda>_.
       ret upload_id))"

text \<open>Without a part number the next one after the last recorded part is used.\<close>

definition next_part_number :: "string \<Rightarrow> engine_obj \<Rightarrow> nat res" where
  "next_part_number upload_id o1 =
     bind_res (dict_get (eo_uploads o1) upload_id) (\<lambda>parts.
       Inr (if parts = [] then 1 else snd (last parts) + 1))"

definition record_part :: "string \<Rightarrow> string \<Rightarrow> nat \<Rightarrow> ('w, unit) engine_act" where
  "record_part upload_id etag part_num =
     bind_act (read_object (\<lambda>o1. dict_get (eo_uploads o1) upload_id)) (\<lambda>parts.
       change_object (\<lambda>o1. o1\<lparr>eo_uploads := dict_set (eo_uploads o1) upload_id (parts @ [(etag, part_num)])\<rparr>))"

definition uploader_upload_part ::
  "'w engine \<Rightarrow> string \<Rightarrow> string \<Rightarrow> string \<Rightarrow> nat option \<Rightarrow> ('w, unit) engine_act" where
  "uploader_upload_part en data remote_path upload_id part_num =
     bind_act (case part_num of
                 None \<Rightarrow> read_object (next_part_number upload_id)
               | Some n \<Rightarrow> ret n) (\<lambda>n.
     bind_act (on_world (c3_upload_part (en_client en) data remote_path upload_id n)) (\<lambda>etag.
       record_part upload_id etag n))"

definition uploader_complete :: "'w engine \<Rightarrow> string \<Rightarrow> string \<Rightarrow> ('w, unit) engine_act" where
  "uploader_complete en remote_path upload_id =
     bind_act (read_object (\<lambda>o1. dict_get (eo_uploads o1) upload_id)) (\<lambda>parts.
     bind_act (on_world (c3_complete_multipart_upload (en_client en) remote_path upload_id
                 (sort_key snd parts))) (\<lambda>_.
       change_object (\<lambda>o1. o1\<lparr>eo_uploads := AList.delete upload_id (eo_uploads o1)\<rparr>)))"

definition engine_create_multipart_upload :: "'w engine \<Rightarrow> string \<Rightarrow> ('w, string) engine_act" where
  "engine_create_multipart_upload en remote_path = engine_call en (uploader_create en remote_path)"

definition engine_upload_part ::
  "'w engine \<Rightarrow> string \<Rightarrow> string \<Rightarrow> string \<Rightarrow> nat option \<Rightarrow> ('w, unit) engine_act" where
  "engine_upload_part en data remote_path upload_id part_num =
     engine_call en (uploader_upload_part en data remote_path upload_id part_num)"

definition engine_complete_multipart_upload :: "'w engine \<Rightarrow> string \<Rightarrow> string \<Rightarrow> ('w, unit) engine_act" where
  "engine_complete_multipart_upload en remote_path upload_id =
     engine_call en (uploader_complete en remote_path upload_id)"

section \<open>Multipart download\<close>

definition DEFAULT_DOWNLOAD_PART_LEN :: nat where
  "DEFAULT_DOWNLOAD_PART_LEN = 134217728"

definition engine_create_multipart_download :: "'w engine \<Rightarrow> string \<Rightarrow> ('w, string) engine_act" where
  "engine_create_multipart_download en remote_path =
     engine_call en
       (let path = object_key remote_path in
        bind_act (on_world (c3_head_object (en_client en) path)) (\<lambda>(content_length, etag).
        bind_act (on_world (en_time_suffix en)) (\<lambda>time.
          let download_id = path @ ''_'' @ time in
          bind_act (change_object (\<lambda>o1. o1\<lparr>eo_downloads := dict_set (eo_downloads o1) download_id
              \<lparr>md_path = path, md_range_start = 0, md_total_size = content_length, md_etag = etag\<rparr>\<rparr>)) (\<lambda>_.
            ret download_id))))"

text \<open>The object may have been overwritten since the download began: before any byte was delivered the
  new version is used, afterwards the download fails.\<close>

definition accept_etag :: "multipart_download \<Rightarrow> s3_part \<Rightarrow> multipart_download res" where
  "accept_etag d part =
     (case non_empty (pt_etag part) of
        None \<Rightarrow> Inr d
      | Some tag \<Rightarrow>
          if tag = md_etag d then Inr d
          else if md_range_start d = 0 then
            Inr (d\<lparr>md_total_size := (case pt_range_total part of None \<Rightarrow> md_total_size d | Some t \<Rightarrow> t),
                   md_etag := tag\<rparr>)
          else Inl StorageError)"

definition store_download :: "string \<Rightarrow> multipart_download \<Rightarrow> ('w, unit) engine_act" where
  "store_download download_id d =
     change_object (\<lambda>o1. o1\<lparr>eo_downloads := dict_set (eo_downloads o1) download_id d\<rparr>)"

definition engine_download_part :: "'w engine \<Rightarrow> string \<Rightarrow> nat option \<Rightarrow> ('w, string option) engine_act" where
  "engine_download_part en download_id part_len =
     engine_call en
       (let len = (case part_len of None \<Rightarrow> DEFAULT_DOWNLOAD_PART_LEN
                   | Some n \<Rightarrow> if n = 0 then DEFAULT_DOWNLOAD_PART_LEN else n) in
        bind_act (read_object (\<lambda>o1. dict_get (eo_downloads o1) download_id)) (\<lambda>d.
          if md_range_start d \<ge> md_total_size d then ret None
          else
            (let range_start = md_range_start d;
                 range_end = min (range_start + int len) (md_total_size d) - 1 in
             bind_act (on_world (c3_get_object (en_client en) (md_path d) (Some (range_start, range_end)))) (\<lambda>part.
             bind_act (lift_res (accept_etag d part)) (\<lambda>d1.
             bind_act (store_download download_id
                 (d1\<lparr>md_range_start := md_range_start d1 + int (length (pt_body part))\<rparr>)) (\<lambda>_.
               ret (if pt_body part = [] then None else Some (pt_body part))))))))"

definition engine_complete_multipart_download :: "'w engine \<Rightarrow> string \<Rightarrow> ('w, unit) engine_act" where
  "engine_complete_multipart_download en download_id =
     engine_call en
       (bind_act (read_object (\<lambda>o1. dict_del (eo_downloads o1) download_id)) (\<lambda>ds.
          change_object (\<lambda>o1. o1\<lparr>eo_downloads := ds\<rparr>)))"

section \<open>How often a method is tried\<close>

text \<open>An operation that fails \<open>n\<close> times with an error of the S3 library, the client being reset after
  every failure, and where that leaves the state.\<close>

inductive fails_s3 :: "'w engine \<Rightarrow> ('w, 'a) engine_act \<Rightarrow> nat \<Rightarrow> 'w \<times> engine_obj \<Rightarrow> 'w \<times> engine_obj \<Rightarrow> bool"
  for en :: "'w engine" and m :: "('w, 'a) engine_act" where
  no_failure: "fails_s3 en m 0 s s"
| failure: "m s = (Inl e, s1) \<Longrightarrow> is_s3_error e \<Longrightarrow> on_world (c3_reset (en_client en)) s1 = (Inr (), s2) \<Longrightarrow>
    fails_s3 en m n s2 s3 \<Longrightarrow> fails_s3 en m (Suc n) s s3"

lemma wrapper_failure:
  assumes "m s = (Inl e, s1)" "is_s3_error e" "on_world (c3_reset (en_client en)) s1 = (Inr (), s2)"
  shows "s3_exception_wrapper en m s = (Inl S3RetryingError, s2)"
  using assms by (auto simp: s3_exception_wrapper_def try_act_def bind_act_def is_s3_error_def)

lemma retry_failures:
  assumes "fails_s3 en m n s t" "n \<le> k"
  shows "retry_act (\<lambda>e. e = S3RetryingError) k (s3_exception_wrapper en m) s =
    retry_act (\<lambda>e. e = S3RetryingError) (k - n) (s3_exception_wrapper en m) t"
  using assms
proof (induction arbitrary: k)
  case (failure s e s1 s2 n s3)
  then obtain j where k: "k = Suc j" by (cases k) auto
  from wrapper_failure [of m s e s1 en s2, OF failure.hyps(1-3)] failure.IH [of j] failure.prems k show ?case by simp
qed simp

text \<open>C12. A public method of the engine is tried thirty times: up to twenty-nine failures of the S3
  library are hidden and the result is that of the attempt after them; after the thirtieth the call fails
  with the retrying error. Any other exception ends the call at once.\<close>

theorem engine_call_attempts:
  assumes "fails_s3 en m n s t"
  shows "(n < max_attempts \<longrightarrow> m t = (Inr x, t') \<longrightarrow> engine_call en m s = (Inr x, t')) \<and>
    (n < max_attempts \<longrightarrow> m t = (Inl e, t') \<longrightarrow> \<not> is_s3_error e \<longrightarrow> e \<noteq> S3RetryingError \<longrightarrow>
       engine_call en m s = (Inl e, t')) \<and>
    (n = max_attempts \<longrightarrow> engine_call en m s = (Inl S3RetryingError, t))"
proof (intro conjI impI)
  have step: "n < max_attempts \<Longrightarrow> engine_call en m s =
      retry_act (\<lambda>e. e = S3RetryingError) (max_attempts - 1 - n) (s3_exception_wrapper en m) t"
    unfolding engine_call_def using assms by (intro retry_failures) (auto simp: max_attempts_def)
  { assume "n < max_attempts" "m t = (Inr x, t')"
    with step show "engine_call en m s = (Inr x, t')"
      by (cases "max_attempts - 1 - n") (simp_all add: s3_exception_wrapper_def try_act_def) }
  { assume "n < max_attempts" "m t = (Inl e, t')" "\<not> is_s3_error e" "e \<noteq> S3RetryingError"
    with step show "engine_call en m s = (Inl e, t')"
      by (cases "max_attempts - 1 - n") (simp_all add: s3_exception_wrapper_def try_act_def) }
  assume n: "n = max_attempts"
  have "fails_s3 en m (Suc j) s t \<Longrightarrow>
      retry_act (\<lambda>e. e = S3RetryingError) j (s3_exception_wrapper en m) s = (Inl S3RetryingError, t)" for j
  proof (induction j arbitrary: s)
    case 0
    then show ?case by (auto elim!: fails_s3.cases [of _ _ "Suc 0"] fails_s3.cases [of _ _ 0] dest: wrapper_failure)
  next
    case (Suc j)
    from Suc.prems obtain e s1 s2 where 1: "m s = (Inl e, s1)" "is_s3_error e"
      "on_world (c3_reset (en_client en)) s1 = (Inr (), s2)" and 2: "fails_s3 en m (Suc j) s2 t"
      by (auto elim: fails_s3.cases)
    from wrapper_failure [of m s e s1 en s2, OF 1] Suc.IH [OF 2] show ?case by simp
  qed
  from this [of "max_attempts - 1"] assms n show "engine_call en m s = (Inl S3RetryingError, t)"
    by (simp add: engine_call_def max_attempts_def)
qed

text \<open>A store that is down, and a call that fails twice before the store answers.\<close>

definition dead_client :: "nat s3_client" where
  "dead_client =
     \<lparr>c3_put_object = \<lambda>k d. raise HTTPError, c3_download = \<lambda>k. raise HTTPError, c3_delete_object = \<lambda>k. raise HTTPError,
      c3_delete_objects = \<lambda>ks. raise HTTPError, c3_paginate = \<lambda>d s. raise HTTPError,
      c3_list_objects = \<lambda>d s. raise HTTPError, c3_head_object = \<lambda>k. raise HTTPError,
      c3_get_object = \<lambda>k r. raise HTTPError, c3_create_multipart_upload = \<lambda>k. raise HTTPError,
      c3_upload_part = \<lambda>d k i n. raise HTTPError, c3_complete_multipart_upload = \<lambda>k i ps. raise HTTPError,
      c3_reset = ret ()\<rparr>"

definition dead_engine :: "nat engine" where
  "dead_engine = \<lparr>en_client = dead_client, en_fs_read = \<lambda>p. ret '''', en_fs_write = \<lambda>p d. ret (),
     en_time_suffix = ret ''t'', en_bulk_delete_enabled = True\<rparr>"

definition third_time :: "(nat, unit) engine_act" where
  "third_time s = (if fst s < 2 then (Inl HTTPError, (Suc (fst s), snd s)) else (Inr (), s))"

theorem engine_call_attempts_witness:
  "engine_call dead_engine third_time (0, new_engine) = (Inr (), (2, new_engine))"
proof -
  have f: "fails_s3 dead_engine third_time (Suc (Suc 0)) (0, new_engine) (Suc (Suc 0), new_engine)"
    by (intro fails_s3.failure fails_s3.no_failure)
      (auto simp: fails_s3.no_failure third_time_def is_s3_error_def dead_engine_def dead_client_def on_world_def)
  from engine_call_attempts [OF f, of "()" "(Suc (Suc 0), new_engine)" HTTPError] show ?thesis
    by (simp add: third_time_def max_attempts_def numeral_2_eq_2)
qed

end
