(* ===== verification/Crypto.thy ===== *)
theory Crypto
  imports Chunking
begin

text \<open>
  Encryption and compression of the stream: \<^verbatim>\<open>encryption/*.py\<close>, \<^verbatim>\<open>compression/*.py\<close>, the stages that
  apply them (\<^verbatim>\<open>stages/encryption\<close>, \<^verbatim>\<open>stages/compression\<close>) and the two builders that put a chunking
  stage in front (\<open>build_encrypt_stage\<close>, \<open>build_decrypt_stage\<close> in \<^verbatim>\<open>pipeline_builder.py\<close>).

  PyNaCl and zlib are parameters: \<open>secret_box\<close> makes a box from a key, \<open>'z codec\<close> is a zlib object
  with its state. Encrypting is an operation on the world, since it draws a random nonce.
\<close>

record 'w crypto =
  cr_encrypt :: "string \<Rightarrow> ('w, string) act"
  cr_decrypt :: "string \<Rightarrow> string res"
  cr_metadata_size :: nat

record encryption_config =
  en_type :: string
  en_key :: "string option"
  en_chunk_size :: nat
  en_buffer_size :: nat

definition MiB :: nat where
  "MiB = 1048576"

definition default_encryption_config :: encryption_config where
  "default_encryption_config =
     \<lparr>en_type = ''nacl'', en_key = None, en_chunk_size = 8 * MiB, en_buffer_size = 32 * MiB\<rparr>"

definition noop_encryption :: "'w crypto" where
  "noop_encryption = \<lparr>cr_encrypt = ret, cr_decrypt = Inr, cr_metadata_size = 0\<rparr>"

text \<open>\<open>SecretBox.NONCE_SIZE\<close> is 24; the code adds 16 for the authentication tag.\<close>

definition nacl_metadata_size :: nat where
  "nacl_metadata_size = 24 + 16"

definition nacl_encryption ::
  "(string \<Rightarrow> ((string \<Rightarrow> ('w, string) act) \<times> (string \<Rightarrow> string res)) res) \<Rightarrow> encryption_config
     \<Rightarrow> 'w crypto res" where
  "nacl_encryption secret_box conf =
     (case en_key conf of
        None \<Rightarrow> Inl (OtherException ''AttributeError'')
      | Some key \<Rightarrow> bind_res (secret_box key) (\<lambda>(enc, dec).
          Inr \<lparr>cr_encrypt = enc, cr_decrypt = dec, cr_metadata_size = nacl_metadata_size\<rparr>))"

text \<open>The configured key is \<open>None\<close> unless set, and \<open>None.encode\<close> is an \<open>AttributeError\<close>.\<close>

definition get_encryption ::
  "(string \<Rightarrow> ((string \<Rightarrow> ('w, string) act) \<times> (string \<Rightarrow> string res)) res) \<Rightarrow> encryption_config
     \<Rightarrow> 'w crypto res" where
  "get_encryption secret_box conf =
     (case (if en_type conf = ''noop'' then Inr noop_encryption
            else if en_type conf = ''nacl'' then nacl_encryption secret_box conf
            else Inl KeyError) of
        Inl e \<Rightarrow> Inl (if e = KeyError then UnknownEncryptionError else e)
      | Inr cr \<Rightarrow> Inr cr)"

section \<open>Stages\<close>

definition rechunk_act :: "nat \<Rightarrow> nat \<Rightarrow> string list \<Rightarrow> ('w, string list) act" where
  "rechunk_act chunk_size buffer_size values =
     lift_res (bind_res (returns_or_hangs (rechunk chunk_size buffer_size values)) (\<lambda>r. r))"

definition encrypt_stage :: "'w crypto \<Rightarrow> string list \<Rightarrow> ('w, string list) act" where
  "encrypt_stage cr values = map_act (cr_encrypt cr) values"

definition decrypt_stage :: "'w crypto \<Rightarrow> string list \<Rightarrow> string list res" where
  "decrypt_stage cr values = map_res (cr_decrypt cr) values"

definition build_encrypt_stage ::
  "'w crypto \<Rightarrow> encryption_config \<Rightarrow> string list \<Rightarrow> ('w, string list) act" where
  "build_encrypt_stage cr conf values =
     bind_act (rechunk_act (en_chunk_size conf) (en_buffer_size conf) values) (encrypt_stage cr)"

definition build_decrypt_stage ::
  "'w crypto \<Rightarrow> encryption_config \<Rightarrow> string list \<Rightarrow> ('w, string list) act" where
  "build_decrypt_stage cr conf values =
     bind_act (rechunk_act (en_chunk_size conf + cr_metadata_size cr) (en_buffer_size conf) values)
       (\<lambda>cs. lift_res (decrypt_stage cr cs))"

text \<open>A compression object with its state; blocks without data are not passed on, and \<open>on_done\<close> flushes.\<close>

record 'z codec =
  cd_step :: "string \<Rightarrow> 'z \<Rightarrow> string res \<times> 'z"
  cd_flush :: "'z \<Rightarrow> string res"

definition keep_data :: "string \<Rightarrow> string list" where
  "keep_data data = (if length data > 0 then [data] else [])"

fun codec_calls :: "'z codec \<Rightarrow> string list \<Rightarrow> 'z \<Rightarrow> (string list \<times> 'z) res" where
  "codec_calls cd [] z = Inr ([], z)"
| "codec_calls cd (v # vs) z =
     (case cd_step cd v z of (r, z1) \<Rightarrow>
        bind_res r (\<lambda>data. bind_res (codec_calls cd vs z1) (\<lambda>(ds, z2). Inr (keep_data data @ ds, z2))))"

definition codec_stage :: "'z codec \<Rightarrow> 'z \<Rightarrow> string list \<Rightarrow> string list res" where
  "codec_stage cd z values =
     bind_res (codec_calls cd values z) (\<lambda>(ds, z1). bind_res (cd_flush cd z1) (\<lambda>data. Inr (ds @ keep_data data)))"

record compression =
  cp_compress :: "string list \<Rightarrow> string list res"
  cp_decompress :: "string list \<Rightarrow> string list res"

definition get_compression :: "'z codec \<Rightarrow> 'z codec \<Rightarrow> 'z \<Rightarrow> 'z \<Rightarrow> string \<Rightarrow> compression res" where
  "get_compression compressobj decompressobj z d type_id =
     (if type_id = ''gzip''
      then Inr \<lparr>cp_compress = codec_stage compressobj z, cp_decompress = codec_stage decompressobj d\<rparr>
      else Inl UnknownEncryptionError)"

section \<open>The interface of an encryption\<close>

text \<open>What a stored stream reads as: decryption does not depend on how the stream arrives.\<close>

definition decrypted :: "'w crypto \<Rightarrow> encryption_config \<Rightarrow> string \<Rightarrow> string res" where
  "decrypted cr conf c =
     bind_res (map_res (cr_decrypt cr) (chunks_of (en_chunk_size conf + cr_metadata_size cr) c))
       (\<lambda>ds. Inr (concat ds))"

locale encryption =
  fixes enc :: "string \<Rightarrow> ('w, string) act" and dec :: "string \<Rightarrow> string res" and meta :: nat
  assumes enc_dec: "enc x s = (Inr y, s') \<Longrightarrow> dec y = Inr x"
    and enc_length: "enc x s = (Inr y, s') \<Longrightarrow> length y = length x + meta"
begin

lemma enc_all:
  "map_act enc vs s = (Inr es, s') \<Longrightarrow>
     list_all2 (\<lambda>v e. dec e = Inr v \<and> length e = length v + meta) vs es"
  by (erule map_act_results) (auto dest: enc_dec enc_length)

text \<open>The encrypted pieces are the pieces of the encrypted stream.\<close>

lemma enc_chunks:
  assumes "0 < n" and es: "list_all2 (\<lambda>v e. dec e = Inr v \<and> length e = length v + meta) (chunks_of n xs) es"
  shows "chunks_of (n + meta) (concat es) = es" and "map_res dec es = Inr (chunks_of n xs)"
    and "length (concat es) = length xs + length (chunks_of n xs) * meta"
proof -
  let ?P = "\<lambda>v e. dec e = Inr v \<and> length e = length v + meta"
  have dec_es: "list_all2 (\<lambda>e v. dec e = Inr v) es ws" and len_es: "length (concat es) = length (concat ws) + length ws * meta"
    and but_es: "list_all2 ?P (butlast ws) (butlast es)" and last_es: "ws \<noteq> [] \<Longrightarrow> ?P (last ws) (last es)"
    if "list_all2 ?P ws es" for ws es
    using that by (induction rule: list_all2_induct) (auto dest: list_all2_lengthD)
  show "map_res dec es = Inr (chunks_of n xs)"
    using dec_es [OF es] by (simp add: map_res_Inr_iff)
  show "length (concat es) = length xs + length (chunks_of n xs) * meta"
    using len_es [OF es] chunks_of_concat [OF assms(1), of xs] by simp
  show "chunks_of (n + meta) (concat es) = es"
  proof (rule chunks_of_unique)
    show "0 < n + meta" using assms(1) by simp
  next
    fix e assume e: "e \<in> set (butlast es)"
    then obtain v where "v \<in> set (butlast (chunks_of n xs))" "?P v e"
      using but_es [OF es] by (auto simp: list_all2_conv_all_nth in_set_conv_nth) (metis nth_mem)
    moreover have "chunks_of n xs \<noteq> []" using e es by auto
    ultimately show "length e = n + meta" using chunks_of_shape(1) [OF assms(1)] by auto
  next
    assume "es \<noteq> []"
    then have ne: "chunks_of n xs \<noteq> []" using es by auto
    from chunks_of_shape(2) [OF assms(1) ne] last_es [OF es ne]
    show "last es \<noteq> [] \<and> length (last es) \<le> n + meta" by auto
  qed
qed

end

locale encrypted_stream = encryption "cr_encrypt cr" "cr_decrypt cr" "cr_metadata_size cr"
  for cr :: "'w crypto" +
  fixes conf :: encryption_config
  assumes chunk_pos: "0 < en_chunk_size conf"
    and buffer_fits: "en_chunk_size conf + cr_metadata_size cr \<le> en_buffer_size conf"
begin


lemma build_encrypt_result:
  assumes "build_encrypt_stage cr conf values s = (Inr es, s')"
  shows "list_all2 (\<lambda>v e. cr_decrypt cr e = Inr v \<and> length e = length v + cr_metadata_size cr)
           (chunks_of (en_chunk_size conf) (concat values)) es"
proof -
  have "rechunk_act (en_chunk_size conf) (en_buffer_size conf) values =
      (lift_res (Inr (chunks_of (en_chunk_size conf) (concat values))) :: ('w, string list) act)"
    using rechunk_chunks_of [OF chunk_pos, of "en_buffer_size conf" "values"] buffer_fits
    by (simp add: rechunk_act_def returns_or_hangs_def)
  with assms have "map_act (cr_encrypt cr) (chunks_of (en_chunk_size conf) (concat values)) s = (Inr es, s')"
    by (simp add: build_encrypt_stage_def encrypt_stage_def)
  then show ?thesis by (rule enc_all)
qed

lemma build_decrypt_result:
  "build_decrypt_stage cr conf values s =
     (map_res (cr_decrypt cr) (chunks_of (en_chunk_size conf + cr_metadata_size cr) (concat values)), s)"
  using rechunk_chunks_of [of "en_chunk_size conf + cr_metadata_size cr" "en_buffer_size conf" "values"]
    chunk_pos buffer_fits
  by (simp add: build_decrypt_stage_def rechunk_act_def returns_or_hangs_def decrypt_stage_def)

lemma encrypt_decrypted:
  assumes "build_encrypt_stage cr conf values s = (Inr es, s')"
  shows "decrypted cr conf (concat es) = Inr (concat values)"
  using enc_chunks(1,2) [OF chunk_pos build_encrypt_result [OF assms]] chunks_of_concat [OF chunk_pos]
  by (simp add: decrypted_def)

lemma encrypt_decrypt:
  assumes "build_encrypt_stage cr conf values s = (Inr es, s')" "concat blocks = concat es"
  shows "\<exists>ds. build_decrypt_stage cr conf blocks t = (Inr ds, t) \<and> concat ds = concat values"
  using enc_chunks(1,2) [OF chunk_pos build_encrypt_result [OF assms(1)]] chunks_of_concat [OF chunk_pos]
  by (simp add: build_decrypt_result assms(2))

lemma encrypt_size:
  assumes "build_encrypt_stage cr conf values s = (Inr es, s')"
  shows "int (length (concat es)) =
    calc_encrypted_size (int (length (concat values))) (int (en_chunk_size conf)) (int (cr_metadata_size cr))"
  using enc_chunks(3) [OF chunk_pos build_encrypt_result [OF assms]]
    length_chunks_of [OF chunk_pos, of "concat values"]
  by (simp add: calc_encrypted_size_def)

end

text \<open>The library's box on an example: a box that prepends forty bytes.\<close>

definition plain_box :: "string \<Rightarrow> ((string \<Rightarrow> ('w, string) act) \<times> (string \<Rightarrow> string res)) res" where
  "plain_box key =
     Inr (\<lambda>x. ret (replicate 40 CHR ''n'' @ x),
          \<lambda>y. if take 40 y = replicate 40 CHR ''n'' then Inr (drop 40 y) else Inl CryptoError)"

definition nacl_on :: "string \<Rightarrow> 'w crypto" where
  "nacl_on key =
     (case get_encryption plain_box (default_encryption_config\<lparr>en_key := Some key\<rparr>) of
        Inr cr \<Rightarrow> cr | Inl e \<Rightarrow> noop_encryption)"

lemma nacl_on_simps [simp]:
  "cr_encrypt (nacl_on key) x s = (Inr (replicate 40 CHR ''n'' @ x), s)"
  "cr_decrypt (nacl_on key) y =
     (if take 40 y = replicate 40 CHR ''n'' then Inr (drop 40 y) else Inl CryptoError)"
  "cr_metadata_size (nacl_on key) = 40"
  by (simp_all add: nacl_on_def get_encryption_def nacl_encryption_def default_encryption_config_def
      plain_box_def nacl_metadata_size_def)

interpretation nacl: encrypted_stream "nacl_on key" default_encryption_config for key
  by unfold_locales (auto simp: default_encryption_config_def MiB_def)

interpretation noop: encrypted_stream noop_encryption default_encryption_config
  by unfold_locales (auto simp: noop_encryption_def default_encryption_config_def MiB_def)

text \<open>C18. Decrypting what was encrypted gives the data back, in whatever blocks the encrypted stream is
  read: the decrypting side cuts it into pieces that are longer by the size of the metadata.\<close>

theorem encrypt_decrypt_roundtrip:
  assumes "encrypted_stream cr conf"
    and "build_encrypt_stage cr conf values s = (Inr es, s')" and "concat blocks = concat es"
  shows "\<exists>ds. build_decrypt_stage cr conf blocks t = (Inr ds, t) \<and> concat ds = concat values"
  by (rule encrypted_stream.encrypt_decrypt [OF assms])

lemma noop_encrypt: "build_encrypt_stage noop_encryption default_encryption_config values s
    = (Inr (chunks_of (8 * MiB) (concat values)), s)"
proof -
  have "map_act ret cs s = (Inr cs, s)" for cs :: "string list"
    by (induction cs) (simp_all add: bind_act_Inr)
  then show ?thesis
    using rechunk_chunks_of [of "8 * MiB" "32 * MiB" "values"]
    by (simp add: build_encrypt_stage_def rechunk_act_def returns_or_hangs_def encrypt_stage_def
        noop_encryption_def default_encryption_config_def MiB_def)
qed

theorem encrypt_decrypt_roundtrip_witness:
  "\<exists>ds. build_decrypt_stage noop_encryption default_encryption_config [''abc'', ''defgh''] () = (Inr ds, ()) \<and>
        concat ds = ''abcdefgh''"
proof -
  have "build_encrypt_stage noop_encryption default_encryption_config [''abcdefgh''] () = (Inr [''abcdefgh''], ())"
    by (simp add: noop_encrypt MiB_def chunks_of.simps)
  from encrypt_decrypt_roundtrip [OF noop.encrypted_stream_axioms this, of "[''abc'', ''defgh'']" "()"]
  show ?thesis by simp
qed

text \<open>C21. The size that the uploading stage is told for encrypted data is the exact size of the encrypted
  stream.\<close>

theorem encrypted_size_exact:
  assumes "encrypted_stream cr conf" "build_encrypt_stage cr conf values s = (Inr es, s')"
  shows "int (length (concat es)) =
    calc_encrypted_size (int (length (concat values))) (int (en_chunk_size conf)) (int (cr_metadata_size cr))"
  by (rule encrypted_stream.encrypt_size [OF assms])

theorem encrypted_size_exact_witness:
  "\<exists>es. build_encrypt_stage (nacl_on ''k'') default_encryption_config [''abcdefgh''] () = (Inr es, ()) \<and>
        int (length (concat es)) = 48"
proof -
  have "build_encrypt_stage (nacl_on ''k'') default_encryption_config [''abcdefgh''] ()
      = (Inr [replicate 40 CHR ''n'' @ ''abcdefgh''], ())"
    using rechunk_chunks_of [of "8 * MiB" "32 * MiB" "[''abcdefgh'']"]
    by (simp add: build_encrypt_stage_def rechunk_act_def returns_or_hangs_def encrypt_stage_def
        default_encryption_config_def MiB_def chunks_of.simps bind_act_Inr)
  from this encrypted_size_exact [OF nacl.encrypted_stream_axioms this] show ?thesis
    by (simp add: default_encryption_config_def MiB_def calc_encrypted_size_def ceil_div_def)
qed

end
