(* ===== verification/Tar.thy ===== *)
theory Tar
  imports Chunking Storage
begin

text \<open>
  The TAR stream: writing it (\<^verbatim>\<open>stages/filesystem/read_files_tarball_stage.py\<close>) and reading it back
  (\<^verbatim>\<open>stages/filesystem/write_files_stage.py\<close>). The headers themselves are made and parsed by the
  standard \<open>tarfile\<close> module: \<open>tar_format\<close> holds \<open>tobuf\<close> (name, size, time) and \<open>frombuf\<close>.

  The reader is a state machine over a circular buffer. Its three hooks are what the two subclasses
  override: \<open>WriteFilesStage\<close> writes files, \<open>UnpackTarballStage\<close> collects pairs.
\<close>

record tarinfo =
  ti_name :: string
  ti_size :: int
  ti_longname :: bool

record tar_format =
  tf_tobuf :: "string \<Rightarrow> int \<Rightarrow> int \<Rightarrow> string"
  tf_frombuf :: "string \<Rightarrow> tarinfo res"

section \<open>Writing\<close>

definition NUL :: char where "NUL = CHR 0x00"

definition tar_padding :: "int \<Rightarrow> string list" where
  "tar_padding fsize =
     (if fsize mod BLOCKSIZE > 0 then [replicate (nat (BLOCKSIZE - fsize mod BLOCKSIZE)) NUL] else [])"

definition read_content :: "nat \<Rightarrow> string \<Rightarrow> int \<Rightarrow> string list" where
  "read_content chunk_size data fsize = chunks_of chunk_size data @ tar_padding fsize"

definition read_data_tarball :: "tar_format \<Rightarrow> nat \<Rightarrow> int \<Rightarrow> string list \<Rightarrow> string list \<Rightarrow> string list" where
  "read_data_tarball tf chunk_size now file_names data_list =
     concat (map (\<lambda>(name, data). tf_tobuf tf name (int (length data)) now #
                                  read_content chunk_size data (int (length data)))
               (zip file_names data_list))"

record 'w local_files =
  lf_read :: "string \<Rightarrow> ('w, string) act"
  lf_size :: "string \<Rightarrow> ('w, int) act"
  lf_mtime :: "string \<Rightarrow> ('w, int) act"
  lf_now :: "('w, int) act"
  lf_scan :: "string \<Rightarrow> string list \<Rightarrow> ('w, string list) act"
  lf_unlink :: "string \<Rightarrow> ('w, unit) act"
  lf_make_parents :: "string \<Rightarrow> ('w, unit) act"
  lf_create :: "string \<Rightarrow> ('w, unit) act"
  lf_append :: "string \<Rightarrow> string \<Rightarrow> ('w, unit) act"

definition tar_entry ::
  "tar_format \<Rightarrow> 'w local_files \<Rightarrow> nat \<Rightarrow> string \<Rightarrow> string \<Rightarrow> string \<Rightarrow> ('w, string list) act" where
  "tar_entry tf lf chunk_size base_path tar_base_dir rel =
     (let file_path = path_join base_path rel;
          name = (if tar_base_dir = [] then rel else path_join tar_base_dir rel) in
      bind_act (lf_size lf file_path) (\<lambda>size0.
      bind_act (lf_mtime lf file_path) (\<lambda>mtime.
      bind_act (lf_size lf file_path) (\<lambda>fsize.
      bind_act (lf_read lf file_path) (\<lambda>data.
        ret (tf_tobuf tf name size0 mtime # read_content chunk_size data fsize))))))"

definition read_files_tarball ::
  "tar_format \<Rightarrow> 'w local_files \<Rightarrow> nat \<Rightarrow> string \<Rightarrow> string \<Rightarrow> string list \<Rightarrow> ('w, string list) act" where
  "read_files_tarball tf lf chunk_size base_path tar_base_dir files =
     bind_act (map_act (tar_entry tf lf chunk_size base_path tar_base_dir) files) (\<lambda>bs. ret (concat bs))"

section \<open>Reading\<close>

datatype tar_state = READ_HEADER | READ_LONG_NAME | READ_DATA | SKIP_BYTES

record tar_stream =
  ts_fifo :: fifo
  ts_state :: tar_state
  ts_bytes :: int
  ts_info :: "tarinfo option"
  ts_name :: "string option"

record 'u tar_hooks =
  th_complete :: "tarinfo option \<Rightarrow> ('u, unit) act"
  th_start :: "tarinfo \<Rightarrow> ('u, unit) act"
  th_write :: "string \<Rightarrow> ('u, unit) act"

definition new_tar_stream :: "nat \<Rightarrow> tar_stream res" where
  "new_tar_stream buffer_size =
     (if int buffer_size < BLOCKSIZE then Inl ValueError
      else Inr \<lparr>ts_fifo = new_fifo buffer_size, ts_state = READ_HEADER, ts_bytes = 0, ts_info = None,
                ts_name = None\<rparr>)"

type_synonym ('u, 'a) tar_act = "('u \<times> tar_stream, 'a) act"

definition get_stream :: "(tar_stream \<Rightarrow> ('u, 'a) tar_act) \<Rightarrow> ('u, 'a) tar_act" where
  "get_stream f s = f (snd s) s"

definition set_stream :: "tar_stream \<Rightarrow> ('u, unit) tar_act" where
  "set_stream ts s = (Inr (), (fst s, ts))"

definition read_header :: "tar_format \<Rightarrow> 'u tar_hooks \<Rightarrow> ('u, bool) tar_act" where
  "read_header tf h = get_stream (\<lambda>ts.
     bind_act (on_world (th_complete h (ts_info ts))) (\<lambda>_.
       if int (ff_filled (ts_fifo ts)) < BLOCKSIZE then ret False
       else (case fifo_read BLOCKSIZE (ts_fifo ts) of (buf, f) \<Rightarrow>
         bind_act (set_stream (ts\<lparr>ts_fifo := f\<rparr>)) (\<lambda>_.
         bind_act (lift_res (tf_frombuf tf buf)) (\<lambda>info.
           let ts1 = ts\<lparr>ts_fifo := f, ts_info := Some info, ts_bytes := ti_size info\<rparr> in
           if ti_longname info then
             bind_act (set_stream (ts1\<lparr>ts_state := READ_LONG_NAME, ts_name := Some []\<rparr>)) (\<lambda>_. ret True)
           else
             (let (info2, name2) = (case non_empty (ts_name ts) of
                    None \<Rightarrow> (info, ts_name ts)
                  | Some n \<Rightarrow> (info\<lparr>ti_name := butlast n\<rparr>, None)) in
              bind_act (set_stream (ts1\<lparr>ts_state := READ_DATA, ts_info := Some info2, ts_name := name2\<rparr>)) (\<lambda>_.
              bind_act (on_world (th_start h info2)) (\<lambda>_. ret True))))))))"

text \<open>The number of padding bytes to skip after an entry; it stays zero after a full block.\<close>

definition after_entry :: "tarinfo \<Rightarrow> int \<Rightarrow> int" where
  "after_entry info bytes =
     (if ti_size info mod BLOCKSIZE > 0 then BLOCKSIZE - ti_size info mod BLOCKSIZE else bytes)"

definition process_long_name :: "('u, bool) tar_act" where
  "process_long_name = get_stream (\<lambda>ts.
     case (ts_info ts, ts_name ts) of
       (Some info, Some name) \<Rightarrow>
         (case fifo_read (ts_bytes ts) (ts_fifo ts) of (buf, f) \<Rightarrow>
            let bytes = ts_bytes ts - int (length buf);
                ts1 = ts\<lparr>ts_fifo := f, ts_name := Some (name @ buf), ts_bytes := bytes\<rparr> in
            if bytes > 0 then bind_act (set_stream ts1) (\<lambda>_. ret False)
            else bind_act (set_stream (ts1\<lparr>ts_state := SKIP_BYTES, ts_bytes := after_entry info bytes\<rparr>))
                   (\<lambda>_. ret True))
     | _ \<Rightarrow> raise AssertionError)"

definition process_data :: "'u tar_hooks \<Rightarrow> ('u, bool) tar_act" where
  "process_data h = get_stream (\<lambda>ts.
     case ts_info ts of
       None \<Rightarrow> raise AssertionError
     | Some info \<Rightarrow>
         (case fifo_read (ts_bytes ts) (ts_fifo ts) of (buf, f) \<Rightarrow>
            bind_act (set_stream (ts\<lparr>ts_fifo := f\<rparr>)) (\<lambda>_.
            bind_act (on_world (th_write h buf)) (\<lambda>_.
              let bytes = ts_bytes ts - int (length buf);
                  ts1 = ts\<lparr>ts_fifo := f, ts_bytes := bytes\<rparr> in
              if bytes > 0 then bind_act (set_stream ts1) (\<lambda>_. ret False)
              else bind_act (set_stream (ts1\<lparr>ts_state := SKIP_BYTES, ts_bytes := after_entry info bytes\<rparr>))
                     (\<lambda>_. ret True)))))"

definition skip_bytes :: "('u, bool) tar_act" where
  "skip_bytes = get_stream (\<lambda>ts.
     case fifo_read (ts_bytes ts) (ts_fifo ts) of (buf, f) \<Rightarrow>
       bind_act (set_stream (ts\<lparr>ts_fifo := f\<rparr>)) (\<lambda>_.
         if \<not> list_all (\<lambda>c. c = NUL) buf then raise AssertionError
         else
           (let bytes = ts_bytes ts - int (length buf); ts1 = ts\<lparr>ts_fifo := f, ts_bytes := bytes\<rparr> in
            if bytes > 0 then bind_act (set_stream ts1) (\<lambda>_. ret False)
            else bind_act (set_stream (ts1\<lparr>ts_state := READ_HEADER\<rparr>)) (\<lambda>_. ret True))))"

definition tar_step :: "tar_format \<Rightarrow> 'u tar_hooks \<Rightarrow> ('u, bool) tar_act" where
  "tar_step tf h = get_stream (\<lambda>ts.
     case ts_state ts of
       READ_HEADER \<Rightarrow> read_header tf h
     | READ_LONG_NAME \<Rightarrow> process_long_name
     | READ_DATA \<Rightarrow> process_data h
     | SKIP_BYTES \<Rightarrow> skip_bytes)"

text \<open>\<open>while actions[self._state](): pass\<close>\<close>

partial_function (option) tar_loop ::
  "tar_format \<Rightarrow> 'u tar_hooks \<Rightarrow> 'u \<times> tar_stream \<Rightarrow> (unit res \<times> ('u \<times> tar_stream)) option" where
  "tar_loop tf h s =
     (case tar_step tf h s of (r, s1) \<Rightarrow>
        (case r of
           Inl e \<Rightarrow> Some (Inl e, s1)
         | Inr go_on \<Rightarrow> if go_on then tar_loop tf h s1 else Some (Inr (), s1)))"

definition tar_call :: "tar_format \<Rightarrow> 'u tar_hooks \<Rightarrow> string \<Rightarrow> ('u, unit) tar_act" where
  "tar_call tf h data = get_stream (\<lambda>ts.
     case fifo_write data (ts_fifo ts) of (written, f) \<Rightarrow>
       bind_act (set_stream (ts\<lparr>ts_fifo := f\<rparr>)) (\<lambda>_.
         if written \<noteq> length data then raise RuntimeError
         else (\<lambda>s. case tar_loop tf h s of None \<Rightarrow> (Inl Hangs, s) | Some r \<Rightarrow> r)))"

definition tar_process :: "tar_format \<Rightarrow> 'u tar_hooks \<Rightarrow> string list \<Rightarrow> ('u, unit) tar_act" where
  "tar_process tf h blocks =
     bind_act (for_act blocks (\<lambda>b _. tar_call tf h b) ())
       (\<lambda>_. get_stream (\<lambda>ts. on_world (th_complete h (ts_info ts))))"

section \<open>The two readers\<close>

text \<open>\<open>WriteFilesStage\<close>: the open file, if any, besides the world.\<close>

definition write_files_hooks :: "'w local_files \<Rightarrow> string \<Rightarrow> ('w \<times> string option) tar_hooks" where
  "write_files_hooks lf dir =
     \<lparr>th_complete = (\<lambda>info s. (Inr (), (fst s, None))),
      th_start = (\<lambda>info.
        let filepath = path_join dir (ti_name info) in
        bind_act (on_world (lf_make_parents lf filepath)) (\<lambda>_.
        bind_act (on_world (lf_create lf filepath)) (\<lambda>_ s. (Inr (), (fst s, Some filepath))))),
      th_write = (\<lambda>data s.
        case snd s of
          None \<Rightarrow> (Inl AssertionError, s)
        | Some filepath \<Rightarrow> on_world (lf_append lf filepath data) s)\<rparr>"

definition write_files_stage ::
  "tar_format \<Rightarrow> 'w local_files \<Rightarrow> string \<Rightarrow> nat \<Rightarrow> string list \<Rightarrow> ('w, unit) act" where
  "write_files_stage tf lf dir buffer_size blocks =
     bind_act (lift_res (new_tar_stream buffer_size)) (\<lambda>ts.
       with_object None (with_object ts (tar_process tf (write_files_hooks lf dir) blocks)))"

text \<open>\<open>UnpackTarballStage\<close>: the data of the current entry and the results so far.\<close>

type_synonym unpacked = "string \<times> (string \<times> string) list"

definition unpack_hooks :: "unpacked tar_hooks" where
  "unpack_hooks =
     \<lparr>th_complete = (\<lambda>info (data, results).
        case info of
          None \<Rightarrow> (Inr (), (data, results))
        | Some i \<Rightarrow> (Inr (), if data = [] then (data, results) else ([], results @ [(ti_name i, data)]))),
      th_start = (\<lambda>info (data, results). (Inr (), ([], results))),
      th_write = (\<lambda>buf (data, results). (Inr (), (data @ buf, results)))\<rparr>"

definition unpack_tarball :: "tar_format \<Rightarrow> nat \<Rightarrow> string list \<Rightarrow> (string \<times> string) list res" where
  "unpack_tarball tf buffer_size blocks =
     bind_res (new_tar_stream buffer_size) (\<lambda>ts.
       case tar_process tf unpack_hooks blocks (([], []), ts) of
         (r, ((data, results), ts1)) \<Rightarrow> bind_res r (\<lambda>_. Inr results))"

end
