(* ===== verification/Threads.thy ===== *)
theory Threads
  imports Prelude
begin

text \<open>
  The thread pool (\<open>ThreadExecPool\<close> of \<^verbatim>\<open>base_pipeline/exec_pool.py\<close>) as its users see it: jobs
  are submitted, the main thread takes their results in the order in which they complete, and leaving
  the \<open>with\<close> block cancels what has not started. A job is one step; \<open>schedule\<close> says, for every state of
  the world, which jobs finish before the main thread goes on and in which order they complete. It is
  arbitrary.
\<close>

text \<open>A list in another order: first the positions named, then the others.\<close>

definition arrange :: "nat list \<Rightarrow> 'a list \<Rightarrow> 'a list" where
  "arrange order xs =
     (let first = filter (\<lambda>i. i < length xs) (remdups order) in
      map (nth xs) (first @ filter (\<lambda>i. i \<notin> set first) [0..<length xs]))"

lemma arrange_mset: "mset (arrange order xs) = mset xs"
proof -
  let ?f = "filter (\<lambda>i. i < length xs) (remdups order)"
  let ?p = "?f @ filter (\<lambda>i. i \<notin> set ?f) [0..<length xs]"
  have "distinct ?p" by auto
  moreover have "set ?p = {0..<length xs}" by auto
  ultimately have "mset ?p = mset [0..<length xs]"
    by (metis atLeastLessThan_upt distinct_upt set_eq_iff_mset_eq_distinct)
  then have "mset (map (nth xs) ?p) = mset (map (nth xs) [0..<length xs])"
    by (metis mset_map)
  then show ?thesis by (simp add: arrange_def Let_def map_nth)
qed

section \<open>Jobs\<close>

record 'w schedule =
  sd_ahead :: "'w \<Rightarrow> nat list"
  sd_order :: "'w \<Rightarrow> nat list"

type_synonym ('w, 'a) tasks = "'w \<times> 'a res option list"

definition run_task :: "('w, 'a) act list \<Rightarrow> nat \<Rightarrow> ('w, 'a) tasks \<Rightarrow> ('w, 'a) tasks" where
  "run_task jobs i s =
     (if i < length jobs \<and> i < length (snd s) \<and> snd s ! i = None
      then (case (jobs ! i) (fst s) of (r, w) \<Rightarrow> (w, (snd s)[i := Some r])) else s)"

definition run_ahead :: "'w schedule \<Rightarrow> ('w, 'a) act list \<Rightarrow> ('w, 'a) tasks \<Rightarrow> ('w, 'a) tasks" where
  "run_ahead sd jobs s = fold (run_task jobs) (sd_ahead sd (fst s)) s"

text \<open>\<open>for result in pool.as_completed(keep_going=False): body\<close>, with the variables \<open>c\<close> of the body.\<close>

fun as_completed ::
  "'w schedule \<Rightarrow> ('w, 'a) act list \<Rightarrow> ('a \<Rightarrow> 'c \<Rightarrow> ('w, 'c) act) \<Rightarrow> nat list \<Rightarrow> 'c
     \<Rightarrow> (('w, 'a) tasks, 'c) act" where
  "as_completed sd jobs body [] c = ret c"
| "as_completed sd jobs body (i # is) c =
     (\<lambda>s0. let s = run_task jobs i (run_ahead sd jobs s0) in
        case (if i < length (snd s) then snd s ! i else None) of
          None \<Rightarrow> (Inl RuntimeError, s)
        | Some (Inl e) \<Rightarrow> (Inl e, s)
        | Some (Inr x) \<Rightarrow>
            (case body x c (fst s) of
               (Inl e, w) \<Rightarrow> (Inl e, (w, snd s))
             | (Inr c', w) \<Rightarrow> as_completed sd jobs body is c' (w, snd s)))"

text \<open>\<open>submit\<close> refuses a second job with the same name; the jobs submitted before it finish or are cancelled.\<close>

definition with_threads ::
  "'w schedule \<Rightarrow> (string \<times> ('w, 'a) act) list \<Rightarrow> ('a \<Rightarrow> 'c \<Rightarrow> ('w, 'c) act) \<Rightarrow> 'c \<Rightarrow> ('w, 'c) act" where
  "with_threads sd named body c w =
     (let jobs = map snd named;
          (r, s) =
            (if distinct (map fst named)
             then as_completed sd jobs body (arrange (sd_order sd w) [0..<length jobs]) c
                    (w, replicate (length jobs) None)
             else (Inl RuntimeError, (w, replicate (length jobs) None)))
      in (r, fst (run_ahead sd jobs s)))"

text \<open>\<open>wait_all(keep_going)\<close>: nothing is done with the results, and with \<open>keep_going\<close> exceptions are dropped.
  The callback of a job runs in the main thread after the job has succeeded.\<close>

definition run_threads ::
  "'w schedule \<Rightarrow> bool \<Rightarrow> (string \<times> ('w, unit) act \<times> ('w, unit) act) list \<Rightarrow> ('w, unit) act" where
  "run_threads sd keep_going jobs =
     with_threads sd
       (map (\<lambda>(k, n, m, callback). (n, \<lambda>w. case m w of
            (Inl e, w') \<Rightarrow> (if keep_going \<and> is_exception e \<and> e \<noteq> Hangs then Inr None else Inl e, w')
          | (Inr x, w') \<Rightarrow> (Inr (Some k), w'))) (enumerate 0 jobs))
       (\<lambda>done _. case done of None \<Rightarrow> ret () | Some k \<Rightarrow> if k < length jobs then snd (snd (jobs ! k)) else ret ()) ()"

section \<open>What the jobs keep\<close>

lemma run_task_keeps:
  assumes "\<forall>m \<in> set jobs. keeps P m" "P (fst s)"
  shows "P (fst (run_task jobs i s))"
proof (cases "i < length jobs \<and> i < length (snd s) \<and> snd s ! i = None")
  case True
  then have "keeps P (jobs ! i)" using assms(1) by simp
  then have "P (snd ((jobs ! i) (fst s)))" by (rule keepsD) (rule assms(2))
  with True show ?thesis by (cases "(jobs ! i) (fst s)") (simp add: run_task_def)
next
  case False
  then have "run_task jobs i s = s" unfolding run_task_def by (rule if_not_P)
  with assms(2) show ?thesis by simp
qed

lemma run_ahead_keeps:
  assumes "\<forall>m \<in> set jobs. keeps P m" "P (fst s)"
  shows "P (fst (run_ahead sd jobs s))"
proof -
  have "P (fst s) \<Longrightarrow> P (fst (fold (run_task jobs) is s))" for "is" s
  proof (induction "is" arbitrary: s)
    case (Cons i "is")
    have "P (fst (run_task jobs i s))" by (rule run_task_keeps [OF assms(1) Cons.prems])
    from Cons.IH [OF this] show ?case by simp
  qed simp
  then show ?thesis using assms(2) by (simp add: run_ahead_def)
qed

lemma as_completed_keeps:
  assumes "\<forall>m \<in> set jobs. keeps P m" "\<And>x c. keeps P (body x c)" "P (fst s)"
  shows "P (fst (snd (as_completed sd jobs body is c s)))"
  using assms(3)
proof (induction "is" arbitrary: c s)
  case (Cons i "is")
  let ?s = "run_task jobs i (run_ahead sd jobs s)"
  have s: "P (fst ?s)" 
    by (rule run_task_keeps [OF assms(1) run_ahead_keeps [OF assms(1) Cons.prems]])
  have body: "P (snd (body x c (fst ?s)))" for x c by (rule keepsD [OF assms(2) s])
  show ?case
  proof (cases "if i < length (snd ?s) then snd ?s ! i else None")
    case None
    with s show ?thesis by (simp add: Let_def)
  next
    case (Some r)
    show ?thesis
    proof (cases r)
      case (Inl e)
      with Some s show ?thesis by (simp add: Let_def)
    next
      case (Inr x)
      obtain q w where b: "body x c (fst ?s) = (q, w)" by (cases "body x c (fst ?s)")
      with body [of x c] have w: "P w" by simp
      show ?thesis
      proof (cases q)
        case (Inl e)
        with Some Inr b w show ?thesis by (simp add: Let_def)
      next
        case r: (Inr c')
        have "P (fst (snd (as_completed sd jobs body is c' (w, snd ?s))))" by (rule Cons.IH) (simp add: w)
        with Some Inr b r show ?thesis by (simp add: Let_def)
      qed
    qed
  qed
qed simp

lemma with_threads_keeps [keeps_rules]:
  assumes "\<And>m. m \<in> snd ` set named \<Longrightarrow> keeps P m" "\<And>x c. keeps P (body x c)"
  shows "keeps P (with_threads sd named body c)"
proof (rule keepsI)
  fix w assume "P w"
  have jobs: "\<forall>m \<in> set (map snd named). keeps P m" using assms(1) by auto
  have "P (fst (snd (as_completed sd (map snd named) body is c (w, rs))))" for "is" rs
    by (rule as_completed_keeps [OF jobs assms(2)]) (simp add: \<open>P w\<close>)
  then show "P (snd (with_threads sd named body c w))"
    by (auto simp: with_threads_def Let_def \<open>P w\<close> split: prod.split intro!: run_ahead_keeps [OF jobs])
      (metis fst_conv snd_conv)+
qed

lemma run_threads_keeps [keeps_rules]:
  assumes "\<And>n m callback. (n, m, callback) \<in> set jobs \<Longrightarrow> keeps P m \<and> keeps P callback"
  shows "keeps P (run_threads sd keep_going jobs)"
proof -
  have run: "keeps P (\<lambda>w. case m w of (Inl e, w') \<Rightarrow> (if keep_going \<and> is_exception e \<and> e \<noteq> Hangs then Inr None else Inl e, w')
      | (Inr x, w') \<Rightarrow> (Inr (Some k), w'))" if "(n, m, callback) \<in> set jobs" for k :: nat and n m callback
  proof (rule keepsI)
    fix w assume "P w"
    with keepsD [of P m w] assms [OF that] show "P (snd (case m w of
        (Inl e, w') \<Rightarrow> (if keep_going \<and> is_exception e \<and> e \<noteq> Hangs then Inr None else Inl e, w')
      | (Inr x, w') \<Rightarrow> (Inr (Some k), w')))"
      by (auto split: prod.split sum.split)
  qed
  have callback: "keeps P (case done of None \<Rightarrow> ret () | Some k \<Rightarrow> if k < length jobs then snd (snd (jobs ! k)) else ret ())"
    for "done"
  proof (cases "done")
    case (Some k)
    show ?thesis
    proof (cases "k < length jobs")
      case True
      then have "jobs ! k \<in> set jobs" by simp
      with assms [of "fst (jobs ! k)" "fst (snd (jobs ! k))" "snd (snd (jobs ! k))"] True Some
      show ?thesis by simp
    qed (simp add: Some keeps_ret)
  qed (simp add: keeps_ret)
  show ?thesis
    unfolding run_threads_def
  proof (rule with_threads_keeps)
    fix m'
    assume "m' \<in> snd ` set (map (\<lambda>(k, n, m, callback). (n, \<lambda>w. case m w of
            (Inl e, w') \<Rightarrow> (if keep_going \<and> is_exception e \<and> e \<noteq> Hangs then Inr None else Inl e, w')
          | (Inr x, w') \<Rightarrow> (Inr (Some k), w'))) (enumerate 0 jobs))"
    then obtain k n m c where k: "(k, n, m, c) \<in> set (enumerate 0 jobs)" and
      m': "m' = (\<lambda>w. case m w of
            (Inl e, w') \<Rightarrow> (if keep_going \<and> is_exception e \<and> e \<noteq> Hangs then Inr None else Inl e, w')
          | (Inr x, w') \<Rightarrow> (Inr (Some k), w'))" by auto
    from k have "(n, m, c) \<in> set jobs" by (auto simp: in_set_enumerate_eq dest: nth_mem)
    then show "keeps P m'" unfolding m' by (rule run)
  qed (rule callback)
qed

end
