(* ===== verification/Pipelines.thy ===== *)
theory Pipelines
  imports Engine Crypto Tar Threads
begin

text \<open>
  The pipelines of \<^verbatim>\<open>storage/async_pipeline/pipelines.py\<close> with the stages that
  \<^verbatim>\<open>pipeline_builder.py\<close> puts together for them and the storage stages (\<^verbatim>\<open>stages/storage\<close>).

  The stages of a pipeline run in threads that hand blocks on through queues. Every stage but the
  uploading one has a single worker and keeps the order, so a pipeline is the composition of its
  stages on the list of blocks. The uploading stage has several workers: the order in which the parts
  are sent is the argument \<open>pe_order\<close>. An exception in a stage ends the pipeline with it.
\<close>

section \<open>Configuration and surroundings\<close>

record pipeline_config =
  pc_encryption :: encryption_config
  pc_chunk_size :: nat
  pc_buffer_size :: nat
  pc_max_chunk_count :: nat
  pc_bulk_delete_chunk_size :: nat
  pc_max_upload_rate :: int
  pc_fs_chunk_size :: nat
  pc_fs_buffer_size :: nat

record 'w pipeline_env =
  pe_config :: pipeline_config
  pe_engine :: "'w engine"
  pe_secret_box :: "string \<Rightarrow> ((string \<Rightarrow> ('w, string) act) \<times> (string \<Rightarrow> string res)) res"
  pe_compression :: "compression res"
  pe_files :: "'w local_files"
  pe_tar :: tar_format
  pe_clock :: "'w \<Rightarrow> nat \<Rightarrow> int"
  pe_order :: "'w \<Rightarrow> nat list"

definition pipeline_crypto :: "'w pipeline_env \<Rightarrow> 'w crypto res" where
  "pipeline_crypto pe = get_encryption (pe_secret_box pe) (pc_encryption (pe_config pe))"

section \<open>The uploading stages\<close>

text \<open>The factor by which buffer and chunk of the uploading stage grow. \<open>source_size / chunk_size\<close> and the
  \<open>ceil\<close> are floating point operations in the code; the model divides exactly.\<close>

definition uploading_multiplier :: "pipeline_config \<Rightarrow> int \<Rightarrow> nat res" where
  "uploading_multiplier pc source_size =
     (if source_size \<le> int (pc_chunk_size pc) then Inr 1
      else if pc_chunk_size pc = 0 \<or> pc_max_chunk_count pc = 0 then Inl (OtherException ''ZeroDivisionError'')
      else if source_size > int (pc_max_chunk_count pc) * int (pc_chunk_size pc)
      then Inr (nat (ceil_div source_size (int (pc_chunk_size pc) * int (pc_max_chunk_count pc))))
      else Inr 1)"

text \<open>\<open>StartMultipartUploadStage\<close>: marks every block with the upload identifier, if one was created.\<close>

fun start_multipart_stage ::
  "'w engine \<Rightarrow> nat \<Rightarrow> string \<Rightarrow> string list \<Rightarrow> string option \<Rightarrow> ('w, (string \<times> string option) list) engine_act" where
  "start_multipart_stage en chunk_size path [] upload_id = ret []"
| "start_multipart_stage en chunk_size path (data # blocks) upload_id =
     (if length data > chunk_size then raise AssertionError
      else bind_act (if upload_id = None \<and> length data = chunk_size
                     then bind_act (engine_create_multipart_upload en path) (\<lambda>i. ret (Some i))
                     else ret upload_id) (\<lambda>upload_id1.
           bind_act (start_multipart_stage en chunk_size path blocks upload_id1) (\<lambda>parts.
             ret ((data, upload_id1) # parts))))"

text \<open>\<open>StorageUploadingStage\<close>: one block, with its position in the stream.\<close>

definition upload_block ::
  "'w engine \<Rightarrow> string \<Rightarrow> nat \<times> (string \<times> string option) \<Rightarrow> ('w, unit) engine_act" where
  "upload_block en path part =
     (case part of (index, (data, upload_id)) \<Rightarrow>
        (case non_empty upload_id of
           Some i \<Rightarrow> engine_upload_part en data path i (Some (index + 1))
         | None \<Rightarrow> bind_act (engine_upload_data en data path) (\<lambda>_. ret ())))"

definition storage_uploading_stage ::
  "'w pipeline_env \<Rightarrow> string \<Rightarrow> (string \<times> string option) list \<Rightarrow> ('w, unit) engine_act" where
  "storage_uploading_stage pe path parts s =
     for_act (arrange (pe_order pe (fst s)) (enumerate 0 parts))
       (\<lambda>part _. upload_block (pe_engine pe) path part) () s"

text \<open>\<open>CompleteMultipartUploadStage\<close>: remembers the first identifier it sees and completes in \<open>on_done\<close>.\<close>

definition seen_upload_id :: "(string \<times> string option) list \<Rightarrow> string option" where
  "seen_upload_id parts =
     (case filter (\<lambda>u. non_empty u \<noteq> None) (map snd parts) of [] \<Rightarrow> None | u # us \<Rightarrow> u)"

definition complete_multipart_stage ::
  "'w engine \<Rightarrow> string \<Rightarrow> (string \<times> string option) list \<Rightarrow> ('w, unit) engine_act" where
  "complete_multipart_stage en path parts =
     (case seen_upload_id parts of
        None \<Rightarrow> ret ()
      | Some i \<Rightarrow> engine_complete_multipart_upload en path i)"

definition upload_chunks :: "'w pipeline_env \<Rightarrow> nat \<Rightarrow> string \<Rightarrow> string list \<Rightarrow> ('w, unit) engine_act" where
  "upload_chunks pe chunk_size path chunks =
     bind_act (start_multipart_stage (pe_engine pe) chunk_size path chunks None) (\<lambda>parts.
     bind_act (storage_uploading_stage pe path parts) (\<lambda>_.
       complete_multipart_stage (pe_engine pe) path parts))"

definition rate_limiter_stage :: "'w pipeline_env \<Rightarrow> string list \<Rightarrow> ('w, string list) act" where
  "rate_limiter_stage pe values w =
     (returns_or_hangs (rate_limit (pe_clock pe w) (pc_max_upload_rate (pe_config pe)) values), w)"

text \<open>Every pipeline makes its own engine object.\<close>

definition build_uploading_stage ::
  "'w pipeline_env \<Rightarrow> string \<Rightarrow> int \<Rightarrow> string list \<Rightarrow> ('w, unit) act" where
  "build_uploading_stage pe path source_size values =
     (let pc = pe_config pe in
      bind_act (lift_res (uploading_multiplier pc source_size)) (\<lambda>multiplier.
        let chunk_size = pc_chunk_size pc * multiplier; buffer_size = pc_buffer_size pc * multiplier in
        bind_act (rate_limiter_stage pe values) (\<lambda>blocks.
        bind_act (rechunk_act chunk_size buffer_size blocks) (\<lambda>chunks.
          with_object new_engine (upload_chunks pe chunk_size path chunks)))))"

text \<open>The optional encrypting stage, with the size estimate of the uploading stage.\<close>

definition encrypt_if ::
  "'w pipeline_env \<Rightarrow> bool \<Rightarrow> int \<Rightarrow> string list \<Rightarrow> ('w, string list \<times> int) act" where
  "encrypt_if pe encrypt estimated_size values =
     (if \<not> encrypt then ret (values, estimated_size)
      else bind_act (lift_res (pipeline_crypto pe)) (\<lambda>cr.
           bind_act (build_encrypt_stage cr (pc_encryption (pe_config pe)) values) (\<lambda>blocks.
             ret (blocks, calc_encrypted_size estimated_size
                    (int (en_chunk_size (pc_encryption (pe_config pe)))) (int (cr_metadata_size cr))))))"

definition compress_if :: "'w pipeline_env \<Rightarrow> bool \<Rightarrow> string list \<Rightarrow> ('w, string list) act" where
  "compress_if pe compress values =
     (if \<not> compress then ret values
      else lift_res (bind_res (pe_compression pe) (\<lambda>cp. cp_compress cp values)))"

definition encrypt_and_upload ::
  "'w pipeline_env \<Rightarrow> string \<Rightarrow> bool \<Rightarrow> int \<Rightarrow> string list \<Rightarrow> ('w, unit) act" where
  "encrypt_and_upload pe path encrypt estimated_size values =
     bind_act (encrypt_if pe encrypt estimated_size values) (\<lambda>(blocks, source_size).
       build_uploading_stage pe path source_size blocks)"

section \<open>Uploading pipelines\<close>

definition upload_data_pipeline :: "'w pipeline_env \<Rightarrow> string \<Rightarrow> string \<Rightarrow> bool \<Rightarrow> ('w, unit) act" where
  "upload_data_pipeline pe data remote_path encrypt =
     encrypt_and_upload pe remote_path encrypt (int (length data)) [data]"

definition upload_data_tarball_pipeline ::
  "'w pipeline_env \<Rightarrow> string list \<Rightarrow> string list \<Rightarrow> string \<Rightarrow> bool \<Rightarrow> bool \<Rightarrow> ('w, unit) act" where
  "upload_data_tarball_pipeline pe file_names data_list remote_path encrypt compress =
     (if length file_names \<noteq> length data_list then raise AssertionError
      else bind_act (lf_now (pe_files pe)) (\<lambda>now.
           let estimated_size = calc_tarball_size file_names (calc_aligned_data_size data_list BLOCKSIZE) in
           bind_act (compress_if pe compress
               (read_data_tarball (pe_tar pe) (pc_fs_chunk_size (pe_config pe)) now file_names data_list)) (\<lambda>blocks.
             encrypt_and_upload pe remote_path encrypt estimated_size blocks)))"

definition calc_aligned_files_size :: "'w local_files \<Rightarrow> string list \<Rightarrow> int \<Rightarrow> ('w, int) act" where
  "calc_aligned_files_size lf files alignment =
     bind_act (map_act (lf_size lf) files) (\<lambda>sizes. ret (calc_aligned_sizes alignment sizes))"

definition calc_aligned_files_size_scan ::
  "'w local_files \<Rightarrow> string \<Rightarrow> string list \<Rightarrow> int \<Rightarrow> ('w, int) act" where
  "calc_aligned_files_size_scan lf base_path exclude alignment =
     bind_act (lf_scan lf base_path exclude) (\<lambda>files.
       calc_aligned_files_size lf (map (path_join base_path) files) alignment)"

definition calc_tarball_size_scan :: "'w local_files \<Rightarrow> string \<Rightarrow> int \<Rightarrow> string list \<Rightarrow> ('w, int) act" where
  "calc_tarball_size_scan lf dir_path aligned_files_size exclude =
     bind_act (lf_scan lf dir_path exclude) (\<lambda>files. ret (calc_tarball_size files aligned_files_size))"

definition delete_files_stage :: "'w local_files \<Rightarrow> string list \<Rightarrow> ('w, unit) act" where
  "delete_files_stage lf files = for_act files (\<lambda>f _. lf_unlink lf f) ()"

definition delete_files_scan_stage :: "'w local_files \<Rightarrow> string \<Rightarrow> string list \<Rightarrow> ('w, unit) act" where
  "delete_files_scan_stage lf base_path exclude =
     bind_act (lf_scan lf base_path exclude) (\<lambda>files. delete_files_stage lf (map (path_join base_path) files))"

definition upload_file_pipeline ::
  "'w pipeline_env \<Rightarrow> string \<Rightarrow> string \<Rightarrow> bool \<Rightarrow> bool \<Rightarrow> ('w, unit) act" where
  "upload_file_pipeline pe local_path remote_path encrypt delete_after =
     bind_act (calc_aligned_files_size (pe_files pe) [local_path] 1) (\<lambda>estimated_size.
     bind_act (lf_read (pe_files pe) local_path) (\<lambda>data.
     bind_act (encrypt_and_upload pe remote_path encrypt estimated_size
                 (chunks_of (pc_fs_chunk_size (pe_config pe)) data)) (\<lambda>_.
       when_act delete_after (delete_files_stage (pe_files pe) [local_path]))))"

definition upload_files_tarball_scan_pipeline ::
  "'w pipeline_env \<Rightarrow> string \<Rightarrow> string \<Rightarrow> bool \<Rightarrow> bool \<Rightarrow> bool \<Rightarrow> string \<Rightarrow> string list \<Rightarrow> ('w, unit) act" where
  "upload_files_tarball_scan_pipeline pe base_path remote_path encrypt delete_after compress tar_base_dir exclude =
     bind_act (calc_aligned_files_size_scan (pe_files pe) base_path exclude BLOCKSIZE) (\<lambda>size0.
     bind_act (calc_tarball_size_scan (pe_files pe) base_path size0 exclude) (\<lambda>estimated_size.
     bind_act (lf_scan (pe_files pe) base_path exclude) (\<lambda>files.
     bind_act (read_files_tarball (pe_tar pe) (pe_files pe) (pc_fs_chunk_size (pe_config pe)) base_path
                 tar_base_dir files) (\<lambda>values.
     bind_act (compress_if pe compress values) (\<lambda>blocks.
     bind_act (encrypt_and_upload pe remote_path encrypt estimated_size blocks) (\<lambda>_.
       when_act delete_after (delete_files_scan_stage (pe_files pe) base_path exclude)))))))"

definition upload_files_tarball_pipeline ::
  "'w pipeline_env \<Rightarrow> string \<Rightarrow> string list \<Rightarrow> string \<Rightarrow> bool \<Rightarrow> bool \<Rightarrow> bool \<Rightarrow> ('w, unit) act" where
  "upload_files_tarball_pipeline pe base_path files remote_path encrypt delete_after compress =
     (let absolute = map (path_join base_path) files in
      bind_act (calc_aligned_files_size (pe_files pe) absolute BLOCKSIZE) (\<lambda>size0.
        let estimated_size = calc_tarball_size files size0 in
        bind_act (read_files_tarball (pe_tar pe) (pe_files pe) (pc_fs_chunk_size (pe_config pe)) base_path
                    '''' files) (\<lambda>values.
        bind_act (compress_if pe compress values) (\<lambda>blocks.
        bind_act (encrypt_and_upload pe remote_path encrypt estimated_size blocks) (\<lambda>_.
          when_act delete_after (delete_files_stage (pe_files pe) absolute))))))"

section \<open>Downloading pipelines\<close>

text \<open>The loop of \<open>DownloadStorageStage\<close>: it ends with the first block without data.\<close>

partial_function (option) download_loop ::
  "'w engine \<Rightarrow> string \<Rightarrow> nat \<Rightarrow> 'w \<times> engine_obj \<Rightarrow> (string list res \<times> ('w \<times> engine_obj)) option" where
  "download_loop en download_id chunk_size s =
     (case engine_download_part en download_id (Some chunk_size) s of (r, s1) \<Rightarrow>
        (case r of
           Inl e \<Rightarrow> Some (Inl e, s1)
         | Inr d \<Rightarrow>
             (case non_empty d of
                None \<Rightarrow> Some (Inr [], s1)
              | Some data \<Rightarrow> Option.bind (download_loop en download_id chunk_size s1) (\<lambda>(q, s2).
                  Some (bind_res q (\<lambda>ds. Inr (data # ds)), s2)))))"

definition download_parts :: "'w engine \<Rightarrow> string \<Rightarrow> nat \<Rightarrow> ('w, string list) engine_act" where
  "download_parts en download_id chunk_size s =
     (case download_loop en download_id chunk_size s of None \<Rightarrow> (Inl Hangs, s) | Some r \<Rightarrow> r)"

definition download_storage_stage :: "'w pipeline_env \<Rightarrow> string \<Rightarrow> ('w, string list) act" where
  "download_storage_stage pe remote_path =
     with_object new_engine
       (bind_act (engine_create_multipart_download (pe_engine pe) remote_path) (\<lambda>download_id.
        bind_act (download_parts (pe_engine pe) download_id (pc_chunk_size (pe_config pe))) (\<lambda>blocks.
        bind_act (engine_complete_multipart_download (pe_engine pe) download_id) (\<lambda>_. ret blocks))))"

definition decrypt_if :: "'w pipeline_env \<Rightarrow> bool \<Rightarrow> string list \<Rightarrow> ('w, string list) act" where
  "decrypt_if pe decrypt values =
     (if \<not> decrypt then ret values
      else bind_act (lift_res (pipeline_crypto pe)) (\<lambda>cr.
             build_decrypt_stage cr (pc_encryption (pe_config pe)) values))"

definition decompress_if :: "'w pipeline_env \<Rightarrow> bool \<Rightarrow> string list \<Rightarrow> ('w, string list) act" where
  "decompress_if pe decompress values =
     (if \<not> decompress then ret values
      else lift_res (bind_res (pe_compression pe) (\<lambda>cp. cp_decompress cp values)))"

definition download_stream :: "'w pipeline_env \<Rightarrow> string \<Rightarrow> bool \<Rightarrow> bool \<Rightarrow> ('w, string list) act" where
  "download_stream pe remote_path decrypt decompress =
     bind_act (download_storage_stage pe remote_path) (\<lambda>values.
     bind_act (decrypt_if pe decrypt values) (decompress_if pe decompress))"

definition download_data_pipeline :: "'w pipeline_env \<Rightarrow> string \<Rightarrow> bool \<Rightarrow> ('w, string) act" where
  "download_data_pipeline pe remote_path decrypt =
     bind_act (download_stream pe remote_path decrypt False) (\<lambda>blocks. ret (concat blocks))"

definition download_data_tarball_pipeline ::
  "'w pipeline_env \<Rightarrow> string \<Rightarrow> bool \<Rightarrow> bool \<Rightarrow> ('w, (string \<times> string) list) act" where
  "download_data_tarball_pipeline pe remote_path decrypt decompress =
     bind_act (download_stream pe remote_path decrypt decompress) (\<lambda>blocks.
       lift_res (unpack_tarball (pe_tar pe) (pc_fs_buffer_size (pe_config pe)) blocks))"

definition write_file_stage :: "'w local_files \<Rightarrow> file_target \<Rightarrow> string list \<Rightarrow> ('w, unit) act" where
  "write_file_stage lf target blocks =
     (case target of
        LocalPath p \<Rightarrow> bind_act (lf_create lf p) (\<lambda>_. for_act blocks (\<lambda>b _. lf_append lf p b) ())
      | OpenedFile p \<Rightarrow> for_act blocks (\<lambda>b _. lf_append lf p b) ())"

definition download_file_pipeline ::
  "'w pipeline_env \<Rightarrow> string \<Rightarrow> file_target \<Rightarrow> bool \<Rightarrow> bool \<Rightarrow> ('w, unit) act" where
  "download_file_pipeline pe remote_path target decrypt decompress =
     bind_act (download_stream pe remote_path decrypt decompress) (write_file_stage (pe_files pe) target)"

definition download_files_pipeline ::
  "'w pipeline_env \<Rightarrow> string \<Rightarrow> string \<Rightarrow> bool \<Rightarrow> bool \<Rightarrow> ('w, unit) act" where
  "download_files_pipeline pe remote_path local_path decrypt decompress =
     bind_act (download_stream pe remote_path decrypt decompress) (\<lambda>values.
     bind_act (rechunk_act (pc_fs_chunk_size (pe_config pe)) (pc_fs_buffer_size (pe_config pe)) values) (\<lambda>blocks.
       write_files_stage (pe_tar pe) (pe_files pe) local_path (pc_fs_buffer_size (pe_config pe)) blocks))"

section \<open>Deleting\<close>

text \<open>\<open>util.retry()\<close> tries five times on any \<open>Exception\<close>.\<close>

definition delete_multiple_storage_pipeline :: "'w pipeline_env \<Rightarrow> string list \<Rightarrow> ('w, unit) act" where
  "delete_multiple_storage_pipeline pe remote_paths =
     bind_act (lift_res (chunked (pc_bulk_delete_chunk_size (pe_config pe)) remote_paths)) (\<lambda>chunks.
       with_object new_engine
         (for_act chunks (\<lambda>paths _. retry_act is_exception 4 (engine_delete_files (pe_engine pe) paths)) ()))"

section \<open>Bounds\<close>

lemma uploading_multiplier_Inr:
  assumes "0 < pc_chunk_size pc" "0 < pc_max_chunk_count pc"
  shows "\<exists>m. uploading_multiplier pc source_size = Inr m \<and> 1 \<le> m \<and>
           source_size \<le> int m * (int (pc_chunk_size pc) * int (pc_max_chunk_count pc))"
proof -
  let ?c = "int (pc_chunk_size pc)" and ?x = "int (pc_max_chunk_count pc)"
  have pos: "0 < ?c * ?x" using assms by simp
  show ?thesis
  proof (cases "source_size > ?c \<and> source_size > ?x * ?c")
    case True
    let ?q = "ceil_div source_size (?c * ?x)"
    have q: "source_size \<le> ?q * (?c * ?x)" by (rule ceil_div_bounds [OF pos])
    with True pos have "0 < ?q * (?c * ?x)" by (smt (verit) assms(1) of_nat_0_less_iff)
    then have "0 < ?q" using pos by (simp add: zero_less_mult_iff)
    with q True assms show ?thesis
      by (intro exI [of _ "nat ?q"]) (simp add: uploading_multiplier_def Suc_le_eq)
  next
    case False
    moreover have "1 * ?c \<le> ?x * ?c" using assms(2) by (intro mult_right_mono) simp_all
    ultimately have "source_size \<le> ?x * ?c" by linarith
    with False assms show ?thesis by (simp add: uploading_multiplier_def mult.commute)
  qed
qed



end
