(* ===== verification/Executor.thy ===== *)
theory Executor
  imports Pipelines
begin

text \<open>
  The process pool (\<^verbatim>\<open>base_pipeline/exec_pool.py\<close>), the pipeline executor
  (\<^verbatim>\<open>pipeline_executor.py\<close>) and the storage loader on top of them (\<^verbatim>\<open>storage/loader.py\<close>).

  A submitted job runs in another process, at any time between its submission and the wait. The world
  of the main process is therefore a pair: the world outside, and the pool with its jobs. Before every
  operation of the main process the jobs named by \<open>xe_progress\<close> finish; \<open>xe_completion\<close> is the order in
  which the jobs of a wait finish. Both are arbitrary functions of the world.
  A job is one step; its worker being killed in the middle of a job is not modelled.
\<close>

section \<open>The pool\<close>

record 'w job =
  jb_id :: "string \<times> string list"
  jb_run :: "('w, unit) act"
  jb_callback :: "part_metadata option"
  jb_result :: "unit res option"

record 'w pool =
  po_jobs :: "'w job list"
  po_alive :: bool

definition new_pool :: "'w pool" where
  "new_pool = \<lparr>po_jobs = [], po_alive = True\<rparr>"

type_synonym 'w cluster = "'w \<times> 'w pool"

record 'w executor =
  xe_env :: "'w pipeline_env"
  xe_workers :: nat
  xe_on_part :: "part_metadata \<Rightarrow> ('w cluster, unit) act"
  xe_progress :: "'w \<Rightarrow> nat list"
  xe_completion :: "'w \<Rightarrow> nat list"

definition broken_pool :: exn where
  "broken_pool = OtherException ''BrokenProcessPool''"

text \<open>A worker takes a job and runs it to its end.\<close>

definition run_job :: "nat \<Rightarrow> 'w cluster \<Rightarrow> 'w cluster" where
  "run_job i s =
     (let jobs = po_jobs (snd s) in
      if i < length jobs \<and> jb_result (jobs ! i) = None \<and> po_alive (snd s)
      then (case jb_run (jobs ! i) (fst s) of (r, w) \<Rightarrow>
              (w, (snd s)\<lparr>po_jobs := jobs[i := (jobs ! i)\<lparr>jb_result := Some r\<rparr>]\<rparr>))
      else s)"

definition run_jobs :: "nat list \<Rightarrow> 'w cluster \<Rightarrow> 'w cluster" where
  "run_jobs js s = fold run_job js s"

text \<open>An operation of the main process, with the jobs that finish before it.\<close>

definition in_main :: "'w executor \<Rightarrow> ('w cluster, 'a) act \<Rightarrow> ('w cluster, 'a) act" where
  "in_main xe m s = m (if xe_workers xe > 0 then run_jobs (xe_progress xe (fst s)) s else s)"

definition pool_submit ::
  "string \<times> string list \<Rightarrow> ('w, unit) act \<Rightarrow> part_metadata option \<Rightarrow> ('w cluster, unit) act" where
  "pool_submit job_id func callback s =
     (let pool = snd s in
      if List.member (map jb_id (po_jobs pool)) job_id then (Inl RuntimeError, s)
      else if \<not> po_alive pool then (Inl broken_pool, s)
      else (Inr (), (fst s, pool\<lparr>po_jobs := po_jobs pool @
              [\<lparr>jb_id = job_id, jb_run = func, jb_callback = callback, jb_result = None\<rparr>]\<rparr>)))"

text \<open>Killing the workers: what has not finished never will.\<close>

definition pool_kill :: "('w cluster, unit) act" where
  "pool_kill s =
     (Inr (), (fst s, (snd s)\<lparr>po_alive := False,
        po_jobs := map (\<lambda>j. if jb_result j = None then j\<lparr>jb_result := Some (Inl broken_pool)\<rparr> else j)
                     (po_jobs (snd s))\<rparr>))"

definition job_result :: "nat \<Rightarrow> 'w cluster \<Rightarrow> unit res" where
  "job_result i s =
     (if i < length (po_jobs (snd s))
      then (case jb_result (po_jobs (snd s) ! i) of None \<Rightarrow> Inl broken_pool | Some r \<Rightarrow> r)
      else Inr ())"

definition job_callback :: "nat \<Rightarrow> 'w cluster \<Rightarrow> part_metadata option" where
  "job_callback i s =
     (if i < length (po_jobs (snd s)) then jb_callback (po_jobs (snd s) ! i) else None)"

text \<open>One round of \<open>as_completed\<close>: the result of the job, then its callback.\<close>

definition complete_job :: "'w executor \<Rightarrow> bool \<Rightarrow> nat \<Rightarrow> ('w cluster, unit) act" where
  "complete_job xe keep_going i s0 =
     (let s = run_job i s0 in
      case job_result i s of
        Inl e \<Rightarrow> if is_exception e \<and> keep_going \<and> e \<noteq> Hangs then (Inr (), s) else (Inl e, s)
      | Inr _ \<Rightarrow> (case job_callback i s of None \<Rightarrow> (Inr (), s) | Some p \<Rightarrow> xe_on_part xe p s))"

definition forget_jobs :: "('w cluster, unit) act" where
  "forget_jobs s = (Inr (), (fst s, (snd s)\<lparr>po_jobs := []\<rparr>))"

definition wait_all :: "'w executor \<Rightarrow> bool \<Rightarrow> ('w cluster, unit) act" where
  "wait_all xe keep_going s =
     bind_act (for_act (arrange (xe_completion xe (fst s)) [0..<length (po_jobs (snd s))])
                 (\<lambda>i _. complete_job xe keep_going i) ())
       (\<lambda>_. forget_jobs) s"

section \<open>The executor\<close>

definition executor_wait :: "'w executor \<Rightarrow> bool \<Rightarrow> ('w cluster, unit) act" where
  "executor_wait xe keep_going =
     (if xe_workers xe > 0
      then try_act (wait_all xe keep_going) (\<lambda>_. True) (\<lambda>e. bind_act pool_kill (\<lambda>_. raise e))
      else ret ())"

definition exec_in_place :: "'w executor \<Rightarrow> ('w, 'a) act \<Rightarrow> ('w cluster, 'a) act" where
  "exec_in_place xe pipeline = in_main xe (on_world pipeline)"

definition exec_pipeline ::
  "'w executor \<Rightarrow> string \<times> string list \<Rightarrow> ('w, unit) act \<Rightarrow> bool \<Rightarrow> part_metadata option
     \<Rightarrow> ('w cluster, unit) act" where
  "exec_pipeline xe job_id pipeline is_async callback =
     (if is_async \<and> xe_workers xe > 0 then in_main xe (pool_submit job_id pipeline callback)
      else bind_act (exec_in_place xe pipeline) (\<lambda>_.
             case callback of None \<Rightarrow> ret () | Some p \<Rightarrow> xe_on_part xe p))"

definition suppress_exceptions :: "('w, unit) act \<Rightarrow> (exn \<Rightarrow> bool) \<Rightarrow> ('w, unit) act" where
  "suppress_exceptions func exceptions = try_act func exceptions (\<lambda>_. ret ())"

definition executor_upload_data :: "'w executor \<Rightarrow> string \<Rightarrow> string \<Rightarrow> bool \<Rightarrow> bool \<Rightarrow> ('w cluster, unit) act" where
  "executor_upload_data xe data path is_async encrypt =
     exec_pipeline xe (''upload_data'', [''<data>'', path])
       (upload_data_pipeline (xe_env xe) data path encrypt) is_async None"

definition executor_upload_data_tarball ::
  "'w executor \<Rightarrow> string list \<Rightarrow> string list \<Rightarrow> string \<Rightarrow> bool \<Rightarrow> bool \<Rightarrow> bool \<Rightarrow> ('w cluster, unit) act" where
  "executor_upload_data_tarball xe names data_list path is_async encrypt compress =
     exec_pipeline xe (''upload_data_tarball'', [path])
       (upload_data_tarball_pipeline (xe_env xe) names data_list path encrypt compress) is_async None"

definition executor_upload_file ::
  "'w executor \<Rightarrow> string \<Rightarrow> string \<Rightarrow> bool \<Rightarrow> bool \<Rightarrow> bool \<Rightarrow> bool \<Rightarrow> ('w cluster, unit) act" where
  "executor_upload_file xe local_path path is_async encrypt delete skip_deleted =
     (let pipeline = upload_file_pipeline (xe_env xe) local_path path encrypt delete in
      exec_pipeline xe (''upload_file'', [local_path, path])
        (if skip_deleted then suppress_exceptions pipeline (\<lambda>e. e = FileNotFoundError) else pipeline)
        is_async None)"

definition executor_upload_files_tarball_scan ::
  "'w executor \<Rightarrow> string \<Rightarrow> string \<Rightarrow> bool \<Rightarrow> bool \<Rightarrow> bool \<Rightarrow> bool \<Rightarrow> string \<Rightarrow> string list
     \<Rightarrow> part_metadata option \<Rightarrow> ('w cluster, unit) act" where
  "executor_upload_files_tarball_scan xe dir path is_async encrypt delete compress tar_base_dir exclude callback =
     exec_pipeline xe (''upload_files_tarball_scan'', [path])
       (upload_files_tarball_scan_pipeline (xe_env xe) dir path encrypt delete compress tar_base_dir exclude)
       is_async callback"

definition executor_upload_files_tarball ::
  "'w executor \<Rightarrow> string \<Rightarrow> string \<Rightarrow> bool \<Rightarrow> bool \<Rightarrow> bool \<Rightarrow> bool \<Rightarrow> string list
     \<Rightarrow> part_metadata option \<Rightarrow> ('w cluster, unit) act" where
  "executor_upload_files_tarball xe dir path is_async encrypt delete compress files callback =
     exec_pipeline xe (''upload_files_tarball'', [path])
       (upload_files_tarball_pipeline (xe_env xe) dir files path encrypt delete compress) is_async callback"

definition executor_download_data :: "'w executor \<Rightarrow> string \<Rightarrow> bool \<Rightarrow> ('w cluster, string) act" where
  "executor_download_data xe path encrypted =
     exec_in_place xe (download_data_pipeline (xe_env xe) path encrypted)"

definition executor_download_data_tarball ::
  "'w executor \<Rightarrow> string \<Rightarrow> bool \<Rightarrow> bool \<Rightarrow> ('w cluster, (string \<times> string) list) act" where
  "executor_download_data_tarball xe path encrypted compressed =
     exec_in_place xe (download_data_tarball_pipeline (xe_env xe) path encrypted compressed)"

definition target_name :: "file_target \<Rightarrow> string" where
  "target_name t = (case t of LocalPath p \<Rightarrow> p | OpenedFile p \<Rightarrow> p)"

definition executor_download_file ::
  "'w executor \<Rightarrow> string \<Rightarrow> file_target \<Rightarrow> bool \<Rightarrow> bool \<Rightarrow> bool \<Rightarrow> ('w cluster, unit) act" where
  "executor_download_file xe path target is_async encrypted compressed =
     exec_pipeline xe (''download_file'', [path, target_name target])
       (download_file_pipeline (xe_env xe) path target encrypted compressed) is_async None"

definition executor_download_files ::
  "'w executor \<Rightarrow> string \<Rightarrow> string \<Rightarrow> bool \<Rightarrow> bool \<Rightarrow> bool \<Rightarrow> part_metadata option \<Rightarrow> ('w cluster, unit) act" where
  "executor_download_files xe path local_path is_async encrypted compressed callback =
     exec_pipeline xe (''download_files'', [path, local_path])
       (download_files_pipeline (xe_env xe) path local_path encrypted compressed) is_async callback"

definition executor_delete_files :: "'w executor \<Rightarrow> string list \<Rightarrow> bool \<Rightarrow> ('w cluster, unit) act" where
  "executor_delete_files xe paths is_async =
     exec_pipeline xe (''delete_files'', paths) (delete_multiple_storage_pipeline (xe_env xe) paths) is_async None"

section \<open>The loader\<close>

text \<open>The loader asks the engine directly, in the main process, for what does not go through a pipeline.\<close>

definition engine_in_main :: "'w executor \<Rightarrow> ('w engine \<Rightarrow> ('w, 'a) engine_act) \<Rightarrow> ('w cluster, 'a) act" where
  "engine_in_main xe f = in_main xe (on_world (with_object new_engine (f (pe_engine (xe_env xe)))))"

text \<open>The methods return nothing in the model; the code returns the path it was given. Texts and bytes are the same here.\<close>

definition loader_upload_data :: "'w executor \<Rightarrow> string \<Rightarrow> string \<Rightarrow> bool \<Rightarrow> bool \<Rightarrow> ('w cluster, unit) act" where
  "loader_upload_data xe data remote_path is_async encrypted = executor_upload_data xe data remote_path is_async encrypted"

definition loader_upload_data_tarball ::
  "'w executor \<Rightarrow> string list \<Rightarrow> string list \<Rightarrow> string \<Rightarrow> bool \<Rightarrow> bool \<Rightarrow> bool \<Rightarrow> ('w cluster, unit) act" where
  "loader_upload_data_tarball xe file_names data_list remote_path is_async encrypted compressed =
     executor_upload_data_tarball xe file_names data_list remote_path is_async encrypted compressed"

definition loader_upload_file ::
  "'w executor \<Rightarrow> string \<Rightarrow> string \<Rightarrow> bool \<Rightarrow> bool \<Rightarrow> bool \<Rightarrow> bool \<Rightarrow> ('w cluster, unit) act" where
  "loader_upload_file xe local_path remote_path is_async encrypted delete skip_deleted =
     executor_upload_file xe local_path remote_path is_async encrypted delete skip_deleted"

definition loader_upload_files_tarball_scan ::
  "'w executor \<Rightarrow> string \<Rightarrow> string \<Rightarrow> string \<Rightarrow> string list \<Rightarrow> bool \<Rightarrow> bool \<Rightarrow> bool \<Rightarrow> part_metadata option \<Rightarrow> bool \<Rightarrow>
   ('w cluster, unit) act" where
  "loader_upload_files_tarball_scan xe dir_path remote_path tar_base_dir exclude is_async encrypted delete callback compressed =
     executor_upload_files_tarball_scan xe dir_path remote_path is_async encrypted delete compressed tar_base_dir exclude callback"

definition loader_upload_files_tarball ::
  "'w executor \<Rightarrow> string \<Rightarrow> string \<Rightarrow> string list \<Rightarrow> bool \<Rightarrow> bool \<Rightarrow> bool \<Rightarrow> part_metadata option \<Rightarrow> bool \<Rightarrow>
   ('w cluster, unit) act" where
  "loader_upload_files_tarball xe dir_path remote_path files is_async encrypted delete callback compressed =
     executor_upload_files_tarball xe dir_path remote_path is_async encrypted delete compressed files callback"

definition loader_download_data :: "'w executor \<Rightarrow> string \<Rightarrow> bool \<Rightarrow> ('w cluster, string) act" where
  "loader_download_data xe remote_path encrypted = executor_download_data xe remote_path encrypted"

definition loader_download_data_tarball ::
  "'w executor \<Rightarrow> string \<Rightarrow> bool \<Rightarrow> bool \<Rightarrow> ('w cluster, (string \<times> string) list) act" where
  "loader_download_data_tarball xe remote_path encrypted compressed =
     executor_download_data_tarball xe remote_path encrypted compressed"

definition loader_download_file ::
  "'w executor \<Rightarrow> string \<Rightarrow> file_target \<Rightarrow> bool \<Rightarrow> bool \<Rightarrow> bool \<Rightarrow> ('w cluster, unit) act" where
  "loader_download_file xe remote_path local_path is_async encrypted compressed =
     executor_download_file xe remote_path local_path is_async encrypted compressed"

definition loader_download_files ::
  "'w executor \<Rightarrow> string \<Rightarrow> string \<Rightarrow> bool \<Rightarrow> bool \<Rightarrow> bool \<Rightarrow> part_metadata option \<Rightarrow> ('w cluster, unit) act" where
  "loader_download_files xe remote_path local_path is_async encrypted compressed callback =
     executor_download_files xe remote_path local_path is_async encrypted compressed callback"

definition loader_delete_files :: "'w executor \<Rightarrow> string list \<Rightarrow> bool \<Rightarrow> ('w cluster, unit) act" where
  "loader_delete_files xe remote_paths is_async = executor_delete_files xe remote_paths is_async"

definition loader_wait :: "'w executor \<Rightarrow> bool \<Rightarrow> ('w cluster, unit) act" where
  "loader_wait xe keep_going = executor_wait xe keep_going"

definition loader_list_dir :: "'w executor \<Rightarrow> string \<Rightarrow> bool \<Rightarrow> bool \<Rightarrow> ('w cluster, string list) act" where
  "loader_list_dir xe remote_path recursive absolute =
     engine_in_main xe (\<lambda>en. engine_list_dir en remote_path recursive absolute)"

definition loader_path_exists :: "'w executor \<Rightarrow> string \<Rightarrow> bool \<Rightarrow> ('w cluster, bool) act" where
  "loader_path_exists xe remote_path is_dir = engine_in_main xe (\<lambda>en. engine_path_exists en remote_path is_dir)"

definition loader_get_file_size :: "'w executor \<Rightarrow> string \<Rightarrow> ('w cluster, int) act" where
  "loader_get_file_size xe remote_path = engine_in_main xe (\<lambda>en. engine_get_object_size en remote_path)"

text \<open>The loader that the layout is given. The keyword arguments that the layout leaves at their default are fixed here.\<close>

definition storage_loader_of :: "'w executor \<Rightarrow> 'w cluster loader" where
  "storage_loader_of xe =
     \<lparr>ld_upload_data = (\<lambda>d p e. loader_upload_data xe d p False e),
      ld_upload_data_tarball = (\<lambda>ns ds p a e. loader_upload_data_tarball xe ns ds p a e False),
      ld_upload_file = (\<lambda>l p e. loader_upload_file xe l p False e False False),
      ld_upload_files_tarball = (\<lambda>d p fs a e del cb. loader_upload_files_tarball xe d p fs a e del cb False),
      ld_upload_files_tarball_scan = (\<lambda>d p b x e del z. loader_upload_files_tarball_scan xe d p b x True e del None z),
      ld_download_data = loader_download_data xe,
      ld_download_data_tarball = loader_download_data_tarball xe,
      ld_download_file = loader_download_file xe,
      ld_download_files = loader_download_files xe,
      ld_delete_files = (\<lambda>ps. loader_delete_files xe ps True),
      ld_wait = loader_wait xe,
      ld_list_dir = loader_list_dir xe,
      ld_path_exists = loader_path_exists xe,
      ld_get_file_size = loader_get_file_size xe\<rparr>"

lemmas loader_method_defs =
  loader_upload_data_def loader_upload_data_tarball_def loader_upload_file_def loader_upload_files_tarball_scan_def
  loader_upload_files_tarball_def loader_download_data_def loader_download_data_tarball_def loader_download_file_def
  loader_download_files_def loader_delete_files_def loader_wait_def loader_list_dir_def loader_path_exists_def
  loader_get_file_size_def

lemmas storage_loader_defs = storage_loader_of_def loader_method_defs

end
