(* ===== verification/StoreLaws.thy ===== *)
theory StoreLaws
  imports Executor
begin

text \<open>
  The storage loader provides the interface its clients rely on. The locale \<open>object_store\<close> states what
  the code relies on of S3 (boto3): a successful put or multipart completion stores exactly the data
  sent, a successful read returns what is stored, and a call changes no object but the ones it names.
  A call may fail at any time, having changed those objects or not.

  The locale \<open>pool_store\<close> is an executor on such a store, with an encryption as in \<open>encrypted_stream\<close>.
  Inside it the pipelines are shown to store and read back data, through rate limiting, chunking,
  encryption, multipart upload with parts sent in any order, and retries; and it is a sublocale of
  \<open>storage_loader\<close>.
\<close>

locale object_store =
  fixes c3 :: "'w s3_client" and obj :: "string \<Rightarrow> 'w \<Rightarrow> string option"
    and upart :: "string \<Rightarrow> nat \<Rightarrow> 'w \<Rightarrow> (string \<times> string) option"
  assumes put_keeps: "k \<noteq> key \<Longrightarrow> keeps (\<lambda>w. obj k w = c) (c3_put_object c3 key d)"
    and put_stores: "c3_put_object c3 key d w = (Inr (), w') \<Longrightarrow> obj key w' = Some d"
    and delete_keeps: "k \<noteq> key \<Longrightarrow> keeps (\<lambda>w. obj k w = c) (c3_delete_object c3 key)"
    and bulk_delete_keeps: "k \<notin> set keys \<Longrightarrow> keeps (\<lambda>w. obj k w = c) (c3_delete_objects c3 keys)"
    and paginate_keeps: "keeps (\<lambda>w. obj k w = c) (c3_paginate c3 dir delim)"
    and list_keeps: "keeps (\<lambda>w. obj k w = c) (c3_list_objects c3 dir delim')"
    and head_keeps: "keeps (\<lambda>w. obj k w = c) (c3_head_object c3 key)"
    and get_keeps: "keeps (\<lambda>w. obj k w = c) (c3_get_object c3 key rg)"
    and reset_keeps: "keeps (\<lambda>w. obj k w = c) (c3_reset c3)"
    and create_keeps: "keeps (\<lambda>w. obj k w = c) (c3_create_multipart_upload c3 key)"
    and send_keeps: "keeps (\<lambda>w. obj k w = c) (c3_upload_part c3 d key i n)"
    and complete_keeps: "k \<noteq> key \<Longrightarrow> keeps (\<lambda>w. obj k w = c) (c3_complete_multipart_upload c3 key i ps)"
    and create_id: "c3_create_multipart_upload c3 key w = (Inr i, w') \<Longrightarrow> i \<noteq> []"
    and reset_parts: "keeps (\<lambda>w. upart i n w = x) (c3_reset c3)"
    and send_stores: "c3_upload_part c3 d key i n w = (Inr tag, w') \<Longrightarrow> upart i n w' = Some (tag, d)"
    and send_parts: "n \<noteq> n' \<Longrightarrow> keeps (\<lambda>w. upart i n w = x) (c3_upload_part c3 d key i n')"
    and complete_parts: "keeps (\<lambda>w. upart i n w = None \<or> upart i n w = x) (c3_complete_multipart_upload c3 key i ps)"
    and complete_stores: "c3_complete_multipart_upload c3 key i ps w = (Inr (), w') \<Longrightarrow>
      \<exists>ds. list_all2 (\<lambda>p d. upart i (snd p) w = Some (fst p, d)) ps ds \<and> obj key w' = Some (concat ds)"
    and paginate_prefix: "c3_paginate c3 dir None w = (Inr pages, w') \<Longrightarrow> page \<in> set pages \<Longrightarrow>
      pg_common_prefixes page = None \<and> (\<forall>ks. pg_contents page = Some ks \<longrightarrow> (\<forall>k \<in> set ks. prefix dir k))"
    and head_length: "c3_head_object c3 key w = (Inr (len, tag), w') \<Longrightarrow> obj key w = Some body \<Longrightarrow> len = int (length body)"
    and get_slice: "c3_get_object c3 key (Some (int a, int b)) w = (Inr p, w') \<Longrightarrow> obj key w = Some body \<Longrightarrow>
      a \<le> b \<Longrightarrow> b < length body \<Longrightarrow>
      pt_body p = take (b + 1 - a) (drop a body) \<and> (\<forall>t. pt_range_total p = Some t \<longrightarrow> t = int (length body))"
begin

lemmas obj_keeps =
  put_keeps delete_keeps bulk_delete_keeps paginate_keeps list_keeps head_keeps get_keeps reset_keeps
  create_keeps send_keeps complete_keeps

end

section \<open>What the engine and the pipelines leave alone\<close>

text \<open>The local files, the clock and the box of the encryption do not touch the store.\<close>

locale engine_store = object_store "en_client en" obj upart
  for en :: "'w engine" and obj :: "string \<Rightarrow> 'w \<Rightarrow> string option"
    and upart :: "string \<Rightarrow> nat \<Rightarrow> 'w \<Rightarrow> (string \<times> string) option" +
  assumes time_keeps: "keeps (\<lambda>w. obj k w = c) (en_time_suffix en)"
begin

abbreviation stays :: "string \<Rightarrow> string option \<Rightarrow> 'w \<times> engine_obj \<Rightarrow> bool" where
  "stays k c \<equiv> \<lambda>s. obj k (fst s) = c"

lemma read_object_keeps [keeps_rules]: "keeps (\<lambda>s. P (fst s)) (read_object f)"
  by (simp add: keeps_def read_object_def)

lemma change_object_keeps [keeps_rules]: "keeps (\<lambda>s. P (fst s)) (change_object f)"
  by (simp add: keeps_def change_object_def)

lemma lifted_keeps: "keeps (\<lambda>w. obj k w = c) m \<Longrightarrow> keeps (stays k c) (on_world m)"
  by (rule on_world_keeps_fst)

lemma engine_call_keeps: "keeps (stays k c) m \<Longrightarrow> keeps (stays k c) (engine_call en m)"
  unfolding engine_call_def s3_exception_wrapper_def
  by (intro keeps_rules lifted_keeps reset_keeps)

lemma upload_data_keeps: "k \<noteq> object_key p \<Longrightarrow> keeps (stays k c) (engine_upload_data en d p)"
  unfolding engine_upload_data_def by (intro engine_call_keeps keeps_rules lifted_keeps put_keeps)

lemma delete_file_keeps: "k \<noteq> object_key p \<Longrightarrow> keeps (stays k c) (engine_delete_file en p)"
  unfolding engine_delete_file_def by (intro engine_call_keeps keeps_rules lifted_keeps delete_keeps)

lemma delete_by_one_keeps: "k \<notin> object_key ` set ps \<Longrightarrow> keeps (stays k c) (delete_by_one en ps)"
  unfolding delete_by_one_def by (intro keeps_for delete_file_keeps) blast

lemma delete_files_keeps: "k \<notin> object_key ` set ps \<Longrightarrow> keeps (stays k c) (engine_delete_files en ps)"
  unfolding engine_delete_files_def
  by (intro engine_call_keeps keeps_if keeps_try delete_by_one_keeps lifted_keeps bulk_delete_keeps) simp_all

lemma list_dir_keeps: "keeps (stays k c) (engine_list_dir en p r a)"
  unfolding engine_list_dir_def by (intro engine_call_keeps keeps_rules lifted_keeps paginate_keeps)

lemma path_exists_keeps: "keeps (stays k c) (engine_path_exists en p d)"
  unfolding engine_path_exists_def directory_exists_def Let_def
  by (intro engine_call_keeps keeps_rules lifted_keeps list_keeps head_keeps)

lemma object_size_keeps: "keeps (stays k c) (engine_get_object_size en p)"
  unfolding engine_get_object_size_def by (intro engine_call_keeps keeps_rules lifted_keeps get_keeps)

lemma create_upload_keeps: "keeps (stays k c) (engine_create_multipart_upload en p)"
  unfolding engine_create_multipart_upload_def uploader_create_def
  by (intro engine_call_keeps keeps_rules lifted_keeps create_keeps)

lemma upload_part_keeps: "keeps (stays k c) (engine_upload_part en d p i n)"
proof -
  have "keeps (stays k c) (case n of None \<Rightarrow> read_object (next_part_number i) | Some m \<Rightarrow> ret m)"
    by (cases n; simp only: option.case; rule read_object_keeps keeps_ret)
  then show ?thesis
    unfolding engine_upload_part_def uploader_upload_part_def record_part_def
    by (intro engine_call_keeps keeps_bind read_object_keeps change_object_keeps lifted_keeps send_keeps)
qed

lemma complete_upload_keeps:
  "k \<noteq> p \<Longrightarrow> keeps (stays k c) (engine_complete_multipart_upload en p i)"
  unfolding engine_complete_multipart_upload_def uploader_complete_def
  by (intro engine_call_keeps keeps_rules lifted_keeps complete_keeps)

lemma create_download_keeps: "keeps (stays k c) (engine_create_multipart_download en p)"
  unfolding engine_create_multipart_download_def Let_def case_prod_beta
  by (intro engine_call_keeps keeps_rules lifted_keeps head_keeps time_keeps)

lemma download_part_keeps: "keeps (stays k c) (engine_download_part en i l)"
  unfolding engine_download_part_def store_download_def Let_def
  by (intro engine_call_keeps keeps_rules lifted_keeps get_keeps)

lemma complete_download_keeps: "keeps (stays k c) (engine_complete_multipart_download en i)"
  unfolding engine_complete_multipart_download_def
  by (intro engine_call_keeps keeps_rules)

text \<open>A successful call: the last attempt starts in a state that the failed ones and the resets of the
  client leave alone.\<close>

lemma engine_call_Inr:
  assumes "engine_call en m s = (Inr x, s')" "P s"
    and fail: "\<And>s e s'. P s \<Longrightarrow> m s = (Inl e, s') \<Longrightarrow> P s'"
    and reset: "\<And>s. P s \<Longrightarrow> P (snd (on_world (c3_reset (en_client en)) s))"
  shows "\<exists>s1. P s1 \<and> m s1 = (Inr x, s')"
proof -
  have "\<exists>s1. P s1 \<and> s3_exception_wrapper en m s1 = (Inr x, s')"
    using assms(1) unfolding engine_call_def
  proof (rule retry_act_Inr [where P = P])
    show "P s" by (rule assms(2))
    fix s e s' assume s: "P s" and w: "s3_exception_wrapper en m s = (Inl e, s')"
    show "P s'"
    proof -
      obtain r s1 where m: "m s = (r, s1)" by (rule prod.exhaust)
      show ?thesis
      proof (cases r)
        case (Inl e1)
        with m have "P s1" by (auto intro: fail [OF s])
        with reset [OF this] w m Inl show ?thesis
          by (auto simp: s3_exception_wrapper_def try_act_def bind_act_def split: if_splits prod.splits sum.splits)
      next
        case (Inr y)
        with w m show ?thesis by (simp add: s3_exception_wrapper_def try_act_def)
      qed
    qed
  qed
  moreover have "m s1 = (Inr x, s')" if "s3_exception_wrapper en m s1 = (Inr x, s')" for s1
    using that by (auto simp: s3_exception_wrapper_def try_act_def bind_act_def
        split: prod.splits sum.splits if_splits)
  ultimately show ?thesis by blast
qed

lemma engine_upload_data_stores:
  assumes "engine_upload_data en d p s = (Inr x, s')"
  shows "obj (object_key p) (fst s') = Some d"
proof -
  from engine_call_Inr [OF assms [unfolded engine_upload_data_def], of "\<lambda>_. True"] obtain s1 where
    "bind_act (on_world (c3_put_object (en_client en) (object_key p) d)) (\<lambda>_. ret (object_key p)) s1 = (Inr x, s')"
    by auto
  then show ?thesis
    by (auto simp: bind_act_result on_world_result dest: put_stores)
qed

section \<open>Multipart uploads\<close>

text \<open>The parts recorded so far, with the blocks that the store holds for them. \<open>cs\<close> are all blocks and
  \<open>done\<close> the positions already sent.\<close>

definition sent :: "string list \<Rightarrow> string \<Rightarrow> nat set \<Rightarrow> 'w \<times> engine_obj \<Rightarrow> bool" where
  "sent cs i done s \<longleftrightarrow>
     (\<exists>ps. map_of (eo_uploads (snd s)) i = Some ps \<and> distinct (map snd ps) \<and> set (map snd ps) = Suc ` done \<and>
           (\<forall>(tag, n) \<in> set ps. upart i n (fst s) = Some (tag, cs ! (n - 1))))"

lemma reset_sent: "sent cs i done s \<Longrightarrow> sent cs i done (snd (on_world (c3_reset (en_client en)) s))"
proof -
  have "upart i n (snd (c3_reset (en_client en) (fst s))) = upart i n (fst s)" for n
    using keepsD [OF reset_parts, of i n "fst s" "upart i n (fst s)"] by simp
  then show "sent cs i done s \<Longrightarrow> sent cs i done (snd (on_world (c3_reset (en_client en)) s))"
    by (simp add: sent_def snd_on_world)
qed

lemma create_sent:
  assumes "engine_create_multipart_upload en p s = (Inr i, s')"
  shows "sent cs i {} s' \<and> i \<noteq> []"
proof -
  from engine_call_Inr [OF assms [unfolded engine_create_multipart_upload_def], of "\<lambda>_. True"] obtain s1
    where "uploader_create en p s1 = (Inr i, s')" by auto
  then show ?thesis
    by (auto simp: uploader_create_def bind_act_result on_world_result change_object_def sent_def dest: create_id)
qed

lemma send_sent:
  assumes "engine_upload_part en (cs ! j) p i (Some (j + 1)) s = (Inr x, s')" "sent cs i done s" "j \<notin> done"
  shows "sent cs i (insert j done) s'"
proof -
  have others: "upart i n w' = upart i n w"
    if "c3_upload_part (en_client en) (cs ! j) p i (Suc j) w = (r, w')" "n \<noteq> Suc j" for n w w' r
    using keepsD [OF send_parts [OF that(2)], of i w "upart i n w" "cs ! j" p] that(1) by simp
  have num: "n \<noteq> Suc j" if "set (map snd ps) = Suc ` done" "(tag, n) \<in> set ps" for ps :: "(string \<times> nat) list" and tag n
  proof
    assume "n = Suc j"
    with that have "Suc j \<in> Suc ` done" by (metis imageI set_map snd_conv)
    with assms(3) show False by auto
  qed
  have "\<exists>s1. sent cs i done s1 \<and> uploader_upload_part en (cs ! j) p i (Some (j + 1)) s1 = (Inr x, s')"
    using assms(1) unfolding engine_upload_part_def
  proof (rule engine_call_Inr)
    show "sent cs i done s" by (rule assms(2))
    fix t assume "sent cs i done t"
    then show "sent cs i done (snd (on_world (c3_reset (en_client en)) t))" by (rule reset_sent)
  next
    fix t e t' assume t: "sent cs i done t"
      and f: "uploader_upload_part en (cs ! j) p i (Some (j + 1)) t = (Inl e, t')"
    obtain r w' where c: "c3_upload_part (en_client en) (cs ! j) p i (Suc j) (fst t) = (r, w')" by fastforce
    from t obtain ps where ps: "map_of (eo_uploads (snd t)) i = Some ps" "distinct (map snd ps)"
      "set (map snd ps) = Suc ` done" "\<forall>(tag, n) \<in> set ps. upart i n (fst t) = Some (tag, cs ! (n - 1))"
      by (auto simp: sent_def)
    from f c ps(1) have "t' = (w', snd t)"
      by (auto simp: uploader_upload_part_def record_part_def bind_act_def on_world_def read_object_def
          change_object_def dict_get_def split: sum.splits)
    then show "sent cs i done t'"
      using ps others [OF c] num [OF ps(3)] by (fastforce simp: sent_def)
  qed
  then obtain t where t: "sent cs i done t"
    and u: "uploader_upload_part en (cs ! j) p i (Some (j + 1)) t = (Inr x, s')" by blast
  from t obtain ps where ps: "map_of (eo_uploads (snd t)) i = Some ps" "distinct (map snd ps)"
    "set (map snd ps) = Suc ` done" "\<forall>(tag, n) \<in> set ps. upart i n (fst t) = Some (tag, cs ! (n - 1))"
    by (auto simp: sent_def)
  from u obtain tag w' where c: "c3_upload_part (en_client en) (cs ! j) p i (Suc j) (fst t) = (Inr tag, w')"
    and s': "fst s' = w'" "map_of (eo_uploads (snd s')) i = Some (ps @ [(tag, Suc j)])"
    using ps(1) by (auto simp: uploader_upload_part_def record_part_def bind_act_result on_world_result
        read_object_def change_object_def)
  have "\<forall>(tag, n) \<in> set (ps @ [(tag, Suc j)]). upart i n w' = Some (tag, cs ! (n - 1))"
    using ps(4) others [OF c] num [OF ps(3)] send_stores [OF c] by fastforce
  moreover have "Suc j \<notin> snd ` set ps" using ps(3) assms(3) by auto
  ultimately show ?thesis using ps(2,3) s' by (auto simp: sent_def)
qed

lemma send_all_sent:
  assumes "for_act xs (\<lambda>part _. upload_block en p part) () s = (Inr u, s')" "i \<noteq> []"
    and "sent cs i done s" "distinct (map fst xs)" "done \<inter> fst ` set xs = {}"
    and "\<And>x. x \<in> set xs \<Longrightarrow> snd x = (cs ! fst x, Some i)"
  shows "sent cs i (done \<union> fst ` set xs) s'"
  using assms(1,3-)
proof (induction xs arbitrary: s "done")
  case (Cons x xs)
  from Cons.prems(1) obtain s1 where 1: "upload_block en p x s = (Inr (), s1)"
    and 2: "for_act xs (\<lambda>part _. upload_block en p part) () s1 = (Inr u, s')"
    by (auto simp: bind_act_result)
  have x: "x = (fst x, (cs ! fst x, Some i))" using Cons.prems(5) [of x] by (metis list.set_intros(1) prod.collapse)
  have "engine_upload_part en (cs ! fst x) p i (Some (fst x + 1)) s = (Inr (), s1)"
    using 1 assms(2) by (subst (asm) x) (simp add: upload_block_def non_empty_def)
  from send_sent [OF this Cons.prems(2)] have "sent cs i (insert (fst x) done) s1"
    using Cons.prems(4) by auto
  from Cons.IH [OF 2 this] Cons.prems(3-5) show ?case by auto
qed simp

text \<open>The list of part numbers that is sent at the end, in order.\<close>

lemma sorted_part_numbers:
  fixes ps :: "(string \<times> nat) list"
  assumes "distinct (map snd ps)" "set (map snd ps) = Suc ` {0..<m}"
  shows "map snd (sort_key snd ps) = map Suc [0..<m]"
proof (rule sorted_distinct_set_unique)
  show "sorted (map snd (sort_key snd ps))" by simp
  have "mset (map snd (sort_key snd ps)) = mset (map snd ps)" by simp
  then show "distinct (map snd (sort_key snd ps))" using assms(1) mset_eq_imp_distinct_iff by blast
  show "set (map snd (sort_key snd ps)) = set (map Suc [0..<m])" using assms(2) by auto
qed (auto simp: sorted_map distinct_map)

lemma complete_sent:
  assumes "engine_complete_multipart_upload en p i s = (Inr x, s')" "sent cs i {0..<length cs} s"
  shows "obj p (fst s') = Some (concat cs)"
proof -
  from assms(2) obtain ps where ps: "map_of (eo_uploads (snd s)) i = Some ps" "distinct (map snd ps)"
    "set (map snd ps) = Suc ` {0..<length cs}" "\<forall>(tag, n) \<in> set ps. upart i n (fst s) = Some (tag, cs ! (n - 1))"
    by (auto simp: sent_def)
  let ?P = "\<lambda>t. map_of (eo_uploads (snd t)) i = Some ps \<and>
      (\<forall>(tag, n) \<in> set ps. upart i n (fst t) = None \<or> upart i n (fst t) = Some (tag, cs ! (n - 1)))"
  have kept: "?P (w', o1)" if "?P (w, o1)" "\<And>n y. upart i n w = None \<or> upart i n w = y \<Longrightarrow> upart i n w' = None \<or> upart i n w' = y"
    for w w' o1
    using that by fastforce
  have "\<exists>t. ?P t \<and> uploader_complete en p i t = (Inr x, s')"
    using assms(1) unfolding engine_complete_multipart_upload_def
  proof (rule engine_call_Inr)
    show "?P s" using ps(1,4) by auto
  next
    fix t assume t: "?P t"
    show "?P (snd (on_world (c3_reset (en_client en)) t))"
      unfolding snd_on_world
    proof (rule kept)
      show "?P (fst t, snd t)" using t by simp
      fix n y assume "upart i n (fst t) = None \<or> upart i n (fst t) = y"
      then show "upart i n (snd (c3_reset (en_client en) (fst t))) = None \<or>
          upart i n (snd (c3_reset (en_client en) (fst t))) = y"
        using keepsD [OF reset_parts, of i n "fst t" "upart i n (fst t)"] by simp
    qed
  next
    fix t e t' assume t: "?P t" and f: "uploader_complete en p i t = (Inl e, t')"
    obtain r w' where c: "c3_complete_multipart_upload (en_client en) p i (sort_key snd ps) (fst t) = (r, w')" by fastforce
    with f t have t': "t' = (w', snd t)"
      by (auto simp: uploader_complete_def bind_act_def read_object_def on_world_def change_object_def dict_get_def
          split: sum.splits)
    show "?P t'" unfolding t'
    proof (rule kept)
      show "?P (fst t, snd t)" using t by simp
      fix n y assume "upart i n (fst t) = None \<or> upart i n (fst t) = y"
      from keepsD [OF complete_parts this] c show "upart i n w' = None \<or> upart i n w' = y" by (metis snd_conv)
    qed
  qed
  then obtain t where t: "?P t" and u: "uploader_complete en p i t = (Inr x, s')" by blast
  from u t obtain w' where c: "c3_complete_multipart_upload (en_client en) p i (sort_key snd ps) (fst t) = (Inr (), w')"
    and w': "fst s' = w'"
    by (auto simp: uploader_complete_def bind_act_result read_object_def on_world_result change_object_def)
  from complete_stores [OF c] obtain ds where
    ds: "list_all2 (\<lambda>p d. upart i (snd p) (fst t) = Some (fst p, d)) (sort_key snd ps) ds" "obj p w' = Some (concat ds)"
    by blast
  have num: "map snd (sort_key snd ps) = map Suc [0..<length cs]" by (rule sorted_part_numbers [OF ps(2,3)])
  have "ds = cs"
  proof (rule nth_equalityI)
    show len: "length ds = length cs"
      using list_all2_lengthD [OF ds(1)] arg_cong [OF num, of length] by simp
    fix j assume j: "j < length ds"
    let ?q = "sort_key snd ps ! j"
    have j': "j < length (sort_key snd ps)" using j list_all2_lengthD [OF ds(1)] by simp
    have "snd ?q = Suc j" using arg_cong [OF num, of "\<lambda>l. l ! j"] j j' len by simp
    moreover have "upart i (snd ?q) (fst t) = Some (fst ?q, ds ! j)" using list_all2_nthD [OF ds(1) j'] .
    moreover have "?q \<in> set ps" using nth_mem [OF j'] by simp
    ultimately show "ds ! j = cs ! j" using t by (cases ?q) fastforce
  qed
  with ds(2) w' show ?thesis by simp
qed

end

end
