(* ===== verification/LoaderLaws.thy ===== *)
theory LoaderLaws
  imports StoreLaws
begin

text \<open>
  The pipelines on a store (locale \<open>engine_store\<close>), and the loader on a store and a process pool (locale
  \<open>pool_store\<close>), which provides the interface \<open>storage_loader\<close> of the layout.
\<close>

context engine_store
begin

section \<open>Uploading a stream\<close>

lemma start_with_id:
  "start_multipart_stage en n p cs (Some i) s = (Inr parts, s') \<Longrightarrow>
     parts = map (\<lambda>d. (d, Some i)) cs \<and> s' = s"
proof (induction cs arbitrary: parts)
  case (Cons d cs)
  show ?case
  proof (cases "length d > n")
    case False
    with Cons.prems obtain ps where "start_multipart_stage en n p cs (Some i) s = (Inr ps, s')" "parts = (d, Some i) # ps"
      by (auto simp: bind_act_result simp del: act_simps) (auto simp: ret_def)
    with Cons.IH show ?thesis by simp
  qed (use Cons.prems in simp)
qed simp

lemma start_keeps: "keeps (stays k c) (start_multipart_stage en n p cs u)"
proof (induction cs arbitrary: u)
  case (Cons d cs)
  show ?case
    unfolding start_multipart_stage.simps
    by (intro keeps_rules create_upload_keeps Cons.IH)
qed (simp add: keeps_ret)

lemma upload_block_keeps:
  assumes "k \<noteq> p" "k \<noteq> object_key p"
  shows "keeps (stays k c) (upload_block en p part)"
proof -
  obtain j d u where part: "part = (j, d, u)" by (rule prod_cases3)
  show ?thesis
  proof (cases "non_empty u")
    case None
    then show ?thesis
      unfolding part upload_block_def prod.case None option.case
      by (intro keeps_bind upload_data_keeps assms(2) keeps_ret)
  qed (simp add: part upload_block_def upload_part_keeps)
qed

lemma upload_chunks_keeps:
  assumes "pe_engine pe = en" "k \<noteq> p" "k \<noteq> object_key p"
  shows "keeps (stays k c) (upload_chunks pe n p chunks)"
proof -
  have "keeps (stays k c) (storage_uploading_stage pe p parts)" for parts
  proof (rule keepsI)
    fix s assume s: "stays k c s"
    have "keeps (stays k c) (for_act xs (\<lambda>part _. upload_block en p part) ())" for xs
      by (intro keeps_for upload_block_keeps assms)
    from keepsD [OF this s] show "stays k c (snd (storage_uploading_stage pe p parts s))"
      by (simp add: storage_uploading_stage_def assms(1))
  qed
  moreover have "keeps (stays k c) (complete_multipart_stage en p parts)" for parts
    unfolding complete_multipart_stage_def
    by (cases "seen_upload_id parts") (simp_all add: keeps_ret complete_upload_keeps [OF assms(2)])
  ultimately show ?thesis
    unfolding upload_chunks_def assms(1) by (intro keeps_bind start_keeps)
qed

lemma enumerate_map: "enumerate m (map f xs) = map (\<lambda>(j, x). (j, f x)) (enumerate m xs)"
  by (induction xs arbitrary: m) simp_all

text \<open>A stream in chunks: one chunk that is not full, or a multipart upload.\<close>

lemma upload_chunks_stores:
  assumes "pe_engine pe = en" "0 < n" "data \<noteq> []" "object_key p = p"
    and up: "upload_chunks pe n p (chunks_of n data) s = (Inr u, s')"
  shows "obj p (fst s') = Some data"
proof -
  obtain c cs where ccs: "chunks_of n data = c # cs" and c: "c = take n data" and cs: "cs = chunks_of n (drop n data)"
    using assms(2,3) by (simp add: chunks_of.simps [of n data])
  have cat: "concat (c # cs) = data" using chunks_of_concat [OF assms(2), of data] ccs by simp
  from up obtain parts s1 s2 where start: "start_multipart_stage en n p (c # cs) None s = (Inr parts, s1)"
    and store: "storage_uploading_stage pe p parts s1 = (Inr (), s2)"
    and fin: "complete_multipart_stage en p parts s2 = (Inr u, s')"
    by (auto simp: upload_chunks_def bind_act_result assms(1) ccs)
  have store': "for_act (arrange (pe_order pe (fst s1)) (enumerate 0 parts)) (\<lambda>part _. upload_block en p part) () s1
      = (Inr (), s2)"
    using store by (simp add: storage_uploading_stage_def assms(1))
  show ?thesis
  proof (cases "length c = n")
    case True
    with start obtain i s0 ps where cr: "engine_create_multipart_upload en p s = (Inr i, s0)"
      and "start_multipart_stage en n p cs (Some i) s0 = (Inr ps, s1)" and "parts = (c, Some i) # ps"
      by (auto simp: bind_act_result simp del: act_simps) (auto simp: ret_def)
    then have parts: "parts = map (\<lambda>d. (d, Some i)) (c # cs)" and s1: "s1 = s0"
      using start_with_id by auto
    let ?xs = "arrange (pe_order pe (fst s1)) (enumerate 0 parts)"
    have m: "mset ?xs = mset (enumerate 0 parts)" by (rule arrange_mset)
    have fsts: "distinct (map fst ?xs)" "fst ` set ?xs = {0..<length (c # cs)}"
    proof -
      have "mset (map fst ?xs) = mset (map fst (enumerate 0 parts))" using m by (metis mset_map)
      moreover have "map fst (enumerate 0 parts) = [0..<length parts]" by (simp add: enumerate_eq_zip)
      moreover have "length parts = length (c # cs)" by (simp add: parts)
      ultimately have e: "mset (map fst ?xs) = mset [0..<length (c # cs)]" by (simp only:)
      then show "distinct (map fst ?xs)" by (metis distinct_upt mset_eq_imp_distinct_iff)
      from e have "set (map fst ?xs) = set [0..<length (c # cs)]" by (rule mset_eq_setD)
      then show "fst ` set ?xs = {0..<length (c # cs)}" by (simp only: set_map set_upt)
    qed
    have elem: "snd x = ((c # cs) ! fst x, Some i)" if "x \<in> set ?xs" for x
    proof -
      have "x \<in> set (enumerate 0 parts)" using that mset_eq_setD [OF m] by simp
      then show ?thesis
        by (auto simp: parts enumerate_map in_set_enumerate_eq simp del: list.map)
    qed
    from create_sent [OF cr] s1 have i: "sent (c # cs) i {} s1" "i \<noteq> []" by simp_all
    have "sent (c # cs) i ({} \<union> fst ` set ?xs) s2"
      by (rule send_all_sent [OF store' i(2,1) fsts(1)]) (simp_all add: elem)
    then have "sent (c # cs) i {0..<length (c # cs)} s2" by (simp only: fsts(2) Un_empty_left)
    moreover have "seen_upload_id parts = Some i" using i(2) by (simp add: parts seen_upload_id_def non_empty_def)
    then have "engine_complete_multipart_upload en p i s2 = (Inr u, s')"
      using fin by (simp add: complete_multipart_stage_def)
    ultimately show ?thesis using complete_sent cat by metis
  next
    case False
    then have lt: "length data < n" using c by simp
    then have one: "c = data" "cs = []" using c cs by simp_all
    with start False have parts: "parts = [(data, None)]" "s1 = s"
      by (auto simp: bind_act_result split: if_splits)
    have "arrange order [x] = [x]" for order and x :: "nat \<times> string \<times> string option"
      using arrange_mset [of order "[x]"] by (metis mset_single_iff_right)
    then have "upload_block en p (0, data, None) s = (Inr (), s2)"
      using store' parts by (auto simp: bind_act_result)
    then obtain x where "engine_upload_data en data p s = (Inr x, s2)"
      by (auto simp: upload_block_def non_empty_def bind_act_result)
    moreover have "s' = s2" using fin parts by (simp add: complete_multipart_stage_def seen_upload_id_def non_empty_def)
    ultimately show ?thesis using engine_upload_data_stores assms(4) by metis
  qed
qed

section \<open>Downloading an object\<close>

definition reading :: "string \<Rightarrow> string \<Rightarrow> string \<Rightarrow> nat \<Rightarrow> 'w \<times> engine_obj \<Rightarrow> bool" where
  "reading key c i r s \<longleftrightarrow> obj key (fst s) = Some c \<and> r \<le> length c \<and>
     (\<exists>tag. map_of (eo_downloads (snd s)) i =
        Some \<lparr>md_path = key, md_range_start = int r, md_total_size = int (length c), md_etag = tag\<rparr>)"

lemma reset_reading: "reading key c i r s \<Longrightarrow> reading key c i r (snd (on_world (c3_reset (en_client en)) s))"
  using keepsD [OF reset_keeps, of key "fst s" "Some c"] by (simp add: reading_def snd_on_world)

lemma create_reading:
  assumes "engine_create_multipart_download en p s = (Inr i, s')" "obj (object_key p) (fst s) = Some c"
  shows "reading (object_key p) c i 0 s'"
proof -
  let ?m = "let path = object_key p in
        bind_act (on_world (c3_head_object (en_client en) path)) (\<lambda>(content_length, etag).
        bind_act (on_world (en_time_suffix en)) (\<lambda>time.
          let download_id = path @ ''_'' @ time in
          bind_act (change_object (\<lambda>o1. o1\<lparr>eo_downloads := dict_set (eo_downloads o1) download_id
              \<lparr>md_path = path, md_range_start = 0, md_total_size = content_length, md_etag = etag\<rparr>\<rparr>)) (\<lambda>_.
            ret download_id)))"
  have "keeps (stays (object_key p) (Some c)) ?m"
    unfolding Let_def case_prod_beta by (intro keeps_rules lifted_keeps head_keeps time_keeps)
  then have "\<exists>s1. stays (object_key p) (Some c) s1 \<and> ?m s1 = (Inr i, s')"
    using assms(1) unfolding engine_create_multipart_download_def
    by (intro engine_call_Inr [where P = "stays (object_key p) (Some c)"])
      (use assms(2) in \<open>auto simp: snd_on_world dest: keepsD keepsD [OF reset_keeps]\<close>)
  then obtain s1 where o1: "obj (object_key p) (fst s1) = Some c" and m: "?m s1 = (Inr i, s')" by blast
  from m obtain len tag w1 time w2 where h: "c3_head_object (en_client en) (object_key p) (fst s1) = (Inr (len, tag), w1)"
    and t: "en_time_suffix en w1 = (Inr time, w2)"
    and s': "fst s' = w2" "map_of (eo_downloads (snd s')) i =
      Some \<lparr>md_path = object_key p, md_range_start = 0, md_total_size = len, md_etag = tag\<rparr>"
    by (auto simp: bind_act_result on_world_result change_object_def Let_def)
  have "obj (object_key p) w1 = Some c" using keepsD [OF head_keeps o1] h by (metis snd_conv)
  then have "obj (object_key p) w2 = Some c" using keepsD [OF time_keeps] t by (metis snd_conv)
  with head_length [OF h o1] s' show ?thesis by (simp add: reading_def)
qed

lemma part_reading:
  assumes "engine_download_part en i (Some n) s = (Inr q, s')" "reading key c i r s" "0 < n"
  shows "if r = length c then q = None
         else q = Some (take n (drop r c)) \<and> reading key c i (min (r + n) (length c)) s'"
proof -
  let ?m = "(let len = (case Some n of None \<Rightarrow> DEFAULT_DOWNLOAD_PART_LEN
                   | Some n \<Rightarrow> if n = 0 then DEFAULT_DOWNLOAD_PART_LEN else n) in
        bind_act (read_object (\<lambda>o1. dict_get (eo_downloads o1) i)) (\<lambda>d.
          if md_range_start d \<ge> md_total_size d then ret None
          else
            (let range_start = md_range_start d;
                 range_end = min (range_start + int len) (md_total_size d) - 1 in
             bind_act (on_world (c3_get_object (en_client en) (md_path d) (Some (range_start, range_end)))) (\<lambda>part.
             bind_act (lift_res (accept_etag d part)) (\<lambda>d1.
             bind_act (store_download i
                 (d1\<lparr>md_range_start := md_range_start d1 + int (length (pt_body part))\<rparr>)) (\<lambda>_.
               ret (if pt_body part = [] then None else Some (pt_body part)))))))) :: ('w, string option) engine_act"
  have step: "?m t = (case c3_get_object (en_client en) key (Some (int r, int (min (r + n) (length c) - 1))) (fst t) of
        (Inl e, w) \<Rightarrow> (Inl e, (w, snd t))
      | (Inr part, w) \<Rightarrow>
          (case accept_etag \<lparr>md_path = key, md_range_start = int r, md_total_size = int (length c), md_etag = tag\<rparr> part of
             Inl e \<Rightarrow> (Inl e, (w, snd t))
           | Inr d1 \<Rightarrow> (Inr (if pt_body part = [] then None else Some (pt_body part)),
               (w, (snd t)\<lparr>eo_downloads := dict_set (eo_downloads (snd t)) i
                  (d1\<lparr>md_range_start := md_range_start d1 + int (length (pt_body part))\<rparr>)\<rparr>))))"
    if "r < length c" "map_of (eo_downloads (snd t)) i =
        Some \<lparr>md_path = key, md_range_start = int r, md_total_size = int (length c), md_etag = tag\<rparr>" for t tag
  proof -
    have "min (int r + int n) (int (length c)) - 1 = int (min (r + n) (length c) - 1)"
      using that(1) assms(3) by (simp add: of_nat_diff min_def)
    then show ?thesis
      using that assms(3)
      by (simp add: bind_act_def read_object_def dict_get_def on_world_def store_download_def change_object_def Let_def
          split: prod.splits sum.splits)
  qed
  show ?thesis
  proof (cases "r = length c")
    case True
    have "\<exists>t. reading key c i r t \<and> ?m t = (Inr q, s')"
      using assms(1) unfolding engine_download_part_def
    proof (rule engine_call_Inr)
      fix t e t' assume "reading key c i r t" "?m t = (Inl e, t')"
      then show "reading key c i r t'"
        using True by (auto simp: reading_def bind_act_def read_object_def dict_get_def)
    qed (use assms(2) reset_reading in auto)
    with True show ?thesis by (auto simp: reading_def bind_act_def read_object_def dict_get_def)
  next
    case False
    then have lt: "r < length c" using assms(2) by (auto simp: reading_def)
    have "\<exists>t. reading key c i r t \<and> ?m t = (Inr q, s')"
      using assms(1) unfolding engine_download_part_def
    proof (rule engine_call_Inr)
      fix t e t' assume t: "reading key c i r t" and f: "?m t = (Inl e, t')"
      from t obtain tag where d: "map_of (eo_downloads (snd t)) i =
          Some \<lparr>md_path = key, md_range_start = int r, md_total_size = int (length c), md_etag = tag\<rparr>"
        by (auto simp: reading_def)
      have "obj key w = Some c" if "c3_get_object (en_client en) key rg (fst t) = (x, w)" for rg x w
        using keepsD [OF get_keeps, of key "fst t" "Some c" key rg] t that by (simp add: reading_def)
      with f d t show "reading key c i r t'"
        unfolding step [OF lt d] by (auto simp: reading_def split: prod.splits sum.splits)
    qed (use assms(2) reset_reading in auto)
    then obtain t where t: "reading key c i r t" and m: "?m t = (Inr q, s')" by blast
    from t obtain tag where d: "map_of (eo_downloads (snd t)) i =
        Some \<lparr>md_path = key, md_range_start = int r, md_total_size = int (length c), md_etag = tag\<rparr>"
      by (auto simp: reading_def)
    let ?b = "min (r + n) (length c) - 1"
    from m obtain part w d1 where g: "c3_get_object (en_client en) key (Some (int r, int ?b)) (fst t) = (Inr part, w)"
      and a: "accept_etag \<lparr>md_path = key, md_range_start = int r, md_total_size = int (length c), md_etag = tag\<rparr> part = Inr d1"
      and q: "q = (if pt_body part = [] then None else Some (pt_body part))"
      and s': "s' = (w, (snd t)\<lparr>eo_downloads := dict_set (eo_downloads (snd t)) i
                  (d1\<lparr>md_range_start := md_range_start d1 + int (length (pt_body part))\<rparr>)\<rparr>)"
      unfolding step [OF lt d] by (auto split: prod.splits sum.splits)
    have ot: "obj key (fst t) = Some c" using t by (simp add: reading_def)
    have "r \<le> ?b" "?b < length c" using lt assms(3) by auto
    from get_slice [OF g ot this]
    have body: "pt_body part = take (?b + 1 - r) (drop r c)"
      and tot: "\<And>x. pt_range_total part = Some x \<Longrightarrow> x = int (length c)" by auto
    have "?b + 1 - r = min n (length c - r)" using lt assms(3) by auto
    then have body': "pt_body part = take n (drop r c)" using body by (simp add: min_def)
    from a tot have d1: "md_path d1 = key" "md_range_start d1 = int r" "md_total_size d1 = int (length c)"
      by (auto simp: accept_etag_def split: option.splits if_splits)
    have "obj key w = Some c" using keepsD [OF get_keeps ot] g by (metis snd_conv)
    moreover have "int r + int (length (take n (drop r c))) = int (min (r + n) (length c))" using lt by auto
    ultimately have "reading key c i (min (r + n) (length c)) s'"
      using d1 by (cases d1) (simp add: reading_def s' body')
    with q body' lt assms(3) False show ?thesis by simp
  qed
qed

lemma download_loop_reads:
  assumes "download_loop en i n s = Some (Inr ds, s')" "reading key c i r s" "0 < n"
  shows "concat ds = drop r c"
  using assms(1,2)
proof (induction "length c - r" arbitrary: r s ds rule: less_induct)
  case less
  obtain q s1 where p: "engine_download_part en i (Some n) s = (q, s1)" by (rule prod.exhaust)
  show ?case
  proof (cases q)
    case (Inl e)
    with less.prems(1) p show ?thesis by (subst (asm) download_loop.simps) simp
  next
    case (Inr x)
    note part = part_reading [OF p [unfolded Inr] less.prems(2) assms(3)]
    show ?thesis
    proof (cases "r = length c")
      case True
      with part less.prems(1) p Inr show ?thesis
        by (subst (asm) download_loop.simps) (auto simp: non_empty_def)
    next
      case False
      then have lt: "r < length c" using less.prems(2) by (auto simp: reading_def)
      let ?b = "take n (drop r c)" and ?r = "min (r + n) (length c)"
      have x: "x = Some ?b" and rd: "reading key c i ?r s1" using part False by auto
      have ne: "?b \<noteq> []" using lt assms(3) by simp
      obtain es where "download_loop en i n s1 = Some (Inr es, s')" and ds: "ds = ?b # es"
        using less.prems(1) p Inr x ne
        by (subst (asm) download_loop.simps)
          (auto simp: non_empty_def bind_eq_Some_conv)
      from less.hyps [OF _ this(1) rd] lt assms(3) have "concat es = drop ?r c" by simp
      moreover have "take n (drop r c) @ drop ?r c = drop r c"
      proof -
        have "drop ?r c = drop n (drop r c)" by (simp add: min_def add.commute)
        then show ?thesis by (simp only: append_take_drop_id)
      qed
      ultimately show ?thesis by (simp add: ds)
    qed
  qed
qed

lemma download_loop_keeps:
  assumes "download_loop en i n s = Some y" "stays k c s"
  shows "stays k c (snd y)"
proof -
  have "en = en \<longrightarrow> stays k c s \<longrightarrow> stays k c (snd y)"
  proof (rule download_loop.raw_induct
      [where P = "\<lambda>en' i n s y. en' = en \<longrightarrow> stays k c s \<longrightarrow> stays k c (snd y)", OF _ assms(1)], intro impI)
  fix f :: "'w engine \<Rightarrow> string \<Rightarrow> nat \<Rightarrow> 'w \<times> engine_obj \<Rightarrow> (string list res \<times> ('w \<times> engine_obj)) option"
    and en' i n s y
  assume IH: "\<And>en' i n s y. f en' i n s = Some y \<Longrightarrow> en' = en \<longrightarrow> stays k c s \<longrightarrow> stays k c (snd y)"
    and body: "(case engine_download_part en' i (Some n) s of (r, s1) \<Rightarrow>
        (case r of
           Inl e \<Rightarrow> Some (Inl e, s1)
         | Inr d \<Rightarrow>
             (case non_empty d of
                None \<Rightarrow> Some (Inr [], s1)
              | Some data \<Rightarrow> Option.bind (f en' i n s1) (\<lambda>(q, s2).
                  Some (bind_res q (\<lambda>ds. Inr (data # ds)), s2))))) = Some y"
    and en': "en' = en" and s: "stays k c s"
  obtain r s1 where p: "engine_download_part en' i (Some n) s = (r, s1)" by (rule prod.exhaust)
  have s1: "stays k c s1" using keepsD [OF download_part_keeps s] p en' by (metis snd_conv)
  show "stays k c (snd y)"
  proof (cases r)
    case (Inl e)
    with body p s1 show ?thesis by auto
  next
    case (Inr d)
    show ?thesis
    proof (cases "non_empty d")
      case None
      with body p s1 Inr show ?thesis by auto
    next
      case (Some data)
      with body p Inr obtain q s2 where "f en' i n s1 = Some (q, s2)" "snd y = s2"
        by (auto simp: bind_eq_Some_conv)
      with IH [of en' i n s1 "(q, s2)"] en' s1 show ?thesis by simp
    qed
  qed
  qed
  with assms(2) show ?thesis by simp
qed

lemma download_parts_keeps: "keeps (stays k c) (download_parts en i n)"
  by (auto simp: keeps_def download_parts_def dest!: download_loop_keeps split: option.splits)

lemma download_storage_keeps:
  "pe_engine pe = en \<Longrightarrow> keeps (\<lambda>w. obj k w = c) (download_storage_stage pe p)"
  unfolding download_storage_stage_def
  by (intro with_object_keeps keeps_rules)
    (simp_all add: create_download_keeps download_parts_keeps complete_download_keeps)

lemma download_storage_reads:
  assumes "pe_engine pe = en" "0 < pc_chunk_size (pe_config pe)" "obj (object_key p) w = Some c"
    and "download_storage_stage pe p w = (Inr blocks, w')"
  shows "concat blocks = c"
proof -
  from assms(4) obtain i s1 s2 where cr: "engine_create_multipart_download en p (w, new_engine) = (Inr i, s1)"
    and l: "download_parts en i (pc_chunk_size (pe_config pe)) s1 = (Inr blocks, s2)"
    by (auto simp: download_storage_stage_def with_object_result bind_act_result assms(1))
  have "reading (object_key p) c i 0 s1" using create_reading [OF cr] assms(3) by simp
  moreover from l have "download_loop en i (pc_chunk_size (pe_config pe)) s1 = Some (Inr blocks, s2)"
    by (simp add: download_parts_def split: option.splits)
  ultimately show ?thesis using download_loop_reads assms(2) by fastforce
qed

end

section \<open>The loader on a store and a pool\<close>

locale pool_store =
  engine_store "pe_engine (xe_env xe)" obj upart +
  encrypted_stream cr "pc_encryption (pe_config (xe_env xe))"
  for xe :: "'w executor" and obj :: "string \<Rightarrow> 'w \<Rightarrow> string option"
    and upart :: "string \<Rightarrow> nat \<Rightarrow> 'w \<Rightarrow> (string \<times> string) option" and cr :: "'w crypto" +
  assumes crypto: "pipeline_crypto (xe_env xe) = Inr cr"
    and encrypt_keeps: "keeps (\<lambda>w. obj k w = c) (cr_encrypt cr x)"
    and chunk_size_pos: "0 < pc_chunk_size (pe_config (xe_env xe))"
    and chunk_fits: "pc_chunk_size (pe_config (xe_env xe)) \<le> pc_buffer_size (pe_config (xe_env xe))"
    and count_pos: "0 < pc_max_chunk_count (pe_config (xe_env xe))"
begin

abbreviation en where "en \<equiv> pe_engine (xe_env xe)"
abbreviation pc where "pc \<equiv> pe_config (xe_env xe)"
abbreviation has :: "string \<Rightarrow> string option \<Rightarrow> 'w \<Rightarrow> bool" where "has k c \<equiv> \<lambda>w. obj k w = c"

definition decode :: "bool \<Rightarrow> string \<Rightarrow> string res" where
  "decode e c = (if e then decrypted cr (pc_encryption pc) c else Inr c)"

subsection \<open>Pipelines\<close>

lemma rechunk_act_keeps: "keeps P (rechunk_act n m vs)"
  unfolding rechunk_act_def by (rule keeps_lift)

lemma uploading_keeps:
  assumes "k \<noteq> p" "k \<noteq> object_key p"
  shows "keeps (has k c) (build_uploading_stage (xe_env xe) p n vs)"
proof -
  have "keeps (has k c) (rate_limiter_stage (xe_env xe) vs)"
    by (simp add: keeps_def rate_limiter_stage_def)
  then show ?thesis
    unfolding build_uploading_stage_def Let_def
    by (intro keeps_bind keeps_lift rechunk_act_keeps with_object_keeps upload_chunks_keeps assms refl)
qed

lemma uploading_stores:
  assumes "build_uploading_stage (xe_env xe) p n vs w = (Inr u, w')" "concat vs \<noteq> []" "object_key p = p"
  shows "obj p w' = Some (concat vs)"
proof -
  obtain m where m: "uploading_multiplier pc n = Inr m" "1 \<le> m"
    using uploading_multiplier_Inr [OF chunk_size_pos count_pos] by blast
  let ?n = "pc_chunk_size pc * m"
  have n: "0 < ?n" "?n \<le> pc_buffer_size pc * m" using m(2) chunk_size_pos chunk_fits by simp_all
  from assms(1) m obtain bs w1 where bs: "rate_limiter_stage (xe_env xe) vs w = (Inr bs, w1)"
    and r: "bind_act (rechunk_act ?n (pc_buffer_size pc * m) bs)
       (\<lambda>chunks. with_object new_engine (upload_chunks (xe_env xe) ?n p chunks)) w1 = (Inr u, w')"
    by (auto simp: build_uploading_stage_def Let_def bind_act_result)
  have cat: "concat bs = concat vs"
    using bs by (auto simp: rate_limiter_stage_def returns_or_hangs_def split: option.splits dest: rate_limit_concat)
  from r obtain s' where "upload_chunks (xe_env xe) ?n p (chunks_of ?n (concat vs)) (w1, new_engine) = (Inr u, s')"
    and "fst s' = w'"
    using rechunk_chunks_of [OF n, of bs] cat
    by (auto simp: rechunk_act_def returns_or_hangs_def with_object_result)
  with upload_chunks_stores [OF refl n(1) assms(2,3)] show ?thesis by metis
qed

lemma encrypt_stage_keeps: "keeps (has k c) (encrypt_if (xe_env xe) e n vs)"
proof (cases e)
  case True
  have "keeps (has k c) (build_encrypt_stage cr (pc_encryption pc) vs)"
    unfolding build_encrypt_stage_def encrypt_stage_def
    by (intro keeps_bind keeps_map_act rechunk_act_keeps encrypt_keeps)
  then show ?thesis using True by (simp add: encrypt_if_def crypto keeps_bind keeps_ret)
qed (simp add: encrypt_if_def keeps_ret)

lemma encrypt_and_upload_keeps:
  "k \<noteq> p \<Longrightarrow> k \<noteq> object_key p \<Longrightarrow> keeps (has k c) (encrypt_and_upload (xe_env xe) p e n vs)"
  unfolding encrypt_and_upload_def case_prod_beta
  by (intro keeps_bind encrypt_stage_keeps uploading_keeps)

lemma encrypt_and_upload_stores:
  assumes "encrypt_and_upload (xe_env xe) p e n vs w = (Inr u, w')" "concat vs \<noteq> []" "object_key p = p"
  shows "\<exists>c. obj p w' = Some c \<and> decode e c = Inr (concat vs)"
proof -
  from assms(1) obtain bs m w1 where bs: "encrypt_if (xe_env xe) e n vs w = (Inr (bs, m), w1)"
    and up: "build_uploading_stage (xe_env xe) p m bs w1 = (Inr u, w')"
    by (auto simp: encrypt_and_upload_def bind_act_result)
  show ?thesis
  proof (cases e)
    case False
    with bs have "bs = vs" by (simp add: encrypt_if_def)
    with uploading_stores [OF up] assms(2,3) False show ?thesis by (simp add: decode_def)
  next
    case True
    with bs have be: "build_encrypt_stage cr (pc_encryption pc) vs w = (Inr bs, w1)"
      by (auto simp: encrypt_if_def crypto bind_act_result)
    have "0 < length (concat vs)" using assms(2) by simp
    also have "\<dots> \<le> length (concat bs)"
      using enc_chunks(3) [OF chunk_pos build_encrypt_result [OF be]] by simp
    finally have "concat bs \<noteq> []" by force
    with uploading_stores [OF up _ assms(3)] encrypt_decrypted [OF be] True show ?thesis
      by (simp add: decode_def)
  qed
qed

lemma download_stream_keeps: "keeps (has k c) (download_data_pipeline (xe_env xe) p e)"
proof -
  have "keeps (has k c) (decrypt_if (xe_env xe) e vs)" for vs
    unfolding decrypt_if_def crypto build_decrypt_stage_def
    by (intro keeps_rules) (simp add: keeps_rules rechunk_act_keeps)
  moreover have "keeps (has k c) (decompress_if (xe_env xe) False vs)" for vs
    by (simp add: decompress_if_def keeps_ret)
  ultimately show ?thesis
    unfolding download_data_pipeline_def download_stream_def
    by (intro keeps_bind download_storage_keeps keeps_ret refl)
qed

lemma download_decodes:
  assumes "download_data_pipeline (xe_env xe) p e w = (Inr d, w')" "obj (object_key p) w = Some c"
  shows "decode e c = Inr d"
proof -
  from assms(1) obtain vs w1 bs where vs: "download_storage_stage (xe_env xe) p w = (Inr vs, w1)"
    and bs: "decrypt_if (xe_env xe) e vs w1 = (Inr bs, w')" and d: "d = concat bs"
    by (auto simp: download_data_pipeline_def download_stream_def bind_act_result decompress_if_def)
  have "concat vs = c" by (rule download_storage_reads [OF refl chunk_size_pos assms(2) vs])
  with bs d show ?thesis
    by (auto simp: decrypt_if_def crypto build_decrypt_result decode_def decrypted_def split: if_splits)
qed

lemma delete_pipeline_keeps:
  assumes "k \<notin> object_key ` set ps"
  shows "keeps (has k c) (delete_multiple_storage_pipeline (xe_env xe) ps)"
proof (cases "chunked (pc_bulk_delete_chunk_size pc) ps")
  case (Inl e)
  then show ?thesis by (simp add: delete_multiple_storage_pipeline_def keeps_raise)
next
  case (Inr chunks)
  have "k \<notin> object_key ` set paths" if "paths \<in> set chunks" for paths
    using Inr that assms by (auto simp: chunked_def split: if_splits dest: chunks_of_set)
  then have "keeps (has k c) (with_object new_engine
      (for_act chunks (\<lambda>paths _. retry_act is_exception 4 (engine_delete_files en paths)) ()))"
    by (intro with_object_keeps keeps_for keeps_retry delete_files_keeps) blast
  then show ?thesis by (simp add: delete_multiple_storage_pipeline_def Inr)
qed

subsection \<open>Jobs\<close>

text \<open>An object is safe when it is stored and no job that waits can change it.\<close>

definition harmless :: "string \<Rightarrow> string \<Rightarrow> 'w job \<Rightarrow> bool" where
  "harmless k c j \<longleftrightarrow> jb_callback j = None \<and> (jb_result j = None \<longrightarrow> keeps (has k (Some c)) (jb_run j))"

definition intact :: "string \<Rightarrow> string \<Rightarrow> 'w cluster \<Rightarrow> bool" where
  "intact k c s \<longleftrightarrow> obj k (fst s) = Some c \<and>
     (0 < xe_workers xe \<longrightarrow> (\<forall>j \<in> set (po_jobs (snd s)). harmless k c j))"

definition idle :: "'w cluster \<Rightarrow> bool" where
  "idle s \<longleftrightarrow> xe_workers xe = 0 \<or> po_jobs (snd s) = []"

lemma run_job_intact:
  assumes "0 < xe_workers xe" "intact k c s"
  shows "intact k c (run_job i s)"
proof (cases "i < length (po_jobs (snd s)) \<and> jb_result (po_jobs (snd s) ! i) = None \<and> po_alive (snd s)")
  case True
  let ?j = "po_jobs (snd s) ! i"
  obtain r w where run: "jb_run ?j (fst s) = (r, w)" by fastforce
  have j: "harmless k c ?j" using assms True by (simp add: intact_def)
  then have "obj k w = Some c"
    using True run assms(2) keepsD [of "has k (Some c)" "jb_run ?j" "fst s"] by (simp add: harmless_def intact_def)
  moreover have "harmless k c (?j\<lparr>jb_result := Some r\<rparr>)" using j by (simp add: harmless_def)
  moreover have "\<forall>j \<in> set (po_jobs (snd s)). harmless k c j" using assms by (simp add: intact_def)
  ultimately show ?thesis
    using True run assms(1) by (auto simp: run_job_def intact_def Let_def dest!: subsetD [OF set_update_subset_insert])
qed (use assms in \<open>auto simp: run_job_def Let_def\<close>)

lemma in_main_keeps: "keeps (intact k c) m \<Longrightarrow> keeps (intact k c) (in_main xe m)"
proof (rule keepsI)
  fix s assume m: "keeps (intact k c) m" and s: "intact k c s"
  have run: "intact k c (run_jobs js s)" if "0 < xe_workers xe" for js
    using s unfolding run_jobs_def
    by (induction js arbitrary: s) (simp_all add: run_job_intact [OF that])
  then show "intact k c (snd (in_main xe m s))"
    unfolding in_main_def using s by (intro keepsD [OF m]) simp
qed

lemma on_world_intact: "keeps (has k (Some c)) m \<Longrightarrow> keeps (intact k c) (on_world m)"
  by (auto simp: keeps_def intact_def snd_on_world)

lemma in_main_idle: "keeps idle m \<Longrightarrow> keeps idle (in_main xe m)"
proof (rule keepsI)
  fix s assume m: "keeps idle m" and s: "idle s"
  have "run_jobs js s = s" if "po_jobs (snd s) = []" for js
    using that unfolding run_jobs_def by (induction js) (simp_all add: run_job_def)
  with s have "in_main xe m s = m s" by (auto simp: in_main_def idle_def)
  with keepsD [OF m s] show "idle (snd (in_main xe m s))" by simp
qed

lemma submit_intact:
  "keeps (has k (Some c)) m \<Longrightarrow> keeps (intact k c) (pool_submit i m None)"
  by (auto simp: keeps_def pool_submit_def intact_def harmless_def Let_def)

lemma exec_pipeline_intact:
  assumes "keeps (has k (Some c)) m"
  shows "keeps (intact k c) (exec_pipeline xe i m a None)"
  unfolding exec_pipeline_def exec_in_place_def option.case
  by (intro keeps_if keeps_bind keeps_ret in_main_keeps submit_intact on_world_intact assms)

lemma kill_intact: "keeps (intact k c) pool_kill"
  by (auto simp: keeps_def pool_kill_def intact_def harmless_def)

lemma complete_job_intact:
  assumes "0 < xe_workers xe" shows "keeps (intact k c) (complete_job xe kg i)"
proof (rule keepsI)
  fix s assume "intact k c s"
  then have t: "intact k c (run_job i s)" by (rule run_job_intact [OF assms])
  then have "job_callback i (run_job i s) = None"
    using assms by (auto simp: job_callback_def intact_def harmless_def)
  with t show "intact k c (snd (complete_job xe kg i s))"
    by (auto simp: complete_job_def Let_def split: sum.splits)
qed

lemma wait_intact: "keeps (intact k c) (executor_wait xe kg)"
proof (cases "xe_workers xe > 0")
  case True
  have "keeps (intact k c) (wait_all xe kg)"
  proof (rule keepsI)
    fix s assume s: "intact k c s"
    have "keeps (intact k c) forget_jobs" by (simp add: keeps_def forget_jobs_def intact_def)
    then have "keeps (intact k c) (bind_act (for_act js (\<lambda>i _. complete_job xe kg i) ()) (\<lambda>_. forget_jobs))" for js
      by (intro keeps_bind keeps_for complete_job_intact [OF True])
    from keepsD [OF this s] show "intact k c (snd (wait_all xe kg s))" by (simp add: wait_all_def)
  qed
  with True show ?thesis
    unfolding executor_wait_def by (simp add: keeps_try keeps_bind kill_intact keeps_raise)
qed (simp add: executor_wait_def keeps_ret)

lemma wait_idle: "executor_wait xe kg s = (Inr (), s') \<Longrightarrow> idle s'"
  by (auto simp: executor_wait_def idle_def wait_all_def forget_jobs_def try_act_def bind_act_def
      split: if_splits prod.splits sum.splits)

lemma engine_in_main_keeps:
  assumes "keeps (\<lambda>s. obj k (fst s) = Some c) (f en)"
  shows "keeps (intact k c) (engine_in_main xe f)"
  unfolding engine_in_main_def by (intro in_main_keeps on_world_intact with_object_keeps assms)

lemma list_dir_prefix:
  assumes "engine_list_dir en p True True s = (Inr ks, s')" "k \<in> set ks"
  shows "prefix (dir_prefix p) k"
proof -
  from engine_call_Inr [OF assms(1) [unfolded engine_list_dir_def], of "\<lambda>_. True"] obtain t pages w where
    pg: "c3_paginate (en_client en) (dir_prefix p) None t = (Inr pages, w)"
    and ks: "ks = concat (map (page_entries (dir_prefix p) True) pages)"
    by (auto simp: bind_act_result on_world_result)
  from assms(2) ks obtain page where page: "page \<in> set pages" "k \<in> set (page_entries (dir_prefix p) True page)"
    by auto
  with paginate_prefix [OF pg page(1)] show ?thesis
    by (cases "pg_contents page") (auto simp: page_entries_def)
qed

lemma upload_data_intact_stores:
  assumes "idle s" "object_key p = p" "d \<noteq> []" "executor_upload_data xe d p False e s = (Inr (), s')"
  shows "\<exists>c. intact p c s' \<and> decode e c = Inr d"
proof -
  let ?t = "if xe_workers xe > 0 then run_jobs (xe_progress xe (fst s)) s else s"
  have t: "?t = s"
    using assms(1) by (auto simp: idle_def run_jobs_def run_job_def fold_invariant intro: fold_invariant)
  from assms(4) obtain u where "upload_data_pipeline (xe_env xe) d p e (fst s) = (Inr u, fst s')" "snd s' = snd s"
    by (auto simp: executor_upload_data_def exec_pipeline_def exec_in_place_def in_main_def t bind_act_result
        on_world_result)
  with encrypt_and_upload_stores [of p e _ "[d]" "fst s" u "fst s'"] assms(1-3) show ?thesis
    by (auto simp: upload_data_pipeline_def intact_def idle_def)
qed

end

sublocale pool_store \<subseteq> loader: storage_loader "storage_loader_of xe" intact decode idle
proof
  fix k p c d e
  assume "k \<noteq> p" "k \<noteq> object_key p"
  then show "keeps (intact k c) (ld_upload_data (storage_loader_of xe) d p e)"
    by (simp add: storage_loader_defs executor_upload_data_def upload_data_pipeline_def
        exec_pipeline_intact encrypt_and_upload_keeps)
next
  fix k p c d e
  show "keeps (intact k c) (ld_download_data (storage_loader_of xe) p e)"
    by (simp add: storage_loader_defs executor_download_data_def exec_in_place_def in_main_keeps
        on_world_intact download_stream_keeps)
next
  fix k ps c assume "k \<notin> object_key ` set ps"
  then show "keeps (intact k c) (ld_delete_files (storage_loader_of xe) ps)"
    by (simp add: storage_loader_defs executor_delete_files_def exec_pipeline_intact delete_pipeline_keeps)
next
  fix k c kg p r a d
  show "keeps (intact k c) (ld_wait (storage_loader_of xe) kg)"
    by (simp add: storage_loader_defs wait_intact)
  show "keeps (intact k c) (ld_list_dir (storage_loader_of xe) p r a)"
    by (simp add: storage_loader_defs engine_in_main_keeps list_dir_keeps)
  show "keeps (intact k c) (ld_path_exists (storage_loader_of xe) p d)"
    by (simp add: storage_loader_defs engine_in_main_keeps path_exists_keeps)
  show "keeps (intact k c) (ld_get_file_size (storage_loader_of xe) p)"
    by (simp add: storage_loader_defs engine_in_main_keeps object_size_keeps)
next
  fix p c s e d s'
  assume s: "intact (object_key p) c s" and dl: "ld_download_data (storage_loader_of xe) p e s = (Inr d, s')"
  let ?t = "if xe_workers xe > 0 then run_jobs (xe_progress xe (fst s)) s else s"
  have "keeps (intact (object_key p) c) (in_main xe (ret ()))" by (intro in_main_keeps keeps_ret)
  from keepsD [OF this s] have "intact (object_key p) c ?t" by (simp add: in_main_def)
  with dl show "decode e c = Inr d"
    by (intro download_decodes [of p e "fst ?t" d "fst s'"])
      (simp_all add: storage_loader_defs executor_download_data_def exec_in_place_def in_main_def
        on_world_result intact_def)
next
  fix p ks s s' k
  assume "ld_list_dir (storage_loader_of xe) p True True s = (Inr ks, s')" "k \<in> set ks"
  then show "prefix (dir_prefix p) k"
    by (auto simp: storage_loader_defs engine_in_main_def in_main_def on_world_result with_object_result
        intro: list_dir_prefix)
next
  fix kg s s'
  assume "ld_wait (storage_loader_of xe) kg s = (Inr (), s')"
  then show "idle s'" by (simp add: storage_loader_defs wait_idle)
next
  fix s p d e s'
  assume "idle s" "object_key p = p" "d \<noteq> []" "ld_upload_data (storage_loader_of xe) d p e s = (Inr (), s')"
  then show "\<exists>c. intact p c s' \<and> decode e c = Inr d"
    by (intro upload_data_intact_stores) (simp_all add: storage_loader_defs)
next
  fix d p e
  have "keeps idle (on_world m)" for m :: "('w, unit) act"
    by (auto simp: keeps_def idle_def snd_on_world)
  then show "keeps idle (ld_upload_data (storage_loader_of xe) d p e)"
    by (simp add: storage_loader_defs executor_upload_data_def exec_pipeline_def exec_in_place_def
        in_main_idle keeps_bind keeps_ret)
qed

end
