(* ===== verification/Bucket.thy ===== *)
theory Bucket
  imports LoaderLaws
begin

text \<open>
  An in-memory bucket: the calls of the S3 client on lists of objects and of the parts of unfinished
  uploads, and local files beside them. It shows that the laws assumed of the store can hold, for the
  engine, the pipelines and the loader of the model as they are: the executors built by
  \<open>memory_executor\<close> differ in their configuration, their number of workers and the schedule of the jobs.
\<close>

section \<open>The world\<close>

record world =
  wd_objects :: "(string, string) dict"
  wd_parts :: "(string \<times> nat, string \<times> string) dict"
  wd_uploads :: nat
  wd_files :: "(string, string) dict"
  wd_time :: py_time
  wd_lock :: bool

definition object_of :: "string \<Rightarrow> world \<Rightarrow> string option" where
  "object_of k w = map_of (wd_objects w) k"

definition upart_of :: "string \<Rightarrow> nat \<Rightarrow> world \<Rightarrow> (string \<times> string) option" where
  "upart_of i n w = map_of (wd_parts w) (i, n)"

definition not_found :: exn where "not_found = ClientError ''NoSuchKey'' 404"

text \<open>With a delimiter, the keys that continue below a directory are folded into common prefixes.\<close>

definition folded :: "string \<Rightarrow> string \<Rightarrow> string option" where
  "folded dir k =
     (let r = drop (length dir) k in
      if CHR ''/'' \<in> set r then Some (dir @ takeWhile (\<lambda>c. c \<noteq> CHR ''/'') r @ ''/'') else None)"

definition page_of :: "string \<Rightarrow> bool \<Rightarrow> world \<Rightarrow> s3_page" where
  "page_of dir delim w =
     (let ks = filter (prefix dir) (dict_keys (wd_objects w)) in
      if delim
      then \<lparr>pg_common_prefixes = Some (remdups (List.map_filter (folded dir) ks)),
            pg_contents = Some (filter (\<lambda>k. folded dir k = None) ks)\<rparr>
      else \<lparr>pg_common_prefixes = None, pg_contents = Some ks\<rparr>)"

definition get_range :: "string \<Rightarrow> (int \<times> int) option \<Rightarrow> s3_part" where
  "get_range body rg =
     (case rg of
        None \<Rightarrow> \<lparr>pt_body = body, pt_etag = Some body, pt_range_total = None, pt_content_length = int (length body)\<rparr>
      | Some (a, b) \<Rightarrow>
          (let x = take (nat (b + 1 - a)) (drop (nat a) body) in
           \<lparr>pt_body = x, pt_etag = Some body, pt_range_total = Some (int (length body)),
            pt_content_length = int (length x)\<rparr>))"

text \<open>The entity tag of an object is its content.\<close>

definition uploaded_parts :: "string \<Rightarrow> (string \<times> nat) list \<Rightarrow> world \<Rightarrow> string list res" where
  "uploaded_parts i ps w =
     map_res (\<lambda>(tag, n). case upart_of i n w of
        Some (t, d) \<Rightarrow> if t = tag then Inr d else Inl (ClientError ''InvalidPart'' 400)
      | None \<Rightarrow> Inl (ClientError ''InvalidPart'' 400)) ps"

definition memory_client :: "world s3_client" where
  "memory_client =
     \<lparr>c3_put_object = \<lambda>key data w. (Inr (), w\<lparr>wd_objects := dict_set (wd_objects w) key data\<rparr>),
      c3_download = \<lambda>key w. (case object_of key w of None \<Rightarrow> (Inl not_found, w) | Some d \<Rightarrow> (Inr d, w)),
      c3_delete_object = \<lambda>key w. (Inr (), w\<lparr>wd_objects := AList.delete key (wd_objects w)\<rparr>),
      c3_delete_objects = \<lambda>keys w.
        (Inr (), w\<lparr>wd_objects := filter (\<lambda>(k, _). \<not> List.member keys k) (wd_objects w)\<rparr>),
      c3_paginate = \<lambda>dir delim w. (Inr [page_of dir (delim \<noteq> None) w], w),
      c3_list_objects = \<lambda>dir delim w. (Inr (page_of dir True w), w),
      c3_head_object = \<lambda>key w. (case object_of key w of None \<Rightarrow> (Inl (ClientError ''404'' 404), w)
        | Some d \<Rightarrow> (Inr (int (length d), d), w)),
      c3_get_object = \<lambda>key rg w. (case object_of key w of None \<Rightarrow> (Inl not_found, w)
        | Some d \<Rightarrow> (Inr (get_range d rg), w)),
      c3_create_multipart_upload = \<lambda>key w.
        (Inr (replicate (Suc (wd_uploads w)) CHR ''i''), w\<lparr>wd_uploads := Suc (wd_uploads w)\<rparr>),
      c3_upload_part = \<lambda>data key i n w. (Inr data, w\<lparr>wd_parts := dict_set (wd_parts w) (i, n) (data, data)\<rparr>),
      c3_complete_multipart_upload = \<lambda>key i ps w.
        (case uploaded_parts i ps w of Inl e \<Rightarrow> (Inl e, w)
         | Inr ds \<Rightarrow> (Inr (), w\<lparr>wd_objects := dict_set (wd_objects w) key (concat ds),
             wd_parts := filter (\<lambda>((j, _), _). j \<noteq> i) (wd_parts w)\<rparr>)),
      c3_reset = \<lambda>w. (Inr (), w)\<rparr>"

section \<open>The laws of the store\<close>

lemma map_of_filter_key: "map_of (filter (\<lambda>(k, _). P k) d) k = (if P k then map_of d k else None)"
  by (induction d) auto

lemma map_of_filter_upload:
  "map_of (filter (\<lambda>p. fst (fst p) \<noteq> j) d) (i, n) = (if i = j then None else map_of d (i, n))"
  by (induction d) auto

lemma uploaded_parts_Inr:
  "uploaded_parts i ps w = Inr ds \<Longrightarrow> list_all2 (\<lambda>p d. upart_of i (snd p) w = Some (fst p, d)) ps ds"
  unfolding uploaded_parts_def map_res_Inr_iff
  by (erule list_all2_mono) (auto split: prod.splits option.splits if_splits)

interpretation memory: object_store memory_client object_of upart_of
proof
  fix k key c d w w' 
  show "keeps (\<lambda>w. object_of k w = c) (c3_put_object memory_client key d)" if "k \<noteq> key"
    using that by (simp add: keeps_def memory_client_def object_of_def)
  show "object_of key w' = Some d" if "c3_put_object memory_client key d w = (Inr (), w')"
    using that by (auto simp: memory_client_def object_of_def)
  show "keeps (\<lambda>w. object_of k w = c) (c3_delete_object memory_client key)" if "k \<noteq> key"
    using that by (simp add: keeps_def memory_client_def object_of_def delete_conv)
  show "keeps (\<lambda>w. object_of k w = c) (c3_delete_objects memory_client keys)" if "k \<notin> set keys" for keys
    using that by (simp add: keeps_def memory_client_def object_of_def map_of_filter_key)
  show "keeps (\<lambda>w. object_of k w = c) (c3_paginate memory_client dir delim)"
    "keeps (\<lambda>w. object_of k w = c) (c3_list_objects memory_client dir delim')"
    "keeps (\<lambda>w. object_of k w = c) (c3_reset memory_client)"
    "keeps (\<lambda>w. object_of k w = c) (c3_create_multipart_upload memory_client key)"
    "keeps (\<lambda>w. object_of k w = c) (c3_upload_part memory_client d key i n)"
    for dir delim delim' i n
    by (simp_all add: keeps_def memory_client_def object_of_def)
  show "keeps (\<lambda>w. object_of k w = c) (c3_head_object memory_client key)"
    "keeps (\<lambda>w. object_of k w = c) (c3_get_object memory_client key rg)" for rg
    by (simp_all add: keeps_def memory_client_def split: option.splits)
  show "keeps (\<lambda>w. object_of k w = c) (c3_complete_multipart_upload memory_client key i ps)" if "k \<noteq> key" for i ps
    using that by (simp add: keeps_def memory_client_def object_of_def split: sum.splits)
  show "\<exists>ds. list_all2 (\<lambda>p d. upart_of i (snd p) w = Some (fst p, d)) ps ds \<and> object_of key w' = Some (concat ds)"
    if "c3_complete_multipart_upload memory_client key i ps w = (Inr (), w')" for i ps
    using that by (auto simp: memory_client_def object_of_def split: sum.splits dest!: uploaded_parts_Inr)
next
  fix i n n' x w w' key ps d tag
  show "i \<noteq> []" if "c3_create_multipart_upload memory_client key w = (Inr i, w')"
    using that by (auto simp: memory_client_def)
  show "keeps (\<lambda>w. upart_of i n w = x) (c3_reset memory_client)"
    by (simp add: keeps_def memory_client_def)
  show "upart_of i n w' = Some (tag, d)" if "c3_upload_part memory_client d key i n w = (Inr tag, w')"
    using that by (auto simp: memory_client_def upart_of_def)
  show "keeps (\<lambda>w. upart_of i n w = x) (c3_upload_part memory_client d key i n')" if "n \<noteq> n'"
    using that by (simp add: keeps_def memory_client_def upart_of_def)
  show "keeps (\<lambda>w. upart_of i n w = None \<or> upart_of i n w = x) (c3_complete_multipart_upload memory_client key j ps)" for j
    by (auto simp: map_of_filter_upload keeps_def memory_client_def upart_of_def case_prod_unfold split: sum.splits)
next
  fix dir w pages w' page
  assume "c3_paginate memory_client dir None w = (Inr pages, w')" "page \<in> set pages"
  then show "pg_common_prefixes page = None \<and> (\<forall>ks. pg_contents page = Some ks \<longrightarrow> (\<forall>k \<in> set ks. prefix dir k))"
    by (auto simp: memory_client_def page_of_def)
next
  fix key w len tag w' body
  assume "c3_head_object memory_client key w = (Inr (len, tag), w')" "object_of key w = Some body"
  then show "len = int (length body)" by (auto simp: memory_client_def)
next
  fix key a b w p w' body
  assume "c3_get_object memory_client key (Some (int a, int b)) w = (Inr p, w')" "object_of key w = Some body"
    "a \<le> b" "b < length body"
  then show "pt_body p = take (b + 1 - a) (drop a body) \<and> (\<forall>t. pt_range_total p = Some t \<longrightarrow> t = int (length body))"
    by (auto simp: memory_client_def get_range_def nat_diff_distrib nat_add_distrib)
qed


section \<open>The engine, the executor and the loader on the bucket\<close>

definition memory_engine :: "world engine" where
  "memory_engine =
     \<lparr>en_client = memory_client,
      en_fs_read = \<lambda>p w. (case map_of (wd_files w) p of None \<Rightarrow> (Inl FileNotFoundError, w) | Some d \<Rightarrow> (Inr d, w)),
      en_fs_write = \<lambda>p d w. (Inr (), w\<lparr>wd_files := dict_set (wd_files w) p d\<rparr>),
      en_time_suffix = ret ''t'', en_bulk_delete_enabled = True\<rparr>"

definition memory_files :: "world local_files" where
  "memory_files =
     \<lparr>lf_read = \<lambda>p w. (case map_of (wd_files w) p of None \<Rightarrow> (Inl FileNotFoundError, w) | Some d \<Rightarrow> (Inr d, w)),
      lf_size = \<lambda>p w. (case map_of (wd_files w) p of None \<Rightarrow> (Inl FileNotFoundError, w)
        | Some d \<Rightarrow> (Inr (int (length d)), w)),
      lf_mtime = \<lambda>p. ret 0, lf_now = ret 0,
      lf_scan = \<lambda>d excluded w. (Inr (filter (prefix d) (dict_keys (wd_files w))), w),
      lf_unlink = \<lambda>p w. (Inr (), w\<lparr>wd_files := AList.delete p (wd_files w)\<rparr>),
      lf_make_parents = \<lambda>p. ret (),
      lf_create = \<lambda>p w. (Inr (), w\<lparr>wd_files := dict_set (wd_files w) p []\<rparr>),
      lf_append = \<lambda>p d w. (case map_of (wd_files w) p of None \<Rightarrow> (Inl FileNotFoundError, w)
        | Some c \<Rightarrow> (Inr (), w\<lparr>wd_files := dict_set (wd_files w) p (c @ d)\<rparr>))\<rparr>"

text \<open>The configuration of the tests' size: \<open>chunk\<close> is the size of a part. Without an encryption key the
  encryption is \<open>noop\<close>.\<close>

definition memory_config :: "nat \<Rightarrow> string option \<Rightarrow> pipeline_config" where
  "memory_config chunk key =
     \<lparr>pc_encryption = (case key of
          None \<Rightarrow> default_encryption_config\<lparr>en_type := ''noop''\<rparr>
        | Some k \<Rightarrow> default_encryption_config\<lparr>en_key := Some k\<rparr>),
      pc_chunk_size = Suc chunk, pc_buffer_size = 2 * Suc chunk, pc_max_chunk_count = 10000,
      pc_bulk_delete_chunk_size = 1000, pc_max_upload_rate = 0, pc_fs_chunk_size = 1024, pc_fs_buffer_size = 4096\<rparr>"

definition memory_env :: "nat \<Rightarrow> string option \<Rightarrow> tar_format \<Rightarrow> (world \<Rightarrow> nat list) \<Rightarrow> world pipeline_env" where
  "memory_env chunk key tf order =
     \<lparr>pe_config = memory_config chunk key, pe_engine = memory_engine, pe_secret_box = plain_box,
      pe_compression = Inl UnknownEncryptionError, pe_files = memory_files, pe_tar = tf,
      pe_clock = \<lambda>w n. int n, pe_order = order\<rparr>"

definition memory_executor ::
  "nat \<Rightarrow> string option \<Rightarrow> tar_format \<Rightarrow> (world \<Rightarrow> nat list) \<Rightarrow> nat \<Rightarrow> (part_metadata \<Rightarrow> (world cluster, unit) act)
     \<Rightarrow> (world \<Rightarrow> nat list) \<Rightarrow> (world \<Rightarrow> nat list) \<Rightarrow> world executor" where
  "memory_executor chunk key tf order workers on_part progress completion =
     \<lparr>xe_env = memory_env chunk key tf order, xe_workers = workers, xe_on_part = on_part,
      xe_progress = progress, xe_completion = completion\<rparr>"

definition memory_crypto :: "string option \<Rightarrow> world crypto" where
  "memory_crypto key = (case key of None \<Rightarrow> noop_encryption | Some k \<Rightarrow> nacl_on k)"

interpretation memory_engine: engine_store memory_engine object_of upart_of
proof -
  have "en_client memory_engine = memory_client" by (simp add: memory_engine_def)
  then show "engine_store memory_engine object_of upart_of"
    using memory.object_store_axioms
    by (auto intro!: engine_store.intro engine_store_axioms.intro simp: memory_engine_def keeps_ret)
qed

interpretation memory_pool: pool_store "memory_executor chunk key tf order workers on_part progress completion"
    object_of upart_of "memory_crypto key"
  for chunk key tf order workers on_part progress completion
proof -
  let ?xe = "memory_executor chunk key tf order workers on_part progress completion"
  have xe: "xe_env ?xe = memory_env chunk key tf order" "pe_engine (memory_env chunk key tf order) = memory_engine"
    "pe_config (memory_env chunk key tf order) = memory_config chunk key"
    by (simp_all add: memory_executor_def memory_env_def)
  have enc: "encrypted_stream (memory_crypto key) (pc_encryption (memory_config chunk key))"
    by (cases key; unfold_locales)
      (auto simp: memory_crypto_def memory_config_def noop_encryption_def default_encryption_config_def MiB_def)
  have "pipeline_crypto (memory_env chunk key tf order) = Inr (memory_crypto key)"
    by (cases key) (simp_all add: pipeline_crypto_def memory_env_def memory_config_def memory_crypto_def
        get_encryption_def default_encryption_config_def noop_encryption_def nacl_on_def plain_box_def
        nacl_encryption_def)
  moreover have "keeps (\<lambda>w. object_of k w = c) (cr_encrypt (memory_crypto key) x)" for k c x
    by (cases key) (simp_all add: memory_crypto_def noop_encryption_def keeps_def)
  ultimately show "pool_store ?xe object_of upart_of (memory_crypto key)"
    using memory_engine.engine_store_axioms enc
    by (auto intro!: pool_store.intro pool_store_axioms.intro simp: xe memory_config_def)
qed

end
