(* ===== verification/Layout.thy ===== *)
theory Layout
  imports Storage
begin

text \<open>
  The layout of backups in the object storage (\<^verbatim>\<open>backup/layout.py\<close>): the remote paths, and the
  operations of \<open>BackupLayout\<close> on a storage loader and the local file system.
\<close>

section \<open>Remote paths\<close>

definition BACKUP_META_FNAME :: string where "BACKUP_META_FNAME = ''backup_struct.json''"
definition BACKUP_LIGHT_META_FNAME :: string where
  "BACKUP_LIGHT_META_FNAME = ''backup_light_struct.json''"
definition ACCESS_CONTROL_FNAME :: string where "ACCESS_CONTROL_FNAME = ''access_control.tar''"
definition DATABASES_FNAME :: string where "DATABASES_FNAME = ''databases.tar''"
definition COMPRESSED_EXTENSION :: string where "COMPRESSED_EXTENSION = ''.gz''"

definition access_control_data_path :: "string \<Rightarrow> string \<Rightarrow> string" where
  "access_control_data_path backup_path file_name =
     path_joins backup_path [''access_control'', file_name]"

definition udf_data_path :: "string \<Rightarrow> string \<Rightarrow> bool \<Rightarrow> string" where
  "udf_data_path backup_path udf_file escape_names =
     path_joins backup_path [''udf'', if escape_names then quote_name udf_file else udf_file]"

definition db_metadata_path_sql :: "string \<Rightarrow> string \<Rightarrow> string" where
  "db_metadata_path_sql backup_path db = path_joins backup_path [''metadata'', quote_name db @ ''.sql'']"

definition db_metadata_path_tar :: "string \<Rightarrow> string" where
  "db_metadata_path_tar backup_path = path_joins backup_path [''metadata'', DATABASES_FNAME]"

definition table_metadata_path :: "string \<Rightarrow> string \<Rightarrow> string \<Rightarrow> string" where
  "table_metadata_path backup_path db tbl =
     path_joins backup_path [''metadata'', quote_name db, quote_name tbl @ ''.sql'']"

definition table_metadata_path_tar :: "string \<Rightarrow> string \<Rightarrow> string" where
  "table_metadata_path_tar backup_path db =
     path_joins backup_path [''metadata'', quote_name db @ ''.tar'']"

definition named_collections_data_path :: "string \<Rightarrow> string \<Rightarrow> string" where
  "named_collections_data_path backup_path nc =
     path_joins backup_path [''named_collections'', quote_name nc @ ''.sql'']"

definition workload_entities_data_path :: "string \<Rightarrow> string \<Rightarrow> string" where
  "workload_entities_data_path backup_path entity =
     path_joins backup_path [''workload_entities'', quote_name entity @ ''.sql'']"

definition part_path :: "string \<Rightarrow> string \<Rightarrow> string \<Rightarrow> string \<Rightarrow> bool \<Rightarrow> string" where
  "part_path backup_path db tbl part escape_names =
     (if escape_names then path_joins backup_path [''data'', quote_name db, quote_name tbl, part]
      else path_joins backup_path [''data'', db, tbl, part])"

text \<open>\<open>if table_name or db_name: assert table_name and db_name\<close>\<close>

definition disk_metadata_path ::
  "string \<Rightarrow> string option \<Rightarrow> string option \<Rightarrow> string \<Rightarrow> bool \<Rightarrow> string res" where
  "disk_metadata_path backup_path db tbl disk_name compressed =
     (let extension = ''.tar'' @ (if compressed then COMPRESSED_EXTENSION else '''') in
      case (non_empty tbl, non_empty db) of
        (Some t, Some d) \<Rightarrow>
          Inr (path_joins backup_path [''disks'', disk_name, quote_name d, quote_name t @ extension])
      | (None, None) \<Rightarrow> Inr (path_joins backup_path [''disks'', disk_name @ extension])
      | _ \<Rightarrow> Inl AssertionError)"

definition table_shadow_path :: "string \<Rightarrow> string \<Rightarrow> string \<Rightarrow> string" where
  "table_shadow_path disk_path backup_name table_path_on_disk =
     path_joins disk_path [''shadow'', backup_name, table_path_on_disk]"

section \<open>The layout object\<close>

record 'w layout =
  ly_loader :: "'w loader"
  ly_fs :: "'w file_system"
  ly_tc :: time_codec
  ly_dumps :: "backup_doc \<Rightarrow> string"
  ly_loads :: "string \<Rightarrow> backup_doc res"
  ly_path_root :: string
  ly_access_control_path :: string
  ly_metadata_path :: string
  ly_named_collections_path :: string
  ly_workload_path :: string
  ly_encryption_chunk_size :: int
  ly_encryption_metadata_size :: int

definition get_backup_path :: "'w layout \<Rightarrow> string \<Rightarrow> string" where
  "get_backup_path ly name = path_join (ly_path_root ly) name"

definition backup_metadata_path :: "'w layout \<Rightarrow> string \<Rightarrow> string" where
  "backup_metadata_path ly name = path_join (get_backup_path ly name) BACKUP_META_FNAME"

definition backup_light_metadata_path :: "'w layout \<Rightarrow> string \<Rightarrow> string" where
  "backup_light_metadata_path ly name = path_join (get_backup_path ly name) BACKUP_LIGHT_META_FNAME"

text \<open>\<open>except Exception as e: raise StorageError(msg) from e\<close>\<close>

definition or_storage_error :: "('w, 'a) act \<Rightarrow> ('w, 'a) act" where
  "or_storage_error m = try_act m is_exception (\<lambda>_. raise StorageError)"

section \<open>Uploads\<close>

definition upload_backup_metadata :: "'w layout \<Rightarrow> backup_metadata \<Rightarrow> ('w, unit) act" where
  "upload_backup_metadata ly b =
     or_storage_error
       (bind_act (lift_res (bm_dump_json (ly_tc ly) False None None b)) (\<lambda>doc.
        bind_act (ld_upload_data (ly_loader ly) (ly_dumps ly doc)
                    (backup_metadata_path ly (bm_name b)) True) (\<lambda>_.
        bind_act (lift_res (bm_dump_json (ly_tc ly) True None None b)) (\<lambda>light.
          ld_upload_data (ly_loader ly) (ly_dumps ly light)
            (backup_light_metadata_path ly (bm_name b)) False))))"

text \<open>The loop over the databases collects the statements it can read and skips the others.\<close>

definition read_database_statement ::
  "'w layout \<Rightarrow> database \<Rightarrow> (database \<times> string) list \<Rightarrow> ('w, (database \<times> string) list) act" where
  "read_database_statement ly db acc =
     try_act
       (bind_act (fs_read_bytes (ly_fs ly)
          (path_join (ly_metadata_path ly) (escape_metadata_file_name (db_name db) @ ''.sql'')))
          (\<lambda>sql. ret (acc @ [(db, sql)])))
       (\<lambda>e. e = OSError \<or> e = FileNotFoundError) (\<lambda>_. ret acc)"

definition upload_database_create_statements ::
  "'w layout \<Rightarrow> backup_metadata \<Rightarrow> database list \<Rightarrow> ('w, database list) act" where
  "upload_database_create_statements ly b dbs =
     bind_act (for_act dbs (read_database_statement ly) []) (\<lambda>found.
       if found = [] then ret []
       else bind_act (or_storage_error
              (ld_upload_data_tarball (ly_loader ly) (map (db_name \<circ> fst) found) (map snd found)
                 (db_metadata_path_tar (get_backup_path ly (bm_name b))) False (bm_encrypted b)))
              (\<lambda>_. ret (map fst found)))"

definition upload_create_statements ::
  "'w layout \<Rightarrow> backup_metadata \<Rightarrow> database \<Rightarrow> (string \<times> string) list \<Rightarrow> ('w, unit) act" where
  "upload_create_statements ly b db create_statements =
     (if create_statements = [] then ret ()
      else or_storage_error
        (ld_upload_data_tarball (ly_loader ly) (map fst create_statements) (map snd create_statements)
           (table_metadata_path_tar (get_backup_path ly (bm_name b)) (db_name db)) True (bm_encrypted b)))"

definition upload_access_control_file :: "'w layout \<Rightarrow> string \<Rightarrow> string \<Rightarrow> ('w, unit) act" where
  "upload_access_control_file ly backup_name file_name =
     or_storage_error
       (ld_upload_file (ly_loader ly) (path_join (ly_access_control_path ly) file_name)
          (access_control_data_path (get_backup_path ly backup_name) file_name) True)"

definition upload_access_control_files ::
  "'w layout \<Rightarrow> string \<Rightarrow> string \<Rightarrow> string list \<Rightarrow> ('w, unit) act" where
  "upload_access_control_files ly local_path backup_name file_names =
     or_storage_error
       (ld_upload_files_tarball (ly_loader ly) local_path
          (access_control_data_path (get_backup_path ly backup_name) ACCESS_CONTROL_FNAME)
          file_names False True False None)"

definition upload_udf :: "'w layout \<Rightarrow> string \<Rightarrow> string \<Rightarrow> string \<Rightarrow> ('w, unit) act" where
  "upload_udf ly backup_name file_name metadata =
     or_storage_error
       (ld_upload_data (ly_loader ly) metadata
          (udf_data_path (get_backup_path ly backup_name) file_name True) True)"

definition upload_data_part ::
  "'w layout \<Rightarrow> backup_metadata \<Rightarrow> frozen_part \<Rightarrow> part_metadata \<Rightarrow> ('w, unit) act" where
  "upload_data_part ly b fpart callback =
     or_storage_error
       (ld_upload_files_tarball (ly_loader ly) (fp_path fpart)
          (path_join (part_path (get_backup_path ly (bm_name b)) (fp_database fpart) (fp_table fpart)
                        (fp_name fpart) True) (fp_name fpart @ ''.tar''))
          (fp_files fpart) True (bm_encrypted b) True (Some callback))"

definition dir_is_empty :: "'w file_system \<Rightarrow> string \<Rightarrow> string list \<Rightarrow> ('w, bool) act" where
  "dir_is_empty fs dir_path exclude =
     try_act (bind_act (fs_scan fs dir_path exclude) (\<lambda>files. ret (files = [])))
       (\<lambda>e. e = FileNotFoundError) (\<lambda>_. ret True)"

definition upload_cloud_storage_metadata ::
  "'w layout \<Rightarrow> backup_metadata \<Rightarrow> disk \<Rightarrow> table \<Rightarrow> bool \<Rightarrow> ('w, bool) act" where
  "upload_cloud_storage_metadata ly b d t delete_after_upload =
     (case non_empty (tb_path_on_disk t) of
        None \<Rightarrow> raise AssertionError
      | Some path_on_disk \<Rightarrow>
          (let backup_name = sanitize_name (bm_name b);
               compression = cs_compression (bm_cloud_storage b);
               shadow_path = table_shadow_path (dk_path d) backup_name path_on_disk;
               exclude = [''frozen_metadata.txt''] in
           bind_act (lift_res (disk_metadata_path (get_backup_path ly backup_name)
                       (Some (tb_database t)) (Some (tb_name t)) (dk_name d) compression)) (\<lambda>remote_path.
           bind_act (dir_is_empty (ly_fs ly) shadow_path exclude) (\<lambda>empty.
             if empty then ret False
             else bind_act (or_storage_error
                    (ld_upload_files_tarball_scan (ly_loader ly) shadow_path remote_path path_on_disk
                       exclude (cs_encryption (bm_cloud_storage b)) delete_after_upload compression))
                    (\<lambda>_. ret True)))))"

definition upload_named_collections_ddl_from_file ::
  "'w layout \<Rightarrow> string \<Rightarrow> string \<Rightarrow> string \<Rightarrow> ('w, unit) act" where
  "upload_named_collections_ddl_from_file ly local_path backup_name nc_name =
     or_storage_error (ld_upload_file (ly_loader ly) local_path
       (named_collections_data_path (get_backup_path ly backup_name) nc_name) True)"

definition upload_workload_entity_ddl_from_file ::
  "'w layout \<Rightarrow> string \<Rightarrow> string \<Rightarrow> string \<Rightarrow> ('w, unit) act" where
  "upload_workload_entity_ddl_from_file ly local_path backup_name entity_name =
     or_storage_error (ld_upload_file (ly_loader ly) local_path
       (workload_entities_data_path (get_backup_path ly backup_name) entity_name) True)"

section \<open>Reading the storage\<close>

text \<open>The escaped path if a directory exists there, otherwise the unescaped one.\<close>

definition get_escaped_if_exists :: "'w layout \<Rightarrow> (bool \<Rightarrow> string) \<Rightarrow> ('w, string) act" where
  "get_escaped_if_exists ly path_function =
     bind_act (ld_path_exists (ly_loader ly) (path_function True) True) (\<lambda>exists.
       ret (if exists then path_function True else path_function False))"

definition get_udf_create_statement :: "'w layout \<Rightarrow> backup_metadata \<Rightarrow> string \<Rightarrow> ('w, string) act" where
  "get_udf_create_statement ly b filename =
     bind_act (get_escaped_if_exists ly (udf_data_path (get_backup_path ly (bm_name b)) filename))
       (\<lambda>remote_path. ld_download_data (ly_loader ly) remote_path True)"

definition read_local_statement :: "'w layout \<Rightarrow> string \<Rightarrow> string \<Rightarrow> ('w, string option) act" where
  "read_local_statement ly dir name =
     try_act (bind_act (fs_read_bytes (ly_fs ly) (path_join dir (escape_metadata_file_name name @ ''.sql'')))
                (\<lambda>sql. ret (Some sql)))
       (\<lambda>e. e = OSError \<or> e = FileNotFoundError) (\<lambda>_. ret None)"

definition get_local_nc_create_statement :: "'w layout \<Rightarrow> string \<Rightarrow> ('w, string option) act" where
  "get_local_nc_create_statement ly nc_name = read_local_statement ly (ly_named_collections_path ly) nc_name"

definition get_local_workload_entity_create_statement :: "'w layout \<Rightarrow> string \<Rightarrow> ('w, string option) act" where
  "get_local_workload_entity_create_statement ly name = read_local_statement ly (ly_workload_path ly) name"

definition get_named_collection_create_statement ::
  "'w layout \<Rightarrow> backup_metadata \<Rightarrow> string \<Rightarrow> ('w, string) act" where
  "get_named_collection_create_statement ly b filename =
     ld_download_data (ly_loader ly)
       (named_collections_data_path (get_backup_path ly (bm_name b)) filename) True"

definition get_workload_entity_create_statement ::
  "'w layout \<Rightarrow> backup_metadata \<Rightarrow> string \<Rightarrow> ('w, string) act" where
  "get_workload_entity_create_statement ly b filename =
     ld_download_data (ly_loader ly)
       (workload_entities_data_path (get_backup_path ly (bm_name b)) filename) True"

definition get_backup_names :: "'w layout \<Rightarrow> ('w, string list) act" where
  "get_backup_names ly = ld_list_dir (ly_loader ly) (ly_path_root ly) False False"

text \<open>\<open>_load_metadata\<close>: a \<open>CryptoError\<close> passes, every other error becomes a \<open>StorageError\<close>.\<close>

definition load_metadata :: "'w layout \<Rightarrow> string \<Rightarrow> bool \<Rightarrow> ('w, backup_metadata) act" where
  "load_metadata ly path encryption =
     try_act
       (bind_act (ld_download_data (ly_loader ly) path encryption) (\<lambda>data.
          lift_res (bind_res (ly_loads ly data) (bm_load (ly_tc ly)))))
       (\<lambda>e. is_exception e \<and> e \<noteq> CryptoError) (\<lambda>_. raise StorageError)"

definition load_or_retry :: "'w layout \<Rightarrow> string \<Rightarrow> bool \<Rightarrow> ('w, backup_metadata) act" where
  "load_or_retry ly path use_light_meta =
     try_act (load_metadata ly path (\<not> use_light_meta)) (\<lambda>e. e = CryptoError)
       (\<lambda>_. load_metadata ly path False)"

definition metadata_path :: "'w layout \<Rightarrow> string \<Rightarrow> bool \<Rightarrow> string" where
  "metadata_path ly name use_light_meta =
     (if use_light_meta then backup_light_metadata_path ly name else backup_metadata_path ly name)"

definition get_backup :: "'w layout \<Rightarrow> string \<Rightarrow> bool \<Rightarrow> ('w, backup_metadata option) act" where
  "get_backup ly name use_light_meta =
     (let path = metadata_path ly name use_light_meta in
      bind_act (ld_path_exists (ly_loader ly) path False) (\<lambda>exists.
        if \<not> exists then ret None
        else bind_act (load_or_retry ly path use_light_meta) (\<lambda>b. ret (Some b))))"

definition reload_backup :: "'w layout \<Rightarrow> backup_metadata \<Rightarrow> bool \<Rightarrow> ('w, backup_metadata) act" where
  "reload_backup ly b use_light_meta =
     load_or_retry ly (metadata_path ly (bm_name b) use_light_meta) use_light_meta"

text \<open>\<open>sorted(backups, key=isoformat, reverse=True)\<close>: stable, and an \<open>AttributeError\<close> when a start
  time is missing.\<close>

definition start_key :: "backup_metadata \<Rightarrow> (int \<times> bool \<times> int) res" where
  "start_key b = (case bm_start_time b of None \<Rightarrow> Inl (OtherException ''AttributeError'')
                  | Some t \<Rightarrow> Inr (iso_key t))"

definition sort_backups :: "backup_metadata list \<Rightarrow> backup_metadata list res" where
  "sort_backups bs =
     bind_res (map_res (\<lambda>b. bind_res (start_key b) (\<lambda>k. Inr (k, b))) bs) (\<lambda>kbs.
       Inr (map snd (rev (sort_key fst (rev kbs)))))"

definition get_backups :: "'w layout \<Rightarrow> bool \<Rightarrow> ('w, backup_metadata list) act" where
  "get_backups ly use_light_meta =
     bind_act (get_backup_names ly) (\<lambda>names.
     bind_act (for_act names (\<lambda>name acc.
                 bind_act (get_backup ly name use_light_meta) (\<lambda>b.
                   ret (case b of None \<Rightarrow> acc | Some b \<Rightarrow> acc @ [b]))) []) (\<lambda>backups.
       lift_res (sort_backups backups)))"

end
