(* ===== verification/LayoutOps.thy ===== *)
theory LayoutOps
  imports Layout
begin

text \<open>
  The second half of \<open>BackupLayout\<close> (\<^verbatim>\<open>backup/layout.py\<close>): downloads, checking the data of a part,
  cloud storage metadata and deletion.
\<close>

section \<open>Create statements\<close>

definition get_database_create_statement :: "'w layout \<Rightarrow> backup_metadata \<Rightarrow> string \<Rightarrow> ('w, string) act" where
  "get_database_create_statement ly b name =
     ld_download_data (ly_loader ly) (db_metadata_path_sql (get_backup_path ly (bm_name b)) name)
       (bm_encrypted b)"

definition get_table_create_statement ::
  "'w layout \<Rightarrow> backup_metadata \<Rightarrow> string \<Rightarrow> string \<Rightarrow> ('w, string) act" where
  "get_table_create_statement ly b db tbl =
     ld_download_data (ly_loader ly) (table_metadata_path (get_backup_path ly (bm_name b)) db tbl)
       (bm_encrypted b)"

text \<open>The list comprehensions of the fallbacks to one object per statement.\<close>

definition statements_one_by_one ::
  "(string \<Rightarrow> ('w, string) act) \<Rightarrow> string list \<Rightarrow> ('w, (string \<times> string) list) act" where
  "statements_one_by_one get names =
     for_act names (\<lambda>n acc. bind_act (get n) (\<lambda>sql. ret (acc @ [(n, sql)]))) []"

definition get_database_create_statements ::
  "'w layout \<Rightarrow> backup_metadata \<Rightarrow> string list \<Rightarrow> ('w, (string \<times> string) list) act" where
  "get_database_create_statements ly b names =
     (let remote_path = db_metadata_path_tar (get_backup_path ly (bm_name b)) in
      bind_act (ld_path_exists (ly_loader ly) remote_path False) (\<lambda>exists.
        if \<not> exists then statements_one_by_one (get_database_create_statement ly b) names
        else ld_download_data_tarball (ly_loader ly) remote_path (bm_encrypted b) False))"

definition get_table_create_statements ::
  "'w layout \<Rightarrow> backup_metadata \<Rightarrow> string \<Rightarrow> string list \<Rightarrow> ('w, (string \<times> string) list) act" where
  "get_table_create_statements ly b db names =
     (let remote_path = table_metadata_path_tar (get_backup_path ly (bm_name b)) db in
      bind_act (ld_path_exists (ly_loader ly) remote_path False) (\<lambda>exists.
        if \<not> exists then statements_one_by_one (get_table_create_statement ly b db) names
        else ld_download_data_tarball (ly_loader ly) remote_path (bm_encrypted b) False))"

definition write_database_metadata :: "'w layout \<Rightarrow> database \<Rightarrow> string \<Rightarrow> ('w, unit) act" where
  "write_database_metadata ly db sql =
     fs_write_text (ly_fs ly)
       (path_join (ly_metadata_path ly) (escape_metadata_file_name (db_name db) @ ''.sql'')) sql"

section \<open>Access control and data parts\<close>

definition download_access_control_file ::
  "'w layout \<Rightarrow> string \<Rightarrow> string \<Rightarrow> string \<Rightarrow> ('w, unit) act" where
  "download_access_control_file ly local_path backup_name file_name =
     or_storage_error
       (ld_download_file (ly_loader ly)
          (access_control_data_path (get_backup_path ly backup_name) file_name)
          (LocalPath (path_join local_path file_name)) False True False)"

definition download_access_control :: "'w layout \<Rightarrow> string \<Rightarrow> string \<Rightarrow> ('w, unit) act" where
  "download_access_control ly local_path backup_name =
     or_storage_error
       (ld_download_files (ly_loader ly)
          (access_control_data_path (get_backup_path ly backup_name) ACCESS_CONTROL_FNAME)
          local_path False True False None)"

definition source_backup_name :: "string \<Rightarrow> part_metadata \<Rightarrow> string" where
  "source_backup_name backup_name p =
     (case non_empty (part_link p) of Some l \<Rightarrow> l | None \<Rightarrow> backup_name)"

definition source_part_path :: "'w layout \<Rightarrow> string \<Rightarrow> part_metadata \<Rightarrow> bool \<Rightarrow> string" where
  "source_part_path ly backup_name p =
     part_path (get_backup_path ly (source_backup_name backup_name p)) (pm_database p) (pm_table p)
       (deduplicated_part_name p)"

definition download_data_part ::
  "'w layout \<Rightarrow> backup_metadata \<Rightarrow> part_metadata \<Rightarrow> string \<Rightarrow> ('w, unit) act" where
  "download_data_part ly b p fs_part_path =
     bind_act (fs_makedirs (ly_fs ly) fs_part_path) (\<lambda>_.
     bind_act (get_escaped_if_exists ly (source_part_path ly (bm_name b) p)) (\<lambda>remote_dir_path.
       if rm_tarball (pm_raw p) then
         or_storage_error
           (ld_download_files (ly_loader ly)
              (path_join remote_dir_path (deduplicated_part_name p @ ''.tar''))
              fs_part_path True (rm_encrypted (pm_raw p)) False (Some p))
       else
         for_act (rm_files (pm_raw p)) (\<lambda>filename _.
           or_storage_error
             (ld_download_file (ly_loader ly) (path_join remote_dir_path filename)
                (LocalPath (path_join fs_part_path filename)) True (rm_encrypted (pm_raw p)) False)) ()))"

definition target_part_size :: "'w layout \<Rightarrow> part_metadata \<Rightarrow> bool \<Rightarrow> int" where
  "target_part_size ly p encrypted =
     (let tar_size = calc_tarball_size (rm_files (pm_raw p)) (part_size p) in
      if \<not> encrypted then tar_size
      else calc_encrypted_size tar_size (ly_encryption_chunk_size ly) (ly_encryption_metadata_size ly))"

definition check_data_part :: "'w layout \<Rightarrow> string \<Rightarrow> part_metadata \<Rightarrow> ('w, bool) act" where
  "check_data_part ly backup_name p =
     try_act
       (bind_act (get_escaped_if_exists ly (source_part_path ly backup_name p)) (\<lambda>remote_dir_path.
        bind_act (ld_list_dir (ly_loader ly) remote_dir_path False False) (\<lambda>remote_files.
          let tar = deduplicated_part_name p @ ''.tar'' in
          if remote_files = [tar] then
            bind_act (ld_get_file_size (ly_loader ly) (path_join remote_dir_path tar)) (\<lambda>actual_size.
              ret (target_part_size ly p (rm_encrypted (pm_raw p)) = actual_size))
          else ret (set (rm_files (pm_raw p)) \<subseteq> set remote_files))))
       (\<lambda>e. e = S3RetryingError) (\<lambda>_. ret False)"

section \<open>Cloud storage metadata\<close>

datatype desired_tables = AllTables | TheseTables "table_metadata list"

text \<open>The order of the paths is that of a Python set, so arbitrary: here it is that of the listing.\<close>

definition cloud_storage_metadata_remote_paths ::
  "'w layout \<Rightarrow> string \<Rightarrow> string \<Rightarrow> bool \<Rightarrow> desired_tables \<Rightarrow> ('w, string list) act" where
  "cloud_storage_metadata_remote_paths ly backup_name source_disk_name compression desired =
     (let backup_path = get_backup_path ly backup_name in
      bind_act (lift_res (disk_metadata_path backup_path None None source_disk_name compression))
        (\<lambda>old_style.
      bind_act (ld_path_exists (ly_loader ly) old_style False) (\<lambda>exists.
        if exists then ret [old_style]
        else
          bind_act (ld_list_dir (ly_loader ly) (path_joins backup_path [''disks'', source_disk_name])
                      True True) (\<lambda>existing.
            case desired of
              AllTables \<Rightarrow> ret existing
            | TheseTables ts \<Rightarrow>
                bind_act (lift_res (map_res (\<lambda>t. disk_metadata_path backup_path (Some (tm_database t))
                    (Some (tm_name t)) source_disk_name compression) ts)) (\<lambda>paths.
                  ret (filter (List.member paths) (remdups existing)))))))"

text \<open>\<open>_get_cloud_storage_metadata_dst\<close>: with no file path it creates the shadow directory.\<close>

definition cloud_storage_metadata_dst ::
  "'w layout \<Rightarrow> backup_metadata \<Rightarrow> disk \<Rightarrow> string option \<Rightarrow> ('w, file_target) act" where
  "cloud_storage_metadata_dst ly b d file_path =
     (case non_empty file_path of
        Some f \<Rightarrow> bind_act (fs_open_write (ly_fs ly) f) (\<lambda>_. ret (OpenedFile f))
      | None \<Rightarrow>
          (let path = path_joins (dk_path d) [''shadow'', sanitize_name (bm_name b)] in
           bind_act (fs_makedirs (ly_fs ly) path) (\<lambda>_. ret (LocalPath path))))"

definition cloud_storage_metadata_exists :: "'w layout \<Rightarrow> backup_metadata \<Rightarrow> disk \<Rightarrow> ('w, bool) act" where
  "cloud_storage_metadata_exists ly b d =
     bind_act (cloud_storage_metadata_dst ly b d None) (\<lambda>dst.
       case dst of LocalPath path \<Rightarrow> fs_exists (ly_fs ly) path | OpenedFile _ \<Rightarrow> raise AssertionError)"

definition download_cloud_storage_metadata ::
  "'w layout \<Rightarrow> backup_metadata \<Rightarrow> disk \<Rightarrow> string \<Rightarrow> desired_tables \<Rightarrow> string option \<Rightarrow> ('w, unit) act" where
  "download_cloud_storage_metadata ly b d source_disk_name desired file_path =
     (let compression = cs_compression (bm_cloud_storage b);
          encryption = cs_encryption (bm_cloud_storage b) in
      bind_act (cloud_storage_metadata_remote_paths ly (sanitize_name (bm_name b)) source_disk_name
                  compression desired) (\<lambda>remote_paths.
      bind_act (cloud_storage_metadata_dst ly b d file_path) (\<lambda>dst.
        for_act remote_paths (\<lambda>remote_path _. or_storage_error
          (case dst of
             LocalPath path \<Rightarrow>
               ld_download_files (ly_loader ly) remote_path path True encryption compression None
           | OpenedFile f \<Rightarrow>
               ld_download_file (ly_loader ly) remote_path (OpenedFile f) False encryption compression)) ())))"

section \<open>Deletion\<close>

definition layout_delete_files :: "'w layout \<Rightarrow> string list \<Rightarrow> ('w, unit) act" where
  "layout_delete_files ly paths = or_storage_error (ld_delete_files (ly_loader ly) paths)"

definition delete_backup :: "'w layout \<Rightarrow> string \<Rightarrow> ('w, unit) act" where
  "delete_backup ly backup_name =
     bind_act (ld_list_dir (ly_loader ly) (get_backup_path ly backup_name) True True)
       (layout_delete_files ly)"

definition part_files :: "string \<Rightarrow> part_metadata \<Rightarrow> string list" where
  "part_files path p =
     (if rm_tarball (pm_raw p) then [path_join path (deduplicated_part_name p @ ''.tar'')]
      else map (path_join path) (rm_files (pm_raw p)))"

definition delete_data_parts :: "'w layout \<Rightarrow> backup_metadata \<Rightarrow> part_metadata list \<Rightarrow> ('w, unit) act" where
  "delete_data_parts ly b parts =
     (if parts = [] then ret ()
      else bind_act (for_act parts (\<lambda>p deleting.
               bind_act (get_escaped_if_exists ly (source_part_path ly (bm_name b) p)) (\<lambda>path.
                 ret (deleting @ part_files path p))) [])
             (layout_delete_files ly))"

definition layout_wait :: "'w layout \<Rightarrow> bool \<Rightarrow> ('w, unit) act" where
  "layout_wait ly keep_going = or_storage_error (ld_wait (ly_loader ly) keep_going)"

end
