(* ===== verification/LayoutFacts.thy ===== *)
theory LayoutFacts
  imports LayoutOps
begin

text \<open>
  What the layout operations do to stored objects. The first part is about S3 keys: the objects of
  two backups, and of two parts of a backup, lie under prefixes that no key shares. The locale
  \<open>layout_store\<close> is a layout on a storage loader; inside it every operation is shown to leave
  alone the objects it does not name.
\<close>

section \<open>Keys\<close>

definition root_part :: "string \<Rightarrow> string" where
  "root_part root = (if root = [] \<or> last root = CHR ''/'' then root else root @ ''/'')"

definition backup_key :: "'w layout \<Rightarrow> string \<Rightarrow> string" where
  "backup_key ly name = lstrip_chr CHR ''/'' (root_part (ly_path_root ly)) @ name"

lemma lstrip_append:
  "t \<noteq> [] \<Longrightarrow> hd t \<noteq> c \<Longrightarrow> lstrip_chr c (s @ t) = lstrip_chr c s @ t"
  unfolding lstrip_chr_def by (induction s) (auto simp: dropWhile_eq_self_iff)

lemma plain_hd: "plain_component s \<Longrightarrow> hd s \<noteq> CHR ''/''"
  by (cases s) auto

lemma plain_last: "plain_component s \<Longrightarrow> last s \<noteq> CHR ''/''"
  by (metis last_in_set)

lemma get_backup_path_root:
  "plain_component name \<Longrightarrow> get_backup_path ly name = root_part (ly_path_root ly) @ name"
  by (auto simp: get_backup_path_def path_join_def root_part_def plain_hd)

lemma get_backup_path_plain:
  "plain_component name \<Longrightarrow> plain_dir (get_backup_path ly name)"
  by (simp add: get_backup_path_root plain_last)

lemma object_key_backup:
  "plain_component name \<Longrightarrow> object_key (get_backup_path ly name @ s) = backup_key ly name @ s"
  by (simp add: object_key_def backup_key_def get_backup_path_root plain_hd lstrip_append)

lemma dir_prefix_backup:
  "plain_component name \<Longrightarrow> dir_prefix (get_backup_path ly name) = backup_key ly name @ ''/''"
  by (simp add: dir_prefix_def get_backup_path_root backup_key_def plain_hd plain_last lstrip_append
      rstrip_chr_id)

lemma backup_key_hd:
  assumes "plain_component name"
  shows "backup_key ly name \<noteq> [] \<and> hd (backup_key ly name) \<noteq> CHR ''/''"
proof (cases "lstrip_chr CHR ''/'' (root_part (ly_path_root ly))")
  case Nil
  with assms show ?thesis by (simp add: backup_key_def plain_hd)
next
  case (Cons x xs)
  then have "x \<noteq> CHR ''/''"
    using hd_dropWhile [of "\<lambda>c. c = CHR ''/''" "root_part (ly_path_root ly)"]
    by (simp add: lstrip_chr_def)
  with Cons show ?thesis by (simp add: backup_key_def)
qed

lemma object_key_below:
  assumes "plain_component name" "prefix (backup_key ly name @ r) p"
  shows "object_key p = p"
proof -
  obtain t where "p = backup_key ly name @ r @ t"
    using assms(2) by (auto simp: prefix_def)
  with backup_key_hd [OF assms(1), of ly] have "hd p \<noteq> CHR ''/''" by simp
  then show ?thesis
    by (simp add: object_key_def lstrip_chr_def dropWhile_eq_self_iff)
qed

text \<open>Two prefixes with a component each: a key below both has the same component.\<close>

lemma component_prefix:
  assumes "prefix (x @ CHR ''/'' # r) k" "prefix (y @ CHR ''/'' # s) k"
    and "CHR ''/'' \<notin> set x" "CHR ''/'' \<notin> set y"
  shows "x = y \<and> (\<exists>k'. k = x @ CHR ''/'' # k' \<and> prefix r k' \<and> prefix s k')"
proof -
  obtain u where k1: "k = x @ CHR ''/'' # r @ u" using assms(1) by (auto simp: prefix_def)
  obtain v where k2: "k = y @ CHR ''/'' # s @ v" using assms(2) by (auto simp: prefix_def)
  have "takeWhile (\<lambda>c. c \<noteq> CHR ''/'') k = x" "takeWhile (\<lambda>c. c \<noteq> CHR ''/'') k = y"
    using assms(3,4) by (subst k1, subst takeWhile_append2, auto)
      (subst k2, subst takeWhile_append2, auto)
  then have "x = y" by simp
  with k1 k2 have "r @ u = s @ v" by simp
  then have "prefix r (r @ u)" "prefix s (r @ u)" by (metis prefixI)+
  with \<open>x = y\<close> k1 show ?thesis by blast
qed

lemma backup_prefix_disjoint:
  assumes "prefix (backup_key ly a @ CHR ''/'' # r) k" "prefix (backup_key ly b @ CHR ''/'' # s) k"
    and "plain_component a" "plain_component b"
  shows "a = b"
proof -
  let ?R = "lstrip_chr CHR ''/'' (root_part (ly_path_root ly))"
  obtain k' where "k = ?R @ k'"
    using assms(1) by (auto simp: prefix_def backup_key_def)
  with assms show ?thesis
    using component_prefix [of a r k' b s] by (simp add: backup_key_def)
qed

lemma backup_prefix_cancel:
  "prefix (backup_key ly a @ r) (backup_key ly a @ s) \<longleftrightarrow> prefix r s"
  by simp

definition table_dir :: "bool \<Rightarrow> string \<Rightarrow> string" where
  "table_dir escape_names n = (if escape_names then quote_name n else n)"

lemma table_dir_plain: "plain_component n \<Longrightarrow> plain_component (table_dir esc n)"
  by (simp add: table_dir_def)

lemma part_path_plain:
  assumes "plain_dir bp" "plain_component db" "plain_component tbl" "plain_component pn"
  shows "part_path bp db tbl pn esc
         = bp @ ''/data/'' @ table_dir esc db @ ''/'' @ table_dir esc tbl @ ''/'' @ pn"
  using assms
  by (auto simp: part_path_def path_joins_def table_dir_def path_join_component plain_last)

text \<open>The prefix of the objects of a part, with names escaped or not.\<close>

definition part_prefix :: "'w layout \<Rightarrow> string \<Rightarrow> string \<Rightarrow> string \<Rightarrow> string \<Rightarrow> bool \<Rightarrow> string" where
  "part_prefix ly backup_name db tbl pn esc =
     backup_key ly backup_name @ ''/data/'' @ table_dir esc db @ ''/'' @ table_dir esc tbl @ ''/'' @ pn @ ''/''"

text \<open>A name that both encodings keep apart: a directory of its own, and no percent sign.\<close>

definition good_name :: "string \<Rightarrow> bool" where
  "good_name n \<longleftrightarrow> plain_component n \<and> CHR ''%'' \<notin> set n"

lemma pct_in_encode: "CHR ''%'' \<notin> set (pct_encode keep s) \<Longrightarrow> pct_encode keep s = s"
  by (induction s) (auto simp: pct_byte_def split: if_splits)

lemma table_dir_inj:
  assumes "good_name n" "good_name m" "table_dir e1 n = table_dir e2 m" shows "n = m"
proof -
  have "quote_name a = a" if "CHR ''%'' \<notin> set (quote_name a)" for a
    using that unfolding quote_name_encode by (rule pct_in_encode)
  with assms show ?thesis
    by (cases e1; cases e2) (simp_all add: table_dir_def good_name_def, metis+)
qed

lemma part_prefix_disjoint:
  assumes "prefix (part_prefix ly b1 db1 t1 p1 e1) k" "prefix (part_prefix ly b2 db2 t2 p2 e2) k"
    and "plain_component b1" "plain_component b2"
    and "good_name db1" "good_name db2" "good_name t1" "good_name t2"
    and "plain_component p1" "plain_component p2"
  shows "b1 = b2 \<and> db1 = db2 \<and> t1 = t2 \<and> p1 = p2"
proof -
  have b: "b1 = b2"
    using assms(1-4) backup_prefix_disjoint unfolding part_prefix_def by fastforce
  obtain k1 where k: "k = (backup_key ly b1 @ ''/data/'') @ k1"
    using assms(1) by (auto simp: prefix_def part_prefix_def)
  let ?r = "\<lambda>e db t p. table_dir e db @ CHR ''/'' # table_dir e t @ CHR ''/'' # p @ ''/''"
  have r: "prefix (?r e1 db1 t1 p1) k1" "prefix (?r e2 db2 t2 p2) k1"
    using assms(1,2) b by (simp_all add: k part_prefix_def)
  have pl: "CHR ''/'' \<notin> set (table_dir e1 db1)" "CHR ''/'' \<notin> set (table_dir e2 db2)"
    "CHR ''/'' \<notin> set (table_dir e1 t1)" "CHR ''/'' \<notin> set (table_dir e2 t2)"
    using assms(5-8) by (auto simp: table_dir_def good_name_def)
  from component_prefix [OF r pl(1,2)] obtain k2 where db: "table_dir e1 db1 = table_dir e2 db2"
    and r2: "prefix (table_dir e1 t1 @ CHR ''/'' # p1 @ ''/'') k2"
      "prefix (table_dir e2 t2 @ CHR ''/'' # p2 @ ''/'') k2" by auto
  from component_prefix [OF r2 pl(3,4)] obtain k3 where t: "table_dir e1 t1 = table_dir e2 t2"
    and r3: "prefix (p1 @ CHR ''/'' # []) k3" "prefix (p2 @ CHR ''/'' # []) k3" by auto
  from component_prefix [OF r3] assms(9,10) have "p1 = p2" by simp
  with b table_dir_inj [OF assms(5,6) db] table_dir_inj [OF assms(7,8) t] show ?thesis by simp
qed

text \<open>A part whose files are named relative to its directory.\<close>

definition relative_files :: "part_metadata \<Rightarrow> bool" where
  "relative_files p \<longleftrightarrow> (\<forall>f \<in> set (rm_files (pm_raw p)). f = [] \<or> hd f \<noteq> CHR ''/'')"

definition good_part :: "part_metadata \<Rightarrow> bool" where
  "good_part p \<longleftrightarrow> good_name (pm_database p) \<and> good_name (pm_table p) \<and>
     plain_component (deduplicated_part_name p) \<and> relative_files p"

section \<open>What the operations leave alone\<close>

locale layout_store = storage_loader "ly_loader ly" intact decode idle
  for ly :: "'w layout" and intact :: "string \<Rightarrow> 'o \<Rightarrow> 'w \<Rightarrow> bool"
    and decode :: "bool \<Rightarrow> 'o \<Rightarrow> string res" and idle :: "'w \<Rightarrow> bool"
begin

lemma or_storage_error_keeps [keeps_rules]: "keeps P m \<Longrightarrow> keeps P (or_storage_error m)"
  unfolding or_storage_error_def by (intro keeps_rules)

lemma upload_backup_metadata_keeps:
  assumes "object_key k = k" "k \<noteq> object_key (backup_metadata_path ly (bm_name b))"
    and "k \<noteq> object_key (backup_light_metadata_path ly (bm_name b))"
  shows "keeps (intact k c) (upload_backup_metadata ly b)"
proof -
  have "k \<noteq> p" if "k \<noteq> object_key p" for p
    using that assms(1) by auto
  then show ?thesis
    unfolding upload_backup_metadata_def
    by (intro keeps_rules upload_data_keeps assms(2,3)) (use assms(2,3) in blast)+
qed

lemma load_metadata_keeps: "keeps (intact k c) (load_metadata ly p e)"
  unfolding load_metadata_def by (intro keeps_rules download_data_keeps)

lemma load_or_retry_keeps: "keeps (intact k c) (load_or_retry ly p e)"
  unfolding load_or_retry_def by (intro keeps_rules load_metadata_keeps)

lemma reload_backup_keeps: "keeps (intact k c) (reload_backup ly b e)"
  unfolding reload_backup_def by (rule load_or_retry_keeps)

lemma get_backup_keeps: "keeps (intact k c) (get_backup ly n e)"
  unfolding get_backup_def Let_def
  by (intro keeps_rules path_exists_keeps load_or_retry_keeps)

lemma get_backups_keeps: "keeps (intact k c) (get_backups ly e)"
  unfolding get_backups_def get_backup_names_def
  by (intro keeps_rules list_dir_keeps get_backup_keeps)

lemma get_escaped_keeps: "keeps (intact k c) (get_escaped_if_exists ly f)"
  unfolding get_escaped_if_exists_def by (intro keeps_rules path_exists_keeps)

lemma get_escaped_result:
  "get_escaped_if_exists ly f w = (Inr p, w') \<Longrightarrow> \<exists>esc. p = f esc"
  by (auto simp: get_escaped_if_exists_def bind_act_result)

lemma layout_wait_keeps: "keeps (intact k c) (layout_wait ly kg)"
  unfolding layout_wait_def by (intro or_storage_error_keeps wait_keeps)

lemma check_data_part_keeps: "keeps (intact k c) (check_data_part ly n p)"
  unfolding check_data_part_def Let_def
  by (intro keeps_rules get_escaped_keeps list_dir_keeps get_file_size_keeps)

lemma layout_delete_files_keeps:
  "k \<notin> object_key ` set ps \<Longrightarrow> keeps (intact k c) (layout_delete_files ly ps)"
  unfolding layout_delete_files_def by (intro or_storage_error_keeps delete_files_keeps)

text \<open>Deleting a backup touches only objects below its own directory.\<close>

lemma delete_backup_keeps:
  assumes "plain_component name" "\<not> prefix (backup_key ly name @ ''/'') k"
  shows "keeps (intact k c) (delete_backup ly name)"
  unfolding delete_backup_def
proof (rule keeps_bind_result)
  fix ks s s'
  assume "ld_list_dir (ly_loader ly) (get_backup_path ly name) True True s = (Inr ks, s')"
    and "intact k c s'"
  from list_dir_prefix [OF this(1)] have pre: "\<forall>p \<in> set ks. prefix (backup_key ly name @ ''/'') p"
    using assms(1) by (simp add: dir_prefix_backup)
  then have "\<forall>p \<in> set ks. object_key p = p"
    using object_key_below [OF assms(1)] by blast
  with pre assms(2) have "k \<notin> object_key ` set ks" by force
  then show "intact k c (snd (layout_delete_files ly ks s'))"
    by (rule keepsD [OF layout_delete_files_keeps]) (rule \<open>intact k c s'\<close>)
qed (rule list_dir_keeps)

lemma part_files_prefix:
  assumes "good_part p" "plain_component (source_backup_name bn p)"
    and "f \<in> set (part_files (source_part_path ly bn p esc) p)"
  shows "prefix (part_prefix ly (source_backup_name bn p) (pm_database p) (pm_table p)
                   (deduplicated_part_name p) esc) (object_key f)"
proof -
  let ?bp = "get_backup_path ly (source_backup_name bn p)"
  let ?s = "''/data/'' @ table_dir esc (pm_database p) @ ''/'' @ table_dir esc (pm_table p) @ ''/''
            @ deduplicated_part_name p"
  have sp: "source_part_path ly bn p esc = ?bp @ ?s"
    using assms(1,2) get_backup_path_plain [of "source_backup_name bn p" ly]
    by (simp add: source_part_path_def part_path_plain good_part_def good_name_def)
  have pd: "plain_dir (?bp @ ?s)"
    using assms(1) by (simp add: good_part_def plain_last)
  obtain g where f: "f = path_join (?bp @ ?s) g" and g: "g = [] \<or> hd g \<noteq> CHR ''/''"
  proof (cases "rm_tarball (pm_raw p)")
    case True
    with assms(1,3) that [of "deduplicated_part_name p @ ''.tar''"] show thesis
      by (simp add: part_files_def sp good_part_def plain_hd)
  next
    case False
    with assms(1,3) that show thesis
      by (auto simp: part_files_def sp good_part_def relative_files_def)
  qed
  then have "f = ?bp @ (?s @ ''/'' @ g)" using path_join_plain [OF pd g] by simp
  then have "object_key f = backup_key ly (source_backup_name bn p) @ (?s @ ''/'' @ g)"
    using object_key_backup [OF assms(2), of ly "?s @ ''/'' @ g"] by simp
  then show ?thesis by (simp add: part_prefix_def)
qed

lemma delete_data_parts_keeps:
  assumes "\<And>p esc. p \<in> set ps \<Longrightarrow> good_part p \<and> plain_component (source_backup_name (bm_name b) p) \<and>
      \<not> prefix (part_prefix ly (source_backup_name (bm_name b) p) (pm_database p) (pm_table p)
                 (deduplicated_part_name p) esc) k"
  shows "keeps (intact k c) (delete_data_parts ly b ps)"
proof -
  let ?body = "\<lambda>p deleting. bind_act (get_escaped_if_exists ly (source_part_path ly (bm_name b) p))
      (\<lambda>path. ret (deleting @ part_files path p))"
  have loop: "keeps (intact k c) (for_act ps ?body [])"
    by (intro keeps_rules get_escaped_keeps)
  have "k \<notin> object_key ` set files"
    if "for_act ps ?body [] s = (Inr files, s')" for files s s'
  proof (rule for_act_result [OF that, where Q = "\<lambda>fs. k \<notin> object_key ` set fs"])
    fix p c s c' s'
    assume p: "p \<in> set ps" and c: "k \<notin> object_key ` set c" and "?body p c s = (Inr c', s')"
    then obtain esc where c': "c' = c @ part_files (source_part_path ly (bm_name b) p esc) p"
      by (auto simp: bind_act_result dest: get_escaped_result)
    show "k \<notin> object_key ` set c'"
    proof
      assume "k \<in> object_key ` set c'"
      with c c' obtain f where "f \<in> set (part_files (source_part_path ly (bm_name b) p esc) p)"
        "k = object_key f" by auto
      with part_files_prefix [of p "bm_name b" f esc] assms [OF p, of esc] show False by auto
    qed
  qed simp
  then have "keeps (intact k c) (bind_act (for_act ps ?body []) (layout_delete_files ly))"
    by (intro keeps_bind_result [OF loop]) (meson keepsD layout_delete_files_keeps)
  then show ?thesis
    unfolding delete_data_parts_def by (simp add: keeps_ret)
qed

end

section \<open>The order of the backups\<close>

lemma sort_backups_keys:
  assumes "sort_backups bs = Inr bs'"
  shows "\<exists>kbs. list_all2 (\<lambda>b kb. start_key b = Inr (fst kb) \<and> snd kb = b) bs kbs \<and>
      bs' = map snd (rev (sort_key fst (rev kbs)))"
proof -
  from assms obtain kbs where kbs: "map_res (\<lambda>b. bind_res (start_key b) (\<lambda>k. Inr (k, b))) bs = Inr kbs"
    and bs': "bs' = map snd (rev (sort_key fst (rev kbs)))"
    by (auto simp: sort_backups_def)
  from kbs have "list_all2 (\<lambda>b kb. start_key b = Inr (fst kb) \<and> snd kb = b) bs kbs"
    unfolding map_res_Inr_iff by (rule list_all2_mono) auto
  with bs' show ?thesis by blast
qed



end
