(* ===== verification/Dedup.thy ===== *)
theory Dedup
  imports LayoutFacts
begin

text \<open>
  Deduplication of data parts (\<^verbatim>\<open>backup/deduplication.py\<close>).

  \<^item> \<open>collect_dedup_info\<close> walks over the recent backups, newest first, and inserts a row into a
    ClickHouse table for every part that a new backup may reuse;
  \<^item> \<open>deduplicate_parts\<close> turns the rows that match the frozen parts of a table into linked parts;
  \<^item> \<open>collect_dedup_references\<close> finds, before a deletion, the parts of the backups to be deleted
    that retained backups still refer to.

  ClickHouse is a parameter: the queries of \<open>ClickhouseCTL\<close> are the fields of \<open>dedup_ctl\<close>.
\<close>

section \<open>Rows\<close>

record part_dedup_info =
  pd_database :: string
  pd_table :: string
  pd_name :: string
  pd_backup_name :: string
  pd_checksum :: string
  pd_size :: int
  pd_files :: "string list"
  pd_tarball :: bool
  pd_disk_name :: string
  pd_verified :: bool
  pd_encrypted :: bool
  pd_link_part_name :: "string option"

definition int_str :: "int \<Rightarrow> string" where
  "int_str n = (if n < 0 then CHR ''-'' # nat_str (nat (- n)) else nat_str (nat n))"

definition bool_str :: "bool \<Rightarrow> string" where
  "bool_str b = (if b then ''1'' else ''0'')"

definition sql_quoted :: "string \<Rightarrow> string" where
  "sql_quoted s = CHR 0x27 # s @ [CHR 0x27]"

definition to_sql :: "part_dedup_info \<Rightarrow> string" where
  "to_sql r =
     ''('' @ join_str '','' [sql_quoted (pd_database r), sql_quoted (pd_table r), sql_quoted (pd_name r),
       sql_quoted (pd_backup_name r),
       sql_quoted (case non_empty (pd_link_part_name r) of None \<Rightarrow> '''' | Some n \<Rightarrow> n),
       sql_quoted (pd_checksum r), int_str (pd_size r),
       ''['' @ join_str '','' (map sql_quoted (pd_files r)) @ '']'', bool_str (pd_tarball r),
       sql_quoted (pd_disk_name r), bool_str (pd_verified r), '' '' @ bool_str (pd_encrypted r)] @ '')''"

text \<open>A row of the answer of \<open>get_deduplication_info\<close>.\<close>

record dedup_row =
  dr_current_name :: "string option"
  dr_name :: string
  dr_backup_name :: string
  dr_link_part_name :: "string option"
  dr_checksum :: string
  dr_size :: int
  dr_files :: "string list"
  dr_tarball :: bool
  dr_disk_name :: string
  dr_verified :: bool
  dr_encrypted :: "bool option"

record 'w dedup_ctl =
  dc_create_deduplication_table :: "('w, unit) act"
  dc_insert_deduplication_info :: "string list \<Rightarrow> ('w, unit) act"
  dc_get_deduplication_info ::
    "string \<Rightarrow> string \<Rightarrow> (string, frozen_part) dict \<Rightarrow> ('w, dedup_row list) act"

section \<open>Collecting the parts that may be reused\<close>

record db_to_handle =
  dh_replicated :: bool
  dh_nonreplicated :: bool

definition handled :: "db_to_handle \<Rightarrow> bool" where
  "handled d \<longleftrightarrow> dh_replicated d \<and> dh_nonreplicated d"

text \<open>The first inner loop: the databases to look at in this backup, with the flags they had before
  it, and the databases that are left for older backups.\<close>

fun select_databases ::
  "bool \<Rightarrow> bool \<Rightarrow> string list \<Rightarrow> (string, db_to_handle) dict
     \<Rightarrow> (string \<times> db_to_handle) list \<times> (string, db_to_handle) dict" where
  "select_databases created only_replicated [] h = ([], h)"
| "select_databases created only_replicated (n # ns) h =
     (case map_of h n of
        None \<Rightarrow> select_databases created only_replicated ns h
      | Some db \<Rightarrow>
          (let db' = (if created then db\<lparr>dh_replicated := True,
                          dh_nonreplicated := dh_nonreplicated db \<or> \<not> only_replicated\<rparr> else db);
               h' = (if created \<and> handled db' then AList.delete n h else dict_set h n db');
               (sel, h'') = select_databases created only_replicated ns h'
           in ((n, db) # sel, h'')))"

text \<open>What is known of a table: the names already collected. The collection is a nested
  \<open>defaultdict\<close>.\<close>

type_synonym dedup_references = "(string, (string, string set) dict) dict"

definition dd_get :: "('k, 'v) dict \<Rightarrow> 'k \<Rightarrow> 'v \<Rightarrow> 'v" where
  "dd_get d k v = option_or (map_of d k) v"

definition table_references :: "dedup_references \<Rightarrow> string \<Rightarrow> string \<Rightarrow> string set" where
  "table_references refs db tbl = dd_get (dd_get refs db []) tbl {}"

definition add_reference :: "dedup_references \<Rightarrow> string \<Rightarrow> string \<Rightarrow> string \<Rightarrow> dedup_references" where
  "add_reference refs db tbl n =
     dict_set refs db (dict_set (dd_get refs db []) tbl (insert n (table_references refs db tbl)))"

text \<open>The row of a part, or nothing when its source is too old to be reused.\<close>

definition dedup_row_of :: "string set \<Rightarrow> string \<Rightarrow> part_metadata \<Rightarrow> part_dedup_info option" where
  "dedup_row_of dedup_backup_names backup_name p =
     (if has_link p \<and> source_backup_name backup_name p \<notin> dedup_backup_names then None
      else Some \<lparr>pd_database = pm_database p, pd_table = pm_table p, pd_name = pm_name p,
                 pd_backup_name = source_backup_name backup_name p,
                 pd_checksum = rm_checksum (pm_raw p), pd_size = part_size p,
                 pd_files = rm_files (pm_raw p), pd_tarball = rm_tarball (pm_raw p),
                 pd_disk_name = part_disk_name p, pd_verified = has_link p,
                 pd_encrypted = rm_encrypted (pm_raw p),
                 pd_link_part_name = rm_link_part_name (pm_raw p)\<rparr>)"

text \<open>The local variables of the loops: the names collected and the batch not yet inserted.\<close>

type_synonym collecting = "dedup_references \<times> string list"

definition collect_part ::
  "'w dedup_ctl \<Rightarrow> nat \<Rightarrow> string set \<Rightarrow> string \<Rightarrow> part_metadata \<Rightarrow> collecting \<Rightarrow> ('w, collecting) act" where
  "collect_part ctl batch_size dedup_backup_names backup_name p st =
     (case st of (seen, batch) \<Rightarrow>
        if pm_name p \<in> table_references seen (pm_database p) (pm_table p) then ret st
        else (case dedup_row_of dedup_backup_names backup_name p of
                None \<Rightarrow> ret st
              | Some row \<Rightarrow>
                  (let seen' = add_reference seen (pm_database p) (pm_table p) (pm_name p);
                       batch' = batch @ [to_sql row] in
                   if batch_size \<le> length batch' then
                     bind_act (dc_insert_deduplication_info ctl batch') (\<lambda>_. ret (seen', []))
                   else ret (seen', batch'))))"

definition skip_table :: "bool \<Rightarrow> db_to_handle \<Rightarrow> table_metadata \<Rightarrow> bool" where
  "skip_table only_replicated db t \<longleftrightarrow>
     (let replicated = engine_is_replicated (rt_engine (tm_raw t)) in
      (replicated \<and> dh_replicated db) \<or> (\<not> replicated \<and> (dh_nonreplicated db \<or> only_replicated)))"

definition collect_table ::
  "'w dedup_ctl \<Rightarrow> nat \<Rightarrow> string set \<Rightarrow> string \<Rightarrow> bool \<Rightarrow> db_to_handle \<Rightarrow> table_metadata \<Rightarrow> collecting
     \<Rightarrow> ('w, collecting) act" where
  "collect_table ctl batch_size names backup_name only_replicated db t st =
     (if skip_table only_replicated db t then ret st
      else bind_act (lift_res (get_parts {} t)) (\<lambda>parts.
             for_act parts (collect_part ctl batch_size names backup_name) st))"

definition collect_database ::
  "'w dedup_ctl \<Rightarrow> nat \<Rightarrow> string set \<Rightarrow> backup_metadata \<Rightarrow> bool \<Rightarrow> string \<times> db_to_handle \<Rightarrow> collecting
     \<Rightarrow> ('w, collecting) act" where
  "collect_database ctl batch_size names b only_replicated db st =
     bind_act (lift_res (bm_get_tables (Some (fst db)) b)) (\<lambda>tables.
       for_act tables (collect_table ctl batch_size names (bm_name b) only_replicated (snd db)) st)"

text \<open>The outer loop stops when every database has been handled.\<close>

fun populate_loop ::
  "'w layout \<Rightarrow> 'w dedup_ctl \<Rightarrow> nat \<Rightarrow> string \<Rightarrow> string set \<Rightarrow> backup_metadata list
     \<Rightarrow> (string, db_to_handle) dict \<Rightarrow> dedup_references \<Rightarrow> ('w, unit) act" where
  "populate_loop ly ctl batch_size hostname names [] h seen = ret ()"
| "populate_loop ly ctl batch_size hostname names (light # rest) h seen =
     bind_act (reload_backup ly light False) (\<lambda>b.
       let only_replicated = (hostname \<noteq> bm_hostname b);
           (sel, h') = select_databases (bm_state b = CREATED) only_replicated (bm_get_databases b) h in
       bind_act (for_act sel (collect_database ctl batch_size names b only_replicated) (seen, []))
         (\<lambda>(seen', batch).
       bind_act (when_act (batch \<noteq> []) (dc_insert_deduplication_info ctl batch)) (\<lambda>_.
         if h' = [] then ret ()
         else populate_loop ly ctl batch_size hostname names rest h' seen')))"

definition populate_dedup_info ::
  "'w layout \<Rightarrow> 'w dedup_ctl \<Rightarrow> nat \<Rightarrow> backup_metadata \<Rightarrow> backup_metadata list \<Rightarrow> database list
     \<Rightarrow> ('w, unit) act" where
  "populate_dedup_info ly ctl batch_size new_backup dedup_backups dbs =
     populate_loop ly ctl batch_size (bm_hostname new_backup) (bm_name ` set dedup_backups) dedup_backups
       (fold (\<lambda>db h. dict_set h (db_name db) \<lparr>dh_replicated = False, dh_nonreplicated = False\<rparr>) dbs []) []"

text \<open>The backups young enough to be reused: the list is newest first, and the first backup older
  than the limit ends the search. \<open>None\<close> for the limit: deduplication is off.\<close>

fun dedup_backups_of :: "int option \<Rightarrow> backup_metadata list \<Rightarrow> backup_metadata list" where
  "dedup_backups_of limit [] = []"
| "dedup_backups_of limit (b # bs) =
     (if (case (limit, bm_start_time b) of (Some l, Some t) \<Rightarrow> instant t < l | _ \<Rightarrow> True) then []
      else if bm_schema_only b then dedup_backups_of limit bs
      else b # dedup_backups_of limit bs)"

definition collect_dedup_info ::
  "'w layout \<Rightarrow> 'w dedup_ctl \<Rightarrow> nat \<Rightarrow> int option \<Rightarrow> backup_metadata \<Rightarrow> database list
     \<Rightarrow> backup_metadata list \<Rightarrow> ('w, unit) act" where
  "collect_dedup_info ly ctl batch_size age_limit new_backup dbs light_backups =
     (if bm_schema_only new_backup then ret ()
      else bind_act (dc_create_deduplication_table ctl) (\<lambda>_.
             populate_dedup_info ly ctl batch_size new_backup
               (dedup_backups_of age_limit light_backups) dbs))"

section \<open>Reusing parts\<close>

definition row_link_part_name :: "dedup_row \<Rightarrow> string \<Rightarrow> string option" where
  "row_link_part_name r current_name =
     (case non_empty (dr_link_part_name r) of
        Some n \<Rightarrow> Some n
      | None \<Rightarrow> if current_name \<noteq> dr_name r then Some (dr_name r) else None)"

definition row_current_name :: "dedup_row \<Rightarrow> string" where
  "row_current_name r = (case non_empty (dr_current_name r) of Some n \<Rightarrow> n | None \<Rightarrow> dr_name r)"

definition part_of_row :: "string \<Rightarrow> string \<Rightarrow> dedup_row \<Rightarrow> part_metadata" where
  "part_of_row db tbl r =
     \<lparr>pm_database = db, pm_table = tbl, pm_name = row_current_name r,
      pm_raw = \<lparr>rm_checksum = dr_checksum r, rm_size = dr_size r, rm_files = dr_files r,
                rm_tarball = dr_tarball r, rm_link = non_empty (Some (dr_backup_name r)),
                rm_link_part_name = row_link_part_name r (row_current_name r),
                rm_disk_name = Some (dr_disk_name r),
                rm_encrypted = option_or (dr_encrypted r) True\<rparr>\<rparr>"

definition deduplicate_row ::
  "'w layout \<Rightarrow> string \<Rightarrow> string \<Rightarrow> dedup_row \<Rightarrow> (string, part_metadata) dict
     \<Rightarrow> ('w, (string, part_metadata) dict) act" where
  "deduplicate_row ly db tbl r acc =
     bind_act (if row_current_name r \<noteq> dr_name r
               then lift_res (is_mutation_renamed (row_current_name r) (dr_name r)) else ret True)
       (\<lambda>same.
       if \<not> same then ret acc
       else
         (let p = part_of_row db tbl r in
          bind_act (if dr_verified r then ret True else check_data_part ly (dr_backup_name r) p) (\<lambda>ok.
            ret (if ok then dict_set acc (pm_name p) p else acc))))"

definition deduplicate_parts ::
  "'w layout \<Rightarrow> 'w dedup_ctl \<Rightarrow> string \<Rightarrow> string \<Rightarrow> (string, frozen_part) dict
     \<Rightarrow> ('w, (string, part_metadata) dict) act" where
  "deduplicate_parts ly ctl db tbl frozen =
     bind_act (dc_get_deduplication_info ctl db tbl frozen) (\<lambda>rows.
       for_act rows (deduplicate_row ly db tbl) [])"

section \<open>References from retained backups\<close>

definition add_part_to_dedup_references :: "dedup_references \<Rightarrow> part_metadata \<Rightarrow> dedup_references" where
  "add_part_to_dedup_references refs p =
     add_reference refs (pm_database p) (pm_table p) (deduplicated_part_name p)"

definition reference_part ::
  "string set \<Rightarrow> part_metadata \<Rightarrow> (string, dedup_references) dict \<Rightarrow> (string, dedup_references) dict" where
  "reference_part deleting_names p refs =
     (case non_empty (part_link p) of
        None \<Rightarrow> refs
      | Some l \<Rightarrow>
          if l \<notin> deleting_names then refs
          else dict_set refs l (add_part_to_dedup_references (dd_get refs l []) p))"

text \<open>The parts a backup lists, in the order of \<open>get_databases\<close>, \<open>get_tables\<close> and \<open>get_parts\<close>.\<close>

definition collect_backup_references ::
  "string set \<Rightarrow> backup_metadata \<Rightarrow> (string, dedup_references) dict \<Rightarrow> (string, dedup_references) dict res" where
  "collect_backup_references deleting_names b refs =
     fold_res (\<lambda>db refs.
       bind_res (bm_get_tables (Some db) b) (\<lambda>tables.
         fold_res (\<lambda>t refs.
           bind_res (get_parts {} t) (\<lambda>parts. Inr (fold (reference_part deleting_names) parts refs)))
           tables refs)) (bm_get_databases b) refs"

definition collect_references_step ::
  "'w layout \<Rightarrow> string set \<Rightarrow> backup_metadata \<Rightarrow> (string, dedup_references) dict
     \<Rightarrow> ('w, (string, dedup_references) dict) act" where
  "collect_references_step ly deleting_names light refs =
     bind_act (reload_backup ly light False) (\<lambda>b.
       lift_res (collect_backup_references deleting_names b refs))"

definition collect_dedup_references ::
  "'w layout \<Rightarrow> backup_metadata list \<Rightarrow> backup_metadata list
     \<Rightarrow> ('w, (string, dedup_references) dict) act" where
  "collect_dedup_references ly retained deleting =
     for_act retained (collect_references_step ly (bm_name ` set deleting)) []"

section \<open>Lemmas on references\<close>

lemma table_references_add:
  "table_references (add_reference refs db tbl n) db' tbl'
   = (if db' = db \<and> tbl' = tbl then insert n (table_references refs db tbl)
      else table_references refs db' tbl')"
  by (auto simp: table_references_def add_reference_def dd_get_def option_or_def)

text \<open>The references to a backup, as a set.\<close>

definition references ::
  "(string, dedup_references) dict \<Rightarrow> string \<Rightarrow> string \<Rightarrow> string \<Rightarrow> string set" where
  "references refs backup_name db tbl = table_references (dd_get refs backup_name []) db tbl"

lemma references_reference_part:
  "references (reference_part names p refs) bn db tbl =
     references refs bn db tbl \<union>
     (if part_link p = Some bn \<and> bn \<noteq> [] \<and> bn \<in> names \<and> pm_database p = db \<and> pm_table p = tbl
      then {deduplicated_part_name p} else {})"
proof (cases "non_empty (part_link p)")
  case (Some l)
  then show ?thesis
    by (auto simp: reference_part_def references_def add_part_to_dedup_references_def
        dd_get_def option_or_def table_references_add [unfolded dd_get_def option_or_def])
qed (auto simp: reference_part_def)

text \<open>A part that refers to the part of a backup of the set \<open>names\<close>.\<close>

definition refers_to :: "string set \<Rightarrow> string \<Rightarrow> string \<Rightarrow> string \<Rightarrow> part_metadata \<Rightarrow> bool" where
  "refers_to names bn db tbl p \<longleftrightarrow>
     part_link p = Some bn \<and> bn \<noteq> [] \<and> bn \<in> names \<and> pm_database p = db \<and> pm_table p = tbl"

lemma references_fold:
  "references (fold (reference_part names) ps refs) bn db tbl =
     references refs bn db tbl \<union> deduplicated_part_name ` {p \<in> set ps. refers_to names bn db tbl p}"
  by (induction ps arbitrary: refs) (auto simp: references_reference_part refers_to_def)

text \<open>The parts listed by a backup.\<close>

definition listed_part :: "backup_metadata \<Rightarrow> part_metadata \<Rightarrow> bool" where
  "listed_part b p \<longleftrightarrow>
     (\<exists>db m tn raw pn rp. (db, m) \<in> set (bm_databases b) \<and> (tn, raw) \<in> set (dm_tables m) \<and>
        (pn, rp) \<in> set (rt_parts raw) \<and> p = part_load db tn pn rp)"

lemma listed_part_iff:
  "dicts_ok b \<Longrightarrow> listed_part b p \<longleftrightarrow>
     (\<exists>db m tn raw pn rp. map_of (bm_databases b) db = Some m \<and> (tn, raw) \<in> set (dm_tables m) \<and>
        (pn, rp) \<in> set (rt_parts raw) \<and> p = part_load db tn pn rp)"
  by (simp add: listed_part_def dicts_ok_def dict_ok_map_of)

lemma listed_parts_load:
  "set (listed_parts X (table_load db tn raw))
   = {part_load db tn pn rp | pn rp. (pn, rp) \<in> set (rt_parts raw) \<and> pn \<notin> X}"
  by (force simp: listed_parts_def)

lemma tables_of_Inr:
  "bm_get_tables (Some db) b = Inr ts \<Longrightarrow> db \<noteq> [] \<Longrightarrow>
     \<exists>m. map_of (bm_databases b) db = Some m \<and> ts = map (\<lambda>(tn, raw). table_load db tn raw) (dm_tables m)"
  by (auto simp: bm_get_tables_def tables_of_def)

definition named_databases :: "backup_metadata \<Rightarrow> bool" where
  "named_databases b \<longleftrightarrow> [] \<notin> fst ` set (bm_databases b)"

lemma collect_backup_references_Inr:
  assumes "dicts_ok b" "named_databases b" "collect_backup_references names b refs = Inr refs'"
  shows "references refs' bn db tbl =
    references refs bn db tbl \<union> deduplicated_part_name ` {p. listed_part b p \<and> refers_to names bn db tbl p}"
proof -
  let ?D = "\<lambda>S. deduplicated_part_name ` {p \<in> S. refers_to names bn db tbl p}"
  let ?R = "\<lambda>r. references r bn db tbl"
  let ?P = "\<lambda>d. {p. \<exists>m tn raw pn rp. map_of (bm_databases b) d = Some m \<and> (tn, raw) \<in> set (dm_tables m) \<and>
        (pn, rp) \<in> set (rt_parts raw) \<and> p = part_load d tn pn rp}"
  have step: "?R c' = ?R c \<union> ?D (?P d)"
    if d: "d \<in> set (bm_get_databases b)"
      and c': "bind_res (bm_get_tables (Some d) b) (\<lambda>tables.
         fold_res (\<lambda>t refs. bind_res (get_parts {} t) (\<lambda>parts.
           Inr (fold (reference_part names) parts refs))) tables c) = Inr c'" for d c c'
  proof -
    have "d \<noteq> []" using d assms(2) by (metis bm_get_databases_def named_databases_def set_map)
    from c' obtain ts where ts: "bm_get_tables (Some d) b = Inr ts"
      and f: "fold_res (\<lambda>t refs. bind_res (get_parts {} t) (\<lambda>parts.
           Inr (fold (reference_part names) parts refs))) ts c = Inr c'" by auto
    obtain m where m: "map_of (bm_databases b) d = Some m"
      "ts = map (\<lambda>(tn, raw). table_load d tn raw) (dm_tables m)"
      using tables_of_Inr [OF ts \<open>d \<noteq> []\<close>] by auto
    have "?R c' = ?R c \<union> (\<Union>t \<in> set ts. ?D (set (listed_parts {} t)))"
      by (rule fold_res_union [OF f])
        (auto simp: references_fold dest!: get_parts_set)
    also have "(\<Union>t \<in> set ts. ?D (set (listed_parts {} t))) = ?D (?P d)"
      unfolding m(2) by (force simp: listed_parts_load m(1))
    finally show ?thesis .
  qed
  have "?R refs' = ?R refs \<union> (\<Union>d \<in> set (bm_get_databases b). ?D (?P d))"
    using assms(3) unfolding collect_backup_references_def
    by (rule fold_res_union) (rule step)
  also have "(\<Union>d \<in> set (bm_get_databases b). ?D (?P d)) = ?D (\<Union>d \<in> set (bm_get_databases b). ?P d)"
    by blast
  also have "(\<Union>d \<in> set (bm_get_databases b). ?P d) = {p. listed_part b p}"
  proof (intro set_eqI iffI)
    fix p assume "p \<in> {p. listed_part b p}"
    then have "\<exists>d. p \<in> ?P d" unfolding mem_Collect_eq listed_part_iff [OF assms(1)] .
    then obtain d where "p \<in> ?P d" ..
    moreover from this have "d \<in> set (bm_get_databases b)"
      by (auto simp: bm_get_databases_def dest!: map_of_SomeD intro: rev_image_eqI)
    ultimately show "p \<in> (\<Union>d \<in> set (bm_get_databases b). ?P d)" by blast
  next
    fix p assume "p \<in> (\<Union>d \<in> set (bm_get_databases b). ?P d)"
    then obtain d where "p \<in> ?P d" by blast
    then show "p \<in> {p. listed_part b p}"
      unfolding mem_Collect_eq listed_part_iff [OF assms(1)] by (rule exI)
  qed
  finally show ?thesis by simp
qed

end
