(* ===== verification/Sources.thy ===== *)
theory Sources
  imports Prelude
begin

text \<open>
  Partial backup and restore sources (\<^verbatim>\<open>backup/sources.py\<close>): which kinds of objects an operation
  handles, computed from the command line flags.
\<close>

record backup_sources =
  bs_access :: bool
  bs_data :: bool
  bs_schema :: bool
  bs_udf :: bool
  bs_named_collections :: bool
  bs_workload_entities :: bool

definition all_sources :: backup_sources where
  "all_sources = \<lparr>bs_access = True, bs_data = True, bs_schema = True, bs_udf = True,
                  bs_named_collections = True, bs_workload_entities = True\<rparr>"

definition any_source :: "backup_sources \<Rightarrow> bool" where
  "any_source s \<longleftrightarrow> bs_access s \<or> bs_data s \<or> bs_schema s \<or> bs_udf s \<or> bs_named_collections s
                    \<or> bs_workload_entities s"

definition for_backup :: "backup_sources \<Rightarrow> bool \<Rightarrow> backup_sources" where
  "for_backup s schema_only =
     (if any_source s then s\<lparr>bs_schema := bs_data s \<or> bs_schema s\<rparr>
      else \<lparr>bs_access = True, bs_data = \<not> schema_only, bs_schema = True, bs_udf = True,
            bs_named_collections = True, bs_workload_entities = True\<rparr>)"

definition for_restore :: "backup_sources \<Rightarrow> bool \<Rightarrow> backup_sources" where
  "for_restore s schema_only =
     (if any_source s then s\<lparr>bs_schema := bs_data s \<or> bs_schema s\<rparr>
      else \<lparr>bs_access = False, bs_data = \<not> schema_only, bs_schema = True, bs_udf = True,
            bs_named_collections = True, bs_workload_entities = True\<rparr>)"

definition schemas_included :: "backup_sources \<Rightarrow> bool" where
  "schemas_included s \<longleftrightarrow> bs_data s \<or> bs_schema s"

definition sources_schema_only :: "backup_sources \<Rightarrow> bool" where
  "sources_schema_only s \<longleftrightarrow> bs_schema s \<and> \<not> bs_data s"

text \<open>Data is never processed without the schema it belongs to.\<close>

lemma sources_data_schema:
  "bs_data (for_backup s so) \<Longrightarrow> bs_schema (for_backup s so)"
  "bs_data (for_restore s so) \<Longrightarrow> bs_schema (for_restore s so)"
  by (simp_all add: for_backup_def for_restore_def split: if_splits)

lemma sources_never_empty:
  "any_source (for_backup s so)" "any_source (for_restore s so)"
  by (auto simp: for_backup_def for_restore_def any_source_def)

end
