(* ===== verification/Retention.thy ===== *)
theory Retention
  imports Dedup Sources
begin

text \<open>
  Listing, deleting and purging backups (\<^verbatim>\<open>ch_backup.py\<close>: \<open>get\<close>, \<open>list\<close>,
  \<open>delete\<close>, \<open>purge\<close>, \<open>_delete\<close>, \<open>_delete_data_parts\<close>, \<open>_check_min_interval\<close>).

  An operation that changes the backup object it holds, besides the world, runs on the pair of the
  world and the object (\<open>on_world\<close>, \<open>on_object\<close>).
\<close>

section \<open>The context\<close>

record 'w backup_ctx =
  cx_layout :: "'w layout"
  cx_dedup :: "'w dedup_ctl"
  cx_now :: "('w, py_time) act"
  cx_lock :: "string \<Rightarrow> ('w, unit) act"
  cx_unlock :: "('w, unit) act"
  cx_system_unfreeze :: "string \<Rightarrow> ('w, unit) act"
  cx_exception_text :: "exn \<Rightarrow> string"
  cx_retain_time :: "int option"
  cx_retain_count :: "int option"
  cx_min_interval :: "int option"

definition set_backup :: "('b \<Rightarrow> 'b) \<Rightarrow> ('w \<times> 'b, unit) act" where
  "set_backup f s = (Inr (), (fst s, f (snd s)))"

text \<open>\<open>with self._context.locker(operation=op): m\<close>\<close>

definition with_lock :: "'w backup_ctx \<Rightarrow> string \<Rightarrow> ('w, 'a) act \<Rightarrow> ('w, 'a) act" where
  "with_lock cx op m = bind_act (cx_lock cx op) (\<lambda>_. finally_act m (cx_unlock cx))"

section \<open>Get and list\<close>

definition get_backup_or_raise :: "'w backup_ctx \<Rightarrow> string \<Rightarrow> bool \<Rightarrow> ('w, backup_metadata) act" where
  "get_backup_or_raise cx name use_light_meta =
     bind_act (get_backup (cx_layout cx) name use_light_meta) (\<lambda>b.
       case b of None \<Rightarrow> raise (BackupNotFound name) | Some b \<Rightarrow> ret b)"

definition list_backups :: "'w backup_ctx \<Rightarrow> backup_state option \<Rightarrow> ('w, backup_metadata list) act" where
  "list_backups cx state =
     bind_act (get_backups (cx_layout cx) True) (\<lambda>bs.
       ret (filter (\<lambda>b. case state of None \<Rightarrow> True | Some s \<Rightarrow> bm_state b = s) bs))"

section \<open>Deleting one backup\<close>

definition delete_table_parts ::
  "'w backup_ctx \<Rightarrow> table_metadata \<Rightarrow> string set \<Rightarrow> ('w \<times> backup_metadata, unit) act" where
  "delete_table_parts cx t excluded s =
     bind_act (lift_res (get_parts excluded t)) (\<lambda>parts.
     bind_act (on_world (delete_data_parts (cx_layout cx) (snd s) (filter (\<lambda>p. \<not> has_link p) parts)))
       (\<lambda>_. on_object (bm_remove_parts t parts))) s"

definition delete_database_parts ::
  "'w backup_ctx \<Rightarrow> dedup_references \<Rightarrow> string \<Rightarrow> ('w \<times> backup_metadata, unit) act" where
  "delete_database_parts cx refs db s =
     bind_act (lift_res (bm_get_tables (Some db) (snd s))) (\<lambda>tables.
       for_act tables (\<lambda>t _. delete_table_parts cx t (table_references refs db (tm_name t))) ()) s"

definition delete_body ::
  "'w backup_ctx \<Rightarrow> dedup_references \<Rightarrow> ('w \<times> backup_metadata, string option \<times> string option) act" where
  "delete_body cx refs s =
     (let name = bm_name (snd s) in
      if refs = [] then
        bind_act (on_world (delete_backup (cx_layout cx) name)) (\<lambda>_.
        bind_act (on_world (cx_system_unfreeze cx name)) (\<lambda>_. ret (Some name, None))) s
      else
        bind_act (for_act (bm_get_databases (snd s)) (\<lambda>db _. delete_database_parts cx refs db) ()) (\<lambda>_.
        bind_act (on_world (cx_system_unfreeze cx name)) (\<lambda>_.
          ret (None, Some ''Backup was partially deleted as its data is in use by subsequent backups per deduplication settings.''))) s)"

definition upload_current :: "'w backup_ctx \<Rightarrow> ('w \<times> backup_metadata, unit) act" where
  "upload_current cx s = on_world (upload_backup_metadata (cx_layout cx) (snd s)) s"

text \<open>\<open>except (Exception, TerminatingSignal)\<close> catches every exception of the model.\<close>

definition delete_guarded ::
  "'w backup_ctx \<Rightarrow> dedup_references \<Rightarrow> ('w \<times> backup_metadata, string option \<times> string option) act" where
  "delete_guarded cx refs =
     finally_act
       (try_act (delete_body cx refs) (\<lambda>_. True) (\<lambda>e.
          bind_act (set_backup (\<lambda>b. bm_set_exception (Some (cx_exception_text cx e)) (bm_set_state FAILED b)))
            (\<lambda>_. raise e)))
       (bind_act (on_world (layout_wait (cx_layout cx) False)) (\<lambda>_.
        when_act (refs \<noteq> [])
          (bind_act (set_backup (bm_set_state PARTIALLY_DELETED)) (\<lambda>_. upload_current cx))))"

definition delete_one ::
  "'w backup_ctx \<Rightarrow> backup_metadata \<Rightarrow> dedup_references \<Rightarrow> ('w, string option \<times> string option) act" where
  "delete_one cx light refs =
     bind_act (reload_backup (cx_layout cx) light False) (\<lambda>b0.
       let b = bm_set_state DELETING b0 in
       bind_act (upload_backup_metadata (cx_layout cx) b) (\<lambda>_ w.
         case delete_guarded cx refs (w, b) of (r, (w', b')) \<Rightarrow> (r, w')))"

section \<open>Deleting and purging\<close>

text \<open>The loop of \<open>delete\<close>: the position counts from the newest backup.\<close>

definition delete_split ::
  "string \<Rightarrow> bool \<Rightarrow> backup_metadata list \<Rightarrow> bool \<times> backup_metadata list \<times> backup_metadata list" where
  "delete_split name purge_partial bs =
     fold (\<lambda>(i, b) (found, deleting, retained).
       if bm_name b = name then (True, deleting @ [b], retained)
       else if purge_partial \<and> bm_state b \<noteq> CREATED \<and> i \<noteq> 0 then (found, deleting @ [b], retained)
       else (found, deleting, retained @ [b])) (enumerate 0 bs) (False, [], [])"

definition delete_cmd ::
  "'w backup_ctx \<Rightarrow> string \<Rightarrow> bool \<Rightarrow> ('w, string option \<times> string option) act" where
  "delete_cmd cx name purge_partial =
     with_lock cx ''DELETE''
       (bind_act (get_backups (cx_layout cx) True) (\<lambda>bs.
          case delete_split name purge_partial bs of (found, deleting, retained) \<Rightarrow>
            if \<not> found then raise (BackupNotFound name)
            else bind_act (collect_dedup_references (cx_layout cx) retained deleting) (\<lambda>refs.
                   for_act deleting (\<lambda>b result.
                     bind_act (delete_one cx b (dd_get refs (bm_name b) [])) (\<lambda>r.
                       ret (if bm_name b = name then r else result))) (None, None))))"

text \<open>The loop of \<open>purge\<close>. Its variables: the count left to retain, the retained backups and the
  backups to delete. A missing count is \<open>None > 0\<close>, a \<open>TypeError\<close>.\<close>

type_synonym purge_vars = "int option \<times> backup_metadata list \<times> backup_metadata list"

definition retain_step :: "int option \<Rightarrow> backup_metadata \<Rightarrow> purge_vars \<Rightarrow> purge_vars res" where
  "retain_step limit b vars =
     (case vars of (cnt, retained, deleting) \<Rightarrow>
       (case cnt of
          None \<Rightarrow> Inl TypeError
        | Some c \<Rightarrow>
            if c > 0 then
              Inr (Some (if bm_state b = CREATED then c - 1 else c), retained @ [b], deleting)
            else
              (case limit of
                 None \<Rightarrow> Inr (cnt, retained, deleting @ [b])
               | Some l \<Rightarrow>
                   (case bm_start_time b of
                      None \<Rightarrow> Inl TypeError
                    | Some t \<Rightarrow>
                        if l \<le> instant t then Inr (cnt, retained @ [b], deleting)
                        else Inr (cnt, retained, deleting @ [b])))))"

definition purge_step ::
  "'w backup_ctx \<Rightarrow> string list \<Rightarrow> int option \<Rightarrow> backup_metadata \<Rightarrow> purge_vars \<Rightarrow> ('w, purge_vars) act" where
  "purge_step cx backup_names limit b vars =
     (if \<not> List.member backup_names (bm_name b) then
        bind_act (delete_backup (cx_layout cx) (bm_name b)) (\<lambda>_. ret vars)
      else lift_res (retain_step limit b vars))"

definition delete_batch ::
  "'w backup_ctx \<Rightarrow> backup_metadata list \<Rightarrow> backup_metadata list \<Rightarrow> ('w, string list) act" where
  "delete_batch cx retained deleting =
     bind_act (collect_dedup_references (cx_layout cx) retained deleting) (\<lambda>refs.
       for_act deleting (\<lambda>b names.
         bind_act (delete_one cx b (dd_get refs (bm_name b) [])) (\<lambda>(n, _).
           ret (case non_empty n of None \<Rightarrow> names | Some n \<Rightarrow> names @ [n]))) [])"

text \<open>The body of the \<open>with\<close> statement of \<open>purge\<close>; the names were listed before it was entered.\<close>

definition purge_locked ::
  "'w backup_ctx \<Rightarrow> string list \<Rightarrow> int option \<Rightarrow> ('w, string list) act" where
  "purge_locked cx backup_names limit =
     bind_act (get_backups (cx_layout cx) True) (\<lambda>bs.
     bind_act (for_act bs (purge_step cx backup_names limit) (cx_retain_count cx, [], []))
       (\<lambda>(_, retained, deleting). delete_batch cx retained deleting))"

definition purge :: "'w backup_ctx \<Rightarrow> ('w, string list \<times> string option) act" where
  "purge cx =
     (if cx_retain_time cx = None \<and> cx_retain_count cx = None
      then ret ([], Some ''Retain policies are not specified.'')
      else bind_act (case cx_retain_time cx of
               None \<Rightarrow> ret None
             | Some d \<Rightarrow> bind_act (cx_now cx) (\<lambda>t. ret (Some (instant t - d)))) (\<lambda>limit.
           bind_act (get_backup_names (cx_layout cx)) (\<lambda>backup_names.
           bind_act (with_lock cx ''PURGE'' (purge_locked cx backup_names limit)) (\<lambda>deleted.
             ret (deleted, None)))))"

text \<open>\<open>_check_min_interval\<close>: may a new backup be made, given the last one and the time?\<close>

definition check_min_interval :: "'w backup_ctx \<Rightarrow> backup_metadata \<Rightarrow> bool \<Rightarrow> ('w, bool) act" where
  "check_min_interval cx last_backup force =
     (if force then ret True
      else (case cx_min_interval cx of
              None \<Rightarrow> ret True
            | Some d \<Rightarrow>
                (case bm_end_time last_backup of
                   None \<Rightarrow> ret True
                 | Some t \<Rightarrow> bind_act (cx_now cx) (\<lambda>now. ret (instant now - instant t \<ge> d)))))"

end
