(* ===== verification/RetentionSafety.thy ===== *)
theory RetentionSafety
  imports Retention
begin

text \<open>
  Deleting and purging never lose the data of a retained backup. The locale \<open>retention\<close> is a backup
  context on a storage; inside it \<open>delete_one\<close> is shown to leave an object alone when the object is
  \<open>out_of_reach\<close> of the backup being deleted, and \<open>delete_batch\<close> to keep every object of the
  parts that the retained backups list.
\<close>

section \<open>The backup object during a deletion\<close>

lemma listed_part_set_table:
  assumes "listed_part (set_table db tn m raw b) p" "map_of (bm_databases b) db = Some m"
    and "map_of (dm_tables m) tn = Some raw0" "set (rt_parts raw) \<subseteq> set (rt_parts raw0)"
  shows "listed_part b p"
proof -
  have dbs: "(db, m) \<in> set (bm_databases b)" and ts: "(tn, raw0) \<in> set (dm_tables m)"
    using assms(2,3) by (simp_all add: map_of_SomeD)
  from assms(1) obtain d m' tn' raw' pn rp where
    d: "(d, m') \<in> set (dict_set (bm_databases b) db (m\<lparr>dm_tables := dict_set (dm_tables m) tn raw\<rparr>))"
    and t: "(tn', raw') \<in> set (dm_tables m')" and rp: "(pn, rp) \<in> set (rt_parts raw')"
    and p: "p = part_load d tn' pn rp"
    by (auto simp: listed_part_def set_table_def)
  have "\<exists>m2 raw2. (d, m2) \<in> set (bm_databases b) \<and> (tn', raw2) \<in> set (dm_tables m2) \<and>
          (pn, rp) \<in> set (rt_parts raw2)"
  proof (cases "(d, m') \<in> set (bm_databases b)")
    case True
    with t rp show ?thesis by blast
  next
    case False
    with d set_dict_set have "d = db" "m' = m\<lparr>dm_tables := dict_set (dm_tables m) tn raw\<rparr>"
      by fastforce+
    then have "(tn', raw') \<in> insert (tn, raw) (set (dm_tables m))"
      using t set_dict_set by fastforce
    with \<open>d = db\<close> dbs ts rp assms(4) show ?thesis by blast
  qed
  with p show ?thesis unfolding listed_part_def by blast
qed

text \<open>What stays true of the object: its name, and that it lists no new parts.\<close>

definition shrunk :: "backup_metadata \<Rightarrow> backup_metadata \<Rightarrow> bool" where
  "shrunk b0 b \<longleftrightarrow> bm_name b = bm_name b0 \<and> (\<forall>p. listed_part b p \<longrightarrow> listed_part b0 p)"

lemma shrunk_refl: "shrunk b b"
  by (simp add: shrunk_def)

lemma listed_part_databases: "bm_databases b = bm_databases b' \<Longrightarrow> listed_part b p = listed_part b' p"
  by (simp add: listed_part_def)

lemma set_delete_subset: "set (AList.delete k d) \<subseteq> set d"
  by (auto simp: AList.delete_eq)

lemma remove_part_shrunk: "shrunk b0 b \<Longrightarrow> shrunk b0 (snd (remove_part db tn p b))"
proof -
  assume b: "shrunk b0 b"
  have "listed_part (snd (remove_part db tn p b)) q \<Longrightarrow> listed_part b q" for q
    by (auto simp: remove_part_def dict_del_def uncount_part_def
        listed_part_databases [of "set_table _ _ _ _ _\<lparr>bm_size := _, bm_real_size := _\<rparr>" "set_table _ _ _ _ _"]
        split: option.splits sum.splits if_splits elim!: listed_part_set_table
        dest: subsetD [OF set_delete_subset])
  moreover have "bm_name (snd (remove_part db tn p b)) = bm_name b"
    by (simp add: remove_part_def uncount_part_def set_table_def split: option.splits sum.splits)
  ultimately show ?thesis using b by (auto simp: shrunk_def)
qed

lemma bm_remove_parts_shrunk: "keeps (shrunk b0) (bm_remove_parts t ps)"
proof (rule keepsI)
  fix b assume "shrunk b0 b"
  moreover have "keeps (shrunk b0) (for_act ps (\<lambda>p _. remove_part (tm_database t) (tm_name t) p) ())"
    by (intro keeps_for keepsI remove_part_shrunk)
  ultimately show "shrunk b0 (snd (bm_remove_parts t ps b))"
    by (auto simp: bm_remove_parts_def keeps_def split: sum.splits)
qed

lemma on_object_keeps:
  "keeps Q m \<Longrightarrow> keeps (\<lambda>s. P (fst s) \<and> Q (snd s)) (on_object m)"
  by (auto simp: keeps_def on_object_def split: prod.splits)

lemma set_backup_keeps:
  "(\<And>b. Q b \<Longrightarrow> Q (f b)) \<Longrightarrow> keeps (\<lambda>s. P (fst s) \<and> Q (snd s)) (set_backup f)"
  by (auto simp: keeps_def set_backup_def)

lemma shrunk_set_state [simp]:
  "shrunk b0 (bm_set_state s b) = shrunk b0 b" "shrunk b0 (bm_set_exception e b) = shrunk b0 b"
  by (simp_all add: shrunk_def bm_set_state_def bm_set_exception_def listed_part_def)

lemma tables_of_listed:
  assumes "bm_get_tables (Some db) b = Inr ts" "t \<in> set ts" "db \<noteq> []"
    and "p \<in> set (listed_parts X t)"
  shows "listed_part b p \<and> pm_database p = db \<and> pm_table p = tm_name t \<and> pm_name p \<notin> X"
proof -
  from tables_of_Inr [OF assms(1,3)] obtain m where m: "map_of (bm_databases b) db = Some m"
    and ts: "ts = map (\<lambda>(tn, raw). table_load db tn raw) (dm_tables m)" by blast
  with assms(2) obtain tn raw where t: "t = table_load db tn raw" and raw: "(tn, raw) \<in> set (dm_tables m)"
    by auto
  with assms(4) obtain pn rp where "(pn, rp) \<in> set (rt_parts raw)" "pn \<notin> X" "p = part_load db tn pn rp"
    by (auto simp: listed_parts_load)
  moreover from this m raw have "listed_part b p"
    unfolding listed_part_def by (blast dest: map_of_SomeD)
  ultimately show ?thesis using t by simp
qed

section \<open>Objects out of reach of a deletion\<close>

definition out_of_reach :: "'w layout \<Rightarrow> backup_metadata \<Rightarrow> dedup_references \<Rightarrow> string \<Rightarrow> bool" where
  "out_of_reach ly b refs k \<longleftrightarrow>
     object_key k = k \<and>
     k \<noteq> object_key (backup_metadata_path ly (bm_name b)) \<and>
     k \<noteq> object_key (backup_light_metadata_path ly (bm_name b)) \<and>
     (refs = [] \<longrightarrow> \<not> prefix (backup_key ly (bm_name b) @ ''/'') k) \<and>
     (\<forall>p. refs \<noteq> [] \<longrightarrow> listed_part b p \<longrightarrow> \<not> has_link p \<longrightarrow>
          pm_name p \<notin> table_references refs (pm_database p) (pm_table p) \<longrightarrow>
          (\<forall>esc. \<not> prefix (part_prefix ly (bm_name b) (pm_database p) (pm_table p)
                            (deduplicated_part_name p) esc) k))"

text \<open>A backup whose metadata the program can have written: see \<open>good_part\<close> for the names. A part
  that the backup stores itself is stored under its own name.\<close>

definition good_backup :: "string \<Rightarrow> backup_metadata \<Rightarrow> bool" where
  "good_backup name b \<longleftrightarrow> bm_name b = name \<and> plain_component name \<and> dicts_ok b \<and> named_databases b \<and>
     (\<forall>p. listed_part b p \<longrightarrow> good_part p \<and> plain_component (source_backup_name name p) \<and>
          (\<not> has_link p \<longrightarrow> rm_link_part_name (pm_raw p) = None))"

text \<open>What the content of a metadata object reads as, and which backup is stored under a name.\<close>

definition meta_reads :: "'w layout \<Rightarrow> (bool \<Rightarrow> 'o \<Rightarrow> string res) \<Rightarrow> 'o \<Rightarrow> backup_metadata \<Rightarrow> bool" where
  "meta_reads ly decode c b \<longleftrightarrow>
     (\<exists>e d. decode e c = Inr d \<and> bind_res (ly_loads ly d) (bm_load (ly_tc ly)) = Inr b)"

definition stored_as ::
  "'w layout \<Rightarrow> (string \<Rightarrow> 'o \<Rightarrow> 'w \<Rightarrow> bool) \<Rightarrow> (bool \<Rightarrow> 'o \<Rightarrow> string res) \<Rightarrow> string \<Rightarrow> backup_metadata
     \<Rightarrow> 'w \<Rightarrow> bool" where
  "stored_as ly intact decode name b w \<longleftrightarrow>
     (\<exists>c. intact (object_key (backup_metadata_path ly name)) c w \<and>
          (\<forall>b'. meta_reads ly decode c b' \<longrightarrow> b' = b))"

lemma meta_keys:
  assumes "plain_component n"
  shows "object_key (backup_metadata_path ly n) = backup_key ly n @ CHR ''/'' # BACKUP_META_FNAME"
    and "object_key (backup_light_metadata_path ly n) = backup_key ly n @ CHR ''/'' # BACKUP_LIGHT_META_FNAME"
  using get_backup_path_plain [OF assms, of ly]
    object_key_backup [OF assms, of ly "CHR ''/'' # BACKUP_META_FNAME"]
    object_key_backup [OF assms, of ly "CHR ''/'' # BACKUP_LIGHT_META_FNAME"]
  by (simp_all add: backup_metadata_path_def backup_light_metadata_path_def path_join_plain
      BACKUP_META_FNAME_def BACKUP_LIGHT_META_FNAME_def)

text \<open>What lies below the directory of one backup is out of reach of the deletion of another.\<close>

lemma out_of_reach_other:
  assumes "good_backup n b" "plain_component m" "m \<noteq> n" "prefix (backup_key ly m @ CHR ''/'' # r) k"
  shows "out_of_reach ly b refs k"
proof -
  have n: "bm_name b = n" "plain_component n" using assms(1) by (auto simp: good_backup_def)
  have no: "\<not> prefix (backup_key ly n @ CHR ''/'' # s) k" for s
    using backup_prefix_disjoint [OF assms(4) _ assms(2) n(2)] assms(3) by blast
  have "k \<noteq> backup_key ly n @ CHR ''/'' # s" for s
    using no [of s] by auto
  moreover have "object_key k = k" using object_key_below [OF assms(2,4)] .
  ultimately show ?thesis
    using no by (auto simp: out_of_reach_def n(1) meta_keys [OF n(2)] part_prefix_def)
qed

text \<open>An object of a part that is still referred to is out of reach of the deletion of the backup that
  stores it.\<close>

lemma out_of_reach_referenced:
  assumes "good_backup n b" "good_part p"
    and "deduplicated_part_name p \<in> table_references refs (pm_database p) (pm_table p)"
    and "prefix (part_prefix ly n (pm_database p) (pm_table p) (deduplicated_part_name p) esc) k"
  shows "out_of_reach ly b refs k"
proof -
  have n: "bm_name b = n" "plain_component n" using assms(1) by (auto simp: good_backup_def)
  have "refs \<noteq> []"
    using assms(3) by (auto simp: table_references_def dd_get_def option_or_def)
  obtain k' where "k = backup_key ly n @ ''/data/'' @ k'"
    using assms(4) by (auto simp: part_prefix_def prefix_def)
  then have k: "k \<noteq> backup_key ly n @ CHR ''/'' # BACKUP_META_FNAME"
    "k \<noteq> backup_key ly n @ CHR ''/'' # BACKUP_LIGHT_META_FNAME"
    by (simp_all add: BACKUP_META_FNAME_def BACKUP_LIGHT_META_FNAME_def)
  have "\<not> prefix (part_prefix ly n (pm_database q) (pm_table q) (deduplicated_part_name q) esc') k"
    if q: "listed_part b q" "\<not> has_link q"
      "pm_name q \<notin> table_references refs (pm_database q) (pm_table q)" for q esc'
  proof
    assume pre: "prefix (part_prefix ly n (pm_database q) (pm_table q) (deduplicated_part_name q) esc') k"
    have g: "good_part q" and "rm_link_part_name (pm_raw q) = None"
      using assms(1) q by (auto simp: good_backup_def)
    then have "deduplicated_part_name q = pm_name q"
      by (simp add: deduplicated_part_name_def)
    moreover from part_prefix_disjoint [OF pre assms(4) n(2) n(2)] g assms(2)
    have "pm_database q = pm_database p" "pm_table q = pm_table p"
      "deduplicated_part_name q = deduplicated_part_name p"
      by (auto simp: good_part_def)
    ultimately show False using q(3) assms(3) by simp
  qed
  moreover have "object_key k = k"
    using object_key_below [OF n(2), of ly _ k] assms(4) unfolding part_prefix_def by blast
  ultimately show ?thesis using k \<open>refs \<noteq> []\<close> by (auto simp: out_of_reach_def n(1) meta_keys [OF n(2)])
qed

locale retention = layout_store "cx_layout cx" intact decode idle
  for cx :: "'w backup_ctx" and intact :: "string \<Rightarrow> 'o \<Rightarrow> 'w \<Rightarrow> bool"
    and decode :: "bool \<Rightarrow> 'o \<Rightarrow> string res" and idle :: "'w \<Rightarrow> bool" +
  assumes lock_keeps: "keeps (intact k c) (cx_lock cx op)"
    and unlock_keeps: "keeps (intact k c) (cx_unlock cx)"
    and unfreeze_keeps: "keeps (intact k c) (cx_system_unfreeze cx n)"
    and now_keeps: "keeps (intact k c) (cx_now cx)"
begin

lemma delete_table_parts_keeps:
  assumes b0: "good_backup (bm_name b0) b0" and refs: "refs \<noteq> []"
    and k: "out_of_reach (cx_layout cx) b0 refs k"
    and t: "\<And>p. p \<in> set (listed_parts excluded t) \<Longrightarrow> listed_part b0 p \<and>
              pm_name p \<notin> table_references refs (pm_database p) (pm_table p)"
  shows "keeps (\<lambda>s. intact k c (fst s) \<and> shrunk b0 (snd s)) (delete_table_parts cx t excluded)"
    (is "keeps ?P _")
proof (rule keepsI)
  fix s assume s: "?P s"
  show "?P (snd (delete_table_parts cx t excluded s))"
  proof (cases "get_parts excluded t")
    case (Inl e)
    with s show ?thesis by (simp add: delete_table_parts_def)
  next
    case (Inr ps)
    let ?own = "filter (\<lambda>p. \<not> has_link p) ps"
    have "keeps (intact k c) (delete_data_parts (cx_layout cx) (snd s) ?own)"
    proof (rule delete_data_parts_keeps)
      fix p esc assume "p \<in> set ?own"
      then have p: "p \<in> set (listed_parts excluded t)" "\<not> has_link p"
        using get_parts_set [OF Inr] by auto
      have src: "source_backup_name (bm_name (snd s)) p = bm_name b0"
        using p(2) s by (auto simp: source_backup_name_def has_link_def shrunk_def split: option.splits)
      from t [OF p(1)] p(2) b0 k refs
      show "good_part p \<and> plain_component (source_backup_name (bm_name (snd s)) p) \<and>
          \<not> prefix (part_prefix (cx_layout cx) (source_backup_name (bm_name (snd s)) p) (pm_database p)
                (pm_table p) (deduplicated_part_name p) esc) k"
        unfolding src good_backup_def out_of_reach_def by blast
    qed
    then have "keeps ?P (bind_act (on_world (delete_data_parts (cx_layout cx) (snd s) ?own))
        (\<lambda>_. on_object (bm_remove_parts t ps)))"
      by (intro keeps_bind on_world_keeps on_object_keeps bm_remove_parts_shrunk)
    from keepsD [OF this, of s] s show ?thesis
      by (simp add: delete_table_parts_def Inr)
  qed
qed

lemma delete_database_parts_keeps:
  assumes "good_backup (bm_name b0) b0" "refs \<noteq> []" "out_of_reach (cx_layout cx) b0 refs k" "db \<noteq> []"
  shows "keeps (\<lambda>s. intact k c (fst s) \<and> shrunk b0 (snd s)) (delete_database_parts cx refs db)"
    (is "keeps ?P _")
proof (rule keepsI)
  fix s assume s: "?P s"
  show "?P (snd (delete_database_parts cx refs db s))"
  proof (cases "bm_get_tables (Some db) (snd s)")
    case (Inl e)
    with s show ?thesis by (simp add: delete_database_parts_def)
  next
    case (Inr ts)
    have "keeps ?P (for_act ts (\<lambda>t _. delete_table_parts cx t (table_references refs db (tm_name t))) ())"
    proof (intro keeps_for delete_table_parts_keeps [OF assms(1-3)])
      fix t p assume "t \<in> set ts" "p \<in> set (listed_parts (table_references refs db (tm_name t)) t)"
      from tables_of_listed [OF Inr this(1) assms(4) this(2)] s
      show "listed_part b0 p \<and> pm_name p \<notin> table_references refs (pm_database p) (pm_table p)"
        by (auto simp: shrunk_def)
    qed
    from keepsD [OF this, of s] s show ?thesis by (simp add: delete_database_parts_def Inr)
  qed
qed

lemma upload_current_keeps:
  assumes "out_of_reach (cx_layout cx) b0 refs k"
  shows "keeps (\<lambda>s. intact k c (fst s) \<and> shrunk b0 (snd s)) (upload_current cx)" (is "keeps ?P _")
proof (rule keepsI)
  fix s assume s: "?P s"
  then have "keeps (intact k c) (upload_backup_metadata (cx_layout cx) (snd s))"
    using assms by (intro upload_backup_metadata_keeps) (auto simp: out_of_reach_def shrunk_def)
  then have "keeps ?P (on_world (upload_backup_metadata (cx_layout cx) (snd s)))"
    by (rule on_world_keeps)
  from keepsD [OF this, of s] s show "?P (snd (upload_current cx s))" by (simp add: upload_current_def)
qed

lemma delete_body_keeps:
  assumes b0: "good_backup (bm_name b0) b0" and k: "out_of_reach (cx_layout cx) b0 refs k"
    and s: "intact k c (fst s)" "shrunk b0 (snd s)" "named_databases (snd s)"
  shows "intact k c (fst (snd (delete_body cx refs s))) \<and> shrunk b0 (snd (snd (delete_body cx refs s)))"
proof -
  let ?P = "\<lambda>s. intact k c (fst s) \<and> shrunk b0 (snd s)"
  have name: "bm_name (snd s) = bm_name b0" using s(2) by (simp add: shrunk_def)
  have unfreeze: "keeps ?P (on_world (cx_system_unfreeze cx n))" for n
    by (intro on_world_keeps unfreeze_keeps)
  show ?thesis
  proof (cases "refs = []")
    case True
    with k b0 have "keeps (intact k c) (delete_backup (cx_layout cx) (bm_name b0))"
      by (intro delete_backup_keeps) (auto simp: out_of_reach_def good_backup_def)
    then have "keeps ?P (bind_act (on_world (delete_backup (cx_layout cx) (bm_name b0))) (\<lambda>_.
        bind_act (on_world (cx_system_unfreeze cx (bm_name b0))) (\<lambda>_. ret (Some (bm_name b0), None))))"
      by (intro keeps_bind on_world_keeps unfreeze keeps_ret)
    from keepsD [OF this, of s] s(1,2) True show ?thesis by (simp add: delete_body_def name Let_def)
  next
    case False
    have "[] \<notin> set (bm_get_databases (snd s))"
      using s(3) by (simp add: bm_get_databases_def named_databases_def)
    then have "keeps ?P (for_act (bm_get_databases (snd s)) (\<lambda>db _. delete_database_parts cx refs db) ())"
      by (intro keeps_for delete_database_parts_keeps [OF b0 False k]) metis
    then have "keeps ?P (bind_act (for_act (bm_get_databases (snd s)) (\<lambda>db _. delete_database_parts cx refs db) ())
      (\<lambda>_. bind_act (on_world (cx_system_unfreeze cx (bm_name b0))) (\<lambda>_. ret r)))" for r
      by (intro keeps_bind unfreeze keeps_ret)
    from keepsD [OF this, of s] s(1,2) False show ?thesis by (simp add: delete_body_def name Let_def)
  qed
qed

lemma delete_guarded_keeps:
  assumes "good_backup (bm_name b0) b0" "out_of_reach (cx_layout cx) b0 refs k" "intact k c w"
  shows "intact k c (fst (snd (delete_guarded cx refs (w, bm_set_state DELETING b0))))"
proof -
  let ?P = "\<lambda>s. intact k c (fst s) \<and> shrunk b0 (snd s)"
  have "named_databases (bm_set_state DELETING b0)"
    using assms(1) by (simp add: good_backup_def named_databases_def bm_set_state_def)
  then have body: "?P (snd (delete_body cx refs (w, bm_set_state DELETING b0)))"
    using delete_body_keeps [OF assms(1,2), of c "(w, bm_set_state DELETING b0)"] assms(3)
    by (simp add: shrunk_refl)
  have set: "keeps ?P (set_backup f)" if "\<And>b. shrunk b0 b \<Longrightarrow> shrunk b0 (f b)" for f
    using that by (rule set_backup_keeps)
  have handler: "keeps ?P (bind_act (set_backup (\<lambda>b. bm_set_exception x (bm_set_state FAILED b)))
      (\<lambda>_. raise e))" for x e
    by (rule keeps_bind [OF set keeps_raise]) simp
  have final: "keeps ?P (bind_act (on_world (layout_wait (cx_layout cx) False)) (\<lambda>_.
        when_act (refs \<noteq> [])
          (bind_act (set_backup (bm_set_state PARTIALLY_DELETED)) (\<lambda>_. upload_current cx))))"
    by (rule keeps_bind [OF on_world_keeps [OF layout_wait_keeps] keeps_when],
        rule keeps_bind [OF set upload_current_keeps [OF assms(2)]]) simp
  have "?P (snd (delete_guarded cx refs (w, bm_set_state DELETING b0)))"
    unfolding delete_guarded_def
  proof (rule finally_act_snd [where P = ?P])
    show "?P (snd (try_act (delete_body cx refs) (\<lambda>_. True) (\<lambda>e.
        bind_act (set_backup (\<lambda>b. bm_set_exception (Some (cx_exception_text cx e)) (bm_set_state FAILED b)))
          (\<lambda>_. raise e)) (w, bm_set_state DELETING b0)))"
      by (rule try_act_snd [where P = ?P]) (rule body, rule handler)
  qed (rule final)
  then show ?thesis by simp
qed

lemma delete_one_intact:
  assumes "intact k c w"
    and "\<And>b0 w1. reload_backup (cx_layout cx) light False w = (Inr b0, w1) \<Longrightarrow>
           good_backup (bm_name b0) b0 \<and> out_of_reach (cx_layout cx) b0 refs k"
  shows "intact k c (snd (delete_one cx light refs w))"
  unfolding delete_one_def
proof (rule bind_act_snd)
  show "intact k c (snd (reload_backup (cx_layout cx) light False w))"
    using reload_backup_keeps assms(1) by (rule keepsD)
next
  fix b0 w1 assume r: "reload_backup (cx_layout cx) light False w = (Inr b0, w1)"
  then have "intact k c w1"
    using keepsD [OF reload_backup_keeps assms(1), of light False] by simp
  moreover have g: "good_backup (bm_name b0) b0" and o: "out_of_reach (cx_layout cx) b0 refs k"
    using assms(2) [OF r] by auto
  let ?b = "bm_set_state DELETING b0"
  have "keeps (intact k c) (upload_backup_metadata (cx_layout cx) ?b)"
    using o by (intro upload_backup_metadata_keeps) (simp_all add: out_of_reach_def bm_set_state_def)
  ultimately have up: "intact k c (snd (upload_backup_metadata (cx_layout cx) ?b w1))"
    by (rule keepsD [rotated])
  have "intact k c (snd (bind_act (upload_backup_metadata (cx_layout cx) ?b)
      (\<lambda>_ w. case delete_guarded cx refs (w, ?b) of (r, (w', b')) \<Rightarrow> (r, w')) w1))"
  proof (rule bind_act_snd [where P = "intact k c"])
    show "intact k c (snd (upload_backup_metadata (cx_layout cx) ?b w1))" by (rule up)
  next
    fix x s' assume "upload_backup_metadata (cx_layout cx) ?b w1 = (Inr x, s')"
    with up have "intact k c s'" by simp
    from delete_guarded_keeps [OF g o this]
    show "intact k c (snd (case delete_guarded cx refs (s', ?b) of (r, (w', b')) \<Rightarrow> (r, w')))"
      by (simp add: case_prod_beta)
  qed
  then show "intact k c (snd ((let b = ?b in bind_act (upload_backup_metadata (cx_layout cx) b)
      (\<lambda>_ w. case delete_guarded cx refs (w, b) of (r, (w', b')) \<Rightarrow> (r, w'))) w1))"
    by (simp only: Let_def)
qed

lemma load_metadata_reads:
  assumes "intact (object_key p) c w" "load_metadata (cx_layout cx) p e w = (Inr b, w')"
  shows "meta_reads (cx_layout cx) decode c b"
proof -
  from assms(2) obtain d w1 where "ld_download_data (ly_loader (cx_layout cx)) p e w = (Inr d, w1)"
    and "bind_res (ly_loads (cx_layout cx) d) (bm_load (ly_tc (cx_layout cx))) = Inr b"
    by (auto simp: load_metadata_def try_act_def bind_act_result
        split: prod.splits sum.splits if_splits)
  with download_data_decodes [OF assms(1)] show ?thesis
    unfolding meta_reads_def by blast
qed

lemma reload_stored:
  assumes "stored_as (cx_layout cx) intact decode (bm_name light) b w"
    and "reload_backup (cx_layout cx) light False w = (Inr b', w')"
  shows "b' = b"
proof -
  let ?p = "backup_metadata_path (cx_layout cx) (bm_name light)"
  obtain c where c: "intact (object_key ?p) c w" and u: "\<And>b'. meta_reads (cx_layout cx) decode c b' \<Longrightarrow> b' = b"
    using assms(1) by (auto simp: stored_as_def)
  obtain r w1 where l: "load_metadata (cx_layout cx) ?p True w = (r, w1)" by fastforce
  then have "intact (object_key ?p) c w1"
    using keepsD [OF load_metadata_keeps c, of ?p True] by simp
  with l c assms(2) have "meta_reads (cx_layout cx) decode c b'"
    by (auto simp: reload_backup_def load_or_retry_def metadata_path_def try_act_def
        split: sum.splits if_splits intro: load_metadata_reads)
  then show ?thesis by (rule u)
qed

lemma stored_as_keeps:
  "(\<And>k c. k = object_key (backup_metadata_path (cx_layout cx) n) \<Longrightarrow> intact k c w \<Longrightarrow> intact k c w') \<Longrightarrow>
   stored_as (cx_layout cx) intact decode n b w \<Longrightarrow> stored_as (cx_layout cx) intact decode n b w'"
  unfolding stored_as_def by blast

lemma reload_keeps_stored:
  "stored_as (cx_layout cx) intact decode n b w \<Longrightarrow>
   stored_as (cx_layout cx) intact decode n b (snd (reload_backup (cx_layout cx) light e w))"
  by (rule stored_as_keeps) (rule keepsD [OF reload_backup_keeps])

lemma collect_references:
  assumes "\<And>l. l \<in> set rs \<Longrightarrow> stored_as (cx_layout cx) intact decode (bm_name l) (full (bm_name l)) w"
    and "\<And>l. l \<in> set rs \<Longrightarrow> good_backup (bm_name l) (full (bm_name l))"
    and "for_act rs (collect_references_step (cx_layout cx) names) refs0 w = (Inr refs, w')"
  shows "references refs bn db tbl = references refs0 bn db tbl \<union> deduplicated_part_name `
           {p. \<exists>l \<in> set rs. listed_part (full (bm_name l)) p \<and> refers_to names bn db tbl p}"
  using assms
proof (induction rs arbitrary: refs0 w)
  case (Cons l rs)
  from Cons.prems(3) obtain refs1 w2 where c0: "collect_references_step (cx_layout cx) names l refs0 w = (Inr refs1, w2)"
    and f: "for_act rs (collect_references_step (cx_layout cx) names) refs1 w2 = (Inr refs, w')"
    by (auto simp: bind_act_result)
  from c0 obtain b where r: "reload_backup (cx_layout cx) l False w = (Inr b, w2)"
    and c: "collect_backup_references names b refs0 = Inr refs1"
    by (auto simp: bind_act_result collect_references_step_def)
  have b: "b = full (bm_name l)"
    by (rule reload_stored [OF Cons.prems(1) r]) simp
  have g: "dicts_ok b" "named_databases b"
    using Cons.prems(2) [of l] by (simp_all add: b good_backup_def)
  have "stored_as (cx_layout cx) intact decode (bm_name l') (full (bm_name l')) w2" if "l' \<in> set rs" for l'
    using reload_keeps_stored [OF Cons.prems(1), of l' l False] that r by simp
  from Cons.IH [OF this Cons.prems(2) f] collect_backup_references_Inr [OF g c, of bn db tbl]
  show ?case by (auto simp: b)
qed simp

lemma delete_loop_intact:
  assumes g: "\<And>d acc r s. snd (g d acc r s) = s"
    and "distinct (map bm_name ds)"
    and "\<And>d. d \<in> set ds \<Longrightarrow> stored_as (cx_layout cx) intact decode (bm_name d) (full (bm_name d)) w"
    and "\<And>d. d \<in> set ds \<Longrightarrow> good_backup (bm_name d) (full (bm_name d))"
    and "\<And>d. d \<in> set ds \<Longrightarrow> out_of_reach (cx_layout cx) (full (bm_name d)) (refs (bm_name d)) k"
    and "intact k c w"
  shows "intact k c (snd (for_act ds (\<lambda>d acc. bind_act (delete_one cx d (refs (bm_name d))) (g d acc)) acc w))"
  using assms(2-)
proof (induction ds arbitrary: acc w)
  case (Cons d ds)
  have n: "plain_component (bm_name d)" using Cons.prems(3) [of d] by (simp add: good_backup_def)
  have one: "intact k' c' (snd (delete_one cx d (refs (bm_name d)) w))"
    if "intact k' c' w" "out_of_reach (cx_layout cx) (full (bm_name d)) (refs (bm_name d)) k'" for k' c'
  proof (rule delete_one_intact [OF that(1)])
    fix b0 w1 assume r: "reload_backup (cx_layout cx) d False w = (Inr b0, w1)"
    have "b0 = full (bm_name d)" by (rule reload_stored [OF Cons.prems(2) r]) simp
    then show "good_backup (bm_name b0) b0 \<and> out_of_reach (cx_layout cx) b0 (refs (bm_name d)) k'"
      using that(2) Cons.prems(3) [of d] by (simp add: good_backup_def)
  qed
  let ?w = "snd (delete_one cx d (refs (bm_name d)) w)"
  have stored: "stored_as (cx_layout cx) intact decode (bm_name d') (full (bm_name d')) ?w"
    if d': "d' \<in> set ds" for d'
  proof (rule stored_as_keeps)
    fix k' c' assume k': "k' = object_key (backup_metadata_path (cx_layout cx) (bm_name d'))" "intact k' c' w"
    have "bm_name d \<notin> bm_name ` set ds" using Cons.prems(1) by simp
    then have "bm_name d' \<noteq> bm_name d" using d' by (metis imageI)
    moreover have "plain_component (bm_name d')"
      using Cons.prems(3) [of d'] d' by (simp add: good_backup_def)
    ultimately have "out_of_reach (cx_layout cx) (full (bm_name d)) (refs (bm_name d)) k'"
      using Cons.prems(3) [of d] k'(1)
      by (intro out_of_reach_other [where m = "bm_name d'" and r = BACKUP_META_FNAME])
        (simp_all add: meta_keys)
    with k'(2) show "intact k' c' ?w" by (rule one)
  qed (use Cons.prems(2) d' in simp)
  have k: "intact k c ?w" using Cons.prems(4) [of d] Cons.prems(5) by (intro one) simp_all
  show ?case
  proof (cases "delete_one cx d (refs (bm_name d)) w")
    case (Pair r w1)
    show ?thesis
    proof (cases r)
      case (Inl e)
      with Pair k show ?thesis by (simp add: bind_act_def)
    next
      case (Inr x)
      obtain r2 where g2: "g d acc x w1 = (r2, w1)" using g [of d acc x w1] by (metis prod.collapse)
      show ?thesis
      proof (cases r2)
        case (Inl e)
        with Pair Inr k g2 show ?thesis by (simp add: bind_act_def)
      next
        case (Inr acc')
        have "intact k c (snd (for_act ds (\<lambda>d acc. bind_act (delete_one cx d (refs (bm_name d))) (g d acc)) acc' w1))"
          using Cons.prems(1,3,4) stored k Pair by (intro Cons.IH) simp_all
        with Pair \<open>r = Inr x\<close> Inr g2 show ?thesis by (simp add: bind_act_Inr)
      qed
    qed
  qed
qed simp

lemma collect_dedup_references_keeps:
  "keeps (intact k c) (collect_dedup_references (cx_layout cx) retained deleting)"
  unfolding collect_dedup_references_def collect_references_step_def
  by (intro keeps_rules reload_backup_keeps)

lemma delete_batch_frame:
  assumes g: "\<And>d acc r s. snd (g d acc r s) = s"
    and dist: "distinct (map bm_name deleting)"
    and stored: "\<And>l. l \<in> set deleting \<Longrightarrow>
         stored_as (cx_layout cx) intact decode (bm_name l) (full (bm_name l)) w"
    and good: "\<And>l. l \<in> set deleting \<Longrightarrow> good_backup (bm_name l) (full (bm_name l))"
    and intact: "intact k c w"
    and reach: "\<And>refs w1 d. collect_dedup_references (cx_layout cx) retained deleting w = (Inr refs, w1) \<Longrightarrow>
         d \<in> set deleting \<Longrightarrow> out_of_reach (cx_layout cx) (full (bm_name d)) (dd_get refs (bm_name d) []) k"
  shows "intact k c (snd (bind_act (collect_dedup_references (cx_layout cx) retained deleting) (\<lambda>refs.
           for_act deleting (\<lambda>d acc. bind_act (delete_one cx d (dd_get refs (bm_name d) [])) (g d acc)) acc0) w))"
proof (rule bind_act_snd [where P = "intact k c"])
  show "intact k c (snd (collect_dedup_references (cx_layout cx) retained deleting w))"
    using collect_dedup_references_keeps intact by (rule keepsD)
  fix refs w1 assume refs: "collect_dedup_references (cx_layout cx) retained deleting w = (Inr refs, w1)"
  have keep1: "intact k' c' w \<Longrightarrow> intact k' c' w1" for k' c'
    using keepsD [OF collect_dedup_references_keeps, of k' c' w] refs by (metis snd_conv)
  show "intact k c (snd (for_act deleting (\<lambda>d acc.
      bind_act (delete_one cx d (dd_get refs (bm_name d) [])) (g d acc)) acc0 w1))"
  proof (rule delete_loop_intact [OF g dist, where refs = "\<lambda>n. dd_get refs n []"])
    fix d assume d: "d \<in> set deleting"
    show "stored_as (cx_layout cx) intact decode (bm_name d) (full (bm_name d)) w1"
    proof (rule stored_as_keeps)
      show "stored_as (cx_layout cx) intact decode (bm_name d) (full (bm_name d)) w"
        by (rule stored [OF d])
    qed (rule keep1)
    show "good_backup (bm_name d) (full (bm_name d))" by (rule good [OF d])
    show "out_of_reach (cx_layout cx) (full (bm_name d)) (dd_get refs (bm_name d) []) k"
      by (rule reach [OF refs d])
  qed (rule keep1 [OF intact])
qed

text \<open>Two kinds of objects are out of reach: those of the parts of retained backups, and all objects
  of the backups that are not deleted.\<close>

lemma retained_part_out_of_reach:
  assumes dist: "bm_name ` set retained \<inter> bm_name ` set deleting = {}"
    and stored: "\<And>l. l \<in> set retained \<Longrightarrow>
         stored_as (cx_layout cx) intact decode (bm_name l) (full (bm_name l)) w"
    and good: "\<And>l. l \<in> set retained \<union> set deleting \<Longrightarrow> good_backup (bm_name l) (full (bm_name l))"
    and r: "r \<in> set retained" and p: "listed_part (full (bm_name r)) p"
    and k: "prefix (part_prefix (cx_layout cx) (source_backup_name (bm_name r) p) (pm_database p) (pm_table p)
              (deduplicated_part_name p) esc) k"
    and refs: "collect_dedup_references (cx_layout cx) retained deleting w = (Inr refs, w1)"
    and d: "d \<in> set deleting"
  shows "out_of_reach (cx_layout cx) (full (bm_name d)) (dd_get refs (bm_name d) []) k"
proof -
  have gp: "good_part p" "plain_component (source_backup_name (bm_name r) p)"
    using good [of r] r p by (auto simp: good_backup_def)
  have gd: "good_backup (bm_name d) (full (bm_name d))" using good d by simp
  show ?thesis
  proof (cases "source_backup_name (bm_name r) p = bm_name d")
    case True
    then have link: "part_link p = Some (bm_name d)" "bm_name d \<noteq> []"
      using dist r d gd
      by (auto simp: source_backup_name_def good_backup_def split: option.splits)
    have to: "refers_to (bm_name ` set deleting) (bm_name d) (pm_database p) (pm_table p) p"
      using link d by (simp add: refers_to_def)
    have "references refs (bm_name d) (pm_database p) (pm_table p) =
        references [] (bm_name d) (pm_database p) (pm_table p) \<union> deduplicated_part_name `
         {q. \<exists>l \<in> set retained. listed_part (full (bm_name l)) q \<and>
             refers_to (bm_name ` set deleting) (bm_name d) (pm_database p) (pm_table p) q}"
    proof (rule collect_references [where full = full])
      show "for_act retained (collect_references_step (cx_layout cx) (bm_name ` set deleting)) [] w = (Inr refs, w1)"
        using refs unfolding collect_dedup_references_def .
    qed (simp_all add: stored good)
    then have "deduplicated_part_name p \<in> references refs (bm_name d) (pm_database p) (pm_table p)"
      using r p to by blast
    then show ?thesis
      using k True by (intro out_of_reach_referenced [OF gd gp(1)]) (auto simp: references_def)
  next
    case False
    then show ?thesis
      using out_of_reach_other [OF gd gp(2)] k by (auto simp: part_prefix_def)
  qed
qed

end

section \<open>The retention policy\<close>

definition is_created :: "backup_metadata \<Rightarrow> bool" where
  "is_created b \<longleftrightarrow> bm_state b = CREATED"

definition younger :: "int option \<Rightarrow> backup_metadata \<Rightarrow> bool" where
  "younger limit b \<longleftrightarrow>
     (case (limit, bm_start_time b) of (Some l, Some t) \<Rightarrow> l \<le> instant t | _ \<Rightarrow> False)"

text \<open>The backup at a position is kept when fewer than \<open>c\<close> newer backups were created successfully,
  or when it is young enough.\<close>

definition kept :: "int option \<Rightarrow> int \<Rightarrow> backup_metadata list \<Rightarrow> nat \<Rightarrow> bool" where
  "kept limit c bs i \<longleftrightarrow>
     int (length (filter is_created (take i bs))) < c \<or> younger limit (bs ! i)"

lemma kept_Cons:
  "kept limit c (b # bs) 0 \<longleftrightarrow> 0 < c \<or> younger limit b"
  "kept limit c (b # bs) (Suc i) \<longleftrightarrow> kept limit (if 0 < c \<and> is_created b then c - 1 else c) bs i"
  by (auto simp: kept_def)

lemma retain_fold:
  assumes "\<And>b. b \<in> set bs \<Longrightarrow> bm_start_time b \<noteq> None"
  shows "\<exists>c'. fold_res (retain_step limit) bs (Some c, rs, ds) =
           Inr (c', rs @ nths bs {i. kept limit c bs i}, ds @ nths bs {i. \<not> kept limit c bs i})"
  using assms
proof (induction bs arbitrary: c rs ds)
  case (Cons b bs)
  let ?c = "if 0 < c \<and> is_created b then c - 1 else c"
  obtain t where t: "bm_start_time b = Some t" using Cons.prems [of b] by auto
  let ?K = "0 < c \<or> younger limit b"
  let ?rs = "if ?K then rs @ [b] else rs" and ?ds = "if ?K then ds else ds @ [b]"
  have "retain_step limit b (Some c, rs, ds) = Inr (Some ?c, ?rs, ?ds)"
    by (auto simp: retain_step_def is_created_def younger_def t split: option.splits)
  moreover have "\<exists>c'. fold_res (retain_step limit) bs (Some ?c, ?rs, ?ds) =
      Inr (c', ?rs @ nths bs {i. kept limit ?c bs i}, ?ds @ nths bs {i. \<not> kept limit ?c bs i})"
    using Cons.prems by (intro Cons.IH) simp
  ultimately show ?case
    by (auto simp: nths_Cons kept_Cons)
qed simp

text \<open>C9. The policy of \<open>purge\<close>, on the backups from the newest to the oldest: a backup is retained
  if and only if fewer than \<open>retain_count\<close> newer ones were created successfully or it started
  after the time limit; every other backup is to be deleted, and the order is kept.\<close>

theorem purge_policy:
  assumes "\<And>b. b \<in> set bs \<Longrightarrow> bm_start_time b \<noteq> None"
  shows "\<exists>c'. fold_res (retain_step limit) bs (Some c, [], []) =
           Inr (c', nths bs {i. kept limit c bs i}, nths bs {i. \<not> kept limit c bs i})"
  using retain_fold [OF assms, of bs limit c "[]" "[]"] by simp

theorem purge_policy_witness:
  "\<exists>c'. fold_res (retain_step (Some 5)) [sample_backup [] 0, bm_set_state CREATED (sample_backup [] 0), sample_backup [] 0]
      (Some 1, [], []) = Inr (c', [sample_backup [] 0, bm_set_state CREATED (sample_backup [] 0)], [sample_backup [] 0])"
proof -
  let ?bs = "[sample_backup [] 0, bm_set_state CREATED (sample_backup [] 0), sample_backup [] 0]"
  have "bm_start_time b \<noteq> None" if "b \<in> set ?bs" for b
    using that by (auto simp: sample_simps bm_set_state_def)
  from purge_policy [OF this, of ?bs "Some 5" 1] show ?thesis
    by (simp add: nths_Cons kept_def is_created_def younger_def sample_simps bm_set_state_def)
qed

lemma retain_partition:
  assumes "fold_res (retain_step limit) bs (cnt, rs, ds) = Inr (cnt', rs', ds')"
  shows "\<exists>ps qs. rs' = rs @ ps \<and> ds' = ds @ qs \<and> mset (ps @ qs) = mset bs"
  using assms
proof (induction bs arbitrary: cnt rs ds)
  case (Cons b bs)
  from Cons.prems obtain cnt1 rs1 ds1 where 1: "retain_step limit b (cnt, rs, ds) = Inr (cnt1, rs1, ds1)"
    and 2: "fold_res (retain_step limit) bs (cnt1, rs1, ds1) = Inr (cnt', rs', ds')" by auto
  from 1 have "(rs1 = rs @ [b] \<and> ds1 = ds) \<or> (rs1 = rs \<and> ds1 = ds @ [b])"
    by (auto simp: retain_step_def split: option.splits if_splits)
  moreover obtain ps qs where "rs' = rs1 @ ps" "ds' = ds1 @ qs" "mset (ps @ qs) = mset bs"
    using Cons.IH [OF 2] by auto
  ultimately show ?case
    by (elim disjE) (rule exI [of _ "b # ps"], rule exI [of _ qs], simp,
      rule exI [of _ ps], rule exI [of _ "b # qs"], simp)
qed simp

lemma retain_partition_names:
  assumes "fold_res (retain_step limit) bs (cnt, [], []) = Inr (cnt', retained, deleting)"
    and "distinct (map bm_name bs)"
  shows "set retained \<union> set deleting = set bs" "distinct (map bm_name deleting)"
    "bm_name ` set retained \<inter> bm_name ` set deleting = {}"
proof -
  have m: "mset (retained @ deleting) = mset bs"
    using retain_partition [OF assms(1)] by auto
  then show "set retained \<union> set deleting = set bs"
    by (metis mset_eq_setD set_append)
  from m have "mset (map bm_name (retained @ deleting)) = mset (map bm_name bs)"
    by (metis mset_map)
  with assms(2) have "distinct (map bm_name (retained @ deleting))"
    using mset_eq_imp_distinct_iff by blast
  then show "distinct (map bm_name deleting)" "bm_name ` set retained \<inter> bm_name ` set deleting = {}"
    by auto
qed

lemma purge_scan:
  assumes "bm_name ` set bs \<subseteq> set names"
  shows "for_act bs (purge_step cx names limit) vars w = (fold_res (retain_step limit) bs vars, w)"
  using assms
proof (induction bs arbitrary: vars)
  case (Cons b bs)
  then show ?case
    by (cases "retain_step limit b vars") (auto simp: purge_step_def bind_act_def)
qed simp

lemma purge_locked_eq:
  assumes "get_backups (cx_layout cx) True w = (Inr bs, w1)" "bm_name ` set bs \<subseteq> set backup_names"
    and "fold_res (retain_step limit) bs (cx_retain_count cx, [], []) = Inr (cnt, retained, deleting)"
  shows "purge_locked cx backup_names limit w = delete_batch cx retained deleting w1"
proof -
  have "for_act bs (purge_step cx backup_names limit) (cx_retain_count cx, [], []) w1
      = (Inr (cnt, retained, deleting), w1)"
    by (simp only: purge_scan [OF assms(2)] assms(3))
  then show ?thesis
    unfolding purge_locked_def by (simp add: bind_act_Inr assms(1))
qed

context retention
begin

lemma delete_batch_keeps:
  assumes w: "keeps (intact k c) (get_backups (cx_layout cx) True)"
    and bs: "get_backups (cx_layout cx) True w = (Inr bs, w1)"
    and parts: "set retained \<union> set deleting = set bs" "distinct (map bm_name deleting)"
      "bm_name ` set retained \<inter> bm_name ` set deleting = {}"
    and stored: "\<And>b. b \<in> set bs \<Longrightarrow>
      stored_as (cx_layout cx) intact decode (bm_name b) (full (bm_name b)) w \<and>
      good_backup (bm_name b) (full (bm_name b))"
    and part: "r \<in> set retained" "listed_part (full (bm_name r)) p"
    and obj: "prefix (part_prefix (cx_layout cx) (source_backup_name (bm_name r) p) (pm_database p) (pm_table p)
                (deduplicated_part_name p) esc) k" "intact k c w"
    and g: "\<And>d acc r s. snd (g d acc r s) = s"
  shows "intact k c (snd (bind_act (collect_dedup_references (cx_layout cx) retained deleting) (\<lambda>refs.
           for_act deleting (\<lambda>d acc. bind_act (delete_one cx d (dd_get refs (bm_name d) [])) (g d acc)) acc0) w1))"
proof -
  have keep: "intact k' c' w \<Longrightarrow> intact k' c' w1" for k' c'
    using keepsD [OF get_backups_keeps, of k' c' w True] bs by (metis snd_conv)
  have good: "good_backup (bm_name l) (full (bm_name l))" if "l \<in> set bs" for l
    using stored [OF that] by simp
  have st: "stored_as (cx_layout cx) intact decode (bm_name l) (full (bm_name l)) w1" if "l \<in> set bs" for l
  proof (rule stored_as_keeps)
    show "stored_as (cx_layout cx) intact decode (bm_name l) (full (bm_name l)) w"
      using stored [OF that] by simp
  qed (rule keep)
  show ?thesis
  proof (rule delete_batch_frame [OF g parts(2), where full = full])
    show "intact k c w1" using obj(2) by (rule keep)
    fix refs w2 d
    assume refs: "collect_dedup_references (cx_layout cx) retained deleting w1 = (Inr refs, w2)"
      and d: "d \<in> set deleting"
    show "out_of_reach (cx_layout cx) (full (bm_name d)) (dd_get refs (bm_name d) []) k"
    proof (rule retained_part_out_of_reach [where full = full and retained = retained and
          deleting = deleting and w = w1, OF parts(3) _ _ part obj(1) refs d])
      fix l assume "l \<in> set retained \<union> set deleting"
      then show "good_backup (bm_name l) (full (bm_name l))" unfolding parts(1) by (rule good)
    next
      fix l assume "l \<in> set retained"
      then have "l \<in> set bs" using parts(1) by blast
      then show "stored_as (cx_layout cx) intact decode (bm_name l) (full (bm_name l)) w1" by (rule st)
    qed
  next
    fix l assume "l \<in> set deleting"
    then have "l \<in> set bs" using parts(1) by blast
    then show "stored_as (cx_layout cx) intact decode (bm_name l) (full (bm_name l)) w1"
      "good_backup (bm_name l) (full (bm_name l))" by (rule st, intro good)
  qed
qed

lemma get_backups_keep: "keeps (intact k c) (get_backups (cx_layout cx) e)"
  by (rule get_backups_keeps)

end

end
