(* ===== verification/MemoryBackup.thy ===== *)
theory MemoryBackup
  imports Bucket RetentionSafety
begin

text \<open>
  Layout and backup context on the in-memory bucket, with the interpretations of their interfaces. The
  lemmas evaluate the loader of an executor without workers, so that an operation of the layout can be
  followed on a concrete bucket.
\<close>

section \<open>The layout and the context\<close>

definition memory_fs :: "world cluster file_system" where
  "memory_fs =
     \<lparr>fs_read_bytes = \<lambda>p. on_world (lf_read memory_files p),
      fs_write_text = \<lambda>p d s. (Inr (), ((fst s)\<lparr>wd_files := dict_set (wd_files (fst s)) p d\<rparr>, snd s)),
      fs_scan = \<lambda>d excluded. on_world (lf_scan memory_files d excluded),
      fs_makedirs = \<lambda>p. ret (), fs_exists = \<lambda>p s. (Inr (map_of (wd_files (fst s)) p \<noteq> None), s),
      fs_open_write = \<lambda>p. on_world (lf_create memory_files p)\<rparr>"

definition memory_layout ::
  "world executor \<Rightarrow> time_codec \<Rightarrow> (backup_doc \<Rightarrow> string) \<Rightarrow> (string \<Rightarrow> backup_doc res) \<Rightarrow> string \<Rightarrow> world cluster layout" where
  "memory_layout xe tc dumps loads root =
     \<lparr>ly_loader = storage_loader_of xe, ly_fs = memory_fs, ly_tc = tc, ly_dumps = dumps, ly_loads = loads,
      ly_path_root = root, ly_access_control_path = ''/acl'', ly_metadata_path = ''/metadata'',
      ly_named_collections_path = ''/nc'', ly_workload_path = ''/wl'',
      ly_encryption_chunk_size = 8 * int MiB, ly_encryption_metadata_size = 40\<rparr>"

definition memory_dedup :: "'w dedup_ctl" where
  "memory_dedup =
     \<lparr>dc_create_deduplication_table = ret (), dc_insert_deduplication_info = \<lambda>rows. ret (),
      dc_get_deduplication_info = \<lambda>db t ps. ret []\<rparr>"

definition memory_ctx :: "world cluster layout \<Rightarrow> int option \<Rightarrow> int option \<Rightarrow> world cluster backup_ctx" where
  "memory_ctx ly retain_time retain_count =
     \<lparr>cx_layout = ly, cx_dedup = memory_dedup, cx_now = \<lambda>s. (Inr (wd_time (fst s)), s),
      cx_lock = \<lambda>op s. (Inr (), ((fst s)\<lparr>wd_lock := True\<rparr>, snd s)),
      cx_unlock = \<lambda>s. (Inr (), ((fst s)\<lparr>wd_lock := False\<rparr>, snd s)),
      cx_system_unfreeze = \<lambda>n. ret (), cx_exception_text = \<lambda>e. '''', cx_retain_time = retain_time,
      cx_retain_count = retain_count, cx_min_interval = None\<rparr>"

abbreviation mem_exec where
  "mem_exec chunk key tf order workers on_part progress completion \<equiv>
     memory_executor chunk key tf order workers on_part progress completion"

interpretation memory_layout: layout_store
    "memory_layout (mem_exec chunk key tf order workers on_part progress completion) tc dumps loads root"
    "pool_store.intact (mem_exec chunk key tf order workers on_part progress completion) object_of"
    "pool_store.decode (mem_exec chunk key tf order workers on_part progress completion) (memory_crypto key)"
    "pool_store.idle (mem_exec chunk key tf order workers on_part progress completion)"
  for chunk key tf order workers on_part progress completion tc dumps loads root
  unfolding memory_layout_def layout.select_convs layout_store_def
  by (rule memory_pool.loader.storage_loader_axioms)

interpretation memory_ctx: retention
    "memory_ctx (memory_layout (mem_exec chunk key tf order workers on_part progress completion) tc dumps loads root)
       retain_time retain_count"
    "pool_store.intact (mem_exec chunk key tf order workers on_part progress completion) object_of"
    "pool_store.decode (mem_exec chunk key tf order workers on_part progress completion) (memory_crypto key)"
    "pool_store.idle (mem_exec chunk key tf order workers on_part progress completion)"
  for chunk key tf order workers on_part progress completion tc dumps loads root retain_time retain_count
proof -
  let ?xe = "mem_exec chunk key tf order workers on_part progress completion"
  let ?ly = "memory_layout ?xe tc dumps loads root"
  have ly: "cx_layout (memory_ctx ?ly retain_time retain_count) = ?ly" by (simp add: memory_ctx_def)
  have lock: "pool_store.intact ?xe object_of k c (w\<lparr>wd_lock := x\<rparr>, p) = pool_store.intact ?xe object_of k c (w, p)"
    for k c w x p
    by (simp add: memory_pool.intact_def object_of_def)
  show "retention (memory_ctx ?ly retain_time retain_count) (pool_store.intact ?xe object_of)
      (pool_store.decode ?xe (memory_crypto key)) (pool_store.idle ?xe)"
    by (intro retention.intro retention_axioms.intro)
      (simp_all add: ly memory_layout.layout_store_axioms,
       simp_all add: memory_ctx_def keeps_def lock)
qed

section \<open>Evaluating the loader\<close>

lemma engine_call_ok: "m s = (Inr x, s') \<Longrightarrow> engine_call en m s = (Inr x, s')"
  by (simp add: engine_call_def max_attempts_def s3_exception_wrapper_def try_act_def retry_act.simps numeral_eq_Suc)

lemma mem_list_dir:
  "engine_list_dir memory_engine p recursive absolute (w, e) =
     (Inr (page_entries (dir_prefix p) absolute (page_of (dir_prefix p) (\<not> recursive) w)), (w, e))"
  unfolding engine_list_dir_def
  by (rule engine_call_ok)
    (simp add: bind_act_Inr on_world_def memory_engine_def memory_client_def)

lemma mem_path_exists:
  "engine_path_exists memory_engine p False (w, e) = (Inr (object_of p w \<noteq> None), (w, e))"
  unfolding engine_path_exists_def
  by (rule engine_call_ok)
    (cases "object_of p w"; simp add: bind_act_def try_act_def on_world_def memory_engine_def memory_client_def is_not_found_def)

lemma mem_create_download:
  assumes "object_of (object_key p) w = Some d"
  shows "engine_create_multipart_download memory_engine p (w, e) =
     (Inr (object_key p @ ''_t''), (w, e\<lparr>eo_downloads := dict_set (eo_downloads e) (object_key p @ ''_t'')
        \<lparr>md_path = object_key p, md_range_start = 0, md_total_size = int (length d), md_etag = d\<rparr>\<rparr>))"
  unfolding engine_create_multipart_download_def Let_def
  by (rule engine_call_ok)
    (use assms in \<open>simp add: bind_act_def on_world_def memory_engine_def memory_client_def change_object_def ret_def\<close>)

lemma mem_first_part:
  assumes "object_of k w = Some d" "d \<noteq> []" "length d \<le> n"
    and "map_of (eo_downloads e) i = Some \<lparr>md_path = k, md_range_start = 0, md_total_size = int (length d), md_etag = d\<rparr>"
  shows "engine_download_part memory_engine i (Some n) (w, e) =
     (Inr (Some d), (w, e\<lparr>eo_downloads := dict_set (eo_downloads e) i
        \<lparr>md_path = k, md_range_start = int (length d), md_total_size = int (length d), md_etag = d\<rparr>\<rparr>))"
  unfolding engine_download_part_def Let_def
  by (rule engine_call_ok)
    (use assms in \<open>cases "n = 0"; simp add: bind_act_def on_world_def memory_engine_def memory_client_def read_object_def
      dict_get_def get_range_def accept_etag_def store_download_def change_object_def ret_def non_empty_def min_def\<close>)

lemma mem_last_part:
  assumes "map_of (eo_downloads e) i = Some m" "md_total_size m \<le> md_range_start m"
  shows "engine_download_part memory_engine i (Some n) (w, e) = (Inr None, (w, e))"
  unfolding engine_download_part_def Let_def
  by (rule engine_call_ok)
    (use assms in \<open>simp add: bind_act_def read_object_def dict_get_def ret_def\<close>)

lemma mem_complete_download:
  assumes "map_of (eo_downloads e) i = Some m"
  shows "\<exists>e'. engine_complete_multipart_download memory_engine i (w, e) = (Inr (), (w, e'))"
proof -
  have "i \<in> fst ` set (eo_downloads e)" using map_of_SomeD [OF assms] by (rule rev_image_eqI) simp
  then show ?thesis
    unfolding engine_complete_multipart_download_def
    by (intro exI, intro engine_call_ok) (simp add: bind_act_def read_object_def dict_del_def change_object_def)
qed

lemma mem_download_storage:
  assumes "object_of (object_key p) w = Some d" "d \<noteq> []" "length d \<le> Suc chunk"
  shows "download_storage_stage (memory_env chunk key tf order) p w = (Inr [d], w)"
proof -
  let ?i = "object_key p @ ''_t''"
  let ?m = "\<lambda>r. \<lparr>md_path = object_key p, md_range_start = r, md_total_size = int (length d), md_etag = d\<rparr>"
  let ?e = "\<lambda>r. new_engine\<lparr>eo_downloads := [(?i, ?m r)]\<rparr>"
  have 1: "engine_create_multipart_download memory_engine p (w, new_engine) = (Inr ?i, (w, ?e 0))"
    using mem_create_download [OF assms(1)] by (simp add: new_engine_def)
  have 2: "engine_download_part memory_engine ?i (Some (Suc chunk)) (w, ?e 0) = (Inr (Some d), (w, ?e (int (length d))))"
    by (subst mem_first_part [OF assms]) (simp_all add: new_engine_def)
  have 3: "engine_download_part memory_engine ?i (Some (Suc chunk)) (w, ?e (int (length d))) = (Inr None, (w, ?e (int (length d))))"
    by (rule mem_last_part [where m = "?m (int (length d))"]) simp_all
  have "download_loop memory_engine ?i (Suc chunk) (w, ?e (int (length d))) = Some (Inr [], (w, ?e (int (length d))))"
    by (subst download_loop.simps) (simp add: 3 non_empty_def)
  then have "download_loop memory_engine ?i (Suc chunk) (w, ?e 0) = Some (Inr [d], (w, ?e (int (length d))))"
    using assms(2) by (subst download_loop.simps) (simp add: 2 non_empty_def)
  then have 4: "download_parts memory_engine ?i (Suc chunk) (w, ?e 0) = (Inr [d], (w, ?e (int (length d))))"
    by (simp add: download_parts_def)
  obtain e' where 5: "engine_complete_multipart_download memory_engine ?i (w, ?e (int (length d))) = (Inr (), (w, e'))"
    using mem_complete_download [of "?e (int (length d))" ?i] by fastforce
  show ?thesis
    unfolding download_storage_stage_def with_object_def
    by (simp add: memory_env_def memory_config_def bind_act_Inr 1 4 5)
qed

text \<open>A small upload with encryption, which is none without a key.\<close>

lemma mem_crypto: "pipeline_crypto (memory_env chunk None tf order) = Inr noop_encryption"
  by (simp add: pipeline_crypto_def memory_env_def memory_config_def get_encryption_def)

lemma mem_encrypt:
  assumes "d \<noteq> []" "length d \<le> 8 * MiB"
  shows "encrypt_if (memory_env chunk None tf order) e n [d] w = (Inr ([d], n), w)"
proof -
  let ?conf = "pc_encryption (pe_config (memory_env chunk None tf order))"
  have conf: "en_chunk_size ?conf = 8 * MiB" "en_buffer_size ?conf = 32 * MiB"
    by (simp_all add: memory_env_def memory_config_def default_encryption_config_def)
  have "chunks_of (8 * MiB) d = [d]" using assms by (simp add: chunks_of.simps MiB_def)
  then have "rechunk_act (8 * MiB) (32 * MiB) [d] w = (Inr [d], w)"
    using rechunk_chunks_of [of "8 * MiB" "32 * MiB" "[d]"] by (simp add: rechunk_act_def returns_or_hangs_def MiB_def)
  then have "build_encrypt_stage noop_encryption ?conf [d] w = (Inr [d], w)"
    by (simp add: build_encrypt_stage_def conf bind_act_Inr encrypt_stage_def noop_encryption_def)
  then show ?thesis
    by (simp add: encrypt_if_def mem_crypto bind_act_Inr noop_encryption_def calc_encrypted_size_def)
qed

lemma mem_decrypt:
  assumes "d \<noteq> []" "length d \<le> 8 * MiB"
  shows "decrypt_if (memory_env chunk None tf order) e [d] w = (Inr [d], w)"
proof -
  let ?conf = "pc_encryption (pe_config (memory_env chunk None tf order))"
  have conf: "en_chunk_size ?conf = 8 * MiB" "en_buffer_size ?conf = 32 * MiB"
    by (simp_all add: memory_env_def memory_config_def default_encryption_config_def)
  have "chunks_of (8 * MiB) d = [d]" using assms by (simp add: chunks_of.simps MiB_def)
  then have "rechunk_act (8 * MiB) (32 * MiB) [d] w = (Inr [d], w)"
    using rechunk_chunks_of [of "8 * MiB" "32 * MiB" "[d]"] by (simp add: rechunk_act_def returns_or_hangs_def MiB_def)
  then show ?thesis
    by (simp add: decrypt_if_def mem_crypto build_decrypt_stage_def conf noop_encryption_def decrypt_stage_def bind_act_Inr)
qed

lemma mem_download:
  assumes "object_of (object_key p) w = Some d" "d \<noteq> []" "length d \<le> Suc chunk" "length d \<le> 8 * MiB"
  shows "download_data_pipeline (memory_env chunk None tf order) p e w = (Inr d, w)"
  by (simp add: download_data_pipeline_def download_stream_def bind_act_Inr mem_download_storage [OF assms(1-3)]
      mem_decrypt [OF assms(2,4)] decompress_if_def)

text \<open>The same for the loader of an executor without workers.\<close>

definition no_tar :: tar_format where
  "no_tar = \<lparr>tf_tobuf = \<lambda>n s t. '''', tf_frombuf = \<lambda>h. Inl TypeError\<rparr>"

definition local_executor :: "world executor" where
  "local_executor = memory_executor 1023 None no_tar (\<lambda>_. []) 0 (\<lambda>_. ret ()) (\<lambda>_. []) (\<lambda>_. [])"

lemma local_executor_simps [simp]:
  "xe_workers local_executor = 0" "xe_env local_executor = memory_env 1023 None no_tar (\<lambda>_. [])"
  by (simp_all add: local_executor_def memory_executor_def)

lemma local_list_dir:
  "ld_list_dir (storage_loader_of local_executor) p recursive absolute (w, j) =
     (Inr (page_entries (dir_prefix p) absolute (page_of (dir_prefix p) (\<not> recursive) w)), (w, j))"
  by (simp add: storage_loader_defs engine_in_main_def in_main_def on_world_def with_object_def mem_list_dir memory_env_def)

lemma local_path_exists:
  "ld_path_exists (storage_loader_of local_executor) p False (w, j) = (Inr (object_of p w \<noteq> None), (w, j))"
  by (simp add: storage_loader_defs engine_in_main_def in_main_def on_world_def with_object_def mem_path_exists memory_env_def)

lemma local_download:
  assumes "object_of (object_key p) w = Some d" "d \<noteq> []" "length d \<le> 1024"
  shows "ld_download_data (storage_loader_of local_executor) p e (w, j) = (Inr d, (w, j))"
  using mem_download [OF assms(1,2), of 1023] assms(3)
  by (simp add: MiB_def storage_loader_defs executor_download_data_def exec_in_place_def in_main_def on_world_def)

text \<open>A small upload through the same executor: one put.\<close>

lemma mem_put:
  "engine_upload_data memory_engine d p (w, e) =
     (Inr (object_key p), (w\<lparr>wd_objects := dict_set (wd_objects w) (object_key p) d\<rparr>, e))"
  unfolding engine_upload_data_def
  by (rule engine_call_ok) (simp add: bind_act_def on_world_def memory_engine_def memory_client_def)

lemma arrange_one: "arrange order [x] = [x]"
  using arrange_mset [of order "[x]"] by (metis mset_single_iff_right)

lemma mem_upload:
  assumes "d \<noteq> []" "length d < Suc chunk"
  shows "build_uploading_stage (memory_env chunk key tf order) p (int (length d)) [d] w =
     (Inr (), w\<lparr>wd_objects := dict_set (wd_objects w) (object_key p) d\<rparr>)"
proof -
  let ?pe = "memory_env chunk key tf order"
  have rl: "rate_limiter_stage ?pe [d] w = (Inr [d], w)"
    using assms(1)
    by (simp add: rate_limiter_stage_def returns_or_hangs_def memory_env_def memory_config_def rate_limit_def
        new_rate_limiter_def rate_limiter_call.simps extract_tokens_def slice_index_def Let_def)
  have ch: "chunks_of (Suc chunk) d = [d]" using assms by (simp add: chunks_of.simps)
  have re: "rechunk_act (Suc chunk) (2 * Suc chunk) [d] w = (Inr [d], w)"
    using rechunk_chunks_of [of "Suc chunk" "2 * Suc chunk" "[d]"] by (simp add: rechunk_act_def returns_or_hangs_def ch)
  have up: "storage_uploading_stage ?pe p [(d, None)] (w, new_engine) =
      (Inr (), (w\<lparr>wd_objects := dict_set (wd_objects w) (object_key p) d\<rparr>, new_engine))"
    by (simp add: storage_uploading_stage_def arrange_one upload_block_def non_empty_def bind_act_def
        memory_env_def mem_put)
  show ?thesis
    using assms rl re up
    by (simp add: build_uploading_stage_def uploading_multiplier_def memory_env_def memory_config_def bind_act_Inr
        with_object_def upload_chunks_def seen_upload_id_def Let_def complete_multipart_stage_def non_empty_def)
qed

lemma mem_encrypt_and_upload:
  assumes "d \<noteq> []" "length d < Suc chunk" "length d \<le> 8 * MiB"
  shows "upload_data_pipeline (memory_env chunk None tf order) d p e w =
     (Inr (), w\<lparr>wd_objects := dict_set (wd_objects w) (object_key p) d\<rparr>)"
  using mem_encrypt [OF assms(1,3), of chunk tf order e "int (length d)" w] mem_upload [OF assms(1,2), of None tf order p w]
  by (simp add: upload_data_pipeline_def encrypt_and_upload_def bind_act_Inr)

lemma local_upload:
  assumes "d \<noteq> []" "length d < 1024"
  shows "ld_upload_data (storage_loader_of local_executor) d p e (w, j) =
     (Inr (), (w\<lparr>wd_objects := dict_set (wd_objects w) (object_key p) d\<rparr>, j))"
  using mem_encrypt_and_upload [OF assms(1), of 1023 no_tar "\<lambda>_. []" p e w] assms(2)
  by (simp add: storage_loader_defs executor_upload_data_def exec_pipeline_def exec_in_place_def in_main_def
      on_world_def bind_act_def MiB_def)

definition example_start :: world where
  "example_start = \<lparr>wd_objects = [], wd_parts = [], wd_uploads = 0, wd_files = [], wd_time = PyTime 3 0, wd_lock = False\<rparr>"

end
