(* ===== verification/PurgeSafety.thy ===== *)
theory PurgeSafety
  imports MemoryBackup
begin

text \<open>
  What purging promises, for every context that meets the interface \<open>retention\<close>, and an example: a
  bucket with two backups of one table, the newer of which reuses a part of the older.
\<close>

section \<open>An example\<close>

definition example_time :: time_codec where
  "example_time =
     \<lparr>tc_format = \<lambda>f t. if instant t = 1 then ''1'' else ''2'',
      tc_parse = \<lambda>f v. if v = ''1'' then Inr (PyTime 1 0) else Inr (PyTime 2 0)\<rparr>"

definition example_backup :: "string \<Rightarrow> int \<Rightarrow> (string, db_meta) dict \<Rightarrow> backup_metadata" where
  "example_backup name t dbs =
     (new_backup_metadata ''host'' (PyTime t 0) name ''1'' ''24'' ''iso'' None [] False True None)
       \<lparr>bm_databases := dbs, bm_state := CREATED\<rparr>"

definition example_part :: "string option \<Rightarrow> raw_part" where
  "example_part link =
     \<lparr>rp_checksum = ''c'', rp_bytes = 1, rp_files = [''data.bin''], rp_link = link, rp_link_part_name = None,
      rp_tarball = Some True, rp_disk_name = None, rp_encrypted = None\<rparr>"

definition example_db :: "(string, raw_part) dict \<Rightarrow> (string, db_meta) dict" where
  "example_db parts =
     [(''d'', \<lparr>dm_engine = Some ''Atomic'', dm_metadata_path = None, dm_uuid = None, dm_engine_full = None,
        dm_tables = [(''t'', \<lparr>rt_engine = ''MergeTree'', rt_uuid = None, rt_parts = parts\<rparr>)]\<rparr>)]"

definition old_backup :: backup_metadata where
  "old_backup = example_backup ''o'' 1 (example_db [(''all_1_1_0'', example_part None)])"

definition new_backup :: backup_metadata where
  "new_backup = example_backup ''n'' 2
     (example_db [(''all_1_1_0'', example_part (Some ''o'')), (''all_2_2_0'', example_part None)])"

definition example_loads :: "string \<Rightarrow> backup_doc res" where
  "example_loads d =
     (if d = ''nl'' then bm_dump example_time True new_backup
      else if d = ''nf'' then bm_dump example_time False new_backup
      else if d = ''ol'' then bm_dump example_time True old_backup
      else bm_dump example_time False old_backup)"

definition example_world :: world where
  "example_world =
     \<lparr>wd_objects = [(''r/n/backup_light_struct.json'', ''nl''), (''r/n/backup_struct.json'', ''nf''),
        (''r/o/backup_light_struct.json'', ''ol''), (''r/o/backup_struct.json'', ''of''),
        (''r/o/data/d/t/all_1_1_0/all_1_1_0.tar'', ''x'')],
      wd_parts = [], wd_uploads = 0, wd_files = [], wd_time = PyTime 3 0, wd_lock = True\<rparr>"

definition example_layout :: "world cluster layout" where
  "example_layout = memory_layout local_executor example_time (\<lambda>d. ''json'') example_loads ''r''"

definition example_ctx :: "world cluster backup_ctx" where
  "example_ctx = memory_ctx example_layout None (Some 1)"

lemma example_light:
  assumes "t = 1 \<or> t = 2"
  shows "bind_res (bm_dump example_time True (example_backup name t dbs)) (bm_load example_time) =
      Inr (example_backup name t [])"
  using assms
  by (auto simp: bm_dump_def bm_load_def load_body_def need_def option_or_def load_access_control_def example_backup_def
      new_backup_metadata_def example_time_def acl_load_def acl_empty_def load_time_def state_of_value_def
      state_value_def cs_load_def cs_dump_def new_cloud_storage_def)

lemma example_paths [simp]:
  "rel_path ''r/n/'' ''r/'' = ''n''" "rel_path ''r/o/'' ''r/'' = ''o''" "dir_name ''n'' = []" "dir_name ''o'' = []"
  by code_simp+

lemma example_full:
  assumes "b = old_backup \<or> b = new_backup"
  shows "bind_res (bm_dump example_time False b) (bm_load example_time) = Inr b"
proof -
  have "bind_res (bm_dump example_time False b) (bm_load example_time)
      = Inr (b\<lparr>bm_databases := databases_with_legacy_part_links b\<rparr>)"
    by (rule load_dump [of _ "PyTime (if b = old_backup then 1 else 2) 0"])
      (use assms in \<open>auto simp: old_backup_def new_backup_def example_backup_def new_backup_metadata_def
        time_readable_def example_time_def\<close>)
  moreover have "databases_with_legacy_part_links b = bm_databases b"
    using assms by (auto simp: old_backup_def new_backup_def example_backup_def new_backup_metadata_def
      databases_with_legacy_part_links_def map_raw_parts_def legacy_link_def example_db_def example_part_def
      non_empty_def)
  ultimately show ?thesis by simp
qed

lemma example_layout_simps [simp]:
  "ly_loader example_layout = storage_loader_of local_executor" "ly_tc example_layout = example_time"
  "ly_loads example_layout = example_loads" "ly_path_root example_layout = ''r''" "cx_layout example_ctx = example_layout"
  by (simp_all add: example_layout_def memory_layout_def example_ctx_def memory_ctx_def)

lemma example_meta_paths [simp]:
  "backup_light_metadata_path example_layout ''n'' = ''r/n/backup_light_struct.json''"
  "backup_light_metadata_path example_layout ''o'' = ''r/o/backup_light_struct.json''"
  "backup_metadata_path example_layout ''n'' = ''r/n/backup_struct.json''"
  "backup_metadata_path example_layout ''o'' = ''r/o/backup_struct.json''"
  by (simp_all add: backup_light_metadata_path_def backup_metadata_path_def get_backup_path_def path_join_def
      BACKUP_LIGHT_META_FNAME_def BACKUP_META_FNAME_def)

lemma example_load:
  assumes "name = ''n'' \<and> t = 2 \<or> name = ''o'' \<and> t = 1"
  shows "get_backup example_layout name True (example_world, new_pool)
      = (Inr (Some (example_backup name t [])), (example_world, new_pool))"
proof -
  let ?p = "backup_light_metadata_path example_layout name"
  obtain d where d: "object_of (object_key ?p) example_world = Some d" "object_of ?p example_world = Some d"
    "d \<noteq> []" "length d \<le> 1024" "bind_res (example_loads d) (bm_load example_time) = Inr (example_backup name t [])"
  proof (cases "name = ''n''")
    case True
    with assms that [of "''nl''"] example_light [of 2] show ?thesis
      by (simp add: object_of_def example_world_def object_key_def lstrip_chr_def example_loads_def new_backup_def)
  next
    case False
    with assms that [of "''ol''"] example_light [of 1] show ?thesis
      by (simp add: object_of_def example_world_def object_key_def lstrip_chr_def example_loads_def old_backup_def)
  qed
  from local_download [OF d(1,3,4)] d(2,5) show ?thesis
    by (auto simp: get_backup_def Let_def metadata_path_def local_path_exists bind_act_def load_or_retry_def load_metadata_def
        try_act_def lift_res_def)
qed

lemma example_backups:
  "get_backups example_layout True (example_world, new_pool)
     = (Inr [example_backup ''n'' 2 [], example_backup ''o'' 1 []], (example_world, new_pool))"
proof -
  have names: "get_backup_names example_layout (example_world, new_pool) = (Inr [''n'', ''o''], (example_world, new_pool))"
    by (simp add: get_backup_names_def local_list_dir)
      (simp add: page_entries_def page_of_def example_world_def dir_prefix_def folded_def
        map_filter_def lstrip_chr_def rstrip_chr_def)
  have "sort_backups [example_backup ''n'' 2 [], example_backup ''o'' 1 []]
      = Inr [example_backup ''n'' 2 [], example_backup ''o'' 1 []]"
    by (simp add: sort_backups_def start_key_def example_backup_def new_backup_metadata_def iso_key_def
        less_eq_prod_def)
  then show ?thesis
    by (simp add: get_backups_def bind_act_Inr names example_load)
qed

section \<open>Purging\<close>

text \<open>C1. A purge never touches the data of a backup that its policy retains: every object of every
  part that a retained backup lists - stored by itself or, for a deduplicated part, by a backup that
  is being deleted - is the same afterwards, whether the purge succeeds or stops with an error.\<close>

theorem purge_keeps_retained_data:
  assumes env: "retention cx intact decode idle"
    and bs: "get_backups (cx_layout cx) True w = (Inr bs, w1)"
    and names: "bm_name ` set bs \<subseteq> set backup_names" "distinct (map bm_name bs)"
    and stored: "\<And>b. b \<in> set bs \<Longrightarrow>
      stored_as (cx_layout cx) intact decode (bm_name b) (full (bm_name b)) w \<and>
      good_backup (bm_name b) (full (bm_name b))"
    and policy: "fold_res (retain_step limit) bs (cx_retain_count cx, [], []) = Inr (cnt, retained, deleting)"
    and part: "r \<in> set retained" "listed_part (full (bm_name r)) p"
    and obj: "prefix (part_prefix (cx_layout cx) (source_backup_name (bm_name r) p) (pm_database p) (pm_table p)
                (deduplicated_part_name p) esc) k" "intact k c w"
  shows "intact k c (snd (purge_locked cx backup_names limit w))"
proof -
  have parts: "set retained \<union> set deleting = set bs" "distinct (map bm_name deleting)"
    "bm_name ` set retained \<inter> bm_name ` set deleting = {}"
    using retain_partition_names [OF policy names(2)] by blast+
  have "intact k c (snd (delete_batch cx retained deleting w1))"
    unfolding delete_batch_def
    by (rule retention.delete_batch_keeps [OF env retention.get_backups_keep [OF env] bs parts stored part obj])
      (auto split: prod.splits)
  then show ?thesis by (simp add: purge_locked_eq [OF bs names(1) policy])
qed

lemma example_stored:
  assumes "b = old_backup \<or> b = new_backup"
  shows "stored_as example_layout (pool_store.intact local_executor object_of)
      (pool_store.decode local_executor (memory_crypto None)) (bm_name b) b (example_world, new_pool)"
    (is "stored_as _ ?in ?de _ _ _")
proof -
  have dec: "?de e c = Inr c" for e c
  proof -
    show ?thesis
      unfolding local_executor_def memory_pool.decode_def
      using chunks_of_concat [OF noop.chunk_pos, of c]
      by (simp add: memory_crypto_def decrypted_def memory_executor_def memory_env_def memory_config_def
          map_res_all_Inr [where g = "\<lambda>x. x"] noop_encryption_def)
  qed
  obtain d where d: "?in (object_key (backup_metadata_path example_layout (bm_name b))) d (example_world, new_pool)"
    "bind_res (example_loads d) (bm_load example_time) = Inr b"
  proof (cases "b = old_backup")
    case True
    then have "bm_name b = ''o''" by (simp add: old_backup_def example_backup_def new_backup_metadata_def)
    with True that [of "''of''"] example_full [of b] show ?thesis
      by (simp add: local_executor_def memory_pool.intact_def object_of_def example_world_def object_key_def
          lstrip_chr_def example_loads_def new_pool_def)
  next
    case False
    with assms have b: "b = new_backup" by simp
    then have "bm_name b = ''n''" by (simp add: new_backup_def example_backup_def new_backup_metadata_def)
    with b that [of "''nf''"] example_full [of b] show ?thesis
      by (simp add: local_executor_def memory_pool.intact_def object_of_def example_world_def object_key_def
          lstrip_chr_def example_loads_def new_pool_def)
  qed
  then show ?thesis
    unfolding stored_as_def meta_reads_def by (intro exI [of _ d]) (auto simp: dec)
qed

lemma example_good:
  assumes "b = old_backup \<or> b = new_backup"
  shows "good_backup (bm_name b) b"
proof -
  have "good_part p \<and> plain_component (source_backup_name (bm_name b) p) \<and> rm_link_part_name (pm_raw p) = None"
    if "listed_part b p" for p
    using assms that
    by (auto simp: listed_part_def old_backup_def new_backup_def example_backup_def new_backup_metadata_def example_db_def
        part_load_def example_part_def good_part_def good_name_def relative_files_def deduplicated_part_name_def
        non_empty_def source_backup_name_def normalize_backup_link_def base_name_def rstrip_chr_def)
  moreover have "plain_component (bm_name b)" "dicts_ok b" "named_databases b"
    using assms
    by (auto simp: old_backup_def new_backup_def example_backup_def new_backup_metadata_def example_db_def
        dicts_ok_def named_databases_def)
  ultimately show ?thesis by (auto simp: good_backup_def)
qed

lemma example_names [simp]: "bm_name (example_backup n t dbs) = n"
  by (simp add: example_backup_def new_backup_metadata_def)

lemma example_stored_good:
  assumes "b \<in> set [example_backup ''n'' 2 [], example_backup ''o'' 1 []]"
  shows "stored_as (cx_layout example_ctx) (pool_store.intact local_executor object_of)
      (pool_store.decode local_executor (memory_crypto None)) (bm_name b)
      (if bm_name b = ''o'' then old_backup else new_backup) (example_world, new_pool) \<and>
    good_backup (bm_name b) (if bm_name b = ''o'' then old_backup else new_backup)"
  using assms example_stored [of old_backup] example_good [of old_backup]
    example_stored [of new_backup] example_good [of new_backup]
  by (auto simp: old_backup_def new_backup_def)

lemma example_retention:
  "retention example_ctx (pool_store.intact local_executor object_of)
      (pool_store.decode local_executor (memory_crypto None)) (pool_store.idle local_executor)"
  unfolding example_ctx_def example_layout_def local_executor_def by (rule memory_ctx.retention_axioms)

text \<open>The part that the newer backup reuses.\<close>

definition shared_part :: part_metadata where
  "shared_part = part_load ''d'' ''t'' ''all_1_1_0'' (example_part (Some ''o''))"

lemma example_listed: "listed_part new_backup shared_part"
  by (auto simp: shared_part_def new_backup_def example_backup_def new_backup_metadata_def example_db_def listed_part_def)

lemma example_key:
  "prefix (part_prefix example_layout (source_backup_name ''n'' shared_part) (pm_database shared_part)
      (pm_table shared_part) (deduplicated_part_name shared_part) False)
    ''r/o/data/d/t/all_1_1_0/all_1_1_0.tar''"
  by (simp add: shared_part_def part_load_def example_part_def part_prefix_def backup_key_def root_part_def
    lstrip_chr_def table_dir_def source_backup_name_def normalize_backup_link_def non_empty_def base_name_def
    rstrip_chr_def deduplicated_part_name_def)

lemma example_intact:
  "pool_store.intact local_executor object_of ''r/o/data/d/t/all_1_1_0/all_1_1_0.tar'' ''x'' (example_world, new_pool)"
  by (simp add: local_executor_def memory_pool.intact_def object_of_def example_world_def new_pool_def)

theorem purge_keeps_retained_data_witness:
  "pool_store.intact local_executor object_of ''r/o/data/d/t/all_1_1_0/all_1_1_0.tar'' ''x''
     (snd (purge_locked example_ctx [''n'', ''o''] None (example_world, new_pool)))"
proof (rule purge_keeps_retained_data [where full = "\<lambda>n. if n = ''o'' then old_backup else new_backup"
      and bs = "[example_backup ''n'' 2 [], example_backup ''o'' 1 []]" and decode = "pool_store.decode local_executor (memory_crypto None)"
      and idle = "pool_store.idle local_executor"
      and esc = False and r = "example_backup ''n'' 2 []" and p = shared_part])
  show "retention example_ctx (pool_store.intact local_executor object_of)
      (pool_store.decode local_executor (memory_crypto None)) (pool_store.idle local_executor)"
    by (rule example_retention)
  show "get_backups (cx_layout example_ctx) True (example_world, new_pool)
      = (Inr [example_backup ''n'' 2 [], example_backup ''o'' 1 []], (example_world, new_pool))"
    by (simp add: example_backups)
  show "fold_res (retain_step None) [example_backup ''n'' 2 [], example_backup ''o'' 1 []]
      (cx_retain_count example_ctx, [], []) = Inr (Some 0, [example_backup ''n'' 2 []], [example_backup ''o'' 1 []])"
    by (simp add: example_ctx_def memory_ctx_def retain_step_def example_backup_def new_backup_metadata_def)
next
  fix b assume "b \<in> set [example_backup ''n'' 2 [], example_backup ''o'' 1 []]"
  then show "stored_as (cx_layout example_ctx) (pool_store.intact local_executor object_of)
      (pool_store.decode local_executor (memory_crypto None)) (bm_name b)
      (if bm_name b = ''o'' then old_backup else new_backup) (example_world, new_pool) \<and>
    good_backup (bm_name b) (if bm_name b = ''o'' then old_backup else new_backup)"
    by (rule example_stored_good)
qed (simp_all add: example_key example_intact example_listed)

end
