(* ===== verification/DeleteSafety.thy ===== *)
theory DeleteSafety
  imports PurgeSafety
begin

text \<open>
  What \<open>delete\<close> promises: which backups it selects, and that the data of every backup that it does not
  select is left alone. The last section follows a purge during which a backup is created.
\<close>

section \<open>The selection\<close>

definition selected :: "string \<Rightarrow> bool \<Rightarrow> nat \<Rightarrow> backup_metadata \<Rightarrow> bool" where
  "selected name purge_partial i b \<longleftrightarrow> bm_name b = name \<or> purge_partial \<and> bm_state b \<noteq> CREATED \<and> i \<noteq> 0"

lemma delete_split_fold:
  "fold (\<lambda>(i, b) (found, deleting, retained).
       if bm_name b = name then (True, deleting @ [b], retained)
       else if purge_partial \<and> bm_state b \<noteq> CREATED \<and> i \<noteq> 0 then (found, deleting @ [b], retained)
       else (found, deleting, retained @ [b])) (enumerate n bs) (found, ds, rs) =
   (found \<or> name \<in> bm_name ` set bs,
    ds @ map snd (filter (\<lambda>(i, b). selected name purge_partial i b) (enumerate n bs)),
    rs @ map snd (filter (\<lambda>(i, b). \<not> selected name purge_partial i b) (enumerate n bs)))"
  by (induction bs arbitrary: n found ds rs) (auto simp: selected_def)


lemma mset_map_filter:
  "mset (map f (filter (\<lambda>x. \<not> P x) xs)) + mset (map f (filter P xs)) = mset (map f xs)"
  by (induction xs) auto

lemma delete_split_parts:
  assumes "delete_split name pp bs = (found, deleting, retained)" "distinct (map bm_name bs)"
  shows "set retained \<union> set deleting = set bs" "distinct (map bm_name deleting)"
    "bm_name ` set retained \<inter> bm_name ` set deleting = {}"
proof -
  let ?P = "\<lambda>(i, b). selected name pp i b"
  have eq: "deleting = map snd (filter ?P (enumerate 0 bs))"
    "retained = map snd (filter (\<lambda>x. \<not> ?P x) (enumerate 0 bs))"
    using assms(1) unfolding delete_split_def by (simp_all only: delete_split_fold) (auto simp: case_prod_unfold)
  have m: "mset (retained @ deleting) = mset bs"
    using mset_map_filter [of snd ?P "enumerate 0 bs"] by (simp add: eq del: mset_map)
  then show "set retained \<union> set deleting = set bs" by (metis mset_eq_setD set_append)
  from m have "mset (map bm_name (retained @ deleting)) = mset (map bm_name bs)" by (metis mset_map)
  with assms(2) have "distinct (map bm_name (retained @ deleting))" using mset_eq_imp_distinct_iff by blast
  then show "distinct (map bm_name deleting)" "bm_name ` set retained \<inter> bm_name ` set deleting = {}" by auto
qed

section \<open>Deleting\<close>

text \<open>C2. Deleting a backup never touches the data of a backup that is not selected: every object of
  every part that a retained backup lists is the same afterwards, also when the part is stored below the
  deleted backup and also when the deletion stops with an error.\<close>

theorem delete_keeps_retained_data:
  assumes env: "retention cx intact decode idle"
    and lock: "cx_lock cx ''DELETE'' w0 = (Inr (), w)"
    and bs: "get_backups (cx_layout cx) True w = (Inr bs, w1)" "distinct (map bm_name bs)"
    and stored: "\<And>b. b \<in> set bs \<Longrightarrow>
      stored_as (cx_layout cx) intact decode (bm_name b) (full (bm_name b)) w \<and>
      good_backup (bm_name b) (full (bm_name b))"
    and split: "delete_split name purge_partial bs = (True, deleting, retained)"
    and part: "r \<in> set retained" "listed_part (full (bm_name r)) p"
    and obj: "prefix (part_prefix (cx_layout cx) (source_backup_name (bm_name r) p) (pm_database p) (pm_table p)
                (deduplicated_part_name p) esc) k" "intact k c w"
  shows "intact k c (snd (delete_cmd cx name purge_partial w0))"
proof -
  note parts = delete_split_parts [OF split bs(2)]
  have "intact k c (snd (bind_act (collect_dedup_references (cx_layout cx) retained deleting) (\<lambda>refs.
      for_act deleting (\<lambda>b result.
        bind_act (delete_one cx b (dd_get refs (bm_name b) [])) (\<lambda>r.
          ret (if bm_name b = name then r else result))) (None, None)) w1))"
    by (rule retention.delete_batch_keeps [OF env retention.get_backups_keep [OF env] bs(1) parts stored part obj,
          where g = "\<lambda>b result r. ret (if bm_name b = name then r else result)"]) simp_all
  then have "intact k c (snd (bind_act (get_backups (cx_layout cx) True) (\<lambda>bs.
      case delete_split name purge_partial bs of (found, deleting, retained) \<Rightarrow>
        if \<not> found then raise (BackupNotFound name)
        else bind_act (collect_dedup_references (cx_layout cx) retained deleting) (\<lambda>refs.
               for_act deleting (\<lambda>b result.
                 bind_act (delete_one cx b (dd_get refs (bm_name b) [])) (\<lambda>r.
                   ret (if bm_name b = name then r else result))) (None, None))) w))"
    by (simp add: bind_act_Inr bs(1) split)
  then have "intact k c (snd (finally_act (bind_act (get_backups (cx_layout cx) True) (\<lambda>bs.
      case delete_split name purge_partial bs of (found, deleting, retained) \<Rightarrow>
        if \<not> found then raise (BackupNotFound name)
        else bind_act (collect_dedup_references (cx_layout cx) retained deleting) (\<lambda>refs.
               for_act deleting (\<lambda>b result.
                 bind_act (delete_one cx b (dd_get refs (bm_name b) [])) (\<lambda>r.
                   ret (if bm_name b = name then r else result))) (None, None)))) (cx_unlock cx) w))"
    by (rule finally_act_snd) (rule retention.unlock_keeps [OF env])
  then show ?thesis by (simp add: delete_cmd_def with_lock_def bind_act_Inr lock)
qed

theorem delete_keeps_retained_data_witness:
  "pool_store.intact local_executor object_of ''r/o/data/d/t/all_1_1_0/all_1_1_0.tar'' ''x''
     (snd (delete_cmd example_ctx ''o'' False (example_world\<lparr>wd_lock := False\<rparr>, new_pool)))"
proof (rule delete_keeps_retained_data [where full = "\<lambda>n. if n = ''o'' then old_backup else new_backup"
      and w = "(example_world, new_pool)" and retained = "[example_backup ''n'' 2 []]" and deleting = "[example_backup ''o'' 1 []]"
      and bs = "[example_backup ''n'' 2 [], example_backup ''o'' 1 []]" and decode = "pool_store.decode local_executor (memory_crypto None)"
      and idle = "pool_store.idle local_executor"
      and esc = False and r = "example_backup ''n'' 2 []" and p = shared_part])
  show "retention example_ctx (pool_store.intact local_executor object_of)
      (pool_store.decode local_executor (memory_crypto None)) (pool_store.idle local_executor)"
    by (rule example_retention)
  show "cx_lock example_ctx ''DELETE'' (example_world\<lparr>wd_lock := False\<rparr>, new_pool) = (Inr (), example_world, new_pool)"
    by (simp add: example_ctx_def memory_ctx_def example_world_def)
  show "get_backups (cx_layout example_ctx) True (example_world, new_pool)
      = (Inr [example_backup ''n'' 2 [], example_backup ''o'' 1 []], (example_world, new_pool))"
    by (simp add: example_backups)
next
  fix b assume "b \<in> set [example_backup ''n'' 2 [], example_backup ''o'' 1 []]"
  then show "stored_as (cx_layout example_ctx) (pool_store.intact local_executor object_of)
      (pool_store.decode local_executor (memory_crypto None)) (bm_name b)
      (if bm_name b = ''o'' then old_backup else new_backup) (example_world, new_pool) \<and>
    good_backup (bm_name b) (if bm_name b = ''o'' then old_backup else new_backup)"
    by (rule example_stored_good)
qed (simp_all add: example_key example_intact example_listed delete_split_def)

section \<open>A backup made while a purge begins\<close>

text \<open>The names of the backups are listed before the lock is taken.\<close>

lemma purge_scan_unlisted:
  assumes "\<And>b. b \<in> set bs \<Longrightarrow> bm_name b \<notin> set names"
  shows "for_act bs (purge_step cx names limit) vars w =
    bind_act (for_act bs (\<lambda>b _. delete_backup (cx_layout cx) (bm_name b)) ()) (\<lambda>_. ret vars) w"
  using assms
proof (induction bs arbitrary: w)
  case (Cons b bs)
  have b: "\<not> List.member names (bm_name b)" using Cons.prems [of b] by simp
  obtain r w1 where d: "delete_backup (cx_layout cx) (bm_name b) w = (r, w1)" by (rule prod.exhaust)
  show ?case
  proof (cases r)
    case (Inl e)
    with b d show ?thesis by (simp add: purge_step_def bind_act_def)
  next
    case (Inr u)
    with b d Cons.IH [of w1] Cons.prems show ?thesis by (simp add: purge_step_def bind_act_def)
  qed
qed simp



section \<open>A failed deletion\<close>

text \<open>The handler sets the state \<open>FAILED\<close> and the text of the exception, but nothing stores that state: with shared
  parts the backup is stored as \<open>PARTIALLY_DELETED\<close>, as after a deletion that succeeded; without, nothing is stored.\<close>

theorem failed_delete_not_recorded:
  assumes "delete_body cx refs (w, b) = (Inl e, (w1, b1))" "e \<noteq> Hangs"
    "layout_wait (cx_layout cx) False w1 = (Inr (), w2)"
  shows "delete_guarded cx refs (w, b) =
    (let failed = bm_set_exception (Some (cx_exception_text cx e)) (bm_set_state FAILED b1) in
     if refs = [] then (Inl e, (w2, failed))
     else let stored = bm_set_state PARTIALLY_DELETED failed in
       (case upload_backup_metadata (cx_layout cx) stored w2 of
          (Inl e', w3) \<Rightarrow> (Inl e', (w3, stored))
        | (Inr _, w3) \<Rightarrow> (Inl e, (w3, stored))))"
  using assms
  by (auto simp: delete_guarded_def finally_act_def try_act_def bind_act_def set_backup_def on_world_def
      upload_current_def when_act_def Let_def split: sum.splits prod.splits)

end
