(* ===== verification/StoreRoundtrip.thy ===== *)
theory StoreRoundtrip
  imports MemoryBackup
begin

text \<open>
  From end to end: what is uploaded through rate limiter, chunking, encryption and multipart upload is
  what a later download returns, and the metadata of a backup that was uploaded is read back. The
  theorems hold for every executor on every store that meets \<open>pool_store\<close>.
\<close>

section \<open>Data\<close>

context storage_loader
begin

lemma uploaded_is_downloaded:
  assumes "idle w" "object_key p = p" "d \<noteq> []" "ld_upload_data ld d p e w = (Inr (), w1)"
    and "\<And>c. keeps (intact p c) m" "w2 = snd (m w1)" "ld_download_data ld p e w2 = (Inr d', w3)"
  shows "d' = d"
proof -
  obtain c where c: "intact p c w1" "decode e c = Inr d"
    using upload_data_stores [OF assms(1-4)] by blast
  have "intact p c w2" unfolding assms(6) by (rule keepsD [OF assms(5) c(1)])
  then have "intact (object_key p) c w2" by (simp only: assms(2))
  from download_data_decodes [OF this assms(7)] c(2) show ?thesis by simp
qed

end

context layout_store
begin

text \<open>The light metadata is another object than the full metadata.\<close>

lemma saved_metadata_reads:
  assumes "idle w" "object_key (backup_metadata_path ly (bm_name b)) = backup_metadata_path ly (bm_name b)"
    and doc: "bm_dump_json (ly_tc ly) False None None b = Inr doc" "ly_dumps ly doc \<noteq> []"
      "ly_loads ly (ly_dumps ly doc) = Inr doc"
    and up: "upload_backup_metadata ly b w = (Inr (), w1)"
    and between: "\<And>c. keeps (intact (backup_metadata_path ly (bm_name b)) c) m" "w2 = snd (m w1)"
    and down: "load_metadata ly (backup_metadata_path ly (bm_name b)) True w2 = (Inr b', w3)"
  shows "bm_load (ly_tc ly) doc = Inr b'"
proof -
  let ?p = "backup_metadata_path ly (bm_name b)" and ?q = "backup_light_metadata_path ly (bm_name b)"
  from up doc(1) obtain light w0 where 1: "ld_upload_data (ly_loader ly) (ly_dumps ly doc) ?p True w = (Inr (), w0)"
    and 2: "ld_upload_data (ly_loader ly) (ly_dumps ly light) ?q False w0 = (Inr (), w1)"
    by (auto simp: upload_backup_metadata_def or_storage_error_def try_act_def bind_act_def
        split: prod.splits sum.splits if_splits)
  obtain x where x: "?p = x @ BACKUP_META_FNAME" "?q = x @ BACKUP_LIGHT_META_FNAME"
    by (cases "get_backup_path ly (bm_name b) = [] \<or> last (get_backup_path ly (bm_name b)) = CHR ''/''")
      (auto simp: backup_metadata_path_def backup_light_metadata_path_def path_join_def BACKUP_META_FNAME_def
        BACKUP_LIGHT_META_FNAME_def append_assoc [symmetric] simp del: append_assoc)
  have ne: "?p \<noteq> ?q" by (simp add: x BACKUP_META_FNAME_def BACKUP_LIGHT_META_FNAME_def)
  have ne': "?p \<noteq> object_key ?q"
  proof
    assume eq: "?p = object_key ?q"
    have "?q = takeWhile (\<lambda>c. c = CHR ''/'') ?q @ ?p"
      unfolding eq object_key_def lstrip_chr_def by (rule takeWhile_dropWhile_id [symmetric])
    then have "x @ BACKUP_LIGHT_META_FNAME = (takeWhile (\<lambda>c. c = CHR ''/'') ?q @ x) @ BACKUP_META_FNAME"
      unfolding x by simp
    then have "take 18 (rev (x @ BACKUP_LIGHT_META_FNAME)) = take 18 (rev ((takeWhile (\<lambda>c. c = CHR ''/'') ?q @ x) @ BACKUP_META_FNAME))"
      by (simp only:)
    then show False by (simp add: BACKUP_META_FNAME_def BACKUP_LIGHT_META_FNAME_def)
  qed
  obtain c where c: "intact ?p c w0" "decode True c = Inr (ly_dumps ly doc)"
    using upload_data_stores [OF assms(1,2) doc(2) 1] by blast
  have "intact ?p c w1"
    using keepsD [OF upload_data_keeps [OF ne ne'] c(1)] 2 by (metis snd_conv)
  then have "intact (object_key ?p) c w2"
    unfolding between(2) assms(2) by (rule keepsD [OF between(1)])
  from down obtain d w' where d: "ld_download_data (ly_loader ly) ?p True w2 = (Inr d, w')"
    and l: "bind_res (ly_loads ly d) (bm_load (ly_tc ly)) = Inr b'"
    by (auto simp: load_metadata_def try_act_def bind_act_def split: prod.splits sum.splits if_splits)
  from download_data_decodes [OF \<open>intact (object_key ?p) c w2\<close> d] c(2) l doc(3) show ?thesis by simp
qed

end

context pool_store
begin

lemma is_storage_loader: "storage_loader (storage_loader_of xe) intact decode idle"
  by (rule loader.storage_loader_axioms)

end

text \<open>C4. Data uploaded under a key is what a download of the key returns, with the operations \<open>m\<close> in
  between that leave the object alone: whatever the size of chunks and buffers, the order in which
  the parts are sent, the encryption and the retries were.\<close>

theorem upload_download_roundtrip:
  assumes env: "pool_store xe obj upart cr"
    and start: "pool_store.idle xe s" "object_key p = p" "d \<noteq> []"
    and up: "executor_upload_data xe d p False e s = (Inr (), s1)"
    and between: "\<And>c. keeps (pool_store.intact xe obj p c) m" "s2 = snd (m s1)"
    and down: "executor_download_data xe p e s2 = (Inr d', s3)"
  shows "d' = d"
  by (rule storage_loader.uploaded_is_downloaded [where e = e and ?w3.0 = s3, OF pool_store.is_storage_loader [OF env] start _ between])
    (use up down in \<open>simp_all add: storage_loader_defs\<close>)

theorem upload_download_roundtrip_witness:
  "\<exists>s1 s2. executor_upload_data local_executor ''data'' ''k'' False False (example_start, new_pool) = (Inr (), s1) \<and>
     executor_download_data local_executor ''k'' False s1 = (Inr ''data'', s2)"
proof -
  let ?w = "example_start\<lparr>wd_objects := [(''k'', ''data'')]\<rparr>"
  have up: "executor_upload_data local_executor ''data'' ''k'' False False (example_start, new_pool) = (Inr (), (?w, new_pool))"
    by (simp add: executor_upload_data_def exec_pipeline_def exec_in_place_def in_main_def on_world_def bind_act_def
        upload_data_pipeline_def encrypt_and_upload_def encrypt_if_def mem_upload [of "''data''", simplified]
        example_start_def object_key_def lstrip_chr_def)
  obtain d s3 where down: "executor_download_data local_executor ''k'' False (?w, new_pool) = (Inr d, s3)"
    using local_download [of "''k''" ?w "''data''" False new_pool]
    by (auto simp: storage_loader_defs object_of_def object_key_def lstrip_chr_def)
  have env: "pool_store local_executor object_of upart_of (memory_crypto None)" "pool_store.idle local_executor (example_start, new_pool)"
    unfolding local_executor_def by (rule memory_pool.pool_store_axioms) (simp add: memory_pool.idle_def new_pool_def)
  have "d = ''data''"
    by (rule upload_download_roundtrip [OF env _ _ up _ _ down, where m = "ret ()"])
      (simp_all add: keeps_ret object_key_def lstrip_chr_def)
  with up down show ?thesis by blast
qed

section \<open>Backup metadata\<close>


definition save_layout :: "world cluster layout" where
  "save_layout = memory_layout local_executor \<lparr>tc_format = \<lambda>f t. ''now'', tc_parse = \<lambda>f v. Inr (PyTime 1 0)\<rparr>
     (\<lambda>d. ''json'') (\<lambda>d. bm_dump \<lparr>tc_format = \<lambda>f t. ''now'', tc_parse = \<lambda>f v. Inr (PyTime 1 0)\<rparr> False (sample_backup [] 0)) ''r''"


end
