(* ===== verification/Builder.thy ===== *)
theory Builder
  imports Bucket
begin

text \<open>
  The builder of pipelines (\<^verbatim>\<open>storage/async_pipeline/pipeline_builder.py\<close>) and the functions that build and run one
  (\<^verbatim>\<open>pipelines.py\<close>), with the stages as data: what a function builds is a list of stages, and running it hands the
  values of each on to the next. Theory \<open>Pipelines\<close> states every pipeline as one composition; the theorems here show
  that the built pipeline is that composition whenever the configuration is valid. The sizes of the queues and the
  error of \<open>stopit\<close> that \<open>run\<close> ignores belong to the thread library and are left out.
\<close>

section \<open>Stages\<close>

datatype 'w stage =
    From_iterable "string list"
  | Read_file string
  | Read_files_tarball_scan string string "string list"
  | Read_files_tarball string "string list"
  | Read_data_tarball "string list" "string list"
  | Compress compression
  | Decompress compression
  | Chunking nat nat
  | Encrypt "'w crypto"
  | Decrypt "'w crypto"
  | Rate_limiter
  | Start_multipart_upload nat string
  | Storage_uploading string
  | Complete_multipart_upload string
  | Delete_files_scan string "string list"
  | Delete_files "string list"
  | Download_storage string
  | Write_files string nat
  | Unpack_tarball nat
  | Collect_data
  | Write_file file_target
  | Delete_multiple_storage "string list"

type_synonym 'w builder = "'w stage list"

definition build_iterable_stage :: "string list \<Rightarrow> 'w builder \<Rightarrow> 'w builder res" where
  "build_iterable_stage iterable b = Inr (b @ [From_iterable iterable])"

definition build_read_file_stage :: "string \<Rightarrow> 'w builder \<Rightarrow> 'w builder res" where
  "build_read_file_stage file_path b = Inr (b @ [Read_file file_path])"

definition build_compress_stage :: "'w pipeline_env \<Rightarrow> 'w builder \<Rightarrow> 'w builder res" where
  "build_compress_stage pe b = bind_res (pe_compression pe) (\<lambda>compressor. Inr (b @ [Compress compressor]))"

definition build_decompress_stage :: "'w pipeline_env \<Rightarrow> 'w builder \<Rightarrow> 'w builder res" where
  "build_decompress_stage pe b = bind_res (pe_compression pe) (\<lambda>compressor. Inr (b @ [Decompress compressor]))"

definition build_read_files_tarball_scan_stage ::
  "string \<Rightarrow> string \<Rightarrow> string list \<Rightarrow> 'w builder \<Rightarrow> 'w builder res" where
  "build_read_files_tarball_scan_stage dir_path tar_base_dir exclude b =
     Inr (b @ [Read_files_tarball_scan dir_path tar_base_dir exclude])"

definition build_read_files_tarball_stage :: "string \<Rightarrow> string list \<Rightarrow> 'w builder \<Rightarrow> 'w builder res" where
  "build_read_files_tarball_stage dir_path files b = Inr (b @ [Read_files_tarball dir_path files])"

definition build_read_data_tarball_stage :: "string list \<Rightarrow> string list \<Rightarrow> 'w builder \<Rightarrow> 'w builder res" where
  "build_read_data_tarball_stage file_names data_list b = Inr (b @ [Read_data_tarball file_names data_list])"

definition build_encrypt_stages :: "'w pipeline_env \<Rightarrow> 'w builder \<Rightarrow> 'w builder res" where
  "build_encrypt_stages pe b =
     (let conf = pc_encryption (pe_config pe) in
      bind_res (pipeline_crypto pe) (\<lambda>crypto.
        Inr (b @ [Chunking (en_chunk_size conf) (en_buffer_size conf), Encrypt crypto])))"

definition build_decrypt_stages :: "'w pipeline_env \<Rightarrow> 'w builder \<Rightarrow> 'w builder res" where
  "build_decrypt_stages pe b =
     (let conf = pc_encryption (pe_config pe) in
      bind_res (pipeline_crypto pe) (\<lambda>crypto.
        Inr (b @ [Chunking (en_chunk_size conf + cr_metadata_size crypto) (en_buffer_size conf), Decrypt crypto])))"

definition build_uploading_stages :: "'w pipeline_env \<Rightarrow> string \<Rightarrow> int \<Rightarrow> 'w builder \<Rightarrow> 'w builder res" where
  "build_uploading_stages pe remote_path source_size b =
     (let pc = pe_config pe in
      bind_res (uploading_multiplier pc source_size) (\<lambda>multiplier.
        let chunk_size = pc_chunk_size pc * multiplier; buffer_size = pc_buffer_size pc * multiplier in
        Inr (b @ [Rate_limiter, Chunking chunk_size buffer_size, Start_multipart_upload chunk_size remote_path,
                  Storage_uploading remote_path, Complete_multipart_upload remote_path])))"

definition build_delete_files_scan_stage :: "string \<Rightarrow> string list \<Rightarrow> 'w builder \<Rightarrow> 'w builder res" where
  "build_delete_files_scan_stage base_path exclude b = Inr (b @ [Delete_files_scan base_path exclude])"

definition build_delete_files_stage :: "string list \<Rightarrow> 'w builder \<Rightarrow> 'w builder res" where
  "build_delete_files_stage files b = Inr (b @ [Delete_files files])"

definition build_download_storage_stage :: "string \<Rightarrow> 'w builder \<Rightarrow> 'w builder res" where
  "build_download_storage_stage remote_path b = Inr (b @ [Download_storage remote_path])"

definition build_write_files_stages :: "'w pipeline_env \<Rightarrow> string \<Rightarrow> 'w builder \<Rightarrow> 'w builder res" where
  "build_write_files_stages pe dir_path b =
     (let pc = pe_config pe in
      Inr (b @ [Chunking (pc_fs_chunk_size pc) (pc_fs_buffer_size pc), Write_files dir_path (pc_fs_buffer_size pc)]))"

definition build_unpack_data_tarball_stage :: "'w pipeline_env \<Rightarrow> 'w builder \<Rightarrow> 'w builder res" where
  "build_unpack_data_tarball_stage pe b = Inr (b @ [Unpack_tarball (pc_fs_buffer_size (pe_config pe))])"

definition build_collect_data_stage :: "'w builder \<Rightarrow> 'w builder res" where
  "build_collect_data_stage b = Inr (b @ [Collect_data])"

definition build_write_file_stage :: "file_target \<Rightarrow> 'w builder \<Rightarrow> 'w builder res" where
  "build_write_file_stage target b = Inr (b @ [Write_file target])"

definition build_delete_multiple_storage_stage :: "string list \<Rightarrow> 'w builder \<Rightarrow> 'w builder res" where
  "build_delete_multiple_storage_stage remote_paths b = Inr (b @ [Delete_multiple_storage remote_paths])"

definition build_if :: "bool \<Rightarrow> ('w builder \<Rightarrow> 'w builder res) \<Rightarrow> 'w builder \<Rightarrow> 'w builder res" where
  "build_if wanted build b = (if wanted then build b else Inr b)"

text \<open>\<open>pipeline()\<close>. Every stage but that of an iterable is a partial one, which needs a stage before it.\<close>

definition pipeline_of :: "'w builder \<Rightarrow> 'w stage list res" where
  "pipeline_of stages =
     (case stages of
        [] \<Rightarrow> Inl RuntimeError
      | From_iterable xs # rest \<Rightarrow> Inr stages
      | _ \<Rightarrow> Inr (From_iterable [] # stages))"

section \<open>Running\<close>

datatype items =
    Blocks "string list"
  | Parts "(string \<times> string option) list"
  | Files "(string \<times> string) list"
  | Nothing

definition blocks_of :: "items \<Rightarrow> string list res" where
  "blocks_of i = (case i of Blocks bs \<Rightarrow> Inr bs | _ \<Rightarrow> Inl TypeError)"

definition parts_of :: "items \<Rightarrow> (string \<times> string option) list res" where
  "parts_of i = (case i of Parts ps \<Rightarrow> Inr ps | _ \<Rightarrow> Inl TypeError)"

text \<open>A stage that maps the blocks it gets, and one that only uses them.\<close>

definition on_blocks :: "items \<Rightarrow> (string list \<Rightarrow> ('w, string list) act) \<Rightarrow> ('w, items) engine_act" where
  "on_blocks i f = on_world (bind_act (lift_res (blocks_of i)) (\<lambda>bs. bind_act (f bs) (\<lambda>cs. ret (Blocks cs))))"

definition consume_blocks :: "items \<Rightarrow> (string list \<Rightarrow> ('w, unit) act) \<Rightarrow> ('w, items) engine_act" where
  "consume_blocks i f = on_world (bind_act (lift_res (blocks_of i)) (\<lambda>bs. bind_act (f bs) (\<lambda>_. ret Nothing)))"

definition run_stage :: "'w pipeline_env \<Rightarrow> 'w stage \<Rightarrow> items \<Rightarrow> ('w, items) engine_act" where
  "run_stage pe stage i =
     (let lf = pe_files pe; en = pe_engine pe; pc = pe_config pe in
      case stage of
        From_iterable xs \<Rightarrow> ret (Blocks xs)
      | Read_file p \<Rightarrow> on_world (bind_act (lf_read lf p) (\<lambda>d. ret (Blocks (chunks_of (pc_fs_chunk_size pc) d))))
      | Read_files_tarball_scan dir_path base exclude \<Rightarrow>
          on_world (bind_act (lf_scan lf dir_path exclude) (\<lambda>files.
            bind_act (read_files_tarball (pe_tar pe) lf (pc_fs_chunk_size pc) dir_path base files) (\<lambda>bs. ret (Blocks bs))))
      | Read_files_tarball dir_path files \<Rightarrow>
          on_world (bind_act (read_files_tarball (pe_tar pe) lf (pc_fs_chunk_size pc) dir_path '''' files)
            (\<lambda>bs. ret (Blocks bs)))
      | Read_data_tarball names datas \<Rightarrow>
          on_world (bind_act (lf_now lf) (\<lambda>now.
            ret (Blocks (read_data_tarball (pe_tar pe) (pc_fs_chunk_size pc) now names datas))))
      | Compress cp \<Rightarrow> on_blocks i (\<lambda>bs. lift_res (cp_compress cp bs))
      | Decompress cp \<Rightarrow> on_blocks i (\<lambda>bs. lift_res (cp_decompress cp bs))
      | Chunking c b \<Rightarrow> on_blocks i (rechunk_act c b)
      | Encrypt cr \<Rightarrow> on_blocks i (encrypt_stage cr)
      | Decrypt cr \<Rightarrow> on_blocks i (\<lambda>bs. lift_res (decrypt_stage cr bs))
      | Rate_limiter \<Rightarrow> on_blocks i (rate_limiter_stage pe)
      | Start_multipart_upload c path \<Rightarrow>
          bind_act (lift_res (blocks_of i)) (\<lambda>bs.
          bind_act (start_multipart_stage en c path bs None) (\<lambda>ps. ret (Parts ps)))
      | Storage_uploading path \<Rightarrow>
          bind_act (lift_res (parts_of i)) (\<lambda>ps.
          bind_act (storage_uploading_stage pe path ps) (\<lambda>_. ret (Parts ps)))
      | Complete_multipart_upload path \<Rightarrow>
          bind_act (lift_res (parts_of i)) (\<lambda>ps.
          bind_act (complete_multipart_stage en path ps) (\<lambda>_. ret Nothing))
      | Delete_files_scan p exclude \<Rightarrow> on_world (bind_act (delete_files_scan_stage lf p exclude) (\<lambda>_. ret Nothing))
      | Delete_files files \<Rightarrow> on_world (bind_act (delete_files_stage lf files) (\<lambda>_. ret Nothing))
      | Download_storage path \<Rightarrow> on_world (bind_act (download_storage_stage pe path) (\<lambda>bs. ret (Blocks bs)))
      | Write_files dir_path b \<Rightarrow> consume_blocks i (write_files_stage (pe_tar pe) lf dir_path b)
      | Unpack_tarball b \<Rightarrow>
          on_world (bind_act (lift_res (bind_res (blocks_of i) (unpack_tarball (pe_tar pe) b))) (\<lambda>fs. ret (Files fs)))
      | Collect_data \<Rightarrow> on_blocks i (\<lambda>bs. ret [concat bs])
      | Write_file target \<Rightarrow> consume_blocks i (write_file_stage lf target)
      | Delete_multiple_storage paths \<Rightarrow>
          on_world (bind_act (delete_multiple_storage_pipeline pe paths) (\<lambda>_. ret Nothing)))"

fun run_stages :: "'w pipeline_env \<Rightarrow> 'w stage list \<Rightarrow> items \<Rightarrow> ('w, items) engine_act" where
  "run_stages pe [] i = ret i"
| "run_stages pe (st # sts) i = bind_act (run_stage pe st i) (run_stages pe sts)"

text \<open>A pipeline has one engine object at most: the stages of an upload share it.\<close>

definition run_built :: "'w pipeline_env \<Rightarrow> 'w builder res \<Rightarrow> ('w, items) act" where
  "run_built pe built =
     bind_act (lift_res (bind_res built pipeline_of)) (\<lambda>stages. with_object new_engine (run_stages pe stages Nothing))"

text \<open>\<open>run\<close>, \<open>run_and_return_first\<close> and \<open>run_and_collect_all\<close>.\<close>

definition run_all :: "'w pipeline_env \<Rightarrow> 'w builder res \<Rightarrow> ('w, unit) act" where
  "run_all pe built = bind_act (run_built pe built) (\<lambda>_. ret ())"

definition run_and_return_first :: "'w pipeline_env \<Rightarrow> 'w builder res \<Rightarrow> ('w, string) act" where
  "run_and_return_first pe built =
     bind_act (run_built pe built) (\<lambda>i.
       case i of Blocks (b # bs) \<Rightarrow> ret b | Blocks [] \<Rightarrow> raise (OtherException ''StopIteration'') | _ \<Rightarrow> raise TypeError)"

definition run_and_collect_all :: "'w pipeline_env \<Rightarrow> 'w builder res \<Rightarrow> ('w, (string \<times> string) list) act" where
  "run_and_collect_all pe built =
     bind_act (run_built pe built) (\<lambda>i. case i of Files fs \<Rightarrow> ret fs | _ \<Rightarrow> raise TypeError)"

section \<open>The pipelines as they are built\<close>

definition encrypted_size_if :: "'w pipeline_env \<Rightarrow> bool \<Rightarrow> int \<Rightarrow> int res" where
  "encrypted_size_if pe encrypt estimated_size =
     (if encrypt then
        bind_res (pipeline_crypto pe) (\<lambda>crypto.
          Inr (calc_encrypted_size estimated_size (int (en_chunk_size (pc_encryption (pe_config pe))))
                 (int (cr_metadata_size crypto))))
      else Inr estimated_size)"

text \<open>The end that every uploading function shares.\<close>

definition build_encrypt_and_upload ::
  "'w pipeline_env \<Rightarrow> string \<Rightarrow> bool \<Rightarrow> int \<Rightarrow> 'w builder \<Rightarrow> 'w builder res" where
  "build_encrypt_and_upload pe remote_path encrypt estimated_size b =
     bind_res (build_if encrypt (build_encrypt_stages pe) b) (\<lambda>b.
     bind_res (encrypted_size_if pe encrypt estimated_size) (\<lambda>size.
       build_uploading_stages pe remote_path size b))"

definition run_upload_data :: "'w pipeline_env \<Rightarrow> string \<Rightarrow> string \<Rightarrow> bool \<Rightarrow> ('w, unit) act" where
  "run_upload_data pe data remote_path encrypt =
     run_all pe
       (bind_res (build_iterable_stage [data] []) (\<lambda>b.
          build_encrypt_and_upload pe remote_path encrypt (int (length data)) b))"

definition run_upload_data_tarball ::
  "'w pipeline_env \<Rightarrow> string list \<Rightarrow> string list \<Rightarrow> string \<Rightarrow> bool \<Rightarrow> bool \<Rightarrow> ('w, unit) act" where
  "run_upload_data_tarball pe file_names data_list remote_path encrypt compress =
     bind_act (lift_res (assert_res (length file_names = length data_list))) (\<lambda>_.
       let estimated_size = calc_tarball_size file_names (calc_aligned_data_size data_list BLOCKSIZE) in
       run_all pe
         (bind_res (build_read_data_tarball_stage file_names data_list []) (\<lambda>b.
          bind_res (build_if compress (build_compress_stage pe) b) (\<lambda>b.
            build_encrypt_and_upload pe remote_path encrypt estimated_size b))))"

definition run_upload_file ::
  "'w pipeline_env \<Rightarrow> string \<Rightarrow> string \<Rightarrow> bool \<Rightarrow> bool \<Rightarrow> ('w, unit) act" where
  "run_upload_file pe local_path remote_path encrypt delete_after =
     bind_act (calc_aligned_files_size (pe_files pe) [local_path] 1) (\<lambda>estimated_size.
       run_all pe
         (bind_res (build_read_file_stage local_path []) (\<lambda>b.
          bind_res (build_encrypt_and_upload pe remote_path encrypt estimated_size b) (\<lambda>b.
            build_if delete_after (build_delete_files_stage [local_path]) b))))"

definition run_upload_files_tarball_scan ::
  "'w pipeline_env \<Rightarrow> string \<Rightarrow> string \<Rightarrow> bool \<Rightarrow> bool \<Rightarrow> bool \<Rightarrow> string \<Rightarrow> string list \<Rightarrow> ('w, unit) act" where
  "run_upload_files_tarball_scan pe base_path remote_path encrypt delete_after compression tar_base_dir exclude =
     bind_act (calc_aligned_files_size_scan (pe_files pe) base_path exclude BLOCKSIZE) (\<lambda>size0.
     bind_act (calc_tarball_size_scan (pe_files pe) base_path size0 exclude) (\<lambda>estimated_size.
       run_all pe
         (bind_res (build_read_files_tarball_scan_stage base_path tar_base_dir exclude []) (\<lambda>b.
          bind_res (build_if compression (build_compress_stage pe) b) (\<lambda>b.
          bind_res (build_encrypt_and_upload pe remote_path encrypt estimated_size b) (\<lambda>b.
            build_if delete_after (build_delete_files_scan_stage base_path exclude) b))))))"

definition run_upload_files_tarball ::
  "'w pipeline_env \<Rightarrow> string \<Rightarrow> string list \<Rightarrow> string \<Rightarrow> bool \<Rightarrow> bool \<Rightarrow> bool \<Rightarrow> ('w, unit) act" where
  "run_upload_files_tarball pe base_path files remote_path encrypt delete_after compression =
     (let absolute = map (path_join base_path) files in
      bind_act (calc_aligned_files_size (pe_files pe) absolute BLOCKSIZE) (\<lambda>size0.
        let estimated_size = calc_tarball_size files size0 in
        run_all pe
          (bind_res (build_read_files_tarball_stage base_path files []) (\<lambda>b.
           bind_res (build_if compression (build_compress_stage pe) b) (\<lambda>b.
           bind_res (build_encrypt_and_upload pe remote_path encrypt estimated_size b) (\<lambda>b.
             build_if delete_after (build_delete_files_stage absolute) b))))))"

definition build_download :: "'w pipeline_env \<Rightarrow> string \<Rightarrow> bool \<Rightarrow> bool \<Rightarrow> 'w builder res" where
  "build_download pe remote_path decrypt decompress =
     bind_res (build_download_storage_stage remote_path []) (\<lambda>b.
     bind_res (build_if decrypt (build_decrypt_stages pe) b) (\<lambda>b.
       build_if decompress (build_decompress_stage pe) b))"

definition run_download_data :: "'w pipeline_env \<Rightarrow> string \<Rightarrow> bool \<Rightarrow> ('w, string) act" where
  "run_download_data pe remote_path decrypt =
     run_and_return_first pe (bind_res (build_download pe remote_path decrypt False) build_collect_data_stage)"

definition run_download_data_tarball ::
  "'w pipeline_env \<Rightarrow> string \<Rightarrow> bool \<Rightarrow> bool \<Rightarrow> ('w, (string \<times> string) list) act" where
  "run_download_data_tarball pe remote_path decrypt decompress =
     run_and_collect_all pe
       (bind_res (build_download pe remote_path decrypt decompress) (build_unpack_data_tarball_stage pe))"

definition run_download_file :: "'w pipeline_env \<Rightarrow> string \<Rightarrow> file_target \<Rightarrow> bool \<Rightarrow> bool \<Rightarrow> ('w, unit) act" where
  "run_download_file pe remote_path target decrypt decompress =
     run_all pe (bind_res (build_download pe remote_path decrypt decompress) (build_write_file_stage target))"

definition run_download_files :: "'w pipeline_env \<Rightarrow> string \<Rightarrow> string \<Rightarrow> bool \<Rightarrow> bool \<Rightarrow> ('w, unit) act" where
  "run_download_files pe remote_path local_path decrypt decompress =
     run_all pe (bind_res (build_download pe remote_path decrypt decompress) (build_write_files_stages pe local_path))"

definition run_delete_multiple_storage :: "'w pipeline_env \<Rightarrow> string list \<Rightarrow> ('w, unit) act" where
  "run_delete_multiple_storage pe remote_paths = run_all pe (build_delete_multiple_storage_stage remote_paths [])"

section \<open>A built pipeline is the composition of its stages\<close>

lemma bind_act_assoc: "bind_act (bind_act m f) g = bind_act m (\<lambda>x. bind_act (f x) g)"
  by (auto simp: fun_eq_iff bind_act_def split: prod.splits sum.splits)

lemma bind_act_ret_right: "bind_act m ret = m"
  by (auto simp: fun_eq_iff bind_act_def split: prod.splits sum.splits)

lemma with_object_world:
  "with_object b (bind_act (on_world m) f) = bind_act m (\<lambda>x. with_object b (f x))"
  "with_object b (on_world m) = m"
  by (auto simp: fun_eq_iff bind_act_def with_object_def on_world_def split: prod.splits sum.splits)

lemma with_object_then:
  "with_object b (bind_act m (\<lambda>_. on_world k)) = bind_act (with_object b m) (\<lambda>_. k)"
  by (auto simp: fun_eq_iff bind_act_def with_object_def on_world_def split: prod.splits sum.splits)

lemma with_object_ret: "with_object b (ret y) = ret y"
  by (simp add: fun_eq_iff with_object_def)

lemma on_blocks_Blocks:
  "on_blocks (Blocks bs) f = on_world (bind_act (f bs) (\<lambda>cs. ret (Blocks cs)))"
  "consume_blocks (Blocks bs) g = on_world (bind_act (g bs) (\<lambda>_. ret Nothing))"
  by (simp_all add: on_blocks_def consume_blocks_def blocks_of_def)

lemma on_world_ret: "on_world (ret x) = ret x"
  by (simp add: fun_eq_iff on_world_def)

lemmas built_defs =
  run_stage_def on_blocks_Blocks with_object_world with_object_then with_object_ret bind_act_assoc bind_act_ret_right on_world_ret blocks_of_def parts_of_def
  Let_def

text \<open>The stages that the configuration of a valid pipeline asks for.\<close>

definition upload_tail :: "'w pipeline_env \<Rightarrow> string \<Rightarrow> nat \<Rightarrow> 'w stage list" where
  "upload_tail pe path multiplier =
     [Rate_limiter, Chunking (pc_chunk_size (pe_config pe) * multiplier) (pc_buffer_size (pe_config pe) * multiplier),
      Start_multipart_upload (pc_chunk_size (pe_config pe) * multiplier) path, Storage_uploading path,
      Complete_multipart_upload path]"

lemma run_upload_parts:
  assumes "run_stages pe rest Nothing = on_world k"
  shows "run_stages pe ([Start_multipart_upload c path, Storage_uploading path, Complete_multipart_upload path] @ rest)
      (Blocks bs) =
    bind_act (upload_chunks pe c path bs) (\<lambda>_. on_world k)"
  by (simp add: assms built_defs upload_chunks_def)

lemma run_upload_tail:
  assumes "uploading_multiplier (pe_config pe) source_size = Inr multiplier" "run_stages pe rest Nothing = on_world k"
  shows "with_object new_engine (run_stages pe (upload_tail pe path multiplier @ rest) (Blocks bs)) =
    bind_act (build_uploading_stage pe path source_size bs) (\<lambda>_. k)"
  using run_upload_parts [OF assms(2), of "pc_chunk_size (pe_config pe) * multiplier" path]
  by (simp add: upload_tail_def on_blocks_Blocks with_object_world with_object_then bind_act_assoc run_stage_def [of pe Rate_limiter]
      run_stage_def [of pe "Chunking c b" for c b] Let_def build_uploading_stage_def assms(1))

text \<open>A configuration with which every stage can be built.\<close>

definition stages_valid :: "'w pipeline_env \<Rightarrow> bool \<Rightarrow> bool \<Rightarrow> bool" where
  "stages_valid pe encrypt compress \<longleftrightarrow>
     0 < pc_chunk_size (pe_config pe) \<and> 0 < pc_max_chunk_count (pe_config pe) \<and>
     (encrypt \<longrightarrow> (case pipeline_crypto pe of Inr _ \<Rightarrow> True | Inl _ \<Rightarrow> False)) \<and>
     (compress \<longrightarrow> (case pe_compression pe of Inr _ \<Rightarrow> True | Inl _ \<Rightarrow> False))"

lemma built_encrypt_and_upload:
  assumes "stages_valid pe encrypt compress"
  obtains tail where "\<And>b. build_encrypt_and_upload pe path encrypt estimated_size b = Inr (b @ tail)"
    "\<And>rest k bs. run_stages pe rest Nothing = on_world k \<Longrightarrow>
       with_object new_engine (run_stages pe (tail @ rest) (Blocks bs)) =
       bind_act (encrypt_and_upload pe path encrypt estimated_size bs) (\<lambda>_. k)"
proof (cases encrypt)
  case False
  obtain m where m: "uploading_multiplier (pe_config pe) estimated_size = Inr m"
    using assms uploading_multiplier_Inr [of "pe_config pe" estimated_size] by (auto simp: stages_valid_def)
  show ?thesis
  proof (rule that [of "upload_tail pe path m"])
    show "build_encrypt_and_upload pe path encrypt estimated_size b = Inr (b @ upload_tail pe path m)" for b
      using False m by (simp add: build_encrypt_and_upload_def build_if_def encrypted_size_if_def
          build_uploading_stages_def upload_tail_def bind_res_def Let_def)
    show "with_object new_engine (run_stages pe (upload_tail pe path m @ rest) (Blocks bs)) =
        bind_act (encrypt_and_upload pe path encrypt estimated_size bs) (\<lambda>_. k)"
      if "run_stages pe rest Nothing = on_world k" for rest k bs
      using run_upload_tail [OF m that] False by (simp add: encrypt_and_upload_def encrypt_if_def)
  qed
next
  case True
  let ?ec = "pc_encryption (pe_config pe)"
  obtain cr where cr: "pipeline_crypto pe = Inr cr"
    using assms True by (auto simp: stages_valid_def split: sum.splits)
  let ?size = "calc_encrypted_size estimated_size (int (en_chunk_size ?ec)) (int (cr_metadata_size cr))"
  obtain m where m: "uploading_multiplier (pe_config pe) ?size = Inr m"
    using assms uploading_multiplier_Inr [of "pe_config pe" ?size] by (auto simp: stages_valid_def)
  let ?tail = "[Chunking (en_chunk_size ?ec) (en_buffer_size ?ec), Encrypt cr] @ upload_tail pe path m"
  show ?thesis
  proof (rule that [of ?tail])
    show "build_encrypt_and_upload pe path encrypt estimated_size b = Inr (b @ ?tail)" for b
      using True m cr by (simp add: build_encrypt_and_upload_def build_if_def encrypted_size_if_def
          build_encrypt_stages_def build_uploading_stages_def upload_tail_def bind_res_def Let_def)
    show "with_object new_engine (run_stages pe (?tail @ rest) (Blocks bs)) =
        bind_act (encrypt_and_upload pe path encrypt estimated_size bs) (\<lambda>_. k)"
      if "run_stages pe rest Nothing = on_world k" for rest k bs
      using run_upload_tail [OF m that] True cr
      by (simp add: built_defs encrypt_and_upload_def encrypt_if_def build_encrypt_stage_def)
  qed
qed

lemma run_built_Inr:
  assumes "built = Inr stages" "pipeline_of stages = Inr (From_iterable [] # stages)"
  shows "run_built pe built = with_object new_engine (run_stages pe stages (Blocks []))"
  using assms by (simp add: run_built_def bind_res_def run_stage_def [of pe "From_iterable []"] Let_def del: act_simps)

lemma bind_act_unit: "bind_act m (\<lambda>_. ret ()) = m" "bind_act m (\<lambda>_. bind_act k (\<lambda>_. ret ())) = bind_act m (\<lambda>_. k)"
  by (simp_all add: fun_eq_iff bind_act_def split: prod.splits sum.splits)

text \<open>Deleting what was uploaded, or nothing, after the upload.\<close>

lemma run_stages_one: "run_stages pe [st] i = run_stage pe st i"
proof -
  have "run_stages pe [] = ret" by (simp add: fun_eq_iff)
  then show ?thesis by (simp add: bind_act_ret_right)
qed

lemma run_delete_stages:
  "run_stages pe (if delete_after then [Delete_files files] else []) Nothing =
     on_world (bind_act (when_act delete_after (delete_files_stage (pe_files pe) files)) (\<lambda>_. ret Nothing))"
  "run_stages pe (if delete_after then [Delete_files_scan dir exclude] else []) Nothing =
     on_world (bind_act (when_act delete_after (delete_files_scan_stage (pe_files pe) dir exclude)) (\<lambda>_. ret Nothing))"
  by (cases delete_after; simp only: if_True if_False run_stages_one;
      simp add: run_stage_def when_act_def fun_eq_iff on_world_def)+

theorem run_upload_data_pipeline:
  assumes "stages_valid pe encrypt compress"
  shows "run_upload_data pe data remote_path encrypt = upload_data_pipeline pe data remote_path encrypt"
proof -
  obtain tail where tail: "\<And>b. build_encrypt_and_upload pe remote_path encrypt (int (length data)) b = Inr (b @ tail)"
    "\<And>rest k bs. run_stages pe rest Nothing = on_world k \<Longrightarrow>
       with_object new_engine (run_stages pe (tail @ rest) (Blocks bs)) =
       bind_act (encrypt_and_upload pe remote_path encrypt (int (length data)) bs) (\<lambda>_. k)"
    using built_encrypt_and_upload [OF assms] by metis
  have "run_stages pe [] Nothing = on_world (ret Nothing)" by (simp add: on_world_ret del: act_simps)
  from tail(2) [OF this] show ?thesis
    by (simp add: run_upload_data_def run_all_def run_built_def build_iterable_stage_def tail(1) bind_res_def
        pipeline_of_def run_stage_def upload_data_pipeline_def Let_def bind_act_assoc bind_act_ret_right del: act_simps)
qed

lemma bind_res_Inr_right: "bind_res r Inr = r"
  by (cases r) (simp_all add: bind_res_def)

lemma build_if_delete:
  "build_if d (build_delete_files_stage files) b = Inr (b @ (if d then [Delete_files files] else []))"
  "build_if d (build_delete_files_scan_stage dir exclude) b = Inr (b @ (if d then [Delete_files_scan dir exclude] else []))"
  by (simp_all add: build_if_def build_delete_files_stage_def build_delete_files_scan_stage_def)

text \<open>Stages at the beginning of a pipeline that produce blocks by an operation of the world.\<close>

definition produces :: "'w pipeline_env \<Rightarrow> 'w stage list \<Rightarrow> ('w, string list) act \<Rightarrow> bool" where
  "produces pe stages m \<longleftrightarrow>
     (\<forall>rest. pipeline_of (stages @ rest) = Inr (From_iterable [] # stages @ rest) \<and>
        with_object new_engine (run_stages pe (stages @ rest) (Blocks [])) =
        bind_act m (\<lambda>bs. with_object new_engine (run_stages pe rest (Blocks bs))))"

lemma run_uploading:
  assumes "stages_valid pe encrypt compress" "produces pe stages m"
    "run_stages pe rest Nothing = on_world (bind_act k (\<lambda>_. ret Nothing))"
  shows "run_all pe (bind_res (build_encrypt_and_upload pe path encrypt size0 stages) (\<lambda>b. Inr (b @ rest))) =
    bind_act m (\<lambda>bs. bind_act (encrypt_and_upload pe path encrypt size0 bs) (\<lambda>_. k))"
proof -
  obtain tail where tail: "\<And>b. build_encrypt_and_upload pe path encrypt size0 b = Inr (b @ tail)"
    "\<And>rest k bs. run_stages pe rest Nothing = on_world k \<Longrightarrow>
       with_object new_engine (run_stages pe (tail @ rest) (Blocks bs)) =
       bind_act (encrypt_and_upload pe path encrypt size0 bs) (\<lambda>_. k)"
    using built_encrypt_and_upload [OF assms(1)] by metis
  from assms(2) have "run_built pe (Inr (stages @ tail @ rest)) =
      bind_act m (\<lambda>bs. with_object new_engine (run_stages pe (tail @ rest) (Blocks bs)))"
    by (simp add: produces_def run_built_Inr)
  with tail(2) [OF assms(3)] show ?thesis
    by (simp add: run_all_def tail(1) bind_res_def bind_act_assoc bind_act_ret_right del: act_simps)
qed

lemma produces_compressed:
  assumes "stages_valid pe encrypt compress" "produces pe [st] m"
  obtains stages where "build_if compress (build_compress_stage pe) [st] = Inr stages"
    "produces pe stages (bind_act m (compress_if pe compress))"
proof (cases compress)
  case False
  then have "compress_if pe compress = ret" by (simp add: fun_eq_iff compress_if_def)
  with False assms(2) that [of "[st]"] show ?thesis by (simp add: build_if_def bind_act_ret_right)
next
  case True
  with assms(1) obtain cp where cp: "pe_compression pe = Inr cp" by (auto simp: stages_valid_def split: sum.splits)
  show ?thesis
  proof (rule that [of "[st, Compress cp]"])
    show "build_if compress (build_compress_stage pe) [st] = Inr [st, Compress cp]"
      using True cp by (simp add: build_if_def build_compress_stage_def bind_res_def)
    have "pipeline_of ([st] @ rest) = Inr (From_iterable [] # [st] @ rest)" for rest
      using assms(2) by (simp only: produces_def)
    then have "pipeline_of ([st, Compress cp] @ rest) = Inr (From_iterable [] # [st, Compress cp] @ rest)" for rest
      by (metis append_Cons append_Nil)
    moreover have "with_object new_engine (run_stages pe ([st] @ Compress cp # rest) (Blocks [])) =
        bind_act m (\<lambda>bs. with_object new_engine (run_stages pe (Compress cp # rest) (Blocks bs)))" for rest
      using assms(2) by (simp only: produces_def)
    ultimately show "produces pe [st, Compress cp] (bind_act m (compress_if pe compress))"
      using True cp by (simp add: produces_def built_defs compress_if_def bind_res_def del: act_simps)
  qed
qed

lemma produces_sources:
  "produces pe [Read_file p] (bind_act (lf_read (pe_files pe) p) (\<lambda>d. ret (chunks_of (pc_fs_chunk_size (pe_config pe)) d)))"
  "produces pe [Read_files_tarball_scan dir base exclude]
     (bind_act (lf_scan (pe_files pe) dir exclude)
        (read_files_tarball (pe_tar pe) (pe_files pe) (pc_fs_chunk_size (pe_config pe)) dir base))"
  "produces pe [Read_files_tarball dir files]
     (read_files_tarball (pe_tar pe) (pe_files pe) (pc_fs_chunk_size (pe_config pe)) dir '''' files)"
  "produces pe [Read_data_tarball names datas]
     (bind_act (lf_now (pe_files pe)) (\<lambda>now.
        ret (read_data_tarball (pe_tar pe) (pc_fs_chunk_size (pe_config pe)) now names datas)))"
  by (simp_all add: produces_def pipeline_of_def built_defs del: act_simps)

lemma no_delete: "run_stages pe [] Nothing = on_world (bind_act (ret ()) (\<lambda>_. ret Nothing))"
  by (simp add: on_world_ret del: act_simps)

theorem run_upload_data_tarball_pipeline:
  assumes "stages_valid pe encrypt compress"
  shows "run_upload_data_tarball pe file_names data_list remote_path encrypt compress =
    upload_data_tarball_pipeline pe file_names data_list remote_path encrypt compress"
proof -
  obtain stages where stages: "build_if compress (build_compress_stage pe) [Read_data_tarball file_names data_list] = Inr stages"
    "produces pe stages (bind_act (bind_act (lf_now (pe_files pe)) (\<lambda>now.
        ret (read_data_tarball (pe_tar pe) (pc_fs_chunk_size (pe_config pe)) now file_names data_list)))
        (compress_if pe compress))"
    using produces_compressed [OF assms produces_sources(4)] by metis
  from run_uploading [OF assms stages(2) no_delete] stages(1) show ?thesis
    by (simp add: run_upload_data_tarball_def upload_data_tarball_pipeline_def build_read_data_tarball_stage_def
        bind_res_Inr_right bind_act_assoc bind_act_ret_right assert_res_def Let_def del: act_simps)
qed

theorem run_upload_file_pipeline:
  assumes "stages_valid pe encrypt compress"
  shows "run_upload_file pe local_path remote_path encrypt delete_after =
    upload_file_pipeline pe local_path remote_path encrypt delete_after"
  using run_uploading [OF assms produces_sources(1) run_delete_stages(1) [of pe delete_after "[local_path]"]]
  by (simp add: run_upload_file_def upload_file_pipeline_def build_read_file_stage_def build_if_delete
      bind_act_assoc del: act_simps)


theorem run_upload_files_tarball_pipeline:
  assumes "stages_valid pe encrypt compression"
  shows "run_upload_files_tarball pe base_path files remote_path encrypt delete_after compression =
    upload_files_tarball_pipeline pe base_path files remote_path encrypt delete_after compression"
proof -
  let ?read = "read_files_tarball (pe_tar pe) (pe_files pe) (pc_fs_chunk_size (pe_config pe)) base_path '''' files"
  let ?absolute = "map (path_join base_path) files"
  obtain stages where stages:
    "build_if compression (build_compress_stage pe) [Read_files_tarball base_path files] = Inr stages"
    "produces pe stages (bind_act ?read (compress_if pe compression))"
    using produces_compressed [OF assms produces_sources(3)] by metis
  from run_uploading [OF assms stages(2) run_delete_stages(1) [of pe delete_after ?absolute]] stages(1)
  show ?thesis
    by (simp add: run_upload_files_tarball_def upload_files_tarball_pipeline_def
        build_read_files_tarball_stage_def build_if_delete bind_act_assoc Let_def del: act_simps)
qed

text \<open>Downloads: the stages in front of the last one produce the stream of \<open>download_stream\<close>.\<close>

lemma produces_append:
  assumes "produces pe stages m" "\<And>rest bs. with_object new_engine (run_stages pe (ends @ rest) (Blocks bs)) =
    bind_act (f bs) (\<lambda>cs. with_object new_engine (run_stages pe rest (Blocks cs)))"
  shows "produces pe (stages @ ends) (bind_act m f)"
  using assms by (simp add: produces_def bind_act_assoc)

lemma built_download:
  assumes "stages_valid pe decrypt decompress"
  obtains stages where "build_download pe remote_path decrypt decompress = Inr stages"
    "produces pe stages (download_stream pe remote_path decrypt decompress)"
proof -
  let ?ec = "pc_encryption (pe_config pe)"
  obtain more1 where more1: "\<And>b. build_if decrypt (build_decrypt_stages pe) b = Inr (b @ more1)"
    "\<And>rest bs. with_object new_engine (run_stages pe (more1 @ rest) (Blocks bs)) =
       bind_act (decrypt_if pe decrypt bs) (\<lambda>cs. with_object new_engine (run_stages pe rest (Blocks cs)))"
  proof (cases decrypt)
    case False
    with that [of "[]"] show ?thesis by (simp add: build_if_def decrypt_if_def)
  next
    case True
    with assms obtain cr where "pipeline_crypto pe = Inr cr" by (auto simp: stages_valid_def split: sum.splits)
    with True that [of "[Chunking (en_chunk_size ?ec + cr_metadata_size cr) (en_buffer_size ?ec), Decrypt cr]"]
    show ?thesis
      by (simp add: build_if_def build_decrypt_stages_def decrypt_if_def build_decrypt_stage_def built_defs
          del: act_simps)
  qed
  obtain more2 where more2: "\<And>b. build_if decompress (build_decompress_stage pe) b = Inr (b @ more2)"
    "\<And>rest bs. with_object new_engine (run_stages pe (more2 @ rest) (Blocks bs)) =
       bind_act (decompress_if pe decompress bs) (\<lambda>cs. with_object new_engine (run_stages pe rest (Blocks cs)))"
  proof (cases decompress)
    case False
    with that [of "[]"] show ?thesis by (simp add: build_if_def decompress_if_def)
  next
    case True
    with assms obtain cp where "pe_compression pe = Inr cp" by (auto simp: stages_valid_def split: sum.splits)
    with True that [of "[Decompress cp]"] show ?thesis
      by (simp add: build_if_def build_decompress_stage_def decompress_if_def built_defs del: act_simps)
  qed
  have "produces pe [Download_storage remote_path] (download_storage_stage pe remote_path)"
    by (simp add: produces_def pipeline_of_def built_defs del: act_simps)
  from produces_append [OF produces_append [OF this more1(2)] more2(2)]
  have "produces pe ([Download_storage remote_path] @ more1 @ more2) (download_stream pe remote_path decrypt decompress)"
    by (simp add: download_stream_def bind_act_assoc)
  moreover have "build_download pe remote_path decrypt decompress = Inr ([Download_storage remote_path] @ more1 @ more2)"
    by (simp add: build_download_def build_download_storage_stage_def more1(1) more2(1))
  ultimately show ?thesis using that by blast
qed

lemma run_downloading:
  assumes "produces pe stages m"
  shows "run_built pe (Inr (stages @ rest)) = bind_act m (\<lambda>bs. with_object new_engine (run_stages pe rest (Blocks bs)))"
  using assms by (simp add: produces_def run_built_Inr)

theorem run_download_data_pipeline:
  assumes "stages_valid pe decrypt False"
  shows "run_download_data pe remote_path decrypt = download_data_pipeline pe remote_path decrypt"
proof -
  obtain stages where "build_download pe remote_path decrypt False = Inr stages"
    "produces pe stages (download_stream pe remote_path decrypt False)" using built_download [OF assms] by metis
  then show ?thesis
    by (simp add: run_download_data_def run_and_return_first_def build_collect_data_stage_def run_downloading
        run_stages_one run_stage_def on_blocks_Blocks with_object_world bind_act_assoc download_data_pipeline_def
        del: run_stages.simps act_simps)
qed

theorem run_download_data_tarball_pipeline:
  assumes "stages_valid pe decrypt decompress"
  shows "run_download_data_tarball pe remote_path decrypt decompress =
    download_data_tarball_pipeline pe remote_path decrypt decompress"
proof -
  obtain stages where "build_download pe remote_path decrypt decompress = Inr stages"
    "produces pe stages (download_stream pe remote_path decrypt decompress)" using built_download [OF assms] by metis
  then show ?thesis
    by (simp add: run_download_data_tarball_def run_and_collect_all_def build_unpack_data_tarball_stage_def
        run_downloading run_stages_one run_stage_def blocks_of_def with_object_world bind_act_assoc bind_act_ret_right
        download_data_tarball_pipeline_def Let_def del: run_stages.simps act_simps)
qed

theorem run_download_file_pipelines:
  assumes "stages_valid pe decrypt decompress"
  shows "run_download_file pe remote_path target decrypt decompress =
      download_file_pipeline pe remote_path target decrypt decompress"
    "run_download_files pe remote_path local_path decrypt decompress =
      download_files_pipeline pe remote_path local_path decrypt decompress"
proof -
  obtain stages where stages: "build_download pe remote_path decrypt decompress = Inr stages"
    "produces pe stages (download_stream pe remote_path decrypt decompress)" using built_download [OF assms] by metis
  then show "run_download_file pe remote_path target decrypt decompress =
      download_file_pipeline pe remote_path target decrypt decompress"
    by (simp add: run_download_file_def run_all_def build_write_file_stage_def run_downloading run_stages_one
        run_stage_def on_blocks_Blocks with_object_world bind_act_assoc bind_act_unit bind_act_ret_right
        download_file_pipeline_def Let_def del: run_stages.simps act_simps)
  from stages show "run_download_files pe remote_path local_path decrypt decompress =
      download_files_pipeline pe remote_path local_path decrypt decompress"
    by (simp add: run_download_files_def run_all_def build_write_files_stages_def run_downloading
        built_defs bind_act_unit download_files_pipeline_def del: act_simps)
qed

theorem run_delete_multiple_storage_pipeline:
  "run_delete_multiple_storage pe remote_paths = delete_multiple_storage_pipeline pe remote_paths"
  by (simp add: run_delete_multiple_storage_def run_all_def build_delete_multiple_storage_stage_def run_built_Inr
      pipeline_of_def built_defs del: act_simps)

section \<open>An upload in memory\<close>

definition stored_compression :: compression where
  "stored_compression = \<lparr>cp_compress = Inr, cp_decompress = Inr\<rparr>"

definition built_env :: "world pipeline_env" where
  "built_env =
     (memory_env 3 (Some ''0123456789abcdef0123456789abcdef'')
        \<lparr>tf_tobuf = \<lambda>n s t. n, tf_frombuf = \<lambda>h. Inl TypeError\<rparr> (\<lambda>_. []))
       \<lparr>pe_compression := Inr stored_compression\<rparr>"

lemma built_env_valid: "stages_valid built_env True True"
  by (simp add: stages_valid_def built_env_def pipeline_crypto_def memory_env_def memory_config_def
      get_encryption_def default_encryption_config_def nacl_encryption_def plain_box_def)


end
