(* ===== verification/Handlers.thy ===== *)
theory Handlers
  imports Builder
begin

text \<open>
  The handlers of the stages and the runners that drive them in a thread: \<^verbatim>\<open>base_pipeline/handler.py\<close>, \<^verbatim>\<open>map.py\<close>,
  \<^verbatim>\<open>flat_map.py\<close> and \<^verbatim>\<open>input.py\<close>. A handler is an object with a state; its runner calls \<open>on_start\<close>, the handler for every
  element of the input queue, and \<open>on_done\<close>, and puts what they return on the output queue. The other theories state a stage
  as one function from the stream to the stream: here each of them is the run of its handler.
\<close>

declare act_simps [simp del]

section \<open>Handlers and runners\<close>

record ('s, 'a, 'b) handler =
  hd_on_start :: "('s, 'b option) act"
  hd_call :: "'a \<Rightarrow> nat \<Rightarrow> ('s, 'b option) act"
  hd_on_done :: "('s, 'b option) act"

record ('s, 'a, 'b) iterable_handler =
  ih_on_start :: "('s, 'b list option) act"
  ih_call :: "'a \<Rightarrow> nat \<Rightarrow> ('s, 'b list option) act"
  ih_on_done :: "('s, 'b list option) act"

record ('s, 'b) input_handler =
  nh_on_start :: "('s, 'b option) act"
  nh_call :: "('s, 'b option list option) act"
  nh_on_done :: "('s, 'b option) act"

text \<open>An element of a queue is a value with its index.\<close>

type_synonym 'a elements = "('a \<times> nat) list"

definition elements :: "'a list \<Rightarrow> 'a elements" where
  "elements xs = zip xs [0..<length xs]"

text \<open>The methods that a class does not override.\<close>

definition nothing :: "('s, 'b option) act" where
  "nothing = ret None"

definition map_process :: "('s, 'a, 'b) handler \<Rightarrow> 'a elements \<Rightarrow> ('s, 'b option list) act" where
  "map_process h input_queue =
     bind_act (hd_on_start h) (\<lambda>first.
     bind_act (map_act (\<lambda>(x, i). hd_call h x i) input_queue) (\<lambda>results.
     bind_act (hd_on_done h) (\<lambda>final. ret (first # results @ [final]))))"

text \<open>Values that are \<open>None\<close> are skipped, and only the others are counted.\<close>

fun put_values :: "nat \<Rightarrow> 'b option list \<Rightarrow> 'b elements" where
  "put_values idx [] = []"
| "put_values idx (None # vs) = put_values idx vs"
| "put_values idx (Some v # vs) = (v, idx) # put_values (Suc idx) vs"

definition map_run :: "('s, 'a, 'b) handler \<Rightarrow> 'a elements \<Rightarrow> ('s, 'b elements) act" where
  "map_run h input_queue = bind_act (map_process h input_queue) (\<lambda>vs. ret (put_values 0 vs))"

definition or_nothing :: "'b list option \<Rightarrow> 'b list" where
  "or_nothing r = (case r of None \<Rightarrow> [] | Some vs \<Rightarrow> vs)"

definition flat_map_process :: "('s, 'a, 'b) iterable_handler \<Rightarrow> 'a elements \<Rightarrow> ('s, 'b list) act" where
  "flat_map_process h input_queue =
     bind_act (ih_on_start h) (\<lambda>first.
     bind_act (map_act (\<lambda>(x, i). ih_call h x i) input_queue) (\<lambda>results.
     bind_act (ih_on_done h) (\<lambda>final.
       ret (or_nothing first @ concat (map or_nothing results) @ or_nothing final))))"

definition flat_map_run :: "('s, 'a, 'b) iterable_handler \<Rightarrow> 'a elements \<Rightarrow> ('s, 'b elements) act" where
  "flat_map_run h input_queue = bind_act (flat_map_process h input_queue) (\<lambda>vs. ret (elements vs))"

definition input_process :: "('s, 'b) input_handler \<Rightarrow> ('s, 'b option list) act" where
  "input_process h =
     bind_act (nh_on_start h) (\<lambda>first.
     bind_act (nh_call h) (\<lambda>results.
     bind_act (nh_on_done h) (\<lambda>final.
       ret (first # (case results of None \<Rightarrow> [] | Some vs \<Rightarrow> vs) @ [final]))))"

definition input_run :: "('s, 'b) input_handler \<Rightarrow> ('s, 'b elements) act" where
  "input_run h = bind_act (input_process h) (\<lambda>vs. ret (put_values 0 vs))"

section \<open>What is put on the queue\<close>

lemma elements_Nil [simp]: "elements [] = []"
  by (simp add: elements_def)

lemma map_fst_elements [simp]: "map fst (elements xs) = xs"
  by (simp add: elements_def)

lemma length_elements [simp]: "length (elements xs) = length xs"
  by (simp add: elements_def)

text \<open>The values that are no \<open>None\<close>.\<close>

definition somes :: "'b option list \<Rightarrow> 'b list" where
  "somes vs = map the (filter (\<lambda>v. v \<noteq> None) vs)"

lemma somes_simps [simp]:
  "somes [] = []" "somes (None # vs) = somes vs" "somes (Some v # vs) = v # somes vs" "somes (vs @ ws) = somes vs @ somes ws"
  "somes (map Some ys) = ys" "somes (map (\<lambda>_. None) zs) = []"
  by (auto simp: somes_def comp_def)

lemma put_values_zip: "put_values n vs = zip (somes vs) [n..<n + length (somes vs)]"
proof (induction n vs rule: put_values.induct)
  case (3 n v vs)
  have "[n..<n + Suc k] = n # [Suc n..<Suc n + k]" for k by (simp add: upt_conv_Cons del: upt_Suc)
  with 3 show ?case by (simp del: upt_Suc)
qed simp_all

text \<open>The values that are passed on are numbered from zero without a gap: the uploading stage takes the number of
  a part from it.\<close>

theorem put_values_elements: "put_values 0 vs = elements (somes vs)"
  by (simp add: put_values_zip elements_def)

lemma map_act_fst: "map_act (\<lambda>(x, i). f x) zs = map_act f (map fst zs)"
  by (induction zs) auto

lemma map_act_elements: "map_act (\<lambda>(x, i). f x) (elements xs) = map_act f xs"
  by (simp add: map_act_fst)

lemma map_run_elements:
  assumes "hd_call h = (\<lambda>x i. call x)"
  shows "map_run h (elements xs) =
    bind_act (hd_on_start h) (\<lambda>first.
    bind_act (map_act call xs) (\<lambda>results.
    bind_act (hd_on_done h) (\<lambda>final. ret (elements (somes (first # results @ [final]))))))"
  by (simp add: map_run_def map_process_def bind_act_assoc assms map_act_elements put_values_elements)

section \<open>The stages\<close>

text \<open>\<open>with_object\<close> makes the handler with its state before the stream starts.\<close>

definition encrypt_handler :: "'w crypto \<Rightarrow> ('w, string, string) handler" where
  "encrypt_handler crypto =
     \<lparr>hd_on_start = nothing,
      hd_call = \<lambda>data index. bind_act (cr_encrypt crypto data) (\<lambda>encrypted_data. ret (Some encrypted_data)),
      hd_on_done = nothing\<rparr>"

definition decrypt_handler :: "'w crypto \<Rightarrow> ('w, string, string) handler" where
  "decrypt_handler crypto =
     \<lparr>hd_on_start = nothing,
      hd_call = \<lambda>data index. bind_act (lift_res (cr_decrypt crypto data)) (\<lambda>decrypted_data. ret (Some decrypted_data)),
      hd_on_done = nothing\<rparr>"

lemma map_act_Some: "map_act (\<lambda>x. bind_act (f x) (\<lambda>y. ret (Some y))) xs = bind_act (map_act f xs) (\<lambda>ys. ret (map Some ys))"
  by (induction xs) (simp_all add: bind_act_assoc)

theorem encrypt_stage_runs:
  "map_run (encrypt_handler cr) (elements vs) = bind_act (encrypt_stage cr vs) (\<lambda>bs. ret (elements bs))"
  by (simp add: map_run_elements [of _ "\<lambda>data. bind_act (cr_encrypt cr data) (\<lambda>e. ret (Some e))"] encrypt_handler_def
      nothing_def map_act_Some bind_act_assoc encrypt_stage_def)

lemma map_act_lift_apply: "map_act (\<lambda>x. lift_res (f x)) xs s = (map_res f xs, s)"
  by (induction xs) (auto simp: bind_act_def bind_res_def ret_def lift_res_def split: sum.splits)

lemma map_act_lift: "map_act (\<lambda>x. lift_res (f x)) xs = lift_res (map_res f xs)"
  by (rule ext) (simp add: map_act_lift_apply lift_res_def)

theorem decrypt_stage_runs:
  "map_run (decrypt_handler cr) (elements vs) =
     bind_act (lift_res (decrypt_stage cr vs)) (\<lambda>bs. ret (elements bs))"
  by (simp add: map_run_elements [of _ "\<lambda>data. bind_act (lift_res (cr_decrypt cr data)) (\<lambda>e. ret (Some e))"]
      decrypt_handler_def nothing_def map_act_Some bind_act_assoc decrypt_stage_def map_act_lift)

text \<open>Compressing and decompressing: data of length zero is not passed on.\<close>

definition some_data :: "string \<Rightarrow> string option" where
  "some_data data = (if length data > 0 then Some data else None)"

definition codec_handler :: "'z codec \<Rightarrow> ('z, string, string) handler" where
  "codec_handler cd =
     \<lparr>hd_on_start = nothing,
      hd_call = \<lambda>data index. bind_act (cd_step cd data) (\<lambda>out. ret (some_data out)),
      hd_on_done = (\<lambda>z. (bind_res (cd_flush cd z) (\<lambda>out. Inr (some_data out)), z))\<rparr>"

text \<open>The stage that decompresses has the same methods, on a codec that decompresses.\<close>

definition compress_handler :: "'z codec \<Rightarrow> ('z, string, string) handler" where
  "compress_handler compressor = codec_handler compressor"

definition decompress_handler :: "'z codec \<Rightarrow> ('z, string, string) handler" where
  "decompress_handler decompressor = codec_handler decompressor"

lemma somes_some_data: "somes [some_data d] = keep_data d" "somes (some_data d # vs) = keep_data d @ somes vs"
  by (simp_all add: some_data_def keep_data_def)

lemma codec_calls_map_act:
  "codec_calls cd vs z =
     (case map_act (\<lambda>data. bind_act (cd_step cd data) (\<lambda>out. ret (some_data out))) vs z of
        (Inl e, z1) \<Rightarrow> Inl e | (Inr os, z1) \<Rightarrow> Inr (somes os, z1))"
  by (induction vs arbitrary: z)
    (auto simp: bind_act_def bind_res_def act_simps somes_some_data split: prod.splits sum.splits)

theorem codec_stage_runs:
  "fst (map_run (codec_handler cd) (elements vs) z) = bind_res (codec_stage cd z vs) (\<lambda>bs. Inr (elements bs))"
  by (simp add: map_run_elements [of _ "\<lambda>data. bind_act (cd_step cd data) (\<lambda>out. ret (some_data out))"]
      codec_handler_def nothing_def codec_stage_def codec_calls_map_act)
    (auto simp: bind_act_def bind_res_def act_simps somes_some_data split: prod.splits sum.splits)

text \<open>Handlers that yield several values for one.\<close>

definition chunking_handler :: "(chunking, string, string) iterable_handler" where
  "chunking_handler =
     \<lparr>ih_on_start = nothing,
      ih_call = \<lambda>value index cg.
        (case chunking_call value cg of None \<Rightarrow> (Inl Hangs, cg) | Some (ds, cg1) \<Rightarrow> (Inr (Some ds), cg1)),
      ih_on_done = (\<lambda>cg. (bind_res (chunking_done cg) (\<lambda>ds. Inr (Some ds)), cg))\<rparr>"

definition rate_limiter_handler ::
  "(nat \<Rightarrow> int) \<Rightarrow> (rate_limiter \<times> nat, string, string) iterable_handler" where
  "rate_limiter_handler clock =
     \<lparr>ih_on_start = nothing,
      ih_call = \<lambda>value index (rl, i).
        (case rate_limiter_call clock value rl i of
           None \<Rightarrow> (Inl Hangs, (rl, i)) | Some (ds, rl1, j) \<Rightarrow> (Inr (Some ds), (rl1, j))),
      ih_on_done = nothing\<rparr>"

lemma flat_map_run_elements:
  assumes "ih_call h = (\<lambda>x i. call x)"
  shows "flat_map_run h (elements xs) =
    bind_act (ih_on_start h) (\<lambda>first.
    bind_act (map_act call xs) (\<lambda>results.
    bind_act (ih_on_done h) (\<lambda>final.
      ret (elements (or_nothing first @ concat (map or_nothing results) @ or_nothing final)))))"
  by (simp add: flat_map_run_def flat_map_process_def bind_act_assoc assms map_act_elements)

lemma or_nothing_simps [simp]: "or_nothing None = []" "or_nothing (Some vs) = vs"
  by (simp_all add: or_nothing_def)

lemma chunking_calls_map_act:
  "chunking_calls vs cg =
     (case map_act (\<lambda>value. ih_call chunking_handler value 0) vs cg of
        (Inl e, cg1) \<Rightarrow> None | (Inr rs, cg1) \<Rightarrow> Some (concat (map or_nothing rs), cg1))"
  "map_act (\<lambda>value. ih_call chunking_handler value 0) vs cg = (Inl e, cg1) \<Longrightarrow> e = Hangs"
proof (induction vs arbitrary: cg cg1)
  case (Cons v vs)
  {
    case 1
    from Cons.IH(1) show ?case
      by (cases "chunking_call v cg") (auto simp: chunking_handler_def bind_act_def act_simps split: prod.splits sum.splits)
  next
    case 2
    with Cons.IH(2) show ?case
      by (cases "chunking_call v cg") (auto simp: chunking_handler_def bind_act_def act_simps split: prod.splits sum.splits)
  }
qed (simp_all add: act_simps)

theorem chunking_stage_runs:
  "bind_res (new_chunking chunk_size buffer_size) (\<lambda>cg. fst (flat_map_run chunking_handler (elements vs) cg)) =
     bind_res (bind_res (returns_or_hangs (rechunk chunk_size buffer_size vs)) (\<lambda>r. r)) (\<lambda>bs. Inr (elements bs))"
proof (cases "new_chunking chunk_size buffer_size")
  case (Inl e)
  then show ?thesis by (simp add: rechunk_def returns_or_hangs_def bind_res_def)
next
  case (Inr cg)
  have h: "ih_call chunking_handler = (\<lambda>x i. ih_call chunking_handler x 0)"
    and sel: "ih_on_start chunking_handler = ret None"
    "ih_on_done chunking_handler c = (bind_res (chunking_done c) (\<lambda>ds. Inr (Some ds)), c)" for c
    by (simp_all add: chunking_handler_def nothing_def fun_eq_iff)
  obtain r cg1 where m: "map_act (\<lambda>value. ih_call chunking_handler value 0) vs cg = (r, cg1)" by fastforce
  show ?thesis
    using Inr m chunking_calls_map_act [of vs cg]
    by (cases r)
      (auto simp: flat_map_run_elements [OF h] rechunk_def returns_or_hangs_def bind_res_def bind_act_def act_simps sel
        split: sum.splits)
qed

lemma rate_limiter_calls_map_act:
  "rate_limiter_calls clock vs rl i =
     (case map_act (\<lambda>value. ih_call (rate_limiter_handler clock) value 0) vs (rl, i) of
        (Inl e, s) \<Rightarrow> None | (Inr rs, (rl1, j)) \<Rightarrow> Some (concat (map or_nothing rs), rl1, j))"
  "map_act (\<lambda>value. ih_call (rate_limiter_handler clock) value 0) vs (rl, i) = (Inl e, s) \<Longrightarrow> e = Hangs"
proof (induction vs arbitrary: rl i s)
  case (Cons v vs)
  {
    case 1
    from Cons.IH(1) show ?case
      by (cases "rate_limiter_call clock v rl i")
        (auto simp: rate_limiter_handler_def bind_act_def act_simps split: prod.splits sum.splits)
  next
    case 2
    with Cons.IH(2) show ?case
      by (cases "rate_limiter_call clock v rl i")
        (auto simp: rate_limiter_handler_def bind_act_def act_simps split: prod.splits sum.splits)
  }
qed (simp_all add: act_simps)

theorem rate_limiter_stage_runs:
  "fst (flat_map_run (rate_limiter_handler clock) (elements vs) (new_rate_limiter limit (clock 0), 1)) =
     bind_res (returns_or_hangs (rate_limit clock limit vs)) (\<lambda>bs. Inr (elements bs))"
proof -
  let ?h = "rate_limiter_handler clock" and ?rl = "new_rate_limiter limit (clock 0)"
  have h: "ih_call ?h = (\<lambda>x i. ih_call ?h x 0)" and sel: "ih_on_start ?h = ret None" "ih_on_done ?h = ret None"
    by (simp_all add: rate_limiter_handler_def nothing_def fun_eq_iff)
  obtain r s where m: "map_act (\<lambda>value. ih_call ?h value 0) vs (?rl, 1) = (r, s)" by (rule prod.exhaust)
  show ?thesis
    using m rate_limiter_calls_map_act [of clock vs ?rl 1]
    by (cases r; cases s)
      (auto simp: flat_map_run_elements [OF h] rate_limit_def returns_or_hangs_def bind_res_def bind_act_def act_simps sel)
qed

text \<open>Stages that keep what they get, or only act.\<close>

definition collect_handler :: "(string, string, string) handler" where
  "collect_handler =
     \<lparr>hd_on_start = nothing, hd_call = \<lambda>data index buf. (Inr None, buf @ data), hd_on_done = (\<lambda>buf. (Inr (Some buf), buf))\<rparr>"

lemma collect_calls: "map_act (\<lambda>data buf. (Inr None, buf @ data)) vs b = (Inr (map (\<lambda>_. None) vs), b @ concat vs)"
  by (induction vs arbitrary: b) (simp_all add: bind_act_def act_simps)

theorem collect_stage_runs: "fst (map_run collect_handler (elements vs) []) = Inr (elements [concat vs])"
  by (simp add: map_run_elements [of _ "\<lambda>data buf. (Inr None, buf @ data)"] collect_handler_def nothing_def
      bind_act_def collect_calls act_simps)

text \<open>\<open>on_done\<close> of the writing stage only closes the file.\<close>

definition write_file_handler :: "'w local_files \<Rightarrow> file_target \<Rightarrow> ('w, string, unit) handler" where
  "write_file_handler lf target =
     \<lparr>hd_on_start = (case target of LocalPath p \<Rightarrow> bind_act (lf_create lf p) (\<lambda>_. ret None) | OpenedFile p \<Rightarrow> ret None),
      hd_call = \<lambda>data index.
        bind_act (lf_append lf (case target of LocalPath p \<Rightarrow> p | OpenedFile p \<Rightarrow> p) data) (\<lambda>_. ret None),
      hd_on_done = nothing\<rparr>"

lemma map_act_for_act:
  "bind_act (map_act (\<lambda>x. bind_act (f x) (\<lambda>_. ret None)) xs) g =
     bind_act (for_act xs (\<lambda>x _. f x) ()) (\<lambda>_. g (map (\<lambda>_. None) xs))"
proof (induction xs arbitrary: g)
  case (Cons x xs)
  then show ?case by (simp add: bind_act_assoc)
qed simp

theorem write_file_stage_runs:
  "map_run (write_file_handler lf target) (elements vs) = bind_act (write_file_stage lf target vs) (\<lambda>_. ret [])"
  by (cases target)
    (simp_all add: write_file_handler_def map_run_elements write_file_stage_def map_act_for_act nothing_def bind_act_assoc)

definition delete_files_handler :: "'w local_files \<Rightarrow> string list \<Rightarrow> ('w, 'a, unit) handler" where
  "delete_files_handler lf files =
     \<lparr>hd_on_start = nothing, hd_call = \<lambda>_ index. ret None,
      hd_on_done = bind_act (for_act files (\<lambda>file _. lf_unlink lf file) ()) (\<lambda>_. ret None)\<rparr>"

lemma map_act_None: "map_act (\<lambda>x. ret None) xs = ret (map (\<lambda>_. None) xs)"
  by (induction xs) simp_all

theorem delete_files_stage_runs:
  "map_run (delete_files_handler lf files) (elements vs) = bind_act (delete_files_stage lf files) (\<lambda>_. ret [])"
  by (simp add: delete_files_handler_def map_run_elements map_act_None nothing_def bind_act_assoc delete_files_stage_def)

section \<open>The stages of an upload\<close>

definition start_multipart_call ::
  "'w engine \<Rightarrow> nat \<Rightarrow> string \<Rightarrow> string \<Rightarrow> (('w \<times> engine_obj) \<times> string option, (string \<times> string option) option) act" where
  "start_multipart_call en chunk_size remote_path data =
     (if length data > chunk_size then raise AssertionError
      else
        bind_act (get_object (\<lambda>upload_id. upload_id)) (\<lambda>upload_id.
        bind_act (if upload_id = None \<and> length data = chunk_size
                  then bind_act (on_world (engine_create_multipart_upload en remote_path)) (\<lambda>i. set_object (\<lambda>_. Some i))
                  else ret ()) (\<lambda>_.
        bind_act (get_object (\<lambda>upload_id. upload_id)) (\<lambda>upload_id. ret (Some (data, upload_id))))))"

definition start_multipart_handler ::
  "'w engine \<Rightarrow> nat \<Rightarrow> string \<Rightarrow> (('w \<times> engine_obj) \<times> string option, string, string \<times> string option) handler" where
  "start_multipart_handler en chunk_size remote_path =
     \<lparr>hd_on_start = nothing, hd_call = \<lambda>data index. start_multipart_call en chunk_size remote_path data,
      hd_on_done = nothing\<rparr>"

lemma with_object_get_set:
  "with_object b (bind_act (get_object f) g) = with_object b (g (f b))"
  "with_object b (bind_act (set_object h) k) = with_object (h b) (k ())"
  "with_object b (raise e) = raise e"
  by (simp_all add: fun_eq_iff with_object_def get_object_def set_object_def bind_act_def raise_def)

lemma with_object_bind_ret:
  "with_object b (bind_act m (\<lambda>y. ret (f y))) = bind_act (with_object b m) (\<lambda>y. ret (f y))"
  by (auto simp: fun_eq_iff with_object_def bind_act_def ret_def split: prod.splits sum.splits)

lemma start_multipart_call_then:
  "with_object u (bind_act (start_multipart_call en chunk_size path data) k) =
     (if length data > chunk_size then raise AssertionError
      else bind_act (if u = None \<and> length data = chunk_size
                     then bind_act (engine_create_multipart_upload en path) (\<lambda>i. ret (Some i)) else ret u)
             (\<lambda>u1. with_object u1 (k (Some (data, u1)))))"
  by (simp add: start_multipart_call_def bind_act_assoc with_object_get_set with_object_world)

lemma start_multipart_calls:
  "with_object u (bind_act (map_act (start_multipart_call en chunk_size path) vs) (\<lambda>ys. ret (f ys))) =
     bind_act (start_multipart_stage en chunk_size path vs u) (\<lambda>ps. ret (f (map Some ps)))"
proof (induction vs arbitrary: u f)
  case (Cons v vs)
  then show ?case by (simp add: bind_act_assoc start_multipart_call_then)
qed (simp add: with_object_ret)

theorem start_multipart_stage_runs:
  "with_object None (map_run (start_multipart_handler en chunk_size path) (elements vs)) =
     bind_act (start_multipart_stage en chunk_size path vs None) (\<lambda>ps. ret (elements ps))"
  by (simp add: start_multipart_handler_def map_run_elements nothing_def start_multipart_calls)

definition complete_multipart_handler ::
  "'w engine \<Rightarrow> string \<Rightarrow> (('w \<times> engine_obj) \<times> string option, string \<times> string option, unit) handler" where
  "complete_multipart_handler en remote_path =
     \<lparr>hd_on_start = nothing,
      hd_call = \<lambda>part index.
        bind_act (set_object (\<lambda>upload_id. if upload_id = None then non_empty (snd part) else upload_id)) (\<lambda>_. ret None),
      hd_on_done =
        bind_act (get_object (\<lambda>upload_id. upload_id)) (\<lambda>upload_id.
          case upload_id of
            None \<Rightarrow> ret None
          | Some i \<Rightarrow> bind_act (on_world (engine_complete_multipart_upload en remote_path i)) (\<lambda>_. ret None))\<rparr>"

lemma complete_multipart_calls:
  "with_object u (bind_act (map_act (\<lambda>part. bind_act (set_object (\<lambda>u. if u = None then non_empty (snd part) else u))
       (\<lambda>_. ret None)) parts) k) =
     with_object (if u = None then seen_upload_id parts else u) (k (map (\<lambda>_. None) parts))"
proof (induction parts arbitrary: u k)
  case Nil
  show ?case by (simp add: seen_upload_id_def non_empty_def)
next
  case (Cons p ps)
  then show ?case by (auto simp: bind_act_assoc with_object_get_set seen_upload_id_def non_empty_def split: option.splits if_splits)
qed

theorem complete_multipart_stage_runs:
  "with_object None (map_run (complete_multipart_handler en path) (elements parts)) =
     bind_act (complete_multipart_stage en path parts) (\<lambda>_. ret [])"
  by (simp add: complete_multipart_handler_def map_run_elements nothing_def bind_act_assoc complete_multipart_calls
      with_object_get_set complete_multipart_stage_def with_object_world with_object_ret split: option.splits)

section \<open>The stages that begin a pipeline\<close>

definition download_handler ::
  "'w engine \<Rightarrow> nat \<Rightarrow> string \<Rightarrow> (('w \<times> engine_obj) \<times> string, string) input_handler" where
  "download_handler en chunk_size remote_path =
     \<lparr>nh_on_start =
        bind_act (on_world (engine_create_multipart_download en remote_path)) (\<lambda>i. bind_act (set_object (\<lambda>_. i)) (\<lambda>_. ret None)),
      nh_call =
        bind_act (get_object (\<lambda>download_id. download_id)) (\<lambda>download_id.
        bind_act (on_world (download_parts en download_id chunk_size)) (\<lambda>blocks. ret (Some (map Some blocks)))),
      nh_on_done =
        bind_act (get_object (\<lambda>download_id. download_id)) (\<lambda>download_id.
        bind_act (on_world (engine_complete_multipart_download en download_id)) (\<lambda>_. ret None))\<rparr>"

theorem download_stage_runs:
  "with_object new_engine (with_object '''' (input_run
       (download_handler (pe_engine pe) (pc_chunk_size (pe_config pe)) remote_path))) =
     bind_act (download_storage_stage pe remote_path) (\<lambda>bs. ret (elements bs))"
  by (simp add: input_run_def input_process_def download_handler_def bind_act_assoc with_object_get_set with_object_world
      with_object_ret download_storage_stage_def put_values_elements with_object_bind_ret [symmetric])

text \<open>The opened file is the state: what is left to read of it.\<close>

fun read_rounds :: "nat \<Rightarrow> nat \<Rightarrow> string \<Rightarrow> string list" where
  "read_rounds 0 chunk_size data = []"
| "read_rounds (Suc n) chunk_size data =
     (if take chunk_size data = [] then [] else take chunk_size data # read_rounds n chunk_size (drop chunk_size data))"

definition read_file_handler :: "'w local_files \<Rightarrow> nat \<Rightarrow> string \<Rightarrow> ('w \<times> string, string) input_handler" where
  "read_file_handler lf chunk_size file_path =
     \<lparr>nh_on_start = bind_act (on_world (lf_read lf file_path)) (\<lambda>data. bind_act (set_object (\<lambda>_. data)) (\<lambda>_. ret None)),
      nh_call = bind_act (get_object (\<lambda>data. data)) (\<lambda>data. ret (Some (map Some (read_rounds (Suc (length data)) chunk_size data)))),
      nh_on_done = nothing\<rparr>"

lemma read_rounds_chunks: "length data < n \<Longrightarrow> read_rounds n chunk_size data = chunks_of chunk_size data"
proof (induction n arbitrary: data)
  case (Suc n)
  show ?case
  proof (cases "chunk_size = 0 \<or> data = []")
    case False
    with Suc.prems have "length (drop chunk_size data) < n" by (cases data) auto
    with Suc.IH [OF this] False show ?thesis by (simp add: chunks_of.simps [of chunk_size data])
  qed (auto simp: chunks_of.simps)
qed simp

theorem read_file_stage_runs:
  "with_object '''' (input_run (read_file_handler lf chunk_size file_path)) =
     bind_act (lf_read lf file_path) (\<lambda>data. ret (elements (chunks_of chunk_size data)))"
  by (simp add: input_run_def input_process_def read_file_handler_def nothing_def bind_act_assoc with_object_get_set
      with_object_world with_object_ret put_values_elements read_rounds_chunks del: read_rounds.simps)

end
