(* ===== verification/Config.thy ===== *)
theory Config
  imports PyStr
begin

text \<open>
  The program's configuration (\<^verbatim>\<open>config.py\<close>): the default values, and how the file and the options of the command
  line are merged into them. The texts of time spans and sizes are given as the numbers that \<^verbatim>\<open>humanfriendly\<close> reads
  in them, and YAML is read by a parameter.
\<close>

section \<open>Values\<close>

text \<open>\<open>CFloat m e\<close> is the number \<open>m\<close> times ten to the power of \<open>e\<close>.\<close>

datatype conf =
    CNull
  | CBool bool
  | CInt int
  | CFloat int int
  | CStr string
  | CList "conf list"
  | CDict "(string \<times> conf) list"

definition conf_true :: "conf \<Rightarrow> bool" where
  "conf_true c =
     (case c of CNull \<Rightarrow> False | CBool b \<Rightarrow> b | CInt n \<Rightarrow> n \<noteq> 0 | CFloat m e \<Rightarrow> m \<noteq> 0 | CStr s \<Rightarrow> s \<noteq> []
      | CList cs \<Rightarrow> cs \<noteq> [] | CDict d \<Rightarrow> d \<noteq> [])"

definition mebibytes :: "int \<Rightarrow> conf" where "mebibytes n = CInt (n * 1048576)"

section \<open>The default configuration\<close>

definition default_clickhouse :: "string \<Rightarrow> conf" where
  "default_clickhouse hostname = CDict
     [(''data_path'', CStr ''/var/lib/clickhouse''),
      (''metadata_path'', CStr ''/var/lib/clickhouse/metadata''),
      (''access_control_path'', CStr ''/var/lib/clickhouse/access''),
      (''tmp_path'', CStr ''/var/lib/clickhouse/_mdb_tmp''),
      (''zk_access_control_path'', CStr ''/clickhouse/access''),
      (''config_dir'', CStr ''/etc/clickhouse-server/config.d/''),
      (''preprocessed_config_path'', CStr ''/var/lib/clickhouse/preprocessed_configs/config.xml''),
      (''named_collections_path'', CStr ''/var/lib/clickhouse/named_collections''),
      (''workload_path'', CStr ''/var/lib/clickhouse/workload''),
      (''host'', CStr hostname),
      (''protocol'', CStr ''http''),
      (''port'', CNull),
      (''ca_path'', CNull),
      (''connect_timeout'', CInt 10),
      (''timeout'', CInt 90),
      (''freeze_timeout'', CInt 2700),
      (''unfreeze_timeout'', CInt 3600),
      (''restore_replica_timeout'', CInt 1800),
      (''sync_database_replica_timeout'', CInt 1800),
      (''sync_database_replica_poll_interval'', CInt 10),
      (''sync_database_replica_stall_threshold'', CInt 6),
      (''drop_replica_timeout'', CInt 3600),
      (''user'', CStr ''clickhouse''),
      (''group'', CStr ''clickhouse''),
      (''clickhouse_user'', CNull),
      (''clickhouse_password'', CNull)]"

definition default_backup :: conf where
  "default_backup = CDict
     [(''system_database'', CStr ''_system''),
      (''exclude_dbs'', CList []),
      (''path_root'', CNull),
      (''deduplicate_parts'', CBool True),
      (''deduplication_age_limit'', CDict [(''days'', CInt 7)]),
      (''deduplication_batch_size'', CInt 500),
      (''min_interval'', CDict [(''minutes'', CInt 0)]),
      (''time_format'', CStr ''%Y-%m-%d %H:%M:%S.%f %z''),
      (''retain_time'', CDict []),
      (''retain_count'', CNull),
      (''labels'', CDict []),
      (''keep_freezed_data_on_failure'', CBool True),
      (''override_replica_name'', CStr ''{replica}''),
      (''force_non_replicated'', CBool False),
      (''backup_access_control'', CBool False),
      (''restore_context_path'', CStr ''/tmp/ch_backup_restore_state.json''),
      (''restore_context_sync_threshold_ops'', CInt 100),
      (''validate_part_after_upload'', CBool False),
      (''restore_fail_on_attach_error'', CBool False),
      (''update_metadata_interval'', CInt 1800),
      (''kill_old_freeze_queries'', CBool True)]"

definition default_restore :: conf where
  "default_restore = CDict [(''use_inplace_cloud_restore'', CBool False), (''max_table_name'', CInt 206)]"

definition default_storage :: conf where
  "default_storage = CDict
     [(''type'', CStr ''s3''),
      (''credentials'', CDict [(''endpoint_url'', CNull), (''access_key_id'', CNull), (''secret_access_key'', CNull),
         (''bucket'', CNull)]),
      (''boto_config'', CDict [(''addressing_style'', CStr ''auto''), (''region_name'', CStr ''us-east-1'')]),
      (''proxy_resolver'', CDict [(''uri'', CNull), (''proxy_port'', CNull)]),
      (''disable_ssl_warnings'', CBool True),
      (''chunk_size'', mebibytes 8),
      (''buffer_size'', mebibytes 32),
      (''max_chunk_count'', CInt 10000),
      (''bulk_delete_enabled'', CBool True),
      (''bulk_delete_chunk_size'', CInt 1000),
      (''uploading_threads'', CInt 4),
      (''queue_size'', CInt 10)]"

definition default_rate_limiter :: conf where
  "default_rate_limiter = CDict [(''max_upload_rate'', CInt 0), (''retry_interval'', CFloat 1 (-2))]"

definition default_cloud_storage :: conf where
  "default_cloud_storage = CDict [(''encryption'', CBool True), (''compression'', CBool True)]"

definition default_stages :: "(string \<times> conf) list" where
  "default_stages =
     [(''compression'', CDict [(''type'', CStr ''gzip''), (''queue_size'', CInt 10)]),
      (''encryption'', CDict [(''enabled'', CBool True), (''type'', CStr ''nacl''), (''chunk_size'', mebibytes 8),
         (''buffer_size'', mebibytes 32), (''key'', CNull), (''queue_size'', CInt 10)]),
      (''filesystem'', CDict [(''type'', CStr ''unlimited''), (''chunk_size'', mebibytes 1), (''buffer_size'', mebibytes 32),
         (''queue_size'', CInt 50)])]"

definition default_multiprocessing :: conf where
  "default_multiprocessing = CDict
     [(''workers'', CInt 4),
      (''cloud_storage_restore_workers'', CInt 4),
      (''freeze_threads'', CInt 4),
      (''parallelize_freeze_in_clickhouse'', CBool True),
      (''freeze_partition_threads'', CInt 16),
      (''freeze_table_query_max_threads'', CInt 16),
      (''drop_replica_threads'', CInt 8)]"

definition default_main :: conf where
  "default_main = CDict
     [(''user'', CStr ''clickhouse''), (''group'', CStr ''clickhouse''), (''working_dir'', CStr ''/tmp''),
      (''drop_privileges'', CBool True), (''ca_bundle'', CList []), (''disable_ssl_warnings'', CBool False),
      (''tracemalloc'', CInt 0)]"

definition default_loguru :: conf where
  "default_loguru =
     (let handler = (\<lambda>sink level form. CDict ([(''sink'', CStr sink)] @ level @ [(''format'', CStr form)]));
          debug = [(''level'', CStr ''DEBUG'')] in
      CDict
       [(''logs_directory'', CStr ''/var/log/ch-backup''),
        (''formatters'', CDict
           [(''ch-backup'', CStr ''{time:YYYY-MM-DD HH:mm:ss,SSS} {process.name:11} {process.id:5} [{level:8}] {extra[logger_name]}: {message}''),
            (''clickhouse-disks'', CStr ''{time:YYYY-MM-DD HH:mm:ss,SSS} {extra[tag]} {process.id:5} [{level:8}]: {message}'')]),
        (''handlers'', CDict
           [(''ch-backup'', handler ''ch-backup.log'' debug ''ch-backup''),
            (''zookeeper'', handler ''ch-backup.log'' debug ''ch-backup''),
            (''botocore'', CDict [(''sink'', CStr ''boto.log''), (''format'', CStr ''ch-backup''),
               (''filter'', CDict [(''botocore'', CStr ''INFO''), (''botocore.endpoint'', CStr ''DEBUG''),
                  (''botocore.vendored.requests'', CStr ''DEBUG''), (''botocore.parsers'', CStr ''DEBUG'')])]),
            (''clickhouse-disks'', handler ''clickhouse-disks.log'' debug ''clickhouse-disks''),
            (''urllib3.connectionpool'', handler ''boto.log'' debug ''ch-backup'')])])"

definition default_zookeeper :: conf where
  "default_zookeeper = CDict
     [(''secure'', CBool False), (''cert'', CNull), (''key'', CNull), (''ca'', CNull), (''timeout'', CInt 10),
      (''connect_timeout'', CInt 10), (''hosts'', CList []), (''root_path'', CStr ''''), (''user'', CNull),
      (''password'', CNull), (''randomize_hosts'', CBool True)]"

definition default_lock :: conf where
  "default_lock = CDict
     [(''flock'', CBool False), (''zk_flock'', CBool False), (''flock_path'', CStr ''/tmp/flock.lock''),
      (''zk_flock_path'', CStr ''/tmp/zk_flock.lock''), (''exitcode'', CInt 0), (''lock_timeout'', CInt 60)]"

definition DEFAULT_CONFIG :: "string \<Rightarrow> (string, conf) dict" where
  "DEFAULT_CONFIG hostname =
     [(''clickhouse'', default_clickhouse hostname), (''backup'', default_backup), (''restore'', default_restore),
      (''storage'', default_storage), (''rate_limiter'', default_rate_limiter), (''cloud_storage'', default_cloud_storage)]
     @ default_stages
     @ [(''multiprocessing'', default_multiprocessing), (''pipeline'', CDict [(''async'', CBool True)]),
        (''main'', default_main), (''loguru'', default_loguru), (''zookeeper'', default_zookeeper), (''lock'', default_lock)]"

lemmas default_sections =
  default_clickhouse_def default_backup_def default_restore_def default_storage_def default_rate_limiter_def
  default_cloud_storage_def default_stages_def default_multiprocessing_def default_main_def default_loguru_def
  default_zookeeper_def default_lock_def

section \<open>Merging\<close>

text \<open>A section of the update needs a section to go into: \<open>None\<close>, a text, a number or a list raise, but an empty section
  leaves them as they are.\<close>

fun recursively_update :: "(string, conf) dict \<Rightarrow> (string \<times> conf) list \<Rightarrow> (string, conf) dict res" where
  "recursively_update base [] = Inr base"
| "recursively_update base ((k, CDict d) # us) =
     (case map_of base k of
        None \<Rightarrow> bind_res (recursively_update [] d) (\<lambda>b. recursively_update (dict_set base k (CDict b)) us)
      | Some (CDict b) \<Rightarrow> bind_res (recursively_update b d) (\<lambda>b. recursively_update (dict_set base k (CDict b)) us)
      | Some _ \<Rightarrow> if d = [] then recursively_update base us else Inl TypeError)"
| "recursively_update base ((k, v) # us) = recursively_update (dict_set base k v) us"

text \<open>\<open>Config(file)\<close>. The parameter is what \<open>yaml.safe_load\<close> returned or raised.\<close>

definition read_config :: "(string, conf) dict \<Rightarrow> conf res \<Rightarrow> (string, conf) dict res" where
  "read_config base parsed =
     (case parsed of
        Inl e \<Rightarrow> Inl (if e = OtherException ''YAMLError'' then RuntimeError else e)
      | Inr c \<Rightarrow>
          if \<not> conf_true c then Inr base
          else (case c of CDict d \<Rightarrow> recursively_update base d | _ \<Rightarrow> Inl (OtherException ''AttributeError'')))"

definition new_config :: "string \<Rightarrow> conf res \<Rightarrow> (string, conf) dict res" where
  "new_config hostname parsed = read_config (DEFAULT_CONFIG hostname) parsed"

definition merge_config :: "(string, conf) dict \<Rightarrow> (string, conf) dict \<Rightarrow> (string, conf) dict res" where
  "merge_config c patch = recursively_update c patch"

definition config_item :: "(string, conf) dict \<Rightarrow> string \<Rightarrow> conf res" where
  "config_item c k = dict_get c k"

definition set_config_item :: "(string, conf) dict \<Rightarrow> string \<Rightarrow> conf \<Rightarrow> (string, conf) dict" where
  "set_config_item c k v = dict_set c k v"

definition config_get :: "(string, conf) dict \<Rightarrow> string \<Rightarrow> conf \<Rightarrow> conf" where
  "config_get c k absent = (case map_of c k of None \<Rightarrow> absent | Some v \<Rightarrow> v)"

section \<open>Settings\<close>

text \<open>The value at a path, when it is no section.\<close>

fun setting :: "conf \<Rightarrow> string list \<Rightarrow> conf option" where
  "setting (CDict d) [] = None"
| "setting (CDict d) (k # ks) = (case map_of d k of None \<Rightarrow> None | Some c \<Rightarrow> setting c ks)"
| "setting c [] = Some c"
| "setting c (k # ks) = None"

text \<open>Whether a value that is no section is met on the way along a path.\<close>

fun decides :: "conf \<Rightarrow> string list \<Rightarrow> bool" where
  "decides (CDict d) [] \<longleftrightarrow> False"
| "decides (CDict d) (k # ks) \<longleftrightarrow> (case map_of d k of None \<Rightarrow> False | Some c \<Rightarrow> decides c ks)"
| "decides c ks \<longleftrightarrow> True"

text \<open>Every section is a dictionary.\<close>

fun conf_ok :: "conf \<Rightarrow> bool" where
  "conf_ok (CDict d) \<longleftrightarrow> dict_ok d \<and> (\<forall>(k, c) \<in> set d. conf_ok c)"
| "conf_ok c \<longleftrightarrow> True"

lemma setting_empty [simp]: "setting (CDict []) ks = None" "\<not> decides (CDict []) ks"
  by (cases ks; simp)+

lemma setting_decides: "setting c ks = Some v \<Longrightarrow> decides c ks"
  by (induction c ks rule: setting.induct) (auto split: option.splits)

lemma setting_dict_set:
  "setting (CDict (dict_set d k c)) ks =
     (case ks of [] \<Rightarrow> None | j # js \<Rightarrow> if j = k then setting c js else setting (CDict d) ks)"
  by (cases ks) auto

lemma setting_Cons:
  "setting (CDict ((k, c) # d)) ks =
     (case ks of [] \<Rightarrow> None | j # js \<Rightarrow> if j = k then setting c js else setting (CDict d) ks)"
  "decides (CDict ((k, c) # d)) ks \<longleftrightarrow>
     (case ks of [] \<Rightarrow> False | j # js \<Rightarrow> if j = k then decides c js else decides (CDict d) ks)"
  by (cases ks; simp)+

lemma setting_absent:
  "map_of d k = None \<Longrightarrow> setting (CDict d) (k # ks) = None \<and> \<not> decides (CDict d) (k # ks)"
  by simp

lemma recursively_update_setting:
  assumes "recursively_update base us = Inr merged" "conf_ok (CDict us)"
  shows "setting (CDict merged) ks = (if decides (CDict us) ks then setting (CDict us) ks else setting (CDict base) ks)"
  using assms
proof (induction base us arbitrary: merged ks rule: recursively_update.induct)
  case (2 base k d us)
  from "2.prems"(2) have fresh: "map_of us k = None" and ok: "conf_ok (CDict us)" "conf_ok (CDict d)"
    by (auto simp: map_of_eq_None_iff)
  note rest = setting_absent [OF fresh]
  show ?case
  proof (cases "map_of base k")
    case None
    with "2.prems"(1) obtain b where b: "recursively_update [] d = Inr b"
      and m: "recursively_update (dict_set base k (CDict b)) us = Inr merged" by auto
    show ?thesis
      using "2.IH"(2) [OF None m ok(1)] "2.IH"(1) [OF None b ok(2)] None rest
      by (auto simp: setting_dict_set setting_Cons split: list.splits)
  next
    case (Some c)
    show ?thesis
    proof (cases "\<exists>b. c = CDict b")
      case True
      then obtain b0 b where c: "c = CDict b0" and b: "recursively_update b0 d = Inr b"
        and m: "recursively_update (dict_set base k (CDict b)) us = Inr merged"
        using "2.prems"(1) Some by auto
      have "map_of base k = Some (CDict b0)" using Some c by simp
      with "2.IH"(10) [OF this refl m ok(1)] "2.IH"(9) [OF this refl b ok(2)] rest
      show ?thesis by (auto simp: setting_dict_set setting_Cons split: list.splits)
    next
      case False
      with "2.prems"(1) Some have d: "d = []" and m: "recursively_update base us = Inr merged"
        by (auto split: conf.splits if_splits)
      have "setting (CDict merged) ks = (if decides (CDict us) ks then setting (CDict us) ks else setting (CDict base) ks)"
        using False Some d m ok(1) "2.IH"(3-8) by (cases c) auto
      with d rest show ?thesis by (auto simp: setting_Cons split: list.splits)
    qed
  qed
qed (auto simp: setting_dict_set setting_Cons map_of_eq_None_iff [THEN iffD2] split: list.splits)

lemma conf_ok_dict_set:
  "conf_ok (CDict d) \<Longrightarrow> conf_ok c \<Longrightarrow> conf_ok (CDict (dict_set d k c))"
  using set_dict_set [of k c d] by fastforce

lemma conf_ok_Cons:
  "conf_ok (CDict ((k, c) # d)) \<longleftrightarrow> k \<notin> fst ` set d \<and> conf_ok c \<and> conf_ok (CDict d)"
  by auto

lemma conf_ok_section: "conf_ok (CDict d) \<Longrightarrow> map_of d k = Some c \<Longrightarrow> conf_ok c"
  by (auto dest!: map_of_SomeD)

lemma recursively_update_ok:
  "recursively_update base us = Inr merged \<Longrightarrow> conf_ok (CDict base) \<Longrightarrow> conf_ok (CDict us) \<Longrightarrow> conf_ok (CDict merged)"
proof (induction base us arbitrary: merged rule: recursively_update.induct)
  case (2 base k d us)
  note ok = conf_ok_dict_set [OF "2.prems"(2)]
  from "2.prems"(3) have parts: "conf_ok (CDict d)" "conf_ok (CDict us)" by (simp_all only: conf_ok_Cons)
  show ?case
  proof (cases "map_of base k")
    case None
    with "2.prems"(1) obtain b where "recursively_update [] d = Inr b"
      "recursively_update (dict_set base k (CDict b)) us = Inr merged" by (auto simp del: conf_ok.simps)
    with "2.IH"(1,2) [OF None] parts ok [of "CDict b"] show ?thesis by (simp del: conf_ok.simps add: conf_ok.simps(1) [of "[]"])
  next
    case (Some c)
    with conf_ok_section [OF "2.prems"(2) Some] "2.prems"(1,2) "2.IH"(3-) parts ok
    show ?thesis by (cases c) (auto simp del: conf_ok.simps split: if_splits)
  qed
qed (simp_all del: conf_ok.simps(1) add: conf_ok_dict_set conf_ok_Cons)

end
