(* ===== verification/Sql.thy ===== *)
theory Sql
  imports Prelude PyStr
begin

text \<open>
  SQL text: the escaping of identifiers (\<open>escape\<close> of \<^verbatim>\<open>util.py\<close>), the statements of
  \<^verbatim>\<open>clickhouse/control.py\<close>, and the masking of secrets before a statement or an error is logged
  (\<^verbatim>\<open>clickhouse/masking.py\<close>).

  A statement is its template as \<open>strip_query\<close> leaves it, with the named fields as arguments; callers
  escape the arguments, as in the code. \<open>skip_quoted\<close> is the code's own reading of the quoting rules of
  ClickHouse; the lemmas about \<open>escape\<close> are stated against it.
\<close>

section \<open>Escaping\<close>

abbreviation SQ :: string where "SQ \<equiv> [CHR 0x27]"
abbreviation BQ :: string where "BQ \<equiv> [CHR 0x60]"
abbreviation BACKSLASH :: char where "BACKSLASH \<equiv> CHR 0x5C"

definition sql_escape :: "string \<Rightarrow> string" where
  "sql_escape s = join_str [BACKSLASH, CHR 0x60] (split_on CHR 0x60 s)"

definition escape_char :: "char \<Rightarrow> string" where
  "escape_char c = (if c = CHR 0x60 then [BACKSLASH, CHR 0x60] else [c])"

lemma sql_escape_concat: "sql_escape s = concat (map escape_char s)"
  unfolding sql_escape_def
proof (induction s)
  case (Cons x xs)
  show ?case
  proof (cases "split_on CHR 0x60 xs")
    case (Cons w ws)
    with Cons.IH show ?thesis by (cases ws) (simp_all add: escape_char_def)
  qed simp
qed simp

section \<open>Quoted text\<close>

text \<open>\<open>_skip_quoted\<close>: the position right after the text that is quoted from \<open>start\<close> on.\<close>

function skip_from :: "string \<Rightarrow> char \<Rightarrow> nat \<Rightarrow> nat option" where
  "skip_from sql quote index =
     (if index < length sql then
        if sql ! index = BACKSLASH then skip_from sql quote (index + 2)
        else if sql ! index = quote then
          if index + 1 < length sql \<and> sql ! (index + 1) = quote then skip_from sql quote (index + 2)
          else Some (index + 1)
        else skip_from sql quote (index + 1)
      else None)"
  by pat_completeness auto
termination by (relation "measure (\<lambda>(sql, quote, index). length sql - index)") auto

declare skip_from.simps [simp del]

definition skip_quoted :: "string \<Rightarrow> nat \<Rightarrow> nat option" where
  "skip_quoted sql start = skip_from sql (sql ! start) (start + 1)"

lemma skip_from_ahead: "skip_from sql quote index = Some e \<Longrightarrow> index < e \<and> e \<le> length sql"
proof (induction sql quote index rule: skip_from.induct)
  case (1 sql quote index)
  from 1(4) have "if index < length sql then
      if sql ! index = BACKSLASH then skip_from sql quote (index + 2) = Some e
      else if sql ! index = quote then
        if index + 1 < length sql \<and> sql ! (index + 1) = quote then skip_from sql quote (index + 2) = Some e
        else e = index + 1
      else skip_from sql quote (index + 1) = Some e
    else False"
    by (subst (asm) skip_from.simps) (auto split: if_splits)
  with "1.IH" show ?case by (auto split: if_splits)
qed

definition slice_str :: "string \<Rightarrow> nat \<Rightarrow> nat \<Rightarrow> string" where
  "slice_str s from stop = take (stop - from) (drop from s)"

definition HIDDEN_LITERAL :: string where
  "HIDDEN_LITERAL = SQ @ ''[HIDDEN]'' @ SQ"

definition is_quote :: "char \<Rightarrow> bool" where
  "is_quote c \<longleftrightarrow> c = CHR 0x27 \<or> c = CHR 0x60"

text \<open>The loop of \<open>mask_sql_literals\<close>: what it appends from the position \<open>index\<close> on.\<close>

function mask_from :: "string \<Rightarrow> nat \<Rightarrow> nat \<Rightarrow> string" where
  "mask_from sql plain_start index =
     (if index < length sql then
        if \<not> is_quote (sql ! index) then mask_from sql plain_start (index + 1)
        else slice_str sql plain_start index @
          (case skip_quoted sql index of
             None \<Rightarrow> HIDDEN_LITERAL
           | Some stop \<Rightarrow>
               (if sql ! index = CHR 0x27 then HIDDEN_LITERAL else slice_str sql index stop)
               @ mask_from sql stop stop)
      else slice_str sql plain_start (length sql))"
  by pat_completeness auto
termination
proof (relation "measure (\<lambda>(sql, plain_start, index). length sql - index)")
  fix sql :: string and plain_start index stop :: nat
  assume "index < length sql" and s: "skip_quoted sql index = Some stop"
  then show "((sql, stop, stop), sql, plain_start, index) \<in> measure (\<lambda>(sql, plain_start, index). length sql - index)"
    using skip_from_ahead [OF s [unfolded skip_quoted_def]] by auto
qed auto

declare mask_from.simps [simp del]

definition mask_sql_literals :: "string \<Rightarrow> string" where
  "mask_sql_literals sql = mask_from sql 0 0"

section \<open>The statements\<close>

definition GET_TABLES_SQL :: "string \<Rightarrow> string \<Rightarrow> string" where
  "GET_TABLES_SQL db_condition tables_condition =
     ''SELECT database, name, engine, engine_full, create_table_query, data_paths, ''
     @ ''metadata_path, uuid FROM system.tables WHERE ('' @ db_condition @ '') AND (''
     @ tables_condition @ '') AND engine NOT IN ('' @ SQ @ ''Proxy'' @ SQ @ '', '' @ SQ
     @ ''StorageProxy'' @ SQ
     @ '') UNION ALL SELECT database, name, engine, engine_full, create_table_query, [], ''
     @ ''metadata_path, uuid FROM system.tables WHERE ('' @ db_condition @ '') AND (''
     @ tables_condition @ '') AND engine IN ('' @ SQ @ ''Proxy'' @ SQ @ '', '' @ SQ
     @ ''StorageProxy'' @ SQ @ '') ORDER BY metadata_modification_time FORMAT JSON''"

definition GET_TABLES_SQL_23_8 :: "string \<Rightarrow> string \<Rightarrow> string" where
  "GET_TABLES_SQL_23_8 db_condition tables_condition =
     ''SELECT database, name, engine, engine_full, create_table_query, data_paths, ''
     @ ''metadata_path, uuid FROM system.tables WHERE ('' @ db_condition @ '') AND (''
     @ tables_condition @ '') AND name NOT IN (SELECT name FROM system.tables WHERE (''
     @ db_condition @ '') AND engine = '' @ SQ @ ''StorageProxy'' @ SQ
     @ '') UNION ALL SELECT database, name, engine, engine_full, create_table_query, [], ''
     @ ''metadata_path, uuid FROM system.tables WHERE ('' @ db_condition @ '') AND (''
     @ tables_condition @ '') AND engine = '' @ SQ @ ''StorageProxy'' @ SQ
     @ '' ORDER BY metadata_modification_time FORMAT JSON''"

definition GET_TABLES_SHORT_SQL :: "string \<Rightarrow> string \<Rightarrow> string" where
  "GET_TABLES_SHORT_SQL db_condition tables_condition =
     ''SELECT database, name, uuid, engine, create_table_query FROM system.tables WHERE (''
     @ db_condition @ '') AND ('' @ tables_condition
     @ '') ORDER BY metadata_modification_time FORMAT JSON''"

definition GET_DETACHED_TABLES_SQL :: "string" where
  "GET_DETACHED_TABLES_SQL =
     ''SELECT database, table, uuid, metadata_path FROM system.detached_tables WHERE database ''
     @ ''IN ( SELECT name FROM system.databases WHERE engine IN ('' @ SQ @ ''Atomic'' @ SQ
     @ '', '' @ SQ @ ''Ordinary'' @ SQ @ '', '' @ SQ @ ''Replicated'' @ SQ @ '', '' @ SQ
     @ ''Lazy'' @ SQ @ '') ) FORMAT JSON''"

definition GET_REPLICAS_SQL :: "string \<Rightarrow> string \<Rightarrow> string \<Rightarrow> string" where
  "GET_REPLICAS_SQL db_condition tables_condition readonly_condition =
     ''SELECT database, table, is_readonly FROM system.replicas WHERE ('' @ db_condition
     @ '') AND ('' @ tables_condition @ '') AND ('' @ readonly_condition
     @ '') ORDER BY database, table FORMAT JSON''"

definition CHECK_TABLE_SQL :: "string \<Rightarrow> string \<Rightarrow> string" where
  "CHECK_TABLE_SQL db_name table_name =
     ''SELECT count() FROM system.tables WHERE database = '' @ SQ @ db_name @ SQ
     @ '' AND name = '' @ SQ @ table_name @ SQ @ '' FORMAT TSVRaw''"

definition DATABASE_ATTACH_SQL :: "string \<Rightarrow> string" where
  "DATABASE_ATTACH_SQL db_name =
     ''ATTACH DATABASE `'' @ db_name @ ''`''"

definition PART_ATTACH_SQL :: "string \<Rightarrow> string \<Rightarrow> string \<Rightarrow> string" where
  "PART_ATTACH_SQL db_name table_name part_name =
     ''ALTER TABLE `'' @ db_name @ ''`.`'' @ table_name @ ''` ATTACH PART '' @ SQ @ part_name @ SQ"

definition TABLE_ATTACH_SQL :: "string \<Rightarrow> string \<Rightarrow> string" where
  "TABLE_ATTACH_SQL db_name table_name =
     ''ATTACH TABLE `'' @ db_name @ ''`.`'' @ table_name @ ''`''"

definition FREEZE_TABLE_SQL :: "string \<Rightarrow> string \<Rightarrow> string \<Rightarrow> string" where
  "FREEZE_TABLE_SQL db_name table_name backup_name =
     ''ALTER TABLE `'' @ db_name @ ''`.`'' @ table_name @ ''` FREEZE WITH NAME '' @ SQ
     @ backup_name @ SQ"

definition FREEZE_PARTITION_SQL :: "string \<Rightarrow> string \<Rightarrow> string \<Rightarrow> string \<Rightarrow> string" where
  "FREEZE_PARTITION_SQL db_name table_name part_id backup_name =
     ''ALTER TABLE `'' @ db_name @ ''`.`'' @ table_name @ ''` FREEZE PARTITION ID '' @ SQ
     @ part_id @ SQ @ '' WITH NAME '' @ SQ @ backup_name @ SQ"

definition SYSTEM_UNFREEZE_SQL :: "string \<Rightarrow> string" where
  "SYSTEM_UNFREEZE_SQL backup_name =
     ''SYSTEM UNFREEZE WITH NAME '' @ SQ @ backup_name @ SQ"

definition KILL_RUNNING_FREEZE_SQL :: "string \<Rightarrow> string" where
  "KILL_RUNNING_FREEZE_SQL user =
     ''KILL QUERY WHERE query_kind='' @ SQ @ ''Alter'' @ SQ @ '' AND user='' @ SQ @ user @ SQ
     @ '' AND query ilike '' @ SQ @ ''%ALTER TABLE%FREEZE%'' @ SQ"

definition DROP_TABLE_IF_EXISTS_SQL :: "string \<Rightarrow> string \<Rightarrow> string" where
  "DROP_TABLE_IF_EXISTS_SQL db_name table_name =
     ''DROP TABLE IF EXISTS `'' @ db_name @ ''`.`'' @ table_name @ ''` NO DELAY''"

definition DROP_DICTIONARY_IF_EXISTS_SQL :: "string \<Rightarrow> string \<Rightarrow> string" where
  "DROP_DICTIONARY_IF_EXISTS_SQL db_name table_name =
     ''DROP DICTIONARY IF EXISTS `'' @ db_name @ ''`.`'' @ table_name @ ''` NO DELAY''"

definition DROP_DATABASE_IF_EXISTS_SQL :: "string \<Rightarrow> string" where
  "DROP_DATABASE_IF_EXISTS_SQL db_name =
     ''DROP DATABASE IF EXISTS `'' @ db_name @ ''` NO DELAY''"

definition DROP_UDF_SQL :: "string \<Rightarrow> string" where
  "DROP_UDF_SQL udf_name =
     ''DROP FUNCTION `'' @ udf_name @ ''`''"

definition DROP_NAMED_COLLECTION_SQL :: "string \<Rightarrow> string" where
  "DROP_NAMED_COLLECTION_SQL nc_name =
     ''DROP NAMED COLLECTION `'' @ nc_name @ ''`''"

definition DROP_WORKLOAD_SQL :: "string \<Rightarrow> string" where
  "DROP_WORKLOAD_SQL entity_name =
     ''DROP WORKLOAD IF EXISTS `'' @ entity_name @ ''`''"

definition DROP_RESOURCE_SQL :: "string \<Rightarrow> string" where
  "DROP_RESOURCE_SQL entity_name =
     ''DROP RESOURCE IF EXISTS `'' @ entity_name @ ''`''"

definition TRUNCATE_TABLE_IF_EXISTS_SQL :: "string \<Rightarrow> string \<Rightarrow> string" where
  "TRUNCATE_TABLE_IF_EXISTS_SQL db_name table_name =
     ''TRUNCATE TABLE IF EXISTS `'' @ db_name @ ''`.`'' @ table_name @ ''`''"

definition RESTORE_REPLICA_SQL :: "string \<Rightarrow> string \<Rightarrow> string" where
  "RESTORE_REPLICA_SQL db_name table_name =
     ''SYSTEM RESTORE REPLICA `'' @ db_name @ ''`.`'' @ table_name @ ''`''"

definition DROP_REPLICA_BY_ZK_PATH_SQL :: "string \<Rightarrow> string \<Rightarrow> string" where
  "DROP_REPLICA_BY_ZK_PATH_SQL replica_name zk_path =
     ''SYSTEM DROP REPLICA '' @ SQ @ replica_name @ SQ @ '' FROM ZKPATH '' @ SQ @ zk_path @ SQ"

definition DROP_DATABASE_REPLICA_BY_ZK_PATH_SQL :: "string \<Rightarrow> string \<Rightarrow> string" where
  "DROP_DATABASE_REPLICA_BY_ZK_PATH_SQL replica_name zk_path =
     ''SYSTEM DROP DATABASE REPLICA '' @ SQ @ replica_name @ SQ @ '' FROM ZKPATH '' @ SQ @ zk_path
     @ SQ"

definition GET_DDL_QUEUE_STATUS_SQL :: "string \<Rightarrow> string" where
  "GET_DDL_QUEUE_STATUS_SQL db_name =
     ''SELECT entry, query, status, exception_code, exception_text FROM ''
     @ ''system.distributed_ddl_queue WHERE cluster = '' @ SQ @ db_name @ SQ @ '' AND status != ''
     @ SQ @ ''Finished'' @ SQ @ '' ORDER BY entry FORMAT JSON''"

definition GET_DATABASES_SQL :: "string \<Rightarrow> string" where
  "GET_DATABASES_SQL system_db =
     ''SELECT name, engine, metadata_path, uuid, CAST(engine_full, '' @ SQ @ ''Nullable(String)''
     @ SQ @ '') AS engine_full FROM system.databases WHERE engine = '' @ SQ @ ''Replicated'' @ SQ
     @ '' AND name NOT IN ('' @ SQ @ ''system'' @ SQ @ '', '' @ SQ
     @ ''_temporary_and_external_tables'' @ SQ @ '', '' @ SQ @ ''information_schema'' @ SQ
     @ '', '' @ SQ @ ''INFORMATION_SCHEMA'' @ SQ @ '', '' @ SQ @ system_db @ SQ
     @ '') UNION ALL SELECT name, engine, metadata_path, uuid, CAST(NULL, '' @ SQ
     @ ''Nullable(String)'' @ SQ @ '') AS engine_full FROM system.databases WHERE engine != ''
     @ SQ @ ''Replicated'' @ SQ @ '' AND name NOT IN ('' @ SQ @ ''system'' @ SQ @ '', '' @ SQ
     @ ''_temporary_and_external_tables'' @ SQ @ '', '' @ SQ @ ''information_schema'' @ SQ
     @ '', '' @ SQ @ ''INFORMATION_SCHEMA'' @ SQ @ '', '' @ SQ @ system_db @ SQ
     @ '') FORMAT JSON''"

definition GET_DATABASES_SQL_22_8 :: "string \<Rightarrow> string" where
  "GET_DATABASES_SQL_22_8 system_db =
     ''SELECT name, engine, metadata_path, uuid FROM system.databases WHERE name NOT IN ('' @ SQ
     @ ''system'' @ SQ @ '', '' @ SQ @ ''_temporary_and_external_tables'' @ SQ @ '', '' @ SQ
     @ ''information_schema'' @ SQ @ '', '' @ SQ @ ''INFORMATION_SCHEMA'' @ SQ @ '', '' @ SQ
     @ system_db @ SQ @ '') FORMAT JSON''"

definition CREATE_IF_NOT_EXISTS_SYSTEM_DB_SQL :: "string \<Rightarrow> string" where
  "CREATE_IF_NOT_EXISTS_SYSTEM_DB_SQL system_db =
     ''CREATE DATABASE IF NOT EXISTS `'' @ system_db @ ''`''"

definition CREATE_IF_NOT_EXISTS_DEDUP_TABLE_SQL :: "string \<Rightarrow> string" where
  "CREATE_IF_NOT_EXISTS_DEDUP_TABLE_SQL system_db =
     ''CREATE TABLE IF NOT EXISTS `'' @ system_db
     @ ''`._deduplication_info ( database String, table String, name String, backup_name String, ''
     @ ''link_part_name String, checksum String, size Int64, files Array(String), tarball Bool, ''
     @ ''disk_name String, verified Bool, encrypted Bool ) ENGINE = MergeTree() ORDER BY ''
     @ ''(database, table, name, checksum)''"

definition CREATE_IF_NOT_EXISTS_DEDUP_TABLE_CURRENT_SQL :: "string \<Rightarrow> string" where
  "CREATE_IF_NOT_EXISTS_DEDUP_TABLE_CURRENT_SQL system_db =
     ''CREATE TABLE IF NOT EXISTS `'' @ system_db
     @ ''`._deduplication_info_current ( name String, checksum String, ) ENGINE = MergeTree() ''
     @ ''ORDER BY (name, checksum)''"

definition INSERT_DEDUP_INFO_BATCH_SQL :: "string \<Rightarrow> string \<Rightarrow> string \<Rightarrow> string" where
  "INSERT_DEDUP_INFO_BATCH_SQL system_db tbl batch =
     ''INSERT INTO `'' @ system_db @ ''`.`'' @ tbl @ ''` VALUES '' @ batch"

definition GET_DEDUPLICATED_PARTS_SQL :: "string \<Rightarrow> string \<Rightarrow> string \<Rightarrow> string" where
  "GET_DEDUPLICATED_PARTS_SQL system_db database tbl =
     ''SELECT `'' @ system_db @ ''`._deduplication_info_current.name AS current_name, `''
     @ system_db @ ''`._deduplication_info.* FROM `'' @ system_db
     @ ''`._deduplication_info JOIN `'' @ system_db
     @ ''`._deduplication_info_current ON _deduplication_info.checksum = ''
     @ ''_deduplication_info_current.checksum WHERE database='' @ SQ @ database @ SQ
     @ '' AND table='' @ SQ @ tbl @ SQ
     @ '' ORDER BY _deduplication_info.backup_name DESC LIMIT 1 BY current_name FORMAT JSON''"

definition SHOW_CREATE_DATABASE_SQL :: "string \<Rightarrow> string" where
  "SHOW_CREATE_DATABASE_SQL db_name =
     ''SHOW CREATE DATABASE `'' @ db_name @ ''` FORMAT TSVRaw''"

definition GET_DATABASE_ENGINE :: "string \<Rightarrow> string" where
  "GET_DATABASE_ENGINE db_name =
     ''SELECT engine FROM system.databases WHERE name='' @ SQ @ db_name @ SQ @ '' FORMAT TSVRaw''"

definition GET_DATABASE_METADATA_PATH :: "string \<Rightarrow> string" where
  "GET_DATABASE_METADATA_PATH db_name =
     ''SELECT metadata_path FROM system.databases WHERE name='' @ SQ @ db_name @ SQ
     @ '' FORMAT JSON''"

definition GET_VERSION_SQL :: "string" where
  "GET_VERSION_SQL =
     ''SELECT version() FORMAT TSVRaw''"

definition GET_MACROS_SQL :: "string" where
  "GET_MACROS_SQL =
     ''SELECT macro, substitution FROM system.macros FORMAT JSON''"

definition GET_ACCESS_CONTROL_OBJECTS_SQL :: "string \<Rightarrow> string" where
  "GET_ACCESS_CONTROL_OBJECTS_SQL typ =
     ''SELECT id, name FROM system.'' @ typ @ '' WHERE storage IN ('' @ SQ @ ''disk'' @ SQ
     @ '', '' @ SQ @ ''local directory'' @ SQ @ '', '' @ SQ @ ''local_directory'' @ SQ @ '', ''
     @ SQ @ ''replicated'' @ SQ @ '') FORMAT JSON''"

definition GET_DISK_SQL :: "string \<Rightarrow> string" where
  "GET_DISK_SQL disk_name =
     ''SELECT name, path, type, cache_path FROM system.disks WHERE name = '' @ SQ @ disk_name @ SQ
     @ '' FORMAT JSON''"

definition GET_DISK_SQL_24_3 :: "string \<Rightarrow> string" where
  "GET_DISK_SQL_24_3 disk_name =
     ''SELECT name, path, type, object_storage_type, metadata_type, cache_path FROM ''
     @ ''system.disks WHERE name = '' @ SQ @ disk_name @ SQ @ '' FORMAT JSON''"

definition GET_DISKS_SQL :: "string" where
  "GET_DISKS_SQL =
     ''SELECT name, path, type FROM system.disks ORDER BY length(path) DESC FORMAT JSON''"

definition GET_DISKS_SQL_22_8 :: "string" where
  "GET_DISKS_SQL_22_8 =
     ''SELECT name, path, type, cache_path FROM system.disks ORDER BY length(path) DESC FORMAT ''
     @ ''JSON''"

definition GET_DISKS_SQL_24_3 :: "string" where
  "GET_DISKS_SQL_24_3 =
     ''SELECT name, path, type, object_storage_type, metadata_type, cache_path FROM ''
     @ ''system.disks ORDER BY length(path) DESC FORMAT JSON''"

definition GET_UDF_QUERY_SQL :: "string" where
  "GET_UDF_QUERY_SQL =
     ''SELECT name, create_query FROM system.functions WHERE origin == '' @ SQ
     @ ''SQLUserDefined'' @ SQ @ '' FORMAT JSON''"

definition GET_NAMED_COLLECTIONS_QUERY_SQL :: "string" where
  "GET_NAMED_COLLECTIONS_QUERY_SQL =
     ''SELECT name FROM system.named_collections FORMAT JSON''"

definition GET_WORKLOAD_ENTITIES_QUERY_SQL :: "string" where
  "GET_WORKLOAD_ENTITIES_QUERY_SQL =
     ''SELECT name, type FROM ( SELECT name, '' @ SQ @ ''workload'' @ SQ
     @ '' AS type FROM system.workloads UNION ALL SELECT name, '' @ SQ @ ''resource'' @ SQ
     @ '' AS type FROM system.resources ) ORDER BY name FORMAT JSON''"

definition DECRYPT_AES_CTR_QUERY_SQL :: "string \<Rightarrow> string \<Rightarrow> string \<Rightarrow> string \<Rightarrow> string" where
  "DECRYPT_AES_CTR_QUERY_SQL key_size data_hex key_hex iv_hex =
     ''SELECT decrypt('' @ SQ @ ''aes-'' @ key_size @ ''-ctr'' @ SQ @ '', unhex('' @ SQ @ data_hex
     @ SQ @ ''), unhex('' @ SQ @ key_hex @ SQ @ ''), unhex('' @ SQ @ iv_hex @ SQ
     @ '')) AS data FORMAT JSON''"

definition RELOAD_CONFIG_SQL :: "string" where
  "RELOAD_CONFIG_SQL =
     ''SYSTEM RELOAD CONFIG''"

definition RELOAD_USERS_SQL :: "string" where
  "RELOAD_USERS_SQL =
     ''SYSTEM RELOAD USERS''"

definition RENAME_TABLE_SQL :: "string \<Rightarrow> string \<Rightarrow> string \<Rightarrow> string" where
  "RENAME_TABLE_SQL db_name old_table_name new_table_name =
     ''RENAME TABLE `'' @ db_name @ ''`.`'' @ old_table_name @ ''` TO `'' @ db_name @ ''`.`''
     @ new_table_name @ ''`''"

definition GET_ZOOKEEPER_ADMIN_USER :: "string" where
  "GET_ZOOKEEPER_ADMIN_USER =
     ''SELECT name, value FROM system.zookeeper WHERE (path = '' @ SQ @ ''/clickhouse/access/U''
     @ SQ @ '') AND (name = '' @ SQ @ ''admin'' @ SQ @ '') FORMAT JSON''"

definition GET_ZOOKEEPER_ADMIN_UUID :: "string" where
  "GET_ZOOKEEPER_ADMIN_UUID =
     ''SELECT name, value FROM system.zookeeper WHERE (path = '' @ SQ
     @ ''/clickhouse/access/uuid'' @ SQ @ '') AND (value LIKE '' @ SQ @ ''ATTACH USER admin%''
     @ SQ @ '') FORMAT JSON''"

definition CHECK_ZOOKEEPER_SQL :: "string" where
  "CHECK_ZOOKEEPER_SQL =
     ''SELECT 1 FROM system.zookeeper WHERE path = '' @ SQ @ ''/'' @ SQ @ '' LIMIT 1 FORMAT Null''"

definition GET_PARTITIONS :: "string \<Rightarrow> string \<Rightarrow> string" where
  "GET_PARTITIONS db_name table_name =
     ''SELECT DISTINCT partition_id FROM system.parts WHERE database = '' @ SQ @ db_name @ SQ
     @ '' AND table = '' @ SQ @ table_name @ SQ @ '' AND active = 1 FORMAT JSONCompact''"

definition METADATA_PLACEHOLDER :: "string \<Rightarrow> string" where
  "METADATA_PLACEHOLDER uuid =
     ''ATTACH TABLE _ UUID '' @ SQ @ uuid @ SQ
     @ '' ( `a` UInt32 ) ENGINE = MergeTree ORDER BY a SETTINGS index_granularity = 8192''"

section \<open>Facts\<close>

text \<open>The text of a quoted body, read from its first character: escapes and doubled quotes are pairs.\<close>

fun closed_body :: "char \<Rightarrow> string \<Rightarrow> bool" where
  "closed_body q [] = True"
| "closed_body q (c # cs) =
     (if c = BACKSLASH then cs \<noteq> [] \<and> closed_body q (tl cs)
      else if c = q then cs \<noteq> [] \<and> hd cs = q \<and> closed_body q (tl cs)
      else closed_body q cs)"

lemma skip_from_body:
  assumes "closed_body q body" "q \<noteq> BACKSLASH" "rest \<noteq> [] \<longrightarrow> hd rest \<noteq> q"
  shows "skip_from (pre @ body @ q # rest) q (length pre) = Some (length pre + length body + 1)"
  using assms
proof (induction q body arbitrary: pre rule: closed_body.induct)
  case (1 q)
  then show ?case by (cases rest) (simp_all add: skip_from.simps nth_append)
next
  case (2 q c cs)
  show ?case
  proof (cases "c = BACKSLASH \<or> c = q")
    case True
    with "2.prems" obtain d ds where cs: "cs = d # ds" "closed_body q ds" and d: "c \<noteq> BACKSLASH \<Longrightarrow> d = q"
      by (cases cs) (auto split: if_splits)
    have "skip_from ((pre @ [c, d]) @ ds @ q # rest) q (length (pre @ [c, d])) = Some (length (pre @ [c, d]) + length ds + 1)"
      using True cs "2.IH"(1,2) [of "pre @ [c, d]"] "2.prems"(2,3) by (cases "c = BACKSLASH") auto
    with True d show ?thesis
      by (subst skip_from.simps) (auto simp: cs nth_append)
  next
    case False
    with "2.prems" "2.IH"(3) [of "pre @ [c]"] show ?thesis
      by (subst skip_from.simps) (simp add: nth_append)
  qed
qed

lemma skip_quoted_body:
  assumes "closed_body q body" "is_quote q" "rest \<noteq> [] \<longrightarrow> hd rest \<noteq> q"
  shows "skip_quoted (pre @ q # body @ q # rest) (length pre) = Some (length pre + length body + 2)"
proof -
  have "skip_from ((pre @ [q]) @ body @ q # rest) q (length (pre @ [q])) = Some (length (pre @ [q]) + length body + 1)"
    by (rule skip_from_body) (use assms in \<open>auto simp: is_quote_def\<close>)
  then show ?thesis by (simp add: skip_quoted_def)
qed

lemma closed_escape: "BACKSLASH \<notin> set s \<Longrightarrow> closed_body CHR 0x60 (sql_escape s)"
proof -
  have "BACKSLASH \<notin> set s \<Longrightarrow> closed_body CHR 0x60 (concat (map escape_char s))"
    by (induction s) (auto simp: escape_char_def)
  then show "BACKSLASH \<notin> set s \<Longrightarrow> closed_body CHR 0x60 (sql_escape s)" by (simp add: sql_escape_concat)
qed



subsection \<open>A backslash in a name\<close>

text \<open>\<open>escape\<close> leaves a backslash alone, so a backslash at the end of a name swallows the closing quote:
  the quoted text goes on to the next backquote of the statement.\<close>

lemma escape_backslash_end:
  assumes "BACKSLASH \<notin> set name" "CHR 0x60 \<notin> set rest" "BACKSLASH \<notin> set rest"
  shows "skip_quoted (BQ @ sql_escape (name @ [BACKSLASH]) @ BQ @ rest) 0 = None"
proof -
  have closed: "skip_from (pre @ rest) CHR 0x60 (length pre) = None" for pre
    using assms(2,3)
  proof (induction rest arbitrary: pre)
    case (Cons c cs)
    from Cons.IH [of "pre @ [c]"] Cons.prems show ?case
      by (subst skip_from.simps) (auto simp: nth_append)
  qed (simp add: skip_from.simps)
  have end_: "skip_from (pre @ [BACKSLASH] @ BQ @ rest) CHR 0x60 (length pre) = None" for pre
    using closed [of "pre @ [BACKSLASH] @ BQ"] by (subst skip_from.simps) (simp add: nth_append)
  have "closed_body CHR 0x60 body \<Longrightarrow>
      skip_from (pre @ body @ [BACKSLASH] @ BQ @ rest) CHR 0x60 (length pre) = None" for pre body
  proof (induction "CHR 0x60" body arbitrary: pre rule: closed_body.induct)
    case 1
    show ?case using end_ [of pre] by simp
  next
    case (2 c cs)
    show ?case
    proof (cases "c = BACKSLASH \<or> c = CHR 0x60")
      case True
      with "2.prems" obtain d ds where cs: "cs = d # ds" "closed_body CHR 0x60 ds" and d: "c \<noteq> BACKSLASH \<Longrightarrow> d = c"
        by (cases cs) (auto split: if_splits)
      have "skip_from ((pre @ [c, d]) @ ds @ [BACKSLASH] @ BQ @ rest) CHR 0x60 (length (pre @ [c, d])) = None"
        using True cs "2.hyps"(1,2) [of "pre @ [c, d]"] by (cases "c = BACKSLASH") auto
      with True d show ?thesis by (subst skip_from.simps) (auto simp: cs nth_append)
    next
      case False
      with "2.prems" "2.hyps"(3) [of "pre @ [c]"] show ?thesis
        by (subst skip_from.simps) (simp add: nth_append)
    qed
  qed
  from this [OF closed_escape [OF assms(1)], of BQ] show ?thesis
    by (simp add: skip_quoted_def sql_escape_concat escape_char_def)
qed

subsection \<open>Masking\<close>

datatype sql_token = Plain string | Literal string | Identifier string

fun token_text :: "sql_token \<Rightarrow> string" where
  "token_text (Plain s) = s"
| "token_text (Literal b) = SQ @ b @ SQ"
| "token_text (Identifier b) = BQ @ b @ BQ"

fun masked_text :: "sql_token \<Rightarrow> string" where
  "masked_text (Plain s) = s"
| "masked_text (Literal b) = HIDDEN_LITERAL"
| "masked_text (Identifier b) = BQ @ b @ BQ"

abbreviation sql_text :: "sql_token list \<Rightarrow> string" where
  "sql_text ts \<equiv> concat (map token_text ts)"

text \<open>Two adjacent pieces with the same quote would be one: the quote between them is doubled.\<close>

fun sql_tokens :: "sql_token list \<Rightarrow> bool" where
  "sql_tokens [] = True"
| "sql_tokens (t # ts) =
     ((case t of
         Plain s \<Rightarrow> (\<forall>c \<in> set s. \<not> is_quote c)
       | Literal b \<Rightarrow> closed_body CHR 0x27 b \<and> (sql_text ts \<noteq> [] \<longrightarrow> hd (sql_text ts) \<noteq> CHR 0x27)
       | Identifier b \<Rightarrow> closed_body CHR 0x60 b \<and> (sql_text ts \<noteq> [] \<longrightarrow> hd (sql_text ts) \<noteq> CHR 0x60))
      \<and> sql_tokens ts)"

lemma slice_str_join:
  assumes "a \<le> b" "b \<le> c"
  shows "slice_str s a b @ slice_str s b c = slice_str s a c"
proof -
  have "take (c - a) (drop a s) = take (b - a) (drop a s) @ take (c - b) (drop (b - a) (drop a s))"
    using take_add [of "b - a" "c - b" "drop a s"] assms by simp
  then show ?thesis using assms(1) by (simp add: slice_str_def)
qed

lemma slice_str_empty [simp]: "slice_str s a a = []"
  by (simp add: slice_str_def)

lemma mask_from_start:
  assumes "plain_start \<le> index" "index \<le> length sql"
  shows "mask_from sql plain_start index = slice_str sql plain_start index @ mask_from sql index index"
  using assms
proof (induction "length sql - index" arbitrary: plain_start index rule: less_induct)
  case less
  show ?case
  proof (cases "index < length sql \<and> \<not> is_quote (sql ! index)")
    case True
    then have dec: "length sql - Suc index < length sql - index" by auto
    have "slice_str sql plain_start index @ slice_str sql index (Suc index) = slice_str sql plain_start (Suc index)"
      by (rule slice_str_join) (use True less.prems in auto)
    with True less.hyps [OF dec, of plain_start] less.hyps [OF dec, of index] less.prems
    show ?thesis by (simp add: mask_from.simps [of sql _ index] flip: append_assoc)
  next
    case False
    with less.prems show ?thesis by (auto simp: mask_from.simps [of sql _ index])
  qed
qed

lemma mask_from_plain:
  assumes "\<forall>c \<in> set s. \<not> is_quote c"
  shows "mask_from (pre @ s @ rest) (length pre) (length pre)
     = s @ mask_from (pre @ s @ rest) (length (pre @ s)) (length (pre @ s))"
proof -
  have "mask_from (pre @ s @ rest) p (length pre) = mask_from (pre @ s @ rest) p (length (pre @ s))" for p
    using assms
  proof (induction s arbitrary: pre)
    case (Cons c cs)
    from Cons.IH [of "pre @ [c]"] Cons.prems show ?case
      by (subst mask_from.simps) (simp add: nth_append)
  qed simp
  then show ?thesis
    by (simp add: mask_from_start [of "length pre" "length pre + length s"] slice_str_def)
qed

lemma mask_from_quoted:
  assumes "closed_body q b" "is_quote q" "rest \<noteq> [] \<longrightarrow> hd rest \<noteq> q"
  shows "mask_from (pre @ q # b @ q # rest) (length pre) (length pre)
     = (if q = CHR 0x27 then HIDDEN_LITERAL else q # b @ [q])
       @ mask_from (pre @ q # b @ q # rest) (length pre + length b + 2) (length pre + length b + 2)"
  using assms(2) skip_quoted_body [OF assms, of pre]
  by (subst mask_from.simps) (simp add: nth_append slice_str_def)

lemma mask_from_tokens:
  assumes "sql_tokens ts"
  shows "mask_from (pre @ sql_text ts) (length pre) (length pre) = concat (map masked_text ts)"
  using assms
proof (induction ts arbitrary: pre)
  case Nil
  then show ?case by (simp add: mask_from.simps slice_str_def)
next
  case (Cons t ts)
  show ?case
  proof (cases t)
    case (Plain s)
    with Cons mask_from_plain [of s pre "sql_text ts"] Cons.IH [of "pre @ s"] show ?thesis by simp
  next
    case (Literal b)
    with Cons mask_from_quoted [of "CHR 0x27" b "sql_text ts" pre] Cons.IH [of "pre @ SQ @ b @ SQ"]
    show ?thesis by (simp add: is_quote_def)
  next
    case (Identifier b)
    with Cons mask_from_quoted [of "CHR 0x60" b "sql_text ts" pre] Cons.IH [of "pre @ BQ @ b @ BQ"]
    show ?thesis by (simp add: is_quote_def)
  qed
qed

definition hide_literal :: "sql_token \<Rightarrow> sql_token" where
  "hide_literal t = (case t of Literal b \<Rightarrow> Literal [] | _ \<Rightarrow> t)"

lemma masked_hide: "masked_text (hide_literal t) = masked_text t"
  by (cases t) (simp_all add: hide_literal_def)

text \<open>C25. What is logged of a statement does not depend on its literals: two statements that differ only
  in the contents of their string literals, quotes and backslashes included, are masked to the same text,
  which keeps everything else.\<close>

theorem literals_are_masked:
  assumes "sql_tokens ts" "sql_tokens us" "map hide_literal ts = map hide_literal us"
  shows "mask_sql_literals (sql_text ts) = mask_sql_literals (sql_text us)
     \<and> mask_sql_literals (sql_text ts) = concat (map masked_text ts)"
proof -
  have m: "mask_sql_literals (sql_text xs) = concat (map masked_text xs)" if "sql_tokens xs" for xs
    using mask_from_tokens [OF that, of "[]"] by (simp add: mask_sql_literals_def)
  have "map masked_text ts = map masked_text (map hide_literal ts)" by (simp add: masked_hide)
  also have "\<dots> = map masked_text us" unfolding assms(3) by (simp add: masked_hide)
  finally show ?thesis using m [OF assms(1)] m [OF assms(2)] by simp
qed

theorem literals_are_masked_witness:
  "mask_sql_literals (sql_text [Plain ''key = '', Literal (''a'' @ SQ @ SQ @ ''b'')])
     = mask_sql_literals (sql_text [Plain ''key = '', Literal ''c''])"
  using literals_are_masked [of "[Plain ''key = '', Literal (''a'' @ SQ @ SQ @ ''b'')]"
      "[Plain ''key = '', Literal ''c'']"]
  by (simp add: hide_literal_def is_quote_def)

end
