(* ===== verification/Client.thy ===== *)
theory Client
  imports Sql
begin

text \<open>
  The ClickHouse client (\<^verbatim>\<open>clickhouse/client.py\<close>): one HTTP request per attempt, the errors it raises
  and its retries. The HTTP library is the parameter \<open>cl_post\<close>. An answer is a JSON document when its
  text is one, and the stripped text otherwise.
\<close>

section \<open>Documents\<close>

datatype json =
    JNull
  | JBool bool
  | JInt int
  | JStr string
  | JList "json list"
  | JObj "(string \<times> json) list"

text \<open>\<open>row[key]\<close> and \<open>row.get(key)\<close>; a value of another type than the model's is a \<open>TypeError\<close>.\<close>

definition j_item :: "string \<Rightarrow> json \<Rightarrow> json res" where
  "j_item key j = (case j of JObj d \<Rightarrow> dict_get d key | _ \<Rightarrow> Inl TypeError)"

definition j_get :: "string \<Rightarrow> json \<Rightarrow> json res" where
  "j_get key j =
     (case j of JObj d \<Rightarrow> Inr (case map_of d key of None \<Rightarrow> JNull | Some v \<Rightarrow> v) | _ \<Rightarrow> Inl TypeError)"

definition as_str :: "json \<Rightarrow> string res" where
  "as_str j = (case j of JStr s \<Rightarrow> Inr s | _ \<Rightarrow> Inl TypeError)"

definition as_str_option :: "json \<Rightarrow> string option res" where
  "as_str_option j = (case j of JStr s \<Rightarrow> Inr (Some s) | JNull \<Rightarrow> Inr None | _ \<Rightarrow> Inl TypeError)"

definition as_list :: "json \<Rightarrow> json list res" where
  "as_list j = (case j of JList l \<Rightarrow> Inr l | _ \<Rightarrow> Inl TypeError)"

definition str_item :: "string \<Rightarrow> json \<Rightarrow> string res" where
  "str_item key j = bind_res (j_item key j) as_str"

definition str_get :: "string \<Rightarrow> json \<Rightarrow> string option res" where
  "str_get key j = bind_res (j_get key j) as_str_option"

section \<open>Requests\<close>

record http_request =
  hq_query :: string
  hq_settings :: "(string \<times> int) list"
  hq_timeout :: int
  hq_new_session :: bool

record http_response =
  hr_status :: int
  hr_text :: string
  hr_json :: "json option"

record 'w ch_client =
  cl_post :: "http_request \<Rightarrow> ('w, http_response) act"
  cl_timeout :: int
  cl_settings :: "(string \<times> int) list"

record query_opts =
  qo_settings :: "(string \<times> int) list"
  qo_timeout :: "int option"
  qo_should_retry :: bool
  qo_new_session :: bool
  qo_sensitive :: bool

definition default_opts :: query_opts where
  "default_opts =
     \<lparr>qo_settings = [], qo_timeout = None, qo_should_retry = True, qo_new_session = False, qo_sensitive = False\<rparr>"

datatype answer = Json json | Text string

text \<open>The parameters of a request are the settings of the session, overridden by those of the query. A new
  session has none: the settings of the control tool are set on the shared session only.\<close>

definition request_of :: "'w ch_client \<Rightarrow> query_opts \<Rightarrow> string \<Rightarrow> http_request" where
  "request_of cl opts q =
     \<lparr>hq_query = q,
      hq_settings = fold (\<lambda>(k, v) d. dict_set d k v) (qo_settings opts)
                      (if qo_new_session opts then [] else cl_settings cl),
      hq_timeout = (case qo_timeout opts of None \<Rightarrow> cl_timeout cl | Some t \<Rightarrow> t),
      hq_new_session = qo_new_session opts\<rparr>"

definition response_error :: "query_opts \<Rightarrow> http_response \<Rightarrow> exn" where
  "response_error opts r =
     (let error_text = strip (hr_text r) in
      ClickhouseError (qo_should_retry opts)
        (if qo_sensitive opts then mask_sql_literals error_text else error_text))"

definition query_attempt :: "'w ch_client \<Rightarrow> query_opts \<Rightarrow> string \<Rightarrow> ('w, answer) act" where
  "query_attempt cl opts q =
     bind_act (cl_post cl (request_of cl opts q)) (\<lambda>r.
       if 400 \<le> hr_status r \<and> hr_status r < 600 then raise (response_error opts r)
       else ret (case hr_json r of Some j \<Rightarrow> Json j | None \<Rightarrow> Text (strip (hr_text r))))"

definition is_retriable :: "exn \<Rightarrow> bool" where
  "is_retriable e =
     (case e of RequestsConnectionError \<Rightarrow> True | ClickhouseError retriable msg \<Rightarrow> retriable | _ \<Rightarrow> False)"

definition query :: "'w ch_client \<Rightarrow> query_opts \<Rightarrow> string \<Rightarrow> ('w, answer) act" where
  "query cl opts q = retry_act is_retriable 4 (query_attempt cl opts q)"

text \<open>\<open>query(...)["data"]\<close> and \<open>query(...).get("data", [])\<close>.\<close>

definition json_of :: "answer \<Rightarrow> json res" where
  "json_of a = (case a of Json j \<Rightarrow> Inr j | Text _ \<Rightarrow> Inl TypeError)"

definition data_rows :: "answer \<Rightarrow> json list res" where
  "data_rows a = bind_res (json_of a) (\<lambda>j. bind_res (j_item ''data'' j) as_list)"

definition get_data :: "answer \<Rightarrow> json list res" where
  "get_data a =
     bind_res (json_of a) (\<lambda>j. bind_res (j_get ''data'' j) (\<lambda>d. if d = JNull then Inr [] else as_list d))"

section \<open>Facts\<close>

text \<open>C26. A query that must not be repeated, such as a freeze, reaches the server once when the server
  answers: with an error answer it raises that error, not retriable, and the world is the one after a
  single request.\<close>

theorem query_not_repeated:
  assumes "\<not> qo_should_retry opts" "cl_post cl (request_of cl opts q) w = (Inr r, w')"
  shows "query cl opts q w =
    (if 400 \<le> hr_status r \<and> hr_status r < 600 then Inl (response_error opts r)
     else Inr (case hr_json r of Some j \<Rightarrow> Json j | None \<Rightarrow> Text (strip (hr_text r))), w')"
proof -
  have "query_attempt cl opts q w = (if 400 \<le> hr_status r \<and> hr_status r < 600 then Inl (response_error opts r)
     else Inr (case hr_json r of Some j \<Rightarrow> Json j | None \<Rightarrow> Text (strip (hr_text r))), w')"
    using assms(2) by (simp add: query_attempt_def bind_act_def)
  moreover have "\<not> is_retriable (response_error opts r)"
    using assms(1) by (simp add: is_retriable_def response_error_def Let_def)
  ultimately show ?thesis by (simp add: query_def numeral_eq_Suc)
qed

theorem query_not_repeated_witness:
  "query \<lparr>cl_post = \<lambda>q n. (Inr \<lparr>hr_status = 500, hr_text = '' no '', hr_json = None\<rparr>, Suc n), cl_timeout = 10, cl_settings = []\<rparr>
     (default_opts\<lparr>qo_should_retry := False\<rparr>) ''ALTER'' (0::nat) = (Inl (ClickhouseError False ''no''), 1)"
  by (subst query_not_repeated [where r = "\<lparr>hr_status = 500, hr_text = '' no '', hr_json = None\<rparr>" and w' = "1::nat"])
    (simp_all add: default_opts_def response_error_def strip_def is_space_def)

end
