(* ===== verification/Regex.thy ===== *)
theory Regex
  imports PyStr
begin

text \<open>
  Python's regular expressions as far as the program uses them: a backtracking matcher that lists the matches
  in the order in which \<^verbatim>\<open>re\<close> tries them, with \<open>search\<close>, \<open>match\<close> and \<open>sub\<close>, the templates of replacements,
  and \<open>str.replace\<close>. Classes of characters are those of ASCII text.
\<close>

section \<open>Patterns\<close>

datatype rx =
    Chr "char \<Rightarrow> bool"
  | Eps
  | Cat rx rx
  | Alt rx rx
  | Rep nat "nat option" rx
  | Lazy rx
  | Grp string rx
  | Back string
  | Bol
  | Eol
  | Word_boundary

text \<open>A state: the character before, the text that follows, the groups (the last match first).\<close>

type_synonym groups = "(string \<times> string) list"
type_synonym match_state = "char option \<times> string \<times> groups"

definition consumed :: "string \<Rightarrow> string \<Rightarrow> string" where
  "consumed s rest = take (length s - length rest) s"

fun advance :: "match_state \<Rightarrow> nat \<Rightarrow> match_state" where
  "advance (prev, s, g) 0 = (prev, s, g)"
| "advance (prev, [], g) (Suc n) = (prev, [], g)"
| "advance (prev, c # s, g) (Suc n) = advance (Some c, s, g) n"

text \<open>Repetitions that consume nothing end: as many rounds as there are characters are enough.\<close>

fun rep_matches ::
  "(match_state \<Rightarrow> match_state list) \<Rightarrow> nat \<Rightarrow> nat option \<Rightarrow> nat \<Rightarrow> match_state \<Rightarrow> match_state list" where
  "rep_matches f lo hi 0 st = (if lo = 0 then [st] else [])"
| "rep_matches f lo hi (Suc n) st =
     (if hi = Some 0 then []
      else concat (map (rep_matches f (lo - 1) (map_option (\<lambda>h. h - 1) hi) n)
             (filter (\<lambda>t. length (fst (snd t)) < length (fst (snd st))) (f st))))
     @ (if lo = 0 then [st] else [])"

fun lazy_matches :: "(match_state \<Rightarrow> match_state list) \<Rightarrow> nat \<Rightarrow> match_state \<Rightarrow> match_state list" where
  "lazy_matches f 0 st = [st]"
| "lazy_matches f (Suc n) st =
     st # concat (map (lazy_matches f n) (filter (\<lambda>t. length (fst (snd t)) < length (fst (snd st))) (f st)))"

definition is_word :: "char \<Rightarrow> bool" where
  "is_word c \<longleftrightarrow> is_alnum c \<or> c = CHR ''_''"

definition at_boundary :: "char option \<Rightarrow> string \<Rightarrow> bool" where
  "at_boundary prev s \<longleftrightarrow>
     (case prev of None \<Rightarrow> False | Some c \<Rightarrow> is_word c) \<noteq> (case s of [] \<Rightarrow> False | c # _ \<Rightarrow> is_word c)"

primrec matches :: "rx \<Rightarrow> match_state \<Rightarrow> match_state list" where
  "matches (Chr p) =
     (\<lambda>(prev, s, g). case s of [] \<Rightarrow> [] | c # cs \<Rightarrow> if p c then [(Some c, cs, g)] else [])"
| "matches Eps = (\<lambda>st. [st])"
| "matches (Cat a b) = (\<lambda>st. concat (map (matches b) (matches a st)))"
| "matches (Alt a b) = (\<lambda>st. matches a st @ matches b st)"
| "matches (Rep lo hi r) = (\<lambda>st. rep_matches (matches r) lo hi (Suc (length (fst (snd st)))) st)"
| "matches (Lazy r) = (\<lambda>st. lazy_matches (matches r) (Suc (length (fst (snd st)))) st)"
| "matches (Grp n r) =
     (\<lambda>(prev, s, g). map (\<lambda>(prev', s', g'). (prev', s', (n, consumed s s') # g')) (matches r (prev, s, g)))"
| "matches (Back n) =
     (\<lambda>(prev, s, g). case map_of g n of None \<Rightarrow> []
        | Some t \<Rightarrow> if prefix t s then [advance (prev, s, g) (length t)] else [])"
| "matches Bol = (\<lambda>(prev, s, g). if prev = None then [(prev, s, g)] else [])"
| "matches Eol = (\<lambda>(prev, s, g). if s = [] \<or> s = [CHR 0x0A] then [(prev, s, g)] else [])"
| "matches Word_boundary = (\<lambda>(prev, s, g). if at_boundary prev s then [(prev, s, g)] else [])"

section \<open>Functions of the module\<close>

text \<open>A found match: the text before it, the matched text, the groups, the text after it.\<close>

type_synonym found = "string \<times> string \<times> groups \<times> string"

definition rx_match_at :: "rx \<Rightarrow> char option \<Rightarrow> string \<Rightarrow> found option" where
  "rx_match_at r prev s =
     (case matches r (prev, s, []) of
        [] \<Rightarrow> None
      | (prev', s', g) # _ \<Rightarrow> Some ([], consumed s s', g, s'))"

definition rx_match :: "rx \<Rightarrow> string \<Rightarrow> found option" where
  "rx_match r s = rx_match_at r None s"

fun rx_search_from :: "rx \<Rightarrow> char option \<Rightarrow> string \<Rightarrow> found option" where
  "rx_search_from r prev [] = rx_match_at r prev []"
| "rx_search_from r prev (c # s) =
     (case rx_match_at r prev (c # s) of
        Some f \<Rightarrow> Some f
      | None \<Rightarrow> map_option (\<lambda>(pre, f). (c # pre, f)) (rx_search_from r (Some c) s))"

definition rx_search :: "rx \<Rightarrow> string \<Rightarrow> found option" where
  "rx_search r s = rx_search_from r None s"

definition group_of :: "found \<Rightarrow> string \<Rightarrow> string" where
  "group_of f n = (case map_of (fst (snd (snd f))) n of None \<Rightarrow> [] | Some t \<Rightarrow> t)"

text \<open>\<open>re.sub\<close>, with the replacement as a function of the groups. Every round consumes a character.\<close>

fun rx_sub_rounds :: "rx \<Rightarrow> (groups \<Rightarrow> string) \<Rightarrow> nat \<Rightarrow> char option \<Rightarrow> string \<Rightarrow> string" where
  "rx_sub_rounds r f 0 prev s = s"
| "rx_sub_rounds r f (Suc n) prev s =
     (case rx_search_from r prev s of
        None \<Rightarrow> s
      | Some (pre, m, g, rest) \<Rightarrow>
          pre @ f g @
          (if m \<noteq> [] then rx_sub_rounds r f n (Some (last m)) rest
           else (case rest of [] \<Rightarrow> [] | c # cs \<Rightarrow> c # rx_sub_rounds r f n (Some c) cs)))"

definition rx_sub :: "rx \<Rightarrow> (groups \<Rightarrow> string) \<Rightarrow> string \<Rightarrow> string" where
  "rx_sub r f s = rx_sub_rounds r f (Suc (length s)) None s"

section \<open>Replacement templates\<close>

datatype template_item = Text_of string | Ref string

fun group_names :: "rx \<Rightarrow> string list" where
  "group_names (Cat a b) = group_names a @ group_names b"
| "group_names (Alt a b) = group_names a @ group_names b"
| "group_names (Rep lo hi r) = group_names r"
| "group_names (Lazy r) = group_names r"
| "group_names (Grp n r) = n # group_names r"
| "group_names r = []"

definition escaped_char :: "char \<Rightarrow> string option" where
  "escaped_char c =
     map_of [(CHR ''a'', [CHR 0x07]), (CHR ''b'', [CHR 0x08]), (CHR ''f'', [CHR 0x0C]), (CHR ''n'', [CHR 0x0A]),
       (CHR ''r'', [CHR 0x0D]), (CHR ''t'', [CHR 0x09]), (CHR ''v'', [CHR 0x0B]), (CHR 0x5C, [CHR 0x5C])] c"

text \<open>The parts of a template. A backslash before a letter that is no escape is an error, as is a reference to
  a group the pattern does not have; before another character it stands for itself. References by number
  have one digit.\<close>

function parse_template :: "string list \<Rightarrow> string \<Rightarrow> template_item list res" where
  "parse_template names [] = Inr []"
| "parse_template names [c] = (if c = CHR 0x5C then Inl (OtherException ''re.error'') else Inr [Text_of [c]])"
| "parse_template names (c # d # s) =
     (if c \<noteq> CHR 0x5C then bind_res (parse_template names (d # s)) (\<lambda>ts. Inr (Text_of [c] # ts))
      else if d = CHR ''g'' then
        (let n = takeWhile (\<lambda>x. x \<noteq> CHR ''>'') (tl s); rest = dropWhile (\<lambda>x. x \<noteq> CHR ''>'') s in
         if prefix ''<'' s \<and> rest \<noteq> [] \<and> List.member names n
         then bind_res (parse_template names (tl rest)) (\<lambda>ts. Inr (Ref n # ts))
         else Inl (OtherException ''re.error''))
      else if is_digit d then
        (let k = nat (digit_val d) in
         if 0 < k \<and> k \<le> length names
         then bind_res (parse_template names s) (\<lambda>ts. Inr (Ref (names ! (k - 1)) # ts))
         else Inl (OtherException ''re.error''))
      else
        (case escaped_char d of
           Some t \<Rightarrow> bind_res (parse_template names s) (\<lambda>ts. Inr (Text_of t # ts))
         | None \<Rightarrow>
             if is_alnum d then Inl (OtherException ''re.error'')
             else bind_res (parse_template names s) (\<lambda>ts. Inr (Text_of [c, d] # ts))))"
  by pat_completeness auto
termination
proof (relation "measure (\<lambda>(names, s). length s)")
  fix names :: "string list" and c d :: char and s n rest :: string
  assume "rest = dropWhile (\<lambda>x. x \<noteq> CHR ''>'') s"
  then have "length rest \<le> length s" by (simp add: length_dropWhile_le)
  then show "((names, tl rest), names, c # d # s) \<in> measure (\<lambda>(names, s). length s)" by simp
qed auto

definition expand_template :: "template_item list \<Rightarrow> groups \<Rightarrow> string" where
  "expand_template ts g =
     concat (map (\<lambda>t. case t of Text_of s \<Rightarrow> s
        | Ref n \<Rightarrow> (case map_of g n of None \<Rightarrow> [] | Some s \<Rightarrow> s)) ts)"

definition rx_sub_template :: "rx \<Rightarrow> string \<Rightarrow> string \<Rightarrow> string res" where
  "rx_sub_template r template s =
     bind_res (parse_template (group_names r) template) (\<lambda>ts. Inr (rx_sub r (expand_template ts) s))"

section \<open>Replacing text\<close>

text \<open>\<open>s.replace(old, new)\<close> for a nonempty \<open>old\<close>.\<close>

fun replace_rounds :: "nat \<Rightarrow> string \<Rightarrow> string \<Rightarrow> string \<Rightarrow> string" where
  "replace_rounds 0 old new s = s"
| "replace_rounds (Suc n) old new [] = []"
| "replace_rounds (Suc n) old new (c # s) =
     (if prefix old (c # s) then new @ replace_rounds n old new (drop (length old) (c # s))
      else c # replace_rounds n old new s)"

definition replace_str :: "string \<Rightarrow> string \<Rightarrow> string \<Rightarrow> string" where
  "replace_str old new s = replace_rounds (Suc (length s)) old new s"

section \<open>Building patterns\<close>

definition lit :: "string \<Rightarrow> rx" where
  "lit s = foldr (\<lambda>c. Cat (Chr (\<lambda>x. x = c))) s Eps"

text \<open>\<open>re.IGNORECASE\<close>\<close>

definition same_letter :: "char \<Rightarrow> char \<Rightarrow> bool" where
  "same_letter c d \<longleftrightarrow> c = d \<or> is_alnum c \<and> is_alnum d \<and> \<not> is_digit c \<and> \<not> is_digit d \<and>
     (of_char c mod 32 :: nat) = of_char d mod 32"

definition lit_any_case :: "string \<Rightarrow> rx" where
  "lit_any_case s = foldr (\<lambda>c. Cat (Chr (same_letter c))) s Eps"

definition cats :: "rx list \<Rightarrow> rx" where "cats rs = foldr Cat rs Eps"
definition star :: "rx \<Rightarrow> rx" where "star r = Rep 0 None r"
definition plus1 :: "rx \<Rightarrow> rx" where "plus1 r = Rep 1 None r"
definition opt :: "rx \<Rightarrow> rx" where "opt r = Rep 0 (Some 1) r"
definition space :: rx where "space = Chr is_space"
definition non_space :: rx where "non_space = Chr (\<lambda>c. \<not> is_space c)"
definition none_of :: "string \<Rightarrow> rx" where "none_of s = Chr (\<lambda>c. c \<notin> set s)"
definition any_char :: rx where "any_char = Chr (\<lambda>c. c \<noteq> CHR 0x0A)"
definition anything :: rx where "anything = Chr (\<lambda>c. True)"
definition word_char :: rx where "word_char = Chr is_word"
definition digit :: rx where "digit = Chr is_digit"

lemmas pattern_defs =
  cats_def star_def plus1_def opt_def space_def non_space_def none_of_def any_char_def anything_def word_char_def digit_def

end
