(* ===== verification/Setup.thy ===== *)
theory Setup
  imports Complex_Main Config Client Regex Dedup
begin

text \<open>
  What a command prepares and what every operation rests on: the privileges and the environment of the process,
  the waiting loop, the scan of a directory and the text of a statement (\<^verbatim>\<open>util.py\<close>), the handlers of the log
  (\<^verbatim>\<open>logging.py\<close>), the profiler (\<^verbatim>\<open>profile.py\<close>), the HTTP session of the client (\<^verbatim>\<open>clickhouse/client.py\<close>), the
  factories of the S3 client and the pauses between the retries of an S3 operation (\<^verbatim>\<open>storage/engine/s3/\<close>).
  Seconds are rationals; the code computes them in floating point.
\<close>

section \<open>The process\<close>

record process =
  pr_uid :: int
  pr_gid :: int
  pr_environ :: "(string, string) dict"

text \<open>The databases of users and groups of the host (\<open>pwd\<close>, \<open>grp\<close>).\<close>

record accounts =
  ac_group :: "string \<Rightarrow> int option"
  ac_user :: "string \<Rightarrow> int option"

text \<open>\<open>os.setgid\<close> and \<open>os.setuid\<close>: only the superuser may take an id that is not its own.\<close>

definition set_gid :: "int \<Rightarrow> (process, unit) act" where
  "set_gid gid p = (if pr_uid p = 0 \<or> gid = pr_gid p then (Inr (), p\<lparr>pr_gid := gid\<rparr>) else (Inl OSError, p))"

definition set_uid :: "int \<Rightarrow> (process, unit) act" where
  "set_uid uid p = (if pr_uid p = 0 \<or> uid = pr_uid p then (Inr (), p\<lparr>pr_uid := uid\<rparr>) else (Inl OSError, p))"

text \<open>A name that is no string is a \<open>TypeError\<close> of \<open>getgrnam\<close> and \<open>getpwnam\<close>.\<close>

definition conf_str :: "conf \<Rightarrow> string res" where
  "conf_str c = (case c of CStr s \<Rightarrow> Inr s | _ \<Rightarrow> Inl TypeError)"

definition demote_group :: "accounts \<Rightarrow> conf \<Rightarrow> (process, unit) act" where
  "demote_group ac new_group =
     bind_act (lift_res (conf_str new_group)) (\<lambda>name.
       case ac_group ac name of None \<Rightarrow> raise KeyError | Some gid \<Rightarrow> set_gid gid)"

definition demote_user :: "accounts \<Rightarrow> conf \<Rightarrow> (process, unit) act" where
  "demote_user ac new_user =
     bind_act (lift_res (conf_str new_user)) (\<lambda>name.
       case ac_user ac name of None \<Rightarrow> raise KeyError | Some uid \<Rightarrow> set_uid uid)"

definition demote_user_group :: "accounts \<Rightarrow> conf \<Rightarrow> conf \<Rightarrow> (process, unit) act" where
  "demote_user_group ac new_user new_group = seq_act (demote_group ac new_group) (demote_user ac new_user)"

definition drop_privileges :: "accounts \<Rightarrow> (string, conf) dict \<Rightarrow> (process, bool) act" where
  "drop_privileges ac cfg =
     try_act
       (bind_act (lift_res (dict_get cfg ''drop_privileges'')) (\<lambda>drops.
          if conf_true drops then
            bind_act (lift_res (dict_get cfg ''user'')) (\<lambda>user.
            bind_act (lift_res (dict_get cfg ''group'')) (\<lambda>grp.
            bind_act (demote_user_group ac user grp) (\<lambda>_. ret True)))
          else ret False))
       (\<lambda>e. e = KeyError) (\<lambda>e. ret False)"

text \<open>\<open>'':''.join(value)\<close> of a list of strings, or of the characters of a string.\<close>

definition join_conf :: "string \<Rightarrow> conf \<Rightarrow> string res" where
  "join_conf sep c =
     (case c of
        CList cs \<Rightarrow> bind_res (map_res conf_str cs) (\<lambda>ss. Inr (join_str sep ss))
      | CStr s \<Rightarrow> Inr (join_str sep (map (\<lambda>x. [x]) s))
      | CDict d \<Rightarrow> Inr (join_str sep (dict_keys d))
      | _ \<Rightarrow> Inl TypeError)"

definition set_env :: "string \<Rightarrow> string \<Rightarrow> (process, unit) act" where
  "set_env k v p = (Inr (), p\<lparr>pr_environ := dict_set (pr_environ p) k v\<rparr>)"

text \<open>\<open>str\<close> of a value; \<open>repr\<close> is that of a float or a collection.\<close>

definition conf_text :: "(conf \<Rightarrow> string) \<Rightarrow> conf \<Rightarrow> string" where
  "conf_text repr c =
     (case c of CNull \<Rightarrow> ''None'' | CBool b \<Rightarrow> if b then ''True'' else ''False'' | CInt n \<Rightarrow> int_str n | CStr s \<Rightarrow> s
      | _ \<Rightarrow> repr c)"

definition setup_environment :: "(conf \<Rightarrow> string) \<Rightarrow> (string, conf) dict \<Rightarrow> (process, unit) act" where
  "setup_environment repr cfg =
     seq_act
       (try_act
          (bind_act (lift_res (bind_res (dict_get cfg ''ca_bundle'') (join_conf '':''))) (set_env ''REQUESTS_CA_BUNDLE''))
          (\<lambda>e. e = KeyError) (\<lambda>e. ret ()))
       (let use_tracemalloc = config_get cfg ''tracemalloc'' (CInt 0) in
        case use_tracemalloc of
          CInt n \<Rightarrow> when_act (0 < n) (set_env ''PYTHONTRACEMALLOC'' (conf_text repr use_tracemalloc))
        | CFloat m e \<Rightarrow> when_act (0 < m) (set_env ''PYTHONTRACEMALLOC'' (conf_text repr use_tracemalloc))
        | CBool b \<Rightarrow> when_act b (set_env ''PYTHONTRACEMALLOC'' (conf_text repr use_tracemalloc))
        | _ \<Rightarrow> raise TypeError)"

lemmas process_defs =
  bind_act_def seq_act_def try_act_def set_gid_def set_uid_def demote_group_def demote_user_def conf_str_def
  demote_user_group_def

text \<open>The group is changed while the process still may: as root, both ids are those of the configuration.\<close>

theorem drop_privileges_as_root:
  assumes "pr_uid p = 0" "map_of cfg ''drop_privileges'' = Some (CBool True)"
    "map_of cfg ''user'' = Some (CStr user)" "map_of cfg ''group'' = Some (CStr grp)"
    "ac_user ac user = Some uid" "ac_group ac grp = Some gid"
  shows "drop_privileges ac cfg p = (Inr True, p\<lparr>pr_uid := uid, pr_gid := gid\<rparr>)"
  using assms by (simp add: drop_privileges_def process_defs dict_get_def conf_true_def)

text \<open>In the other order the second step is refused.\<close>

lemma demotion_order:
  assumes "pr_uid p = 0" "ac_user ac user = Some uid" "ac_group ac grp = Some gid" "uid \<noteq> 0" "gid \<noteq> pr_gid p"
  shows "seq_act (demote_user ac (CStr user)) (demote_group ac (CStr grp)) p = (Inl OSError, p\<lparr>pr_uid := uid\<rparr>)"
    "demote_user_group ac (CStr user) (CStr grp) p = (Inr (), p\<lparr>pr_uid := uid, pr_gid := gid\<rparr>)"
  using assms by (simp_all add: process_defs)

text \<open>\<open>True\<close> is the answer of a completed demotion only; the environment is left alone.\<close>

theorem drop_privileges_result:
  assumes "drop_privileges ac cfg p = (Inr True, p')"
  shows "\<exists>user grp. map_of cfg ''user'' = Some (CStr user) \<and> map_of cfg ''group'' = Some (CStr grp) \<and>
    ac_user ac user = Some (pr_uid p') \<and> ac_group ac grp = Some (pr_gid p') \<and> pr_environ p' = pr_environ p"
  using assms
  by (auto simp: drop_privileges_def process_defs dict_get_def conf_true_def
      split: option.splits if_splits conf.splits sum.splits prod.splits)

text \<open>The \<open>KeyError\<close> of an unknown account is taken for a missing setting: the command goes on as root, with the
  group of the configuration when only the user is unknown.\<close>

theorem unknown_user_keeps_root:
  assumes "pr_uid p = 0" "map_of cfg ''drop_privileges'' = Some (CBool True)"
    "map_of cfg ''user'' = Some (CStr user)" "map_of cfg ''group'' = Some (CStr grp)"
    "ac_user ac user = None" "ac_group ac grp = Some gid"
  shows "drop_privileges ac cfg p = (Inr False, p\<lparr>pr_gid := gid\<rparr>)"
  using assms by (simp add: drop_privileges_def process_defs dict_get_def conf_true_def)

lemma default_ca_bundle:
  assumes "map_of cfg ''ca_bundle'' = Some (CList (map CStr paths))" "map_of cfg ''tracemalloc'' = None"
  shows "setup_environment repr cfg p =
    (Inr (), p\<lparr>pr_environ := dict_set (pr_environ p) ''REQUESTS_CA_BUNDLE'' (join_str '':'' paths)\<rparr>)"
proof -
  have "map_res conf_str (map CStr paths) = Inr paths"
    by (induction paths) (simp_all add: conf_str_def bind_res_def)
  with assms show ?thesis
    by (simp add: setup_environment_def process_defs dict_get_def join_conf_def bind_res_def set_env_def
        config_get_def when_act_def)
qed

section \<open>The log\<close>

text \<open>A long message is cut in the middle (\<open>_format\<close>): the head stays the message, the tail becomes a field of the
  record, and the format tells how many characters are skipped.\<close>

definition message_head :: nat where "message_head = 800"
definition message_tail :: nat where "message_tail = 300"

definition format_message :: "string \<Rightarrow> string \<Rightarrow> string \<times> string \<times> string option" where
  "format_message fmt message =
     (let message_length = length message in
      if message_length > message_head + message_tail then
        (let tail_length = min (message_length - message_head) message_tail;
             skipped_characters = message_length - message_head - tail_length in
         (fmt @ '' ...(skipped '' @ nat_str skipped_characters @ '' characters)... {extra[message_tail]}'' @ [CHR 0x0A] @ ''{exception}'',
          take message_head message, Some (drop (message_length - tail_length) message)))
      else (fmt @ [CHR 0x0A] @ ''{exception}'', message, None))"

definition cut_middle :: "string \<Rightarrow> string" where
  "cut_middle message = take (length message - message_head - message_tail) (drop message_head message)"

theorem format_message_cut:
  assumes "message_head + message_tail < length message"
  shows "\<exists>head tail. message = head @ cut_middle message @ tail \<and> length head = 800 \<and> length tail = 300 \<and>
    format_message fmt message =
      (fmt @ '' ...(skipped '' @ nat_str (length (cut_middle message)) @ '' characters)... {extra[message_tail]}'' @
         [CHR 0x0A] @ ''{exception}'', head, Some tail)"
proof (intro exI conjI)
  let ?head = "take message_head message" and ?tail = "drop (length message - message_tail) message"
  have split: "drop message_head message =
      take (length message - message_head - message_tail) (drop message_head message) @
      drop (length message - message_head - message_tail) (drop message_head message)"
    by (rule append_take_drop_id [symmetric])
  have "drop (length message - message_head - message_tail) (drop message_head message) = ?tail"
    using assms by (simp add: message_head_def message_tail_def)
  with split show "message = ?head @ cut_middle message @ ?tail"
    by (metis append_take_drop_id cut_middle_def)
  show "length ?head = 800" "length ?tail = 300"
    using assms by (simp_all add: message_head_def message_tail_def)
  show "format_message fmt message =
      (fmt @ '' ...(skipped '' @ nat_str (length (cut_middle message)) @ '' characters)... {extra[message_tail]}'' @
         [CHR 0x0A] @ ''{exception}'', ?head, Some ?tail)"
    using assms by (simp add: format_message_def cut_middle_def message_head_def message_tail_def Let_def)
qed

lemma format_message_short:
  "length message \<le> message_head + message_tail \<Longrightarrow> format_message fmt message = (fmt @ [CHR 0x0A] @ ''{exception}'', message, None)"
  by (simp add: format_message_def)

text \<open>A handler takes the messages of the logger of its name, or those its filter names: the entry of the empty
  module name then refuses all others. (The code adds that entry to the configuration itself.)\<close>

datatype log_filter = Own_name string | By_module "(string, conf) dict"

record log_handler =
  lh_sink :: string
  lh_format :: conf
  lh_level :: "conf option"
  lh_filter :: log_filter

definition own_name :: "string \<Rightarrow> string option \<Rightarrow> bool" where
  "own_name name logger_name = (logger_name = Some name)"

definition conf_item :: "conf \<Rightarrow> string \<Rightarrow> conf res" where
  "conf_item c k = (case c of CDict d \<Rightarrow> dict_get d k | _ \<Rightarrow> Inl TypeError)"

definition log_handler_of :: "(string, conf) dict \<Rightarrow> string \<times> conf \<Rightarrow> log_handler res" where
  "log_handler_of config_loguru entry =
     (case entry of (name, val) \<Rightarrow>
        bind_res (bind_res (dict_get config_loguru ''logs_directory'') conf_str) (\<lambda>logs_directory.
        bind_res (bind_res (conf_item val ''sink'') conf_str) (\<lambda>sink.
        bind_res (dict_get config_loguru ''formatters'') (\<lambda>formatters.
        bind_res (bind_res (conf_item val ''format'') conf_str) (\<lambda>format_name.
        bind_res (conf_item formatters format_name) (\<lambda>fmt.
        bind_res (case val of CDict d \<Rightarrow> Inr d | _ \<Rightarrow> Inl TypeError) (\<lambda>d.
        bind_res (case map_of d ''filter'' of
                    None \<Rightarrow> Inr (Own_name name)
                  | Some (CDict modules) \<Rightarrow> Inr (By_module (dict_set modules '''' (CBool False)))
                  | Some _ \<Rightarrow> Inl TypeError) (\<lambda>flt.
        Inr \<lparr>lh_sink = path_join logs_directory sink, lh_format = fmt, lh_level = map_of d ''level'',
             lh_filter = flt\<rparr>))))))))"

definition log_handlers :: "(string, conf) dict \<Rightarrow> log_handler list res" where
  "log_handlers config_loguru =
     bind_res (dict_get config_loguru ''handlers'') (\<lambda>handlers.
       case handlers of CDict d \<Rightarrow> map_res (log_handler_of config_loguru) d | _ \<Rightarrow> Inl (OtherException ''AttributeError''))"

text \<open>The handlers of the default configuration: the log of S3 requests refuses all modules it does not name.\<close>

lemma default_log_handlers:
  "case default_loguru of
     CDict d \<Rightarrow>
       (case log_handlers d of
          Inr hs \<Rightarrow>
            map lh_sink hs = map (\<lambda>n. ''/var/log/ch-backup/'' @ n)
              [''ch-backup.log'', ''ch-backup.log'', ''boto.log'', ''clickhouse-disks.log'', ''boto.log''] \<and>
            map lh_filter (take 2 hs) = [Own_name ''ch-backup'', Own_name ''zookeeper''] \<and>
            (\<exists>modules. lh_filter (hs ! 2) = By_module modules \<and> map_of modules '''' = Some (CBool False))
        | Inl e \<Rightarrow> False)
   | _ \<Rightarrow> False"
  by (simp add: default_loguru_def log_handlers_def log_handler_of_def conf_item_def conf_str_def dict_get_def
      bind_res_def path_join_def)

section \<open>The HTTP session of the client\<close>

record http_session =
  se_verify :: conf
  se_headers :: "(string, conf) dict"
  se_params :: "(string \<times> int) list"

definition create_session :: "(string, conf) dict \<Rightarrow> (string \<times> int) list \<Rightarrow> http_session" where
  "create_session cfg settings =
     (let ca_path = config_get cfg ''ca_path'' CNull;
          user = config_get cfg ''clickhouse_user'' CNull;
          password = config_get cfg ''clickhouse_password'' CNull in
      \<lparr>se_verify = (if ca_path = CNull then CBool True else ca_path),
       se_headers = (if conf_true user then [(''X-ClickHouse-User'', user)] else [])
                  @ (if conf_true password then [(''X-ClickHouse-Key'', password)] else []),
       se_params = settings\<rparr>)"

record connection =
  cn_session :: http_session
  cn_url :: string
  cn_timeout :: conf
  cn_connect_timeout :: conf

text \<open>\<open>ClickhouseClient.__init__\<close>. The port is that of the protocol when the configuration has none.\<close>

definition new_connection ::
  "(conf \<Rightarrow> string) \<Rightarrow> (string, conf) dict \<Rightarrow> (string \<times> int) list \<Rightarrow> connection res" where
  "new_connection repr cfg settings =
     bind_res (dict_get cfg ''host'') (\<lambda>host.
     bind_res (dict_get cfg ''protocol'') (\<lambda>protocol.
     bind_res (dict_get cfg ''port'') (\<lambda>configured.
       let port = (if conf_true configured then configured
                   else CInt (if protocol = CStr ''http'' then 8123 else 8443)) in
     bind_res (dict_get cfg ''timeout'') (\<lambda>timeout.
     bind_res (dict_get cfg ''connect_timeout'') (\<lambda>connect_timeout.
     Inr \<lparr>cn_session = create_session cfg settings,
          cn_url = conf_text repr protocol @ ''://'' @ conf_text repr host @ '':'' @ conf_text repr port,
          cn_timeout = timeout, cn_connect_timeout = connect_timeout\<rparr>)))))"

lemma digit_positions:
  assumes "10 ^ m \<le> n" "n < 10 ^ Suc m"
  shows "filter (\<lambda>k. 10 ^ k \<le> n) [0..<Suc n] = [0..<Suc m]"
proof -
  have "Suc m \<le> Suc n" using assms(1) less_exp [of m] power_mono [of 2 "10::nat" m] by linarith
  then have parts: "[0..<Suc n] = [0..<Suc m] @ [Suc m..<Suc n]"
    using upt_add_eq_append [of 0 "Suc m" "Suc n - Suc m"] by simp
  have low: "\<forall>k \<in> set [0..<Suc m]. 10 ^ k \<le> n"
  proof
    fix k assume "k \<in> set [0..<Suc m]"
    then have "(10::nat) ^ k \<le> 10 ^ m" by (intro power_increasing) auto
    with assms(1) show "10 ^ k \<le> n" by linarith
  qed
  have high: "\<forall>k \<in> set [Suc m..<Suc n]. \<not> 10 ^ k \<le> n"
  proof
    fix k assume "k \<in> set [Suc m..<Suc n]"
    then have "(10::nat) ^ Suc m \<le> 10 ^ k" by (intro power_increasing) auto
    with assms(2) show "\<not> 10 ^ k \<le> n" by linarith
  qed
  show ?thesis
    by (simp only: parts filter_append filter_True [OF low] filter_False [OF high] append_Nil2)
qed

lemma nat_str_digits:
  assumes "10 ^ m \<le> n" "n < 10 ^ Suc m"
  shows "nat_str n = rev (map (\<lambda>k. char_of (48 + n div 10 ^ k mod 10)) [0..<Suc m])"
proof -
  from assms(1) have "n \<noteq> 0" using power_not_zero [of "10::nat" m] by linarith
  then show ?thesis by (simp only: nat_str_def digit_positions [OF assms] if_False map_map comp_def)
qed

lemma port_text: "int_str 8123 = ''8123''" "int_str 8443 = ''8443''"
proof -
  have "nat_str 8123 = ''8123''" "nat_str 8443 = ''8443''"
    by (subst nat_str_digits [of 3], (simp_all add: upt_rec char_of_def bit_iff_odd)[3])+
  then show "int_str 8123 = ''8123''" "int_str 8443 = ''8443''" by (simp_all add: int_str_def)
qed

text \<open>\<open>_get_session\<close>: a session of its own is closed in the end, whatever the request did.\<close>

definition with_session ::
  "(http_session \<Rightarrow> ('w, unit) act) \<Rightarrow> (string, conf) dict \<Rightarrow> (string \<times> int) list \<Rightarrow> connection \<Rightarrow> bool \<Rightarrow>
   (http_session \<Rightarrow> ('w, 'a) act) \<Rightarrow> ('w, 'a) act" where
  "with_session close_session cfg settings cn own body =
     (let session = (if own then create_session cfg settings else cn_session cn) in
      finally_act (body session) (when_act own (close_session session)))"

text \<open>The credentials are in the headers exactly when they are configured, never in the address.\<close>

lemma session_credentials:
  "map_of (se_headers (create_session cfg settings)) ''X-ClickHouse-Key'' =
     (if conf_true (config_get cfg ''clickhouse_password'' CNull)
      then Some (config_get cfg ''clickhouse_password'' CNull) else None)"
  "map_of (se_headers (create_session cfg settings)) ''X-ClickHouse-User'' =
     (if conf_true (config_get cfg ''clickhouse_user'' CNull)
      then Some (config_get cfg ''clickhouse_user'' CNull) else None)"
  by (auto simp: create_session_def Let_def)

text \<open>The default connection is not encrypted, and a certificate is checked as soon as the protocol is.\<close>

lemma default_connection:
  "case default_clickhouse hostname of
     CDict cfg \<Rightarrow>
       (case new_connection repr cfg settings of
          Inr cn \<Rightarrow> cn_url cn = ''http://'' @ hostname @ '':8123'' \<and> se_verify (cn_session cn) = CBool True
        | Inl e \<Rightarrow> False)
   | _ \<Rightarrow> False"
  by (simp add: default_clickhouse_def new_connection_def create_session_def dict_get_def bind_res_def
      conf_text_def conf_true_def config_get_def Let_def port_text)

section \<open>The S3 client\<close>

record s3_settings =
  sc_access_key :: conf
  sc_secret_key :: conf
  sc_endpoint :: conf
  sc_addressing_style :: conf
  sc_region :: conf
  sc_proxies :: "(string \<times> string) list option"

text \<open>The resolver of the proxy answers with the name of a host, which has to be known.\<close>

definition resolve_proxies_once ::
  "(string \<Rightarrow> ('w, http_response) act) \<Rightarrow> (string \<Rightarrow> ('w, unit) act) \<Rightarrow> string option \<Rightarrow> string \<Rightarrow>
   ('w, (string \<times> string) list option) act" where
  "resolve_proxies_once http_get getaddrinfo resolver_path proxy_port =
     (case resolver_path of
        None \<Rightarrow> ret None
      | Some path \<Rightarrow>
          bind_act (http_get path) (\<lambda>r.
          if 400 \<le> hr_status r \<and> hr_status r < 600 then raise RequestException
          else
            bind_act (try_act (getaddrinfo (hr_text r)) (\<lambda>e. e = OtherException ''gaierror'')
                       (\<lambda>e. raise (OtherException ''S3BalancerUnknownHost''))) (\<lambda>_.
            ret (Some (map (\<lambda>scheme. (scheme, hr_text r @ '':'' @ proxy_port)) [''http'', ''https''])))))"

definition proxy_retriable :: "exn \<Rightarrow> bool" where
  "proxy_retriable e \<longleftrightarrow> e = OtherException ''S3BalancerUnknownHost'' \<or> is_request_error e"

definition resolve_proxies ::
  "(string \<Rightarrow> ('w, http_response) act) \<Rightarrow> (string \<Rightarrow> ('w, unit) act) \<Rightarrow> string option \<Rightarrow> string \<Rightarrow>
   ('w, (string \<times> string) list option) act" where
  "resolve_proxies http_get getaddrinfo resolver_path proxy_port =
     retry_act proxy_retriable 4 (resolve_proxies_once http_get getaddrinfo resolver_path proxy_port)"

text \<open>\<open>S3ClientFactory\<close>. The code reads the keys when it makes the factory, and the rest for every client it makes;
  here both are one step.\<close>

definition proxy_settings :: "(conf \<Rightarrow> string) \<Rightarrow> (string, conf) dict \<Rightarrow> (string option \<times> string) res" where
  "proxy_settings repr cfg =
     (case config_get cfg ''proxy_resolver'' (CDict []) of
        CDict d \<Rightarrow>
          bind_res (case config_get d ''uri'' CNull of CNull \<Rightarrow> Inr None | c \<Rightarrow> bind_res (conf_str c) (\<lambda>s. Inr (Some s)))
            (\<lambda>uri. Inr (uri, conf_text repr (config_get d ''proxy_port'' CNull)))
      | _ \<Rightarrow> Inl (OtherException ''AttributeError''))"

definition create_s3_client ::
  "(string \<Rightarrow> ('w, http_response) act) \<Rightarrow> (string \<Rightarrow> ('w, unit) act) \<Rightarrow> (conf \<Rightarrow> string) \<Rightarrow> (string, conf) dict \<Rightarrow>
   ('w, s3_settings) act" where
  "create_s3_client http_get getaddrinfo repr cfg =
     bind_act (lift_res (dict_get cfg ''credentials'')) (\<lambda>credentials.
     bind_act (lift_res (dict_get cfg ''boto_config'')) (\<lambda>boto.
     bind_act (lift_res (conf_item credentials ''access_key_id'')) (\<lambda>access_key.
     bind_act (lift_res (conf_item credentials ''secret_access_key'')) (\<lambda>secret_key.
     bind_act (lift_res (conf_item credentials ''endpoint_url'')) (\<lambda>endpoint.
     bind_act (lift_res (conf_item boto ''addressing_style'')) (\<lambda>style.
     bind_act (lift_res (conf_item boto ''region_name'')) (\<lambda>region.
     bind_act (lift_res (proxy_settings repr cfg)) (\<lambda>(uri, proxy_port).
     bind_act (resolve_proxies http_get getaddrinfo uri proxy_port) (\<lambda>proxies.
       ret \<lparr>sc_access_key = access_key, sc_secret_key = secret_key, sc_endpoint = endpoint,
            sc_addressing_style = style, sc_region = region, sc_proxies = proxies\<rparr>)))))))))"

text \<open>\<open>S3ClientCachedFactory\<close>, on the pair of the world and the cached client.\<close>

definition cached_s3_client :: "('w, 'c) act \<Rightarrow> bool \<Rightarrow> ('w \<times> 'c option, 'c) act" where
  "cached_s3_client create cached s =
     (case snd s of
        Some c \<Rightarrow> if cached then (Inr c, s)
                  else bind_act (on_world create) (\<lambda>c. bind_act (set_object (\<lambda>_. Some c)) (\<lambda>_. ret c)) s
      | None \<Rightarrow> bind_act (on_world create) (\<lambda>c. bind_act (set_object (\<lambda>_. Some c)) (\<lambda>_. ret c)) s)"

definition reset_s3_client :: "('w \<times> 'c option, unit) act" where
  "reset_s3_client = set_object (\<lambda>_. None)"

text \<open>One client serves all callers until it is reset, and then a new one is created.\<close>

theorem cached_client_stays:
  assumes "cached_s3_client create b s = (Inr c, t)"
  shows "snd t = Some c" "cached_s3_client create True t = (Inr c, t)"
    "fst (seq_act reset_s3_client (cached_s3_client create True) t) = fst (create (fst t))"
  using assms
  by (auto simp: cached_s3_client_def reset_s3_client_def seq_act_def bind_act_def on_world_def set_object_def
      split: option.splits if_splits prod.splits sum.splits)

lemma no_resolver:
  "resolve_proxies http_get getaddrinfo None proxy_port w = (Inr None, w)"
  by (simp add: resolve_proxies_def resolve_proxies_once_def numeral_eq_Suc)

section \<open>The pauses between retries\<close>

text \<open>\<open>RetryExponential.__call__\<close> with its pauses: \<open>attempts\<close> is the local variable of the loop, \<open>None\<close> the result
  of a loop that makes no attempt. The pause is drawn by \<open>uniform\<close> between zero and a bound that doubles.\<close>

definition sleep_bound :: "rat \<Rightarrow> rat \<Rightarrow> nat \<Rightarrow> rat" where
  "sleep_bound multiplier max_interval attempt = min (2 ^ attempt * multiplier) max_interval"

definition retry_pause ::
  "(rat \<Rightarrow> rat \<Rightarrow> ('s, rat) act) \<Rightarrow> (rat \<Rightarrow> ('s, unit) act) \<Rightarrow> rat \<Rightarrow> rat \<Rightarrow> nat \<Rightarrow> ('s, unit) act" where
  "retry_pause uniform sleep multiplier max_interval attempt =
     bind_act (uniform 0 (sleep_bound multiplier max_interval attempt)) sleep"

function retry_rounds ::
  "(exn \<Rightarrow> bool) \<Rightarrow> nat \<Rightarrow> (nat \<Rightarrow> ('s, unit) act) \<Rightarrow> ('s, 'a) act \<Rightarrow> nat \<Rightarrow> ('s, 'a option) act" where
  "retry_rounds C limit pause m attempts =
     (if attempts < limit then
        (\<lambda>s. case m s of
           (Inr x, s') \<Rightarrow> (Inr (Some x), s')
         | (Inl e, s') \<Rightarrow>
             if \<not> C e \<or> e = Hangs then (Inl e, s')
             else if attempts + 1 = limit then (Inl e, s')
             else seq_act (pause (attempts + 1)) (retry_rounds C limit pause m (attempts + 1)) s')
      else ret None)"
  by pat_completeness auto
termination by (relation "measure (\<lambda>(C, limit, pause, m, attempts). limit - attempts)") auto

declare retry_rounds.simps [simp del]

text \<open>Pauses that change nothing else leave the loop that the operations of the engine are stated with.\<close>

theorem retry_rounds_retry_act:
  assumes "attempts < limit" "\<And>n s. pause n s = (Inr (), s)"
  shows "retry_rounds C limit pause m attempts s =
    (case retry_act C (limit - 1 - attempts) m s of (r, s') \<Rightarrow> (map_sum id Some r, s'))"
  using assms(1)
proof (induction "limit - 1 - attempts" arbitrary: attempts s)
  case 0
  then have "attempts + 1 = limit" by simp
  with 0 show ?case
    by (subst retry_rounds.simps) (auto split: sum.splits prod.splits)
next
  case (Suc k)
  then have k: "k = limit - 1 - (attempts + 1)" "attempts + 1 < limit" "limit - 1 - attempts = Suc k" by simp_all
  show ?case
    using Suc(1) [OF k(1,2)] k assms(2) Suc(3)
    by (subst retry_rounds.simps) (auto simp: seq_act_def bind_act_def split: sum.splits prod.splits)
qed

text \<open>How long an operation waits at most: fewer pauses than attempts, none longer than the limit.\<close>

lemma sleep_bound_limit: "sleep_bound multiplier max_interval attempt \<le> max_interval"
  by (simp add: sleep_bound_def)

theorem retry_waiting_time:
  fixes clock :: "'s \<Rightarrow> rat"
  assumes "attempts < limit" "0 \<le> max_interval"
    "\<And>s r s'. m s = (r, s') \<Longrightarrow> clock s' = clock s"
    "\<And>n s r s'. pause n s = (r, s') \<Longrightarrow> clock s' \<le> clock s + sleep_bound multiplier max_interval n"
    "retry_rounds C limit pause m attempts s = (r, s')"
  shows "clock s' \<le> clock s + of_nat (limit - 1 - attempts) * max_interval"
  using assms(1,5)
proof (induction "limit - 1 - attempts" arbitrary: attempts s)
  case 0
  then have "attempts + 1 = limit" by simp
  with 0 assms(3) [of s] show ?case
    by (subst (asm) retry_rounds.simps) (auto split: sum.splits prod.splits if_splits)
next
  case (Suc k)
  then have k: "k = limit - 1 - (attempts + 1)" "attempts + 1 < limit" "limit - 1 - attempts = Suc k" by simp_all
  obtain q t where m: "m s = (q, t)" by fastforce
  show ?case
  proof (cases "\<exists>e. q = Inl e \<and> C e \<and> e \<noteq> Hangs")
    case False
    with Suc(3,4) m k(2) have "s' = t"
      by (subst (asm) retry_rounds.simps) (auto split: sum.splits if_splits)
    with assms(3) [OF m] assms(2) show ?thesis by simp
  next
    case True
    obtain p u where p: "pause (attempts + 1) t = (p, u)" by fastforce
    have u: "clock u \<le> clock s + max_interval"
      using assms(4) [OF p] assms(3) [OF m] sleep_bound_limit [of multiplier max_interval "attempts + 1"] by simp
    from True Suc(3,4) m k(2) p have "(\<exists>e. p = Inl e) \<and> s' = u \<or> retry_rounds C limit pause m (attempts + 1) u = (r, s')"
      by (subst (asm) retry_rounds.simps) (auto simp: seq_act_def bind_act_def split: sum.splits if_splits)
    then have "clock s' \<le> clock u + of_nat k * max_interval"
      using Suc(1) [OF k(1,2), of u] k(1) assms(2) by auto
    with u k(3) show ?thesis by (simp add: algebra_simps)
  qed
qed

lemma retry_pause_time:
  assumes "\<And>lo hi s r s'. uniform lo hi s = (r, s') \<Longrightarrow> clock s' = clock s \<and> (\<forall>x. r = Inr x \<longrightarrow> x \<le> hi)"
    "\<And>x s r s'. sleep x s = (r, s') \<Longrightarrow> clock s' \<le> clock s + x"
    "0 \<le> multiplier" "0 \<le> max_interval" "retry_pause uniform sleep multiplier max_interval n s = (r, s')"
  shows "clock s' \<le> (clock s :: rat) + sleep_bound multiplier max_interval n"
proof -
  obtain q t where q: "uniform 0 (sleep_bound multiplier max_interval n) s = (q, t)" by fastforce
  have "0 \<le> sleep_bound multiplier max_interval n" using assms(3,4) by (simp add: sleep_bound_def)
  moreover have "q = Inr x \<Longrightarrow> clock s' \<le> clock t + x" for x
    using assms(2) [of x t r s'] assms(5) q by (simp add: retry_pause_def bind_act_def)
  moreover have "q = Inl e \<Longrightarrow> s' = t" for e
    using assms(5) q by (simp add: retry_pause_def bind_act_def)
  ultimately show ?thesis using assms(1) [OF q] by (cases q) force+
qed

text \<open>An S3 operation makes at most 30 attempts and waits at most 29 times three minutes.\<close>

corollary s3_waiting_time:
  fixes clock :: "'s \<Rightarrow> rat"
  assumes "\<And>s r s'. m s = (r, s') \<Longrightarrow> clock s' = clock s"
    "\<And>lo hi s r s'. uniform lo hi s = (r, s') \<Longrightarrow> clock s' = clock s \<and> (\<forall>x. r = Inr x \<longrightarrow> x \<le> hi)"
    "\<And>x s r s'. sleep x s = (r, s') \<Longrightarrow> clock s' \<le> clock s + x"
    "retry_rounds C 30 (retry_pause uniform sleep (1 / 2) 180) m 0 s = (r, s')"
  shows "clock s' \<le> clock s + 5220"
proof -
  have pause: "clock u \<le> clock t + sleep_bound (1 / 2) 180 n"
    if "retry_pause uniform sleep (1 / 2) 180 n t = (q, u)" for n t q u
    by (rule retry_pause_time [where uniform = uniform and sleep = sleep])
      (use assms(2,3) that in \<open>auto simp del: split_paired_All\<close>)
  have "clock s' \<le> clock s + of_nat (30 - 1 - 0) * 180"
    by (rule retry_waiting_time [where m = m and pause = "retry_pause uniform sleep (1 / 2) 180"])
      (use assms(1,4) pause in \<open>auto\<close>)
  then show ?thesis by simp
qed

section \<open>The profiler\<close>

text \<open>\<open>next_snapshot\<close> belongs to the class: it is shared by all profiled functions. The world holds it.\<close>

record 'w profiler =
  pf_environ :: "'w \<Rightarrow> (string, string) dict"
  pf_start :: "int \<Rightarrow> ('w, unit) act"
  pf_time :: "('w, rat) act"
  pf_snapshot :: "('w, unit) act"
  pf_next :: "'w \<Rightarrow> rat"
  pf_set_next :: "rat \<Rightarrow> 'w \<Rightarrow> 'w"

definition profile_end :: "'w profiler \<Rightarrow> rat \<Rightarrow> ('w, unit) act" where
  "profile_end pf interval =
     (if interval = 0 then pf_snapshot pf
      else
        bind_act (pf_time pf) (\<lambda>now w.
          if pf_next pf w \<le> now then
            (let due = (if pf_next pf w \<noteq> 0 then pf_next pf w else now) + interval in
             pf_snapshot pf (pf_set_next pf due w))
          else (Inr (), w)))"

definition profile_call :: "'w profiler \<Rightarrow> rat \<Rightarrow> ('w, 'a) act \<Rightarrow> ('w, 'a) act" where
  "profile_call pf interval f w =
     (case py_int (case map_of (pf_environ pf w) ''PYTHONTRACEMALLOC'' of None \<Rightarrow> ''0'' | Some t \<Rightarrow> t) of
        Inl e \<Rightarrow> (Inl e, w)
      | Inr use_tracemalloc \<Rightarrow>
          seq_act (when_act (0 < use_tracemalloc) (pf_start pf use_tracemalloc))
            (finally_act f (when_act (0 < use_tracemalloc) (profile_end pf interval))) w)"

lemma profile_off:
  assumes "map_of (pf_environ pf w) ''PYTHONTRACEMALLOC'' = None"
  shows "profile_call pf interval f w = f w"
proof -
  have "py_int ''0'' = Inr 0" by code_simp
  with assms show ?thesis
    by (auto simp: profile_call_def seq_act_def bind_act_def when_act_def finally_act_def split: prod.splits)
qed

text \<open>A profiled command returns or raises what the command does, as long as the profiler itself does not raise.\<close>

lemma profile_keeps_result:
  assumes "profile_call pf interval f w = (r, w')" "py_int (the (map_of (pf_environ pf w) ''PYTHONTRACEMALLOC'')) = Inr n"
    "\<And>n u. \<exists>u'. pf_start pf n u = (Inr (), u')" "\<And>u. \<exists>u'. profile_end pf interval u = (Inr (), u')"
    "map_of (pf_environ pf w) ''PYTHONTRACEMALLOC'' \<noteq> None"
  shows "\<exists>u u'. f u = (r, u')"
proof -
  obtain t where t: "map_of (pf_environ pf w) ''PYTHONTRACEMALLOC'' = Some t" using assms(5) by blast
  obtain u where u: "pf_start pf n w = (Inr (), u)" using assms(3) by blast
  obtain q v where v: "f (if 0 < n then u else w) = (q, v)" by fastforce
  obtain v' where "profile_end pf interval v = (Inr (), v')" using assms(4) by blast
  with assms(1,2) t u v have "q = r"
    by (auto simp: profile_call_def seq_act_def bind_act_def when_act_def finally_act_def split: if_splits)
  with v show ?thesis by blast
qed

section \<open>Waiting\<close>

text \<open>The loop of \<open>wait_for\<close>: a callback that is not given does nothing. With a positive interval the loop ends.\<close>

record 'w wait_calls =
  wc_begin :: "('w, unit) act"
  wc_end :: "('w, unit) act"
  wc_interval_begin :: "('w, unit) act"
  wc_interval_end :: "('w, unit) act"
  wc_sleep :: "rat \<Rightarrow> ('w, unit) act"

definition wait_round :: "'w wait_calls \<Rightarrow> ('w, bool) act \<Rightarrow> rat \<Rightarrow> ('w, bool) act" where
  "wait_round wc func interval_s =
     bind_act func (\<lambda>waits.
       if waits then
         bind_act (wc_interval_begin wc) (\<lambda>_. bind_act (wc_sleep wc interval_s) (\<lambda>_.
         bind_act (wc_interval_end wc) (\<lambda>_. ret True)))
       else ret False)"

partial_function (option) wait_loop ::
  "('w, bool) act \<Rightarrow> rat \<Rightarrow> rat \<Rightarrow> 'w \<Rightarrow> (unit res \<times> 'w) option" where
  "wait_loop turn interval_s time_left w =
     (if 0 < time_left then
        (case turn w of
           (Inl e, w') \<Rightarrow> Some (Inl e, w')
         | (Inr waits, w') \<Rightarrow>
             if waits then wait_loop turn interval_s (time_left - interval_s) w' else Some (Inr (), w'))
      else Some (Inr (), w))"

definition wait_for ::
  "'w wait_calls \<Rightarrow> ('w, bool) act \<Rightarrow> rat \<Rightarrow> rat \<Rightarrow> 'w \<Rightarrow> (unit res \<times> 'w) option" where
  "wait_for wc func timeout_s interval_s w =
     (case wc_begin wc w of
        (Inl e, w1) \<Rightarrow> Some (Inl e, w1)
      | (Inr _, w1) \<Rightarrow>
          (case wait_loop (wait_round wc func interval_s) interval_s timeout_s w1 of
             None \<Rightarrow> None
           | Some (Inl e, w2) \<Rightarrow> Some (Inl e, w2)
           | Some (Inr _, w2) \<Rightarrow> Some (wc_end wc w2)))"

lemma wait_loop_ends:
  assumes "0 < interval_s"
  shows "\<exists>y. wait_loop turn interval_s time_left w = Some y"
proof (induction "nat \<lceil>time_left / interval_s\<rceil>" arbitrary: time_left w)
  case 0
  with assms have "time_left \<le> 0" by (simp add: divide_le_0_iff)
  then show ?case by (simp add: wait_loop.simps)
next
  case (Suc n)
  have "(time_left - interval_s) / interval_s = time_left / interval_s - 1"
    using assms by (simp add: diff_divide_distrib)
  then have "n = nat \<lceil>(time_left - interval_s) / interval_s\<rceil>" using Suc(2) by simp
  from Suc(1) [OF this] show ?case
    by (subst wait_loop.simps) (auto split: sum.splits prod.splits)
qed

theorem wait_for_ends:
  assumes "0 < interval_s"
  shows "\<exists>r w'. wait_for wc func timeout_s interval_s w = Some (r, w')"
proof -
  obtain r w1 where b: "wc_begin wc w = (r, w1)" by fastforce
  obtain y where "wait_loop (wait_round wc func interval_s) interval_s timeout_s w1 = Some y"
    by (rule exE [OF wait_loop_ends [OF assms]])
  with b show ?thesis by (cases y; cases "fst y"; cases r) (auto simp: wait_for_def)
qed

lemma wait_for_at_once: "timeout_s \<le> 0 \<Longrightarrow> wc_begin wc w = (Inr (), w1) \<Longrightarrow>
  wait_for wc func timeout_s interval_s w = Some (wc_end wc w1)"
  by (simp add: wait_for_def wait_loop.simps)

section \<open>Scanning a directory\<close>

text \<open>The entries of a directory in the order of \<open>os.scandir\<close>; symbolic links count as what they point to.\<close>

datatype dirent = Regular | Folder "(string \<times> dirent) list" | Special

definition relative_name :: "string option \<Rightarrow> string \<Rightarrow> string" where
  "relative_name relative_prefix name =
     (case relative_prefix of None \<Rightarrow> name | Some p \<Rightarrow> path_join p name)"

fun scan_entry :: "string list option \<Rightarrow> string option \<Rightarrow> string \<times> dirent \<Rightarrow> string list" where
  "scan_entry exclude_file_names relative_prefix (name, Regular) =
     (if exclude_file_names = None \<or> name \<notin> set (the exclude_file_names)
      then [relative_name relative_prefix name] else [])"
| "scan_entry exclude_file_names relative_prefix (name, Folder entries) =
     concat (map (scan_entry exclude_file_names (Some (relative_name relative_prefix name))) entries)"
| "scan_entry exclude_file_names relative_prefix (name, Special) = []"

definition scan_dir_files :: "(string \<times> dirent) list \<Rightarrow> string list option \<Rightarrow> string list" where
  "scan_dir_files entries exclude_file_names = concat (map (scan_entry exclude_file_names None) entries)"

text \<open>\<open>regular_at entry ns\<close>: the names \<open>ns\<close> lead from the entry to a regular file.\<close>

inductive regular_at :: "string \<times> dirent \<Rightarrow> string list \<Rightarrow> bool" where
  plain: "regular_at (name, Regular) [name]"
| inside: "entry \<in> set entries \<Longrightarrow> regular_at entry ns \<Longrightarrow> regular_at (name, Folder entries) (name # ns)"

inductive_cases regular_at_file: "regular_at (name, Regular) ns"
inductive_cases regular_at_folder: "regular_at (name, Folder entries) ns"
inductive_cases regular_at_special: "regular_at (name, Special) ns"

lemma regular_at_nonempty: "regular_at entry ns \<Longrightarrow> ns \<noteq> []"
  by (induction rule: regular_at.induct) simp_all

definition path_text :: "string option \<Rightarrow> string list \<Rightarrow> string" where
  "path_text relative_prefix ns =
     path_joins (relative_name relative_prefix (hd ns)) (tl ns)"

lemma path_text_Cons: "ns \<noteq> [] \<Longrightarrow> path_text pre (n # ns) = path_text (Some (relative_name pre n)) ns"
  by (cases ns) (simp_all add: path_text_def relative_name_def path_joins_def)

definition wanted :: "string list option \<Rightarrow> string list \<Rightarrow> bool" where
  "wanted exclude_file_names ns \<longleftrightarrow>
     (case exclude_file_names of None \<Rightarrow> True | Some names \<Rightarrow> last ns \<notin> set names)"

lemma scan_entry_sound:
  "p \<in> set (scan_entry ex pre entry) \<Longrightarrow> \<exists>ns. regular_at entry ns \<and> wanted ex ns \<and> p = path_text pre ns"
proof (induction ex pre entry arbitrary: p rule: scan_entry.induct)
  case (1 ex pre name)
  then show ?case
    by (intro exI [of _ "[name]"])
      (auto simp: wanted_def path_text_def path_joins_def intro: regular_at.plain split: if_splits option.splits)
next
  case (2 ex pre name entries)
  then obtain entry where e: "entry \<in> set entries" "p \<in> set (scan_entry ex (Some (relative_name pre name)) entry)"
    by auto
  from "2.IH" [OF e] obtain ns where ns: "regular_at entry ns" "wanted ex ns"
    "p = path_text (Some (relative_name pre name)) ns" by blast
  with regular_at_nonempty [OF ns(1)] e(1) show ?case
    by (intro exI [of _ "name # ns"]) (auto simp: wanted_def path_text_Cons intro: regular_at.inside split: option.splits)
qed simp

lemma scan_entry_complete:
  "regular_at entry ns \<Longrightarrow> wanted ex ns \<Longrightarrow> path_text pre ns \<in> set (scan_entry ex pre entry)"
proof (induction arbitrary: pre rule: regular_at.induct)
  case (plain name)
  then show ?case by (auto simp: wanted_def path_text_def path_joins_def split: option.splits)
next
  case (inside entry entries ns name)
  with regular_at_nonempty [OF inside(2)] have "wanted ex ns" by (auto simp: wanted_def split: option.splits)
  with inside regular_at_nonempty [OF inside(2)] show ?case by (auto simp: path_text_Cons)
qed

text \<open>The scan yields the path of every regular file whose name is not excluded, and nothing else.\<close>

theorem scan_dir_files_exact:
  "set (scan_dir_files entries ex) =
     {path_text None ns |ns entry. entry \<in> set entries \<and> regular_at entry ns \<and> wanted ex ns}"
  unfolding scan_dir_files_def using scan_entry_sound [of _ ex None] scan_entry_complete [of _ _ ex None]
  by fastforce

text \<open>So a directory counts as empty when it holds excluded files, or other directories that do, only.\<close>

definition no_files :: "(string \<times> dirent) list option \<Rightarrow> string list option \<Rightarrow> bool" where
  "no_files listing exclude_file_names =
     (case listing of None \<Rightarrow> True | Some entries \<Rightarrow> scan_dir_files entries exclude_file_names = [])"

theorem no_files_iff:
  "no_files (Some entries) ex \<longleftrightarrow> (\<forall>entry \<in> set entries. \<forall>ns. regular_at entry ns \<longrightarrow> \<not> wanted ex ns)"
  using scan_dir_files_exact [of entries ex] unfolding no_files_def by (auto simp: set_empty [symmetric] simp del: set_empty)

section \<open>The text of a statement\<close>

definition strip_query :: "string \<Rightarrow> string" where
  "strip_query query_text = strip (rx_sub (Rep 2 None space) (\<lambda>_. '' '') (replace_str [CHR 0x0A] '' '' query_text))"

lemma strip_query_sample:
  "strip_query ([CHR 0x0A] @ ''    DROP FUNCTION '' @ [CHR 0x0A] @ '' `f`'' @ [CHR 0x0A]) = DROP_UDF_SQL ''f''"
  by code_simp

end
