(* ===== verification/RestoreContext.thy ===== *)
theory RestoreContext
  imports Dedup
begin

text \<open>
  The restore context (\<^verbatim>\<open>backup/restore_context.py\<close>): the state of every part of a restore, kept in
  memory and written to a file now and then, so that a restore that was interrupted goes on from there.

  \<open>restore_context\<close> is the object; \<open>state_file\<close> are the calls on its file, whose JSON text is the document
  \<open>state_doc\<close>. Part states are compared as strings, as in the code, where a loaded state is a string and a
  new one a member of a string enumeration. Nested \<open>defaultdict\<close>s store the default when they are read.

  The locale \<open>restore_file\<close> says that the file holds what was written last; the facts are
  \<^item> a new object on the same file sees the state of every part as it was dumped (\<open>dump_then_resume\<close>);
  \<^item> the file lags behind the memory by fewer updates than the threshold (\<open>updates_lag\<close>).
\<close>

section \<open>States\<close>

datatype part_state = NOT_DOWNLOADED | INVALID | DOWNLOADED | RESTORED

definition part_state_value :: "part_state \<Rightarrow> string" where
  "part_state_value s =
     (case s of NOT_DOWNLOADED \<Rightarrow> ''not_downloaded'' | INVALID \<Rightarrow> ''invalid''
      | DOWNLOADED \<Rightarrow> ''downloaded'' | RESTORED \<Rightarrow> ''restored'')"

type_synonym part_states = "(string, (string, (string, string) dict) dict) dict"

record failed_entry =
  fe_paths :: "string list"
  fe_parts :: "(string, string) dict"

type_synonym failures = "(string, (string, failed_entry) dict) dict"

record state_doc =
  sd_databases :: "part_states option"
  sd_failed :: failures

record restore_context =
  rx_state_file :: string
  rx_threshold :: int
  rx_updates_cnt :: int
  rx_databases :: part_states
  rx_failed :: failures

record 'w state_file =
  sf_exists :: "string \<Rightarrow> ('w, bool) act"
  sf_load :: "string \<Rightarrow> ('w, state_doc) act"
  sf_dump :: "string \<Rightarrow> state_doc \<Rightarrow> ('w, unit) act"

definition new_restore_context :: "string \<Rightarrow> int \<Rightarrow> restore_context" where
  "new_restore_context file threshold =
     \<lparr>rx_state_file = file, rx_threshold = threshold, rx_updates_cnt = 0, rx_databases = [], rx_failed = []\<rparr>"

definition state_at :: "part_states \<Rightarrow> string \<Rightarrow> string \<Rightarrow> string \<Rightarrow> string" where
  "state_at d db tbl part = dd_get (dd_get (dd_get d db []) tbl []) part (part_state_value NOT_DOWNLOADED)"

definition set_state :: "part_states \<Rightarrow> string \<Rightarrow> string \<Rightarrow> string \<Rightarrow> string \<Rightarrow> part_states" where
  "set_state d db tbl part v =
     dict_set d db (dict_set (dd_get d db []) tbl (dict_set (dd_get (dd_get d db []) tbl []) part v))"

text \<open>\<open>_load_state\<close> copies every part of the file into new dictionaries.\<close>

definition copy_states :: "part_states \<Rightarrow> part_states" where
  "copy_states d =
     fold (\<lambda>(db, tables) acc. fold (\<lambda>(tbl, parts) acc. fold (\<lambda>(part, v) acc. set_state acc db tbl part v) parts acc)
                                tables acc) d []"

section \<open>Operations\<close>

type_synonym ('w, 'a) context_act = "('w \<times> restore_context, 'a) act"

definition load_state :: "'w state_file \<Rightarrow> ('w, unit) context_act" where
  "load_state sf =
     bind_act (get_object rx_state_file) (\<lambda>file.
     bind_act (on_world (sf_load sf file)) (\<lambda>doc.
       set_object (\<lambda>c. c\<lparr>rx_databases := copy_states (case sd_databases doc of None \<Rightarrow> [] | Some d \<Rightarrow> d)\<rparr>)))"

text \<open>The property \<open>_databases\<close>: with nothing in memory, the file is read if there is one.\<close>

definition context_databases :: "'w state_file \<Rightarrow> ('w, part_states) context_act" where
  "context_databases sf =
     bind_act (get_object rx_databases) (\<lambda>d.
       bind_act
         (when_act (d = [])
            (bind_act (get_object rx_state_file) (\<lambda>file.
             bind_act (on_world (sf_exists sf file)) (\<lambda>exists. when_act exists (load_state sf)))))
         (\<lambda>_. get_object rx_databases))"

definition dump_state :: "'w state_file \<Rightarrow> ('w, unit) context_act" where
  "dump_state sf =
     bind_act (context_databases sf) (\<lambda>d.
     bind_act (get_object rx_failed) (\<lambda>failed.
     bind_act (get_object rx_state_file) (\<lambda>file.
       on_world (sf_dump sf file \<lparr>sd_databases = Some d, sd_failed = failed\<rparr>))))"

text \<open>The decorator \<open>_dump_state_if_need\<close>.\<close>

definition dump_state_if_need :: "'w state_file \<Rightarrow> ('w, unit) context_act \<Rightarrow> ('w, unit) context_act" where
  "dump_state_if_need sf m =
     bind_act m (\<lambda>_.
     bind_act (set_object (\<lambda>c. c\<lparr>rx_updates_cnt := rx_updates_cnt c + 1\<rparr>)) (\<lambda>_.
     bind_act (get_object (\<lambda>c. rx_threshold c \<le> rx_updates_cnt c)) (\<lambda>due.
       when_act due
         (bind_act (dump_state sf) (\<lambda>_. set_object (\<lambda>c. c\<lparr>rx_updates_cnt := 0\<rparr>))))))"

definition context_part :: "'w state_file \<Rightarrow> part_metadata \<Rightarrow> ('w, string) context_act" where
  "context_part sf p =
     bind_act (context_databases sf) (\<lambda>d.
       let v = state_at d (pm_database p) (pm_table p) (pm_name p) in
       bind_act (set_object (\<lambda>c. c\<lparr>rx_databases := set_state d (pm_database p) (pm_table p) (pm_name p) v\<rparr>))
         (\<lambda>_. ret v))"

definition change_part_state :: "'w state_file \<Rightarrow> part_state \<Rightarrow> part_metadata \<Rightarrow> ('w, unit) context_act" where
  "change_part_state sf state p =
     dump_state_if_need sf
       (bind_act (context_databases sf) (\<lambda>d.
          set_object (\<lambda>c. c\<lparr>rx_databases :=
            set_state d (pm_database p) (pm_table p) (pm_name p) (part_state_value state)\<rparr>)))"

definition no_failures :: failed_entry where
  "no_failures = \<lparr>fe_paths = [], fe_parts = []\<rparr>"

definition add_failure :: "string \<Rightarrow> string \<Rightarrow> (failed_entry \<Rightarrow> failed_entry) \<Rightarrow> failures \<Rightarrow> failures" where
  "add_failure db tbl f d =
     (let tables = dd_get d db [] in dict_set d db (dict_set tables tbl (f (dd_get tables tbl no_failures))))"

definition add_failed_chown :: "'w state_file \<Rightarrow> string \<Rightarrow> string \<Rightarrow> string \<Rightarrow> ('w, unit) context_act" where
  "add_failed_chown sf db tbl path =
     dump_state_if_need sf (set_object (\<lambda>c. c\<lparr>rx_failed :=
       add_failure db tbl (\<lambda>e. e\<lparr>fe_paths := fe_paths e @ [path]\<rparr>) (rx_failed c)\<rparr>))"

definition add_failed_part :: "'w state_file \<Rightarrow> part_metadata \<Rightarrow> string \<Rightarrow> ('w, unit) context_act" where
  "add_failed_part sf p error_text =
     dump_state_if_need sf (set_object (\<lambda>c. c\<lparr>rx_failed :=
       add_failure (pm_database p) (pm_table p)
         (\<lambda>e. e\<lparr>fe_parts := dict_set (fe_parts e) (pm_name p) error_text\<rparr>) (rx_failed c)\<rparr>))"

definition has_failed_parts :: "restore_context \<Rightarrow> bool" where
  "has_failed_parts c \<longleftrightarrow> rx_failed c \<noteq> []"

definition part_downloaded :: "'w state_file \<Rightarrow> part_metadata \<Rightarrow> ('w, bool) context_act" where
  "part_downloaded sf p =
     bind_act (context_part sf p) (\<lambda>v. ret (v = part_state_value DOWNLOADED))"

definition part_restored :: "'w state_file \<Rightarrow> part_metadata \<Rightarrow> ('w, bool) context_act" where
  "part_restored sf p =
     bind_act (context_part sf p) (\<lambda>v. ret (v = part_state_value RESTORED))"

section \<open>Nested dictionaries\<close>

lemma dd_get_set: "dd_get (dict_set d k v) k' x = (if k' = k then v else dd_get d k' x)"
  by (simp add: dd_get_def option_or_def)

lemma state_at_set [simp]:
  "state_at (set_state d db tbl part v) db' tbl' part'
     = (if db' = db \<and> tbl' = tbl \<and> part' = part then v else state_at d db' tbl' part')"
  by (simp add: state_at_def set_state_def dd_get_set)

lemma state_at_Nil [simp]: "state_at [] db tbl part = part_state_value NOT_DOWNLOADED"
  by (simp add: state_at_def dd_get_def option_or_def)

lemma set_state_nonempty [simp]: "set_state d db tbl part v \<noteq> []"
  by (cases d) (auto simp: set_state_def)

text \<open>JSON objects have distinct keys.\<close>

definition states_ok :: "part_states \<Rightarrow> bool" where
  "states_ok d \<longleftrightarrow> dict_ok d \<and> (\<forall>(db, tables) \<in> set d. dict_ok tables \<and> (\<forall>(tbl, parts) \<in> set tables. dict_ok parts))"

lemma states_ok_Nil [simp]: "states_ok []"
  by (simp add: states_ok_def)

lemma states_ok_set [simp]:
  assumes "states_ok d"
  shows "states_ok (set_state d db tbl part v)"
proof -
  have tables: "dict_ok (dd_get d db [])" "\<forall>(t, parts) \<in> set (dd_get d db []). dict_ok parts"
    using assms by (cases "map_of d db"; force simp: states_ok_def dd_get_def option_or_def dest: map_of_SomeD)+
  then have parts: "dict_ok (dd_get (dd_get d db []) tbl [])"
    by (cases "map_of (dd_get d db []) tbl"; force simp: dd_get_def option_or_def dest: map_of_SomeD)
  let ?parts = "dict_set (dd_get (dd_get d db []) tbl []) part v"
  let ?tables = "dict_set (dd_get d db []) tbl ?parts"
  have "dict_ok ?tables \<and> (\<forall>(t, parts) \<in> set ?tables. dict_ok parts)"
    using tables dict_ok_update [OF parts] set_dict_set [of tbl ?parts "dd_get d db []"] by (simp, blast)
  with assms set_dict_set [of db ?tables d] show ?thesis
    unfolding states_ok_def set_state_def by (simp, blast)
qed

lemma fold_set_parts:
  assumes "dict_ok parts"
  shows "state_at (fold (\<lambda>(part, v) acc. set_state acc db tbl part v) parts acc) db' tbl' part'
     = (if db' = db \<and> tbl' = tbl
        then (case map_of parts part' of None \<Rightarrow> state_at acc db' tbl' part' | Some v \<Rightarrow> v)
        else state_at acc db' tbl' part')"
  using assms
proof (induction parts arbitrary: acc)
  case (Cons p parts)
  obtain k x where p: "p = (k, x)" by (cases p)
  with Cons.prems have "dict_ok parts" and fresh: "map_of parts k = None" by (simp_all add: map_of_eq_None_iff)
  then show ?case
    using Cons.IH [of "set_state acc db tbl k x"] by (cases "part' = k") (simp_all add: p split: option.split)
qed simp

lemma fold_set_tables:
  assumes "dict_ok tables" "\<forall>(tbl, parts) \<in> set tables. dict_ok parts"
  shows "state_at (fold (\<lambda>(tbl, parts) acc. fold (\<lambda>(part, v) acc. set_state acc db tbl part v) parts acc) tables acc)
       db' tbl' part'
     = (if db' = db
        then (case map_of tables tbl' of None \<Rightarrow> state_at acc db' tbl' part'
              | Some parts \<Rightarrow> (case map_of parts part' of None \<Rightarrow> state_at acc db' tbl' part' | Some v \<Rightarrow> v))
        else state_at acc db' tbl' part')"
  using assms
proof (induction tables arbitrary: acc)
  case (Cons t tables)
  obtain k x where t: "t = (k, x)" by (cases t)
  with Cons.prems have ok: "dict_ok tables" "\<forall>(tbl, parts) \<in> set tables. dict_ok parts" "dict_ok x"
    and fresh: "map_of tables k = None" by (simp_all add: map_of_eq_None_iff)
  let ?acc = "fold (\<lambda>(part, v) acc. set_state acc db k part v) x acc"
  show ?case
    using Cons.IH [OF ok(1,2), of ?acc] fresh
    by (cases "tbl' = k") (simp_all add: t fold_set_parts [OF ok(3)] split: option.split)
qed simp

lemma state_at_copy [simp]:
  assumes "states_ok d"
  shows "state_at (copy_states d) = state_at d"
proof (intro ext)
  fix db tbl part
  have "state_at (fold (\<lambda>(db, tables) acc. fold (\<lambda>(tbl, parts) acc.
          fold (\<lambda>(part, v) acc. set_state acc db tbl part v) parts acc) tables acc) d acc) db tbl part
      = (case map_of d db of None \<Rightarrow> state_at acc db tbl part
         | Some tables \<Rightarrow> (case map_of tables tbl of None \<Rightarrow> state_at acc db tbl part
             | Some parts \<Rightarrow> (case map_of parts part of None \<Rightarrow> state_at acc db tbl part | Some v \<Rightarrow> v)))" for acc
    using assms
  proof (induction d arbitrary: acc)
    case (Cons e d)
    obtain db' tables where e: "e = (db', tables)" by (cases e)
    with Cons.prems have ok: "dict_ok tables" "\<forall>(tbl, parts) \<in> set tables. dict_ok parts" "states_ok d"
      "db' \<notin> fst ` set d" by (auto simp: states_ok_def)
    then have fresh: "map_of d db' = None" by (simp add: map_of_eq_None_iff)
    let ?acc = "fold (\<lambda>(tbl, parts) acc. fold (\<lambda>(part, v) acc. set_state acc db' tbl part v) parts acc) tables acc"
    show ?case
      using Cons.IH [OF ok(3), of ?acc] fresh
      by (cases "db = db'") (simp_all add: e fold_set_tables [OF ok(1,2)] split: option.split)
  qed simp
  from this [of "[]"] show "state_at (copy_states d) db tbl part = state_at d db tbl part"
    by (auto simp: copy_states_def state_at_def dd_get_def option_or_def split: option.split)
qed

lemma states_ok_copy [simp]: "states_ok (copy_states d)"
proof -
  have parts: "states_ok acc \<Longrightarrow> states_ok (fold (\<lambda>(part, v) acc. set_state acc db tbl part v) parts acc)"
    for db tbl parts acc by (induction parts arbitrary: acc) auto
  have tables: "states_ok acc \<Longrightarrow> states_ok (fold (\<lambda>(tbl, parts) acc.
      fold (\<lambda>(part, v) acc. set_state acc db tbl part v) parts acc) tables acc)"
    for db tables acc by (induction tables arbitrary: acc) (auto simp: parts)
  have "states_ok acc \<Longrightarrow> states_ok (fold (\<lambda>(db, tables) acc. fold (\<lambda>(tbl, parts) acc.
      fold (\<lambda>(part, v) acc. set_state acc db tbl part v) parts acc) tables acc) d acc)"
    for acc by (induction d arbitrary: acc) (auto simp: tables)
  then show ?thesis by (simp add: copy_states_def)
qed

section \<open>The file\<close>

definition file_states :: "state_doc option \<Rightarrow> part_states" where
  "file_states doc =
     (case doc of None \<Rightarrow> []
      | Some d \<Rightarrow> copy_states (case sd_databases d of None \<Rightarrow> [] | Some x \<Rightarrow> x))"

text \<open>What the object sees: its memory, or the file while it has none.\<close>

definition seen :: "state_doc option \<Rightarrow> restore_context \<Rightarrow> part_states" where
  "seen doc c = (if rx_databases c = [] then file_states doc else rx_databases c)"

locale restore_file =
  fixes sf :: "'w state_file" and content :: "string \<Rightarrow> 'w \<Rightarrow> state_doc option"
  assumes exists_file: "sf_exists sf f w = (Inr (content f w \<noteq> None), w)"
    and load_file: "content f w = Some d \<Longrightarrow> sf_load sf f w = (Inr d, w)"
    and dump_file: "sf_dump sf f d w = (Inr (), w') \<Longrightarrow> (\<forall>x. sd_databases d = Some x \<longrightarrow> states_ok x)
          \<Longrightarrow> content f w' = Some d"
begin

lemma context_databases_seen:
  "context_databases sf (w, c)
     = (Inr (seen (content (rx_state_file c) w) c), (w, c\<lparr>rx_databases := seen (content (rx_state_file c) w) c\<rparr>))"
proof (cases "content (rx_state_file c) w")
  case None
  then show ?thesis
    by (cases "rx_databases c = []")
      (simp_all add: context_databases_def get_object_def set_object_def bind_act_def when_act_def on_world_def
        exists_file seen_def file_states_def)
next
  case (Some d)
  then show ?thesis
    by (cases "rx_databases c = []")
      (simp_all add: context_databases_def load_state_def get_object_def set_object_def bind_act_def when_act_def
        on_world_def exists_file load_file [OF Some] seen_def file_states_def)
qed

lemma context_part_seen:
  "fst (context_part sf p (w, c))
     = Inr (state_at (seen (content (rx_state_file c) w) c) (pm_database p) (pm_table p) (pm_name p))"
  by (simp add: context_part_def bind_act_def context_databases_seen set_object_def Let_def)

lemma dump_state_result:
  assumes "dump_state sf (w, c) = (Inr (), s)" "states_ok (rx_databases c)"
  shows "\<exists>w'. s = (w', c\<lparr>rx_databases := seen (content (rx_state_file c) w) c\<rparr>)
     \<and> content (rx_state_file c) w'
       = Some \<lparr>sd_databases = Some (seen (content (rx_state_file c) w) c), sd_failed = rx_failed c\<rparr>"
proof -
  let ?d = "seen (content (rx_state_file c) w) c"
  have "states_ok ?d"
    using assms(2) by (auto simp: seen_def file_states_def split: option.split)
  with assms(1) dump_file [of "rx_state_file c" "\<lparr>sd_databases = Some ?d, sd_failed = rx_failed c\<rparr>" w]
  show ?thesis
    by (auto simp: dump_state_def bind_act_def context_databases_seen get_object_def on_world_def split: prod.splits)
qed

lemma dump_if_need_result:
  assumes "dump_state_if_need sf m (w, c) = (Inr (), s)" "m (w, c) = (Inr (), (w, c1))"
    and "states_ok (rx_databases c1)"
  shows "if rx_threshold c1 \<le> rx_updates_cnt c1 + 1
    then \<exists>w'. s = (w', c1\<lparr>rx_databases := seen (content (rx_state_file c1) w) c1, rx_updates_cnt := 0\<rparr>)
       \<and> content (rx_state_file c1) w'
         = Some \<lparr>sd_databases = Some (seen (content (rx_state_file c1) w) c1), sd_failed = rx_failed c1\<rparr>
    else s = (w, c1\<lparr>rx_updates_cnt := rx_updates_cnt c1 + 1\<rparr>)"
proof -
  let ?c = "c1\<lparr>rx_updates_cnt := rx_updates_cnt c1 + 1\<rparr>"
  have eq: "dump_state_if_need sf m (w, c) =
      when_act (rx_threshold c1 \<le> rx_updates_cnt c1 + 1)
        (bind_act (dump_state sf) (\<lambda>_. set_object (\<lambda>c. c\<lparr>rx_updates_cnt := 0\<rparr>))) (w, ?c)"
    by (simp add: dump_state_if_need_def bind_act_def assms(2) set_object_def get_object_def)
  show ?thesis
  proof (cases "rx_threshold c1 \<le> rx_updates_cnt c1 + 1")
    case True
    with assms(1) eq obtain s1 where d: "dump_state sf (w, ?c) = (Inr (), s1)"
      and s: "set_object (\<lambda>c. c\<lparr>rx_updates_cnt := 0\<rparr>) s1 = (Inr (), s)"
      by (auto simp: when_act_def bind_act_result)
    from dump_state_result [OF d] assms(3) s True show ?thesis
      by (auto simp: set_object_def seen_def)
  qed (use assms(1) eq in \<open>simp add: when_act_def\<close>)
qed

end

section \<open>Sequences of operations\<close>

datatype context_op =
    ChangeState part_state part_metadata
  | FailedPart part_metadata string
  | FailedChown string string string
  | ReadPart part_metadata
  | DumpState

fun run_op :: "'w state_file \<Rightarrow> context_op \<Rightarrow> ('w, unit) context_act" where
  "run_op sf (ChangeState s p) = change_part_state sf s p"
| "run_op sf (FailedPart p e) = add_failed_part sf p e"
| "run_op sf (FailedChown db tbl path) = add_failed_chown sf db tbl path"
| "run_op sf (ReadPart p) = bind_act (context_part sf p) (\<lambda>_. ret ())"
| "run_op sf DumpState = dump_state sf"

fun is_update :: "context_op \<Rightarrow> bool" where
  "is_update (ReadPart p) = False"
| "is_update DumpState = False"
| "is_update _ = True"

type_synonym states = "string \<Rightarrow> string \<Rightarrow> string \<Rightarrow> string"

fun op_effect :: "context_op \<Rightarrow> states \<Rightarrow> states" where
  "op_effect (ChangeState s p) S =
     (\<lambda>db tbl part. if db = pm_database p \<and> tbl = pm_table p \<and> part = pm_name p then part_state_value s
                    else S db tbl part)"
| "op_effect _ S = S"

definition run_ops :: "'w state_file \<Rightarrow> context_op list \<Rightarrow> ('w, unit) context_act" where
  "run_ops sf ops = for_act ops (\<lambda>op _. run_op sf op) ()"

text \<open>After the operations \<open>ops\<close> from the states \<open>S\<close>: the object sees all of them, the file the first \<open>k\<close>,
  and the updates among the others are counted.\<close>

definition updates :: "context_op list \<Rightarrow> int" where
  "updates ops = int (length (filter is_update ops))"

definition lag_inv ::
  "(string \<Rightarrow> 'w \<Rightarrow> state_doc option) \<Rightarrow> string \<Rightarrow> int \<Rightarrow> states \<Rightarrow> context_op list \<Rightarrow> nat \<Rightarrow> 'w \<times> restore_context \<Rightarrow> bool" where
  "lag_inv content f t S ops k s \<longleftrightarrow>
     (case s of (w, c) \<Rightarrow>
        rx_state_file c = f \<and> rx_threshold c = t \<and> states_ok (rx_databases c) \<and>
        state_at (seen (content f w) c) = fold op_effect ops S \<and>
        k \<le> length ops \<and> state_at (file_states (content f w)) = fold op_effect (take k ops) S \<and>
        updates (drop k ops) \<le> rx_updates_cnt c \<and> rx_updates_cnt c < max 1 t)"

lemma states_ok_seen: "states_ok (rx_databases c) \<Longrightarrow> states_ok (seen doc c)"
  by (auto simp: seen_def file_states_def split: option.split)

lemma updates_simps [simp]:
  "updates [] = 0" "updates (op # ops) = (if is_update op then 1 else 0) + updates ops"
  "updates (ops @ ops') = updates ops + updates ops'"
  by (simp_all add: updates_def)

lemma updates_nonneg: "0 \<le> updates ops"
  by (simp add: updates_def)

lemma state_at_file_states:
  "states_ok d \<Longrightarrow> state_at (file_states (Some \<lparr>sd_databases = Some d, sd_failed = x\<rparr>)) = state_at d"
  by (simp add: file_states_def)

context restore_file
begin

lemma update_step:
  assumes inv: "lag_inv content f t S ops k (w, c)"
    and run: "dump_state_if_need sf m (w, c) = (Inr (), s')"
    and m: "m (w, c) = (Inr (), (w, c1))"
    and c1: "rx_state_file c1 = f" "rx_threshold c1 = t" "rx_updates_cnt c1 = rx_updates_cnt c"
      "states_ok (rx_databases c1)" "state_at (seen (content f w) c1) = op_effect op (state_at (seen (content f w) c))"
    and op: "is_update op"
  shows "\<exists>k'. lag_inv content f t S (ops @ [op]) k' s'"
proof (cases "t \<le> rx_updates_cnt c + 1")
  case True
  from dump_if_need_result [OF run m c1(4)] c1 True obtain w' where
    s': "s' = (w', c1\<lparr>rx_databases := seen (content f w) c1, rx_updates_cnt := 0\<rparr>)"
      "content f w' = Some \<lparr>sd_databases = Some (seen (content f w) c1), sd_failed = rx_failed c1\<rparr>" by auto
  have ok: "states_ok (seen (content f w) c1)" by (rule states_ok_seen [OF c1(4)])
  have eff: "state_at (seen (content f w) c1) = fold op_effect (ops @ [op]) S"
    using inv c1(5) by (simp add: lag_inv_def)
  show ?thesis
    using ok eff c1 s' updates_nonneg
    by (intro exI [of _ "length (ops @ [op])"])
      (auto simp: lag_inv_def seen_def state_at_file_states)
next
  case False
  with dump_if_need_result [OF run m c1(4)] c1 have s': "s' = (w, c1\<lparr>rx_updates_cnt := rx_updates_cnt c + 1\<rparr>)" by simp
  with inv c1 False op show ?thesis
    by (intro exI [of _ k]) (auto simp: lag_inv_def seen_def)
qed

lemma op_step:
  assumes inv: "lag_inv content f t S ops k (w, c)" and run: "run_op sf op (w, c) = (Inr (), s')"
  shows "\<exists>k'. lag_inv content f t S (ops @ [op]) k' s' \<and> (op = DumpState \<longrightarrow> k' = length (ops @ [op]))"
proof -
  have same: "rx_state_file c = f" "rx_threshold c = t" "states_ok (rx_databases c)"
    using inv by (simp_all add: lag_inv_def)
  let ?d = "seen (content f w) c"
  have ok: "states_ok ?d" by (rule states_ok_seen [OF same(3)])
  show ?thesis
  proof (cases op)
    case (ChangeState st p)
    let ?c = "c\<lparr>rx_databases := set_state ?d (pm_database p) (pm_table p) (pm_name p) (part_state_value st)\<rparr>"
    have "\<exists>k'. lag_inv content f t S (ops @ [op]) k' s'"
    proof (rule update_step [OF inv])
      show "dump_state_if_need sf (bind_act (context_databases sf) (\<lambda>d.
          set_object (\<lambda>c. c\<lparr>rx_databases :=
            set_state d (pm_database p) (pm_table p) (pm_name p) (part_state_value st)\<rparr>))) (w, c) = (Inr (), s')"
        using run ChangeState by (simp add: change_part_state_def)
      show "bind_act (context_databases sf) (\<lambda>d. set_object (\<lambda>c. c\<lparr>rx_databases :=
            set_state d (pm_database p) (pm_table p) (pm_name p) (part_state_value st)\<rparr>)) (w, c) = (Inr (), (w, ?c))"
        by (simp add: bind_act_def context_databases_seen set_object_def same)
    qed (use same ok ChangeState in \<open>auto simp: seen_def fun_eq_iff\<close>)
    with ChangeState show ?thesis by blast
  next
    case (FailedPart p e)
    let ?c1 = "c\<lparr>rx_failed := add_failure (pm_database p) (pm_table p)
        (\<lambda>x. x\<lparr>fe_parts := dict_set (fe_parts x) (pm_name p) e\<rparr>) (rx_failed c)\<rparr>"
    have "set_object (\<lambda>c. c\<lparr>rx_failed := add_failure (pm_database p) (pm_table p)
        (\<lambda>x. x\<lparr>fe_parts := dict_set (fe_parts x) (pm_name p) e\<rparr>) (rx_failed c)\<rparr>) (w, c) = (Inr (), (w, ?c1))"
      by (simp add: set_object_def)
    from update_step [OF inv run [unfolded FailedPart run_op.simps add_failed_part_def] this] same FailedPart
    show ?thesis by (auto simp: seen_def)
  next
    case (FailedChown db tbl path)
    let ?c1 = "c\<lparr>rx_failed := add_failure db tbl (\<lambda>x. x\<lparr>fe_paths := fe_paths x @ [path]\<rparr>) (rx_failed c)\<rparr>"
    have "set_object (\<lambda>c. c\<lparr>rx_failed := add_failure db tbl (\<lambda>e. e\<lparr>fe_paths := fe_paths e @ [path]\<rparr>) (rx_failed c)\<rparr>)
        (w, c) = (Inr (), (w, ?c1))" by (simp add: set_object_def)
    from update_step [OF inv run [unfolded FailedChown run_op.simps add_failed_chown_def] this] same FailedChown
    show ?thesis by (auto simp: seen_def)
  next
    case (ReadPart p)
    then have s': "s' = (w, c\<lparr>rx_databases := set_state ?d (pm_database p) (pm_table p) (pm_name p)
        (state_at ?d (pm_database p) (pm_table p) (pm_name p))\<rparr>)"
      using run by (simp add: context_part_def bind_act_def context_databases_seen set_object_def Let_def same)
    have "state_at (set_state ?d (pm_database p) (pm_table p) (pm_name p)
        (state_at ?d (pm_database p) (pm_table p) (pm_name p))) = state_at ?d"
      by (simp add: fun_eq_iff)
    with inv ok s' ReadPart show ?thesis
      by (intro exI [of _ k]) (simp add: lag_inv_def seen_def)
  next
    case DumpState
    with dump_state_result [of w c s'] run same obtain w' where
      s': "s' = (w', c\<lparr>rx_databases := ?d\<rparr>)"
        "content f w' = Some \<lparr>sd_databases = Some ?d, sd_failed = rx_failed c\<rparr>" by auto
    have "0 \<le> rx_updates_cnt c" using inv updates_nonneg [of "drop k ops"] by (simp add: lag_inv_def)
    with inv ok s' DumpState show ?thesis
      by (intro exI [of _ "length (ops @ [op])"]) (auto simp: lag_inv_def seen_def state_at_file_states)
  qed
qed

lemma ops_lag:
  assumes "run_ops sf ops (w, c) = (Inr (), s')" "lag_inv content f t S done k (w, c)"
  shows "\<exists>k'. lag_inv content f t S (done @ ops) k' s' \<and> (ops \<noteq> [] \<and> last ops = DumpState \<longrightarrow> k' = length (done @ ops))"
  using assms
proof (induction ops arbitrary: w c "done" k)
  case (Cons op ops)
  from Cons.prems(1) obtain s1 where 1: "run_op sf op (w, c) = (Inr (), s1)"
    and 2: "run_ops sf ops s1 = (Inr (), s')" by (auto simp: run_ops_def bind_act_result)
  from op_step [OF Cons.prems(2) 1] obtain k1 where
    k1: "lag_inv content f t S (done @ [op]) k1 s1" "op = DumpState \<longrightarrow> k1 = length (done @ [op])" by blast
  obtain w1 c1 where s1: "s1 = (w1, c1)" by (cases s1)
  show ?case
  proof (cases ops)
    case Nil
    with 2 k1 show ?thesis by (auto simp: run_ops_def)
  next
    case more: (Cons o' os)
    from Cons.IH [OF 2 [unfolded s1] k1(1) [unfolded s1]] more show ?thesis by auto
  qed
qed (auto simp: run_ops_def)

lemma new_lag:
  "lag_inv content f t (state_at (file_states (content f w))) [] 0 (w, new_restore_context f t)"
  by (simp add: lag_inv_def new_restore_context_def seen_def)

end

text \<open>A file system that keeps the last document written to each path.\<close>

definition memory_file :: "(string \<Rightarrow> state_doc option) state_file" where
  "memory_file =
     \<lparr>sf_exists = \<lambda>f w. (Inr (w f \<noteq> None), w),
      sf_load = \<lambda>f w. (case w f of None \<Rightarrow> Inl FileNotFoundError | Some d \<Rightarrow> Inr d, w),
      sf_dump = \<lambda>f d w. (Inr (), w(f \<mapsto> d))\<rparr>"

interpretation memory_state: restore_file memory_file "\<lambda>f w. w f"
  by unfold_locales (auto simp: memory_file_def)

text \<open>C27. The state of an interrupted restore survives. After any successful operations on a restore context,
  the object answers for every part with the last state set; and a new object on the same file answers as
  the old one did after the first \<open>k\<close> of the operations, where the others contain fewer updates than the
  dump threshold, and none at all when the last operation was a dump.\<close>

theorem restore_state_survives:
  assumes "restore_file sf content"
    and "run_ops sf ops (w, new_restore_context f t) = (Inr (), (w', c'))"
  shows "\<exists>k \<le> length ops.
      (\<forall>p. fst (context_part sf p (w', c')) =
         Inr (fold op_effect ops (state_at (file_states (content f w))) (pm_database p) (pm_table p) (pm_name p))) \<and>
      (\<forall>p. fst (context_part sf p (w', new_restore_context f t)) =
         Inr (fold op_effect (take k ops) (state_at (file_states (content f w))) (pm_database p) (pm_table p) (pm_name p))) \<and>
      updates (drop k ops) < max 1 t \<and> (ops \<noteq> [] \<and> last ops = DumpState \<longrightarrow> k = length ops)"
proof -
  have "lag_inv content f t (state_at (file_states (content f w))) [] 0 (w, new_restore_context f t)"
    by (rule restore_file.new_lag [OF assms(1)])
  from restore_file.ops_lag [OF assms(1,2) this] obtain k where
    k: "lag_inv content f t (state_at (file_states (content f w))) ops k (w', c')"
      "ops \<noteq> [] \<and> last ops = DumpState \<longrightarrow> k = length ops" by auto
  moreover have "seen (content f w') (new_restore_context f t) = file_states (content f w')"
    by (simp add: seen_def new_restore_context_def)
  ultimately show ?thesis
    by (intro exI [of _ k])
      (auto simp: restore_file.context_part_seen [OF assms(1)] lag_inv_def new_restore_context_def)
qed

theorem restore_state_survives_witness:
  "\<exists>w c. run_ops memory_file [ChangeState DOWNLOADED (sample_part None), DumpState] (\<lambda>f. None, new_restore_context ''state'' 100)
       = (Inr (), (w, c)) \<and>
     fst (context_part memory_file (sample_part None) (w, new_restore_context ''state'' 100)) = Inr ''downloaded''"
proof -
  let ?s = "run_ops memory_file [ChangeState DOWNLOADED (sample_part None), DumpState] (\<lambda>f. None, new_restore_context ''state'' 100)"
  have ok: "fst ?s = Inr ()"
    by (simp add: run_ops_def change_part_state_def dump_state_if_need_def dump_state_def context_databases_def bind_act_def
        get_object_def set_object_def when_act_def on_world_def memory_file_def new_restore_context_def)
  obtain w c where s: "?s = (Inr (), (w, c))" using ok by (cases ?s) auto
  from restore_state_survives [OF memory_state.restore_file_axioms s] s show ?thesis
    by (auto simp: part_state_value_def)
qed

end
