(* ===== verification/Control.thy ===== *)
theory Control
  imports Client Models Calculators BackupMeta Threads
begin

text \<open>
  The ClickHouse control tool (\<^verbatim>\<open>clickhouse/control.py\<close>): one definition per method of
  \<open>ClickhouseCTL\<close>, on the client of \<^verbatim>\<open>Client\<close> and the local files of the host, with the file
  helpers of \<^verbatim>\<open>util.py\<close> they use. A shadow directory is listed in the order of \<open>os.scandir\<close>,
  whatever it is.
\<close>

section \<open>The host\<close>

record 'w host_files =
  hf_exists :: "string \<Rightarrow> ('w, bool) act"
  hf_is_file :: "string \<Rightarrow> ('w, bool) act"
  hf_mkdir :: "string \<Rightarrow> ('w, unit) act"
  hf_makedirs :: "string \<Rightarrow> ('w, unit) act"
  hf_mkdtemp :: "string \<Rightarrow> string \<Rightarrow> ('w, string) act"
  hf_read :: "string \<Rightarrow> ('w, string) act"
  hf_write :: "string \<Rightarrow> string \<Rightarrow> ('w, unit) act"
  hf_append :: "string \<Rightarrow> string \<Rightarrow> ('w, unit) act"
  hf_listdir :: "string \<Rightarrow> ('w, string list) act"
  hf_walk :: "string \<Rightarrow> ('w, string list) act"
  hf_files_below :: "string \<Rightarrow> ('w, string list) act"
  hf_file_size :: "string \<Rightarrow> ('w, int) act"
  hf_change_times :: "string \<Rightarrow> ('w, int \<times> int) act"
  hf_copy :: "string \<Rightarrow> string \<Rightarrow> ('w, unit) act"
  hf_rmtree :: "string \<Rightarrow> ('w, unit) act"
  hf_remove :: "string \<Rightarrow> ('w, unit) act"
  hf_chown :: "string \<Rightarrow> string \<Rightarrow> string \<Rightarrow> ('w, unit) act"
  hf_chmod :: "string \<Rightarrow> nat \<Rightarrow> ('w, unit) act"
  hf_touch :: "string \<Rightarrow> ('w, unit) act"
  hf_md5 :: "string \<Rightarrow> string"

definition chown_dir_contents ::
  "'w host_files \<Rightarrow> string \<Rightarrow> string \<Rightarrow> string \<Rightarrow> bool \<Rightarrow> ('w, unit) act" where
  "chown_dir_contents fs user grp dir_path need_recursion =
     bind_act (hf_chown fs dir_path user grp) (\<lambda>_.
       if need_recursion
       then bind_act (hf_walk fs dir_path) (\<lambda>paths. for_act paths (\<lambda>p _. hf_chown fs p user grp) ())
       else bind_act (hf_listdir fs dir_path) (\<lambda>names.
              for_act names (\<lambda>p _. hf_chown fs (path_join dir_path p) user grp) ()))"

definition list_dir_files :: "'w host_files \<Rightarrow> string \<Rightarrow> ('w, string list) act" where
  "list_dir_files fs dir_path =
     bind_act (hf_files_below fs dir_path) (\<lambda>files. ret (map (drop (length dir_path + 1)) files))"

definition copy_directory_content :: "'w host_files \<Rightarrow> string \<Rightarrow> string \<Rightarrow> ('w, unit) act" where
  "copy_directory_content fs from_dir to_dir0 =
     (if to_dir0 = [] then raise IndexError
      else
        (let to_dir = (if last to_dir0 \<noteq> CHR ''/'' then to_dir0 @ ''/'' else to_dir0) in
         bind_act (hf_listdir fs from_dir) (\<lambda>names.
           for_act names (\<lambda>n _.
             bind_act (hf_exists fs (path_join to_dir n)) (\<lambda>exists.
               when_act (\<not> exists) (hf_copy fs (path_join from_dir n) to_dir))) ())))"

text \<open>\<open>temp_directory\<close> has no \<open>finally\<close>: after an exception the directory stays.\<close>

definition with_temp_directory ::
  "'w host_files \<Rightarrow> string \<Rightarrow> string \<Rightarrow> (string \<Rightarrow> ('w, 'a) act) \<Rightarrow> ('w, 'a) act" where
  "with_temp_directory fs directory_path backup_name body =
     bind_act (hf_mkdtemp fs (backup_name @ ''_tmp_'') directory_path) (\<lambda>d.
     bind_act (body d) (\<lambda>r.
     bind_act (hf_rmtree fs d) (\<lambda>_. ret r)))"

definition ensure_owned_directory :: "'w host_files \<Rightarrow> string \<Rightarrow> string \<Rightarrow> string \<Rightarrow> ('w, unit) act" where
  "ensure_owned_directory fs path user grp =
     bind_act (hf_makedirs fs path) (\<lambda>_. hf_chown fs path user grp)"

section \<open>Versions\<close>

text \<open>The longest prefix of the form \<open>1.22.333\<close>. With none, the text is left as it is.\<close>

fun version_prefix :: "string \<Rightarrow> string" where
  "version_prefix [] = []"
| "version_prefix (c # cs) =
     (if is_digit c then c # version_prefix cs
      else if c = CHR ''.'' \<and> cs \<noteq> [] \<and> is_digit (hd cs) then c # version_prefix cs
      else [])"

definition version_text :: "string \<Rightarrow> string" where
  "version_text v =
     (let s = strip v in
      if s \<noteq> [] \<and> is_digit (hd s) \<and> CHR 0x0A \<notin> set s then version_prefix s else s)"

definition parse_version :: "string \<Rightarrow> int list res" where
  "parse_version v = map_res py_int (split_on CHR ''.'' (version_text v))"

text \<open>The order of Python lists.\<close>

fun list_ge :: "int list \<Rightarrow> int list \<Rightarrow> bool" where
  "list_ge xs [] = True"
| "list_ge [] (y # ys) = False"
| "list_ge (x # xs) (y # ys) = (y < x \<or> x = y \<and> list_ge xs ys)"

section \<open>The control tool\<close>

record 'w ch_ctl =
  cc_client :: "'w ch_client"
  cc_files :: "'w host_files"
  cc_version :: string
  cc_disks :: "(string, disk) dict"
  cc_root_data_path :: string
  cc_timeout :: int
  cc_freeze_timeout :: int
  cc_unfreeze_timeout :: int
  cc_restore_replica_timeout :: int
  cc_drop_replica_timeout :: int
  cc_user :: string
  cc_group :: string
  cc_drop_privileges :: bool
  cc_system_database :: string
  cc_settings :: "(string \<times> int) list option"

definition ch_version_ge :: "'w ch_ctl \<Rightarrow> string \<Rightarrow> bool res" where
  "ch_version_ge c v =
     bind_res (parse_version (cc_version c)) (\<lambda>a. bind_res (parse_version v) (\<lambda>b. Inr (list_ge a b)))"

definition ctl_query :: "'w ch_ctl \<Rightarrow> string \<Rightarrow> ('w, answer) act" where
  "ctl_query c q = query (cc_client c) default_opts q"

definition ctl_run :: "'w ch_ctl \<Rightarrow> query_opts \<Rightarrow> string \<Rightarrow> ('w, unit) act" where
  "ctl_run c opts q = bind_act (query (cc_client c) opts q) (\<lambda>_. ret ())"

text \<open>\<open>if self.ch_version_ge(v)\<close>\<close>

definition if_version :: "'w ch_ctl \<Rightarrow> string \<Rightarrow> ('w, 'a) act \<Rightarrow> ('w, 'a) act \<Rightarrow> ('w, 'a) act" where
  "if_version c v m n = bind_act (lift_res (ch_version_ge c v)) (\<lambda>b. if b then m else n)"

definition format_string_array :: "string list \<Rightarrow> string" where
  "format_string_array vs = ''['' @ join_str '','' (map (\<lambda>v. SQ @ sql_escape v @ SQ) vs) @ '']''"

definition db_condition :: "string option \<Rightarrow> string" where
  "db_condition db =
     (case non_empty db of None \<Rightarrow> ''1'' | Some d \<Rightarrow> ''database = '' @ SQ @ sql_escape d @ SQ)"

definition names_condition :: "string \<Rightarrow> string list \<Rightarrow> string" where
  "names_condition column names =
     (if names = [] then ''1''
      else ''has(cast('' @ format_string_array names @ '', '' @ SQ @ ''Array(String)'' @ SQ @ ''), '' @ column @ '')'')"

section \<open>Disks\<close>

definition plain_disk :: "json \<Rightarrow> disk res" where
  "plain_disk row =
     bind_res (str_item ''name'' row) (\<lambda>n.
     bind_res (str_item ''path'' row) (\<lambda>p.
     bind_res (str_item ''type'' row) (\<lambda>t.
       Inr \<lparr>dk_name = n, dk_path = p, dk_type = t, dk_object_storage_type = None,
            dk_metadata_storage_type = None, dk_cache_path = None\<rparr>)))"

definition cached_disk :: "json \<Rightarrow> disk res" where
  "cached_disk row =
     bind_res (plain_disk row) (\<lambda>d.
     bind_res (bind_res (j_item ''cache_path'' row) as_str_option) (\<lambda>cp. Inr (d\<lparr>dk_cache_path := cp\<rparr>)))"

definition full_disk :: "json \<Rightarrow> disk res" where
  "full_disk row =
     bind_res (cached_disk row) (\<lambda>d.
     bind_res (bind_res (j_item ''object_storage_type'' row) as_str_option) (\<lambda>ot.
     bind_res (bind_res (j_item ''metadata_type'' row) as_str_option) (\<lambda>mt.
       Inr (d\<lparr>dk_object_storage_type := ot, dk_metadata_storage_type := mt\<rparr>))))"

definition named_disks :: "disk list \<Rightarrow> (string, disk) dict" where
  "named_disks ds = fold (\<lambda>d acc. dict_set acc (dk_name d) d) ds []"

definition get_disks :: "'w ch_ctl \<Rightarrow> ('w, (string, disk) dict) act" where
  "get_disks c =
     if_version c ''24.3''
       (bind_act (ctl_query c GET_DISKS_SQL_24_3) (\<lambda>a.
          lift_res (bind_res (get_data a) (\<lambda>rows. bind_res (map_res full_disk rows) (\<lambda>ds. Inr (named_disks ds))))))
       (if_version c ''22.8''
          (bind_act (ctl_query c GET_DISKS_SQL_22_8) (\<lambda>a.
             lift_res (bind_res (get_data a) (\<lambda>rows. bind_res (map_res cached_disk rows) (\<lambda>ds. Inr (named_disks ds))))))
          (bind_act (ctl_query c GET_DISKS_SQL) (\<lambda>a.
             lift_res (bind_res (get_data a) (\<lambda>rows. bind_res (map_res plain_disk rows) (\<lambda>ds. Inr (named_disks ds)))))))"

definition optional_disk :: "json \<Rightarrow> disk res" where
  "optional_disk row =
     bind_res (str_get ''name'' row) (\<lambda>n. bind_res (need n) (\<lambda>n.
     bind_res (str_get ''path'' row) (\<lambda>p. bind_res (need p) (\<lambda>p.
     bind_res (str_get ''type'' row) (\<lambda>t. bind_res (need t) (\<lambda>t.
     bind_res (str_get ''object_storage_type'' row) (\<lambda>ot.
     bind_res (str_get ''metadata_type'' row) (\<lambda>mt.
     bind_res (str_get ''cache_path'' row) (\<lambda>cp.
       Inr \<lparr>dk_name = n, dk_path = p, dk_type = t, dk_object_storage_type = ot,
            dk_metadata_storage_type = mt, dk_cache_path = cp\<rparr>)))))))))"

definition get_disk :: "'w ch_ctl \<Rightarrow> string \<Rightarrow> ('w, disk) act" where
  "get_disk c disk_name =
     bind_act (if_version c ''24.3'' (ctl_query c (GET_DISK_SQL_24_3 disk_name)) (ctl_query c (GET_DISK_SQL disk_name)))
       (\<lambda>a. lift_res
          (bind_res (json_of a) (\<lambda>j. bind_res (j_get ''data'' j) (\<lambda>d.
             case d of JNull \<Rightarrow> Inl AssertionError
             | _ \<Rightarrow> bind_res (as_list d) (\<lambda>rows.
                 case rows of [] \<Rightarrow> Inl AssertionError | row # _ \<Rightarrow> optional_disk row)))))"

section \<open>Databases\<close>

definition database_row :: "json \<Rightarrow> database res" where
  "database_row row =
     bind_res (str_item ''name'' row) (\<lambda>n.
     bind_res (bind_res (j_item ''engine'' row) as_str_option) (\<lambda>e.
     bind_res (bind_res (j_item ''metadata_path'' row) as_str_option) (\<lambda>m.
     bind_res (bind_res (j_item ''uuid'' row) as_str_option) (\<lambda>u.
     bind_res (str_get ''engine_full'' row) (\<lambda>f.
       Inr \<lparr>db_name = n, db_engine = e, db_metadata_path = m, db_uuid = u, db_engine_full = f\<rparr>)))))"

text \<open>Rows of excluded databases are skipped before the other columns are read.\<close>

definition included_rows :: "string list \<Rightarrow> json list \<Rightarrow> json list res" where
  "included_rows exclude rows =
     bind_res (map_res (\<lambda>row. bind_res (str_item ''name'' row) (\<lambda>n. Inr (n, row))) rows) (\<lambda>named.
       Inr (map snd (filter (\<lambda>(n, row). \<not> List.member exclude n) named)))"

definition get_databases :: "'w ch_ctl \<Rightarrow> string list \<Rightarrow> ('w, database list) act" where
  "get_databases c exclude =
     bind_act (if_version c ''23.3'' (ret (GET_DATABASES_SQL (cc_system_database c)))
                 (ret (GET_DATABASES_SQL_22_8 (cc_system_database c)))) (\<lambda>q.
     bind_act (ctl_query c q) (\<lambda>a.
       lift_res (bind_res (json_of a) (\<lambda>j.
         case j of JObj d \<Rightarrow>
           (case map_of d ''data'' of None \<Rightarrow> Inr []
            | Some rows \<Rightarrow> bind_res (as_list rows) (\<lambda>rows.
                bind_res (included_rows exclude rows) (map_res database_row)))
         | _ \<Rightarrow> Inl TypeError))))"

definition answer_text :: "answer \<Rightarrow> string res" where
  "answer_text a = (case a of Text t \<Rightarrow> Inr t | Json j \<Rightarrow> as_str j)"

definition get_database_schema :: "'w ch_ctl \<Rightarrow> string \<Rightarrow> ('w, string) act" where
  "get_database_schema c db = bind_act (ctl_query c (SHOW_CREATE_DATABASE_SQL (sql_escape db))) (\<lambda>a. lift_res (answer_text a))"

definition get_database_engine :: "'w ch_ctl \<Rightarrow> string \<Rightarrow> ('w, string) act" where
  "get_database_engine c db = bind_act (ctl_query c (GET_DATABASE_ENGINE (sql_escape db))) (\<lambda>a. lift_res (answer_text a))"

definition get_database_metadata_path :: "'w ch_ctl \<Rightarrow> string \<Rightarrow> ('w, string) act" where
  "get_database_metadata_path c db =
     bind_act (ctl_query c (GET_DATABASE_METADATA_PATH db)) (\<lambda>a. lift_res
       (bind_res (data_rows a) (\<lambda>rows.
          case rows of [row] \<Rightarrow> str_item ''metadata_path'' row | _ \<Rightarrow> Inl AssertionError)))"

section \<open>Tables\<close>

definition get_metadata_path :: "'w ch_ctl \<Rightarrow> json \<Rightarrow> string res" where
  "get_metadata_path c row =
     bind_res (str_get ''metadata_path'' row) (\<lambda>p.
       case p of None \<Rightarrow> Inr ''''
       | Some metadata_path \<Rightarrow>
           bind_res (ch_version_ge c ''25.1'') (\<lambda>relative.
             Inr (if \<not> relative then metadata_path
                  else (case map_of (cc_disks c) ''default'' of None \<Rightarrow> metadata_path
                        | Some d \<Rightarrow> dk_path d @ metadata_path))))"

definition make_table :: "'w ch_ctl \<Rightarrow> json \<Rightarrow> table res" where
  "make_table c row =
     bind_res (str_item ''database'' row) (\<lambda>db.
     bind_res (str_item ''name'' row) (\<lambda>name.
     bind_res (bind_res (str_get ''engine'' row) need) (\<lambda>engine.
     bind_res (bind_res (j_get ''data_paths'' row) (\<lambda>p. if p = JNull then Inr [] else
                 bind_res (as_list p) (map_res as_str))) (\<lambda>paths.
     bind_res (get_metadata_path c row) (\<lambda>metadata_path.
     bind_res (str_item ''create_table_query'' row) (\<lambda>create_statement.
     bind_res (str_get ''uuid'' row) (\<lambda>uuid.
       mk_table db name engine (map snd (cc_disks c))
         (if contains ''MergeTree'' engine then paths else []) metadata_path create_statement uuid)))))))"

definition get_tables :: "'w ch_ctl \<Rightarrow> string option \<Rightarrow> string list \<Rightarrow> bool \<Rightarrow> ('w, table list) act" where
  "get_tables c db tables short_query =
     (let dbc = db_condition db; tc = names_condition ''name'' tables in
      bind_act (if short_query then ret (GET_TABLES_SHORT_SQL dbc tc)
                else if_version c ''24.3'' (ret (GET_TABLES_SQL dbc tc)) (ret (GET_TABLES_SQL_23_8 dbc tc))) (\<lambda>q.
      bind_act (ctl_query c q) (\<lambda>a. lift_res (bind_res (data_rows a) (map_res (make_table c))))))"

definition get_table :: "'w ch_ctl \<Rightarrow> string \<Rightarrow> string \<Rightarrow> bool \<Rightarrow> ('w, table option) act" where
  "get_table c db tbl short_query =
     bind_act (get_tables c (Some db) [tbl] short_query) (\<lambda>ts.
       case ts of [] \<Rightarrow> ret None | [t] \<Rightarrow> ret (Some t) | _ \<Rightarrow> raise RuntimeError)"

definition detached_row :: "json \<Rightarrow> table res" where
  "detached_row row =
     bind_res (str_item ''database'' row) (\<lambda>db.
     bind_res (str_item ''table'' row) (\<lambda>tbl.
     bind_res (bind_res (j_item ''uuid'' row) as_str_option) (\<lambda>uuid.
     bind_res (str_item ''metadata_path'' row) (\<lambda>p. Inr (make_dummy db tbl uuid p)))))"

definition get_detached_tables :: "'w ch_ctl \<Rightarrow> ('w, table list) act" where
  "get_detached_tables c =
     if_version c ''24.8''
       (bind_act (ctl_query c GET_DETACHED_TABLES_SQL) (\<lambda>a. lift_res (bind_res (data_rows a) (map_res detached_row))))
       (ret [])"

definition get_replicas :: "'w ch_ctl \<Rightarrow> string option \<Rightarrow> string list \<Rightarrow> bool option \<Rightarrow> ('w, json list) act" where
  "get_replicas c db tables readonly =
     bind_act (ctl_query c (GET_REPLICAS_SQL (db_condition db) (names_condition ''table'' tables)
         (case readonly of None \<Rightarrow> ''1'' | Some r \<Rightarrow> ''is_readonly='' @ (if r then ''1'' else ''0''))))
       (\<lambda>a. lift_res (data_rows a))"

definition answer_int :: "answer \<Rightarrow> int res" where
  "answer_int a =
     (case a of Text t \<Rightarrow> py_int t | Json (JInt n) \<Rightarrow> Inr n | Json (JStr t) \<Rightarrow> py_int t
      | Json (JBool b) \<Rightarrow> Inr (if b then 1 else 0) | Json _ \<Rightarrow> Inl TypeError)"

definition does_table_exist :: "'w ch_ctl \<Rightarrow> string \<Rightarrow> string \<Rightarrow> ('w, bool) act" where
  "does_table_exist c db tbl =
     bind_act (ctl_query c (CHECK_TABLE_SQL (sql_escape db) (sql_escape tbl)))
       (\<lambda>a. lift_res (bind_res (answer_int a) (\<lambda>n. Inr (n \<noteq> 0))))"

definition create_metadata_for_missed_detached_table :: "'w ch_ctl \<Rightarrow> string \<Rightarrow> string \<Rightarrow> ('w, unit) act" where
  "create_metadata_for_missed_detached_table c metadata_path uuid =
     bind_act (if_version c ''25.3'' (ret (cc_root_data_path c @ ''/'' @ metadata_path)) (ret metadata_path))
       (\<lambda>p. hf_write (cc_files c) p (METADATA_PLACEHOLDER uuid))"

definition attach_table :: "'w ch_ctl \<Rightarrow> table \<Rightarrow> ('w, unit) act" where
  "attach_table c t =
     ctl_run c default_opts (TABLE_ATTACH_SQL (sql_escape (tb_database t)) (sql_escape (tb_name t)))"

definition create_table :: "'w ch_ctl \<Rightarrow> table \<Rightarrow> ('w, unit) act" where
  "create_table c t = ctl_run c default_opts (tb_create_statement t)"

definition restore_replica :: "'w ch_ctl \<Rightarrow> table \<Rightarrow> ('w, unit) act" where
  "restore_replica c t =
     (if \<not> is_replicated t then raise AssertionError
      else ctl_run c (default_opts\<lparr>qo_timeout := Some (cc_restore_replica_timeout c)\<rparr>)
             (RESTORE_REPLICA_SQL (sql_escape (tb_database t)) (sql_escape (tb_name t))))"

text \<open>The flag that lets ClickHouse drop a table of any size; it is removed on every exit.\<close>

definition FORCE_DROP_FLAG :: string where
  "FORCE_DROP_FLAG = ''/var/lib/clickhouse/flags/force_drop_table''"

definition with_force_drop_table :: "'w ch_ctl \<Rightarrow> ('w, 'a) act \<Rightarrow> ('w, 'a) act" where
  "with_force_drop_table c m =
     bind_act (hf_touch (cc_files c) FORCE_DROP_FLAG) (\<lambda>_.
       finally_act (bind_act (hf_chmod (cc_files c) FORCE_DROP_FLAG 438) (\<lambda>_. m))
         (try_act (hf_remove (cc_files c) FORCE_DROP_FLAG) (\<lambda>e. e = FileNotFoundError) (\<lambda>_. ret ())))"

definition drop_table_if_exists :: "'w ch_ctl \<Rightarrow> table \<Rightarrow> ('w, unit) act" where
  "drop_table_if_exists c t =
     with_force_drop_table c
       (ctl_run c default_opts (DROP_TABLE_IF_EXISTS_SQL (sql_escape (tb_database t)) (sql_escape (tb_name t))))"

definition drop_dictionary_if_exists :: "'w ch_ctl \<Rightarrow> table \<Rightarrow> ('w, unit) act" where
  "drop_dictionary_if_exists c t =
     ctl_run c default_opts (DROP_DICTIONARY_IF_EXISTS_SQL (sql_escape (tb_database t)) (sql_escape (tb_name t)))"

definition drop_database_if_exists :: "'w ch_ctl \<Rightarrow> string \<Rightarrow> ('w, unit) act" where
  "drop_database_if_exists c db =
     with_force_drop_table c (ctl_run c default_opts (DROP_DATABASE_IF_EXISTS_SQL (sql_escape db)))"

definition rename_table :: "'w ch_ctl \<Rightarrow> table \<Rightarrow> string \<Rightarrow> ('w, unit) act" where
  "rename_table c t new_table_name =
     ctl_run c default_opts (RENAME_TABLE_SQL (tb_database t) (tb_name t) new_table_name)"

definition attach_database :: "'w ch_ctl \<Rightarrow> database \<Rightarrow> ('w, unit) act" where
  "attach_database c db = ctl_run c default_opts (DATABASE_ATTACH_SQL (sql_escape (db_name db)))"

text \<open>\<open>restore_database\<close>, \<open>restore_udf\<close> and \<open>restore_workload_entity\<close> run the statement they are given;
  that of a named collection is kept out of the log.\<close>

definition restore_statement :: "'w ch_ctl \<Rightarrow> string \<Rightarrow> ('w, unit) act" where
  "restore_statement c q = ctl_run c default_opts q"

definition restore_named_collection :: "'w ch_ctl \<Rightarrow> string \<Rightarrow> ('w, unit) act" where
  "restore_named_collection c q = ctl_run c (default_opts\<lparr>qo_sensitive := True\<rparr>) q"

definition drop_udf :: "'w ch_ctl \<Rightarrow> string \<Rightarrow> ('w, unit) act" where
  "drop_udf c n = ctl_run c default_opts (DROP_UDF_SQL (sql_escape n))"

definition drop_named_collection :: "'w ch_ctl \<Rightarrow> string \<Rightarrow> ('w, unit) act" where
  "drop_named_collection c n = ctl_run c default_opts (DROP_NAMED_COLLECTION_SQL (sql_escape n))"

definition drop_workload :: "'w ch_ctl \<Rightarrow> string \<Rightarrow> ('w, unit) act" where
  "drop_workload c n = ctl_run c default_opts (DROP_WORKLOAD_SQL (sql_escape n))"

definition drop_resource :: "'w ch_ctl \<Rightarrow> string \<Rightarrow> ('w, unit) act" where
  "drop_resource c n = ctl_run c default_opts (DROP_RESOURCE_SQL (sql_escape n))"

definition system_drop_replica :: "'w ch_ctl \<Rightarrow> string \<Rightarrow> string \<Rightarrow> ('w, unit) act" where
  "system_drop_replica c replica zk_path =
     ctl_run c (default_opts\<lparr>qo_timeout := Some (cc_drop_replica_timeout c)\<rparr>) (DROP_REPLICA_BY_ZK_PATH_SQL replica zk_path)"

definition system_drop_database_replica :: "'w ch_ctl \<Rightarrow> string \<Rightarrow> string \<Rightarrow> ('w, unit) act" where
  "system_drop_database_replica c replica zk_path =
     ctl_run c (default_opts\<lparr>qo_timeout := Some (cc_drop_replica_timeout c)\<rparr>)
       (DROP_DATABASE_REPLICA_BY_ZK_PATH_SQL replica zk_path)"

section \<open>Freezing\<close>

definition kill_old_freeze_queries :: "'w ch_ctl \<Rightarrow> ('w, unit) act" where
  "kill_old_freeze_queries c = ctl_run c default_opts (KILL_RUNNING_FREEZE_SQL (cc_user c))"

definition list_partitions :: "'w ch_ctl \<Rightarrow> table \<Rightarrow> ('w, string list) act" where
  "list_partitions c t =
     bind_act (query (cc_client c) (default_opts\<lparr>qo_should_retry := False\<rparr>)
                 (GET_PARTITIONS (sql_escape (tb_database t)) (sql_escape (tb_name t))))
       (\<lambda>a. lift_res (bind_res (data_rows a) (map_res (\<lambda>row.
          bind_res (as_list row) (\<lambda>cols. case cols of [] \<Rightarrow> Inl IndexError | p # _ \<Rightarrow> as_str p)))))"

definition freeze_opts :: "'w ch_ctl \<Rightarrow> (string \<times> int) list \<Rightarrow> query_opts" where
  "freeze_opts c settings =
     \<lparr>qo_settings = settings, qo_timeout = Some (cc_freeze_timeout c), qo_should_retry = False,
      qo_new_session = True, qo_sensitive = False\<rparr>"

definition freeze_partitions ::
  "'w ch_ctl \<Rightarrow> 'w schedule \<Rightarrow> string \<Rightarrow> table \<Rightarrow> (string \<times> int) list \<Rightarrow> ('w, unit) act" where
  "freeze_partitions c sd backup_name t settings =
     bind_act (list_partitions c t) (\<lambda>parts.
       run_threads sd False (map (\<lambda>p. (''Freeze partition '' @ p,
          ctl_run c (freeze_opts c settings)
            (FREEZE_PARTITION_SQL (sql_escape (tb_database t)) (sql_escape (tb_name t)) p backup_name),
          ret ())) parts))"

definition freeze_table ::
  "'w ch_ctl \<Rightarrow> 'w schedule \<Rightarrow> string \<Rightarrow> table \<Rightarrow> bool \<Rightarrow> int \<Rightarrow> int \<Rightarrow> ('w, unit) act" where
  "freeze_table c sd backup_name t parallelize_in_ch partition_threads query_max_threads =
     bind_act (if_version c ''25.2'' (ret [(''max_threads'', 1), (''max_execution_time'', cc_freeze_timeout c)])
                 (ret [(''max_threads'', 1)])) (\<lambda>settings.
       if \<not> parallelize_in_ch \<and> partition_threads > 0 \<and> contains ''PARTITION BY'' (tb_create_statement t)
       then freeze_partitions c sd backup_name t settings
       else
         bind_act (if parallelize_in_ch
             then if_version c ''25.11'' (ret (dict_set settings ''max_threads'' (max 1 query_max_threads))) (ret settings)
             else ret settings) (\<lambda>settings.
           ctl_run c (freeze_opts c settings)
             (FREEZE_TABLE_SQL (sql_escape (tb_database t)) (sql_escape (tb_name t)) backup_name)))"

definition system_unfreeze :: "'w ch_ctl \<Rightarrow> string \<Rightarrow> ('w, unit) act" where
  "system_unfreeze c backup_name =
     if_version c ''22.6''
       (ctl_run c (default_opts\<lparr>qo_timeout := Some (cc_unfreeze_timeout c)\<rparr>) (SYSTEM_UNFREEZE_SQL backup_name))
       (ret ())"

text \<open>\<open>_remove_shadow_data\<close>, with its retries; \<open>hf_rmtree\<close> passes over files that vanish.\<close>

definition remove_shadow_data :: "'w ch_ctl \<Rightarrow> string \<Rightarrow> ('w, unit) act" where
  "remove_shadow_data c path =
     retry_act is_os_error 4
       (if \<not> contains ''/shadow'' path then raise ClickhouseBackupError
        else bind_act (hf_exists (cc_files c) path) (\<lambda>exists. when_act exists (hf_rmtree (cc_files c) path)))"

definition remove_local_shadow :: "'w ch_ctl \<Rightarrow> disk \<Rightarrow> string \<Rightarrow> ('w, unit) act" where
  "remove_local_shadow c d path =
     bind_act (lift_res (disk_type d)) (\<lambda>t. when_act (t = ''local'') (remove_shadow_data c path))"

definition remove_freezed_table :: "'w ch_ctl \<Rightarrow> string \<Rightarrow> table \<Rightarrow> ('w, unit) act" where
  "remove_freezed_table c backup_name t =
     for_act (tb_paths_with_disks t) (\<lambda>(data_path, d) _.
       remove_local_shadow c d
         (path_joins (dk_path d) [''shadow'', backup_name, rel_path data_path (dk_path d)])) ()"

definition remove_freezed_data :: "'w ch_ctl \<Rightarrow> ('w, unit) act" where
  "remove_freezed_data c =
     for_act (map snd (cc_disks c)) (\<lambda>d _. remove_local_shadow c d (path_join (dk_path d) ''shadow'')) ()"

definition remove_freezed_part :: "'w ch_ctl \<Rightarrow> frozen_part \<Rightarrow> ('w, unit) act" where
  "remove_freezed_part c p = remove_shadow_data c (fp_path p)"

definition chown_dir :: "'w ch_ctl \<Rightarrow> string \<Rightarrow> ('w, unit) act" where
  "chown_dir c dir_path =
     chown_dir_contents (cc_files c) (cc_user c) (cc_group c) dir_path (\<not> cc_drop_privileges c)"

definition create_shadow_increment :: "'w ch_ctl \<Rightarrow> ('w, unit) act" where
  "create_shadow_increment c =
     (let fs = cc_files c; shadow = path_join (cc_root_data_path c) ''shadow''; increment = path_join shadow ''increment.txt'' in
      bind_act (hf_exists fs increment) (\<lambda>exists.
        if exists then ret ()
        else bind_act (hf_exists fs shadow) (\<lambda>exists.
             bind_act (when_act (\<not> exists) (bind_act (hf_mkdir fs shadow) (\<lambda>_. chown_dir c shadow))) (\<lambda>_.
             bind_act (hf_write fs increment ''0'') (\<lambda>_. hf_chown fs increment (cc_user c) (cc_group c))))))"

definition get_part_checksum :: "'w host_files \<Rightarrow> string \<Rightarrow> ('w, string) act" where
  "get_part_checksum fs part_dir =
     bind_act (hf_read fs (path_join part_dir ''checksums.txt'')) (\<lambda>d. ret (hf_md5 fs d))"

definition frozen_part_at ::
  "'w host_files \<Rightarrow> table \<Rightarrow> disk \<Rightarrow> string \<Rightarrow> string \<Rightarrow> ('w, frozen_part) act" where
  "frozen_part_at fs t d path part =
     (let part_dir = path_join path part in
      bind_act (get_part_checksum fs part_dir) (\<lambda>checksum.
      bind_act (list_dir_files fs part_dir) (\<lambda>files.
      bind_act (map_act (\<lambda>f. hf_file_size fs (path_join part_dir f)) files) (\<lambda>sizes.
        ret \<lparr>fp_database = tb_database t, fp_table = tb_name t, fp_name = part, fp_disk_name = dk_name d,
             fp_path = part_dir, fp_checksum = checksum, fp_size = calc_aligned_sizes BLOCKSIZE sizes,
             fp_files = files\<rparr>))))"

text \<open>The shadow directory of a table, and the names of its parts. The generator yields them one by one:
  a part is read when the loop over it comes to it.\<close>

definition frozen_dir :: "disk \<Rightarrow> string \<Rightarrow> string \<Rightarrow> string" where
  "frozen_dir d data_path backup_name =
     path_joins (dk_path d) [''shadow'', backup_name, rel_path data_path (dk_path d)]"

definition for_frozen_parts ::
  "'w host_files \<Rightarrow> table \<Rightarrow> disk \<Rightarrow> string \<Rightarrow> string \<Rightarrow> (frozen_part \<Rightarrow> 'c \<Rightarrow> ('w, 'c) act) \<Rightarrow> 'c \<Rightarrow> ('w, 'c) act" where
  "for_frozen_parts fs t d data_path backup_name body c =
     (let path = frozen_dir d data_path backup_name in
      bind_act (hf_exists fs path) (\<lambda>exists.
        if \<not> exists then ret c
        else bind_act (hf_listdir fs path) (\<lambda>names.
               for_act names (\<lambda>n c. bind_act (frozen_part_at fs t d path n) (\<lambda>p. body p c)) c)))"

section \<open>Parts\<close>

definition attach_part :: "'w ch_ctl \<Rightarrow> table \<Rightarrow> string \<Rightarrow> ('w, unit) act" where
  "attach_part c t part_name =
     ctl_run c default_opts (PART_ATTACH_SQL (sql_escape (tb_database t)) (sql_escape (tb_name t)) part_name)"

definition get_table_detached_path :: "table \<Rightarrow> string \<Rightarrow> string res" where
  "get_table_detached_path t disk_name =
     (case filter (\<lambda>(path, d). dk_name d = disk_name) (tb_paths_with_disks t) of
        [] \<Rightarrow> Inl RuntimeError
      | (path, d) # _ \<Rightarrow> Inr (path_join path ''detached''))"

definition get_detached_part_path :: "table \<Rightarrow> string \<Rightarrow> string \<Rightarrow> string res" where
  "get_detached_part_path t disk_name part_name =
     bind_res (get_table_detached_path t disk_name) (\<lambda>p. Inr (path_join p part_name))"

section \<open>Access control, functions, collections, workloads\<close>

definition ACCESS_ENTITY_CHAR :: "(string \<times> string) list" where
  "ACCESS_ENTITY_CHAR =
     [(''users'', ''U''), (''roles'', ''R''), (''quotas'', ''Q''), (''row_policies'', ''P''), (''settings_profiles'', ''S'')]"

definition acl_object_row :: "string \<Rightarrow> json \<Rightarrow> acl_object res" where
  "acl_object_row obj_char row =
     bind_res (str_item ''id'' row) (\<lambda>i. bind_res (str_item ''name'' row) (\<lambda>n.
       Inr \<lparr>ao_id = i, ao_name = n, ao_char = obj_char\<rparr>))"

definition get_access_control_objects :: "'w ch_ctl \<Rightarrow> ('w, acl_object list) act" where
  "get_access_control_objects c =
     for_act ACCESS_ENTITY_CHAR (\<lambda>(obj_type, obj_char) result.
       bind_act (ctl_query c (GET_ACCESS_CONTROL_OBJECTS_SQL obj_type)) (\<lambda>a.
       bind_act (lift_res (bind_res (get_data a) (map_res (acl_object_row obj_char)))) (\<lambda>objects.
         ret (result @ objects)))) []"

definition get_zookeeper_admin_id :: "'w ch_ctl \<Rightarrow> ('w, string) act" where
  "get_zookeeper_admin_id c =
     bind_act (ctl_query c GET_ZOOKEEPER_ADMIN_USER) (\<lambda>a. lift_res
       (bind_res (get_data a) (\<lambda>rows. case rows of [row] \<Rightarrow> str_item ''value'' row | _ \<Rightarrow> Inl AssertionError)))"

text \<open>A dictionary comprehension over the rows: a later row replaces the value of an earlier one.\<close>

definition rows_dict :: "string \<Rightarrow> string \<Rightarrow> json list \<Rightarrow> (string, string) dict res" where
  "rows_dict key_column value_column rows =
     bind_res (map_res (\<lambda>row. bind_res (str_item key_column row) (\<lambda>k.
                                bind_res (str_item value_column row) (\<lambda>v. Inr (k, v)))) rows) (\<lambda>kvs.
       Inr (fold (\<lambda>(k, v) d. dict_set d k v) kvs []))"

definition get_zookeeper_admin_uuid :: "'w ch_ctl \<Rightarrow> ('w, (string, string) dict) act" where
  "get_zookeeper_admin_uuid c =
     bind_act (ctl_query c GET_ZOOKEEPER_ADMIN_UUID)
       (\<lambda>a. lift_res (bind_res (get_data a) (rows_dict ''name'' ''value'')))"

definition check_zookeeper_available :: "'w ch_ctl \<Rightarrow> ('w, unit) act" where
  "check_zookeeper_available c = ctl_run c default_opts CHECK_ZOOKEEPER_SQL"

definition get_macros :: "'w ch_ctl \<Rightarrow> ('w, (string, string) dict) act" where
  "get_macros c =
     bind_act (ctl_query c GET_MACROS_SQL)
       (\<lambda>a. lift_res (bind_res (get_data a) (rows_dict ''macro'' ''substitution'')))"

definition get_udf_query :: "'w ch_ctl \<Rightarrow> ('w, (string, string) dict) act" where
  "get_udf_query c =
     bind_act (ctl_query c GET_UDF_QUERY_SQL)
       (\<lambda>a. lift_res (bind_res (get_data a) (rows_dict ''name'' ''create_query'')))"

definition get_named_collections_query :: "'w ch_ctl \<Rightarrow> ('w, string list) act" where
  "get_named_collections_query c =
     bind_act (ctl_query c GET_NAMED_COLLECTIONS_QUERY_SQL)
       (\<lambda>a. lift_res (bind_res (get_data a) (map_res (str_item ''name''))))"

text \<open>\<open>WorkloadEntityType(value)\<close>\<close>

definition type_of_value :: "string \<Rightarrow> entity_type res" where
  "type_of_value s = (if s = ''workload'' then Inr WORKLOAD else if s = ''resource'' then Inr RESOURCE else Inl ValueError)"

definition get_workload_entities_query :: "'w ch_ctl \<Rightarrow> ('w, (string \<times> entity_type) list) act" where
  "get_workload_entities_query c =
     bind_act (ctl_query c GET_WORKLOAD_ENTITIES_QUERY_SQL)
       (\<lambda>a. lift_res (bind_res (get_data a) (map_res (\<lambda>row.
          bind_res (str_item ''name'' row) (\<lambda>n. bind_res (str_item ''type'' row) (\<lambda>v.
          bind_res (type_of_value v) (\<lambda>t. Inr (n, t))))))))"

definition get_ddl_queue_unfinished_status :: "'w ch_ctl \<Rightarrow> string \<Rightarrow> ('w, json list) act" where
  "get_ddl_queue_unfinished_status c db =
     try_act (bind_act (ctl_query c (GET_DDL_QUEUE_STATUS_SQL (sql_escape db))) (\<lambda>a. lift_res (get_data a)))
       is_exception (\<lambda>_. ret [])"

section \<open>Encryption, revisions, reloads\<close>

definition decrypt_aes_ctr :: "'w ch_ctl \<Rightarrow> string \<Rightarrow> string \<Rightarrow> int \<Rightarrow> string \<Rightarrow> ('w, string) act" where
  "decrypt_aes_ctr c data_hex key_hex key_size iv_hex =
     bind_act (query (cc_client c) (default_opts\<lparr>qo_sensitive := True\<rparr>)
         (DECRYPT_AES_CTR_QUERY_SQL (if key_size < 0 then ''-'' @ nat_str (nat (- key_size)) else nat_str (nat key_size))
            data_hex key_hex iv_hex))
       (\<lambda>a. lift_res (bind_res (json_of a) (\<lambda>j. bind_res (j_get ''data'' j) (\<lambda>d. bind_res (as_list d) (\<lambda>rows.
          case rows of
            [] \<Rightarrow> Inl IndexError
          | row # _ \<Rightarrow> if row = JObj [] then Inl AssertionError else bind_res (str_get ''data'' row) need)))))"

definition read_s3_disk_revision :: "'w ch_ctl \<Rightarrow> string \<Rightarrow> string \<Rightarrow> ('w, int option) act" where
  "read_s3_disk_revision c disk_name backup_name =
     bind_act (lift_res (dict_get (cc_disks c) disk_name)) (\<lambda>d.
       let file_path = path_joins (dk_path d) [''shadow'', backup_name, ''revision.txt''] in
       bind_act (hf_exists (cc_files c) file_path) (\<lambda>exists.
         if \<not> exists then ret None
         else bind_act (hf_read (cc_files c) file_path) (\<lambda>text.
                bind_act (lift_res (py_int (strip text))) (\<lambda>n. ret (Some n)))))"

definition reload_config :: "'w ch_ctl \<Rightarrow> ('w, unit) act" where
  "reload_config c = ctl_run c (default_opts\<lparr>qo_timeout := Some (cc_timeout c)\<rparr>) RELOAD_CONFIG_SQL"

definition reload_users :: "'w ch_ctl \<Rightarrow> ('w, unit) act" where
  "reload_users c = ctl_run c (default_opts\<lparr>qo_timeout := Some (cc_timeout c)\<rparr>) RELOAD_USERS_SQL"

section \<open>The deduplication tables\<close>

definition create_deduplication_table :: "'w ch_ctl \<Rightarrow> ('w, unit) act" where
  "create_deduplication_table c =
     (let system_db = sql_escape (cc_system_database c) in
      bind_act (ctl_run c default_opts (CREATE_IF_NOT_EXISTS_SYSTEM_DB_SQL system_db)) (\<lambda>_.
      bind_act (ctl_run c default_opts (DROP_TABLE_IF_EXISTS_SQL system_db ''_deduplication_info'')) (\<lambda>_.
        ctl_run c default_opts (CREATE_IF_NOT_EXISTS_DEDUP_TABLE_SQL system_db))))"

definition insert_deduplication_info :: "'w ch_ctl \<Rightarrow> string list \<Rightarrow> ('w, unit) act" where
  "insert_deduplication_info c batch =
     ctl_run c default_opts
       (INSERT_DEDUP_INFO_BATCH_SQL (sql_escape (cc_system_database c)) ''_deduplication_info'' (join_str '','' batch))"

definition current_part_values :: "frozen_part \<Rightarrow> string" where
  "current_part_values p = ''('' @ SQ @ fp_name p @ SQ @ '','' @ SQ @ fp_checksum p @ SQ @ '')''"

definition get_deduplication_rows ::
  "'w ch_ctl \<Rightarrow> string \<Rightarrow> string \<Rightarrow> (string, frozen_part) dict \<Rightarrow> ('w, json list) act" where
  "get_deduplication_rows c db tbl frozen =
     (let system_db = sql_escape (cc_system_database c); current = ''_deduplication_info_current'' in
      bind_act (ctl_run c default_opts (TRUNCATE_TABLE_IF_EXISTS_SQL system_db current)) (\<lambda>_.
      bind_act (ctl_run c default_opts (CREATE_IF_NOT_EXISTS_DEDUP_TABLE_CURRENT_SQL system_db)) (\<lambda>_.
      bind_act (ctl_run c default_opts
          (INSERT_DEDUP_INFO_BATCH_SQL system_db current (join_str '','' (map (current_part_values \<circ> snd) frozen)))) (\<lambda>_.
      bind_act (ctl_query c (GET_DEDUPLICATED_PARTS_SQL system_db (sql_escape db) (sql_escape tbl)))
        (\<lambda>a. lift_res (data_rows a))))))"

section \<open>Construction\<close>

text \<open>The settings of the session, unless they are configured.\<close>

definition base_settings :: "(string \<times> int) list" where
  "base_settings =
     [(''allow_deprecated_database_ordinary'', 1), (''allow_deprecated_syntax_for_merge_tree'', 1),
      (''allow_experimental_database_materialized_postgresql'', 1),
      (''allow_experimental_database_materialized_mysql'', 1),
      (''allow_experimental_database_replicated'', 1), (''allow_experimental_funnel_functions'', 1),
      (''allow_experimental_hash_functions'', 1), (''allow_experimental_live_view'', 1),
      (''allow_experimental_window_view'', 1), (''allow_experimental_object_type'', 1),
      (''allow_suspicious_codecs'', 1), (''allow_suspicious_low_cardinality_types'', 1),
      (''check_table_dependencies'', 0), (''kafka_disable_num_consumers_limit'', 1)]"

definition version_settings :: "(string \<times> (string \<times> int) list) list" where
  "version_settings =
     [(''22.9'', [(''allow_experimental_annoy_index'', 1), (''allow_suspicious_fixed_string_types'', 1)]),
      (''23.1'', [(''allow_experimental_inverted_index'', 1)]),
      (''23.8'', [(''format_display_secrets_in_show_and_select'', 1)]),
      (''23.12'', [(''allow_experimental_refreshable_materialized_view'', 1), (''allow_suspicious_ttl_expressions'', 1)]),
      (''24.9'', [(''database_replicated_allow_explicit_uuid'', 1)])]"

definition default_settings :: "'w ch_ctl \<Rightarrow> (string \<times> int) list res" where
  "default_settings c =
     fold_res (\<lambda>(v, more_settings) acc. bind_res (ch_version_ge c v) (\<lambda>b.
       Inr (if b then acc @ more_settings else acc))) version_settings base_settings"

text \<open>\<open>__init__\<close> asks the server for its version and its disks.\<close>

definition connect_ctl :: "'w ch_ctl \<Rightarrow> ('w, 'w ch_ctl) act" where
  "connect_ctl c0 =
     bind_act (ctl_query c0 GET_VERSION_SQL) (\<lambda>a.
     bind_act (lift_res (answer_text a)) (\<lambda>v.
       let c = c0\<lparr>cc_version := v\<rparr> in
       bind_act (get_disks c) (\<lambda>ds.
       bind_act (lift_res (case cc_settings c of Some s \<Rightarrow> Inr s | None \<Rightarrow> default_settings c)) (\<lambda>settings.
         ret (c\<lparr>cc_disks := ds,
                cc_client := (cc_client c)\<lparr>cl_settings :=
                  fold (\<lambda>(k, v) d. dict_set d k v) settings (cl_settings (cc_client c))\<rparr>\<rparr>)))))"

end
