(* ===== verification/Zookeeper.thy ===== *)
theory Zookeeper
  imports Control
begin

text \<open>
  The ZooKeeper client (\<^verbatim>\<open>zookeeper/zookeeper.py\<close>): the connection is opened when the first \<open>with\<close>
  block is entered, and a counter keeps track of the nesting. kazoo is a parameter; the counter is a
  field of the world, as every user of the client shares the object.
\<close>

record 'w zookeeper =
  zk_start :: "('w, unit) act"
  zk_stop :: "('w, unit) act"
  zk_add_auth :: "string \<Rightarrow> ('w, unit) act"
  zk_exists :: "string \<Rightarrow> ('w, bool) act"
  zk_get :: "string \<Rightarrow> ('w, string) act"
  zk_set :: "string \<Rightarrow> string \<Rightarrow> ('w, unit) act"
  zk_create :: "string \<Rightarrow> string \<Rightarrow> ('w, unit) act"
  zk_delete :: "string \<Rightarrow> bool \<Rightarrow> ('w, unit) act"
  zk_get_children :: "string \<Rightarrow> ('w, string list) act"
  zk_entered :: "'w \<Rightarrow> int"
  zk_set_entered :: "int \<Rightarrow> 'w \<Rightarrow> 'w"
  zk_user :: "string option"
  zk_password :: "string option"
  zk_root_path :: string

definition zk_enter :: "'w zookeeper \<Rightarrow> ('w, unit) act" where
  "zk_enter z =
     retry_act is_kazoo_error 4 (\<lambda>w.
       bind_act
         (when_act (zk_entered z w = 0)
            (bind_act (zk_start z) (\<lambda>_.
               case (non_empty (zk_user z), non_empty (zk_password z)) of
                 (Some u, Some p) \<Rightarrow> zk_add_auth z (u @ '':'' @ p)
               | _ \<Rightarrow> ret ())))
         (\<lambda>_ w. (Inr (), zk_set_entered z (zk_entered z w + 1) w)) w)"

definition zk_exit :: "'w zookeeper \<Rightarrow> ('w, unit) act" where
  "zk_exit z =
     (\<lambda>w. bind_act (when_act (zk_entered z w = 0) (zk_stop z))
            (\<lambda>_ w. (Inr (), zk_set_entered z (zk_entered z w - 1) w)) w)"

text \<open>\<open>with zk_ctl.zk_client as client: m\<close>\<close>

definition with_zk :: "'w zookeeper \<Rightarrow> ('w, 'a) act \<Rightarrow> ('w, 'a) act" where
  "with_zk z m = bind_act (zk_enter z) (\<lambda>_. finally_act m (zk_exit z))"

section \<open>The counter\<close>

text \<open>The counter is a field, and the calls of kazoo do not change it.\<close>

locale zk_counter =
  fixes z :: "'w zookeeper"
  assumes entered_set: "zk_entered z (zk_set_entered z n w) = n"
    and start_entered: "zk_entered z (snd (zk_start z w)) = zk_entered z w"
    and auth_entered: "zk_entered z (snd (zk_add_auth z a w)) = zk_entered z w"
begin

lemma enter_counts:
  assumes "zk_enter z w = (Inr (), w')"
  shows "zk_entered z w' = zk_entered z w + 1"
proof -
  let ?connect = "\<lambda>w. bind_act
         (when_act (zk_entered z w = 0)
            (bind_act (zk_start z) (\<lambda>_.
               case (non_empty (zk_user z), non_empty (zk_password z)) of
                 (Some u, Some p) \<Rightarrow> zk_add_auth z (u @ '':'' @ p)
               | _ \<Rightarrow> ret ())))"
  let ?m = "\<lambda>w. ?connect w (\<lambda>_ w. (Inr (), zk_set_entered z (zk_entered z w + 1) w)) w"
  have auth: "zk_entered z (snd ((case (non_empty (zk_user z), non_empty (zk_password z)) of
                 (Some u, Some p) \<Rightarrow> zk_add_auth z (u @ '':'' @ p) | _ \<Rightarrow> ret ()) w)) = zk_entered z w" for w
    by (simp add: auth_entered split: option.split)
  have connect: "zk_entered z (snd (when_act b
            (bind_act (zk_start z) (\<lambda>_.
               case (non_empty (zk_user z), non_empty (zk_password z)) of
                 (Some u, Some p) \<Rightarrow> zk_add_auth z (u @ '':'' @ p)
               | _ \<Rightarrow> ret ())) w)) = zk_entered z w" for b w
    using start_entered [of w] auth [of "snd (zk_start z w)"]
    by (cases "zk_start z w") (auto simp: when_act_def bind_act_def split: sum.split)
  have fails: "zk_entered z (snd (?m w)) = zk_entered z w" if "fst (?m w) = Inl e" for w e
    using that connect [of "zk_entered z w = 0" w]
    by (auto simp: bind_act_def entered_set split: prod.splits sum.splits)
  have works: "zk_entered z (snd (?m w)) = zk_entered z w + 1" if "fst (?m w) = Inr u" for w u
    using that connect [of "zk_entered z w = 0" w]
    by (auto simp: bind_act_def entered_set split: prod.splits sum.splits)
  have "retry_act is_kazoo_error n ?m w = (Inr (), w') \<Longrightarrow> zk_entered z w' = zk_entered z w + 1" for n
  proof (induction n arbitrary: w)
    case 0
    then show ?case using works [of w "()"] by simp
  next
    case (Suc n)
    obtain r w1 where m: "?m w = (r, w1)" by (cases "?m w")
    show ?case
    proof (cases r)
      case (Inr u)
      with m Suc.prems works [of w "()"] show ?thesis by simp
    next
      case (Inl e)
      with m Suc.prems have "retry_act is_kazoo_error n ?m w1 = (Inr (), w')" by (auto split: if_splits)
      from Suc.IH [OF this] fails [of w e] m Inl show ?thesis by simp
    qed
  qed
  from this [of 4] assms show ?thesis by (simp add: zk_enter_def)
qed

end

text \<open>C28. Leaving a \<open>with\<close> block never closes the connection: the block ends with the counter at least one,
  and \<open>__exit__\<close> stops the client only when it is zero. So a block does the same with any other \<open>stop\<close>.\<close>

theorem zk_never_stops:
  assumes "zk_counter z" "0 \<le> zk_entered z w" "\<And>v. zk_entered z (snd (m v)) = zk_entered z v"
  shows "with_zk (z\<lparr>zk_stop := other\<rparr>) m w = with_zk z m w"
proof -
  have enter: "zk_enter (z\<lparr>zk_stop := other\<rparr>) = zk_enter z"
    by (simp add: zk_enter_def cong: option.case_cong)
  show ?thesis
  proof (cases "zk_enter z w")
    case (Pair r w1)
    show ?thesis
    proof (cases r)
      case (Inr u)
      then have "zk_enter z w = (Inr (), w1)" using Pair by simp
      from zk_counter.enter_counts [OF assms(1) this] assms(2) have "0 < zk_entered z w1" by simp
      then have "zk_exit (z\<lparr>zk_stop := other\<rparr>) (snd (m w1)) = zk_exit z (snd (m w1))"
        using assms(3) [of w1] by (simp add: zk_exit_def when_act_def bind_act_def)
      with Pair Inr enter show ?thesis
        by (cases "m w1") (simp add: with_zk_def bind_act_def finally_act_def)
    qed (simp add: with_zk_def bind_act_def enter Pair)
  qed
qed

text \<open>A client whose calls do nothing but count the open connections, in the second component.\<close>

definition counting_zk :: "(int \<times> nat) zookeeper" where
  "counting_zk =
     \<lparr>zk_start = \<lambda>(n, c). (Inr (), (n, Suc c)), zk_stop = \<lambda>(n, c). (Inr (), (n, c - 1)),
      zk_add_auth = \<lambda>a. ret (), zk_exists = \<lambda>p. ret False, zk_get = \<lambda>p. raise NoNodeError,
      zk_set = \<lambda>p d. raise NoNodeError, zk_create = \<lambda>p d. ret (), zk_delete = \<lambda>p r. raise NoNodeError,
      zk_get_children = \<lambda>p. raise NoNodeError, zk_entered = fst, zk_set_entered = \<lambda>n w. (n, snd w),
      zk_user = None, zk_password = None, zk_root_path = ''''\<rparr>"

interpretation counting: zk_counter counting_zk
  by unfold_locales (auto simp: counting_zk_def split: prod.split)

theorem zk_never_stops_witness:
  "with_zk (counting_zk\<lparr>zk_stop := raise KazooException\<rparr>) (ret ()) (0, 0) = (Inr (), (0, Suc 0))"
proof -
  have "with_zk (counting_zk\<lparr>zk_stop := raise KazooException\<rparr>) (ret ()) (0, 0) = with_zk counting_zk (ret ()) (0, 0)"
    by (rule zk_never_stops [OF counting.zk_counter_axioms]) (simp_all add: counting_zk_def)
  then show ?thesis
    by (simp add: with_zk_def zk_enter_def zk_exit_def bind_act_def finally_act_def when_act_def counting_zk_def
        numeral_eq_Suc non_empty_def)
qed

end
