(* ===== verification/Cleaner.thy ===== *)
theory Cleaner
  imports Zookeeper
begin

text \<open>
  Cleaning of replica metadata in ZooKeeper before a restore (\<^verbatim>\<open>clickhouse/metadata_cleaner.py\<close>), with
  the helpers of \<^verbatim>\<open>util.py\<close> it uses: macros and the ZooKeeper paths of create statements, whose regular
  expressions are written out as functions.

  The drops are futures of a thread pool: \<open>futures\<close> are the jobs submitted so far with their results; a
  job runs at any time between its submission and the moment its result is taken.
\<close>

section \<open>Macros and paths\<close>

definition is_brace :: "char \<Rightarrow> bool" where
  "is_brace c \<longleftrightarrow> c = CHR 0x7B \<or> c = CHR 0x7D"

text \<open>\<open>replace_macros\<close>: \<open>{name}\<close> with a known name is replaced. A macro whose value is \<open>None\<close>, as the
  \<open>uuid\<close> of a table without one, is replaced with nothing.\<close>

function replace_macros :: "(string, string option) dict \<Rightarrow> string \<Rightarrow> string" where
  "replace_macros macros [] = []"
| "replace_macros macros (c # cs) =
     (let name = takeWhile (\<lambda>x. \<not> is_brace x) cs; rest = dropWhile (\<lambda>x. \<not> is_brace x) cs in
      if c = CHR 0x7B \<and> name \<noteq> [] \<and> rest \<noteq> [] \<and> hd rest = CHR 0x7D
      then (case map_of macros name of
              None \<Rightarrow> [c] @ name @ [CHR 0x7D]
            | Some v \<Rightarrow> (case v of None \<Rightarrow> [] | Some t \<Rightarrow> t)) @ replace_macros macros (tl rest)
      else c # replace_macros macros cs)"
  by pat_completeness auto
termination
proof (relation "measure (\<lambda>(macros, s). length s)")
  fix macros :: "(string, string option) dict" and c :: char and cs name rest :: string
  assume "rest = dropWhile (\<lambda>x. \<not> is_brace x) cs"
  then have "length rest \<le> length cs" by (simp add: length_dropWhile_le)
  then show "((macros, tl rest), macros, c # cs) \<in> measure (\<lambda>(macros, s). length s)" by simp
qed auto

text \<open>\<open>os.path.abspath\<close>; two leading slashes are kept, more are one.\<close>

definition abs_path :: "string \<Rightarrow> string \<Rightarrow> string" where
  "abs_path cwd p =
     (let q = (if prefix ''/'' p then p else path_join cwd p);
          slashes = (if prefix ''//'' q \<and> \<not> prefix ''///'' q then ''//'' else ''/'')
      in slashes @ join_str ''/'' (abs_components q))"

text \<open>\<open>Replicated\S{0,20}MergeTree\('(?P<zk_path>[^']+)',\<close> searched in a create statement. The repetition is
  greedy: the longest gap is tried first.\<close>

definition quoted_arg :: "string \<Rightarrow> (string \<times> string) option" where
  "quoted_arg s =
     (if s \<noteq> [] \<and> hd s = CHR 0x27 then
        (let a = takeWhile (\<lambda>c. c \<noteq> CHR 0x27) (tl s); rest = dropWhile (\<lambda>c. c \<noteq> CHR 0x27) (tl s) in
         if a \<noteq> [] \<and> rest \<noteq> [] then Some (a, tl rest) else None)
      else None)"

definition after_prefix :: "string \<Rightarrow> string \<Rightarrow> string option" where
  "after_prefix p s = (if prefix p s then Some (drop (length p) s) else None)"

definition merge_tree_path :: "string \<Rightarrow> string option" where
  "merge_tree_path s =
     (case after_prefix ''MergeTree('' s of None \<Rightarrow> None
      | Some s1 \<Rightarrow>
          (case quoted_arg s1 of None \<Rightarrow> None
           | Some (a, rest) \<Rightarrow> if prefix '','' rest then Some a else None))"

fun first_some :: "('a \<Rightarrow> 'b option) \<Rightarrow> 'a list \<Rightarrow> 'b option" where
  "first_some f [] = None"
| "first_some f (x # xs) = (case f x of None \<Rightarrow> first_some f xs | Some y \<Rightarrow> Some y)"

definition replicated_path_at :: "string \<Rightarrow> string option" where
  "replicated_path_at s =
     (case after_prefix ''Replicated'' s of None \<Rightarrow> None
      | Some s1 \<Rightarrow>
          first_some (\<lambda>k. if k \<le> length s1 \<and> (\<forall>c \<in> set (take k s1). \<not> is_space c)
                          then merge_tree_path (drop k s1) else None) (rev [0..<21]))"

definition table_zk_path :: "string \<Rightarrow> string option" where
  "table_zk_path s = first_some replicated_path_at (rev (suffixes s))"

definition get_table_zookeeper_paths :: "table list \<Rightarrow> (table \<times> string) list res" where
  "get_table_zookeeper_paths ts =
     map_res (\<lambda>t. case table_zk_path (tb_create_statement t) of
                    None \<Rightarrow> Inl ClickhouseBackupError | Some p \<Rightarrow> Inr (t, p)) ts"

text \<open>\<open>Replicated\('(?P<zk_path>[^']+)', '(?P<shard>[^']+)', '(?P<replica>[^']+)'\<close> in the engine of a database;
  a database without a match is left out.\<close>

definition database_args_at :: "string \<Rightarrow> (string \<times> string \<times> string) option" where
  "database_args_at s =
     (case after_prefix ''Replicated('' s of None \<Rightarrow> None | Some s1 \<Rightarrow>
     (case quoted_arg s1 of None \<Rightarrow> None | Some (a, s2) \<Rightarrow>
     (case after_prefix '', '' s2 of None \<Rightarrow> None | Some s3 \<Rightarrow>
     (case quoted_arg s3 of None \<Rightarrow> None | Some (b, s4) \<Rightarrow>
     (case after_prefix '', '' s4 of None \<Rightarrow> None | Some s5 \<Rightarrow>
     (case quoted_arg s5 of None \<Rightarrow> None | Some (c, s6) \<Rightarrow> Some (a, b, c)))))))"

definition database_zk_args :: "string \<Rightarrow> (string \<times> string \<times> string) option" where
  "database_zk_args s = first_some database_args_at (rev (suffixes s))"

text \<open>\<open>engine_full\<close> is \<open>None\<close> for a server that does not report it: \<open>re.search\<close> raises then.\<close>

definition get_database_zookeeper_paths :: "database list \<Rightarrow> (database \<times> string \<times> string) list res" where
  "get_database_zookeeper_paths dbs =
     bind_res (map_res (\<lambda>d. case db_engine_full d of
                  None \<Rightarrow> Inl TypeError
                | Some e \<Rightarrow> Inr (case database_zk_args e of None \<Rightarrow> [] | Some (p, shard, r) \<Rightarrow> [(d, p, shard)])) dbs)
       (\<lambda>ps. Inr (concat ps))"

section \<open>Errors of the server\<close>

definition error_text :: "exn \<Rightarrow> string" where
  "error_text e = (case e of ClickhouseError r msg \<Rightarrow> msg | _ \<Rightarrow> '''')"

definition is_table_was_not_dropped_error :: "exn \<Rightarrow> bool" where
  "is_table_was_not_dropped_error e \<longleftrightarrow>
     contains ''TABLE_WAS_NOT_DROPPED'' (error_text e) \<or> contains ''There is a local table'' (error_text e)"

definition is_not_table_path_error :: "exn \<Rightarrow> bool" where
  "is_not_table_path_error e \<longleftrightarrow> contains ''does not look like a table path'' (error_text e)"

definition select_replica_drop :: "string option \<Rightarrow> (string, string) dict \<Rightarrow> string res" where
  "select_replica_drop replica_name macros =
     (case non_empty replica_name of
        Some r \<Rightarrow> Inr r
      | None \<Rightarrow> (case non_empty (map_of macros ''replica'') of Some r \<Rightarrow> Inr r | None \<Rightarrow> Inl ConfigurationError))"

section \<open>Futures\<close>

type_synonym 'w futures = "('w, unit) act list \<times> unit res option list"

definition futures_ahead :: "'w schedule \<Rightarrow> ('w \<times> 'w futures, 'a) act \<Rightarrow> ('w \<times> 'w futures, 'a) act" where
  "futures_ahead sd m =
     (\<lambda>(w, jobs, results). case run_ahead sd jobs (w, results) of (w', results') \<Rightarrow> m (w', jobs, results'))"

definition submit_future :: "('w, unit) act \<Rightarrow> ('w \<times> 'w futures, nat) act" where
  "submit_future job = (\<lambda>(w, jobs, results). (Inr (length jobs), (w, jobs @ [job], results @ [None])))"

definition future_result :: "'w schedule \<Rightarrow> nat \<Rightarrow> ('w \<times> 'w futures, unit) act" where
  "future_result sd i = futures_ahead sd (\<lambda>(w, jobs, results).
     case run_task jobs i (w, results) of (w', results') \<Rightarrow>
       ((if i < length results' then (case results' ! i of None \<Rightarrow> Inl RuntimeError | Some r \<Rightarrow> r) else Inl RuntimeError),
        (w', jobs, results')))"

text \<open>The pool outlives the call: jobs whose result nobody takes may still run after it.\<close>

definition with_futures :: "'w schedule \<Rightarrow> ('w \<times> 'w futures, 'a) act \<Rightarrow> ('w, 'a) act" where
  "with_futures sd m w =
     (case m (w, [], []) of (r, (w', jobs, results)) \<Rightarrow> (r, fst (run_ahead sd jobs (w', results))))"

section \<open>The cleaner\<close>

record 'w cleaner =
  mc_ctl :: "'w ch_ctl"
  mc_zk :: "'w zookeeper"
  mc_macros :: "(string, string) dict"
  mc_replica_to_drop :: "string option"
  mc_schedule :: "'w schedule"
  mc_cwd :: string

definition override_macros :: "'w cleaner \<Rightarrow> (string \<times> string option) list \<Rightarrow> (string, string option) dict" where
  "override_macros mc over =
     fold (\<lambda>(k, v) d. dict_set d k v) over (map (\<lambda>(k, v). (k, Some v)) (mc_macros mc))"

definition list_replicas :: "'w cleaner \<Rightarrow> string \<Rightarrow> ('w, string list) act" where
  "list_replicas mc zk_path =
     with_zk (mc_zk mc)
       (try_act (zk_get_children (mc_zk mc) (zk_root_path (mc_zk mc) @ zk_path @ ''/replicas/''))
          (\<lambda>e. e = NoNodeError) (\<lambda>_. ret []))"

definition delete_replica_zk_nodes :: "'w cleaner \<Rightarrow> string \<Rightarrow> ('w, unit) act" where
  "delete_replica_zk_nodes mc zk_path =
     with_zk (mc_zk mc) (try_act (zk_delete (mc_zk mc) zk_path True) (\<lambda>e. e = NoNodeError) (\<lambda>_. ret ()))"

definition replica_path :: "'w cleaner \<Rightarrow> string \<Rightarrow> string \<Rightarrow> string" where
  "replica_path mc path replica = zk_root_path (mc_zk mc) @ path @ ''/replicas/'' @ replica"

text \<open>Does the replica exist? Then its active flag is removed.\<close>

definition deactivate_replica :: "'w cleaner \<Rightarrow> string \<Rightarrow> string \<Rightarrow> ('w, bool) act" where
  "deactivate_replica mc full_path flag =
     bind_act (zk_exists (mc_zk mc) full_path) (\<lambda>exists.
       if \<not> exists then ret False
       else bind_act (try_act (zk_delete (mc_zk mc) (path_join full_path flag) False) (\<lambda>e. e = NoNodeError) (\<lambda>_. ret ()))
              (\<lambda>_. ret True))"

type_synonym cleanup_tasks = "(string, nat \<times> string) dict"

definition schedule_table_replicas_cleanup ::
  "'w cleaner \<Rightarrow> table \<Rightarrow> string \<Rightarrow> cleanup_tasks \<Rightarrow> ('w \<times> 'w futures, cleanup_tasks) act" where
  "schedule_table_replicas_cleanup mc t table_path tasks =
     (let macros = override_macros mc [(''database'', Some (tb_database t)), (''table'', Some (tb_name t)), (''uuid'', table_uuid t)];
          path_resolved = abs_path (mc_cwd mc) (replace_macros macros table_path);
          full_table_name = tb_database t @ ''.'' @ tb_name t in
      bind_act (case non_empty (mc_replica_to_drop mc) of Some r \<Rightarrow> ret [r] | None \<Rightarrow> on_world (list_replicas mc path_resolved))
        (\<lambda>replicas.
      bind_act (on_world (zk_enter (mc_zk mc))) (\<lambda>_.
        finally_act
          (for_act replicas (\<lambda>replica tasks.
             let full_path = replica_path mc path_resolved replica in
             futures_ahead (mc_schedule mc)
               (bind_act (on_world (deactivate_replica mc full_path ''is_active'')) (\<lambda>exists.
                  if \<not> exists then ret tasks
                  else bind_act (submit_future (system_drop_replica (mc_ctl mc) replica path_resolved)) (\<lambda>i.
                         ret (dict_set tasks (full_table_name @ ''/'' @ replica) (i, full_path)))))) tasks)
          (on_world (zk_exit (mc_zk mc))))))"

text \<open>\<open>fallback_error\<close> is logged and raised again.\<close>

definition finish_table_cleanup :: "'w cleaner \<Rightarrow> nat \<times> string \<Rightarrow> ('w \<times> 'w futures, unit) act" where
  "finish_table_cleanup mc task =
     try_act (future_result (mc_schedule mc) (fst task)) is_clickhouse_error (\<lambda>e.
       if is_table_was_not_dropped_error e then on_world (delete_replica_zk_nodes mc (snd task))
       else if is_not_table_path_error e then ret ()
       else raise e)"

definition clean_tables_metadata :: "'w cleaner \<Rightarrow> table list \<Rightarrow> ('w, unit) act" where
  "clean_tables_metadata mc ts =
     bind_act (lift_res (get_table_zookeeper_paths ts)) (\<lambda>paths.
       with_futures (mc_schedule mc)
         (bind_act (for_act paths (\<lambda>(t, p) tasks. schedule_table_replicas_cleanup mc t p tasks) []) (\<lambda>tasks.
            for_act tasks (\<lambda>(key, task) _. finish_table_cleanup mc task) ())))"

text \<open>The tasks of the databases are kept by the name of the database, whatever the replica.\<close>

definition schedule_database_cleanup ::
  "'w cleaner \<Rightarrow> database \<times> string \<times> string \<Rightarrow> (string, nat) dict \<Rightarrow> ('w \<times> 'w futures, (string, nat) dict) act" where
  "schedule_database_cleanup mc d tasks =
     (case d of (db, database_path, shard) \<Rightarrow>
        let macros = override_macros mc [(''database'', Some (db_name db)), (''uuid'', db_uuid db)];
            path_resolved = abs_path (mc_cwd mc) (replace_macros macros database_path) in
        bind_act (case non_empty (mc_replica_to_drop mc) of
                    Some r \<Rightarrow> ret [replace_macros macros shard @ ''|'' @ r]
                  | None \<Rightarrow> on_world (list_replicas mc path_resolved))
          (\<lambda>replicas.
            for_act replicas (\<lambda>replica tasks.
              futures_ahead (mc_schedule mc)
                (bind_act (on_world (with_zk (mc_zk mc)
                     (deactivate_replica mc (replica_path mc path_resolved replica) ''active''))) (\<lambda>exists.
                  if \<not> exists then ret tasks
                  else bind_act (submit_future (system_drop_database_replica (mc_ctl mc) replica path_resolved)) (\<lambda>i.
                         ret (dict_set tasks (db_name db) i))))) tasks))"

definition finish_database_cleanup :: "'w cleaner \<Rightarrow> nat \<Rightarrow> ('w \<times> 'w futures, unit) act" where
  "finish_database_cleanup mc i =
     try_act (future_result (mc_schedule mc) i) is_clickhouse_error (\<lambda>e.
       if contains ''does not look like a path of Replicated database'' (error_text e)
          \<or> contains (''node doesn'' @ SQ @ ''t exist'') (error_text e)
       then ret () else raise e)"

definition clean_database_metadata :: "'w cleaner \<Rightarrow> database list \<Rightarrow> ('w, unit) act" where
  "clean_database_metadata mc dbs =
     if_version (mc_ctl mc) ''23.3''
       (bind_act (lift_res (get_database_zookeeper_paths dbs)) (\<lambda>paths.
          with_futures (mc_schedule mc)
            (bind_act (for_act paths (\<lambda>d tasks. schedule_database_cleanup mc d tasks) []) (\<lambda>tasks.
               for_act tasks (\<lambda>(key, i) _. finish_database_cleanup mc i) ()))))
       (ret ())"

end
