(* ===== verification/Schema.thy ===== *)
theory Schema
  imports Regex Parts Sql
begin

text \<open>
  Rewriting create statements (\<^verbatim>\<open>clickhouse/schema.py\<close>), comparing them (\<open>compare_schema\<close> of \<^verbatim>\<open>util.py\<close>),
  and the other statements the program parses: \<open>Database.set_engine_from_sql\<close>,
  \<open>WorkloadEntity.from_create_statement\<close>, \<open>mask_named_collection\<close>. The patterns are those of the code, piece by piece.
\<close>

section \<open>Common pieces\<close>

definition quoted_with :: "(rx \<Rightarrow> rx) \<Rightarrow> rx" where
  "quoted_with rep = cats [lit SQ, rep (none_of SQ), lit SQ]"

definition maybe_backquoted :: "string \<Rightarrow> rx" where
  "maybe_backquoted name = cats [opt (lit BQ), lit name, opt (lit BQ)]"

definition create_or_attach :: rx where
  "create_or_attach = Alt (lit ''CREATE'') (lit ''ATTACH'')"

definition option_text :: "string option \<Rightarrow> string" where
  "option_text s = (case s of None \<Rightarrow> ''None'' | Some s \<Rightarrow> s)"

section \<open>Create or attach\<close>

definition to_attach_query :: "string \<Rightarrow> string" where
  "to_attach_query q = rx_sub (cats [Bol, lit ''CREATE'']) (\<lambda>g. ''ATTACH'') q"

definition to_create_query :: "string \<Rightarrow> string" where
  "to_create_query q = rx_sub (cats [Bol, lit ''ATTACH'']) (\<lambda>g. ''CREATE'') q"

section \<open>Tables\<close>

definition REPLICATED_ENGINE :: rx where
  "REPLICATED_ENGINE =
     cats [Grp ''replicated'' (lit ''Replicated''), Rep 0 (Some 20) non_space, lit ''MergeTree('',
       Grp ''params'' (Alt (cats [quoted_with plus1, lit '', '', quoted_with plus1,
                               Alt (cats [lit '','', star space]) Eps]) Eps)]"

definition REPLICA_NAME :: rx where
  "REPLICA_NAME =
     cats [lit ''Replicated'', Rep 0 (Some 20) non_space, lit ''MergeTree('', quoted_with plus1, lit '', '',
       Grp ''replica'' (cats [lit SQ, plus1 non_space, lit SQ])]"

definition UUID_CLAUSE :: rx where
  "UUID_CLAUSE =
     (let word = (\<lambda>n. Rep n (Some n) word_char) in
      cats [lit ''UUID '', lit SQ, word 8, lit ''-'', word 4, lit ''-'', word 4, lit ''-'', word 4, lit ''-'', word 12, lit SQ])"

text \<open>\<open>force_non_replicated_engine\<close>: the parameters of the engine and the first part of its name go.\<close>

definition without_replication :: "table \<Rightarrow> table" where
  "without_replication t =
     (case rx_search REPLICATED_ENGINE (tb_create_statement t) of
        None \<Rightarrow> t
      | Some f \<Rightarrow>
          (let params = group_of f ''params'';
               t = (if params = [] then t
                    else t\<lparr>tb_create_statement := replace_str ''MergeTree()'' ''MergeTree''
                           (replace_str (group_of f ''replicated'') '''' (replace_str params '''' (tb_create_statement t)))\<rparr>)
           in if is_replicated t then t\<lparr>tb_engine := replace_str ''Replicated'' '''' (tb_engine t)\<rparr> else t))"

definition with_replica_name :: "string \<Rightarrow> table \<Rightarrow> table" where
  "with_replica_name name t =
     (case rx_search REPLICA_NAME (tb_create_statement t) of
        None \<Rightarrow> t
      | Some f \<Rightarrow> t\<lparr>tb_create_statement := replace_str (group_of f ''replica'') (SQ @ name @ SQ) (tb_create_statement t)\<rparr>)"

definition VIEW_HEADER :: "table \<Rightarrow> rx" where
  "VIEW_HEADER t =
     cats [Bol, Grp ''statement'' create_or_attach, lit '' '',
       Grp ''view_type'' (cats [opt (Grp ''3'' (cats [Grp ''4'' (Alt (lit ''MATERIALIZED'') (lit ''LIVE'')), lit '' ''])), lit ''VIEW'']),
       lit '' '',
       Grp ''view_name'' (cats [maybe_backquoted (sql_escape (tb_database t)), any_char, maybe_backquoted (sql_escape (tb_name t))]),
       lit '' '']"

definition TABLE_HEADER :: rx where
  "TABLE_HEADER =
     (let bq = cats [lit BQ, star (none_of BQ), lit BQ]; dot = lit ''.'' in
      cats [Grp ''statement'' create_or_attach, lit '' '', Grp ''type'' (star non_space), lit '' '',
        Grp ''table_name'' (Grp ''4'' (Alt (cats [bq, dot, bq]) (Alt (cats [plus1 non_space, dot, plus1 non_space])
          (Alt (cats [bq, dot, plus1 non_space]) (cats [plus1 non_space, dot, bq])))))])"

definition add_uuid :: "table \<Rightarrow> string option \<Rightarrow> table res" where
  "add_uuid t inner_uuid =
     (if rx_search UUID_CLAUSE (tb_create_statement t) \<noteq> None then Inr t
      else
        (let uuid = SQ @ option_text (table_uuid t) @ SQ;
             inner_uuid_clause = (case non_empty inner_uuid of None \<Rightarrow> '''' | Some u \<Rightarrow> ''TO INNER UUID '' @ SQ @ u @ SQ);
             ref = (\<lambda>n. BACKSLASH # ''g<'' @ n @ ''>'') in
         bind_res
           (if is_view t
            then rx_sub_template (VIEW_HEADER t)
                   (ref ''statement'' @ '' '' @ ref ''view_type'' @ '' '' @ ref ''view_name'' @ '' UUID '' @ uuid @ '' '' @
                    inner_uuid_clause @ '' '') (tb_create_statement t)
            else rx_sub_template TABLE_HEADER
                   (ref ''statement'' @ '' '' @ ref ''type'' @ '' '' @ ref ''table_name'' @ '' UUID '' @ uuid) (tb_create_statement t))
           (\<lambda>q. Inr (t\<lparr>tb_create_statement := q\<rparr>))))"

text \<open>The name of the object in the statement is replaced with the full name.\<close>

definition OBJECT_HEADER :: "table \<Rightarrow> rx" where
  "OBJECT_HEADER t =
     cats [Grp ''create'' create_or_attach, plus1 space,
       Grp ''type'' (Alt (lit ''TABLE'') (Alt (cats [opt (Grp ''3'' (cats [plus1 non_space, plus1 space])), lit ''VIEW'']) (lit ''DICTIONARY''))),
       plus1 space, Grp ''4'' (Alt (lit ''_'') (maybe_backquoted (sql_escape (tb_name t)))), plus1 space]"

definition with_full_name :: "table \<Rightarrow> table res" where
  "with_full_name t =
     bind_res
       (rx_sub_template (OBJECT_HEADER t)
          (BACKSLASH # ''g<create> '' @ BACKSLASH # ''g<type> '' @ BQ @ sql_escape (tb_database t) @ BQ @ ''.'' @
           BQ @ sql_escape (tb_name t) @ BQ @ '' '') (tb_create_statement t))
       (\<lambda>q. Inr (t\<lparr>tb_create_statement := q\<rparr>))"

definition rewrite_table_schema ::
  "table \<Rightarrow> bool \<Rightarrow> string option \<Rightarrow> bool \<Rightarrow> string option \<Rightarrow> table res" where
  "rewrite_table_schema t force_non_replicated_engine override_replica_name add_uuid_flag inner_uuid =
     (let t = (if force_non_replicated_engine then without_replication t else t);
          t = (case non_empty override_replica_name of None \<Rightarrow> t | Some n \<Rightarrow> with_replica_name n t) in
      bind_res (if add_uuid_flag then add_uuid t inner_uuid else Inr t) with_full_name)"

section \<open>Databases\<close>

definition quoted_args3 :: "rx \<Rightarrow> rx" where
  "quoted_args3 third =
     (let comma = cats [star space, lit '','', star space] in
      cats [lit ''Replicated('', quoted_with star, comma, quoted_with star, comma, third, lit '')''])"

definition rewrite_database_schema :: "database \<Rightarrow> string \<Rightarrow> bool \<Rightarrow> string option \<Rightarrow> string res" where
  "rewrite_database_schema db q force_non_replicated_engine override_replica_name =
     (let last_arg = cats [quoted_with star, star space];
          q = (if force_non_replicated_engine
               then rx_sub (cats [lit ''ENGINE'', star space, lit ''='', star space, quoted_args3 last_arg]) (\<lambda>g. ''ENGINE=Atomic'') q
               else q);
          q = (case non_empty override_replica_name of
                 None \<Rightarrow> q
               | Some n \<Rightarrow>
                   (case rx_search (quoted_args3 (Grp ''replica'' last_arg)) q of
                      None \<Rightarrow> q | Some f \<Rightarrow> replace_str (group_of f ''replica'') (SQ @ n @ SQ) q))
      in rx_sub_template (cats [lit ''CREATE'', plus1 space, lit ''DATABASE'', plus1 space, lit ''_'', space])
           (''CREATE DATABASE '' @ BQ @ sql_escape (db_name db) @ BQ @ '' '') q)"

text \<open>The name is not escaped here.\<close>

definition embedded_schema_db_sql :: "database \<Rightarrow> string" where
  "embedded_schema_db_sql db =
     ''CREATE DATABASE '' @ BQ @ db_name db @ BQ @ '' Engine='' @ option_text (db_engine db)"

definition set_engine_from_sql :: "string \<Rightarrow> database \<Rightarrow> database" where
  "set_engine_from_sql q db =
     (case rx_search (cats [lit_any_case ''Engine'', star space, lit ''='', star space, Grp ''engine'' (plus1 non_space)]) q of
        None \<Rightarrow> db | Some f \<Rightarrow> db\<lparr>db_engine := Some (group_of f ''engine'')\<rparr>)"

section \<open>Comparing\<close>

definition quotas :: "string \<Rightarrow> string \<Rightarrow> rx" where
  "quotas n m = cats [Grp n (opt (lit SQ)), Grp m (plus1 word_char), Back n]"

definition normalize_schema :: "string \<Rightarrow> string" where
  "normalize_schema schema =
     (let r = rx_sub (plus1 space) (\<lambda>g. '' '') (strip schema);
          r = rx_sub (cats [lit ''('', plus1 (lit '' '')]) (\<lambda>g. ''('') r;
          r = rx_sub (cats [plus1 (lit '' ''), lit '')'']) (\<lambda>g. '')'') r;
          r = lower r;
          r = rx_sub (cats [Bol, lit ''attach'']) (\<lambda>g. ''create'') r;
          name = none_of (BQ @ ''. '');
          ref = (\<lambda>n. Ref n);
          r = rx_sub (cats [Bol, lit ''create '', Grp ''1'' (plus1 (none_of (BQ @ ''.''))), lit '' '',
                  Grp ''2'' (opt (lit BQ)), Grp ''3'' (plus1 name), Back ''2'', lit ''.'',
                  Grp ''4'' (opt (lit BQ)), Grp ''5'' (plus1 name), Back ''4'',
                  opt (Grp ''6'' (cats [lit '' uuid '', quoted_with plus1])), Grp ''7'' (cats [lit '' '', name])])
                (expand_template [Text_of ''create '', ref ''1'', Text_of ('' '' @ BQ), ref ''3'', Text_of (BQ @ ''.'' @ BQ),
                   ref ''5'', Text_of BQ, ref ''7'']) r
      in rx_sub (cats [lit ''engine = distributed('', lit SQ, Grp ''1'' (plus1 (none_of SQ)), lit SQ, lit '', '',
                  quotas ''2'' ''3'', lit '', '', quotas ''4'' ''5'', opt (Grp ''6'' (cats [lit '', '', star any_char])), lit '')''])
                (expand_template [Text_of (''engine = distributed('' @ SQ), ref ''1'', Text_of (SQ @ '', '' @ SQ), ref ''3'',
                   Text_of (SQ @ '', '' @ SQ), ref ''5'', Text_of SQ, ref ''6'', Text_of '')'']) r)"

definition compare_schema :: "string \<Rightarrow> string \<Rightarrow> bool" where
  "compare_schema a b \<longleftrightarrow> normalize_schema a = normalize_schema b"

section \<open>Named collections\<close>

definition mask_named_collection :: "string \<Rightarrow> string option" where
  "mask_named_collection q =
     map_option (\<lambda>f. fst (snd f) @ '' '' @ HIDDEN_LITERAL)
       (rx_match (cats [star space, lit_any_case ''CREATE'', plus1 space, lit_any_case ''NAMED'', plus1 space,
          lit_any_case ''COLLECTION'', Word_boundary, Lazy anything, Word_boundary, lit_any_case ''AS'', Word_boundary]) q)"

end
