(* ===== verification/RestoreTables.thy ===== *)
theory RestoreTables
  imports RestoreContext Cleaner LayoutOps Schema
begin

text \<open>
  Restoring the schemas of tables (\<^verbatim>\<open>logic/table.py\<close>): \<open>_filter_duplicate_uuid\<close>,
  \<open>_get_tables_from_meta\<close>, \<open>_preprocess_tables_to_restore\<close> with its helpers, and \<open>_restore_tables\<close>
  with the queue that creates the table objects and tries again what fails.

  A \<open>Table\<close> is changed in place by the code: an operation that changes it runs on the pair of the world
  and the table.
\<close>

record 'w restore_env =
  rs_ctl :: "'w ch_ctl"
  rs_layout :: "'w layout"
  rs_state_file :: "'w state_file"
  rs_context :: "'w \<Rightarrow> restore_context"
  rs_set_context :: "restore_context \<Rightarrow> 'w \<Rightarrow> 'w"
  rs_random_name :: "('w, string) act"
  rs_exception_text :: "exn \<Rightarrow> string"
  rs_force_non_replicated :: bool
  rs_override_replica_name :: "string option"
  rs_max_table_name :: int

section \<open>Metadata of the tables\<close>

text \<open>The loop of \<open>_filter_duplicate_uuid\<close>: the tables by UUID, the number skipped, the tables kept.\<close>

type_synonym uuid_vars = "(string, table_metadata) dict \<times> nat \<times> table_metadata list"

definition filter_uuid_step :: "bool \<Rightarrow> table_metadata \<Rightarrow> uuid_vars \<Rightarrow> uuid_vars res" where
  "filter_uuid_step keep_going t vars =
     (case vars of (by_uuid, skipped, kept) \<Rightarrow>
        (case non_empty (rt_uuid (tm_raw t)) of
           None \<Rightarrow> Inr (by_uuid, skipped, kept @ [t])
         | Some u \<Rightarrow>
             (case map_of by_uuid u of
                None \<Rightarrow> Inr (dict_set by_uuid u t, skipped, kept @ [t])
              | Some k \<Rightarrow>
                  if tm_database k = tm_database t \<and> tm_name k = tm_name t then Inr (by_uuid, skipped + 1, kept)
                  else if \<not> keep_going then Inl ClickhouseBackupError
                  else Inr (by_uuid, skipped + 1, kept))))"

definition filter_duplicate_uuid :: "table_metadata list \<Rightarrow> bool \<Rightarrow> (table_metadata list \<times> nat) res" where
  "filter_duplicate_uuid ts keep_going =
     bind_res (fold_res (filter_uuid_step keep_going) ts ([], 0, [])) (\<lambda>(by_uuid, skipped, kept). Inr (kept, skipped))"

definition table_of_meta :: "table_metadata \<Rightarrow> table res" where
  "table_of_meta t =
     mk_table (tm_database t) (tm_name t) (rt_engine (tm_raw t)) [] [] '''' '''' (rt_uuid (tm_raw t))"

definition set_statement :: "string \<times> string \<Rightarrow> string \<Rightarrow> (string \<times> string, table) dict \<Rightarrow> (string \<times> string, table) dict" where
  "set_statement key sql tables =
     (case map_of tables key of None \<Rightarrow> tables | Some t \<Rightarrow> dict_set tables key (t\<lparr>tb_create_statement := sql\<rparr>))"

text \<open>The databases are a set in the code; here they are in the order of the tables.\<close>

definition get_tables_from_meta ::
  "'w layout \<Rightarrow> backup_metadata \<Rightarrow> table_metadata list \<Rightarrow> bool \<Rightarrow> ('w, table list \<times> nat) act" where
  "get_tables_from_meta ly b metas keep_going =
     bind_act (lift_res (map_res (\<lambda>m. bind_res (table_of_meta m) (\<lambda>t. Inr ((tm_database m, tm_name m), t))) metas)) (\<lambda>kts.
     bind_act (for_act (remdups (map tm_database metas)) (\<lambda>db tables.
         bind_act (get_table_create_statements ly b db (map tm_name (filter (\<lambda>m. tm_database m = db) metas))) (\<lambda>statements.
           ret (fold (\<lambda>(n, sql) tables. set_statement (db, n) sql tables) statements tables)))
         (fold (\<lambda>(k, t) d. dict_set d k t) kts [])) (\<lambda>tables.
       let missing = filter (\<lambda>t. tb_create_statement t = []) (map snd tables) in
       if missing \<noteq> [] \<and> \<not> keep_going then raise ClickhouseBackupError
       else ret (filter (\<lambda>t. tb_create_statement t \<noteq> []) (map snd tables), length missing)))"

section \<open>Preparing the server\<close>

definition tables_by_name :: "table list \<Rightarrow> (string \<times> string, table) dict" where
  "tables_by_name ts = fold (\<lambda>t d. dict_set d (table_key t) t) ts []"

definition tables_by_uuid :: "table list \<Rightarrow> (string, table) dict" where
  "tables_by_uuid ts =
     fold (\<lambda>t d. case non_empty (table_uuid t) of None \<Rightarrow> d | Some u \<Rightarrow> dict_set d u t) ts []"

definition lookup_uuid :: "(string, table) dict \<Rightarrow> table \<Rightarrow> table option" where
  "lookup_uuid d t = (case non_empty (table_uuid t) of None \<Rightarrow> None | Some u \<Rightarrow> map_of d u)"

definition readonly_tables :: "'w ch_ctl \<Rightarrow> ('w, (string \<times> string) list) act" where
  "readonly_tables c =
     bind_act (get_replicas c None [] (Some True)) (\<lambda>rows. lift_res (map_res (\<lambda>row.
       bind_res (str_item ''database'' row) (\<lambda>db. bind_res (str_item ''table'' row) (\<lambda>t. Inr (db, t)))) rows))"

text \<open>\<open>_get_remaining_readonly_tables_after_fix_attempt\<close>: the tables still read-only, and those whose
  metadata was cleaned.\<close>

definition remaining_readonly_tables ::
  "'w restore_env \<Rightarrow> table list \<Rightarrow> 'w cleaner option
     \<Rightarrow> ('w, (string \<times> string) list \<times> (string \<times> string) list) act" where
  "remaining_readonly_tables env tables cleaner =
     bind_act (readonly_tables (rs_ctl env)) (\<lambda>readonly.
       let broken = filter (\<lambda>t. is_replicated t \<and> List.member readonly (table_key t)) tables in
       case cleaner of
         None \<Rightarrow> ret (readonly, [])
       | Some mc \<Rightarrow>
           if readonly = [] \<or> broken = [] then ret (readonly, [])
           else bind_act (clean_tables_metadata mc broken) (\<lambda>_.
                bind_act (for_act broken (\<lambda>t _.
                    try_act (restore_replica (rs_ctl env) t) is_exception (\<lambda>_. ret ())) ()) (\<lambda>_.
                bind_act (readonly_tables (rs_ctl env)) (\<lambda>still.
                  ret (filter (\<lambda>k. \<not> (List.member (map table_key broken) k \<and> \<not> List.member still k)) readonly,
                       map table_key broken)))))"

definition try_fix_broken_detached_table :: "'w restore_env \<Rightarrow> table \<Rightarrow> ('w, unit) act" where
  "try_fix_broken_detached_table env t =
     bind_act (create_metadata_for_missed_detached_table (rs_ctl env) (tb_metadata_path t)
                 (case table_uuid t of None \<Rightarrow> ''None'' | Some u \<Rightarrow> u)) (\<lambda>_.
     bind_act (attach_table (rs_ctl env) t) (\<lambda>_.
       drop_table_if_exists (rs_ctl env) t))"

definition attach_detached_table :: "'w restore_env \<Rightarrow> table \<Rightarrow> ('w, unit) act" where
  "attach_detached_table env t =
     try_act (attach_table (rs_ctl env) t) is_clickhouse_error (\<lambda>e.
       if contains ''CANNOT_GET_CREATE_TABLE_QUERY'' (error_text e)
       then try_fix_broken_detached_table env t else raise e)"

text \<open>\<open>_rewrite_table_schema\<close>: the table with its new schema.\<close>

definition rewrite_schema :: "'w restore_env \<Rightarrow> database \<Rightarrow> table \<Rightarrow> bool \<Rightarrow> ('w, table) act" where
  "rewrite_schema env db t add_uuid_if_required =
     (let add_uuid_flag = (add_uuid_if_required \<and> non_empty (table_uuid t) \<noteq> None \<and> is_atomic db) in
      bind_act
        (if add_uuid_flag \<and> is_materialized_view t
         then if_version (rs_ctl env) ''21.4''
                (bind_act (get_table (rs_ctl env) (tb_database t)
                     (''.inner_id.'' @ (case table_uuid t of None \<Rightarrow> '''' | Some u \<Rightarrow> u)) False)
                   (\<lambda>inner. ret (case inner of None \<Rightarrow> None | Some i \<Rightarrow> table_uuid i)))
                (ret None)
         else ret None) (\<lambda>inner_uuid.
        lift_res (rewrite_table_schema t (rs_force_non_replicated env) (rs_override_replica_name env) add_uuid_flag inner_uuid)))"

definition RANDOM_TABLE_NAME_LENGTH :: nat where "RANDOM_TABLE_NAME_LENGTH = 16"

definition drop_existing_table :: "'w restore_env \<Rightarrow> table \<Rightarrow> table \<Rightarrow> ('w, unit) act" where
  "drop_existing_table env t existing =
     (let c = rs_ctl env in
      if is_dictionary existing then drop_dictionary_if_exists c existing
      else
        (let to_drop = make_dummy (tb_database existing) (tb_name existing) None '''' in
         bind_act
           (if int (length (tb_name t)) > rs_max_table_name env
            then bind_act (rs_random_name env) (\<lambda>r.
                   let renamed = to_drop\<lparr>tb_name := ''to_drop_'' @ r\<rparr> in
                   bind_act (drop_table_if_exists c renamed) (\<lambda>_.
                   bind_act (rename_table c existing (tb_name renamed)) (\<lambda>_. ret renamed)))
            else ret to_drop)
           (drop_table_if_exists c)))"

text \<open>What is known about the server before the loop.\<close>

record server_tables =
  sv_detached_by_name :: "(string \<times> string, table) dict"
  sv_detached_by_uuid :: "(string, table) dict"
  sv_existing_by_name :: "(string \<times> string, table) dict"
  sv_existing_by_uuid :: "(string, table) dict"
  sv_readonly :: "(string \<times> string) list"
  sv_cleaned :: "(string \<times> string) list"

text \<open>The table in the way of \<open>t\<close>: \<open>Same\<close> is a table of the same name and schema, which is left alone.\<close>

datatype conflict = Same | Replace table | Missing

definition find_conflict :: "server_tables \<Rightarrow> table \<Rightarrow> conflict" where
  "find_conflict sv t =
     (if List.member (sv_readonly sv) (table_key t) then Replace t
      else
        (case map_of (sv_existing_by_name sv) (table_key t) of
           Some e \<Rightarrow>
             if compare_schema (tb_create_statement e) (tb_create_statement t) then Same else Replace e
         | None \<Rightarrow> (case lookup_uuid (sv_existing_by_uuid sv) t of Some e \<Rightarrow> Replace e | None \<Rightarrow> Missing)))"

type_synonym preprocess_vars = "table list \<times> table list \<times> nat"

text \<open>The body of the loop inside its \<open>try\<close>.\<close>

definition preprocess_table ::
  "'w restore_env \<Rightarrow> (string, database) dict \<Rightarrow> bool \<Rightarrow> bool \<Rightarrow> server_tables \<Rightarrow> table \<Rightarrow> preprocess_vars
     \<Rightarrow> ('w, preprocess_vars) act" where
  "preprocess_table env databases in_replicated has_cleaner sv t0 vars =
     bind_act (lift_res (dict_get databases (tb_database t0))) (\<lambda>db.
     bind_act (rewrite_schema env db t0 True) (\<lambda>t.
     bind_act
       (case (case lookup_uuid (sv_detached_by_uuid sv) t of
                Some d \<Rightarrow> Some d | None \<Rightarrow> map_of (sv_detached_by_name sv) (table_key t)) of
          None \<Rightarrow> ret ()
        | Some d \<Rightarrow> attach_detached_table env d) (\<lambda>_.
       case vars of (result, to_clean, skipped) \<Rightarrow>
       (case find_conflict sv t of
          Same \<Rightarrow> ret (result, to_clean, skipped)
        | conflict \<Rightarrow>
            bind_act
              (if is_replicated_db_engine db \<and> \<not> in_replicated then ret (result, False)
               else (case conflict of
                       Replace e \<Rightarrow> bind_act (drop_existing_table env t e) (\<lambda>_. ret (result @ [t], True))
                     | _ \<Rightarrow> ret (result @ [t], False))) (\<lambda>(result, dropped).
              ret (result,
                   if has_cleaner \<and> is_replicated t \<and> \<not> dropped \<and> \<not> List.member (sv_cleaned sv) (table_key t)
                   then to_clean @ [t] else to_clean,
                   skipped))))))"

definition preprocess_tables_to_restore ::
  "'w restore_env \<Rightarrow> (string, database) dict \<Rightarrow> table list \<Rightarrow> bool \<Rightarrow> bool \<Rightarrow> 'w cleaner option
     \<Rightarrow> ('w, table list \<times> nat) act" where
  "preprocess_tables_to_restore env databases tables keep_going in_replicated cleaner =
     bind_act (get_detached_tables (rs_ctl env)) (\<lambda>detached.
     bind_act (get_tables (rs_ctl env) None [] True) (\<lambda>existing.
     bind_act (remaining_readonly_tables env tables cleaner) (\<lambda>(readonly, cleaned).
       let sv = \<lparr>sv_detached_by_name = tables_by_name detached, sv_detached_by_uuid = tables_by_uuid detached,
                 sv_existing_by_name = tables_by_name existing, sv_existing_by_uuid = tables_by_uuid existing,
                 sv_readonly = readonly, sv_cleaned = cleaned\<rparr> in
       bind_act (for_act tables (\<lambda>t vars.
           try_act (preprocess_table env databases in_replicated (cleaner \<noteq> None) sv t vars)
             (\<lambda>e. is_backup_error e \<or> is_clickhouse_error e \<or> is_os_error e \<or> e = ValueError)
             (\<lambda>e. if \<not> keep_going then raise e
                  else (case vars of (result, to_clean, skipped) \<Rightarrow> ret (result, to_clean, skipped + 1))))
           ([], [], 0)) (\<lambda>(result, to_clean, skipped).
         bind_act (case cleaner of None \<Rightarrow> ret () | Some mc \<Rightarrow> when_act (to_clean \<noteq> []) (clean_tables_metadata mc to_clean))
           (\<lambda>_. ret (result, skipped))))))"

section \<open>The queue of tables\<close>

definition with_statement :: "(string \<Rightarrow> string) \<Rightarrow> table \<Rightarrow> table" where
  "with_statement f t = t\<lparr>tb_create_statement := f (tb_create_statement t)\<rparr>"

text \<open>\<open>_restore_table_object\<close>: attach or create; after any error the table is removed.\<close>

definition restore_by_attach :: "'w restore_env \<Rightarrow> ('w \<times> table, unit) act" where
  "restore_by_attach env =
     bind_act (set_object (with_statement to_attach_query)) (\<lambda>_.
     bind_act (get_object (\<lambda>t. t)) (\<lambda>t.
     bind_act (on_world (create_table (rs_ctl env) t)) (\<lambda>_.
       when_act (is_replicated t) (on_world (restore_replica (rs_ctl env) t)))))"

definition restore_by_create :: "'w restore_env \<Rightarrow> ('w \<times> table, unit) act" where
  "restore_by_create env =
     bind_act (set_object (with_statement to_create_query)) (\<lambda>_.
     bind_act (get_object (\<lambda>t. t)) (\<lambda>t. on_world (create_table (rs_ctl env) t)))"

definition restore_table_object :: "'w restore_env \<Rightarrow> database \<Rightarrow> ('w \<times> table, unit) act" where
  "restore_table_object env db =
     try_act
       (bind_act (if is_replicated_db_engine db then lift_res (ch_version_ge (rs_ctl env) ''24.9'') else ret False)
          (\<lambda>use_create_method_for_merge_tree.
        bind_act (get_object (\<lambda>t. t)) (\<lambda>t.
          if is_merge_tree t \<and> \<not> use_create_method_for_merge_tree \<or> is_materialized_view t
             \<or> is_external_engine t \<or> is_distributed t
          then restore_by_attach env else restore_by_create env)))
       is_exception (\<lambda>_.
         bind_act (get_object (\<lambda>t. t)) (\<lambda>t.
         bind_act (on_world (if is_dictionary t then drop_dictionary_if_exists (rs_ctl env) t
                             else drop_table_if_exists (rs_ctl env) t))
           (\<lambda>_. raise ClickhouseBackupError)))"

definition restore_attempt :: "'w restore_env \<Rightarrow> (string, database) dict \<Rightarrow> ('w \<times> table, unit) act" where
  "restore_attempt env databases =
     bind_act (get_object tb_database) (\<lambda>name.
     bind_act (lift_res (dict_get databases name)) (restore_table_object env))"

text \<open>The \<open>while\<close> loop of \<open>_restore_table_objects\<close>, for any way to restore one table. The errors are those
  since the last success; a table that fails goes to the end of the queue.\<close>

function restore_queue ::
  "('w \<times> table, unit) act \<Rightarrow> table list \<Rightarrow> (table \<times> exn) list \<Rightarrow> ('w, (table \<times> exn) list) act" where
  "restore_queue restore [] errors w = (Inr errors, w)"
| "restore_queue restore (t # unprocessed) errors w =
     (case restore (w, t) of (r, (w', t')) \<Rightarrow>
        (case r of
           Inr _ \<Rightarrow> restore_queue restore unprocessed [] w'
         | Inl e \<Rightarrow>
             if \<not> is_exception e \<or> e = Hangs then (Inl e, w')
             else if length (errors @ [(t', e)]) > length (unprocessed @ [t']) then (Inr (errors @ [(t', e)]), w')
             else restore_queue restore (unprocessed @ [t']) (errors @ [(t', e)]) w'))"
  by pat_completeness auto
termination
  by (relation "measures [\<lambda>(restore, unprocessed, errors, w). length unprocessed,
        \<lambda>(restore, unprocessed, errors, w). Suc (length unprocessed) - length errors]") auto

text \<open>\<open>_check_readonly_restored_tables\<close>\<close>

definition check_readonly_restored_tables ::
  "'w restore_env \<Rightarrow> table list \<Rightarrow> (table \<times> exn) list \<Rightarrow> ('w, (table \<times> exn) list) act" where
  "check_readonly_restored_tables env tables errors =
     bind_act (readonly_tables (rs_ctl env)) (\<lambda>readonly.
       ret (errors @ map (\<lambda>t. (t, OtherException ''Table is readonly after successful RESTORE REPLICA''))
              (filter (\<lambda>t. \<not> List.member (map (table_key \<circ> fst) errors) (table_key t)
                           \<and> List.member readonly (table_key t)) tables)))"

text \<open>The tables of the errors as a set: tables are equal when their databases and names are.\<close>

fun distinct_tables :: "table list \<Rightarrow> table list" where
  "distinct_tables [] = []"
| "distinct_tables (t # ts) = t # filter (\<lambda>u. table_key u \<noteq> table_key t) (distinct_tables ts)"

text \<open>\<open>_restore_tables\<close> passes an iterator, which the queue has consumed when the read-only tables are
  checked: the check sees no table.\<close>

definition restore_table_objects ::
  "'w restore_env \<Rightarrow> (string, database) dict \<Rightarrow> table list \<Rightarrow> bool \<Rightarrow> ('w, table list) act" where
  "restore_table_objects env databases tables keep_going =
     bind_act (restore_queue (restore_attempt env databases) tables []) (\<lambda>errors.
     bind_act (check_readonly_restored_tables env [] errors) (\<lambda>errors.
       if errors = [] then ret []
       else if keep_going then ret (distinct_tables (map fst errors))
       else raise ClickhouseBackupError))"

text \<open>The order: merge trees, other tables, distributed tables, views.\<close>

definition restore_order :: "table list \<Rightarrow> table list" where
  "restore_order ts =
     filter is_merge_tree ts
     @ filter (\<lambda>t. \<not> is_merge_tree t \<and> \<not> is_distributed t \<and> \<not> is_view t) ts
     @ filter (\<lambda>t. \<not> is_merge_tree t \<and> is_distributed t) ts
     @ filter (\<lambda>t. \<not> is_merge_tree t \<and> \<not> is_distributed t \<and> is_view t) ts"

definition restore_tables ::
  "'w restore_env \<Rightarrow> (string, database) dict \<Rightarrow> table list \<Rightarrow> bool \<Rightarrow> ('w, table list) act" where
  "restore_tables env databases ts keep_going = restore_table_objects env databases (restore_order ts) keep_going"

section \<open>Facts about the queue\<close>

text \<open>A failed attempt may change the statement of a table, never its name.\<close>

definition keeps_name :: "('w \<times> table, unit) act \<Rightarrow> bool" where
  "keeps_name restore \<longleftrightarrow> (\<forall>w t. table_key (snd (snd (restore (w, t)))) = table_key t)"

lemma keeps_nameD: "keeps_name restore \<Longrightarrow> restore (w, t) = (r, (w', t')) \<Longrightarrow> table_key t' = table_key t"
  unfolding keeps_name_def by (metis snd_conv)

lemma restore_measure_induct [case_names less]:
  fixes P :: "'a list \<Rightarrow> 'b list \<Rightarrow> 'c \<Rightarrow> bool"
  assumes "\<And>q errors w.
      (\<And>q' errors' w'. length q' < length q \<Longrightarrow> P q' errors' w') \<Longrightarrow>
      (\<And>q' errors' w'. length q' = length q \<Longrightarrow> Suc (length q') - length errors' < Suc (length q) - length errors \<Longrightarrow>
         P q' errors' w') \<Longrightarrow> P q errors w"
  shows "P q errors w"
proof (induction "(q, errors)" arbitrary: q errors w
    rule: wf_induct [OF wf_measures [of "[\<lambda>(q, errors). length q, \<lambda>(q, errors). Suc (length q) - length errors]"]])
  case (1 q errors w)
  show ?case by (rule assms) (rule 1 [rule_format], simp_all)+
qed

lemma restore_queue_covers:
  assumes "keeps_name restore"
    and succ: "\<And>w t w' t'. restore (w, t) = (Inr (), (w', t')) \<Longrightarrow> R (table_key t) w'"
    and stable: "\<And>k w t r w' t'. R k w \<Longrightarrow> table_key t \<noteq> k \<Longrightarrow> restore (w, t) = (r, (w', t')) \<Longrightarrow> R k w'"
    and "restore_queue restore unprocessed errors w = (Inr errors', w')"
    and "\<forall>k \<in> K. R k w \<or> k \<in> table_key ` set unprocessed"
    and "length errors \<le> length unprocessed"
    and "table_key ` set (drop (length unprocessed - length errors) unprocessed) \<subseteq> table_key ` fst ` set errors"
  shows "\<forall>k \<in> K. R k w' \<or> k \<in> table_key ` fst ` set errors'"
  using assms(4-)
proof (induction unprocessed errors w rule: restore_measure_induct)
  case (less unprocessed errors w)
  show ?case
  proof (cases unprocessed)
    case Nil
    with less.prems(1,2) show ?thesis by auto
  next
    case (Cons t ts)
    obtain r w1 t1 where run: "restore (w, t) = (r, (w1, t1))" by (cases "restore (w, t)") auto
    have key: "table_key t1 = table_key t" by (rule keeps_nameD [OF assms(1) run])
    show ?thesis
    proof (cases r)
      case (Inr u)
      have "restore_queue restore ts [] w1 = (Inr errors', w')"
        using less.prems(1) Cons run Inr by simp
      moreover have "\<forall>k \<in> K. R k w1 \<or> k \<in> table_key ` set ts"
      proof
        fix k assume k: "k \<in> K"
        show "R k w1 \<or> k \<in> table_key ` set ts"
        proof (cases "k = table_key t")
          case True
          then show ?thesis using succ [of w t w1 t1] run Inr by simp
        next
          case False
          then show ?thesis using less.prems(2) Cons k stable [OF _ _ run, of k] by auto
        qed
      qed
      ultimately show ?thesis using less.IH(1) [of ts "[]" w1] Cons by simp
    next
      case (Inl e)
      let ?q = "ts @ [t1]" and ?errors = "errors @ [(t1, e)]"
      have K: "\<forall>k \<in> K. R k w1 \<or> k \<in> table_key ` set ?q"
      proof
        fix k assume k: "k \<in> K"
        show "R k w1 \<or> k \<in> table_key ` set ?q"
        proof (cases "k = table_key t")
          case False
          then show ?thesis using less.prems(2) Cons k stable [OF _ _ run, of k] by auto
        qed (simp add: key)
      qed
      have tail: "table_key ` set (drop (length ?q - length ?errors) ?q) \<subseteq> table_key ` fst ` set ?errors"
        using less.prems(3,4) Cons by (cases "length errors \<le> length ts") (auto simp: Suc_diff_le)
      show ?thesis
      proof (cases "length ?errors > length ?q")
        case True
        then have "errors' = ?errors" "w' = w1"
          using less.prems(1) Cons run Inl by (auto split: if_splits)
        with K tail True show ?thesis by auto
      next
        case False
        then have "restore_queue restore ?q ?errors w1 = (Inr errors', w')"
          using less.prems(1) Cons run Inl by (auto split: if_splits)
        with less.IH(2) [of ?q ?errors w1] K tail False Cons show ?thesis by auto
      qed
    qed
  qed
qed

lemma restore_attempt_keeps_name: "keeps_name (restore_attempt env databases)"
proof -
  have name: "table_key (snd (snd (m (w, t)))) = table_key t"
    if "keeps (\<lambda>s. table_key (snd s) = table_key t) m" for m :: "('a \<times> table, unit) act" and w t
    using keepsD [OF that, of "(w, t)"] by simp
  have world: "keeps (\<lambda>s. table_key (snd s) = k) (on_world m)" for k and m :: "('a, 'b) act"
    by (rule keepsI) (simp add: on_world_def split: prod.split)
  have set: "keeps (\<lambda>s. table_key (snd s) = k) (set_object (with_statement f))" for k f
    by (rule keepsI) (simp add: set_object_def with_statement_def table_key_def)
  have get: "keeps (\<lambda>s. table_key (snd s) = k) (get_object f)" for k and f :: "table \<Rightarrow> 'c"
    by (rule keepsI) (simp add: get_object_def)
  have get': "keeps (\<lambda>s. table_key (snd s) = k) (get_object f)" for k and f :: "table \<Rightarrow> table"
    by (rule keepsI) (simp add: get_object_def)
  have get'': "keeps (\<lambda>s. table_key (snd s) = k) (get_object f)" for k and f :: "table \<Rightarrow> string"
    by (rule keepsI) (simp add: get_object_def)
  have "keeps (\<lambda>s. table_key (snd s) = k) (restore_attempt env databases)" for k
    unfolding restore_attempt_def restore_table_object_def restore_by_attach_def restore_by_create_def
    by (intro keeps_bind keeps_try keeps_when keeps_raise keeps_lift world set get' get''
        | simp add: keeps_ret keeps_lift split: if_split | rule conjI impI keeps_bind)+
  then show ?thesis unfolding keeps_name_def using name by blast
qed

lemma distinct_tables_keys: "table_key ` set (distinct_tables ts) = table_key ` set ts"
proof (induction ts)
  case (Cons t ts)
  then have "k \<in> table_key ` set (distinct_tables ts) \<longleftrightarrow> k \<in> table_key ` set ts" for k by simp
  then show ?case by (auto simp: image_iff) metis+
qed simp

lemma restore_order_set: "set (restore_order ts) = set ts"
  by (auto simp: restore_order_def)

text \<open>C6. No table is lost between the restored ones and the failures. Let \<open>R\<close> be anything that a successful
  attempt at a table establishes and that attempts at other tables and the final check leave alone; when the
  restore of the tables returns, \<open>R\<close> holds of every table that is not among the failed ones it returns, and
  without \<open>keep_going\<close> there are none.\<close>

theorem restore_loses_no_table:
  assumes "\<And>w t w' t'. restore_attempt env databases (w, t) = (Inr (), (w', t')) \<Longrightarrow> R (table_key t) w'"
    and "\<And>k w t r w' t'. R k w \<Longrightarrow> table_key t \<noteq> k \<Longrightarrow> restore_attempt env databases (w, t) = (r, (w', t')) \<Longrightarrow> R k w'"
    and "\<And>k w r w'. R k w \<Longrightarrow> readonly_tables (rs_ctl env) w = (r, w') \<Longrightarrow> R k w'"
    and "restore_tables env databases ts keep_going w = (Inr failed, w')"
  shows "(\<forall>t \<in> set ts. R (table_key t) w' \<or> table_key t \<in> table_key ` set failed) \<and> (\<not> keep_going \<longrightarrow> failed = [])"
proof -
  from assms(4) obtain errors w1 readonly where
    queue: "restore_queue (restore_attempt env databases) (restore_order ts) [] w = (Inr errors, w1)"
    and check: "readonly_tables (rs_ctl env) w1 = (Inr readonly, w')"
    and failed: "(if errors = [] then ret [] else if keep_going then ret (distinct_tables (map fst errors))
        else raise ClickhouseBackupError) w' = (Inr failed, w')"
    by (auto simp: restore_tables_def restore_table_objects_def check_readonly_restored_tables_def bind_act_result
        split: if_splits)
  have covered: "\<forall>k \<in> table_key ` set ts. R k w1 \<or> k \<in> table_key ` fst ` set errors"
    by (rule restore_queue_covers [where R = R, OF restore_attempt_keeps_name _ _ queue])
      (use assms(1,2) in \<open>auto simp: restore_order_set\<close>)
  have names: "table_key ` set failed = table_key ` fst ` set errors"
    using failed distinct_tables_keys [of "map fst errors"] by (auto split: if_splits)
  show ?thesis
  proof (intro conjI ballI)
    fix t assume "t \<in> set ts"
    then have "R (table_key t) w1 \<or> table_key t \<in> table_key ` set failed"
      using covered names by simp
    then show "R (table_key t) w' \<or> table_key t \<in> table_key ` set failed"
      by (rule disj_forward) (use assms(3) [OF _ check] in simp_all)
  next
    show "\<not> keep_going \<longrightarrow> failed = []" using failed by (auto split: if_splits)
  qed
qed

subsection \<open>How many attempts\<close>

definition attempts_bound :: "nat \<Rightarrow> nat \<Rightarrow> nat" where
  "attempts_bound n k = Suc n - k + n * (n + 1) div 2"

lemma attempts_bound_fail: "k \<le> n \<Longrightarrow> Suc (attempts_bound n (Suc k)) \<le> attempts_bound n k"
  by (simp add: attempts_bound_def Suc_diff_le)

lemma attempts_bound_success: "k \<le> Suc n \<Longrightarrow> Suc (attempts_bound n 0) \<le> attempts_bound (Suc n) k"
proof -
  assume "k \<le> Suc n"
  have "Suc n * (Suc n + 1) div 2 = n * (n + 1) div 2 + (n + 1)"
    by (simp add: algebra_simps)
  with \<open>k \<le> Suc n\<close> show ?thesis by (simp add: attempts_bound_def)
qed

lemma restore_queue_attempts:
  fixes attempts :: "'w \<Rightarrow> nat"
  assumes step: "\<And>w t r w' t'. restore (w, t) = (r, (w', t')) \<Longrightarrow> attempts w' \<le> Suc (attempts w)"
    and "restore_queue restore unprocessed errors w = (r, w')" "length errors \<le> length unprocessed"
  shows "attempts w' \<le> attempts w + attempts_bound (length unprocessed) (length errors)"
  using assms(2,3)
proof (induction unprocessed errors w rule: restore_measure_induct)
  case (less unprocessed errors w)
  show ?case
  proof (cases unprocessed)
    case Nil
    with less.prems(1) show ?thesis by simp
  next
    case (Cons t ts)
    obtain q w1 t1 where run: "restore (w, t) = (q, (w1, t1))" by (cases "restore (w, t)") auto
    have one: "attempts w1 \<le> Suc (attempts w)" by (rule step [OF run])
    have bound: "Suc (attempts w) \<le> attempts w + attempts_bound (length unprocessed) (length errors)"
      using less.prems(2) by (simp add: attempts_bound_def)
    show ?thesis
    proof (cases q)
      case (Inr u)
      with less.prems(1) Cons run have "restore_queue restore ts [] w1 = (r, w')" by simp
      with less.IH(1) [of ts "[]" w1] Cons have "attempts w' \<le> attempts w1 + attempts_bound (length ts) 0" by simp
      moreover have "Suc (attempts_bound (length ts) 0) \<le> attempts_bound (length unprocessed) (length errors)"
        using attempts_bound_success [of "length errors" "length ts"] less.prems(2) Cons by simp
      ultimately show ?thesis using one by simp
    next
      case (Inl e)
      show ?thesis
      proof (cases "\<not> is_exception e \<or> e = Hangs \<or> length errors \<ge> length unprocessed")
        case True
        with less.prems(1) Cons run Inl have "w' = w1" by (auto split: if_splits)
        with one bound show ?thesis by simp
      next
        case False
        with less.prems(1) Cons run Inl
        have "restore_queue restore (ts @ [t1]) (errors @ [(t1, e)]) w1 = (r, w')" by auto
        moreover have "Suc (length ts) - length errors < Suc (Suc (length ts)) - length errors" using False Cons by auto
        ultimately
        have "attempts w' \<le> attempts w1 + attempts_bound (length unprocessed) (Suc (length errors))"
          using less.IH(2) [of "ts @ [t1]" "errors @ [(t1, e)]" w1] Cons False by simp
        with attempts_bound_fail [of "length errors" "length unprocessed"] less.prems(2) one show ?thesis by simp
      qed
    qed
  qed
qed

text \<open>C29. The queue always comes to an end, and \<open>n\<close> tables take at most \<open>(n + 1) (n + 2) / 2\<close> attempts,
  whichever of them fail and however often.\<close>

theorem restore_attempts_bounded:
  fixes attempts :: "'w \<Rightarrow> nat"
  assumes "\<And>w t r w' t'. restore_attempt env databases (w, t) = (r, (w', t')) \<Longrightarrow> attempts w' \<le> Suc (attempts w)"
    and "restore_queue (restore_attempt env databases) ts [] w = (r, w')"
  shows "2 * attempts w' \<le> 2 * attempts w + (length ts + 1) * (length ts + 2)"
proof -
  have "attempts w' \<le> attempts w + attempts_bound (length ts) 0"
    using restore_queue_attempts [of "restore_attempt env databases" attempts, OF assms] by simp
  moreover have "2 * attempts_bound (length ts) 0 = (length ts + 1) * (length ts + 2)"
    by (simp add: attempts_bound_def algebra_simps)
  ultimately show ?thesis by simp
qed

subsection \<open>A server that answers\<close>

text \<open>The world counts the requests; every answer is a document without rows.\<close>

definition answering_client :: "nat ch_client" where
  "answering_client =
     \<lparr>cl_post = \<lambda>q n. (Inr \<lparr>hr_status = 200, hr_text = '''', hr_json = Some (JObj [(''data'', JList [])])\<rparr>, Suc n),
      cl_timeout = 10, cl_settings = []\<rparr>"

definition answering_env :: "nat restore_env \<Rightarrow> nat restore_env" where
  "answering_env env = env\<lparr>rs_ctl := (rs_ctl env)\<lparr>cc_client := answering_client\<rparr>\<rparr>"

lemma answering_query:
  "query answering_client opts q n = (Inr (Json (JObj [(''data'', JList [])])), Suc n)"
  by (simp add: query_def query_attempt_def answering_client_def bind_act_def numeral_eq_Suc)

lemma answering_ctl [simp]:
  "create_table (rs_ctl (answering_env env)) t n = (Inr (), Suc n)"
  "restore_replica (rs_ctl (answering_env env)) t n = (if is_replicated t then (Inr (), Suc n) else (Inl AssertionError, n))"
  "readonly_tables (rs_ctl (answering_env env)) n = (Inr [], Suc n)"
  by (simp_all add: create_table_def restore_replica_def ctl_run_def readonly_tables_def get_replicas_def ctl_query_def
      bind_act_def answering_env_def answering_query data_rows_def json_of_def j_item_def dict_get_def as_list_def)

definition table_sample :: "string \<Rightarrow> string \<Rightarrow> table" where
  "table_sample db name = (make_dummy db name None '''')\<lparr>tb_engine := ''MergeTree'', tb_create_statement := ''CREATE''\<rparr>"

definition databases_sample :: "(string, database) dict" where
  "databases_sample = [(''d'', \<lparr>db_name = ''d'', db_engine = Some ''Atomic'', db_metadata_path = None, db_uuid = None, db_engine_full = None\<rparr>)]"

lemma answering_attempt:
  assumes "restore_attempt (answering_env env) databases_sample (n, t) = (r, (n', t'))"
  shows "if tb_database t = ''d'' then r = Inr () \<and> (n' = n + 1 \<or> n' = n + 2) else r = Inl KeyError \<and> n' = n"
  using assms
  by (auto simp: restore_attempt_def restore_table_object_def restore_by_attach_def restore_by_create_def bind_act_def
      get_object_def set_object_def try_act_def databases_sample_def dict_get_def is_replicated_db_engine_def on_world_def
      when_act_def with_statement_def is_replicated_def split: if_splits)

lemma answering_restore:
  "\<exists>failed n. restore_tables (answering_env env) databases_sample [table_sample ''d'' ''t'', table_sample ''x'' ''u''] True 0 = (Inr failed, n)"
  by (simp add: restore_tables_def restore_table_objects_def restore_order_def table_sample_def make_dummy_def is_merge_tree_def
      contains_def sublist_code prefix_def is_view_def is_distributed_def check_readonly_restored_tables_def bind_act_def
      restore_attempt_def restore_table_object_def restore_by_attach_def restore_by_create_def
      get_object_def set_object_def try_act_def databases_sample_def dict_get_def is_replicated_db_engine_def on_world_def
      when_act_def with_statement_def is_replicated_def is_exception_def)

theorem restore_loses_no_table_witness:
  "\<forall>env. \<exists>failed n. restore_tables (answering_env env) databases_sample [table_sample ''d'' ''t'', table_sample ''x'' ''u''] True 0
     = (Inr failed, n) \<and> (0 < n \<or> (''d'', ''t'') \<in> table_key ` set failed) \<and> (''x'', ''u'') \<in> table_key ` set failed"
proof
  fix env
  let ?ts = "[table_sample ''d'' ''t'', table_sample ''x'' ''u'']"
  obtain failed n where run: "restore_tables (answering_env env) databases_sample ?ts True 0 = (Inr failed, n)"
    using answering_restore by blast
  have "(\<forall>t \<in> set ?ts. (fst (table_key t) = ''d'' \<and> 0 < n) \<or> table_key t \<in> table_key ` set failed) \<and> (\<not> True \<longrightarrow> failed = [])"
    by (rule restore_loses_no_table [where R = "\<lambda>k n. fst k = ''d'' \<and> 0 < n" and env = "answering_env env", OF _ _ _ run])
      (auto dest!: answering_attempt simp: table_key_def split: if_splits)
  then show "\<exists>failed n. restore_tables (answering_env env) databases_sample ?ts True 0 = (Inr failed, n) \<and>
      (0 < n \<or> (''d'', ''t'') \<in> table_key ` set failed) \<and> (''x'', ''u'') \<in> table_key ` set failed"
    using run by (auto simp: table_sample_def make_dummy_def table_key_def)
qed

text \<open>An attempt sends at most two requests.\<close>

theorem restore_attempts_bounded_witness:
  "\<forall>env. \<exists>r n. restore_queue (restore_attempt (answering_env env) databases_sample)
       [table_sample ''d'' ''t'', table_sample ''x'' ''u''] [] 0 = (r, n) \<and> 2 * (n div 2) \<le> 12"
proof
  fix env
  obtain r n where run: "restore_queue (restore_attempt (answering_env env) databases_sample)
       [table_sample ''d'' ''t'', table_sample ''x'' ''u''] [] 0 = (r, n)" by fastforce
  have "2 * (n div 2) \<le> 2 * (0 div 2) + (length [table_sample ''d'' ''t'', table_sample ''x'' ''u''] + 1) *
      (length [table_sample ''d'' ''t'', table_sample ''x'' ''u''] + 2)"
    by (rule restore_attempts_bounded [where attempts = "\<lambda>n. n div 2", OF _ run])
      (auto dest!: answering_attempt split: if_splits)
  then show "\<exists>r n. restore_queue (restore_attempt (answering_env env) databases_sample)
       [table_sample ''d'' ''t'', table_sample ''x'' ''u''] [] 0 = (r, n) \<and> 2 * (n div 2) \<le> 12"
    using run by auto
qed

subsection \<open>Tables with the same UUID\<close>

definition meta_uuid :: "table_metadata \<Rightarrow> string option" where
  "meta_uuid t = non_empty (rt_uuid (tm_raw t))"

definition meta_key :: "table_metadata \<Rightarrow> string \<times> string" where
  "meta_key t = (tm_database t, tm_name t)"

text \<open>The first table of every UUID, and all the tables without one.\<close>

fun first_per_uuid :: "table_metadata list \<Rightarrow> table_metadata list" where
  "first_per_uuid [] = []"
| "first_per_uuid (t # ts) = t # filter (\<lambda>u. meta_uuid u = None \<or> meta_uuid u \<noteq> meta_uuid t) (first_per_uuid ts)"

definition uuid_conflict :: "table_metadata list \<Rightarrow> bool" where
  "uuid_conflict ts \<longleftrightarrow>
     (\<exists>t \<in> set ts. \<exists>u \<in> set ts. meta_uuid t \<noteq> None \<and> meta_uuid t = meta_uuid u \<and> meta_key t \<noteq> meta_key u)"

lemma first_per_uuid_snoc:
  "first_per_uuid (ts @ [t]) =
     first_per_uuid ts @ (if meta_uuid t \<noteq> None \<and> meta_uuid t \<in> meta_uuid ` set ts then [] else [t])"
  by (induction ts) auto

lemma find_cases:
  "(case find P xs of None \<Rightarrow> \<forall>x \<in> set xs. \<not> P x | Some x \<Rightarrow> x \<in> set xs \<and> P x)"
  by (induction xs) (auto split: option.splits)

lemma first_per_uuid_length: "length (first_per_uuid ts) \<le> length ts"
  by (induction ts) (auto intro: le_trans [OF length_filter_le])

lemma filter_uuid_step_meta:
  "filter_uuid_step keep_going t (by_uuid, skipped, kept) =
     (case meta_uuid t of
        None \<Rightarrow> Inr (by_uuid, skipped, kept @ [t])
      | Some u \<Rightarrow>
          (case map_of by_uuid u of
             None \<Rightarrow> Inr (dict_set by_uuid u t, skipped, kept @ [t])
           | Some k \<Rightarrow>
               if meta_key k = meta_key t \<or> keep_going then Inr (by_uuid, skipped + 1, kept)
               else Inl ClickhouseBackupError))"
  by (auto simp: filter_uuid_step_def meta_uuid_def meta_key_def split: option.splits)

lemma filter_uuid_fold:
  "if \<not> keep_going \<and> uuid_conflict ts then fold_res (filter_uuid_step keep_going) ts ([], 0, []) = Inl ClickhouseBackupError
   else \<exists>by_uuid. fold_res (filter_uuid_step keep_going) ts ([], 0, [])
          = Inr (by_uuid, length ts - length (first_per_uuid ts), first_per_uuid ts) \<and>
        (\<forall>u. map_of by_uuid u = find (\<lambda>t. meta_uuid t = Some u) ts)"
proof (induction ts rule: rev_induct)
  case Nil
  show ?case by (simp add: uuid_conflict_def)
next
  case (snoc t ts)
  let ?fold = "\<lambda>ts. fold_res (filter_uuid_step keep_going) ts ([], 0, [])"
  have step: "?fold (ts @ [t]) = bind_res (?fold ts) (filter_uuid_step keep_going t)"
    by (cases "?fold ts") (auto simp: fold_res_append bind_res_def split: sum.split)
  have clash: "uuid_conflict (ts @ [t]) \<longleftrightarrow> uuid_conflict ts \<or>
      (\<exists>u \<in> set ts. meta_uuid t \<noteq> None \<and> meta_uuid t = meta_uuid u \<and> meta_key t \<noteq> meta_key u)"
    by (auto simp: uuid_conflict_def)
  have found: "find (\<lambda>x. meta_uuid x = Some u) (ts @ [t])
      = (case find (\<lambda>x. meta_uuid x = Some u) ts of Some x \<Rightarrow> Some x | None \<Rightarrow> if meta_uuid t = Some u then Some t else None)" for u
    by (induction ts) auto
  show ?case
  proof (cases "\<not> keep_going \<and> uuid_conflict ts")
    case True
    with snoc.IH step clash show ?thesis by simp
  next
    case False
    with snoc.IH obtain by_uuid where run: "?fold ts = Inr (by_uuid, length ts - length (first_per_uuid ts), first_per_uuid ts)"
      and dict: "\<And>u. map_of by_uuid u = find (\<lambda>t. meta_uuid t = Some u) ts" by auto
    note simps = step run filter_uuid_step_meta first_per_uuid_snoc found dict
    show ?thesis
    proof (cases "meta_uuid t")
      case None
      then have "uuid_conflict (ts @ [t]) \<longleftrightarrow> uuid_conflict ts" using clash by simp
      with False None first_per_uuid_length [of ts] show ?thesis
        by (auto simp: simps Suc_diff_le split: option.splits)
    next
      case (Some u)
      show ?thesis
      proof (cases "find (\<lambda>t. meta_uuid t = Some u) ts")
        case fresh: None
        then have none: "\<forall>x \<in> set ts. meta_uuid x \<noteq> Some u" by (simp add: find_None_iff)
        then have "uuid_conflict (ts @ [t]) \<longleftrightarrow> uuid_conflict ts" using clash Some by auto
        moreover have "meta_uuid t \<notin> meta_uuid ` set ts" using none Some by auto
        ultimately show ?thesis using False Some fresh first_per_uuid_length [of ts]
          by (auto simp: simps Suc_diff_le split: option.splits)
      next
        case (Some k)
        then have k: "k \<in> set ts" "meta_uuid k = Some u"
          using find_cases [where P = "\<lambda>t. meta_uuid t = Some u" and xs = ts] by simp_all
        have seen: "meta_uuid t \<in> meta_uuid ` set ts" using k \<open>meta_uuid t = Some u\<close> by force
        have same: "meta_key x = meta_key k" if "\<not> keep_going" "x \<in> set ts" "meta_uuid x = Some u" for x
          using that False k unfolding uuid_conflict_def by (metis option.discI)
        have "uuid_conflict (ts @ [t]) \<longleftrightarrow> meta_key k \<noteq> meta_key t" if "\<not> keep_going"
          using that False clash k \<open>meta_uuid t = Some u\<close> same [OF that] by (metis option.discI)
        moreover have "first_per_uuid (ts @ [t]) = first_per_uuid ts"
          using seen \<open>meta_uuid t = Some u\<close> by (simp add: first_per_uuid_snoc)
        moreover have "length (ts @ [t]) - length (first_per_uuid ts) = Suc (length ts - length (first_per_uuid ts))"
          using first_per_uuid_length [of ts] by (simp add: Suc_diff_le)
        ultimately show ?thesis using Some \<open>meta_uuid t = Some u\<close> False step run
          by (cases keep_going; cases "meta_key k = meta_key t")
            (auto simp: filter_uuid_step_meta found dict split: option.splits)
      qed
    qed
  qed
qed

text \<open>C30. The tables to restore have distinct UUIDs: of the tables with the same one the first is kept and the
  others are counted as skipped. Without \<open>keep_going\<close> the restore is refused exactly when two tables of
  different names share a UUID.\<close>

theorem duplicate_uuids_filtered:
  "filter_duplicate_uuid ts keep_going =
     (if \<not> keep_going \<and> uuid_conflict ts then Inl ClickhouseBackupError
      else Inr (first_per_uuid ts, length ts - length (first_per_uuid ts)))"
  using filter_uuid_fold [of keep_going ts] by (auto simp: filter_duplicate_uuid_def split: if_splits)

subsection \<open>The order of the tables\<close>

definition restore_rank :: "table \<Rightarrow> nat" where
  "restore_rank t = (if is_merge_tree t then 0 else if is_distributed t then 2 else if is_view t then 3 else 1)"

lemma sorted_constant: "(\<And>x. x \<in> set xs \<Longrightarrow> f x = c) \<Longrightarrow> sorted (map f xs)"
  by (induction xs) simp_all

lemma restore_order_ranks:
  "restore_order ts = filter (\<lambda>t. restore_rank t = 0) ts @ filter (\<lambda>t. restore_rank t = 1) ts
     @ filter (\<lambda>t. restore_rank t = 2) ts @ filter (\<lambda>t. restore_rank t = 3) ts"
  unfolding restore_order_def by (intro arg_cong2 [where f = append] filter_cong refl) (simp_all add: restore_rank_def)

lemma filter_of_value:
  "filter (\<lambda>x. f k = f x) (filter (\<lambda>t. f t = c) ts) = (if f k = c then filter (\<lambda>x. f k = f x) ts else [])"
  by (auto simp: filter_empty_conv intro: filter_cong)

lemma restore_rank_cases: "restore_rank t \<in> {0, 1, 2, 3}"
  by (simp add: restore_rank_def)

lemma sorted_ranks: "sorted (map restore_rank (restore_order ts))"
  unfolding restore_order_ranks map_append sorted_append by (intro conjI sorted_constant) auto

text \<open>C31. Merge trees are restored before other tables, those before distributed tables, and views come last;
  within each kind the order of the backup is kept.\<close>

theorem restore_order_sorted: "restore_order ts = sort_key restore_rank ts"
proof (rule properties_for_sort_key [symmetric])
  show "mset (restore_order ts) = mset ts"
    using restore_rank_cases by (induction ts) (auto simp: restore_order_ranks)
  show "filter (\<lambda>x. restore_rank k = restore_rank x) (restore_order ts) = filter (\<lambda>x. restore_rank k = restore_rank x) ts"
    if "k \<in> set (restore_order ts)" for k
    using restore_rank_cases [of k] by (auto simp: restore_order_ranks filter_of_value simp del: filter_filter)
qed (rule sorted_ranks)

end
