(* ===== verification/TableBackup.thy ===== *)
theory TableBackup
  imports RestoreTables Config
begin

text \<open>
  Backing up tables (\<^verbatim>\<open>logic/table.py\<close>: \<open>backup\<close>, \<open>_backup\<close> and the methods they call, and
  \<^verbatim>\<open>logic/upload_part_observer.py\<close>). Tables are frozen by a pool of threads while the main thread
  uploads those already frozen.

  The backup metadata of the context and the observer of the current table are parts of the world, read
  and written by the fields \<open>be_meta\<close> and \<open>be_observer\<close>: callbacks of uploads reach them too, since the loader of
  \<open>be_layout\<close> calls \<open>observe_part\<close> when the upload of a part has succeeded.
\<close>

record upload_observer =
  ob_last_time :: int
  ob_uploaded_parts :: "part_metadata list"

record 'w backup_env =
  be_ctl :: "'w ch_ctl"
  be_layout :: "'w layout"
  be_dedup :: "'w dedup_ctl"
  be_schedule :: "'w schedule"
  be_meta :: "'w \<Rightarrow> backup_metadata"
  be_set_meta :: "backup_metadata \<Rightarrow> 'w \<Rightarrow> 'w"
  be_observer :: "'w \<Rightarrow> upload_observer"
  be_set_observer :: "upload_observer \<Rightarrow> 'w \<Rightarrow> 'w"
  be_time :: "('w, int) act"
  be_cloud_conf :: "(string \<times> conf) list"
  be_kill_old_freeze_queries :: bool
  be_dedup_batch_size :: int
  be_update_metadata_interval :: int
  be_validate_part_after_upload :: bool
  be_parallelize_freeze :: bool
  be_freeze_partition_threads :: int
  be_freeze_query_max_threads :: int

definition get_meta :: "'w backup_env \<Rightarrow> (backup_metadata \<Rightarrow> 'a) \<Rightarrow> ('w, 'a) act" where
  "get_meta env f w = (Inr (f (be_meta env w)), w)"

definition on_meta :: "'w backup_env \<Rightarrow> (backup_metadata, 'a) act \<Rightarrow> ('w, 'a) act" where
  "on_meta env m w = (case m (be_meta env w) of (r, b) \<Rightarrow> (r, be_set_meta env b w))"

definition change_meta :: "'w backup_env \<Rightarrow> (backup_metadata \<Rightarrow> backup_metadata) \<Rightarrow> ('w, unit) act" where
  "change_meta env f = on_meta env (\<lambda>b. (Inr (), f b))"

definition upload_meta :: "'w backup_env \<Rightarrow> ('w, unit) act" where
  "upload_meta env = bind_act (get_meta env (\<lambda>b. b)) (upload_backup_metadata (be_layout env))"

section \<open>The observer of uploaded parts\<close>

definition new_observer :: "'w backup_env \<Rightarrow> ('w, unit) act" where
  "new_observer env =
     bind_act (be_time env) (\<lambda>now w. (Inr (), be_set_observer env \<lparr>ob_last_time = now, ob_uploaded_parts = []\<rparr> w))"

definition change_observer :: "'w backup_env \<Rightarrow> (upload_observer \<Rightarrow> upload_observer) \<Rightarrow> ('w, unit) act" where
  "change_observer env f w = (Inr (), be_set_observer env (f (be_observer env w)) w)"

definition observe_part :: "'w backup_env \<Rightarrow> part_metadata \<Rightarrow> ('w, unit) act" where
  "observe_part env p =
     bind_act (change_observer env (\<lambda>ob. ob\<lparr>ob_uploaded_parts := ob_uploaded_parts ob @ [p]\<rparr>)) (\<lambda>_.
     bind_act (on_meta env (bm_add_part p)) (\<lambda>_.
     bind_act (be_time env) (\<lambda>now w.
       if now - ob_last_time (be_observer env w) \<ge> be_update_metadata_interval env
       then bind_act (upload_meta env) (\<lambda>_. change_observer env (\<lambda>ob. ob\<lparr>ob_last_time := now\<rparr>)) w
       else ret () w)))"

section \<open>Change times of the metadata files\<close>

type_synonym change_time = "string \<times> int \<times> int"

definition get_change_time :: "'w backup_env \<Rightarrow> string \<Rightarrow> ('w, change_time option) act" where
  "get_change_time env file_name =
     try_act (bind_act (hf_change_times (cc_files (be_ctl env)) file_name) (\<lambda>t. ret (Some (file_name, t))))
       is_os_error (\<lambda>_. ret None)"

definition collect_change_time ::
  "'w backup_env \<Rightarrow> table \<Rightarrow> (string \<times> string, change_time) dict \<Rightarrow> ('w, (string \<times> string, change_time) dict) act" where
  "collect_change_time env t stamps =
     bind_act (get_change_time env (tb_metadata_path t)) (\<lambda>c.
       ret (case c of None \<Rightarrow> stamps | Some c \<Rightarrow> dict_set stamps (table_key t) c))"

text \<open>The tables asked for are a \<open>defaultdict(list)\<close>: no list means all tables of the database.\<close>

definition collect_change_times ::
  "'w backup_env \<Rightarrow> database list \<Rightarrow> (string, string list) dict \<Rightarrow> ('w, (string \<times> string, change_time) dict) act" where
  "collect_change_times env dbs db_tables =
     for_act dbs (\<lambda>db stamps.
       if is_external_db_engine db then ret stamps
       else
         bind_act (get_tables (be_ctl env) (Some (db_name db)) (dd_get db_tables (db_name db) []) False) (\<lambda>ts.
           for_act ts (collect_change_time env) stamps)) []"

text \<open>\<open>remove_freezed_data(backup_name, table)\<close>: an empty name removes the frozen data of all tables.\<close>

definition remove_freezed_of :: "'w backup_env \<Rightarrow> string \<Rightarrow> table \<Rightarrow> ('w, unit) act" where
  "remove_freezed_of env backup_name t =
     (if backup_name = [] then remove_freezed_data (be_ctl env) else remove_freezed_table (be_ctl env) backup_name t)"

definition check_metadata_change_time ::
  "'w backup_env \<Rightarrow> table \<Rightarrow> string \<Rightarrow> change_time \<Rightarrow> bool \<Rightarrow> ('w, bool) act" where
  "check_metadata_change_time env t backup_name expected check_table_exists =
     bind_act (get_change_time env (tb_metadata_path t)) (\<lambda>current.
     bind_act (if current = Some expected
               then if check_table_exists then does_table_exist (be_ctl env) (tb_database t) (tb_name t) else ret True
               else ret False) (\<lambda>same.
       if same then ret True else bind_act (remove_freezed_of env backup_name t) (\<lambda>_. ret False)))"

section \<open>Freezing a table\<close>

definition load_create_statement :: "'w backup_env \<Rightarrow> table \<Rightarrow> ('w, string option) act" where
  "load_create_statement env t =
     (if tb_metadata_path t = [] then ret None
      else try_act (bind_act (hf_read (cc_files (be_ctl env)) (tb_metadata_path t)) (\<lambda>q. ret (Some q)))
             is_os_error (\<lambda>_. ret None))"

definition freeze_job ::
  "'w backup_env \<Rightarrow> table \<Rightarrow> string \<Rightarrow> bool \<Rightarrow> change_time \<Rightarrow> ('w, table option) act" where
  "freeze_job env t backup_name schema_only expected =
     bind_act (load_create_statement env t) (\<lambda>statement.
       case non_empty statement of
         None \<Rightarrow> ret None
       | Some q \<Rightarrow>
           (let t = t\<lparr>tb_create_statement := q\<rparr> in
            if schema_only \<or> \<not> is_merge_tree t then ret (Some t)
            else
              try_act
                (bind_act (freeze_table (be_ctl env) (be_schedule env) backup_name t (be_parallelize_freeze env)
                     (be_freeze_partition_threads env) (be_freeze_query_max_threads env)) (\<lambda>_. ret (Some t)))
                is_clickhouse_error (\<lambda>e.
                  bind_act (check_metadata_change_time env t backup_name expected True) (\<lambda>same.
                    if same then raise e else ret None))))"

section \<open>The data of a frozen table\<close>

definition deduplicate_parts_in_batch ::
  "'w backup_env \<Rightarrow> table \<Rightarrow> (string, frozen_part) dict \<Rightarrow> ('w, unit) act" where
  "deduplicate_parts_in_batch env t batch =
     bind_act (deduplicate_parts (be_layout env) (be_dedup env) (tb_database t) (tb_name t) batch) (\<lambda>reused.
       for_act batch (\<lambda>(name, fp) _.
         case map_of reused name of
           Some p \<Rightarrow> bind_act (remove_freezed_part (be_ctl env) fp) (\<lambda>_. on_meta env (bm_add_part p))
         | None \<Rightarrow>
             bind_act (get_meta env (\<lambda>b. b)) (\<lambda>b.
               upload_data_part (be_layout env) b fp (from_frozen_part fp (bm_encrypted b)))) ())"

text \<open>The body of the loop over the frozen parts, with the batch of parts not yet looked up.\<close>

definition backup_frozen_part ::
  "'w backup_env \<Rightarrow> table \<Rightarrow> disk \<Rightarrow> frozen_part \<Rightarrow> (string, frozen_part) dict \<Rightarrow> ('w, (string, frozen_part) dict) act" where
  "backup_frozen_part env t d fp batch =
     bind_act (lift_res (disk_type d)) (\<lambda>type.
       if type = ''s3''
       then bind_act (get_meta env bm_encrypted) (\<lambda>encrypted.
            bind_act (on_meta env (bm_add_part (from_frozen_part fp encrypted))) (\<lambda>_. ret batch))
       else
         (let batch = dict_set batch (fp_name fp) fp in
          if int (length batch) \<ge> be_dedup_batch_size env
          then bind_act (deduplicate_parts_in_batch env t batch) (\<lambda>_. ret []) else ret batch))"

definition validate_uploaded_parts :: "'w backup_env \<Rightarrow> part_metadata list \<Rightarrow> ('w, unit) act" where
  "validate_uploaded_parts env parts =
     when_act (be_validate_part_after_upload env)
       (bind_act (get_meta env bm_name) (\<lambda>name.
        bind_act (for_act parts (\<lambda>p invalid.
            bind_act (check_data_part (be_layout env) name p) (\<lambda>ok. ret (if ok then invalid else invalid @ [p]))) [])
          (\<lambda>invalid. if invalid \<noteq> [] then raise RuntimeError else ret ())))"

definition backup_frozen_table_data :: "'w backup_env \<Rightarrow> table \<Rightarrow> string \<Rightarrow> ('w, unit) act" where
  "backup_frozen_table_data env t backup_name =
     when_act (is_merge_tree t)
       (bind_act (new_observer env) (\<lambda>_.
        bind_act (for_act (tb_paths_with_disks t) (\<lambda>(data_path, d).
            for_frozen_parts (cc_files (be_ctl env)) t d data_path backup_name (backup_frozen_part env t d)) [])
          (\<lambda>batch.
        bind_act (when_act (batch \<noteq> []) (deduplicate_parts_in_batch env t batch)) (\<lambda>_.
        bind_act (layout_wait (be_layout env) False) (\<lambda>_.
        bind_act (\<lambda>w. validate_uploaded_parts env (ob_uploaded_parts (be_observer env w)) w) (\<lambda>_.
          remove_freezed_of env backup_name t))))))"

definition backup_cloud_storage_metadata :: "'w backup_env \<Rightarrow> table \<Rightarrow> ('w, unit) act" where
  "backup_cloud_storage_metadata env t =
     for_act (map snd (tb_paths_with_disks t)) (\<lambda>d _.
       bind_act (lift_res (disk_type d)) (\<lambda>type.
         when_act (type = ''s3'' \<and> non_empty (dk_cache_path d) = None)
           (bind_act (get_meta env (\<lambda>b. b)) (\<lambda>b.
            bind_act (upload_cloud_storage_metadata (be_layout env) b d t False) (\<lambda>uploaded.
              when_act uploaded
                (change_meta env (\<lambda>b. b\<lparr>bm_cloud_storage := cs_add_disk (bm_cloud_storage b) (dk_name d)\<rparr>)))))))
       ()"

section \<open>A database\<close>

text \<open>The body of the loop over the frozen tables; the statements to back up are the object.\<close>

definition record_frozen_table ::
  "'w backup_env \<Rightarrow> string \<Rightarrow> bool \<Rightarrow> (string \<times> string, change_time) dict \<Rightarrow> table \<Rightarrow> ('w \<times> (string \<times> string) list, unit) act" where
  "record_frozen_table env backup_name schema_only stamps t =
     bind_act (lift_res (dict_get stamps (table_key t))) (\<lambda>expected.
     bind_act (on_world (check_metadata_change_time env t backup_name expected False)) (\<lambda>same.
       when_act same
         (bind_act (set_object (\<lambda>statements. statements @ [(tb_name t, tb_create_statement t)])) (\<lambda>_.
          bind_act (on_world (on_meta env (bm_add_table
              (new_table_metadata (tb_database t) (tb_name t) (tb_engine t) (table_uuid t))))) (\<lambda>_.
            when_act (\<not> schema_only)
              (bind_act (on_world (backup_frozen_table_data env t backup_name)) (\<lambda>_.
                on_world (backup_cloud_storage_metadata env t))))))))"

definition pair_schedule :: "'w schedule \<Rightarrow> ('w \<times> 'b) schedule" where
  "pair_schedule sd = \<lparr>sd_ahead = sd_ahead sd \<circ> fst, sd_order = sd_order sd \<circ> fst\<rparr>"

definition freeze_and_record ::
  "'w backup_env \<Rightarrow> string \<Rightarrow> bool \<Rightarrow> (string \<times> string, change_time) dict \<Rightarrow> (table \<times> change_time) list
     \<Rightarrow> ('w \<times> (string \<times> string) list, unit) act" where
  "freeze_and_record env backup_name schema_only stamps tables =
     with_threads (pair_schedule (be_schedule env))
       (map (\<lambda>(t, expected). (''Freeze table \"'' @ tb_database t @ ''\".\"'' @ tb_name t @ ''\"'',
               on_world (freeze_job env t backup_name schema_only expected))) tables)
       (\<lambda>frozen _. case frozen of None \<Rightarrow> ret () | Some t \<Rightarrow> record_frozen_table env backup_name schema_only stamps t) ()"

definition upload_statements :: "'w backup_env \<Rightarrow> database \<Rightarrow> ('w \<times> (string \<times> string) list, unit) act" where
  "upload_statements env db =
     bind_act (get_object (\<lambda>statements. statements)) (\<lambda>statements.
       when_act (statements \<noteq> [])
         (on_world (bind_act (get_meta env (\<lambda>b. b)) (\<lambda>b. upload_create_statements (be_layout env) b db statements))))"

definition backup_database_tables ::
  "'w backup_env \<Rightarrow> database \<Rightarrow> string list \<Rightarrow> string \<Rightarrow> bool \<Rightarrow> (string \<times> string, change_time) dict \<Rightarrow> ('w, unit) act" where
  "backup_database_tables env db names backup_name schema_only stamps =
     bind_act
       (when_act (\<not> is_external_db_engine db)
          (bind_act (get_tables (be_ctl env) (Some (db_name db)) names False) (\<lambda>ts.
             let tables = List.map_filter (\<lambda>t. map_option (Pair t) (map_of stamps (table_key t))) ts in
             bind_act (create_shadow_increment (be_ctl env)) (\<lambda>_.
             bind_act (with_object []
                 (finally_act (freeze_and_record env backup_name schema_only stamps tables) (upload_statements env db))) (\<lambda>_.
             bind_act (layout_wait (be_layout env) False) (\<lambda>_.
               remove_freezed_data (be_ctl env)))))))
       (\<lambda>_. upload_meta env)"

section \<open>All tables\<close>

text \<open>\<open>cloud_conf.get("cloud_storage", {}).get(key, True)\<close>; a value that is no dictionary has no \<open>get\<close>.\<close>

definition cloud_flag :: "(string, conf) dict \<Rightarrow> string \<Rightarrow> bool res" where
  "cloud_flag conf key =
     (case config_get conf ''cloud_storage'' (CDict []) of
        CDict d \<Rightarrow> Inr (conf_true (config_get d key (CBool True)))
      | _ \<Rightarrow> Inl (OtherException ''AttributeError''))"

definition backup_tables ::
  "'w backup_env \<Rightarrow> database list \<Rightarrow> (string, string list) dict \<Rightarrow> bool \<Rightarrow> ('w, unit) act" where
  "backup_tables env dbs db_tables schema_only =
     bind_act (get_meta env (\<lambda>b. sanitize_name (bm_name b))) (\<lambda>backup_name.
     bind_act (lift_res (cloud_flag (be_cloud_conf env) ''encryption'')) (\<lambda>encryption.
     bind_act (when_act encryption
         (change_meta env (\<lambda>b. b\<lparr>bm_cloud_storage := cs_encrypt (bm_cloud_storage b)\<rparr>))) (\<lambda>_.
     bind_act (lift_res (cloud_flag (be_cloud_conf env) ''compression'')) (\<lambda>compression.
     bind_act (when_act compression
         (change_meta env (\<lambda>b. b\<lparr>bm_cloud_storage := cs_compress (bm_cloud_storage b)\<rparr>))) (\<lambda>_.
     bind_act (if_version (be_ctl env) ''25.2''
         (when_act (be_kill_old_freeze_queries env) (kill_old_freeze_queries (be_ctl env))) (ret ())) (\<lambda>_.
     bind_act (collect_change_times env dbs db_tables) (\<lambda>stamps.
       for_act dbs (\<lambda>db _.
         backup_database_tables env db (dd_get db_tables (db_name db) []) backup_name schema_only stamps) ())))))))"

end
