(* ===== verification/Databases.thy ===== *)
theory Databases
  imports TableBackup
begin

text \<open>
  Backup and restore of the objects of databases (\<^verbatim>\<open>logic/database.py\<close>).
\<close>

section \<open>Backup\<close>

definition backup_databases :: "'w backup_env \<Rightarrow> database list \<Rightarrow> ('w, database list) act" where
  "backup_databases env databases =
     (let embedded = filter has_embedded_metadata databases;
          others = filter (\<lambda>d. \<not> has_embedded_metadata d) databases in
      bind_act
        (if others = [] then ret []
         else bind_act (get_meta env (\<lambda>b. b)) (\<lambda>b. upload_database_create_statements (be_layout env) b others)) (\<lambda>uploaded.
      bind_act (layout_wait (be_layout env) False) (\<lambda>_.
      bind_act (for_act (uploaded @ embedded) (\<lambda>d _. on_meta env (bm_add_database d)) ()) (\<lambda>_.
      bind_act (upload_meta env) (\<lambda>_. ret (uploaded @ embedded))))))"

section \<open>Restore\<close>

definition databases_by_name :: "database list \<Rightarrow> (string, database) dict" where
  "databases_by_name ds = fold (\<lambda>d m. dict_set m (db_name d) d) ds []"

text \<open>The loop that chooses the databases to restore: those on the server, those chosen. A database with another
  engine is dropped.\<close>

type_synonym database_vars = "(string, database) dict \<times> (string, database) dict"

definition choose_database :: "'w ch_ctl \<Rightarrow> string \<times> database \<Rightarrow> database_vars \<Rightarrow> ('w, database_vars) act" where
  "choose_database c entry vars =
     (case (entry, vars) of ((name, d), (present, chosen)) \<Rightarrow>
        bind_act
          (case map_of present name of
             None \<Rightarrow> ret present
           | Some p \<Rightarrow>
               if db_engine d \<noteq> db_engine p
               then bind_act (drop_database_if_exists c name) (\<lambda>_. lift_res (dict_del present name))
               else ret present) (\<lambda>present.
          ret (present, if map_of present name = None then dict_set chosen name d else chosen)))"

definition create_statement_of :: "(string, string) dict \<Rightarrow> database \<Rightarrow> string res" where
  "create_statement_of statements d =
     (if has_embedded_metadata d then Inr (embedded_schema_db_sql d) else dict_get statements (db_name d))"

definition restore_one_database :: "'w restore_env \<Rightarrow> database \<Rightarrow> string \<Rightarrow> ('w, unit) act" where
  "restore_one_database env d sql =
     (if is_atomic d \<or> has_embedded_metadata d then
        bind_act (lift_res (rewrite_database_schema d (to_create_query sql) (rs_force_non_replicated env)
            (rs_override_replica_name env)))
          (restore_statement (rs_ctl env))
      else
        bind_act (write_database_metadata (rs_layout env) d (to_attach_query sql)) (\<lambda>_. attach_database (rs_ctl env) d))"

definition restore_databases ::
  "'w restore_env \<Rightarrow> backup_metadata \<Rightarrow> (string, database) dict \<Rightarrow> bool \<Rightarrow> 'w cleaner option \<Rightarrow> ('w, database list) act" where
  "restore_databases env b databases keep_going cleaner =
     bind_act (get_databases (rs_ctl env) []) (\<lambda>present.
     bind_act (for_act databases (choose_database (rs_ctl env)) (databases_by_name present, [])) (\<lambda>(_, chosen).
     bind_act (case cleaner of None \<Rightarrow> ret ()
               | Some mc \<Rightarrow> clean_database_metadata mc (filter is_replicated_db_engine (map snd chosen))) (\<lambda>_.
     bind_act (get_database_create_statements (rs_layout env) b
         (map fst (filter (\<lambda>(_, d). \<not> has_embedded_metadata d) chosen))) (\<lambda>statements.
     bind_act (for_act (map snd chosen) (\<lambda>d _.
         bind_act (lift_res (create_statement_of (fold (\<lambda>(n, st) m. dict_set m n st) statements []) d)) (\<lambda>sql.
           try_act (restore_one_database env d sql) (\<lambda>e. is_exception e \<and> keep_going) (\<lambda>_. ret ()))) ()) (\<lambda>_.
       ret (map snd chosen))))))"

section \<open>Which databases are restored\<close>

text \<open>The databases that are not on the server with the engine of the backup.\<close>

definition needs_restore :: "(string, database) dict \<Rightarrow> string \<times> database \<Rightarrow> bool" where
  "needs_restore present entry \<longleftrightarrow>
     (case map_of present (fst entry) of None \<Rightarrow> True | Some p \<Rightarrow> db_engine p \<noteq> db_engine (snd entry))"

lemma choose_database_result:
  assumes "choose_database c (name, d) (present, chosen) w = (Inr (present', chosen'), w')"
  shows "chosen' = (if needs_restore present (name, d) then dict_set chosen name d else chosen)
    \<and> (\<forall>n. n \<noteq> name \<longrightarrow> map_of present' n = map_of present n)"
proof (cases "map_of present name")
  case None
  then show ?thesis using assms by (simp add: choose_database_def needs_restore_def)
next
  case (Some p)
  show ?thesis
  proof (cases "db_engine d = db_engine p")
    case True
    then show ?thesis using assms Some by (simp add: choose_database_def needs_restore_def)
  next
    case False
    then show ?thesis using assms Some
      by (auto simp: choose_database_def needs_restore_def bind_act_result dict_del_def delete_conv' split: if_splits)
  qed
qed

lemma dict_set_new: "map_of d k = None \<Longrightarrow> dict_set d k v = d @ [(k, v)]"
  by (induction d) auto

lemma choose_databases_result:
  assumes "for_act databases (choose_database c) (present, chosen) w = (Inr (present', chosen'), w')"
    and "distinct (map fst databases)" "\<And>n. n \<in> fst ` set databases \<Longrightarrow> map_of chosen n = None"
  shows "chosen' = chosen @ filter (needs_restore present) databases"
  using assms
proof (induction databases arbitrary: present chosen w)
  case (Cons x databases)
  obtain name d where x: "x = (name, d)" by (cases x)
  from Cons.prems(1) obtain present1 chosen1 w1 where
    1: "choose_database c (name, d) (present, chosen) w = (Inr (present1, chosen1), w1)" and
    2: "for_act databases (choose_database c) (present1, chosen1) w1 = (Inr (present', chosen'), w')"
    by (auto simp: bind_act_result x)
  have new: "map_of chosen name = None" using Cons.prems(3) by (simp add: x)
  from choose_database_result [OF 1] new
  have c1: "chosen1 = (if needs_restore present (name, d) then chosen @ [(name, d)] else chosen)"
    and p1: "\<And>n. n \<noteq> name \<Longrightarrow> map_of present1 n = map_of present n" by (auto simp: dict_set_new)
  have "map_of chosen1 n = None" if "n \<in> fst ` set databases" for n
    using that c1 Cons.prems(2) Cons.prems(3) [of n] by (auto simp: x map_add_def)
  with Cons.IH [OF 2] Cons.prems(2)
  have "chosen' = chosen1 @ filter (needs_restore present1) databases" by simp
  moreover have "filter (needs_restore present1) databases = filter (needs_restore present) databases"
  proof (rule filter_cong [OF refl])
    fix y assume "y \<in> set databases"
    with Cons.prems(2) have "fst y \<noteq> name" by (force simp: x)
    with p1 show "needs_restore present1 y = needs_restore present y" by (simp add: needs_restore_def)
  qed
  ultimately show ?case using c1 by (simp add: x)
qed simp

text \<open>C8. A restore of databases that returns names, in the order of the backup, exactly the databases that the
  server did not have with the same engine (with \<open>keep_going\<close> also those whose statement failed).\<close>

theorem databases_restored:
  assumes "restore_databases env b databases keep_going cleaner w = (Inr restored, w')" "dict_ok databases"
    and "get_databases (rs_ctl env) [] w = (Inr present, w1)"
  shows "restored = map snd (filter (needs_restore (databases_by_name present)) databases)"
proof -
  from assms(1,3) obtain p' chosen w2 where
    "for_act databases (choose_database (rs_ctl env)) (databases_by_name present, []) w1 = (Inr (p', chosen), w2)"
    and "restored = map snd chosen"
    by (auto simp: restore_databases_def bind_act_result)
  with choose_databases_result [of databases "rs_ctl env" "databases_by_name present" "[]"] assms(2)
  show ?thesis by (simp add: dict_ok_def)
qed

text \<open>A server with one database, whose requests are counted, and a storage without objects.\<close>

definition one_database_client :: "nat ch_client" where
  "one_database_client =
     \<lparr>cl_post = \<lambda>q n. (Inr \<lparr>hr_status = 200, hr_text = '''', hr_json = Some (JObj [(''data'', JList [JObj
         [(''name'', JStr ''d''), (''engine'', JStr ''Atomic''), (''metadata_path'', JNull), (''uuid'', JNull)]])])\<rparr>, Suc n),
      cl_timeout = 10, cl_settings = []\<rparr>"

definition one_database_env :: "nat restore_env \<Rightarrow> nat restore_env" where
  "one_database_env env =
     env\<lparr>rs_ctl := (rs_ctl env)\<lparr>cc_client := one_database_client, cc_version := ''24.3''\<rparr>,
         rs_layout := (rs_layout env)\<lparr>ly_loader := (ly_loader (rs_layout env))\<lparr>ld_path_exists := \<lambda>p d. ret False\<rparr>\<rparr>\<rparr>"

definition default_database :: database where
  "default_database = \<lparr>db_name = ''default'', db_engine = Some ''Atomic'', db_metadata_path = None, db_uuid = None, db_engine_full = None\<rparr>"

lemma one_database_query:
  "query one_database_client opts q n = (Inr (Json (JObj [(''data'', JList [JObj
         [(''name'', JStr ''d''), (''engine'', JStr ''Atomic''), (''metadata_path'', JNull), (''uuid'', JNull)]])])), Suc n)"
  by (simp add: query_def query_attempt_def one_database_client_def bind_act_def numeral_eq_Suc)

lemma one_database_get:
  "get_databases (rs_ctl (one_database_env env)) [] n =
     (Inr [\<lparr>db_name = ''d'', db_engine = Some ''Atomic'', db_metadata_path = None, db_uuid = None, db_engine_full = None\<rparr>], Suc n)"
proof -
  have "ch_version_ge (rs_ctl (one_database_env env)) ''23.3'' = Inr True"
  proof -
    have "parse_version ''24.3'' = Inr [24, 3]" "parse_version ''23.3'' = Inr [23, 3]" by code_simp+
    then show ?thesis by (simp add: ch_version_ge_def one_database_env_def)
  qed
  then show ?thesis
    by (simp add: get_databases_def if_version_def bind_act_def ctl_query_def one_database_env_def one_database_query json_of_def
        as_list_def included_rows_def str_item_def j_item_def dict_get_def as_str_def database_row_def as_str_option_def
        str_get_def j_get_def)
qed

lemma rewrite_default: "\<exists>r. rewrite_database_schema default_database q f n = Inr r"
proof -
  have "sql_escape (db_name default_database) = ''default''" unfolding default_database_def by code_simp
  moreover have "\<exists>ts. parse_template names (''CREATE DATABASE '' @ BQ @ ''default'' @ BQ @ '' '') = Inr ts" for names
    by simp
  ultimately show ?thesis
    unfolding rewrite_database_schema_def rx_sub_template_def Let_def by (metis bind_res_simps(2))
qed

theorem databases_restored_witness:
  "\<forall>env. \<exists>n. restore_databases (one_database_env env) (sample_backup [] 0) (databases_sample @ [(''default'', default_database)])
      True None 0 = (Inr [default_database], n)"
proof
  fix env :: "nat restore_env"
  let ?dbs = "databases_sample @ [(''default'', default_database)]" and ?env = "one_database_env env"
  let ?present = "[\<lparr>db_name = ''d'', db_engine = Some ''Atomic'', db_metadata_path = None, db_uuid = None, db_engine_full = None\<rparr>]"
  have chosen: "for_act ?dbs (choose_database (rs_ctl ?env)) (databases_by_name ?present, []) (Suc 0)
      = (Inr (databases_by_name ?present, [(''default'', default_database)]), Suc 0)"
    by (simp add: databases_sample_def default_database_def choose_database_def databases_by_name_def bind_act_def)
  have embedded: "has_embedded_metadata default_database" by (simp add: has_embedded_metadata_def default_database_def)
  have statements: "get_database_create_statements (rs_layout ?env) (sample_backup [] 0) [] n = (Inr [], n)" for n
    by (simp add: get_database_create_statements_def one_database_env_def bind_act_def statements_one_by_one_def Let_def)
  have "\<exists>m. restore_one_database ?env default_database q n = (Inr (), m)" for q n
    using rewrite_default [of "to_create_query q" "rs_force_non_replicated ?env" "rs_override_replica_name ?env"] embedded
    by (auto simp: restore_one_database_def restore_statement_def ctl_run_def one_database_env_def one_database_query bind_act_def)
  then obtain m where "restore_one_database ?env default_database (embedded_schema_db_sql default_database) (Suc 0) = (Inr (), m)"
    by blast
  then obtain restored where run: "restore_databases ?env (sample_backup [] 0) ?dbs True None 0 = (Inr restored, m)"
    using embedded by (simp add: restore_databases_def one_database_get bind_act_def chosen statements create_statement_of_def
        try_act_def)
  have ok: "dict_ok ?dbs" by (simp add: dict_ok_def databases_sample_def)
  show "\<exists>n. restore_databases ?env (sample_backup [] 0) ?dbs True None 0 = (Inr [default_database], n)"
    using databases_restored [OF run ok one_database_get] run
    by (simp add: needs_restore_def databases_by_name_def databases_sample_def default_database_def)
qed

end
