(* ===== verification/ChConfig.thy ===== *)
theory ChConfig
  imports PyStr
begin

text \<open>
  The configuration of the server, as \<^verbatim>\<open>xmltodict\<close> returns it (\<^verbatim>\<open>clickhouse/config.py\<close>): an element is empty, a
  text or a section. Repeated elements, which are lists, are not used by the program.
\<close>

datatype xml = XNull | XStr string | XDict "(string \<times> xml) list"

text \<open>\<open>section.get(key)\<close>, where a missing key and an empty element are both \<open>None\<close>; \<open>.get\<close> on something that
  is not a section raises.\<close>

definition xml_get :: "(string, xml) dict \<Rightarrow> string \<Rightarrow> xml" where
  "xml_get d k = (case map_of d k of None \<Rightarrow> XNull | Some x \<Rightarrow> x)"

definition xml_section :: "xml \<Rightarrow> (string, xml) dict res" where
  "xml_section x = (case x of XDict d \<Rightarrow> Inr d | _ \<Rightarrow> Inl (OtherException ''AttributeError''))"

definition xml_true :: "xml \<Rightarrow> bool" where
  "xml_true x = (case x of XNull \<Rightarrow> False | XStr s \<Rightarrow> s \<noteq> [] | XDict d \<Rightarrow> d \<noteq> [])"

text \<open>A value used as a text or a path.\<close>

definition xml_str :: "xml \<Rightarrow> string res" where
  "xml_str x = (case x of XStr s \<Rightarrow> Inr s | _ \<Rightarrow> Inl TypeError)"

end
