(* ===== verification/TempDisks.thy ===== *)
theory TempDisks
  imports RestoreTables ChConfig
begin

text \<open>
  Temporary cloud storage disks (\<^verbatim>\<open>clickhouse/disks.py\<close>) and the comparison of S3 endpoints
  (\<^verbatim>\<open>util.py\<close>). Writing XML (\<^verbatim>\<open>xmltodict\<close>) and running a process are the parameters \<open>de_render\<close> and
  \<open>de_exec\<close>. An operation that changes the object runs on the pair of the world and the object.
\<close>

section \<open>Endpoints\<close>

text \<open>\<open>s3_uri_from_path_style_to_virtual_hosted\<close>: fewer than three parts raise.\<close>

definition s3_uri_from_path_style_to_virtual_hosted :: "string \<Rightarrow> string res" where
  "s3_uri_from_path_style_to_virtual_hosted url =
     (case split_on (CHR ''/'') url of
        scheme # _ # host # bucket # rest \<Rightarrow> Inr (scheme @ ''//'' @ bucket @ ''.'' @ host @ ''/'' @ join_str ''/'' rest)
      | _ \<Rightarrow> Inl IndexError)"

definition slashes :: "string \<Rightarrow> nat" where
  "slashes url = count_list url (CHR ''/'')"

definition is_equal_s3_endpoints :: "string \<Rightarrow> string \<Rightarrow> bool res" where
  "is_equal_s3_endpoints a b =
     (if slashes a = slashes b then Inr (a = b)
      else (let (a, b) = (if slashes a < slashes b then (b, a) else (a, b)) in
            if slashes a < 3 then Inr False
            else bind_res (s3_uri_from_path_style_to_virtual_hosted a) (\<lambda>v. Inr (v = b))))"

text \<open>The scheme and the network location of \<open>urlparse\<close>, for a URL without control characters.\<close>

definition is_alpha :: "char \<Rightarrow> bool" where
  "is_alpha c \<longleftrightarrow> is_alnum c \<and> \<not> is_digit c"

definition split_scheme :: "string \<Rightarrow> string \<times> string" where
  "split_scheme url =
     (let s = takeWhile (\<lambda>c. c \<noteq> CHR '':'') url in
      if s \<noteq> [] \<and> length s < length url \<and> is_alpha (hd s) \<and> list_all (\<lambda>c. is_alnum c \<or> c \<in> set ''+-.'') s
      then (lower s, drop (length s + 1) url) else ([], url))"

definition url_netloc :: "string \<Rightarrow> string" where
  "url_netloc url =
     (let r = snd (split_scheme url) in
      if prefix ''//'' r then takeWhile (\<lambda>c. c \<notin> set ''/?#'') (drop 2 r) else [])"

section \<open>The object\<close>

record 'w disk_env =
  de_ctl :: "'w ch_ctl"
  de_layout :: "'w layout"
  de_schedule :: "'w schedule"
  de_render :: "string \<Rightarrow> (string, xml) dict \<Rightarrow> string option \<Rightarrow> ('w, unit) act"
  de_exec :: "string \<Rightarrow> ('w, int) act"
  de_config_dir :: string
  de_config_disks :: "(string, xml) dict res"
  de_source_bucket :: "string option"
  de_source_path :: "string option"
  de_source_endpoint :: "string option"
  de_desired_tables :: desired_tables
  de_use_local_copy :: bool
  de_backup :: backup_metadata

record temp_disks =
  td_disks :: "(string, xml) dict"
  td_created :: "(string, disk) dict"
  td_available :: "(string, disk) dict"

definition CH_DISK_CONFIG_PATH :: string where "CH_DISK_CONFIG_PATH = ''/tmp/clickhouse-disks-config.xml''"
definition CH_DISK_HISTORY_FILE_PATH :: string where "CH_DISK_HISTORY_FILE_PATH = ''/tmp/.disks-file-history''"
definition CH_OBJECT_STORAGE_REQUEST_TIMEOUT_MS :: int where "CH_OBJECT_STORAGE_REQUEST_TIMEOUT_MS = 3600000"

definition disk_config_path :: "string \<Rightarrow> string \<Rightarrow> string" where
  "disk_config_path config_dir disk_name =
     path_join config_dir (''cloud_storage_tmp_disk_'' @ disk_name @ ''.xml'')"

definition tmp_disk_name :: "string \<Rightarrow> string" where
  "tmp_disk_name disk_name = disk_name @ ''_source''"

definition or_empty :: "string option \<Rightarrow> string" where
  "or_empty s = (case s of None \<Rightarrow> [] | Some s \<Rightarrow> s)"

text \<open>The constructor; \<open>source_bucket\<close> may be empty, but it must be given.\<close>

definition new_temp_disks :: "'w disk_env \<Rightarrow> temp_disks res" where
  "new_temp_disks env =
     (if cs_enabled (bm_cloud_storage (de_backup env)) \<and> de_source_bucket env = None then Inl RuntimeError
      else Inr \<lparr>td_disks = [], td_created = [], td_available = []\<rparr>)"

section \<open>Creating a disk\<close>

definition tmp_endpoint :: "'w disk_env \<Rightarrow> string \<Rightarrow> string" where
  "tmp_endpoint env endpoint =
     (let netloc = (case non_empty (de_source_endpoint env) of Some e \<Rightarrow> e | None \<Rightarrow> url_netloc endpoint) in
      path_joins (fst (split_scheme endpoint) @ ''://'' @ netloc)
        [or_empty (de_source_bucket env), or_empty (de_source_path env), ''''])"

text \<open>The configuration of the temporary disk, and whether the timeout of requests is raised.\<close>

definition tmp_disk_config :: "'w disk_env \<Rightarrow> (string, xml) dict \<Rightarrow> ((string, xml) dict \<times> bool) res" where
  "tmp_disk_config env conf =
     bind_res (bind_res (dict_get conf ''endpoint'') xml_str) (\<lambda>endpoint.
     bind_res (if de_use_local_copy env then is_equal_s3_endpoints (tmp_endpoint env endpoint) endpoint else Inr True) (\<lambda>same.
       if \<not> same then Inl RuntimeError
       else
         bind_res (case map_of conf ''request_timeout_ms'' of None \<Rightarrow> Inr 0 | Some x \<Rightarrow> bind_res (xml_str x) py_int) (\<lambda>ms.
           (let raise_timeout = (ms < CH_OBJECT_STORAGE_REQUEST_TIMEOUT_MS);
                conf = dict_set conf ''endpoint'' (XStr (tmp_endpoint env endpoint));
                conf = (if raise_timeout
                        then dict_set conf ''request_timeout_ms'' (XStr (int_str CH_OBJECT_STORAGE_REQUEST_TIMEOUT_MS)) else conf)
            in Inr (dict_set conf ''skip_access_check'' (XStr ''true''), raise_timeout)))))"

definition raised_timeout :: "string \<Rightarrow> string \<times> xml" where
  "raised_timeout disk_name =
     (disk_name, XDict [(''request_timeout_ms'',
        XDict [(''@replace'', XStr ''replace''), (''#text'', XStr (int_str CH_OBJECT_STORAGE_REQUEST_TIMEOUT_MS))])])"

definition create_temporary_disk :: "'w disk_env \<Rightarrow> string \<Rightarrow> ('w \<times> temp_disks, unit) act" where
  "create_temporary_disk env disk_name =
     bind_act (get_object td_disks) (\<lambda>disks.
     bind_act (lift_res (case map_of disks disk_name of
         None \<Rightarrow> Inl RuntimeError | Some (XDict conf) \<Rightarrow> Inr conf | Some _ \<Rightarrow> Inl TypeError)) (\<lambda>conf.
     bind_act (lift_res (tmp_disk_config env conf)) (\<lambda>(tmp_conf, raise_timeout).
     let tmp = tmp_disk_name disk_name in
     bind_act (when_act raise_timeout (set_object (\<lambda>td. td\<lparr>td_disks := dict_set (td_disks td) disk_name
         (XDict (dict_set conf ''request_timeout_ms'' (XStr (int_str CH_OBJECT_STORAGE_REQUEST_TIMEOUT_MS))))\<rparr>))) (\<lambda>_.
     bind_act (on_world (de_render env (disk_config_path (de_config_dir env) tmp)
         ((tmp, XDict tmp_conf) # (if raise_timeout then [raised_timeout disk_name] else [])) None)) (\<lambda>_.
     bind_act (on_world (reload_config (de_ctl env))) (\<lambda>_.
     bind_act (on_world (get_disk (de_ctl env) tmp)) (\<lambda>source_disk.
     bind_act (on_world (download_cloud_storage_metadata (de_layout env) (de_backup env) source_disk disk_name
         (de_desired_tables env) None)) (\<lambda>_.
       set_object (\<lambda>td. td\<lparr>td_created := dict_set (td_created td) tmp source_disk,
         td_disks := dict_set (td_disks td) tmp (XDict tmp_conf)\<rparr>)))))))))"

text \<open>\<open>not conf or conf.get("type") != "cache"\<close>\<close>

definition is_no_cache :: "xml \<Rightarrow> bool res" where
  "is_no_cache conf =
     (case conf of
        XNull \<Rightarrow> Inr True
      | XStr s \<Rightarrow> if s = [] then Inr True else Inl (OtherException ''AttributeError'')
      | XDict d \<Rightarrow> Inr (map_of d ''type'' \<noteq> Some (XStr ''cache'')))"

definition enter_disks :: "'w disk_env \<Rightarrow> ('w \<times> temp_disks, unit) act" where
  "enter_disks env =
     bind_act (lift_res (de_config_disks env)) (\<lambda>disks.
     bind_act (set_object (\<lambda>td. td\<lparr>td_disks := disks\<rparr>)) (\<lambda>_.
     bind_act (for_act (cs_disks (bm_cloud_storage (de_backup env))) (\<lambda>n _. create_temporary_disk env n) ()) (\<lambda>_.
     bind_act (on_world (layout_wait (de_layout env) False)) (\<lambda>_.
     bind_act (on_world (get_disks (de_ctl env))) (\<lambda>available.
     bind_act (set_object (\<lambda>td. td\<lparr>td_available := available\<rparr>)) (\<lambda>_.
     bind_act (get_object td_disks) (\<lambda>disks.
     bind_act (lift_res (map_res (\<lambda>(n, conf). bind_res (is_no_cache conf) (\<lambda>b. Inr (b, n, conf))) disks)) (\<lambda>confs.
       on_world (de_render env CH_DISK_CONFIG_PATH (map snd (filter fst confs)) (Some CH_DISK_HISTORY_FILE_PATH))))))))))"

text \<open>Leaving without an exception: the loop returns after the first disk whose configuration it removes.\<close>

fun remove_disks :: "'w disk_env \<Rightarrow> disk list \<Rightarrow> ('w \<times> temp_disks, unit) act" where
  "remove_disks env [] = ret ()"
| "remove_disks env (d # ds) =
     bind_act
       (try_act
          (bind_act (on_world (hf_remove (cc_files (de_ctl env)) (disk_config_path (de_config_dir env) (dk_name d)))) (\<lambda>_.
           bind_act (get_object td_disks) (\<lambda>disks.
           bind_act (lift_res (dict_del disks (dk_name d))) (\<lambda>disks.
           bind_act (set_object (\<lambda>td. td\<lparr>td_disks := disks\<rparr>)) (\<lambda>_. ret True)))))
          (\<lambda>e. e = FileNotFoundError) (\<lambda>_. ret False))
       (\<lambda>removed. if removed then ret () else remove_disks env ds)"

definition exit_disks :: "'w disk_env \<Rightarrow> ('w \<times> temp_disks, unit) act" where
  "exit_disks env = bind_act (get_object (\<lambda>td. map snd (td_created td))) (remove_disks env)"

text \<open>\<open>with ClickHouseTemporaryDisks(...) as disks: body\<close>; after an exception nothing is removed.\<close>

definition with_disks :: "'w disk_env \<Rightarrow> ((string, disk) dict \<Rightarrow> ('w, unit) act) \<Rightarrow> ('w, unit) act" where
  "with_disks env body =
     bind_act (lift_res (new_temp_disks env)) (\<lambda>td.
       with_object td
         (bind_act (enter_disks env) (\<lambda>_.
          bind_act (get_object td_available) (\<lambda>available.
          bind_act (on_world (body available)) (\<lambda>_. exit_disks env)))))"

section \<open>Copying parts\<close>

text \<open>\<open>_exec\<close>: the arguments are joined by spaces and run by a shell.\<close>

definition run_process :: "'w disk_env \<Rightarrow> string list \<Rightarrow> ('w, unit) act" where
  "run_process env words =
     bind_act (de_exec env (join_str '' '' words)) (\<lambda>code. if code \<noteq> 0 then raise RuntimeError else ret ())"

definition os_copy :: "'w disk_env \<Rightarrow> string \<Rightarrow> string \<Rightarrow> string \<Rightarrow> string \<Rightarrow> ('w, unit) act" where
  "os_copy env from_disk from_path to_disk to_path =
     bind_act (get_disk (de_ctl env) from_disk) (\<lambda>a.
     bind_act (get_disk (de_ctl env) to_disk) (\<lambda>b.
       run_process env [''/bin/cp'', ''-rf'', path_join (dk_path a) from_path, path_join (dk_path b) to_path]))"

definition ch_disks_copy :: "'w disk_env \<Rightarrow> string \<Rightarrow> string \<Rightarrow> string \<Rightarrow> string \<Rightarrow> ('w, unit) act" where
  "ch_disks_copy env from_disk from_path to_disk to_path =
     bind_act
       (if_version (de_ctl env) ''24.7''
          (ret [''--query'', SQ @ ''copy'', ''--recursive'', ''--disk-from'', from_disk, ''--disk-to'', to_disk, from_path, to_path, SQ])
          (if_version (de_ctl env) ''23.9''
             (ret [''copy'', ''--disk-from'', from_disk, ''--disk-to'', to_disk, from_path, to_path])
             (ret [''copy'', ''--diskFrom'', from_disk, ''--diskTo'', to_disk, from_path, to_path])))
       (\<lambda>words. run_process env ([''/usr/bin/clickhouse-disks'', ''--config'', CH_DISK_CONFIG_PATH] @ words))"

definition copy_dir :: "'w disk_env \<Rightarrow> string \<Rightarrow> string \<Rightarrow> string \<Rightarrow> string \<Rightarrow> ('w, unit) act" where
  "copy_dir env = (if de_use_local_copy env then os_copy env else ch_disks_copy env)"

definition run_copy_command ::
  "'w disk_env \<Rightarrow> (string, disk) dict \<Rightarrow> table \<Rightarrow> part_metadata \<Rightarrow> ('w, unit) act" where
  "run_copy_command env available t p =
     bind_act (lift_res (dict_get available (part_disk_name p))) (\<lambda>target.
     bind_act (lift_res (dict_get available (tmp_disk_name (part_disk_name p)))) (\<lambda>source.
       case filter (\<lambda>(path, d). dk_name d = dk_name target) (tb_paths_with_disks t) of
         [] \<Rightarrow> raise RuntimeError
       | (path, d) # _ \<Rightarrow>
           (let table_path = rel_path path (dk_path target);
                target_path = path_join table_path ''detached'' in
            bind_act (if_version (de_ctl env) ''23.7'' (ret (path_joins target_path [pm_name p, ''''])) (ret target_path))
              (\<lambda>target_path.
                copy_dir env (dk_name source)
                  (path_joins ''shadow'' [sanitize_name (bm_name (de_backup env)), table_path, deduplicated_part_name p, ''''])
                  (dk_name target) target_path))))"

text \<open>\<open>copy_parts\<close>: an old version of ClickHouse only causes a warning.\<close>

definition copy_parts ::
  "'w disk_env \<Rightarrow> (string, disk) dict \<Rightarrow> (table \<times> part_metadata) list \<Rightarrow> int \<Rightarrow> bool \<Rightarrow> (part_metadata \<Rightarrow> ('w, unit) act)
     \<Rightarrow> ('w, unit) act" where
  "copy_parts env available parts max_processes keep_going part_callback =
     bind_act (if max_processes > 1 then if_version (de_ctl env) ''23.3'' (ret ()) (ret ()) else ret ()) (\<lambda>_.
       run_threads (de_schedule env) keep_going
         (map (\<lambda>(t, p). (''Restore of part '' @ pm_name p, run_copy_command env available t p, part_callback p)) parts))"

end
