(* ===== verification/RestoreData.thy ===== *)
theory RestoreData
  imports TempDisks
begin

text \<open>
  Restoring tables with their data (\<^verbatim>\<open>logic/table.py\<close>: \<open>restore\<close> and \<open>_restore_data\<close>;
  \<^verbatim>\<open>clickhouse/control.py\<close>: \<open>chown_detached_table_parts\<close>). The restore context is the field \<open>rs_context\<close>
  of the world: the downloads of \<open>rs_layout\<close> reach it too, since their callback is
  \<open>set_part_state env DOWNLOADED\<close>.
\<close>

definition in_context :: "'w restore_env \<Rightarrow> ('w, 'a) context_act \<Rightarrow> ('w, 'a) act" where
  "in_context env m = on_field (rs_context env) (rs_set_context env) m"

definition set_part_state :: "'w restore_env \<Rightarrow> part_state \<Rightarrow> part_metadata \<Rightarrow> ('w, unit) act" where
  "set_part_state env state p = in_context env (change_part_state (rs_state_file env) state p)"

text \<open>The failure is recorded under the name of the database twice.\<close>

definition chown_detached_table_parts :: "'w restore_env \<Rightarrow> table \<Rightarrow> ('w, unit) act" where
  "chown_detached_table_parts env t =
     for_act (map snd (tb_paths_with_disks t)) (\<lambda>d _.
       bind_act (lift_res (get_table_detached_path t (dk_name d))) (\<lambda>path.
         try_act (chown_dir (rs_ctl env) path) (\<lambda>e. e = FileNotFoundError) (\<lambda>_.
           in_context env (add_failed_chown (rs_state_file env) (tb_database t) (tb_database t) path)))) ()"

section \<open>The data of one table\<close>

text \<open>The loop over the parts collects the parts to attach and the parts of cloud storage to copy.\<close>

type_synonym part_vars = "part_metadata list \<times> part_metadata list"

definition fetch_part ::
  "'w restore_env \<Rightarrow> backup_metadata \<Rightarrow> bool \<Rightarrow> table \<Rightarrow> part_metadata \<Rightarrow> part_vars \<Rightarrow> ('w, part_vars) act" where
  "fetch_part env b skip_cloud_storage t p vars =
     (case vars of (attach, cloud) \<Rightarrow>
        if part_disk_name p \<in> set (cs_disks (bm_cloud_storage b))
        then ret (if skip_cloud_storage then (attach, cloud) else (attach @ [p], cloud @ [p]))
        else
          bind_act (lift_res (get_detached_part_path t (part_disk_name p) (pm_name p))) (\<lambda>path.
          bind_act (download_data_part (rs_layout env) b p path) (\<lambda>_. ret (attach @ [p], cloud))))"

definition collect_restored_part ::
  "'w restore_env \<Rightarrow> backup_metadata \<Rightarrow> bool \<Rightarrow> bool \<Rightarrow> table \<Rightarrow> part_metadata \<Rightarrow> part_vars \<Rightarrow> ('w, part_vars) act" where
  "collect_restored_part env b skip_cloud_storage keep_going t p vars =
     bind_act (in_context env (part_restored (rs_state_file env) p)) (\<lambda>restored.
       if restored then ret vars
       else
         bind_act (in_context env (part_downloaded (rs_state_file env) p)) (\<lambda>downloaded.
           if downloaded then ret (fst vars @ [p], snd vars)
           else
             try_act (fetch_part env b skip_cloud_storage t p vars) (\<lambda>e. is_exception e \<and> keep_going) (\<lambda>_. ret vars)))"

text \<open>A part that cannot be attached is recorded as failed and invalid; the others are restored.\<close>

definition attach_restored_part :: "'w restore_env \<Rightarrow> table \<Rightarrow> part_metadata \<Rightarrow> ('w, unit) act" where
  "attach_restored_part env t p =
     try_act
       (bind_act (attach_part (rs_ctl env) t (pm_name p)) (\<lambda>_. set_part_state env RESTORED p))
       is_exception
       (\<lambda>e. bind_act (in_context env (add_failed_part (rs_state_file env) p (rs_exception_text env e)))
              (\<lambda>_. set_part_state env INVALID p))"

definition restore_parts ::
  "'w restore_env \<Rightarrow> 'w disk_env \<Rightarrow> (string, disk) dict \<Rightarrow> backup_metadata \<Rightarrow> int \<Rightarrow> bool \<Rightarrow> bool \<Rightarrow> table \<Rightarrow> part_metadata list
     \<Rightarrow> ('w, unit) act" where
  "restore_parts env de available b workers skip_cloud_storage keep_going t parts =
     bind_act (for_act parts (collect_restored_part env b skip_cloud_storage keep_going t) ([], [])) (\<lambda>(attach, cloud).
     bind_act (copy_parts de available (map (Pair t) cloud) workers keep_going (set_part_state env DOWNLOADED)) (\<lambda>_.
     bind_act (layout_wait (rs_layout env) keep_going) (\<lambda>_.
     bind_act (for_act (filter (\<lambda>p. \<not> rm_tarball (pm_raw p)) attach) (\<lambda>p _. set_part_state env DOWNLOADED p) ()) (\<lambda>_.
     bind_act (chown_detached_table_parts env t) (\<lambda>_.
       for_act attach (\<lambda>p _. attach_restored_part env t p) ())))))"

text \<open>The body of the \<open>try\<close>: \<open>get_table\<close> may find nothing the second time, and \<open>None\<close> has no attributes.\<close>

definition restore_table_data ::
  "'w restore_env \<Rightarrow> 'w disk_env \<Rightarrow> (string, disk) dict \<Rightarrow> backup_metadata \<Rightarrow> int \<Rightarrow> bool \<Rightarrow> bool \<Rightarrow> table_metadata
     \<Rightarrow> ('w, unit) act" where
  "restore_table_data env de available b workers skip_cloud_storage keep_going meta =
     bind_act (get_table (rs_ctl env) (tm_database meta) (tm_name meta) True) (\<lambda>short.
       case short of
         None \<Rightarrow> if keep_going then ret () else raise ClickhouseBackupError
       | Some s \<Rightarrow>
           when_act (is_merge_tree s)
             (bind_act (get_table (rs_ctl env) (tm_database meta) (tm_name meta) False) (\<lambda>found.
              bind_act (lift_res (get_parts {} meta)) (\<lambda>parts.
                case found of
                  None \<Rightarrow> raise (OtherException ''AttributeError'')
                | Some t \<Rightarrow> restore_parts env de available b workers skip_cloud_storage keep_going t parts))))"

definition restore_data ::
  "'w restore_env \<Rightarrow> 'w disk_env \<Rightarrow> (string, disk) dict \<Rightarrow> backup_metadata \<Rightarrow> int \<Rightarrow> bool \<Rightarrow> bool \<Rightarrow> table_metadata list
     \<Rightarrow> ('w, unit) act" where
  "restore_data env de available b workers skip_cloud_storage keep_going metas =
     for_act metas (\<lambda>meta _.
       finally_act (restore_table_data env de available b workers skip_cloud_storage keep_going meta)
         (in_context env (dump_state (rs_state_file env)))) ()"

section \<open>All tables\<close>

text \<open>The tables of the databases with an engine of their own, and those required by the caller: \<open>None\<close> means
  that none of the required tables is in the backup, and nothing is restored.\<close>

definition tables_of_databases :: "backup_metadata \<Rightarrow> (string, database) dict \<Rightarrow> table_metadata list res" where
  "tables_of_databases b databases =
     bind_res (map_res (\<lambda>db. bm_get_tables (Some (db_name db)) b)
         (filter (\<lambda>db. \<not> is_external_db_engine db) (map snd databases))) (\<lambda>ts. Inr (concat ts))"

definition required_tables ::
  "table_metadata list \<Rightarrow> table_metadata list \<Rightarrow> bool \<Rightarrow> table_metadata list option res" where
  "required_tables tables metas keep_going =
     (if tables = [] then Inr (Some metas)
      else if \<not> keep_going \<and> (\<exists>t \<in> set tables. meta_key t \<notin> meta_key ` set metas) then Inl ClickhouseBackupError
      else (let chosen = filter (\<lambda>m. List.member (map meta_key tables) (meta_key m)) metas in
            Inr (if chosen = [] then None else Some chosen)))"

definition name_for_log :: "table_metadata \<Rightarrow> string" where
  "name_for_log t = BQ @ tm_database t @ BQ @ ''.'' @ BQ @ tm_name t @ BQ"

definition restore_table_backup ::
  "'w restore_env \<Rightarrow> 'w disk_env \<Rightarrow> backup_metadata \<Rightarrow> (string, database) dict \<Rightarrow> bool \<Rightarrow> table_metadata list \<Rightarrow> 'w cleaner option
     \<Rightarrow> int \<Rightarrow> bool \<Rightarrow> bool \<Rightarrow> bool \<Rightarrow> ('w, unit) act" where
  "restore_table_backup env de b databases schema_only tables cleaner workers skip_cloud_storage keep_going in_replicated =
     bind_act (lift_res (bind_res (tables_of_databases b databases) (\<lambda>ms. required_tables tables ms keep_going))) (\<lambda>required.
       case required of
         None \<Rightarrow> ret ()
       | Some metas \<Rightarrow>
           bind_act (lift_res (filter_duplicate_uuid metas keep_going)) (\<lambda>(filtered, _).
           bind_act (get_tables_from_meta (rs_layout env) b filtered keep_going) (\<lambda>(ts, _).
           bind_act (preprocess_tables_to_restore env databases ts keep_going in_replicated cleaner) (\<lambda>(ts, _).
           bind_act (restore_tables env databases ts keep_going) (\<lambda>failed.
             when_act (\<not> schema_only)
               (let de = de\<lparr>de_desired_tables := TheseTables metas, de_backup := b\<rparr>;
                    failed_names = map (\<lambda>t. BQ @ tb_database t @ BQ @ ''.'' @ BQ @ tb_name t @ BQ) failed in
                with_disks de (\<lambda>available.
                  restore_data env de available b workers skip_cloud_storage keep_going
                    (filter (\<lambda>m. \<not> List.member failed_names (name_for_log m)) metas))))))))"

end
