(* ===== verification/Workloads.thy ===== *)
theory Workloads
  imports LayoutOps
begin

text \<open>
  Workload entities (\<^verbatim>\<open>logic/workload_entities.py\<close>): the order in which workloads are created
  again. A workload may name a parent; \<open>topologically_sort_workload_entities\<close> walks
  from every workload to its parents first. The walk ends on every input, a cycle of parents included,
  because no name is walked from twice; this is the termination proof of \<open>walk_to_parents\<close>.

  The backup and the restore of the entities are in the theory \<open>Entities\<close>.
\<close>

section \<open>Entities\<close>

record workload_entity =
  we_name :: string
  we_type :: entity_type
  we_create_statement :: string
  we_parent :: "string option"

definition filename_on_disk :: "workload_entity \<Rightarrow> string" where
  "filename_on_disk e = type_value (we_type e) @ ''_'' @ escape_metadata_file_name (we_name e) @ ''.sql''"

section \<open>Sorting\<close>

definition workload_map :: "workload_entity list \<Rightarrow> (string, workload_entity) dict" where
  "workload_map es = fold (\<lambda>e d. dict_set d (we_name e) e) es []"

function walk_to_parents ::
  "(string, workload_entity) dict \<Rightarrow> workload_entity \<Rightarrow> workload_entity list \<times> string list
     \<Rightarrow> (workload_entity list \<times> string list) res" where
  "walk_to_parents m e (result, visited) =
     (if we_name e \<in> set visited then Inr (result, visited)
      else bind_res
        (case we_parent e of
           None \<Rightarrow> Inr (result, we_name e # visited)
         | Some p \<Rightarrow>
             (case map_of m p of
                None \<Rightarrow> Inl RuntimeError
              | Some q \<Rightarrow> walk_to_parents m q (result, we_name e # visited)))
        (\<lambda>(result', visited'). Inr (result' @ [e], visited')))"
  by pat_completeness auto

termination
proof (relation "measure (\<lambda>(m, e, result, visited). card (insert (we_name e) (we_name ` snd ` set m) - set visited))")
  fix m :: "(string, workload_entity) dict" and e q :: workload_entity and p and result :: "workload_entity list" and visited
  assume e: "we_name e \<notin> set visited" and q: "map_of m p = Some q"
  let ?N = "we_name ` snd ` set m"
  have "insert (we_name q) ?N = ?N" using map_of_SomeD [OF q] by force
  moreover have "insert (we_name e) ?N - set visited = insert (we_name e) (?N - set (we_name e # visited))"
    using e by auto
  moreover have "card (insert (we_name e) (?N - set (we_name e # visited))) = Suc (card (?N - set (we_name e # visited)))"
    by (rule card_insert_disjoint) auto
  ultimately show "((m, q, result, we_name e # visited), (m, e, result, visited)) \<in>
      measure (\<lambda>(m, e, result, visited). card (insert (we_name e) (we_name ` snd ` set m) - set visited))"
    by simp
qed simp

declare walk_to_parents.simps [simp del]

lemma walk_visited: "we_name e \<in> set v \<Longrightarrow> walk_to_parents m e (r, v) = Inr (r, v)"
  by (simp add: walk_to_parents.simps)

lemma walk_root:
  "we_name e \<notin> set v \<Longrightarrow> we_parent e = None \<Longrightarrow> walk_to_parents m e (r, v) = Inr (r @ [e], we_name e # v)"
  by (simp add: walk_to_parents.simps)

lemma walk_up:
  "we_name e \<notin> set v \<Longrightarrow> we_parent e = Some p \<Longrightarrow> map_of m p = Some q \<Longrightarrow> walk_to_parents m e (r, v) =
     bind_res (walk_to_parents m q (r, we_name e # v)) (\<lambda>(r', v'). Inr (r' @ [e], v'))"
  by (subst walk_to_parents.simps) simp

lemma walk_missing:
  "we_name e \<notin> set v \<Longrightarrow> we_parent e = Some p \<Longrightarrow> map_of m p = None \<Longrightarrow> walk_to_parents m e (r, v) = Inl RuntimeError"
  by (subst walk_to_parents.simps) simp

definition topologically_sort :: "workload_entity list \<Rightarrow> workload_entity list res" where
  "topologically_sort es =
     bind_res (fold_res (walk_to_parents (workload_map es)) es ([], [])) (\<lambda>(result, visited). Inr result)"

section \<open>The order\<close>

text \<open>A list in which every parent that a workload names stands before the workload.\<close>

definition parents_first :: "workload_entity list \<Rightarrow> bool" where
  "parents_first es \<longleftrightarrow>
     (\<forall>xs e zs p. es = xs @ e # zs \<longrightarrow> we_parent e = Some p \<longrightarrow> p \<in> we_name ` set xs)"

lemma parents_first_append:
  "parents_first (es @ [e]) \<longleftrightarrow> parents_first es \<and> (\<forall>p. we_parent e = Some p \<longrightarrow> p \<in> we_name ` set es)"
proof
  assume p: "parents_first (es @ [e])"
  then have "parents_first es"
    unfolding parents_first_def by (metis append_assoc append_Cons)
  with p show "parents_first es \<and> (\<forall>p. we_parent e = Some p \<longrightarrow> p \<in> we_name ` set es)"
    unfolding parents_first_def by blast
next
  assume a: "parents_first es \<and> (\<forall>p. we_parent e = Some p \<longrightarrow> p \<in> we_name ` set es)"
  show "parents_first (es @ [e])"
    unfolding parents_first_def
  proof (intro allI impI)
    fix xs f zs p assume eq: "es @ [e] = xs @ f # zs" and f: "we_parent f = Some p"
    show "p \<in> we_name ` set xs"
    proof (cases zs rule: rev_cases)
      case Nil
      with eq a f show ?thesis by simp
    next
      case (snoc ys y)
      with eq have "es = xs @ f # ys" by simp
      with a f show ?thesis unfolding parents_first_def by blast
    qed
  qed
qed

text \<open>Parents without a cycle: a rank that goes down from a workload to its parent.\<close>

definition ranked :: "(string \<Rightarrow> nat) \<Rightarrow> workload_entity list \<Rightarrow> bool" where
  "ranked rank es \<longleftrightarrow> (\<forall>e \<in> set es. \<forall>p. we_parent e = Some p \<longrightarrow> rank p < rank (we_name e))"

text \<open>What one walk adds. The names visited but not yet in the result are those on the way down.\<close>

lemma walk_adds:
  assumes "walk_to_parents m e (r, v) = Inr (r', v')"
    and m: "\<And>p q. map_of m p = Some q \<Longrightarrow> we_name q = p" and "we_name ` set r \<subseteq> set v"
  shows "\<exists>new. r' = r @ new \<and> set v' = set v \<union> we_name ` set new \<and> distinct (map we_name new) \<and>
      we_name ` set new \<inter> set v = {} \<and> set new \<subseteq> insert e (ran (map_of m)) \<and> we_name e \<in> set v' \<and>
      (\<forall>x \<in> set new. \<forall>p. we_parent x = Some p \<longrightarrow> map_of m p \<noteq> None)"
  using assms(1,3)
proof (induction "card (insert (we_name e) (we_name ` ran (map_of m)) - set v)" arbitrary: e r v r' v' rule: less_induct)
  case less
  show ?case
  proof (cases "we_name e \<in> set v")
    case True
    with less.prems(1) show ?thesis by (intro exI [of _ "[]"]) (auto simp: walk_visited)
  next
    case False
    show ?thesis
    proof (cases "we_parent e")
      case None
      with less.prems(1) False show ?thesis by (intro exI [of _ "[e]"]) (auto simp: walk_root)
    next
      case (Some p)
      with less.prems(1) False obtain q where q: "map_of m p = Some q"
        by (cases "map_of m p") (auto simp: walk_missing)
      with less.prems(1) False Some obtain r1 where
        w: "walk_to_parents m q (r, we_name e # v) = Inr (r1, v')" and r': "r' = r1 @ [e]"
        by (auto simp: walk_up)
      have "q \<in> ran (map_of m)" using q by (rule ranI)
      then have N: "insert (we_name q) (we_name ` ran (map_of m)) = we_name ` ran (map_of m)" by blast
      have fin: "finite (insert (we_name e) (we_name ` ran (map_of m)) - set v)"
        by (simp add: finite_ran finite_dom_map_of)
      have dec: "card (insert (we_name q) (we_name ` ran (map_of m)) - set (we_name e # v))
          < card (insert (we_name e) (we_name ` ran (map_of m)) - set v)"
        unfolding N by (rule psubset_card_mono [OF fin]) (use False in auto)
      have sub: "we_name ` set r \<subseteq> set (we_name e # v)" using less.prems(2) by auto
      from less.hyps [OF dec w sub] obtain new where new: "r1 = r @ new"
        "set v' = set (we_name e # v) \<union> we_name ` set new" "distinct (map we_name new)"
        "we_name ` set new \<inter> set (we_name e # v) = {}" "set new \<subseteq> insert q (ran (map_of m))"
        "\<forall>x \<in> set new. \<forall>p. we_parent x = Some p \<longrightarrow> map_of m p \<noteq> None"
        by auto
      with False r' Some q \<open>q \<in> ran (map_of m)\<close> show ?thesis by (intro exI [of _ "new @ [e]"]) auto
    qed
  qed
qed

lemma walk_parents_first:
  fixes rank :: "string \<Rightarrow> nat"
  assumes "walk_to_parents m e (r, v) = Inr (r', v')"
    and m: "\<And>p q. map_of m p = Some q \<Longrightarrow> we_name q = p"
    and rank: "\<And>x p. x \<in> insert e (ran (map_of m)) \<Longrightarrow> we_parent x = Some p \<Longrightarrow> rank p < rank (we_name x)"
    and "we_name ` set r \<subseteq> set v" "\<And>n. n \<in> set v - we_name ` set r \<Longrightarrow> rank (we_name e) < rank n"
    and "parents_first r"
  shows "parents_first r' \<and> we_name ` set r' \<subseteq> set v' \<and> we_name e \<in> we_name ` set r' \<and>
    set v' - we_name ` set r' = set v - we_name ` set r"
  using assms(1,3-)
proof (induction "rank (we_name e)" arbitrary: e r v r' v' rule: less_induct)
  case less
  show ?case
  proof (cases "we_name e \<in> set v")
    case True
    then have "we_name e \<in> we_name ` set r" using less.prems(4) [of "we_name e"] by blast
    with True less.prems(1,3,5) show ?thesis by (simp add: walk_visited)
  next
    case False
    show ?thesis
    proof (cases "we_parent e")
      case None
      with less.prems(1) False have "r' = r @ [e]" "v' = we_name e # v" by (simp_all add: walk_root)
      with less.prems(3,5) None False show ?thesis by (auto simp: parents_first_append)
    next
      case (Some p)
      with less.prems(1) False obtain q where q: "map_of m p = Some q"
        by (cases "map_of m p") (auto simp: walk_missing)
      with less.prems(1) False Some obtain r1 where
        w: "walk_to_parents m q (r, we_name e # v) = Inr (r1, v')" and r': "r' = r1 @ [e]"
        by (auto simp: walk_up)
      have name: "we_name q = p" by (rule m [OF q])
      have ranq: "q \<in> ran (map_of m)" using q by (rule ranI)
      have lt: "rank (we_name q) < rank (we_name e)" using less.prems(2) [of e p] Some name by simp
      have rank': "\<And>x p. x \<in> insert q (ran (map_of m)) \<Longrightarrow> we_parent x = Some p \<Longrightarrow> rank p < rank (we_name x)"
        using less.prems(2) ranq by blast
      have sub: "we_name ` set r \<subseteq> set (we_name e # v)" using less.prems(3) by auto
      have stack: "rank (we_name q) < rank n" if "n \<in> set (we_name e # v) - we_name ` set r" for n
        using that less.prems(4) [of n] lt by (cases "n = we_name e") auto
      from less.hyps [OF lt w rank' sub stack less.prems(5)]
      have IH: "parents_first r1" "we_name ` set r1 \<subseteq> set v'" "p \<in> we_name ` set r1"
        "set v' - we_name ` set r1 = set (we_name e # v) - we_name ` set r"
        unfolding name by blast+
      have "we_name e \<in> set v'" "we_name e \<notin> we_name ` set r1"
        using IH(4) False less.prems(3) by auto
      moreover from this have "set v' - we_name ` set r' = set v - we_name ` set r"
        using IH(4) False unfolding r' by auto
      ultimately show ?thesis
        using IH r' Some by (auto simp: parents_first_append)
    qed
  qed
qed

lemma walk_error:
  assumes "walk_to_parents m e (r, v) = Inl x" and m: "\<And>p q. map_of m p = Some q \<Longrightarrow> we_name q = p"
  shows "x = RuntimeError \<and> (\<exists>f p. f \<in> insert e (ran (map_of m)) \<and> we_parent f = Some p \<and> map_of m p = None)"
  using assms(1)
proof (induction m e "(r, v)" arbitrary: r v rule: walk_to_parents.induct)
  case (1 m e r v)
  have new: "we_name e \<notin> set v" using 1(2) by (auto simp: walk_visited)
  then obtain p where p: "we_parent e = Some p" using 1(2) by (cases "we_parent e") (auto simp: walk_root)
  show ?case
  proof (cases "map_of m p")
    case None
    with 1(2) new p show ?thesis by (auto simp: walk_missing)
  next
    case (Some q)
    with 1(2) new p have "walk_to_parents m q (r, we_name e # v) = Inl x"
      by (cases "walk_to_parents m q (r, we_name e # v)") (auto simp: walk_up)
    from "1.hyps" [OF new p Some this] ranI [of "map_of m" p q] Some show ?thesis by blast
  qed
qed

subsection \<open>The whole list\<close>

lemma workload_map_key:
  assumes "map_of (workload_map es) p = Some q"
  shows "we_name q = p \<and> q \<in> set es"
proof -
  have "map_of (fold (\<lambda>e d. dict_set d (we_name e) e) es d) p = Some q \<Longrightarrow>
      we_name q = p \<and> q \<in> set es \<or> map_of d p = Some q" for d
    by (induction es arbitrary: d) (fastforce split: if_splits)+
  from this [of "[]"] assms show ?thesis by (simp add: workload_map_def)
qed

lemma workload_map_None: "map_of (workload_map es) p = None \<longleftrightarrow> p \<notin> we_name ` set es"
proof -
  have "map_of (fold (\<lambda>e d. dict_set d (we_name e) e) es d) p = None \<longleftrightarrow> p \<notin> we_name ` set es \<and> map_of d p = None" for d
    by (induction es arbitrary: d) auto
  from this [of "[]"] show ?thesis by (simp add: workload_map_def)
qed

lemma walk_map_entities:
  assumes "x \<in> insert e (ran (map_of (workload_map es)))" "e \<in> set es"
  shows "x \<in> set es"
  using assms workload_map_key by (fastforce simp: ran_def)

lemma walk_all_adds:
  assumes "fold_res (walk_to_parents (workload_map es)) fs (r, v) = Inr (r', v')" "set fs \<subseteq> set es" "we_name ` set r = set v"
  shows "\<exists>new. r' = r @ new \<and> set v' = set v \<union> we_name ` set new \<and> distinct (map we_name new) \<and>
      we_name ` set new \<inter> set v = {} \<and> set new \<subseteq> set es \<and> we_name ` set fs \<subseteq> set v' \<and>
      (\<forall>x \<in> set new. \<forall>p. we_parent x = Some p \<longrightarrow> p \<in> we_name ` set es)"
  using assms
proof (induction fs arbitrary: r v)
  case (Cons e fs)
  from Cons.prems(1) obtain r1 v1 where 1: "walk_to_parents (workload_map es) e (r, v) = Inr (r1, v1)"
    and 2: "fold_res (walk_to_parents (workload_map es)) fs (r1, v1) = Inr (r', v')" by auto
  have e: "e \<in> set es" using Cons.prems(2) by simp
  obtain n1 where n1: "r1 = r @ n1" "set v1 = set v \<union> we_name ` set n1" "distinct (map we_name n1)"
    "we_name ` set n1 \<inter> set v = {}" "set n1 \<subseteq> set es" "we_name e \<in> set v1"
    "\<forall>x \<in> set n1. \<forall>p. we_parent x = Some p \<longrightarrow> p \<in> we_name ` set es"
  proof -
    have "\<And>p q. map_of (workload_map es) p = Some q \<Longrightarrow> we_name q = p" by (simp add: workload_map_key)
    from walk_adds [OF 1 this] Cons.prems(3) obtain n where n: "r1 = r @ n"
      "set v1 = set v \<union> we_name ` set n" "distinct (map we_name n)" "we_name ` set n \<inter> set v = {}"
      "set n \<subseteq> insert e (ran (map_of (workload_map es)))" "we_name e \<in> set v1"
      "\<forall>x \<in> set n. \<forall>p. we_parent x = Some p \<longrightarrow> map_of (workload_map es) p \<noteq> None" by auto
    have sub: "set n \<subseteq> set es" using n(5) walk_map_entities [OF _ e] by blast
    have par: "\<forall>x \<in> set n. \<forall>p. we_parent x = Some p \<longrightarrow> p \<in> we_name ` set es"
      using n(7) workload_map_None by blast
    show ?thesis by (rule that [OF n(1-4) sub n(6) par])
  qed
  have "we_name ` set r1 = set v1" using n1(1,2) Cons.prems(3) by auto
  from Cons.IH [OF 2 _ this] Cons.prems(2) obtain n2 where n2: "r' = r1 @ n2" "set v' = set v1 \<union> we_name ` set n2"
    "distinct (map we_name n2)" "we_name ` set n2 \<inter> set v1 = {}" "set n2 \<subseteq> set es" "we_name ` set fs \<subseteq> set v'"
    "\<forall>x \<in> set n2. \<forall>p. we_parent x = Some p \<longrightarrow> p \<in> we_name ` set es" by auto
  show ?case using n1 n2 by (intro exI [of _ "n1 @ n2"]) auto
qed (intro exI [of _ "[]"], auto)

lemma walk_all_parents_first:
  fixes rank :: "string \<Rightarrow> nat"
  assumes "fold_res (walk_to_parents (workload_map es)) fs (r, v) = Inr (r', v')" "set fs \<subseteq> set es" "we_name ` set r = set v"
    and "ranked rank es" "parents_first r"
  shows "parents_first r'"
  using assms(1-3,5)
proof (induction fs arbitrary: r v)
  case (Cons e fs)
  from Cons.prems(1) obtain r1 v1 where 1: "walk_to_parents (workload_map es) e (r, v) = Inr (r1, v1)"
    and 2: "fold_res (walk_to_parents (workload_map es)) fs (r1, v1) = Inr (r', v')" by auto
  have e: "e \<in> set es" using Cons.prems(2) by simp
  have "parents_first r1 \<and> we_name ` set r1 \<subseteq> set v1 \<and> we_name e \<in> we_name ` set r1 \<and>
      set v1 - we_name ` set r1 = set v - we_name ` set r"
  proof (rule walk_parents_first [OF 1, where rank = rank])
    fix x p assume "x \<in> insert e (ran (map_of (workload_map es)))" "we_parent x = Some p"
    with walk_map_entities [OF _ e] assms(4) show "rank p < rank (we_name x)" by (auto simp: ranked_def)
  qed (use Cons.prems workload_map_key in auto)
  then have "parents_first r1" "we_name ` set r1 = set v1" using Cons.prems(3) by auto
  with Cons.IH [OF 2] Cons.prems(2) show ?case by simp
qed simp



end
