(* ===== verification/Entities.thy ===== *)
theory Entities
  imports Workloads Zookeeper Schema ChConfig
begin

text \<open>
  User defined functions (\<^verbatim>\<open>logic/udf.py\<close>), named collections (\<^verbatim>\<open>logic/named_collections.py\<close>), the files the server
  encrypts (\<^verbatim>\<open>clickhouse/encryption.py\<close>) and workload entities (\<^verbatim>\<open>logic/workload_entities.py\<close>): reading them from the
  server's local directory or from ZooKeeper, uploading them, and creating them again.

  The record \<open>manager_env\<close> is the part of \<open>BackupContext\<close> the managers use. The backup metadata is a field of the world.
\<close>

section \<open>The context\<close>

record 'w manager_env =
  mg_ctl :: "'w ch_ctl"
  mg_layout :: "'w layout"
  mg_zookeeper :: "'w zookeeper option"
  mg_meta :: "'w \<Rightarrow> backup_metadata"
  mg_set_meta :: "backup_metadata \<Rightarrow> 'w \<Rightarrow> 'w"
  mg_config :: "(string, xml) dict"
  mg_user :: string
  mg_group :: string
  mg_tmp_path :: string
  mg_access_control_path :: string
  mg_zk_access_control_path :: string
  mg_named_collections_path :: "string option"
  mg_workload_path :: "string option"

definition mg_get :: "'w manager_env \<Rightarrow> (backup_metadata \<Rightarrow> 'a) \<Rightarrow> ('w, 'a) act" where
  "mg_get env f w = (Inr (f (mg_meta env w)), w)"

definition mg_change :: "'w manager_env \<Rightarrow> (backup_metadata, 'a) act \<Rightarrow> ('w, 'a) act" where
  "mg_change env m w = (case m (mg_meta env w) of (r, b) \<Rightarrow> (r, mg_set_meta env b w))"

text \<open>\<open>context.zk_ctl\<close> raises when no hosts are configured.\<close>

definition zk_ctl :: "'w manager_env \<Rightarrow> ('w, 'w zookeeper) act" where
  "zk_ctl env = (case mg_zookeeper env of None \<Rightarrow> raise RuntimeError | Some z \<Rightarrow> ret z)"

abbreviation mg_files :: "'w manager_env \<Rightarrow> 'w host_files" where
  "mg_files env \<equiv> cc_files (mg_ctl env)"

text \<open>\<open>ensure_owned_directory(tmp_path)\<close>, then \<open>with temp_directory(tmp_path, backup_name) as d: body\<close>.\<close>

definition in_temp_directory :: "'w manager_env \<Rightarrow> (string \<Rightarrow> ('w, unit) act) \<Rightarrow> ('w, unit) act" where
  "in_temp_directory env body =
     bind_act (ensure_owned_directory (mg_files env) (mg_tmp_path env) (mg_user env) (mg_group env)) (\<lambda>_.
     bind_act (mg_get env bm_name) (\<lambda>n. with_temp_directory (mg_files env) (mg_tmp_path env) n body))"

text \<open>\<open>posixpath.normpath\<close>; the accumulator holds the components kept so far, last one first.\<close>

fun norm_parts :: "bool \<Rightarrow> string list \<Rightarrow> string list \<Rightarrow> string list" where
  "norm_parts absolute acc [] = rev acc"
| "norm_parts absolute acc (c # cs) =
     (if c = [] \<or> c = ''.'' then norm_parts absolute acc cs
      else if c \<noteq> ''..'' \<or> \<not> absolute \<and> acc = [] \<or> acc \<noteq> [] \<and> hd acc = ''..'' then norm_parts absolute (c # acc) cs
      else norm_parts absolute (tl acc) cs)"

definition norm_path :: "string \<Rightarrow> string" where
  "norm_path p =
     (let slashes = (if prefix ''//'' p \<and> \<not> prefix ''///'' p then ''//'' else if prefix ''/'' p then ''/'' else []);
          r = slashes @ join_str ''/'' (norm_parts (slashes \<noteq> []) [] (split_on CHR ''/'' p))
      in if r = [] then ''.'' else r)"

text \<open>\<open>if posixpath.isabs(path): path = path[1:]\<close>\<close>

definition without_root :: "string \<Rightarrow> string" where
  "without_root path = (if prefix ''/'' path then tl path else path)"

section \<open>User defined functions\<close>

definition backup_udf :: "'w manager_env \<Rightarrow> ('w, unit) act" where
  "backup_udf env =
     if_version (mg_ctl env) ''21.11''
       (bind_act (get_udf_query (mg_ctl env)) (\<lambda>udf.
        bind_act (for_act (dict_keys udf) (\<lambda>n _. mg_change env (bm_add_udf n)) ()) (\<lambda>_.
          for_act udf (\<lambda>(n, st) _. bind_act (mg_get env bm_name) (\<lambda>b. upload_udf (mg_layout env) b n st)) ())))
       (ret ())"

text \<open>\<open>statement.replace("CREATE FUNCTION", "CREATE OR REPLACE FUNCTION", 1)\<close>\<close>

fun replace_once :: "string \<Rightarrow> string \<Rightarrow> string \<Rightarrow> string" where
  "replace_once old new [] = []"
| "replace_once old new (c # s) =
     (if prefix old (c # s) then new @ drop (length old) (c # s) else c # replace_once old new s)"

definition rewrite_udf_schema :: "string \<Rightarrow> string" where
  "rewrite_udf_schema st = replace_once ''CREATE FUNCTION'' ''CREATE OR REPLACE FUNCTION'' st"

definition restore_one_udf :: "'w manager_env \<Rightarrow> (string, string) dict \<Rightarrow> string \<Rightarrow> ('w, unit) act" where
  "restore_one_udf env existing n =
     bind_act (mg_get env (\<lambda>b. b)) (\<lambda>b.
     bind_act (get_udf_create_statement (mg_layout env) b n) (\<lambda>st.
       case map_of existing n of
         None \<Rightarrow> restore_statement (mg_ctl env) (rewrite_udf_schema st)
       | Some present \<Rightarrow>
           when_act (present \<noteq> st)
             (bind_act (drop_udf (mg_ctl env) n) (\<lambda>_. restore_statement (mg_ctl env) (rewrite_udf_schema st)))))"

definition restore_udf :: "'w manager_env \<Rightarrow> ('w, unit) act" where
  "restore_udf env =
     if_version (mg_ctl env) ''21.11''
       (bind_act (mg_get env bm_user_defined_functions) (\<lambda>names.
          when_act (names \<noteq> [])
            (bind_act (get_udf_query (mg_ctl env)) (\<lambda>existing.
               for_act names (\<lambda>n _. restore_one_udf env existing n) ()))))
       (ret ())"

section \<open>Encrypted files\<close>

definition ENCRYPTED_FILE_HEADER_SIZE :: nat where "ENCRYPTED_FILE_HEADER_SIZE = 64"
definition ENCRYPTED_FILE_HEADER_ALGORITHM_START :: nat where "ENCRYPTED_FILE_HEADER_ALGORITHM_START = 5"
definition ENCRYPTED_FILE_HEADER_ALGORITHM_END :: nat where "ENCRYPTED_FILE_HEADER_ALGORITHM_END = 7"
definition ENCRYPTED_FILE_HEADER_IV_START :: nat where "ENCRYPTED_FILE_HEADER_IV_START = 23"
definition ENCRYPTED_FILE_HEADER_IV_END :: nat where "ENCRYPTED_FILE_HEADER_IV_END = 39"

lemmas header_defs = ENCRYPTED_FILE_HEADER_SIZE_def ENCRYPTED_FILE_HEADER_ALGORITHM_START_def
  ENCRYPTED_FILE_HEADER_ALGORITHM_END_def ENCRYPTED_FILE_HEADER_IV_START_def ENCRYPTED_FILE_HEADER_IV_END_def

datatype file_algorithm = AES_128_CTR | AES_192_CTR | AES_256_CTR

definition file_algorithm_of :: "nat \<Rightarrow> file_algorithm res" where
  "file_algorithm_of n =
     (if n = 0 then Inr AES_128_CTR else if n = 1 then Inr AES_192_CTR
      else if n = 2 then Inr AES_256_CTR else Inl ValueError)"

text \<open>\<open>data[first:last]\<close>, and \<open>int.from_bytes(data, "little")\<close>.\<close>

definition slice_bytes :: "nat \<Rightarrow> nat \<Rightarrow> string \<Rightarrow> string" where
  "slice_bytes i j s = drop i (take j s)"

fun little_endian :: "string \<Rightarrow> nat" where
  "little_endian [] = 0"
| "little_endian (c # s) = of_char c + 256 * little_endian s"

definition hex_digit :: "nat \<Rightarrow> char" where
  "hex_digit n = char_of (if n < 10 then 48 + n else 87 + n)"

definition hex_text :: "string \<Rightarrow> string" where
  "hex_text s = concat (map (\<lambda>c. [hex_digit (of_char c div 16), hex_digit (of_char c mod 16)]) s)"

record encrypted_file =
  ef_algorithm :: string
  ef_iv :: string
  ef_data :: string

definition open_encrypted_file :: "string \<Rightarrow> encrypted_file res" where
  "open_encrypted_file content =
     (if length content < ENCRYPTED_FILE_HEADER_SIZE then Inl AssertionError
      else
        (let iv = slice_bytes ENCRYPTED_FILE_HEADER_IV_START ENCRYPTED_FILE_HEADER_IV_END content;
             rest = drop ENCRYPTED_FILE_HEADER_SIZE content in
         if iv = [] \<or> rest = [] then Inl AssertionError
         else Inr \<lparr>ef_algorithm =
                slice_bytes ENCRYPTED_FILE_HEADER_ALGORITHM_START ENCRYPTED_FILE_HEADER_ALGORITHM_END content,
              ef_iv = iv, ef_data = rest\<rparr>))"

definition key_size :: "file_algorithm \<Rightarrow> int" where
  "key_size a = (case a of AES_128_CTR \<Rightarrow> 128 | AES_192_CTR \<Rightarrow> 192 | AES_256_CTR \<Rightarrow> 256)"

definition get_decrypted_data ::
  "(string \<Rightarrow> string \<Rightarrow> int \<Rightarrow> string \<Rightarrow> ('w, string) act) \<Rightarrow> string \<Rightarrow> encrypted_file \<Rightarrow> ('w, string) act" where
  "get_decrypted_data decrypt key_hex f =
     bind_act (lift_res (file_algorithm_of (little_endian (ef_algorithm f)))) (\<lambda>a.
       decrypt (hex_text (ef_data f)) key_hex (key_size a) (hex_text (ef_iv f)))"

text \<open>The name of a file in a subdirectory is joined with the top directory.\<close>

definition decrypt_directory_content :: "'w ch_ctl \<Rightarrow> string \<Rightarrow> string \<Rightarrow> ('w, unit) act" where
  "decrypt_directory_content c dir_path key_hex =
     bind_act (hf_files_below (cc_files c) dir_path) (\<lambda>paths.
       for_act paths (\<lambda>p _.
         let name = path_join dir_path (base_name p) in
         bind_act (hf_read (cc_files c) name) (\<lambda>content.
         bind_act (lift_res (open_encrypted_file content)) (\<lambda>f.
         bind_act (get_decrypted_data (decrypt_aes_ctr c) key_hex f) (\<lambda>text.
           hf_write (cc_files c) name text)))) ())"

section \<open>Named collections\<close>

datatype nc_storage = NC_LOCAL | NC_LOCAL_ENCRYPTED | NC_ZOOKEEPER | NC_ZOOKEEPER_ENCRYPTED

text \<open>The path and the key are elements of the configuration: a missing one raises where it is used as a path,
  and is the text \<open>None\<close> in a statement.\<close>

record nc_config =
  nc_type :: nc_storage
  nc_path :: xml
  nc_key :: xml

definition nc_is_local :: "nc_config \<Rightarrow> bool" where
  "nc_is_local c \<longleftrightarrow> nc_type c \<in> {NC_LOCAL, NC_LOCAL_ENCRYPTED}"

definition nc_is_zookeeper :: "nc_config \<Rightarrow> bool" where
  "nc_is_zookeeper c \<longleftrightarrow> nc_type c \<in> {NC_ZOOKEEPER, NC_ZOOKEEPER_ENCRYPTED}"

definition nc_is_encrypted :: "nc_config \<Rightarrow> bool" where
  "nc_is_encrypted c \<longleftrightarrow> nc_type c \<in> {NC_LOCAL_ENCRYPTED, NC_ZOOKEEPER_ENCRYPTED}"

definition nc_storage_of :: "xml \<Rightarrow> nc_storage res" where
  "nc_storage_of x =
     (case x of
        XStr s \<Rightarrow>
          if s = ''local'' then Inr NC_LOCAL else if s = ''local_encrypted'' then Inr NC_LOCAL_ENCRYPTED
          else if s = ''zookeeper'' then Inr NC_ZOOKEEPER else if s = ''zookeeper_encrypted'' then Inr NC_ZOOKEEPER_ENCRYPTED
          else Inl ValueError
      | _ \<Rightarrow> Inl ValueError)"

definition nc_key_text :: "nc_config \<Rightarrow> string res" where
  "nc_key_text c = (case nc_key c of XNull \<Rightarrow> Inr ''None'' | x \<Rightarrow> xml_str x)"

definition nc_from_config :: "string option \<Rightarrow> (string, xml) dict \<Rightarrow> nc_config res" where
  "nc_from_config named_collections_path ch_config =
     (let x = xml_get ch_config ''named_collections_storage'' in
      if \<not> xml_true x then
        (case non_empty named_collections_path of
           None \<Rightarrow> Inl AssertionError
         | Some p \<Rightarrow> Inr \<lparr>nc_type = NC_LOCAL, nc_path = XStr p, nc_key = XStr []\<rparr>)
      else
        bind_res (xml_section x) (\<lambda>d.
        bind_res (if xml_true (xml_get d ''type'') then nc_storage_of (xml_get d ''type'') else Inr NC_LOCAL) (\<lambda>t.
          Inr \<lparr>nc_type = t, nc_path = xml_get d ''path'', nc_key = xml_get d ''key_hex''\<rparr>)))"

definition zk_node_path :: "'w zookeeper \<Rightarrow> string list \<Rightarrow> string" where
  "zk_node_path z ps = norm_path (path_joins (zk_root_path z) ps)"

definition copy_directory_content_from_zookeeper ::
  "'w manager_env \<Rightarrow> 'w zookeeper \<Rightarrow> string \<Rightarrow> string \<Rightarrow> ('w, unit) act" where
  "copy_directory_content_from_zookeeper env z from_dir to_dir =
     with_zk z
       (let target = zk_node_path z [without_root from_dir] in
        bind_act (zk_get_children z target) (\<lambda>names.
          for_act names (\<lambda>n _.
            bind_act (zk_get z (path_join target n)) (\<lambda>content.
            bind_act (hf_exists (mg_files env) (path_join to_dir n)) (\<lambda>exists.
              when_act (\<not> exists) (hf_write (mg_files env) (path_join to_dir n) content)))) ()))"

definition collection_file :: "string \<Rightarrow> string" where
  "collection_file n = escape_metadata_file_name n @ ''.sql''"

text \<open>The files of the collections, decrypted, in the temporary directory.\<close>

definition collect_collections :: "'w manager_env \<Rightarrow> nc_config \<Rightarrow> string \<Rightarrow> ('w, unit) act" where
  "collect_collections env conf dir =
     bind_act
       (if nc_is_local conf then
          bind_act (lift_res (xml_str (nc_path conf))) (\<lambda>p. copy_directory_content (mg_files env) p dir)
        else
          bind_act (zk_ctl env) (\<lambda>z.
          bind_act (lift_res (xml_str (nc_path conf))) (\<lambda>p. copy_directory_content_from_zookeeper env z p dir))) (\<lambda>_.
     bind_act
       (when_act (nc_is_encrypted conf)
          (bind_act (lift_res (nc_key_text conf)) (\<lambda>key. decrypt_directory_content (mg_ctl env) dir key))) (\<lambda>_.
       chown_dir_contents (mg_files env) (mg_user env) (mg_group env) dir False))"

definition backup_named_collections :: "'w manager_env \<Rightarrow> ('w, unit) act" where
  "backup_named_collections env =
     if_version (mg_ctl env) ''22.12''
       (bind_act (lift_res (nc_from_config (mg_named_collections_path env) (mg_config env))) (\<lambda>conf.
        bind_act (get_named_collections_query (mg_ctl env)) (\<lambda>names.
          when_act (names \<noteq> [])
            (in_temp_directory env (\<lambda>dir.
               bind_act (for_act names (\<lambda>n _. mg_change env (bm_add_named_collection n)) ()) (\<lambda>_.
               bind_act (collect_collections env conf dir) (\<lambda>_.
                 for_act names (\<lambda>n _. bind_act (mg_get env bm_name) (\<lambda>b.
                   upload_named_collections_ddl_from_file (mg_layout env) (path_join dir (collection_file n)) b n)) ())))))))
       (ret ())"

definition CREATE_COLLECTION :: rx where
  "CREATE_COLLECTION =
     cats [star space, lit_any_case ''CREATE'', plus1 space, lit_any_case ''NAMED'', plus1 space, lit_any_case ''COLLECTION'']"

definition IF_NOT_EXISTS :: rx where
  "IF_NOT_EXISTS = cats [lit_any_case ''IF'', plus1 space, lit_any_case ''NOT'', plus1 space, lit_any_case ''EXISTS'']"

text \<open>The patterns begin with \<open>^\<close>: the first replacement is at the start of the text or there is none.\<close>

definition add_if_not_exists :: "string \<Rightarrow> string res" where
  "add_if_not_exists st =
     (if rx_match (cats [CREATE_COLLECTION, plus1 space, IF_NOT_EXISTS, Word_boundary]) st \<noteq> None then Inr st
      else
        (case rx_match (Grp ''1'' (cats [CREATE_COLLECTION, plus1 space])) st of
           None \<Rightarrow> Inl RuntimeError
         | Some (pre, m, g, rest) \<Rightarrow> Inr (m @ ''IF NOT EXISTS '' @ rest)))"

definition normalize_create_statement :: "string \<Rightarrow> string" where
  "normalize_create_statement st =
     (case rx_match (cats [Grp ''1'' (cats [CREATE_COLLECTION, plus1 space]), IF_NOT_EXISTS, plus1 space]) st of
        None \<Rightarrow> st
      | Some f \<Rightarrow> group_of f ''1'' @ snd (snd (snd f)))"

definition get_existing_create_statement ::
  "'w manager_env \<Rightarrow> nc_config \<Rightarrow> string \<Rightarrow> ('w, string option) act" where
  "get_existing_create_statement env conf n =
     bind_act
       (if nc_is_local conf then
          bind_act (lift_res (xml_str (nc_path conf))) (\<lambda>p.
            try_act (bind_act (hf_read (mg_files env) (path_join p (collection_file n))) (\<lambda>d. ret (Some d)))
              is_os_error (\<lambda>_. ret None))
        else
          bind_act (lift_res (case nc_path conf of XStr p \<Rightarrow> Inr p | _ \<Rightarrow> Inl (OtherException ''AttributeError''))) (\<lambda>p.
          bind_act (zk_ctl env) (\<lambda>z.
            try_act
              (with_zk z (bind_act (zk_get z (zk_node_path z [lstrip_chr CHR ''/'' p, collection_file n])) (\<lambda>d. ret (Some d))))
              (\<lambda>e. e = NoNodeError) (\<lambda>_. ret None))))
       (\<lambda>content. case content of
          None \<Rightarrow> ret None
        | Some d \<Rightarrow>
            if nc_is_encrypted conf then
              bind_act (lift_res (open_encrypted_file d)) (\<lambda>f.
              bind_act (lift_res (nc_key_text conf)) (\<lambda>key.
              bind_act (get_decrypted_data (decrypt_aes_ctr (mg_ctl env)) key f) (\<lambda>text. ret (Some text))))
            else ret (Some d))"

definition create_collection :: "'w manager_env \<Rightarrow> string \<Rightarrow> ('w, unit) act" where
  "create_collection env st =
     bind_act (if_version (mg_ctl env) ''23.8'' (lift_res (add_if_not_exists st)) (ret st))
       (restore_named_collection (mg_ctl env))"

definition restore_one_collection :: "'w manager_env \<Rightarrow> nc_config \<Rightarrow> string list \<Rightarrow> string \<Rightarrow> ('w, unit) act" where
  "restore_one_collection env conf existing n =
     bind_act (mg_get env (\<lambda>b. b)) (\<lambda>b.
     bind_act (get_named_collection_create_statement (mg_layout env) b n) (\<lambda>st.
       if List.member existing n then
         bind_act (get_existing_create_statement env conf n) (\<lambda>present.
           if map_option normalize_create_statement present = Some (normalize_create_statement st) then ret ()
           else bind_act (drop_named_collection (mg_ctl env) n) (\<lambda>_. create_collection env st))
       else create_collection env st))"

definition restore_named_collections :: "'w manager_env \<Rightarrow> ('w, unit) act" where
  "restore_named_collections env =
     if_version (mg_ctl env) ''22.12''
       (bind_act (mg_get env bm_named_collections) (\<lambda>names.
          when_act (names \<noteq> [])
            (bind_act (get_named_collections_query (mg_ctl env)) (\<lambda>existing.
             bind_act (lift_res (nc_from_config (mg_named_collections_path env) (mg_config env))) (\<lambda>conf.
               for_act names (\<lambda>n _. restore_one_collection env conf existing n) ())))))
       (ret ())"

section \<open>Workload entities\<close>

text \<open>\<open>from_create_statement\<close>. The pattern of a workload is tried first; without a group for the parent there is none.\<close>

definition backtick_strip :: "string \<Rightarrow> string" where
  "backtick_strip s = rstrip_chr (hd BQ) (lstrip_chr (hd BQ) s)"

definition ENTITY_NAME :: "string \<Rightarrow> rx" where
  "ENTITY_NAME n =
     Grp n (Alt (cats [lit BQ, plus1 (none_of BQ), lit BQ]) (plus1 (Chr (\<lambda>c. \<not> is_space c \<and> c \<noteq> CHR '';''))))"

definition WORKLOAD_STATEMENT :: rx where
  "WORKLOAD_STATEMENT =
     cats [Bol, star space, lit_any_case ''CREATE'', plus1 space, lit_any_case ''WORKLOAD'', plus1 space, ENTITY_NAME ''1'',
       opt (cats [plus1 space, lit_any_case ''IN'', plus1 space, ENTITY_NAME ''2'']),
       opt (cats [plus1 space, lit_any_case ''SETTINGS'', plus1 space, star anything]), star space, opt (lit '';''), Eol]"

definition RESOURCE_STATEMENT :: rx where
  "RESOURCE_STATEMENT =
     cats [Bol, star space, lit_any_case ''CREATE'', plus1 space, lit_any_case ''RESOURCE'', plus1 space, ENTITY_NAME ''1'',
       star space, lit ''('', star anything, lit '')'', star space, opt (lit '';''), Eol]"

definition from_create_statement :: "string \<Rightarrow> workload_entity res" where
  "from_create_statement st =
     (case rx_match WORKLOAD_STATEMENT st of
        Some f \<Rightarrow>
          Inr \<lparr>we_name = backtick_strip (group_of f ''1''), we_type = WORKLOAD, we_create_statement = st,
            we_parent = (if group_of f ''2'' = [] then None else Some (backtick_strip (group_of f ''2'')))\<rparr>
      | None \<Rightarrow>
          (case rx_match RESOURCE_STATEMENT st of
             Some f \<Rightarrow>
               Inr \<lparr>we_name = backtick_strip (group_of f ''1''), we_type = RESOURCE, we_create_statement = st, we_parent = None\<rparr>
           | None \<Rightarrow> Inl RuntimeError))"

text \<open>\<open>str.splitlines\<close>: a carriage return and the line feed after it are one break.\<close>

definition is_line_break :: "char \<Rightarrow> bool" where
  "is_line_break c \<longleftrightarrow> (let n = (of_char c :: nat) in 10 \<le> n \<and> n \<le> 13 \<or> 28 \<le> n \<and> n \<le> 30)"

fun lines_from :: "bool \<Rightarrow> string \<Rightarrow> string \<Rightarrow> string list" where
  "lines_from cr acc [] = (if acc = [] then [] else [rev acc])"
| "lines_from cr acc (c # s) =
     (if cr \<and> c = CHR 0x0A then lines_from False acc s
      else if is_line_break c then rev acc # lines_from (c = CHR 0x0D) [] s
      else lines_from False (c # acc) s)"

definition splitlines :: "string \<Rightarrow> string list" where
  "splitlines s = lines_from False [] s"

text \<open>The storage of the server: whether it is a node of ZooKeeper, and its path.\<close>

definition workload_storage :: "string option \<Rightarrow> (string, xml) dict \<Rightarrow> bool \<times> xml" where
  "workload_storage workload_path ch_config =
     (if xml_true (xml_get ch_config ''workload_zookeeper_path'') then (True, xml_get ch_config ''workload_zookeeper_path'')
      else if xml_true (xml_get ch_config ''workload_path'') then (False, xml_get ch_config ''workload_path'')
      else (False, XStr (case workload_path of None \<Rightarrow> [] | Some p \<Rightarrow> p)))"

definition write_entities_from_zookeeper_node ::
  "'w manager_env \<Rightarrow> 'w zookeeper \<Rightarrow> string \<Rightarrow> string \<Rightarrow> ('w, unit) act" where
  "write_entities_from_zookeeper_node env z from_path to_dir =
     with_zk z
       (let node = zk_node_path z [without_root from_path] in
        bind_act (zk_exists z node) (\<lambda>exists.
          when_act exists
            (bind_act (zk_get z node) (\<lambda>content.
               for_act (splitlines content) (\<lambda>st _.
                 bind_act (lift_res (from_create_statement st)) (\<lambda>e.
                 let path = path_join to_dir (filename_on_disk e) in
                 bind_act (hf_exists (mg_files env) path) (\<lambda>exists.
                   when_act (\<not> exists) (hf_write (mg_files env) path st)))) ()))))"

definition collect_workload_entities :: "'w manager_env \<Rightarrow> string \<Rightarrow> ('w, unit) act" where
  "collect_workload_entities env dir =
     (case workload_storage (mg_workload_path env) (mg_config env) of (in_zookeeper, path) \<Rightarrow>
        bind_act
          (if in_zookeeper then
             bind_act (zk_ctl env) (\<lambda>z.
             bind_act (lift_res (xml_str path)) (\<lambda>p. write_entities_from_zookeeper_node env z p dir))
           else
             bind_act (lift_res (xml_str path)) (\<lambda>p.
             bind_act (hf_exists (mg_files env) p) (\<lambda>exists.
               when_act exists (copy_directory_content (mg_files env) p dir))))
          (\<lambda>_. chown_dir_contents (mg_files env) (mg_user env) (mg_group env) dir False))"

definition backup_workload_entity :: "'w manager_env \<Rightarrow> string \<Rightarrow> string \<times> entity_type \<Rightarrow> ('w, unit) act" where
  "backup_workload_entity env dir entity =
     (case entity of (n, t) \<Rightarrow>
        let path = path_join dir (filename_on_disk \<lparr>we_name = n, we_type = t, we_create_statement = [], we_parent = None\<rparr>) in
        bind_act (hf_is_file (mg_files env) path) (\<lambda>present.
          when_act present
            (bind_act (mg_change env (bm_add_workload_entity n)) (\<lambda>_.
             bind_act (mg_get env bm_name) (\<lambda>b. upload_workload_entity_ddl_from_file (mg_layout env) path b n)))))"

definition backup_workload_entities :: "'w manager_env \<Rightarrow> ('w, unit) act" where
  "backup_workload_entities env =
     if_version (mg_ctl env) ''24.11''
       (bind_act (get_workload_entities_query (mg_ctl env)) (\<lambda>entities.
          when_act (entities \<noteq> [])
            (in_temp_directory env (\<lambda>dir.
               bind_act (collect_workload_entities env dir) (\<lambda>_.
                 for_act entities (\<lambda>e _. backup_workload_entity env dir e) ())))))
       (ret ())"

definition drop_workload_entity :: "'w ch_ctl \<Rightarrow> workload_entity \<Rightarrow> ('w, unit) act" where
  "drop_workload_entity c e =
     (case we_type e of WORKLOAD \<Rightarrow> drop_workload c (we_name e) | RESOURCE \<Rightarrow> drop_resource c (we_name e))"

definition restore_entity ::
  "'w manager_env \<Rightarrow> (string, entity_type) dict \<Rightarrow> workload_entity \<Rightarrow> ('w, unit) act" where
  "restore_entity env existing e =
     (case map_of existing (we_name e) of
        None \<Rightarrow> restore_statement (mg_ctl env) (we_create_statement e)
      | Some t \<Rightarrow>
          if t \<noteq> we_type e then raise RuntimeError
          else bind_act (get_local_workload_entity_create_statement (mg_layout env) (we_name e)) (\<lambda>st.
                 if st = Some (we_create_statement e) then ret ()
                 else bind_act (drop_workload_entity (mg_ctl env) e) (\<lambda>_.
                        restore_statement (mg_ctl env) (we_create_statement e))))"

definition entity_of_backup :: "'w manager_env \<Rightarrow> string \<Rightarrow> ('w, workload_entity) act" where
  "entity_of_backup env n =
     bind_act (mg_get env (\<lambda>b. b)) (\<lambda>b.
     bind_act (get_workload_entity_create_statement (mg_layout env) b n) (\<lambda>st. lift_res (from_create_statement st)))"

definition restore_workload_entities :: "'w manager_env \<Rightarrow> ('w, unit) act" where
  "restore_workload_entities env =
     if_version (mg_ctl env) ''24.11''
       (bind_act (mg_get env bm_workload_entities) (\<lambda>names.
          when_act (names \<noteq> [])
            (bind_act (get_workload_entities_query (mg_ctl env)) (\<lambda>present.
             bind_act (map_act (entity_of_backup env) names) (\<lambda>es.
             bind_act (lift_res (topologically_sort (filter (\<lambda>e. we_type e \<noteq> RESOURCE) es))) (\<lambda>sorted_workloads.
               for_act (filter (\<lambda>e. we_type e = RESOURCE) es @ sorted_workloads)
                 (\<lambda>e _. restore_entity env (fold (\<lambda>(n, t) d. dict_set d n t) present []) e) ()))))))
       (ret ())"

end
