(* ===== verification/Access.thy ===== *)
theory Access
  imports Entities
begin

text \<open>
  Access control entities (\<^verbatim>\<open>logic/access.py\<close>): their backup from the local directory and from ZooKeeper, their
  restore to one of the two, and the removal of duplicates of the user \<open>admin\<close>.
\<close>

definition CH_MARK_FILE :: string where "CH_MARK_FILE = ''need_rebuild_lists.mark''"

definition access_files :: "string list \<Rightarrow> string list" where
  "access_files ids = map (\<lambda>i. i @ ''.sql'') ids"

definition access_zk_path :: "'w manager_env \<Rightarrow> 'w zookeeper \<Rightarrow> string \<Rightarrow> string" where
  "access_zk_path env z p =
     (let slash = CHR ''/'' in
      ''/'' @ path_joins (lstrip_chr slash (zk_root_path z)) [lstrip_chr slash (mg_zk_access_control_path env), lstrip_chr slash p])"

text \<open>\<open>config.get("user_directories", {}).get("replicated") is not None\<close>: an empty section raises.\<close>

definition has_replicated_access :: "'w manager_env \<Rightarrow> bool res" where
  "has_replicated_access env =
     (case map_of (mg_config env) ''user_directories'' of
        None \<Rightarrow> Inr False
      | Some x \<Rightarrow> bind_res (xml_section x) (\<lambda>d. Inr (xml_get d ''replicated'' \<noteq> XNull)))"

section \<open>Backup\<close>

definition backup_replicated :: "'w manager_env \<Rightarrow> string \<Rightarrow> string list \<Rightarrow> ('w, unit) act" where
  "backup_replicated env dir ids =
     bind_act (zk_ctl env) (\<lambda>z. with_zk z
       (for_act ids (\<lambda>i _.
          bind_act (zk_get z (access_zk_path env z (''/uuid/'' @ i))) (\<lambda>content.
            hf_write (mg_files env) (path_join dir (i @ ''.sql'')) content)) ()))"

definition backup_access :: "'w manager_env \<Rightarrow> ('w, unit) act" where
  "backup_access env =
     bind_act (ensure_owned_directory (mg_files env) (mg_access_control_path env) (mg_user env) (mg_group env)) (\<lambda>_.
     in_temp_directory env (\<lambda>dir.
       bind_act (get_access_control_objects (mg_ctl env)) (\<lambda>objects.
       bind_act (mg_change env (\<lambda>b. (Inr (), b\<lparr>bm_access_control := acl_from_ch_objects objects\<rparr>))) (\<lambda>_.
       bind_act (mg_get env bm_access_control) (\<lambda>acl.
       bind_act (lift_res (has_replicated_access env)) (\<lambda>replicated.
       bind_act (when_act replicated (backup_replicated env dir (ac_ids acl))) (\<lambda>_.
       bind_act (copy_directory_content (mg_files env) (mg_access_control_path env) dir) (\<lambda>_.
       bind_act (lift_res (assert_res (ac_format acl = TAR))) (\<lambda>_.
       bind_act (chown_dir_contents (mg_files env) (mg_user env) (mg_group env) dir False) (\<lambda>_.
       bind_act (mg_get env bm_name) (\<lambda>b.
         upload_access_control_files (mg_layout env) dir b (access_files (ac_ids acl)))))))))))))"

section \<open>Restore\<close>

definition download_access_control_list :: "'w manager_env \<Rightarrow> string \<Rightarrow> string list \<Rightarrow> ('w, unit) act" where
  "download_access_control_list env dir ids =
     bind_act (mg_get env (\<lambda>b. b)) (\<lambda>b.
       if ac_format (bm_access_control b) = TAR then download_access_control (mg_layout env) dir (bm_name b)
       else for_act (access_files ids) (\<lambda>f _. download_access_control_file (mg_layout env) dir (bm_name b) f) ())"

definition mark_to_rebuild :: "'w manager_env \<Rightarrow> ('w, unit) act" where
  "mark_to_rebuild env =
     (let mark_file = path_join (mg_access_control_path env) CH_MARK_FILE in
      bind_act (hf_append (mg_files env) mark_file []) (\<lambda>_.
        hf_chown (mg_files env) mark_file (mg_user env) (mg_group env)))"

definition restore_local_access :: "'w manager_env \<Rightarrow> string \<Rightarrow> ('w, unit) act" where
  "restore_local_access env dir =
     bind_act (copy_directory_content (mg_files env) dir (mg_access_control_path env)) (\<lambda>_. mark_to_rebuild env)"

definition zk_upsert_data :: "'w zookeeper \<Rightarrow> string \<Rightarrow> string \<Rightarrow> ('w, unit) act" where
  "zk_upsert_data z path content =
     bind_act (zk_exists z path) (\<lambda>exists. if exists then zk_set z path content else zk_create z path content)"

text \<open>The link from the name of an entity to its identifier. The previous entity of that name is deleted; when its
  node does not exist, \<open>NoNodeError\<close> ends the restore.\<close>

definition restore_access_link :: "'w manager_env \<Rightarrow> 'w zookeeper \<Rightarrow> string \<Rightarrow> string \<Rightarrow> ('w, unit) act" where
  "restore_access_link env z link i =
     bind_act (try_act (bind_act (zk_get z link) (\<lambda>old. ret (Some old))) (\<lambda>e. e = NoNodeError) (\<lambda>_. ret None)) (\<lambda>existing.
       case existing of
         None \<Rightarrow> zk_create z link i
       | Some old \<Rightarrow>
           when_act (i \<noteq> old)
             (bind_act (zk_delete z (access_zk_path env z (''/uuid/'' @ old)) False) (\<lambda>_. zk_set z link i)))"

definition restore_access_entity ::
  "'w manager_env \<Rightarrow> 'w zookeeper \<Rightarrow> string \<Rightarrow> (string, string \<times> string) dict \<Rightarrow> nat \<times> string \<Rightarrow> ('w, unit) act" where
  "restore_access_entity env z dir meta entity =
     (case entity of (k, i) \<Rightarrow>
        bind_act (lift_res (dict_get meta (nat_str k))) (\<lambda>(name, obj_char).
        bind_act (hf_read (mg_files env) (path_join dir (i @ ''.sql''))) (\<lambda>content.
        bind_act (zk_upsert_data z (access_zk_path env z (''/uuid/'' @ i)) content) (\<lambda>_.
          restore_access_link env z
            (access_zk_path env z (''/'' @ obj_char @ ''/'' @ escape_metadata_file_name name)) i))))"

definition restore_replicated_access ::
  "'w manager_env \<Rightarrow> string \<Rightarrow> string list \<Rightarrow> (string, string \<times> string) dict \<Rightarrow> ('w, unit) act" where
  "restore_replicated_access env dir ids meta =
     when_act (meta \<noteq> [])
       (bind_act (zk_ctl env) (\<lambda>z. with_zk z
          (for_act (enumerate 0 ids) (\<lambda>e _. restore_access_entity env z dir meta e) ())))"

definition restore_access :: "'w manager_env \<Rightarrow> bool \<Rightarrow> ('w, unit) act" where
  "restore_access env reload =
     bind_act (mg_get env bm_access_control) (\<lambda>acl.
       if ac_ids acl = [] then ret ()
       else
         bind_act (lift_res (has_replicated_access env)) (\<lambda>replicated.
         bind_act (hf_exists (mg_files env) (mg_access_control_path env)) (\<lambda>exists.
         bind_act (when_act exists (hf_rmtree (mg_files env) (mg_access_control_path env))) (\<lambda>_.
         bind_act (ensure_owned_directory (mg_files env) (mg_access_control_path env) (mg_user env) (mg_group env)) (\<lambda>_.
         bind_act (in_temp_directory env (\<lambda>dir.
             bind_act (download_access_control_list env dir (ac_ids acl)) (\<lambda>_.
               if replicated then restore_replicated_access env dir (ac_ids acl) (ac_meta acl)
               else restore_local_access env dir))) (\<lambda>_.
           when_act (reload \<and> \<not> replicated) (reload_users (mg_ctl env))))))))"

section \<open>Duplicates of the user admin\<close>

definition clean_user_uuid :: "string \<Rightarrow> string" where
  "clean_user_uuid st =
     rx_sub (cats [lit ''EXCEPT ID('', lit SQ, Grp ''1'' (plus1 any_char), lit SQ, lit '')'']) (\<lambda>g. []) st"

text \<open>The duplicates, or an error when one of them differs from the linked user.\<close>

definition admin_duplicates :: "string \<Rightarrow> (string, string) dict \<Rightarrow> string list res" where
  "admin_duplicates linked users =
     (case map_of users linked of
        None \<Rightarrow> Inl ValueError
      | Some st \<Rightarrow>
          (let others = filter (\<lambda>(i, _). i \<noteq> linked) users in
           if \<exists>(i, other) \<in> set others. clean_user_uuid other \<noteq> clean_user_uuid st then Inl ValueError
           else Inr (map fst others)))"

definition remove_duplicate :: "'w manager_env \<Rightarrow> 'w zookeeper \<Rightarrow> bool \<Rightarrow> string \<Rightarrow> ('w, unit) act" where
  "remove_duplicate env z dry_run i =
     bind_act (try_act (when_act (\<not> dry_run) (zk_delete z (access_zk_path env z (''/uuid/'' @ i)) False))
         (\<lambda>e. e = NoNodeError) (\<lambda>_. ret ())) (\<lambda>_.
       try_act (when_act (\<not> dry_run) (hf_remove (mg_files env) (path_join (mg_access_control_path env) (i @ ''.sql''))))
         (\<lambda>e. e = FileNotFoundError) (\<lambda>_. ret ()))"

definition fix_admin_user :: "'w manager_env \<Rightarrow> bool \<Rightarrow> ('w, unit) act" where
  "fix_admin_user env dry_run =
     bind_act (lift_res (has_replicated_access env)) (\<lambda>replicated.
       when_act replicated
         (bind_act (get_zookeeper_admin_id (mg_ctl env)) (\<lambda>linked.
          bind_act (get_zookeeper_admin_uuid (mg_ctl env)) (\<lambda>users.
          bind_act (lift_res (admin_duplicates linked users)) (\<lambda>duplicates.
            when_act (length users \<noteq> 1)
              (bind_act (zk_ctl env) (\<lambda>z. with_zk z
                 (for_act duplicates (\<lambda>i _. remove_duplicate env z dry_run i) ()))))))))"

end
