(* ===== verification/Sync.thy ===== *)
theory Sync
  imports Zookeeper Cleaner Schema
begin

text \<open>
  Waiting for replicated databases (\<^verbatim>\<open>logic/database_sync.py\<close>): the log pointer of the replica is polled in
  ZooKeeper until it reaches the largest entry there was at the start, it no longer moves, or the time is over.
  Times are microseconds; sleeping and reading the clock are operations of the environment.
\<close>

section \<open>The state in ZooKeeper\<close>

record 'w sync_env =
  sy_ctl :: "'w ch_ctl"
  sy_zookeeper :: "'w zookeeper option"
  sy_time :: "('w, int) act"
  sy_sleep :: "int \<Rightarrow> ('w, unit) act"
  sy_poll_interval :: int
  sy_stall_threshold :: int
  sy_timeout :: int
  sy_force_non_replicated :: bool

record 'w zk_data =
  zd_zk :: "'w zookeeper"
  zd_path :: string
  zd_shard :: string
  zd_replica :: string
  zd_max_log_ptr :: int

definition REPLICATED_DB_ENGINE_RE :: rx where
  "REPLICATED_DB_ENGINE_RE =
     (let arg = (\<lambda>n. cats [lit SQ, Grp n (plus1 (none_of SQ)), lit SQ]); comma = cats [lit '','', star space] in
      cats [lit ''Replicated('', arg ''zk_path'', comma, arg ''shard'', comma, arg ''replica'', lit '')''])"

definition read_int_node :: "'w zk_data \<Rightarrow> string \<Rightarrow> ('w, int) act" where
  "read_int_node zd path =
     with_zk (zd_zk zd) (bind_act (zk_get (zd_zk zd) path) (\<lambda>text. lift_res (py_int (strip text))))"

definition full_path :: "'w zk_data \<Rightarrow> string \<Rightarrow> string" where
  "full_path zd rest = path_join (zk_root_path (zd_zk zd)) (lstrip_chr CHR ''/'' (zd_path zd)) @ rest"

definition get_log_ptr :: "'w zk_data \<Rightarrow> ('w, int) act" where
  "get_log_ptr zd =
     read_int_node zd (full_path zd (''/replicas/'' @ zd_shard zd @ ''|'' @ zd_replica zd @ ''/log_ptr''))"

definition get_max_log_ptr :: "'w zk_data \<Rightarrow> ('w, int) act" where
  "get_max_log_ptr zd = read_int_node zd (full_path zd ''/max_log_ptr'')"

definition parse_replicated_db_zk_info ::
  "database \<Rightarrow> (string, string) dict \<Rightarrow> (string \<times> string \<times> string) res" where
  "parse_replicated_db_zk_info d macros =
     (case non_empty (db_engine_full d) of
        None \<Rightarrow> Inl RuntimeError
      | Some engine \<Rightarrow>
          (case rx_search REPLICATED_DB_ENGINE_RE engine of
             None \<Rightarrow> Inl RuntimeError
           | Some f \<Rightarrow>
               (let known = map (\<lambda>(k, v). (k, Some v)) macros; arg = (\<lambda>n. replace_macros known (group_of f n)) in
                Inr (arg ''zk_path'', arg ''shard'', arg ''replica''))))"

text \<open>Of several databases with one name the last is found, as in the dictionary of the code.\<close>

definition resolve :: "'w sync_env \<Rightarrow> database \<Rightarrow> ('w, 'w zk_data) act" where
  "resolve env d =
     bind_act (get_macros (sy_ctl env)) (\<lambda>macros.
     bind_act (get_databases (sy_ctl env) []) (\<lambda>live.
       case filter (\<lambda>x. db_name x = db_name d) (rev live) of
         [] \<Rightarrow> raise RuntimeError
       | x # _ \<Rightarrow>
           bind_act (lift_res (parse_replicated_db_zk_info x macros)) (\<lambda>(path, shard, replica).
           bind_act (case sy_zookeeper env of None \<Rightarrow> raise RuntimeError | Some z \<Rightarrow> ret z) (\<lambda>z.
             let zd = \<lparr>zd_zk = z, zd_path = path, zd_shard = shard, zd_replica = replica, zd_max_log_ptr = 0\<rparr> in
             bind_act (get_max_log_ptr zd) (\<lambda>n. ret (zd\<lparr>zd_max_log_ptr := n\<rparr>))))))"

section \<open>The queue of distributed statements\<close>

definition exception_code :: "json \<Rightarrow> int res" where
  "exception_code entry =
     (case entry of
        JObj d \<Rightarrow>
          (case map_of d ''exception_code'' of
             None \<Rightarrow> Inr 0 | Some (JInt n) \<Rightarrow> Inr n | Some (JStr s) \<Rightarrow> py_int s | Some (JBool b) \<Rightarrow> Inr (if b then 1 else 0)
           | Some x \<Rightarrow> Inl TypeError)
      | _ \<Rightarrow> Inl (OtherException ''AttributeError''))"

definition check_ddl_queue_for_errors :: "'w sync_env \<Rightarrow> string \<Rightarrow> ('w, bool) act" where
  "check_ddl_queue_for_errors env name =
     bind_act (try_act (bind_act (get_ddl_queue_unfinished_status (sy_ctl env) name) (\<lambda>es. ret (Some es)))
         is_exception (\<lambda>_. ret None)) (\<lambda>entries.
       case entries of
         None \<Rightarrow> ret False
       | Some es \<Rightarrow> bind_act (lift_res (map_res exception_code es)) (\<lambda>codes. ret (\<exists>c \<in> set codes. c \<noteq> 0)))"

section \<open>Polling\<close>

text \<open>The variables of the loop: the previous pointer, the pointer, the number of polls without progress.\<close>

type_synonym poll_vars = "int \<times> int \<times> int"

definition time_left :: "int \<Rightarrow> int \<Rightarrow> int" where
  "time_left deadline now = max ((deadline - now) div 1000000) 0"

definition count_stall :: "'w sync_env \<Rightarrow> string \<Rightarrow> poll_vars \<Rightarrow> ('w, int) act" where
  "count_stall env name vars =
     (case vars of (prev, log_ptr, stall) \<Rightarrow>
        if log_ptr = prev then
          bind_act (check_ddl_queue_for_errors env name) (\<lambda>errors.
            if errors \<or> stall + 1 \<ge> sy_stall_threshold env then raise RuntimeError else ret (stall + 1))
        else ret 0)"

text \<open>One round: \<open>None\<close> when the pointer has arrived, otherwise the variables of the next round.\<close>

definition poll_round :: "'w sync_env \<Rightarrow> string \<Rightarrow> 'w zk_data \<Rightarrow> int \<Rightarrow> poll_vars \<Rightarrow> ('w, poll_vars option) act" where
  "poll_round env name zd deadline vars =
     bind_act (sy_time env) (\<lambda>now.
       if time_left deadline now \<le> 0 then raise RuntimeError
       else if fst (snd vars) \<ge> zd_max_log_ptr zd then ret None
       else
         bind_act (count_stall env name vars) (\<lambda>stall.
         bind_act (sy_sleep env (sy_poll_interval env)) (\<lambda>_.
         bind_act (get_log_ptr zd) (\<lambda>log_ptr. ret (Some (fst (snd vars), log_ptr, stall))))))"

partial_function (option) poll_loop ::
  "('v \<Rightarrow> ('w, 'v option) act) \<Rightarrow> 'v \<Rightarrow> 'w \<Rightarrow> (unit res \<times> 'w) option" where
  "poll_loop step vars w =
     (case step vars w of (r, w1) \<Rightarrow>
        (case r of
           Inl e \<Rightarrow> Some (Inl e, w1)
         | Inr v \<Rightarrow> (case v of None \<Rightarrow> Some (Inr (), w1) | Some vars1 \<Rightarrow> poll_loop step vars1 w1)))"

definition run_polls :: "('v \<Rightarrow> ('w, 'v option) act) \<Rightarrow> 'v \<Rightarrow> ('w, unit) act" where
  "run_polls step vars w = (case poll_loop step vars w of None \<Rightarrow> (Inl Hangs, w) | Some r \<Rightarrow> r)"

definition sync_database :: "'w sync_env \<Rightarrow> database \<Rightarrow> int \<Rightarrow> ('w, unit) act" where
  "sync_database env d deadline =
     bind_act (resolve env d) (\<lambda>zd.
     bind_act (get_log_ptr zd) (\<lambda>log_ptr.
       run_polls (poll_round env (db_name d) zd deadline) (log_ptr, log_ptr, 0)))"

section \<open>All databases\<close>

datatype sync_status = SYNC_DONE | SYNC_FAILED

definition sync_one ::
  "'w sync_env \<Rightarrow> bool \<Rightarrow> int \<Rightarrow> database \<Rightarrow> (string, sync_status) dict \<Rightarrow> ('w, (string, sync_status) dict) act" where
  "sync_one env keep_going deadline d results =
     (if \<not> is_replicated_db_engine d then ret results
      else try_act (bind_act (sync_database env d deadline) (\<lambda>_. ret (dict_set results (db_name d) SYNC_DONE)))
             (\<lambda>e. is_exception e \<and> keep_going) (\<lambda>_. ret (dict_set results (db_name d) SYNC_FAILED)))"

definition wait_sync_replicated_databases ::
  "'w sync_env \<Rightarrow> database list \<Rightarrow> bool \<Rightarrow> ('w, (string, sync_status) dict) act" where
  "wait_sync_replicated_databases env databases keep_going =
     (if sy_force_non_replicated env then ret []
      else
        bind_act (sy_time env) (\<lambda>now.
          for_act databases (sync_one env keep_going (now + sy_timeout env * 1000000)) []))"

section \<open>What grows\<close>

lemma keeps_update: "(\<And>w. P w \<Longrightarrow> P (g w)) \<Longrightarrow> keeps P (\<lambda>w. (Inr x, g w))"
  by (simp add: keeps_def)

text \<open>A quantity of the world that no operation decreases: the clock, or the entries the replica has applied.\<close>

locale growing =
  fixes env :: "'w sync_env" and z :: "'w zookeeper" and f :: "'w \<Rightarrow> int"
  assumes sleep_grows: "keeps (\<lambda>w. n \<le> f w) (sy_sleep env d)"
    and time_grows: "keeps (\<lambda>w. n \<le> f w) (sy_time env)"
    and post_grows: "keeps (\<lambda>w. n \<le> f w) (cl_post (cc_client (sy_ctl env)) q)"
    and start_grows: "keeps (\<lambda>w. n \<le> f w) (zk_start z)"
    and stop_grows: "keeps (\<lambda>w. n \<le> f w) (zk_stop z)"
    and auth_grows: "keeps (\<lambda>w. n \<le> f w) (zk_add_auth z a)"
    and get_grows: "keeps (\<lambda>w. n \<le> f w) (zk_get z p)"
    and entered_field: "f (zk_set_entered z k w) = f w"
begin

lemma entered_grows: "keeps (\<lambda>w. n \<le> f w) (\<lambda>w. (Inr x, zk_set_entered z (k w) w))"
  by (rule keeps_update) (simp add: entered_field)

lemma zk_enter_grows: "keeps (\<lambda>w. n \<le> f w) (zk_enter z)"
proof -
  have auth: "keeps (\<lambda>w. n \<le> f w) (case (non_empty (zk_user z), non_empty (zk_password z)) of
      (Some u, Some p) \<Rightarrow> zk_add_auth z (u @ '':'' @ p) | _ \<Rightarrow> ret ())"
    by (auto intro!: keeps_ret auth_grows split: option.split)
  have "keeps (\<lambda>w. n \<le> f w) (bind_act (when_act b (bind_act (zk_start z) (\<lambda>_.
      case (non_empty (zk_user z), non_empty (zk_password z)) of
        (Some u, Some p) \<Rightarrow> zk_add_auth z (u @ '':'' @ p) | _ \<Rightarrow> ret ())))
      (\<lambda>_ w. (Inr (), zk_set_entered z (zk_entered z w + 1) w)))" for b
    by (intro keeps_bind keeps_when start_grows auth entered_grows)
  then show ?thesis unfolding zk_enter_def by (intro keeps_retry) (simp add: keeps_def)
qed

lemma zk_exit_grows: "keeps (\<lambda>w. n \<le> f w) (zk_exit z)"
proof -
  have "keeps (\<lambda>w. n \<le> f w) (bind_act (when_act b (zk_stop z))
      (\<lambda>_ w. (Inr (), zk_set_entered z (zk_entered z w - 1) w)))" for b
    by (intro keeps_bind keeps_when stop_grows entered_grows)
  then show ?thesis unfolding zk_exit_def by (simp add: keeps_def)
qed

lemma get_log_ptr_grows:
  assumes "zd_zk zd = z"
  shows "keeps (\<lambda>w. n \<le> f w) (get_log_ptr zd)"
  unfolding get_log_ptr_def read_int_node_def with_zk_def assms
  by (intro keeps_rules zk_enter_grows zk_exit_grows get_grows)

lemma query_grows: "keeps (\<lambda>w. n \<le> f w) (query (cc_client (sy_ctl env)) opts q)"
  unfolding query_def query_attempt_def by (intro keeps_rules post_grows)

lemma check_ddl_queue_grows: "keeps (\<lambda>w. n \<le> f w) (check_ddl_queue_for_errors env name)"
  unfolding check_ddl_queue_for_errors_def get_ddl_queue_unfinished_status_def ctl_query_def
  by (auto intro!: keeps_rules query_grows split: option.split)

lemma count_stall_grows: "keeps (\<lambda>w. n \<le> f w) (count_stall env name vars)"
  unfolding count_stall_def by (auto intro!: keeps_rules check_ddl_queue_grows split: prod.split)

lemma poll_round_grows: "zd_zk zd = z \<Longrightarrow> keeps (\<lambda>w. n \<le> f w) (poll_round env name zd deadline vars)"
  unfolding poll_round_def
  by (intro keeps_rules time_grows count_stall_grows sleep_grows get_log_ptr_grows)

end

text \<open>A clock: reading it changes nothing, and a sleep takes at least the time asked for.\<close>

locale clocked = growing env z clock for env :: "'w sync_env" and z :: "'w zookeeper" and clock :: "'w \<Rightarrow> int" +
  assumes read_time: "sy_time env w = (Inr (clock w), w)"
    and sleep_time: "sy_sleep env d w = (Inr (), w') \<Longrightarrow> clock w + d * 1000000 \<le> clock w'"
begin

lemma poll_round_time:
  assumes "poll_round env name zd deadline vars w = (Inr (Some vars'), w')" "zd_zk zd = z"
  shows "clock w + 1000000 \<le> deadline \<and> clock w + sy_poll_interval env * 1000000 \<le> clock w'"
proof -
  from assms(1) obtain stall w1 w2 p where left: "0 < time_left deadline (clock w)"
    and stall: "count_stall env name vars w = (Inr stall, w1)"
    and sleep: "sy_sleep env (sy_poll_interval env) w1 = (Inr (), w2)"
    and ptr: "get_log_ptr zd w2 = (Inr p, w')"
    by (auto simp: poll_round_def bind_act_result read_time split: if_splits)
  from left have "1000000 \<le> deadline - clock w" unfolding time_left_def by linarith
  moreover have "clock w \<le> clock w1" using keepsD [OF count_stall_grows, of "clock w" w name vars] stall by simp
  moreover have "clock w2 \<le> clock w'" using keepsD [OF get_log_ptr_grows [OF assms(2)], of "clock w2" w2] ptr by simp
  moreover note sleep_time [OF sleep]
  ultimately show ?thesis by linarith
qed

lemma poll_loop_returns:
  assumes "0 < sy_poll_interval env" "zd_zk zd = z"
  shows "\<exists>r. poll_loop (poll_round env name zd deadline) vars w = Some r"
proof (induction "nat (deadline - clock w)" arbitrary: vars w rule: less_induct)
  case less
  obtain q w1 where round: "poll_round env name zd deadline vars w = (q, w1)" by fastforce
  show ?case
  proof (cases "\<exists>vars1. q = Inr (Some vars1)")
    case True
    then obtain vars1 where q: "q = Inr (Some vars1)" by blast
    from poll_round_time [OF round [unfolded q] assms(2)] assms(1)
    have "nat (deadline - clock w1) < nat (deadline - clock w)" by linarith
    from less.hyps [OF this, of vars1] show ?thesis by (subst poll_loop.simps) (simp add: round q)
  next
    case False
    then show ?thesis
      by (subst poll_loop.simps) (auto simp: round split: sum.split option.split)
  qed
qed

end

section \<open>What a finished wait means\<close>

text \<open>What the rounds before the last one keep holds when the last one starts.\<close>

lemma poll_loop_last:
  fixes step :: "'v \<Rightarrow> ('w, 'v option) act"
  assumes "poll_loop step v w = Some (Inr (), w')" "Q v w"
    and "\<And>v w v1 w1. Q v w \<Longrightarrow> step v w = (Inr (Some v1), w1) \<Longrightarrow> Q v1 w1"
  shows "\<exists>v1 w1. Q v1 w1 \<and> step v1 w1 = (Inr None, w')"
proof -
  let ?P = "\<lambda>(step :: 'v \<Rightarrow> ('w, 'v option) act) v w (q :: unit res \<times> 'w). (\<forall>v w v1 w1. Q v w \<longrightarrow> step v w = (Inr (Some v1), w1) \<longrightarrow> Q v1 w1) \<longrightarrow> Q v w \<longrightarrow>
      q = (Inr (), w') \<longrightarrow> (\<exists>v1 w1. Q v1 w1 \<and> step v1 w1 = (Inr None, w'))"
  have "?P step v w (Inr (), w')"
  proof (rule poll_loop.raw_induct [where P = ?P, OF _ assms(1)], intro impI)
    fix f :: "('v \<Rightarrow> ('w, 'v option) act) \<Rightarrow> 'v \<Rightarrow> 'w \<Rightarrow> (unit res \<times> 'w) option" and step v w q
    assume IH: "\<And>step v w q. f step v w = Some q \<Longrightarrow> ?P step v w q"
      and body: "(case step v w of (r, w1) \<Rightarrow> (case r of Inl e \<Rightarrow> Some (Inl e, w1)
         | Inr v \<Rightarrow> (case v of None \<Rightarrow> Some (Inr (), w1) | Some vars1 \<Rightarrow> f step vars1 w1))) = Some q"
      and Q: "\<forall>v w v1 w1. Q v w \<longrightarrow> step v w = (Inr (Some v1), w1) \<longrightarrow> Q v1 w1" "Q v w" "q = (Inr (), w')"
    show "\<exists>v1 w1. Q v1 w1 \<and> step v1 w1 = (Inr None, w')"
    proof (cases "step v w")
      case (Pair r w1)
      show ?thesis
      proof (cases r)
        case (Inr v1)
        show ?thesis
        proof (cases v1)
          case None
          with Pair Inr body Q show ?thesis by auto
        next
          case (Some v2)
          with Pair Inr body have "f step v2 w1 = Some q" by simp
          moreover have "Q v2 w1" using Q(1,2) Pair Inr Some by blast
          ultimately show ?thesis using IH Q(1,3) by blast
        qed
      qed (use Pair body Q(3) in simp)
    qed
  qed
  with assms(2,3) show ?thesis by blast
qed

text \<open>The entries a replica has applied only grow, and its pointer in ZooKeeper does not run ahead of them.\<close>

locale replica_log = growing env z applied for env :: "'w sync_env" and z :: "'w zookeeper" and applied :: "'w \<Rightarrow> int" +
  fixes zd :: "'w zk_data"
  assumes its_zookeeper: "zd_zk zd = z"
    and pointer_behind: "get_log_ptr zd w = (Inr k, w') \<Longrightarrow> k \<le> applied w'"
begin

lemma poll_round_pointer:
  assumes "poll_round env name zd deadline vars w = (Inr (Some vars'), w')"
  shows "fst (snd vars') \<le> applied w'"
  using assms pointer_behind by (auto simp: poll_round_def bind_act_result split: if_splits)

lemma poll_round_done:
  assumes "poll_round env name zd deadline vars w = (Inr None, w')"
  shows "zd_max_log_ptr zd \<le> fst (snd vars) \<and> (\<forall>n. n \<le> applied w \<longrightarrow> n \<le> applied w')"
proof -
  have "zd_max_log_ptr zd \<le> fst (snd vars)"
    using assms by (auto simp: poll_round_def bind_act_result split: if_splits)
  moreover have "n \<le> applied w'" if "n \<le> applied w" for n
    using keepsD [OF poll_round_grows [OF its_zookeeper] that, of name deadline vars] assms by simp
  ultimately show ?thesis by blast
qed

lemma poll_loop_done:
  assumes "poll_loop (poll_round env name zd deadline) vars w = Some (Inr (), w')" "fst (snd vars) \<le> applied w"
  shows "zd_max_log_ptr zd \<le> applied w'"
proof -
  from poll_loop_last [OF assms(1), of "\<lambda>vars w. fst (snd vars) \<le> applied w"] assms(2) poll_round_pointer
  obtain v w1 where "fst (snd v) \<le> applied w1" "poll_round env name zd deadline v w1 = (Inr None, w')" by blast
  with poll_round_done [OF this(2)] show ?thesis by fastforce
qed

end

text \<open>C7. A wait that ends without an error ends in a state in which the replica has applied every entry that the log of
  the database held when the wait began.\<close>

theorem synced_database_applied:
  assumes "sync_database env d deadline w = (Inr (), w')" "resolve env d w = (Inr zd, w1)" "replica_log env z applied zd"
  shows "zd_max_log_ptr zd \<le> applied w'"
proof -
  from assms(1,2) obtain p w2 where ptr: "get_log_ptr zd w1 = (Inr p, w2)"
    and run: "run_polls (poll_round env (db_name d) zd deadline) (p, p, 0) w2 = (Inr (), w')"
    by (auto simp: sync_database_def bind_act_result)
  from run have loop: "poll_loop (poll_round env (db_name d) zd deadline) (p, p, 0) w2 = Some (Inr (), w')"
    by (auto simp: run_polls_def split: option.splits)
  show ?thesis
    by (rule replica_log.poll_loop_done [OF assms(3) loop]) (simp add: replica_log.pointer_behind [OF assms(3) ptr])
qed

text \<open>C32. The wait ends: the loop of polls returns or raises, whatever ZooKeeper and the server answer, when a sleep
  takes the time asked for and the clock does not go back.\<close>

theorem sync_wait_ends:
  assumes "clocked env z clock" "0 < sy_poll_interval env" "zd_zk zd = z"
  shows "\<exists>r w'. poll_loop (poll_round env name zd deadline) vars w = Some (r, w')"
  using clocked.poll_loop_returns [OF assms, of name deadline vars w] by auto

section \<open>Replicas that make progress\<close>

text \<open>A replica that applies an entry during every sleep, of at most \<open>t\<close> microseconds, with no failed statement.\<close>

locale live_replica =
  fixes env :: "'w sync_env" and name :: string and zd :: "'w zk_data" and clock applied :: "'w \<Rightarrow> int" and t :: int
  assumes read_time: "sy_time env w = (Inr (clock w), w)"
    and pointer: "get_log_ptr zd w = (Inr (applied w), w)"
    and no_errors: "check_ddl_queue_for_errors env name w = (Inr False, w)"
    and progress: "applied w < zd_max_log_ptr zd \<Longrightarrow> \<exists>w'. sy_sleep env (sy_poll_interval env) w = (Inr (), w') \<and>
      clock w' \<le> clock w + t \<and> applied w < applied w'"
begin

lemma poll_round_progress:
  assumes "2 \<le> sy_stall_threshold env" "clock w + 1000000 \<le> deadline" "prev = applied w \<longrightarrow> stall = 0"
  shows "if zd_max_log_ptr zd \<le> applied w then poll_round env name zd deadline (prev, applied w, stall) w = (Inr None, w)
    else \<exists>w' stall'. poll_round env name zd deadline (prev, applied w, stall) w = (Inr (Some (applied w, applied w', stall')), w')
      \<and> clock w' \<le> clock w + t \<and> applied w < applied w'"
proof -
  have left: "0 < time_left deadline (clock w)" using assms(2) unfolding time_left_def by linarith
  show ?thesis
  proof (cases "zd_max_log_ptr zd \<le> applied w")
    case True
    with left show ?thesis by (simp add: poll_round_def bind_act_def read_time)
  next
    case False
    then obtain w' where w': "sy_sleep env (sy_poll_interval env) w = (Inr (), w')" "clock w' \<le> clock w + t" "applied w < applied w'"
      using progress [of w] by auto
    obtain stall' where "count_stall env name (prev, applied w, stall) w = (Inr stall', w)"
      using assms(1,3) by (cases "prev = applied w") (auto simp: count_stall_def bind_act_def no_errors)
    with False left w' show ?thesis
      by (simp add: poll_round_def bind_act_def read_time pointer)
  qed
qed

lemma poll_loop_live:
  assumes "2 \<le> sy_stall_threshold env" "0 \<le> t" "prev = applied w \<longrightarrow> stall = 0"
    and "clock w + 1000000 + t * max 0 (zd_max_log_ptr zd - applied w) \<le> deadline"
  shows "\<exists>w'. poll_loop (poll_round env name zd deadline) (prev, applied w, stall) w = Some (Inr (), w') \<and>
    zd_max_log_ptr zd \<le> applied w' \<and> clock w' + 1000000 \<le> deadline"
  using assms(3,4)
proof (induction "nat (zd_max_log_ptr zd - applied w)" arbitrary: prev stall w rule: less_induct)
  case less
  have now: "clock w + 1000000 \<le> deadline" using less.prems(2) assms(2) by (smt (verit) mult_nonneg_nonneg)
  note round = poll_round_progress [OF assms(1) now less.prems(1)]
  show ?case
  proof (cases "zd_max_log_ptr zd \<le> applied w")
    case True
    with round now show ?thesis by (subst poll_loop.simps) auto
  next
    case False
    with round obtain w' stall' where
      r: "poll_round env name zd deadline (prev, applied w, stall) w = (Inr (Some (applied w, applied w', stall')), w')"
      and t: "clock w' \<le> clock w + t" and p: "applied w < applied w'" by auto
    have "nat (zd_max_log_ptr zd - applied w') < nat (zd_max_log_ptr zd - applied w)" using p False by linarith
    moreover have "clock w' + 1000000 + t * max 0 (zd_max_log_ptr zd - applied w') \<le> deadline"
    proof -
      have "t * max 0 (zd_max_log_ptr zd - applied w') \<le> t * (zd_max_log_ptr zd - applied w - 1)"
        using p False assms(2) by (intro mult_left_mono) auto
      with t False less.prems(2) show ?thesis by (simp add: algebra_simps)
    qed
    ultimately have "\<exists>w''. poll_loop (poll_round env name zd deadline) (applied w, applied w', stall') w' = Some (Inr (), w'') \<and>
        zd_max_log_ptr zd \<le> applied w'' \<and> clock w'' + 1000000 \<le> deadline"
      using p by (intro less.hyps) auto
    with r show ?thesis by (subst poll_loop.simps) simp
  qed
qed

end


section \<open>An example\<close>

text \<open>A replica that applies one of two entries during every sleep; every query returns the same row.\<close>

record sync_world =
  sw_clock :: int
  sw_polls :: nat
  sw_entered :: int

definition sw_applied :: "sync_world \<Rightarrow> int" where
  "sw_applied w = int (min 2 (sw_polls w))"

definition sync_zk :: "sync_world zookeeper" where
  "sync_zk =
     \<lparr>zk_start = ret (), zk_stop = ret (), zk_add_auth = \<lambda>a. ret (), zk_exists = \<lambda>p. ret True,
      zk_get = \<lambda>p w. (Inr (if contains ''max_log_ptr'' p then ''2''
         else if sw_polls w = 0 then ''0'' else if sw_polls w = 1 then ''1'' else ''2''), w),
      zk_set = \<lambda>p d. ret (), zk_create = \<lambda>p d. ret (), zk_delete = \<lambda>p r. ret (), zk_get_children = \<lambda>p. ret [],
      zk_entered = sw_entered, zk_set_entered = \<lambda>n w. w\<lparr>sw_entered := n\<rparr>,
      zk_user = None, zk_password = None, zk_root_path = ''/''\<rparr>"

definition sync_row :: json where
  "sync_row = JObj [(''name'', JStr ''d''), (''engine'', JStr ''Replicated''), (''metadata_path'', JNull), (''uuid'', JNull),
     (''engine_full'', JStr (''Replicated('' @ SQ @ ''/db'' @ SQ @ '', '' @ SQ @ ''s'' @ SQ @ '', '' @ SQ @ ''r'' @ SQ @ '')'')),
     (''macro'', JStr ''shard''), (''substitution'', JStr ''1'')]"

definition sync_example :: "sync_world ch_ctl \<Rightarrow> sync_world sync_env" where
  "sync_example ctl =
     \<lparr>sy_ctl = ctl\<lparr>cc_client := \<lparr>cl_post = \<lambda>q. ret \<lparr>hr_status = 200, hr_text = '''',
         hr_json = Some (JObj [(''data'', JList [sync_row])])\<rparr>, cl_timeout = 10, cl_settings = []\<rparr>, cc_version := ''24.3''\<rparr>,
      sy_zookeeper = Some sync_zk, sy_time = \<lambda>w. (Inr (sw_clock w), w),
      sy_sleep = \<lambda>d w. (Inr (), w\<lparr>sw_clock := sw_clock w + max 0 d * 1000000, sw_polls := Suc (sw_polls w)\<rparr>),
      sy_poll_interval = 1, sy_stall_threshold = 5, sy_timeout = 60, sy_force_non_replicated = False\<rparr>"

definition sync_data :: "sync_world zk_data" where
  "sync_data = \<lparr>zd_zk = sync_zk, zd_path = ''/db'', zd_shard = ''s'', zd_replica = ''r'', zd_max_log_ptr = 2\<rparr>"

definition sync_start :: sync_world where
  "sync_start = \<lparr>sw_clock = 0, sw_polls = 0, sw_entered = 0\<rparr>"

lemma sync_zk_with: "with_zk sync_zk m w = (case m (w\<lparr>sw_entered := sw_entered w + 1\<rparr>) of (r, w1) \<Rightarrow>
    if hangs r then (r, w1) else (r, w1\<lparr>sw_entered := sw_entered w1 - 1\<rparr>))"
  by (simp add: with_zk_def zk_enter_def zk_exit_def bind_act_def finally_act_def when_act_def sync_zk_def
      numeral_eq_Suc non_empty_def ret_def split: prod.split)

lemma sync_numbers:
  "py_int (strip ''0'') = Inr 0" "py_int (strip ''1'') = Inr 1" "py_int (strip ''2'') = Inr 2"
  by code_simp+

lemma sync_read:
  "contains ''max_log_ptr'' path = m \<Longrightarrow> zd_zk zd = sync_zk \<Longrightarrow>
     read_int_node zd path w = (Inr (if m then 2 else sw_applied w), w)"
  by (cases "sw_polls w"; cases "sw_polls w - 1")
    (auto simp: read_int_node_def sync_zk_with bind_act_def sync_numbers, auto simp: sync_zk_def sync_numbers sw_applied_def)

lemma sync_pointer: "get_log_ptr sync_data w = (Inr (sw_applied w), w)"
proof -
  have "contains ''max_log_ptr'' (full_path sync_data (''/replicas/'' @ zd_shard sync_data @ ''|'' @ zd_replica sync_data @ ''/log_ptr'')) = False"
    by (simp add: sync_data_def full_path_def sync_zk_def lstrip_chr_def path_join_def contains_def sublist_code prefix_def)
  from sync_read [OF this] show ?thesis by (simp add: get_log_ptr_def sync_data_def)
qed

lemma sync_queries:
  "query (cc_client (sy_ctl (sync_example ctl))) opts q w = (Inr (Json (JObj [(''data'', JList [sync_row])])), w)"
  by (simp add: query_def query_attempt_def sync_example_def bind_act_def numeral_eq_Suc)

lemma sync_no_errors: "check_ddl_queue_for_errors (sync_example ctl) name w = (Inr False, w)"
  by (simp add: check_ddl_queue_for_errors_def get_ddl_queue_unfinished_status_def ctl_query_def sync_queries bind_act_def
      try_act_def get_data_def json_of_def j_get_def as_list_def exception_code_def sync_row_def)

lemma sync_example_growing:
  assumes "\<And>w d. f w \<le> f (w\<lparr>sw_clock := sw_clock w + max 0 d * 1000000, sw_polls := Suc (sw_polls w)\<rparr>)"
    and "\<And>w n. f (w\<lparr>sw_entered := n\<rparr>) = f w"
  shows "growing (sync_example ctl) sync_zk f"
  using assms by unfold_locales (auto simp: keeps_def sync_example_def sync_zk_def split: prod.split intro: order_trans)

interpretation sync_clock: clocked "sync_example ctl" sync_zk sw_clock for ctl
  by (intro clocked.intro clocked_axioms.intro sync_example_growing) (auto simp: sync_example_def)

interpretation sync_replica: live_replica "sync_example ctl" name sync_data sw_clock sw_applied 1000000 for ctl name
  by unfold_locales (auto simp: sync_pointer sync_no_errors, auto simp: sync_example_def sw_applied_def sync_data_def)

interpretation sync_log: replica_log "sync_example ctl" sync_zk sw_applied sync_data for ctl
proof (intro replica_log.intro replica_log_axioms.intro sync_example_growing)
  show "zd_zk sync_data = sync_zk" by (simp add: sync_data_def)
qed (auto simp: sw_applied_def sync_pointer)

theorem sync_wait_ends_witness:
  "\<forall>ctl. \<exists>r w'. poll_loop (poll_round (sync_example ctl) ''d'' sync_data 60000000) (0, 0, 0) sync_start = Some (r, w')"
  by (intro allI sync_wait_ends [OF sync_clock.clocked_axioms]) (simp_all add: sync_example_def sync_data_def)


lemma sync_resolve: "resolve (sync_example ctl) \<lparr>db_name = ''d'', db_engine = Some ''Replicated'', db_metadata_path = None,
    db_uuid = None, db_engine_full = None\<rparr> w = (Inr sync_data, w)"
proof -
  have "parse_version ''24.3'' = Inr [24, 3]" "parse_version ''23.3'' = Inr [23, 3]" by code_simp+
  then have version: "ch_version_ge (sy_ctl (sync_example ctl)) ''23.3'' = Inr True"
    by (simp add: ch_version_ge_def sync_example_def)
  have macros: "get_macros (sy_ctl (sync_example ctl)) w = (Inr [(''shard'', ''1'')], w)" for w
    by (simp add: get_macros_def ctl_query_def sync_queries bind_act_def get_data_def json_of_def j_get_def as_list_def
        rows_dict_def str_item_def j_item_def dict_get_def as_str_def sync_row_def)
  let ?full = "''Replicated('' @ SQ @ ''/db'' @ SQ @ '', '' @ SQ @ ''s'' @ SQ @ '', '' @ SQ @ ''r'' @ SQ @ '')''"
  let ?live = "\<lparr>db_name = ''d'', db_engine = Some ''Replicated'', db_metadata_path = None, db_uuid = None, db_engine_full = Some ?full\<rparr>"
  have live: "get_databases (sy_ctl (sync_example ctl)) [] w = (Inr [?live], w)" for w
    by (simp add: get_databases_def if_version_def version bind_act_def ctl_query_def sync_queries json_of_def
        as_list_def included_rows_def str_item_def j_item_def dict_get_def as_str_def database_row_def as_str_option_def
        str_get_def j_get_def sync_row_def)
  have parse: "parse_replicated_db_zk_info ?live [(''shard'', ''1'')] = Inr (''/db'', ''s'', ''r'')" by code_simp
  have "contains ''max_log_ptr'' (full_path (sync_data\<lparr>zd_max_log_ptr := 0\<rparr>) ''/max_log_ptr'') = True"
    by (simp add: sync_data_def full_path_def sync_zk_def lstrip_chr_def path_join_def contains_def sublist_code prefix_def)
  from sync_read [OF this] have ptr: "get_max_log_ptr (sync_data\<lparr>zd_max_log_ptr := 0\<rparr>) w = (Inr 2, w)" for w
    by (simp add: get_max_log_ptr_def sync_data_def)
  then have ptr: "get_max_log_ptr \<lparr>zd_zk = sync_zk, zd_path = ''/db'', zd_shard = ''s'', zd_replica = ''r'', zd_max_log_ptr = 0\<rparr> w
      = (Inr 2, w)" for w by (simp add: sync_data_def)
  have zk: "sy_zookeeper (sync_example ctl) = Some sync_zk" by (simp add: sync_example_def)
  show ?thesis
    by (simp add: resolve_def bind_act_def macros live [simplified] parse [simplified] zk ptr Let_def) (simp add: sync_data_def)
qed

theorem synced_database_applied_witness:
  "\<forall>ctl. \<exists>w'. sync_database (sync_example ctl) \<lparr>db_name = ''d'', db_engine = Some ''Replicated'', db_metadata_path = None,
      db_uuid = None, db_engine_full = None\<rparr> 60000000 sync_start = (Inr (), w') \<and> sw_applied w' = 2"
proof
  fix ctl
  let ?d = "\<lparr>db_name = ''d'', db_engine = Some ''Replicated'', db_metadata_path = None, db_uuid = None, db_engine_full = None\<rparr>"
  obtain w' where "run_polls (poll_round (sync_example ctl) ''d'' sync_data 60000000) (0, 0, 0) sync_start = (Inr (), w')"
    using sync_replica.poll_loop_live [of ctl 0 sync_start 0 60000000 "''d''"]
    by (auto simp: run_polls_def sync_example_def sync_start_def sync_data_def sw_applied_def)
  then have run: "sync_database (sync_example ctl) ?d 60000000 sync_start = (Inr (), w')"
    by (simp add: sync_database_def bind_act_def sync_resolve sync_pointer) (simp add: sync_start_def sw_applied_def)
  from synced_database_applied [OF run sync_resolve sync_log.replica_log_axioms]
  have "sw_applied w' = 2" by (simp add: sync_data_def sw_applied_def)
  with run show "\<exists>w'. sync_database (sync_example ctl) ?d 60000000 sync_start = (Inr (), w') \<and> sw_applied w' = 2" by blast
qed

end
