(* ===== verification/Locks.thy ===== *)
theory Locks
  imports Zookeeper
begin

text \<open>
  The lock manager (\<^verbatim>\<open>logic/lock_manager.py\<close>): an advisory lock on a local file and a lock in ZooKeeper, taken
  when a \<open>with\<close> block is entered and given back when it is left. The object is kept by the context between
  the blocks, so it is a field of the world; kazoo's lock and the file are parameters.
\<close>

record lock_manager =
  lm_distributed :: bool
  lm_disabled :: bool
  lm_has_zk_lock :: bool

record 'w lock_env =
  lo_zookeeper :: "'w zookeeper option"
  lo_files :: "'w host_files"
  lo_flock :: bool
  lo_zk_flock :: bool
  lo_flock_path :: string
  lo_zk_flock_path :: string
  lo_open_shared :: "string \<Rightarrow> ('w, unit) act"
  lo_close :: "('w, unit) act"
  lo_acquire :: "string \<Rightarrow> string \<Rightarrow> ('w, unit) act"
  lo_contenders :: "('w, string list) act"
  lo_release :: "('w, unit) act"
  lo_manager :: "'w \<Rightarrow> lock_manager"
  lo_set_manager :: "lock_manager \<Rightarrow> 'w \<Rightarrow> 'w"

definition lm_change :: "'w lock_env \<Rightarrow> (lock_manager \<Rightarrow> lock_manager) \<Rightarrow> ('w, unit) act" where
  "lm_change env f w = (Inr (), lo_set_manager env (f (lo_manager env w)) w)"

definition lm_get :: "'w lock_env \<Rightarrow> (lock_manager \<Rightarrow> 'a) \<Rightarrow> ('w, 'a) act" where
  "lm_get env f w = (Inr (f (lo_manager env w)), w)"

text \<open>The lock on the file is a shared one: \<open>flock(file, LOCK_SH)\<close>.\<close>

definition flock :: "'w lock_env \<Rightarrow> ('w, unit) act" where
  "flock env =
     bind_act (hf_exists (lo_files env) (lo_flock_path env)) (\<lambda>exists.
     bind_act (when_act (\<not> exists) (hf_write (lo_files env) (lo_flock_path env) [])) (\<lambda>_.
       lo_open_shared env (lo_flock_path env)))"

definition zk_flock :: "'w lock_env \<Rightarrow> string \<Rightarrow> ('w, unit) act" where
  "zk_flock env lock_id =
     (case lo_zookeeper env of
        None \<Rightarrow> raise RuntimeError
      | Some z \<Rightarrow>
          bind_act (zk_enter z) (\<lambda>_.
          bind_act (zk_exists z (lo_zk_flock_path env)) (\<lambda>exists.
          bind_act (when_act (\<not> exists) (zk_create z (lo_zk_flock_path env) [])) (\<lambda>_.
          bind_act (lm_change env (\<lambda>m. m\<lparr>lm_has_zk_lock := True\<rparr>)) (\<lambda>_.
            try_act (lo_acquire env (lo_zk_flock_path env) lock_id) (\<lambda>e. e = LockTimeout)
              (\<lambda>_. bind_act (lo_contenders env) (\<lambda>_. raise SystemExit)))))))"

definition lock_enter :: "'w lock_env \<Rightarrow> string \<Rightarrow> ('w, unit) act" where
  "lock_enter env lock_id =
     bind_act (lm_get env (\<lambda>m. m)) (\<lambda>m.
       if lm_disabled m then ret ()
       else
         bind_act (when_act (lo_flock env) (flock env)) (\<lambda>_.
           when_act (lm_distributed m \<and> lo_zk_flock env) (zk_flock env lock_id)))"

definition lock_exit :: "'w lock_env \<Rightarrow> ('w, unit) act" where
  "lock_exit env =
     bind_act (lm_get env (\<lambda>m. m)) (\<lambda>m.
       if lm_disabled m then ret ()
       else
         bind_act (when_act (lo_flock env) (lo_close env)) (\<lambda>_.
           case lo_zookeeper env of
             None \<Rightarrow> ret ()
           | Some z \<Rightarrow> when_act (lm_has_zk_lock m) (bind_act (lo_release env) (\<lambda>_. zk_exit z))))"

text \<open>\<open>with locker(distributed, disabled, operation): body\<close>\<close>

definition with_locker :: "'w lock_env \<Rightarrow> bool \<Rightarrow> bool \<Rightarrow> string \<Rightarrow> ('w, 'a) act \<Rightarrow> ('w, 'a) act" where
  "with_locker env distributed disabled lock_id body =
     bind_act (lm_change env (\<lambda>m. m\<lparr>lm_distributed := distributed, lm_disabled := disabled\<rparr>)) (\<lambda>_.
     bind_act (lock_enter env lock_id) (\<lambda>_.
       finally_act body (lock_exit env)))"

section \<open>The lock in ZooKeeper is held by the body and then given back\<close>

text \<open>The locks held in ZooKeeper, and what the operations do to them.\<close>

locale zk_locks =
  fixes env :: "'w lock_env" and z :: "'w zookeeper" and held :: "'w \<Rightarrow> int"
  assumes its_zookeeper: "lo_zookeeper env = Some z"
    and manager_set: "lo_manager env (lo_set_manager env m w) = m"
    and manager_held: "held (lo_set_manager env m w) = held w"
    and acquired: "lo_acquire env p i w = (r, w') \<Longrightarrow>
      held w' = held w + (if r = Inr () then 1 else 0) \<and> lo_manager env w' = lo_manager env w"
    and released: "lo_release env w = (Inr (), w') \<Longrightarrow> held w' = held w - 1"
    and flock_keeps: "keeps (\<lambda>w. held w = h \<and> lo_manager env w = m) (flock env)"
    and close_keeps: "keeps (\<lambda>w. held w = h \<and> lo_manager env w = m) (lo_close env)"
    and enter_keeps: "keeps (\<lambda>w. held w = h \<and> lo_manager env w = m) (zk_enter z)"
    and exit_keeps: "keeps (\<lambda>w. held w = h \<and> lo_manager env w = m) (zk_exit z)"
    and exists_keeps: "keeps (\<lambda>w. held w = h \<and> lo_manager env w = m) (zk_exists z p)"
    and create_keeps: "keeps (\<lambda>w. held w = h \<and> lo_manager env w = m) (zk_create z p d)"
begin

lemma keeps_both:
  assumes "\<And>h m. keeps (\<lambda>w. held w = h \<and> lo_manager env w = m) act" "act w = (r, w')"
  shows "held w' = held w \<and> lo_manager env w' = lo_manager env w"
  using keepsD [OF assms(1), of w "held w" "lo_manager env w"] assms(2) by simp

lemma zk_flock_held:
  assumes "zk_flock env i w = (Inr (), w')"
  shows "held w' = held w + 1 \<and> lo_manager env w' = (lo_manager env w)\<lparr>lm_has_zk_lock := True\<rparr>"
proof -
  from assms obtain w1 w2 w3 ex where 1: "zk_enter z w = (Inr (), w1)" and 2: "zk_exists z (lo_zk_flock_path env) w1 = (Inr ex, w2)"
    and 3: "when_act (\<not> ex) (zk_create z (lo_zk_flock_path env) []) w2 = (Inr (), w3)"
    and 4: "try_act (lo_acquire env (lo_zk_flock_path env) i) (\<lambda>e. e = LockTimeout)
        (\<lambda>_. bind_act (lo_contenders env) (\<lambda>_. raise SystemExit))
        (lo_set_manager env ((lo_manager env w3)\<lparr>lm_has_zk_lock := True\<rparr>) w3) = (Inr (), w')"
    by (auto simp: zk_flock_def its_zookeeper bind_act_result lm_change_def)
  have "keeps (\<lambda>w. held w = h \<and> lo_manager env w = m) (when_act (\<not> ex) (zk_create z (lo_zk_flock_path env) []))" for h m
    by (intro keeps_when create_keeps)
  from keeps_both [OF this 3] keeps_both [OF enter_keeps 1] keeps_both [OF exists_keeps 2]
  have same: "held w3 = held w" "lo_manager env w3 = lo_manager env w" by simp_all
  have "lo_acquire env (lo_zk_flock_path env) i (lo_set_manager env ((lo_manager env w3)\<lparr>lm_has_zk_lock := True\<rparr>) w3)
      = (Inr (), w')"
    using 4 by (auto simp: try_act_def bind_act_def split: prod.splits sum.splits if_splits)
  from acquired [OF this] same show ?thesis by (simp add: manager_held manager_set)
qed

lemma lock_enter_held:
  assumes "lock_enter env i w = (Inr (), w')" "\<not> lm_disabled (lo_manager env w)"
    and "lm_distributed (lo_manager env w) \<longleftrightarrow> lm_has_zk_lock (lo_manager env w) \<or> True" "lo_zk_flock env"
  shows "held w' = held w + 1 \<and> lo_manager env w' = (lo_manager env w)\<lparr>lm_has_zk_lock := True\<rparr>"
proof -
  from assms obtain w1 where 1: "when_act (lo_flock env) (flock env) w = (Inr (), w1)" and 2: "zk_flock env i w1 = (Inr (), w')"
    by (auto simp: lock_enter_def lm_get_def bind_act_result when_act_def)
  have "keeps (\<lambda>w. held w = h \<and> lo_manager env w = m) (when_act (lo_flock env) (flock env))" for h m
    by (intro keeps_when flock_keeps)
  from keeps_both [OF this 1] zk_flock_held [OF 2] show ?thesis by simp
qed

lemma lock_exit_held:
  assumes "lock_exit env w = (Inr (), w')" "\<not> lm_disabled (lo_manager env w)" "lm_has_zk_lock (lo_manager env w)"
  shows "held w' = held w - 1"
proof -
  from assms obtain w1 w2 where 1: "when_act (lo_flock env) (lo_close env) w = (Inr (), w1)"
    and 2: "lo_release env w1 = (Inr (), w2)" and 3: "zk_exit z w2 = (Inr (), w')"
    by (auto simp: lock_exit_def lm_get_def its_zookeeper bind_act_result when_act_def)
  have "keeps (\<lambda>w. held w = h \<and> lo_manager env w = m) (when_act (lo_flock env) (lo_close env))" for h m
    by (intro keeps_when close_keeps)
  from keeps_both [OF this 1] released [OF 2] keeps_both [OF exit_keeps 3] show ?thesis by simp
qed

lemma with_locker_held:
  assumes "with_locker env True False i body w = (Inr x, w')" "lo_zk_flock env"
    and "\<And>h m. keeps (\<lambda>w. held w = h \<and> lo_manager env w = m) body"
  shows "held w' = held w \<and> (\<exists>w1. held w1 = held w + 1 \<and> fst (body w1) = Inr x)"
proof -
  let ?m = "(lo_manager env w)\<lparr>lm_distributed := True, lm_disabled := False\<rparr>"
  from assms(1) obtain w1 where 1: "lock_enter env i (lo_set_manager env ?m w) = (Inr (), w1)"
    and 2: "finally_act body (lock_exit env) w1 = (Inr x, w')"
    by (auto simp: with_locker_def lm_change_def bind_act_result)
  from lock_enter_held [OF 1] assms(2) have w1: "held w1 = held w + 1" "lo_manager env w1 = ?m\<lparr>lm_has_zk_lock := True\<rparr>"
    by (simp_all add: manager_set manager_held)
  from 2 obtain w2 where 3: "body w1 = (Inr x, w2)" and 4: "lock_exit env w2 = (Inr (), w')"
    by (auto simp: finally_act_def split: prod.splits if_splits sum.splits)
  from keeps_both [OF assms(3) 3] w1 lock_exit_held [OF 4] show ?thesis using 3 by auto
qed

end


section \<open>An example\<close>

record lock_world =
  lw_held :: int
  lw_entered :: int
  lw_manager :: lock_manager

definition lock_zk :: "lock_world zookeeper" where
  "lock_zk =
     \<lparr>zk_start = ret (), zk_stop = ret (), zk_add_auth = \<lambda>a. ret (), zk_exists = \<lambda>p. ret False, zk_get = \<lambda>p. raise NoNodeError,
      zk_set = \<lambda>p d. ret (), zk_create = \<lambda>p d. ret (), zk_delete = \<lambda>p r. ret (), zk_get_children = \<lambda>p. ret [],
      zk_entered = lw_entered, zk_set_entered = \<lambda>n w. w\<lparr>lw_entered := n\<rparr>,
      zk_user = None, zk_password = None, zk_root_path = ''''\<rparr>"

definition lock_example :: "lock_world host_files \<Rightarrow> lock_world lock_env" where
  "lock_example files =
     \<lparr>lo_zookeeper = Some lock_zk, lo_files = files\<lparr>hf_exists := \<lambda>p. ret True\<rparr>, lo_flock = True, lo_zk_flock = True,
      lo_flock_path = ''/tmp/lock'', lo_zk_flock_path = ''/lock'', lo_open_shared = \<lambda>p. ret (), lo_close = ret (),
      lo_acquire = \<lambda>p i w. (Inr (), w\<lparr>lw_held := lw_held w + 1\<rparr>), lo_contenders = ret [],
      lo_release = \<lambda>w. (Inr (), w\<lparr>lw_held := lw_held w - 1\<rparr>),
      lo_manager = lw_manager, lo_set_manager = \<lambda>m w. w\<lparr>lw_manager := m\<rparr>\<rparr>"

lemma lock_zk_calls:
  "zk_enter lock_zk w = (Inr (), w\<lparr>lw_entered := lw_entered w + 1\<rparr>)"
  "zk_exit lock_zk w = (Inr (), w\<lparr>lw_entered := lw_entered w - 1\<rparr>)"
  by (simp_all add: zk_enter_def zk_exit_def bind_act_def when_act_def lock_zk_def numeral_eq_Suc non_empty_def ret_def)

interpretation lock_example: zk_locks "lock_example files" lock_zk lw_held for files
  by unfold_locales
    (auto simp: keeps_def lock_zk_calls, auto simp: lock_example_def flock_def bind_act_def when_act_def lock_zk_def)

definition lock_start :: lock_world where
  "lock_start = \<lparr>lw_held = 0, lw_entered = 0, lw_manager = \<lparr>lm_distributed = True, lm_disabled = False, lm_has_zk_lock = False\<rparr>\<rparr>"

lemma lock_example_calls:
  "lm_change (lock_example files) f w = (Inr (), w\<lparr>lw_manager := f (lw_manager w)\<rparr>)"
  "lm_get (lock_example files) g w = (Inr (g (lw_manager w)), w)"
  "flock (lock_example files) w = (Inr (), w)"
  "lo_close (lock_example files) w = (Inr (), w)"
  "lo_release (lock_example files) w = (Inr (), w\<lparr>lw_held := lw_held w - 1\<rparr>)"
  "lo_zookeeper (lock_example files) = Some lock_zk" "lo_flock (lock_example files)" "lo_zk_flock (lock_example files)"
  by (simp_all add: lm_change_def lm_get_def flock_def lock_example_def bind_act_def when_act_def)

lemma lock_example_zk_flock:
  "zk_flock (lock_example files) i w =
     (Inr (), w\<lparr>lw_held := lw_held w + 1, lw_entered := lw_entered w + 1, lw_manager := (lw_manager w)\<lparr>lm_has_zk_lock := True\<rparr>\<rparr>)"
proof -
  have "zk_exists lock_zk p w = (Inr False, w)" "zk_create lock_zk p d w = (Inr (), w)" for p d w
    by (simp_all add: lock_zk_def)
  moreover have "lo_acquire (lock_example files) p i w = (Inr (), w\<lparr>lw_held := lw_held w + 1\<rparr>)" for p i w
    by (simp add: lock_example_def)
  ultimately show ?thesis
    by (simp add: zk_flock_def lock_example_calls bind_act_def lock_zk_calls when_act_def try_act_def)
qed

lemma lock_example_run:
  "with_locker (lock_example files) distributed False i (ret ()) w =
     (let b = distributed \<or> lm_has_zk_lock (lw_manager w); k = (if b \<and> \<not> distributed then 1 else 0) in
      (Inr (), w\<lparr>lw_manager := \<lparr>lm_distributed = distributed, lm_disabled = False, lm_has_zk_lock = b\<rparr>,
          lw_entered := lw_entered w - k, lw_held := lw_held w - k\<rparr>))"
  by (cases "lw_manager w"; cases distributed)
    (simp_all add: with_locker_def lock_enter_def lock_exit_def lock_example_calls lock_example_zk_flock bind_act_def
      when_act_def finally_act_def lock_zk_calls Let_def)


text \<open>The object remembers the lock of an earlier block: a later block that takes no lock in ZooKeeper gives the
  earlier one back once more, and leaves the connection as if it had been entered less often than left.\<close>

theorem lock_given_back_twice:
  "snd (bind_act (with_locker (lock_example files) True False ''a'' (ret ()))
      (\<lambda>_. with_locker (lock_example files) False False ''b'' (ret ())) lock_start) =
    lock_start\<lparr>lw_held := - 1, lw_entered := - 1,
      lw_manager := \<lparr>lm_distributed = False, lm_disabled = False, lm_has_zk_lock = True\<rparr>\<rparr>"
  by (simp add: bind_act_def lock_example_run Let_def lock_start_def)

end
