(* ===== verification/PartialRestore.thy ===== *)
theory PartialRestore
  imports PyStr
begin

text \<open>
  The filter of a partial restore (\<^verbatim>\<open>logic/partial_restore.py\<close>). A pattern is a database and a shell pattern for
  the name of the table; \<open>fnmatch\<close> of Python's library is \<open>glob\<close>.
\<close>

section \<open>Shell patterns\<close>

text \<open>The members of a class \<open>[...]\<close>: ranges, of which those from a later to an earlier character are empty, and
  single characters.\<close>

fun in_class :: "string \<Rightarrow> char \<Rightarrow> bool" where
  "in_class (a # m # b # cs) c =
     (if m = CHR ''-'' then (of_char a \<le> (of_char c :: nat) \<and> of_char c \<le> (of_char b :: nat)) \<or> in_class cs c
      else c = a \<or> in_class (m # b # cs) c)"
| "in_class cs c = List.member cs c"

text \<open>The text of a class up to its closing bracket; a bracket in the first place belongs to the class.\<close>

definition class_length :: "string \<Rightarrow> nat" where
  "class_length s =
     (let n = (if prefix ''!'' s then 1 else 0); n = (if prefix '']'' (drop n s) then n + 1 else n) in
      n + length (takeWhile (\<lambda>c. c \<noteq> CHR '']'') (drop n s)))"

definition class_accepts :: "string \<Rightarrow> char \<Rightarrow> bool" where
  "class_accepts cls c = (if prefix ''!'' cls then \<not> in_class (tl cls) c else in_class cls c)"

function glob :: "string \<Rightarrow> string \<Rightarrow> bool" where
  "glob [] s = (s = [])"
| "glob (p # ps) s =
     (if p = CHR ''*'' then glob ps s \<or> (case s of [] \<Rightarrow> False | c # cs \<Rightarrow> glob (p # ps) cs)
      else if s = [] then False
      else if p = CHR ''?'' then glob ps (tl s)
      else if p = CHR ''['' \<and> class_length ps < length ps
      then class_accepts (take (class_length ps) ps) (hd s) \<and> glob (drop (class_length ps + 1) ps) (tl s)
      else hd s = p \<and> glob ps (tl s))"
  by pat_completeness auto
termination by (relation "measures [\<lambda>(p, s). length p, \<lambda>(p, s). length s]") auto

section \<open>The filter\<close>

record restore_pattern =
  rp_database :: string
  rp_table_pattern :: string

text \<open>A pattern without a dot cannot be unpacked.\<close>

definition from_pattern :: "string \<Rightarrow> restore_pattern res" where
  "from_pattern pattern =
     (case split_max CHR ''.'' 1 pattern of
        [db, tbl] \<Rightarrow> Inr \<lparr>rp_database = db, rp_table_pattern = tbl\<rparr>
      | _ \<Rightarrow> Inl ValueError)"

definition pattern_matches :: "restore_pattern \<Rightarrow> string \<Rightarrow> string \<Rightarrow> bool" where
  "pattern_matches p db tbl \<longleftrightarrow> rp_database p = db \<and> glob (rp_table_pattern p) tbl"

definition related_to_db :: "restore_pattern \<Rightarrow> string \<Rightarrow> bool" where
  "related_to_db p db \<longleftrightarrow> rp_database p = db"

record restore_filter =
  rf_inverted :: bool
  rf_patterns :: "restore_pattern list"

definition new_filter :: "bool \<Rightarrow> string list \<Rightarrow> restore_filter res" where
  "new_filter inverted patterns =
     bind_res (map_res from_pattern patterns) (\<lambda>ps. Inr \<lparr>rf_inverted = inverted, rf_patterns = ps\<rparr>)"

definition filter_is_empty :: "restore_filter \<Rightarrow> bool" where
  "filter_is_empty f \<longleftrightarrow> rf_patterns f = []"

definition accept_table :: "restore_filter \<Rightarrow> string \<Rightarrow> string \<Rightarrow> bool" where
  "accept_table f db tbl =
     (if filter_is_empty f then True
      else if list_ex (\<lambda>p. pattern_matches p db tbl) (rf_patterns f) then \<not> rf_inverted f
      else rf_inverted f)"

section \<open>Facts\<close>

definition plain_pattern :: "string \<Rightarrow> bool" where
  "plain_pattern s \<longleftrightarrow> set s \<inter> {CHR ''*'', CHR ''?'', CHR ''[''} = {}"

declare glob.simps(2) [simp del]

lemma glob_plain: "plain_pattern p \<Longrightarrow> glob p s \<longleftrightarrow> s = p"
proof (induction p arbitrary: s)
  case (Cons c p)
  then have "glob p (tl s) \<longleftrightarrow> tl s = p" by (simp add: plain_pattern_def)
  with Cons.prems show ?case by (cases s) (auto simp: plain_pattern_def glob.simps(2))
qed simp

text \<open>A star stands for any text, of any length.\<close>

lemma glob_star: "glob (CHR ''*'' # ps) s \<longleftrightarrow> (\<exists>n. n \<le> length s \<and> glob ps (drop n s))"
proof (induction s)
  case (Cons c s)
  have "(\<exists>n. n \<le> length (c # s) \<and> glob ps (drop n (c # s))) \<longleftrightarrow>
      glob ps (c # s) \<or> (\<exists>n. n \<le> length s \<and> glob ps (drop n s))"
    by (metis Suc_le_mono drop0 drop_Suc_Cons length_Cons not0_implies_Suc zero_le)
  with Cons show ?case by (subst glob.simps(2)) simp
qed (simp add: glob.simps(2))

end
