(* ===== verification/TopLevel.thy ===== *)
theory TopLevel
  imports Databases RestoreData Access Sync Locks Retention PartialRestore
begin

text \<open>
  Making and restoring a backup (\<^verbatim>\<open>ch_backup.py\<close>: \<open>backup\<close>, \<open>restore\<close>, \<open>_restore\<close>, \<open>_check_zookeeper_for_restore\<close>,
  \<open>restore_access_control\<close>, \<open>fix_admin_user\<close>, \<open>get_cloud_storage_metadata\<close>): the operations of the managers in
  their order, with the lock, the states of the backup and what is done after an error.

  The record \<open>program\<close> is \<open>BackupContext\<close> (\<^verbatim>\<open>backup_context.py\<close>); the environments of the managers are views of it. The
  backup metadata, the observer of uploads, the restore context and the lock manager are fields of the world.
\<close>

section \<open>The context\<close>

record program_config =
  cf_labels :: "(string, string option) dict option"
  cf_exclude_dbs :: "string list"
  cf_time_format :: string
  cf_encryption :: bool
  cf_version :: string
  cf_min_interval :: "int option"
  cf_dedup_batch_size :: nat
  cf_dedup_age_limit :: "int option"
  cf_keep_freezed_data_on_failure :: bool
  cf_skip_lock_for_schema_only_backup :: bool
  cf_override_replica_name :: "string option"
  cf_force_non_replicated :: bool
  cf_restore_fail_on_attach_error :: bool
  cf_max_table_name :: int
  cf_use_inplace_cloud_restore :: bool
  cf_cloud_storage_restore_workers :: int
  cf_kill_old_freeze_queries :: bool
  cf_update_metadata_interval :: int
  cf_validate_part_after_upload :: bool
  cf_parallelize_freeze :: bool
  cf_freeze_partition_threads :: int
  cf_freeze_query_max_threads :: int
  cf_cloud_conf :: "(string \<times> conf) list"
  cf_user :: string
  cf_group :: string
  cf_tmp_path :: string
  cf_access_control_path :: string
  cf_zk_access_control_path :: string
  cf_named_collections_path :: "string option"
  cf_workload_path :: "string option"
  cf_config_dir :: string
  cf_poll_interval :: int
  cf_stall_threshold :: int
  cf_sync_timeout :: int

record 'w program =
  pg_config :: program_config
  pg_ch_config :: "(string, xml) dict"
  pg_ctl :: "'w ch_ctl"
  pg_layout :: "'w layout"
  pg_dedup :: "'w dedup_ctl"
  pg_zookeeper :: "'w zookeeper option"
  pg_lock :: "'w lock_env"
  pg_schedule :: "'w schedule"
  pg_meta :: "'w \<Rightarrow> backup_metadata"
  pg_set_meta :: "backup_metadata \<Rightarrow> 'w \<Rightarrow> 'w"
  pg_observer :: "'w \<Rightarrow> upload_observer"
  pg_set_observer :: "upload_observer \<Rightarrow> 'w \<Rightarrow> 'w"
  pg_context :: "'w \<Rightarrow> restore_context"
  pg_set_context :: "restore_context \<Rightarrow> 'w \<Rightarrow> 'w"
  pg_state_file :: "'w state_file"
  pg_now :: "('w, py_time) act"
  pg_seconds :: "('w, int) act"
  pg_micros :: "('w, int) act"
  pg_sleep :: "int \<Rightarrow> ('w, unit) act"
  pg_random_name :: "('w, string) act"
  pg_render :: "string \<Rightarrow> (string, xml) dict \<Rightarrow> string option \<Rightarrow> ('w, unit) act"
  pg_exec :: "string \<Rightarrow> ('w, int) act"
  pg_cwd :: string
  pg_fqdn :: string
  pg_exception_text :: "exn \<Rightarrow> string"

definition backup_env_of :: "'w program \<Rightarrow> 'w backup_env" where
  "backup_env_of pg =
     \<lparr>be_ctl = pg_ctl pg, be_layout = pg_layout pg, be_dedup = pg_dedup pg, be_schedule = pg_schedule pg,
      be_meta = pg_meta pg, be_set_meta = pg_set_meta pg, be_observer = pg_observer pg, be_set_observer = pg_set_observer pg,
      be_time = pg_seconds pg, be_cloud_conf = cf_cloud_conf (pg_config pg),
      be_kill_old_freeze_queries = cf_kill_old_freeze_queries (pg_config pg),
      be_dedup_batch_size = int (cf_dedup_batch_size (pg_config pg)),
      be_update_metadata_interval = cf_update_metadata_interval (pg_config pg),
      be_validate_part_after_upload = cf_validate_part_after_upload (pg_config pg),
      be_parallelize_freeze = cf_parallelize_freeze (pg_config pg),
      be_freeze_partition_threads = cf_freeze_partition_threads (pg_config pg),
      be_freeze_query_max_threads = cf_freeze_query_max_threads (pg_config pg)\<rparr>"

definition manager_env_of :: "'w program \<Rightarrow> 'w manager_env" where
  "manager_env_of pg =
     \<lparr>mg_ctl = pg_ctl pg, mg_layout = pg_layout pg, mg_zookeeper = pg_zookeeper pg, mg_meta = pg_meta pg,
      mg_set_meta = pg_set_meta pg, mg_config = pg_ch_config pg, mg_user = cf_user (pg_config pg), mg_group = cf_group (pg_config pg),
      mg_tmp_path = cf_tmp_path (pg_config pg), mg_access_control_path = cf_access_control_path (pg_config pg),
      mg_zk_access_control_path = cf_zk_access_control_path (pg_config pg),
      mg_named_collections_path = cf_named_collections_path (pg_config pg), mg_workload_path = cf_workload_path (pg_config pg)\<rparr>"

text \<open>The two options that \<open>restore\<close> writes into the configuration first.\<close>

definition restore_env_of :: "'w program \<Rightarrow> 'w restore_env" where
  "restore_env_of pg =
     \<lparr>rs_ctl = pg_ctl pg, rs_layout = pg_layout pg, rs_state_file = pg_state_file pg, rs_context = pg_context pg,
      rs_set_context = pg_set_context pg, rs_random_name = pg_random_name pg, rs_exception_text = pg_exception_text pg,
      rs_force_non_replicated = cf_force_non_replicated (pg_config pg),
      rs_override_replica_name = cf_override_replica_name (pg_config pg), rs_max_table_name = cf_max_table_name (pg_config pg)\<rparr>"

definition sync_env_of :: "'w program \<Rightarrow> 'w sync_env" where
  "sync_env_of pg =
     \<lparr>sy_ctl = pg_ctl pg, sy_zookeeper = pg_zookeeper pg, sy_time = pg_micros pg, sy_sleep = pg_sleep pg,
      sy_poll_interval = cf_poll_interval (pg_config pg), sy_stall_threshold = cf_stall_threshold (pg_config pg),
      sy_timeout = cf_sync_timeout (pg_config pg), sy_force_non_replicated = cf_force_non_replicated (pg_config pg)\<rparr>"

definition config_disks :: "(string, xml) dict \<Rightarrow> (string, xml) dict res" where
  "config_disks conf =
     (case map_of conf ''storage_configuration'' of
        None \<Rightarrow> Inr []
      | Some x \<Rightarrow> bind_res (xml_section x) (\<lambda>d.
          case map_of d ''disks'' of None \<Rightarrow> Inr [] | Some (XDict ds) \<Rightarrow> Inr ds | Some _ \<Rightarrow> Inl TypeError))"

text \<open>Where the cloud storage data of the backup is: bucket, path and endpoint.\<close>

type_synonym cloud_source = "string option \<times> string option \<times> string option"

definition disk_env_of :: "'w program \<Rightarrow> cloud_source \<Rightarrow> backup_metadata \<Rightarrow> 'w disk_env" where
  "disk_env_of pg source b =
     (case source of (bucket, path, endpoint) \<Rightarrow>
        \<lparr>de_ctl = pg_ctl pg, de_layout = pg_layout pg, de_schedule = pg_schedule pg, de_render = pg_render pg, de_exec = pg_exec pg,
         de_config_dir = cf_config_dir (pg_config pg), de_config_disks = config_disks (pg_ch_config pg), de_source_bucket = bucket,
         de_source_path = path, de_source_endpoint = endpoint, de_desired_tables = AllTables,
         de_use_local_copy = cf_use_inplace_cloud_restore (pg_config pg), de_backup = b\<rparr>)"

text \<open>The part of the context that \<open>get\<close>, \<open>delete\<close> and \<open>purge\<close> use; their lock is distributed.\<close>

definition locked :: "'w program \<Rightarrow> bool \<Rightarrow> bool \<Rightarrow> string \<Rightarrow> ('w, 'a) act \<Rightarrow> ('w, 'a) act" where
  "locked pg distributed disabled operation = with_locker (pg_lock pg) distributed disabled (operation @ ''/'' @ pg_fqdn pg)"

definition pg_get :: "'w program \<Rightarrow> (backup_metadata \<Rightarrow> 'a) \<Rightarrow> ('w, 'a) act" where
  "pg_get pg f w = (Inr (f (pg_meta pg w)), w)"

definition pg_change :: "'w program \<Rightarrow> (backup_metadata \<Rightarrow> backup_metadata) \<Rightarrow> ('w, unit) act" where
  "pg_change pg f w = (Inr (), pg_set_meta pg (f (pg_meta pg w)) w)"

definition pg_upload_meta :: "'w program \<Rightarrow> ('w, unit) act" where
  "pg_upload_meta pg = bind_act (pg_get pg (\<lambda>b. b)) (upload_backup_metadata (pg_layout pg))"

definition load_backup :: "'w program \<Rightarrow> string \<Rightarrow> ('w, backup_metadata) act" where
  "load_backup pg name =
     bind_act (get_backup (pg_layout pg) name False) (\<lambda>b.
       case b of None \<Rightarrow> raise (BackupNotFound name) | Some b \<Rightarrow> ret b)"

definition retention_ctx_of :: "'w program \<Rightarrow> int option \<Rightarrow> int option \<Rightarrow> 'w backup_ctx" where
  "retention_ctx_of pg retain_time retain_count =
     \<lparr>cx_layout = pg_layout pg, cx_dedup = pg_dedup pg, cx_now = pg_now pg,
      cx_lock = (\<lambda>op. bind_act (lm_change (pg_lock pg) (\<lambda>m. m\<lparr>lm_distributed := True, lm_disabled := False\<rparr>)) (\<lambda>_.
         lock_enter (pg_lock pg) (op @ ''/'' @ pg_fqdn pg))),
      cx_unlock = lock_exit (pg_lock pg), cx_system_unfreeze = system_unfreeze (pg_ctl pg),
      cx_exception_text = pg_exception_text pg, cx_retain_time = retain_time, cx_retain_count = retain_count,
      cx_min_interval = cf_min_interval (pg_config pg)\<rparr>"

section \<open>Making a backup\<close>

text \<open>\<open>db_name, table_name = table.split(".", 1)\<close>, collected by database.\<close>

definition tables_by_database :: "string list \<Rightarrow> (string, string list) dict res" where
  "tables_by_database tables =
     fold_res (\<lambda>t d. case split_max CHR ''.'' 1 t of
         [db, name] \<Rightarrow> Inr (dict_set d db (dd_get d db [] @ [name]))
       | _ \<Rightarrow> Inl ValueError) tables []"

definition backup_labels :: "(string, string option) dict option \<Rightarrow> (string, string option) dict \<Rightarrow> (string, string option) dict option res" where
  "backup_labels configured labels =
     (if labels = [] then Inr configured
      else case configured of
        None \<Rightarrow> Inl (OtherException ''AttributeError'')
      | Some d \<Rightarrow> Inr (Some (fold (\<lambda>(k, v) d. dict_set d k v) labels d)))"

text \<open>The body of the \<open>try\<close>.\<close>

definition backup_sources_in_order ::
  "'w program \<Rightarrow> backup_sources \<Rightarrow> backup_metadata list \<Rightarrow> database list \<Rightarrow> (string, string list) dict \<Rightarrow> ('w, unit) act" where
  "backup_sources_in_order pg sources lights databases db_tables =
     (let me = manager_env_of pg; be = backup_env_of pg; cf = pg_config pg in
      bind_act (when_act (bs_access sources) (backup_access me)) (\<lambda>_.
      bind_act (when_act (bs_udf sources) (backup_udf me)) (\<lambda>_.
      bind_act (when_act (bs_named_collections sources) (backup_named_collections me)) (\<lambda>_.
      bind_act (when_act (bs_workload_entities sources) (backup_workload_entities me)) (\<lambda>_.
      bind_act
        (when_act (schemas_included sources)
           (bind_act (backup_databases be databases) (\<lambda>dbs.
            bind_act (pg_get pg (\<lambda>b. b)) (\<lambda>b.
            bind_act (collect_dedup_info (pg_layout pg) (pg_dedup pg) (cf_dedup_batch_size cf) (cf_dedup_age_limit cf) b dbs lights) (\<lambda>_.
              backup_tables be dbs db_tables (sources_schema_only sources)))))) (\<lambda>_.
      bind_act (layout_wait (pg_layout pg) False) (\<lambda>_.
        pg_change pg (\<lambda>b. b\<lparr>bm_state := CREATED\<rparr>))))))))"

text \<open>\<open>except (Exception, TerminatingSignal)\<close> and \<open>finally\<close>.\<close>

definition backup_failed :: "'w program \<Rightarrow> exn \<Rightarrow> ('w, unit) act" where
  "backup_failed pg e =
     bind_act (pg_change pg (\<lambda>b. b\<lparr>bm_state := FAILED, bm_exception := Some (pg_exception_text pg e)\<rparr>)) (\<lambda>_. raise e)"

definition finish_backup :: "'w program \<Rightarrow> ('w, unit) act" where
  "finish_backup pg =
     bind_act (pg_now pg) (\<lambda>now.
     bind_act (pg_change pg (bm_update_end_time now)) (\<lambda>_.
     bind_act (pg_upload_meta pg) (\<lambda>_.
       when_act (\<not> cf_keep_freezed_data_on_failure (pg_config pg)) (remove_freezed_data (pg_ctl pg)))))"

definition guarded_backup :: "'w program \<Rightarrow> ('w, unit) act \<Rightarrow> ('w, unit) act" where
  "guarded_backup pg body =
     finally_act (try_act body (\<lambda>e. is_exception e \<or> e = TerminatingSignal) (backup_failed pg)) (finish_backup pg)"

definition check_schema_only_backup_skip_lock :: "'w program \<Rightarrow> backup_sources \<Rightarrow> bool" where
  "check_schema_only_backup_skip_lock pg sources \<longleftrightarrow>
     sources_schema_only sources \<and> cf_skip_lock_for_schema_only_backup (pg_config pg)"

definition backup_locked ::
  "'w program \<Rightarrow> backup_sources \<Rightarrow> backup_metadata list \<Rightarrow> database list \<Rightarrow> (string, string list) dict \<Rightarrow> ('w, unit) act" where
  "backup_locked pg sources lights databases db_tables =
     locked pg True (check_schema_only_backup_skip_lock pg sources) ''BACKUP''
       (bind_act (pg_upload_meta pg) (\<lambda>_.
          guarded_backup pg (backup_sources_in_order pg sources lights databases db_tables)))"

definition start_backup :: "'w program \<Rightarrow> backup_sources \<Rightarrow> string \<Rightarrow> (string, string option) dict option \<Rightarrow> ('w, unit) act" where
  "start_backup pg sources name labels =
     bind_act (pg_now pg) (\<lambda>now.
       pg_change pg (\<lambda>_. new_backup_metadata (pg_fqdn pg) now name (cf_version (pg_config pg)) (cc_version (pg_ctl pg))
         (cf_time_format (pg_config pg)) None (option_or labels []) (sources_schema_only sources) (cf_encryption (pg_config pg))
         (Some (get_backup_path (pg_layout pg) name))))"

definition backup_cmd ::
  "'w program \<Rightarrow> backup_sources \<Rightarrow> string \<Rightarrow> string list option \<Rightarrow> string list \<Rightarrow> bool \<Rightarrow> (string, string option) dict
     \<Rightarrow> ('w, string \<times> string option) act" where
  "backup_cmd pg sources name db_names tables force labels =
     bind_act (get_backups (pg_layout pg) True) (\<lambda>lights.
       if List.member (map bm_name lights) name then raise ClickhouseBackupError
       else
         bind_act (lift_res (assert_res (\<not> (option_or db_names [] \<noteq> [] \<and> tables \<noteq> [])))) (\<lambda>_.
         bind_act (lift_res (backup_labels (cf_labels (pg_config pg)) labels)) (\<lambda>labels.
         bind_act (lift_res (tables_by_database tables)) (\<lambda>db_tables.
         bind_act (get_databases (pg_ctl pg) (cf_exclude_dbs (pg_config pg))) (\<lambda>databases.
         let db_names = (if tables = [] then db_names else Some (dict_keys db_tables));
             databases = (case db_names of None \<Rightarrow> databases
                          | Some ns \<Rightarrow> filter (\<lambda>d. List.member ns (db_name d)) databases) in
         bind_act (case lights of [] \<Rightarrow> ret True
                   | b # _ \<Rightarrow> check_min_interval (retention_ctx_of pg None None) b force) (\<lambda>due.
           if \<not> due
           then ret (bm_name (hd lights), Some ''Backup is skipped per backup.min_interval config option.'')
           else
             bind_act (start_backup pg sources name labels) (\<lambda>_.
             bind_act (backup_locked pg sources lights databases db_tables) (\<lambda>_.
             bind_act (pg_get pg bm_name) (\<lambda>n. ret (n, None))))))))))"

section \<open>Restoring a backup\<close>

datatype clean_zookeeper_mode = DISABLED | REPLICA_ONLY | ALL_REPLICAS

record restore_args =
  ra_databases :: "string list"
  ra_exclude_databases :: "string list"
  ra_override_replica_name :: "string option"
  ra_force_non_replicated :: bool
  ra_replica_name :: "string option"
  ra_source :: cloud_source
  ra_skip_cloud_storage :: bool
  ra_clean_zookeeper_mode :: clean_zookeeper_mode
  ra_keep_going :: bool
  ra_restore_tables_in_replicated_database :: bool
  ra_filter :: "restore_filter option"

text \<open>The two options are written into the configuration, where the managers read them.\<close>

definition with_restore_options :: "'w program \<Rightarrow> restore_args \<Rightarrow> 'w program" where
  "with_restore_options pg ra =
     (let cf = pg_config pg in
      pg\<lparr>pg_config := cf\<lparr>cf_override_replica_name :=
            (case non_empty (ra_override_replica_name ra) of None \<Rightarrow> cf_override_replica_name cf | Some n \<Rightarrow> Some n),
          cf_force_non_replicated := ra_force_non_replicated ra \<or> cf_force_non_replicated cf\<rparr>\<rparr>)"

definition databases_to_restore :: "backup_metadata \<Rightarrow> restore_args \<Rightarrow> string list res" where
  "databases_to_restore b ra =
     (if ra_databases ra \<noteq> [] \<and> \<not> set (ra_databases ra) \<subseteq> set (bm_get_databases b) then Inl ClickhouseBackupError
      else Inr (filter (\<lambda>d. \<not> List.member (ra_exclude_databases ra) d)
                  (if ra_databases ra = [] then bm_get_databases b else ra_databases ra)))"

definition tables_of_names :: "backup_metadata \<Rightarrow> string list \<Rightarrow> table_metadata list res" where
  "tables_of_names b names = bind_res (map_res (\<lambda>n. bm_get_tables (Some n) b) names) (\<lambda>ts. Inr (concat ts))"

text \<open>The tables a filter accepts; no tables stand for all tables.\<close>

definition tables_to_restore :: "backup_metadata \<Rightarrow> string list \<Rightarrow> restore_filter option \<Rightarrow> table_metadata list res" where
  "tables_to_restore b names f =
     (case f of
        None \<Rightarrow> Inr []
      | Some f \<Rightarrow> bind_res (tables_of_names b names) (\<lambda>ts. Inr (filter (\<lambda>t. accept_table f (tm_database t) (tm_name t)) ts)))"

definition is_replicated_meta :: "table_metadata \<Rightarrow> bool" where
  "is_replicated_meta t \<longleftrightarrow> engine_is_replicated (rt_engine (tm_raw t))"

definition needs_zookeeper :: "backup_metadata \<Rightarrow> string list \<Rightarrow> table_metadata list \<Rightarrow> bool res" where
  "needs_zookeeper b names tables =
     bind_res (map_res (bm_get_database b) names) (\<lambda>dbs.
     bind_res (if tables \<noteq> [] then Inr tables else tables_of_names b names) (\<lambda>ts.
       Inr (list_ex is_replicated_db_engine dbs \<or> list_ex is_replicated_meta ts)))"

definition check_zookeeper_for_restore ::
  "'w program \<Rightarrow> backup_sources \<Rightarrow> string list \<Rightarrow> table_metadata list \<Rightarrow> ('w, unit) act" where
  "check_zookeeper_for_restore pg sources names tables =
     when_act (schemas_included sources \<and> \<not> cf_force_non_replicated (pg_config pg))
       (bind_act (pg_get pg (\<lambda>b. b)) (\<lambda>b.
        bind_act (lift_res (needs_zookeeper b names tables)) (\<lambda>needed.
          when_act needed
            (try_act (check_zookeeper_available (pg_ctl pg)) (\<lambda>e. is_clickhouse_error e \<or> is_request_error e)
               (\<lambda>_. raise ClickhouseBackupError)))))"

definition make_cleaner :: "'w program \<Rightarrow> restore_args \<Rightarrow> ('w, 'w cleaner option) act" where
  "make_cleaner pg ra =
     (case (ra_clean_zookeeper_mode ra, pg_zookeeper pg) of
        (DISABLED, _) \<Rightarrow> ret None
      | (_, None) \<Rightarrow> ret None
      | (mode, Some z) \<Rightarrow>
          bind_act
            (if mode = REPLICA_ONLY
             then bind_act (get_macros (pg_ctl pg)) (\<lambda>macros.
                  bind_act (lift_res (select_replica_drop (ra_replica_name ra) macros)) (\<lambda>r. ret (Some r)))
             else ret None) (\<lambda>replica.
          bind_act (get_macros (pg_ctl pg)) (\<lambda>macros.
            ret (Some \<lparr>mc_ctl = pg_ctl pg, mc_zk = z, mc_macros = macros, mc_replica_to_drop = replica,
              mc_schedule = pg_schedule pg, mc_cwd = pg_cwd pg\<rparr>))))"

text \<open>Databases that have failed to synchronise are tried again after the tables.\<close>

definition restore_schemas ::
  "'w program \<Rightarrow> restore_args \<Rightarrow> backup_sources \<Rightarrow> string list \<Rightarrow> table_metadata list \<Rightarrow> ('w, unit) act" where
  "restore_schemas pg ra sources names tables =
     (let re = restore_env_of pg; sy = sync_env_of pg in
      bind_act (pg_get pg (\<lambda>b. b)) (\<lambda>b.
      bind_act (lift_res (map_res (bm_get_database b) names)) (\<lambda>dbs.
      let databases = databases_by_name dbs in
      bind_act (make_cleaner pg ra) (\<lambda>cleaner.
      bind_act (restore_databases re b databases (ra_keep_going ra) cleaner) (\<lambda>restored.
      bind_act (wait_sync_replicated_databases sy restored True) (\<lambda>results.
      bind_act (restore_table_backup re (disk_env_of pg (ra_source ra) b) b databases (sources_schema_only sources) tables cleaner
          (cf_cloud_storage_restore_workers (pg_config pg)) (ra_skip_cloud_storage ra) (ra_keep_going ra)
          (ra_restore_tables_in_replicated_database ra)) (\<lambda>_.
      let failed = filter (\<lambda>d. map_of results (db_name d) = Some SYNC_FAILED) restored in
      bind_act (when_act (failed \<noteq> [])
          (bind_act (wait_sync_replicated_databases sy failed (ra_keep_going ra)) (\<lambda>_. ret ()))) (\<lambda>_ w.
        if bs_data sources \<and> has_failed_parts (pg_context pg w) \<and> cf_restore_fail_on_attach_error (pg_config pg)
        then raise ClickhouseBackupError w else ret () w))))))))"

definition restore_body ::
  "'w program \<Rightarrow> restore_args \<Rightarrow> backup_sources \<Rightarrow> string list \<Rightarrow> table_metadata list \<Rightarrow> ('w, unit) act" where
  "restore_body pg ra sources names tables =
     (let me = manager_env_of pg in
      bind_act (when_act (bs_access sources) (restore_access me True)) (\<lambda>_.
      bind_act (when_act (bs_udf sources) (restore_udf me)) (\<lambda>_.
      bind_act (when_act (bs_named_collections sources) (restore_named_collections me)) (\<lambda>_.
      bind_act (when_act (bs_workload_entities sources) (restore_workload_entities me)) (\<lambda>_.
        when_act (schemas_included sources) (restore_schemas pg ra sources names tables))))))"

definition restore_cmd :: "'w program \<Rightarrow> backup_sources \<Rightarrow> string \<Rightarrow> restore_args \<Rightarrow> ('w, unit) act" where
  "restore_cmd pg0 sources name ra =
     bind_act (load_backup pg0 name) (\<lambda>b.
     bind_act (pg_change pg0 (\<lambda>_. b)) (\<lambda>_.
       if fst (ra_source ra) = None \<and> bs_data sources \<and> \<not> ra_skip_cloud_storage ra \<and> cs_enabled (bm_cloud_storage b)
       then raise ClickhouseBackupError
       else
         (let pg = with_restore_options pg0 ra in
          bind_act (lift_res (databases_to_restore b ra)) (\<lambda>names.
          bind_act (lift_res (tables_to_restore b names (ra_filter ra))) (\<lambda>tables.
          bind_act (check_zookeeper_for_restore pg sources names tables) (\<lambda>_.
            locked pg (\<not> sources_schema_only sources) False ''RESTORE'' (restore_body pg ra sources names tables)))))))"

section \<open>The other commands\<close>

definition restore_access_control :: "'w program \<Rightarrow> string \<Rightarrow> ('w, unit) act" where
  "restore_access_control pg name =
     bind_act (load_backup pg name) (\<lambda>b.
     bind_act (pg_change pg (\<lambda>_. b)) (\<lambda>_.
       locked pg True False ''UNKNOWN'' (restore_access (manager_env_of pg) False)))"

definition fix_admin_user_cmd :: "'w program \<Rightarrow> bool \<Rightarrow> ('w, unit) act" where
  "fix_admin_user_cmd pg dry_run = locked pg True False ''UNKNOWN'' (fix_admin_user (manager_env_of pg) dry_run)"

definition get_cloud_storage_metadata :: "'w program \<Rightarrow> string \<Rightarrow> string \<Rightarrow> string option \<Rightarrow> ('w, bool) act" where
  "get_cloud_storage_metadata pg name disk_name local_path =
     bind_act (load_backup pg name) (\<lambda>b.
     bind_act (get_disk (pg_ctl pg) disk_name) (\<lambda>d.
     bind_act (if non_empty local_path = None then cloud_storage_metadata_exists (pg_layout pg) b d else ret False) (\<lambda>present.
       if present then ret False
       else
         bind_act (download_cloud_storage_metadata (pg_layout pg) b d disk_name AllTables local_path) (\<lambda>_.
         bind_act (layout_wait (pg_layout pg) False) (\<lambda>_. ret True)))))"

section \<open>The state of a backup in the storage\<close>

text \<open>The state that the last upload of metadata left in the storage. The metadata is a field of the world, which reading
  the clock, uploading and removing frozen data do not change.\<close>

locale stored_state =
  fixes pg :: "'w program" and stored :: "'w \<Rightarrow> backup_state option"
  assumes meta_set: "pg_meta pg (pg_set_meta pg b w) = b"
    and upload_stores: "upload_backup_metadata (pg_layout pg) b w = (Inr (), w') \<Longrightarrow> stored w' = Some (bm_state b)"
    and now_keeps: "keeps (\<lambda>w. pg_meta pg w = b) (pg_now pg)"
    and remove_keeps: "keeps (\<lambda>w. stored w = s) (remove_freezed_data (pg_ctl pg))"
begin

lemma finish_stores:
  assumes "finish_backup pg w = (Inr (), w')"
  shows "stored w' = Some (bm_state (pg_meta pg w))"
proof -
  from assms obtain now w1 w2 where 1: "pg_now pg w = (Inr now, w1)"
    and 2: "upload_backup_metadata (pg_layout pg) (bm_update_end_time now (pg_meta pg w1))
        (pg_set_meta pg (bm_update_end_time now (pg_meta pg w1)) w1) = (Inr (), w2)"
    and 3: "when_act (\<not> cf_keep_freezed_data_on_failure (pg_config pg)) (remove_freezed_data (pg_ctl pg)) w2 = (Inr (), w')"
    by (auto simp: finish_backup_def bind_act_result pg_change_def pg_upload_meta_def pg_get_def meta_set)
  have "pg_meta pg w1 = pg_meta pg w" using keepsD [OF now_keeps, of w "pg_meta pg w"] 1 by simp
  with upload_stores [OF 2] have "stored w2 = Some (bm_state (pg_meta pg w))" by (simp add: bm_update_end_time_def)
  moreover have "keeps (\<lambda>w. stored w = s) (when_act (\<not> cf_keep_freezed_data_on_failure (pg_config pg))
      (remove_freezed_data (pg_ctl pg)))" for s
    by (intro keeps_when remove_keeps)
  ultimately show ?thesis using keepsD [of "\<lambda>w. stored w = Some (bm_state (pg_meta pg w'))" for w'] 3
    by (metis (mono_tags, lifting) keepsD snd_conv)
qed

lemma guarded_backup_returns:
  assumes "guarded_backup pg body w = (Inr (), w')"
  shows "\<exists>w1. body w = (Inr (), w1) \<and> stored w' = Some (bm_state (pg_meta pg w1))"
proof -
  from assms obtain w1 where "try_act body (\<lambda>e. is_exception e \<or> e = TerminatingSignal) (backup_failed pg) w = (Inr (), w1)"
    and finish: "finish_backup pg w1 = (Inr (), w')"
    by (auto simp: guarded_backup_def finally_act_def split: prod.splits if_splits sum.splits)
  then have "body w = (Inr (), w1)"
    by (auto simp: try_act_def backup_failed_def bind_act_def split: prod.splits sum.splits if_splits)
  with finish_stores [OF finish] show ?thesis by blast
qed

lemma guarded_backup_fails:
  assumes "body w = (Inl e, w1)" "e \<noteq> SystemExit" "e \<noteq> Hangs" "guarded_backup pg body w = (r, w')"
  shows "r = Inl e \<and> stored w' = Some FAILED \<or> (\<exists>e2. finish_backup pg (snd (backup_failed pg e w1)) = (Inl e2, w') \<and> r = Inl e2)"
proof -
  let ?v = "pg_set_meta pg ((pg_meta pg w1)\<lparr>bm_state := FAILED, bm_exception := Some (pg_exception_text pg e)\<rparr>) w1"
  have caught: "try_act body (\<lambda>e. is_exception e \<or> e = TerminatingSignal) (backup_failed pg) w = backup_failed pg e w1"
    using assms(1-3) by (auto simp: try_act_def is_exception_def)
  have failed: "backup_failed pg e w1 = (Inl e, ?v)"
    by (simp add: backup_failed_def bind_act_def pg_change_def)
  show ?thesis
  proof (cases "finish_backup pg ?v")
    case (Pair q w2)
    with caught failed assms(3,4) have r: "w' = w2" "r = (case q of Inl e2 \<Rightarrow> Inl e2 | Inr _ \<Rightarrow> Inl e)"
      by (auto simp: guarded_backup_def finally_act_def split: sum.splits)
    show ?thesis
    proof (cases q)
      case (Inl e2)
      with r Pair failed show ?thesis by auto
    next
      case (Inr u)
      with finish_stores [of ?v w2] Pair r show ?thesis by (simp add: meta_set)
    qed
  qed
qed

end


section \<open>A filter that accepts nothing\<close>

text \<open>A partial restore whose filter accepts no table of the backup does what the restore without a filter does: the
  empty list of tables stands for all tables.\<close>

theorem empty_filter_restores_all:
  fixes pg :: "'w program"
  assumes "load_backup pg name w = (Inr b, w1)" "databases_to_restore b ra = Inr names"
    and "tables_to_restore b names (ra_filter ra) = Inr []"
  shows "restore_cmd pg sources name ra w = restore_cmd pg sources name (ra\<lparr>ra_filter := None\<rparr>) w"
proof -
  let ?ra = "ra\<lparr>ra_filter := None\<rparr>"
  have clean: "make_cleaner pg' ?ra = make_cleaner pg' ra" for pg' :: "'w program"
    by (cases "ra_clean_zookeeper_mode ra"; cases "pg_zookeeper pg'") (simp_all add: make_cleaner_def)
  have same: "with_restore_options pg ?ra = with_restore_options pg ra" "databases_to_restore b ?ra = databases_to_restore b ra"
    "restore_schemas pg' ?ra = restore_schemas pg' ra" for pg' :: "'w program"
    by (simp_all add: with_restore_options_def databases_to_restore_def restore_schemas_def clean fun_eq_iff)
  then have "restore_body pg' ?ra = restore_body pg' ra" for pg' :: "'w program" by (intro ext) (simp add: restore_body_def Let_def)
  moreover have "tables_to_restore b names (ra_filter ?ra) = Inr []" by (simp add: tables_to_restore_def)
  ultimately show ?thesis
    using assms same by (simp add: restore_cmd_def bind_act_def [of "load_backup pg name"] Let_def)
qed

section \<open>Examples\<close>

text \<open>A storage that keeps the objects uploaded to it, of which the latest is the first, and whose jobs may fail. The text of
  the metadata is its state.\<close>

record upload_world =
  uw_objects :: "(string \<times> string) list"
  uw_meta :: backup_metadata
  uw_job_fails :: bool

definition state_text :: "backup_doc \<Rightarrow> string" where
  "state_text doc = (case bd_meta doc of None \<Rightarrow> '''' | Some meta \<Rightarrow> option_or (md_state meta) '''')"

definition latest_state :: "upload_world \<Rightarrow> backup_state option" where
  "latest_state w =
     (case uw_objects w of [] \<Rightarrow> None | (path, text) # _ \<Rightarrow> (case state_of_value text of Inl e \<Rightarrow> None | Inr s \<Rightarrow> Some s))"

definition uploading :: "upload_world program \<Rightarrow> upload_world program" where
  "uploading pg =
     pg\<lparr>pg_layout := (pg_layout pg)
          \<lparr>ly_loader := (ly_loader (pg_layout pg))
             \<lparr>ld_upload_data := (\<lambda>d p e w. (Inr (), w\<lparr>uw_objects := (p, d) # uw_objects w\<rparr>)),
              ld_wait := (\<lambda>k w. (if uw_job_fails w then Inl OSError else Inr (), w))\<rparr>,
           ly_dumps := state_text\<rparr>,
        pg_ctl := (pg_ctl pg)\<lparr>cc_disks := []\<rparr>, pg_now := ret (PyTime 1 0),
        pg_meta := uw_meta, pg_set_meta := (\<lambda>b w. w\<lparr>uw_meta := b\<rparr>)\<rparr>"

lemma uploading_simps [simp]:
  "pg_meta (uploading pg) = uw_meta" "pg_set_meta (uploading pg) b w = w\<lparr>uw_meta := b\<rparr>"
  "pg_now (uploading pg) = ret (PyTime 1 0)" "ly_dumps (pg_layout (uploading pg)) = state_text"
  "ld_upload_data (ly_loader (pg_layout (uploading pg))) d p e w = (Inr (), w\<lparr>uw_objects := (p, d) # uw_objects w\<rparr>)"
  "ld_wait (ly_loader (pg_layout (uploading pg))) k w = (if uw_job_fails w then Inl OSError else Inr (), w)"
  "cc_disks (pg_ctl (uploading pg)) = []"
  by (simp_all add: uploading_def)

lemma uploading_saves:
  "upload_backup_metadata (pg_layout (uploading pg)) b w =
     (case bm_start_time b of
        None \<Rightarrow> (Inl StorageError, w)
      | Some t \<Rightarrow> (let text = state_value (bm_state b); ly = pg_layout (uploading pg) in
          (Inr (), w\<lparr>uw_objects := (backup_light_metadata_path ly (bm_name b), text) #
            (backup_metadata_path ly (bm_name b), text) # uw_objects w\<rparr>)))"
  by (simp add: upload_backup_metadata_def or_storage_error_def try_act_def bind_act_def bm_dump_json_def bm_dump_def
      non_empty_def state_text_def option_or_def is_exception_def Let_def split: option.split)

interpretation uploading: stored_state "uploading pg" latest_state for pg
  by unfold_locales
    (auto simp: keeps_def uploading_saves latest_state_def remove_freezed_data_def Let_def split: option.splits)

definition no_sources :: backup_sources where
  "no_sources = \<lparr>bs_access = False, bs_data = False, bs_schema = False, bs_udf = False, bs_named_collections = False,
     bs_workload_entities = False\<rparr>"

definition uploads_from :: "bool \<Rightarrow> upload_world" where
  "uploads_from fails = \<lparr>uw_objects = [], uw_meta = sample_backup [] 0, uw_job_fails = fails\<rparr>"


text \<open>A storage whose one backup has a table \<open>d.t\<close>, and a filter for another database.\<close>

definition one_table_time :: time_codec where
  "one_table_time = \<lparr>tc_format = \<lambda>f t. ''now'', tc_parse = \<lambda>f v. Inr (PyTime 1 0)\<rparr>"

definition one_table_program :: "'w program \<Rightarrow> 'w program" where
  "one_table_program pg =
     pg\<lparr>pg_layout := (pg_layout pg)
          \<lparr>ly_loader := (ly_loader (pg_layout pg))\<lparr>ld_path_exists := (\<lambda>p d. ret True), ld_download_data := (\<lambda>p e. ret '''')\<rparr>,
           ly_tc := one_table_time, ly_loads := (\<lambda>d. bm_dump one_table_time False (sample_backup [] 0))\<rparr>\<rparr>"

definition other_database_only :: restore_args where
  "other_database_only =
     \<lparr>ra_databases = [], ra_exclude_databases = [], ra_override_replica_name = None, ra_force_non_replicated = False,
      ra_replica_name = None, ra_source = (None, None, None), ra_skip_cloud_storage = False, ra_clean_zookeeper_mode = DISABLED,
      ra_keep_going = False, ra_restore_tables_in_replicated_database = False,
      ra_filter = Some \<lparr>rf_inverted = False, rf_patterns = [\<lparr>rp_database = ''x'', rp_table_pattern = ''y''\<rparr>]\<rparr>\<rparr>"

lemma one_table_load: "load_backup (one_table_program pg) name w = (Inr (sample_backup [] 0), w)"
proof -
  have legacy: "databases_with_legacy_part_links (sample_backup [] 0) = bm_databases (sample_backup [] 0)"
    by (simp add: databases_with_legacy_part_links_def map_raw_parts_def sample_backup_def Let_def)
  have "bind_res (bm_dump one_table_time False (sample_backup [] 0)) (bm_load one_table_time) = Inr (sample_backup [] 0)"
  proof -
    have "bind_res (bm_dump one_table_time False (sample_backup [] 0)) (bm_load one_table_time)
        = Inr ((sample_backup [] 0)\<lparr>bm_databases := databases_with_legacy_part_links (sample_backup [] 0)\<rparr>)"
      by (rule load_dump [of _ "PyTime 1 0"]) (simp_all add: one_table_time_def time_readable_def sample_simps)
    with legacy show ?thesis by simp
  qed
  then obtain doc where "bm_dump one_table_time False (sample_backup [] 0) = Inr doc"
    "bm_load one_table_time doc = Inr (sample_backup [] 0)" by auto
  then show ?thesis
    by (simp add: load_backup_def get_backup_def one_table_program_def load_or_retry_def load_metadata_def try_act_def bind_act_def
        Let_def)
qed

theorem empty_filter_restores_all_witness:
  "\<forall>pg w. restore_cmd (one_table_program pg) all_sources ''b'' other_database_only w
     = restore_cmd (one_table_program pg) all_sources ''b'' (other_database_only\<lparr>ra_filter := None\<rparr>) w"
proof (intro allI)
  fix pg :: "'w program" and w
  have names: "databases_to_restore (sample_backup [] 0) other_database_only = Inr [''d'']"
    by (simp add: databases_to_restore_def other_database_only_def bm_get_databases_def sample_backup_def)
  have "tables_to_restore (sample_backup [] 0) [''d''] (ra_filter other_database_only) = Inr []"
    by (simp add: tables_to_restore_def other_database_only_def tables_of_names_def accept_table_def filter_is_empty_def
        pattern_matches_def bm_get_tables_def sample_backup_def tables_of_def non_empty_def dict_get_def table_load_def
        new_table_metadata_def)
  from empty_filter_restores_all [OF one_table_load names this]
  show "restore_cmd (one_table_program pg) all_sources ''b'' other_database_only w
     = restore_cmd (one_table_program pg) all_sources ''b'' (other_database_only\<lparr>ra_filter := None\<rparr>) w" .
qed

end
