(* ===== verification/Params.thy ===== *)
theory Params
  imports Config Regex Cleaner
begin

text \<open>
  The types of the parameters of the command line (\<^verbatim>\<open>params.py\<close>). A value that does not fit is refused with click's
  \<open>BadParameter\<close>. The reader of time spans of \<^verbatim>\<open>humanfriendly\<close> and that of JSON are parameters.
\<close>

definition bad_parameter :: exn where "bad_parameter = OtherException ''BadParameter''"

text \<open>\<open>fullmatch\<close>: some match leaves nothing of the text.\<close>

definition rx_fullmatch :: "rx \<Rightarrow> string \<Rightarrow> bool" where
  "rx_fullmatch r s \<longleftrightarrow> list_ex (\<lambda>(prev, rest, g). rest = []) (matches r (None, s, []))"

section \<open>Lists\<close>

definition list_items :: "char \<Rightarrow> string \<Rightarrow> string list" where
  "list_items sep v = map strip (split_on sep v)"

definition convert_list :: "char \<Rightarrow> rx option \<Rightarrow> string \<Rightarrow> string list res" where
  "convert_list sep regexp v =
     (let items = list_items sep v in
      case regexp of
        None \<Rightarrow> Inr items
      | Some r \<Rightarrow> if list_all (rx_fullmatch r) items then Inr items else Inl bad_parameter)"

definition convert_key_value_list :: "char \<Rightarrow> char \<Rightarrow> string \<Rightarrow> (string, string) dict res" where
  "convert_key_value_list kv_sep list_sep v =
     bind_res (convert_list list_sep None v) (\<lambda>kvs.
       fold_res (\<lambda>kv d. case list_items kv_sep kv of [k, x] \<Rightarrow> Inr (dict_set d k x) | _ \<Rightarrow> Inl bad_parameter) kvs [])"

text \<open>The keys are distinct, so that every list is that of its one value.\<close>

definition convert_key_values_list :: "char \<Rightarrow> char \<Rightarrow> char \<Rightarrow> string \<Rightarrow> (string, string list) dict res" where
  "convert_key_values_list value_sep kv_sep list_sep v =
     bind_res (convert_key_value_list kv_sep list_sep v) (\<lambda>kvs.
       Inr (map (\<lambda>(k, x). (k, list_items value_sep x)) kvs))"

section \<open>Texts, time spans and JSON\<close>

definition convert_string :: "rx option \<Rightarrow> (string, string) dict \<Rightarrow> string \<Rightarrow> string res" where
  "convert_string regexp macros v =
     (let v = (if macros = [] then v else replace_macros (map (\<lambda>(k, x). (k, Some x)) macros) v) in
      case regexp of
        None \<Rightarrow> Inr v
      | Some r \<Rightarrow> if rx_fullmatch r v then Inr v else Inl bad_parameter)"

text \<open>The parameter reads a time span as seconds, rounded towards zero.\<close>

definition convert_time_span :: "(string \<Rightarrow> int res) \<Rightarrow> string \<Rightarrow> int res" where
  "convert_time_span parse_timespan v =
     (case parse_timespan v of
        Inl e \<Rightarrow> Inl (if e = OtherException ''InvalidTimespan'' then bad_parameter else e)
      | Inr n \<Rightarrow> Inr n)"

definition JSON_VALUE :: rx where
  "JSON_VALUE =
     (let digit_char = Chr is_digit in
      cats [star space,
        Grp ''1'' (Alt (Cat (Chr (\<lambda>c. c \<in> {CHR ''['', CHR ''{'', CHR 0x22})) (star anything))
          (Alt (lit ''true'') (Alt (lit ''false'') (Alt (lit ''null'')
             (Cat (plus1 digit_char) (opt (Grp ''2'' (Cat (lit ''.'') (plus1 digit_char))))))))),
        star space])"

definition convert_json :: "(string \<Rightarrow> conf res) \<Rightarrow> string \<Rightarrow> conf res" where
  "convert_json loads v =
     (if rx_fullmatch JSON_VALUE v then
        (case loads v of
           Inl e \<Rightarrow> Inl (if e = OtherException ''JSONDecodeError'' then bad_parameter else e)
         | Inr c \<Rightarrow> Inr c)
      else Inr (CStr (strip v)))"

text \<open>A negative number and one with an exponent are no numbers but texts.\<close>

lemma negative_number_is_text: "convert_json loads ''-5'' = Inr (CStr ''-5'')"
proof -
  have "\<not> rx_fullmatch JSON_VALUE ''-5''" "strip ''-5'' = ''-5''" by code_simp+
  then show ?thesis by (simp add: convert_json_def)
qed

lemma convert_list_items: "convert_list sep (Some r) v = Inr items \<Longrightarrow> i \<in> set items \<Longrightarrow> rx_fullmatch r i"
  by (auto simp: convert_list_def list_all_iff Let_def split: if_splits)

end
