(* ===== verification/Context.thy ===== *)
theory Context
  imports Config BackupMeta
begin

text \<open>
  \<open>BackupContext\<close> (\<^verbatim>\<open>backup_context.py\<close>): the objects that the managers share, each made when it is first asked for, and the
  object \<open>ClickhouseBackup\<close> (\<^verbatim>\<open>ch_backup.py\<close>) that makes the context in the same way and drops it when the configuration
  is reloaded. The classes of the objects are type variables, and their constructors are the record \<open>makers\<close>; the other
  theories hold the objects themselves.
\<close>

declare act_simps [simp del]

section \<open>Attributes made on first use\<close>

text \<open>\<open>if not hasattr(self, "_x"): self._x = make()\<close>, on the pair of the world and the object.\<close>

definition on_first_use ::
  "('b \<Rightarrow> 'a option) \<Rightarrow> ('a \<Rightarrow> 'b \<Rightarrow> 'b) \<Rightarrow> ('w \<times> 'b, 'a) act \<Rightarrow> ('w \<times> 'b, 'a) act" where
  "on_first_use field put create s =
     (case field (snd s) of
        Some x \<Rightarrow> (Inr x, s)
      | None \<Rightarrow> bind_act create (\<lambda>x. bind_act (set_object (put x)) (\<lambda>_. ret x)) s)"

text \<open>An attribute with its setter. What the attribute promises: it is made once, and everyone gets the same object.\<close>

locale attribute =
  fixes field :: "'b \<Rightarrow> 'a option" and put :: "'a \<Rightarrow> 'b \<Rightarrow> 'b"
  assumes field_put: "field (put x b) = Some x"
begin

lemma made_once:
  assumes "on_first_use field put create s = (Inr x, s')"
  shows "field (snd s') = Some x" "on_first_use field put create2 s' = (Inr x, s')"
  using assms field_put
  by (auto simp: on_first_use_def bind_act_result set_object_def ret_def split: option.splits)

lemma made_unless_present:
  assumes "field (snd s) = Some x"
  shows "on_first_use field put create s = (Inr x, s)"
  using assms by (simp add: on_first_use_def)

text \<open>An attribute whose constructor fails is tried again the next time.\<close>

lemma failure_not_kept:
  assumes "on_first_use field put create s = (Inl e, s')"
  shows "field (snd s) = None \<and> create s = (Inl e, s')"
  using assms
  by (auto simp: on_first_use_def bind_act_def set_object_def ret_def split: option.splits prod.splits sum.splits)

end

section \<open>The context\<close>

record ('c, 'l, 'z, 'r, 'k, 'h) context_state =
  bx_config_root :: "(string, conf) dict"
  bx_lock_conf :: conf
  bx_ch_ctl_conf :: conf
  bx_main_conf :: conf
  bx_config :: conf
  bx_zk_config :: conf
  bx_cloud_conf :: conf
  bx_ch_ctl :: "'c option"
  bx_backup_layout :: "'l option"
  bx_zk_ctl :: "'z option"
  bx_restore_context :: "'r option"
  bx_locker :: "'k option"
  bx_ch_config :: "'h option"
  bx_backup_meta :: "backup_metadata option"

record ('w, 'c, 'l, 'z, 'r, 'k, 'h) makers =
  mk_ch_ctl :: "conf \<Rightarrow> conf \<Rightarrow> conf \<Rightarrow> ('w, 'c) act"
  mk_backup_layout :: "(string, conf) dict \<Rightarrow> ('w, 'l) act"
  mk_zk_ctl :: "conf \<Rightarrow> ('w, 'z) act"
  mk_restore_context :: "conf \<Rightarrow> ('w, 'r) act"
  mk_locker :: "conf \<Rightarrow> 'z option \<Rightarrow> ('w, 'k) act"
  mk_ch_config :: "(string, conf) dict \<Rightarrow> ('w, 'h) act"

definition new_context :: "(string, conf) dict \<Rightarrow> ('c, 'l, 'z, 'r, 'k, 'h) context_state" where
  "new_context config =
     \<lparr>bx_config_root = config, bx_lock_conf = config_get config ''lock'' CNull,
      bx_ch_ctl_conf = config_get config ''clickhouse'' CNull, bx_main_conf = config_get config ''main'' CNull,
      bx_config = config_get config ''backup'' CNull, bx_zk_config = config_get config ''zookeeper'' CNull,
      bx_cloud_conf = config_get config ''cloud_storage'' CNull, bx_ch_ctl = None, bx_backup_layout = None,
      bx_zk_ctl = None, bx_restore_context = None, bx_locker = None, bx_ch_config = None, bx_backup_meta = None\<rparr>"

text \<open>\<open>self._zk_config["hosts"]\<close>, as a condition.\<close>

definition zk_hosts_given :: "conf \<Rightarrow> bool res" where
  "zk_hosts_given zk_config =
     (case zk_config of CDict d \<Rightarrow> bind_res (dict_get d ''hosts'') (\<lambda>hosts. Inr (conf_true hosts)) | _ \<Rightarrow> Inl TypeError)"

definition set_ch_ctl :: "'c \<Rightarrow> ('c, 'l, 'z, 'r, 'k, 'h) context_state \<Rightarrow> ('c, 'l, 'z, 'r, 'k, 'h) context_state" where
  "set_ch_ctl x c = c\<lparr>bx_ch_ctl := Some x\<rparr>"

definition set_backup_layout :: "'l \<Rightarrow> ('c, 'l, 'z, 'r, 'k, 'h) context_state \<Rightarrow> ('c, 'l, 'z, 'r, 'k, 'h) context_state" where
  "set_backup_layout x c = c\<lparr>bx_backup_layout := Some x\<rparr>"

definition set_zk_ctl :: "'z \<Rightarrow> ('c, 'l, 'z, 'r, 'k, 'h) context_state \<Rightarrow> ('c, 'l, 'z, 'r, 'k, 'h) context_state" where
  "set_zk_ctl x c = c\<lparr>bx_zk_ctl := Some x\<rparr>"

definition set_restore_context :: "'r \<Rightarrow> ('c, 'l, 'z, 'r, 'k, 'h) context_state \<Rightarrow> ('c, 'l, 'z, 'r, 'k, 'h) context_state" where
  "set_restore_context x c = c\<lparr>bx_restore_context := Some x\<rparr>"

definition set_locker :: "'k \<Rightarrow> ('c, 'l, 'z, 'r, 'k, 'h) context_state \<Rightarrow> ('c, 'l, 'z, 'r, 'k, 'h) context_state" where
  "set_locker x c = c\<lparr>bx_locker := Some x\<rparr>"

definition set_ch_config :: "'h \<Rightarrow> ('c, 'l, 'z, 'r, 'k, 'h) context_state \<Rightarrow> ('c, 'l, 'z, 'r, 'k, 'h) context_state" where
  "set_ch_config x c = c\<lparr>bx_ch_config := Some x\<rparr>"

definition set_backup_meta ::
  "backup_metadata \<Rightarrow> ('c, 'l, 'z, 'r, 'k, 'h) context_state \<Rightarrow> ('c, 'l, 'z, 'r, 'k, 'h) context_state" where
  "set_backup_meta x c = c\<lparr>bx_backup_meta := Some x\<rparr>"

text \<open>The setter of \<open>config_root\<close>, as it is written.\<close>

definition set_config_root ::
  "conf \<Rightarrow> ('c, 'l, 'z, 'r, 'k, 'h) context_state \<Rightarrow> ('c, 'l, 'z, 'r, 'k, 'h) context_state" where
  "set_config_root config c = c\<lparr>bx_config := config\<rparr>"

type_synonym ('w, 'c, 'l, 'z, 'r, 'k, 'h, 'a) context_op = "('w \<times> ('c, 'l, 'z, 'r, 'k, 'h) context_state, 'a) act"

definition context_ch_ctl ::
  "('w, 'c, 'l, 'z, 'r, 'k, 'h) makers \<Rightarrow> ('w, 'c, 'l, 'z, 'r, 'k, 'h, 'c) context_op" where
  "context_ch_ctl mk =
     on_first_use bx_ch_ctl set_ch_ctl (\<lambda>s.
       on_world (mk_ch_ctl mk (bx_ch_ctl_conf (snd s)) (bx_main_conf (snd s)) (bx_config (snd s))) s)"

definition context_backup_layout ::
  "('w, 'c, 'l, 'z, 'r, 'k, 'h) makers \<Rightarrow> ('w, 'c, 'l, 'z, 'r, 'k, 'h, 'l) context_op" where
  "context_backup_layout mk =
     on_first_use bx_backup_layout set_backup_layout (\<lambda>s. on_world (mk_backup_layout mk (bx_config_root (snd s))) s)"

definition context_zk_ctl ::
  "('w, 'c, 'l, 'z, 'r, 'k, 'h) makers \<Rightarrow> ('w, 'c, 'l, 'z, 'r, 'k, 'h, 'z) context_op" where
  "context_zk_ctl mk =
     on_first_use bx_zk_ctl set_zk_ctl (\<lambda>s.
       bind_act (lift_res (zk_hosts_given (bx_zk_config (snd s)))) (\<lambda>given.
         if \<not> given then raise RuntimeError else on_world (mk_zk_ctl mk (bx_zk_config (snd s)))) s)"

definition context_restore_context ::
  "('w, 'c, 'l, 'z, 'r, 'k, 'h) makers \<Rightarrow> ('w, 'c, 'l, 'z, 'r, 'k, 'h, 'r) context_op" where
  "context_restore_context mk =
     on_first_use bx_restore_context set_restore_context (\<lambda>s. on_world (mk_restore_context mk (bx_config (snd s))) s)"

definition context_locker ::
  "('w, 'c, 'l, 'z, 'r, 'k, 'h) makers \<Rightarrow> ('w, 'c, 'l, 'z, 'r, 'k, 'h, 'k) context_op" where
  "context_locker mk =
     on_first_use bx_locker set_locker (\<lambda>s.
       bind_act (lift_res (zk_hosts_given (bx_zk_config (snd s)))) (\<lambda>given.
       bind_act (if given then bind_act (context_zk_ctl mk) (\<lambda>z. ret (Some z)) else ret None) (\<lambda>zk_ctl s1.
         on_world (mk_locker mk (bx_lock_conf (snd s1)) zk_ctl) s1)) s)"

definition context_ch_config ::
  "('w, 'c, 'l, 'z, 'r, 'k, 'h) makers \<Rightarrow> ('w, 'c, 'l, 'z, 'r, 'k, 'h, 'h) context_op" where
  "context_ch_config mk =
     on_first_use bx_ch_config set_ch_config (\<lambda>s. on_world (mk_ch_config mk (bx_config_root (snd s))) s)"

text \<open>The metadata of the backup has no default: reading it first is an \<open>AttributeError\<close>.\<close>

definition context_backup_meta :: "('w, 'c, 'l, 'z, 'r, 'k, 'h, backup_metadata) context_op" where
  "context_backup_meta s =
     (case bx_backup_meta (snd s) of None \<Rightarrow> (Inl (OtherException ''AttributeError''), s) | Some b \<Rightarrow> (Inr b, s))"

interpretation ch_ctl_attribute: attribute bx_ch_ctl set_ch_ctl
  by unfold_locales (simp add: set_ch_ctl_def)

interpretation backup_layout_attribute: attribute bx_backup_layout set_backup_layout
  by unfold_locales (simp add: set_backup_layout_def)

interpretation zk_ctl_attribute: attribute bx_zk_ctl set_zk_ctl
  by unfold_locales (simp add: set_zk_ctl_def)

interpretation restore_context_attribute: attribute bx_restore_context set_restore_context
  by unfold_locales (simp add: set_restore_context_def)

interpretation locker_attribute: attribute bx_locker set_locker
  by unfold_locales (simp add: set_locker_def)

interpretation ch_config_attribute: attribute bx_ch_config set_ch_config
  by unfold_locales (simp add: set_ch_config_def)

section \<open>What is shared\<close>

text \<open>The lock manager is given the ZooKeeper client that the context hands out to everyone, and none without hosts.\<close>

theorem locker_shares_zk_ctl:
  assumes "context_locker mk s = (Inr k, s')" "bx_locker (snd s) = None"
  shows "\<exists>given. zk_hosts_given (bx_zk_config (snd s)) = Inr given \<and>
    (if given then \<exists>z w w'. context_zk_ctl mk s' = (Inr z, s') \<and>
        mk_locker mk (bx_lock_conf (snd s)) (Some z) w = (Inr k, w')
     else \<exists>w'. mk_locker mk (bx_lock_conf (snd s)) None (fst s) = (Inr k, w'))"
proof -
  from assms obtain given where given: "zk_hosts_given (bx_zk_config (snd s)) = Inr given"
    by (auto simp: context_locker_def on_first_use_def bind_act_def lift_res_def split: sum.splits)
  show ?thesis
  proof (cases given)
    case False
    with assms given show ?thesis
      by (auto simp: context_locker_def on_first_use_def bind_act_def lift_res_def ret_def on_world_def set_object_def
          split: sum.splits prod.splits)
  next
    case True
    from assms given True obtain z s1 w where z: "context_zk_ctl mk s = (Inr z, s1)"
      and k: "mk_locker mk (bx_lock_conf (snd s1)) (Some z) (fst s1) = (Inr k, w)"
      and s': "s' = (w, set_locker k (snd s1))"
      by (auto simp: context_locker_def on_first_use_def bind_act_def lift_res_def ret_def on_world_def set_object_def
          split: sum.splits prod.splits)
    have "bx_lock_conf (snd s1) = bx_lock_conf (snd s)"
      using z by (auto simp: context_zk_ctl_def on_first_use_def bind_act_def lift_res_def ret_def raise_def on_world_def
          set_object_def set_zk_ctl_def split: sum.splits prod.splits option.splits if_splits)
    moreover have "bx_zk_ctl (snd s1) = Some z"
      using zk_ctl_attribute.made_once(1) z by (simp add: context_zk_ctl_def)
    then have "context_zk_ctl mk s' = (Inr z, s')"
      by (simp add: context_zk_ctl_def zk_ctl_attribute.made_unless_present s' set_locker_def)
    ultimately show ?thesis using given True k by auto
  qed
qed

section \<open>The object of a command\<close>

text \<open>\<open>ClickhouseBackup\<close>: the managers have no state; the context is a \<open>cached_property\<close>, kept in the dictionary of the
  object once it has been read.\<close>

record 'x clickhouse_backup =
  cb_config :: "(string, conf) dict"
  cb_context :: "'x option"

definition new_clickhouse_backup :: "(string, conf) dict \<Rightarrow> 'x clickhouse_backup" where
  "new_clickhouse_backup config = \<lparr>cb_config = config, cb_context = None\<rparr>"

definition cb_cached_context ::
  "(('c, 'l, 'z, 'r, 'k, 'h) context_state) clickhouse_backup \<Rightarrow>
   ('c, 'l, 'z, 'r, 'k, 'h) context_state \<times> (('c, 'l, 'z, 'r, 'k, 'h) context_state) clickhouse_backup" where
  "cb_cached_context cb =
     (case cb_context cb of
        Some ctx \<Rightarrow> (ctx, cb)
      | None \<Rightarrow> (let ctx = new_context (cb_config cb) in (ctx, cb\<lparr>cb_context := Some ctx\<rparr>)))"

text \<open>\<open>del self._context\<close> removes the entry of the dictionary; without one it is an \<open>AttributeError\<close>.\<close>

definition cb_reload_config :: "(string, conf) dict \<Rightarrow> 'x clickhouse_backup \<Rightarrow> 'x clickhouse_backup res" where
  "cb_reload_config config cb =
     (case cb_context cb of
        None \<Rightarrow> Inl (OtherException ''AttributeError'')
      | Some ctx \<Rightarrow> Inr \<lparr>cb_config = config, cb_context = None\<rparr>)"

lemma cached_context_stays:
  "cb_cached_context (snd (cb_cached_context cb)) = (fst (cb_cached_context cb), snd (cb_cached_context cb))"
  by (auto simp: cb_cached_context_def Let_def split: option.splits)

lemma reloaded_context:
  assumes "cb_reload_config config (snd (cb_cached_context cb)) = Inr cb'"
  shows "fst (cb_cached_context cb') = new_context config"
  using assms by (auto simp: cb_reload_config_def cb_cached_context_def Let_def split: option.splits)

lemma reload_before_use:
  "cb_reload_config config (new_clickhouse_backup config0) = Inl (OtherException ''AttributeError'')"
  by (simp add: cb_reload_config_def new_clickhouse_backup_def)

end
