(* ===== verification/Cli.thy ===== *)
theory Cli
  imports TopLevel Params Context
begin

text \<open>
  The command line (\<^verbatim>\<open>cli.py\<close>): the configuration after its options, the checks of the options and of the names of
  backups, and the commands. What a command prints is its result. The decorator that logs and the preparation of the process are
  in the theory \<open>Session\<close>. The parser of the command line (click and cloup) and the formatting of tables and JSON are not
  modelled.
\<close>

definition usage_error :: exn where "usage_error = OtherException ''UsageError''"

section \<open>Options of the configuration\<close>

record cli_options =
  co_protocol :: "string option"
  co_host :: "string option"
  co_port :: "int option"
  co_ca_path :: "string option"
  co_insecure :: bool
  co_zk_hosts :: "string option"
  co_parameters :: "(string \<times> conf) list"

definition set_in_section :: "string \<Rightarrow> string \<Rightarrow> conf option \<Rightarrow> (string, conf) dict \<Rightarrow> (string, conf) dict res" where
  "set_in_section section k v c =
     (case v of
        None \<Rightarrow> Inr c
      | Some v \<Rightarrow> bind_res (config_item c section) (\<lambda>s.
          case s of CDict d \<Rightarrow> Inr (set_config_item c section (CDict (dict_set d k v))) | _ \<Rightarrow> Inl TypeError))"

text \<open>The loop over the keys of a path. From a value that is no section the loop goes on to the last key, and raises.\<close>

fun put_at :: "conf \<Rightarrow> string list \<Rightarrow> conf \<Rightarrow> conf res" where
  "put_at c [] v = Inr c"
| "put_at c [k] v = (case c of CDict d \<Rightarrow> Inr (CDict (dict_set d k v)) | _ \<Rightarrow> Inl TypeError)"
| "put_at c (k # j # ks) v =
     (case c of
        CDict d \<Rightarrow> bind_res (put_at (config_get d k (CDict [])) (j # ks) v) (\<lambda>s. Inr (CDict (dict_set d k s)))
      | _ \<Rightarrow> put_at c (j # ks) v)"

definition split_key :: "string \<Rightarrow> string list" where
  "split_key key = split_on CHR ''.'' key"

text \<open>The last value of a key counts. Shorter paths are set before longer ones.\<close>

definition sorted_parameters :: "(string \<times> conf) list \<Rightarrow> (string \<times> conf) list" where
  "sorted_parameters values =
     sort_key (\<lambda>(key, v). length (split_key key)) (fold (\<lambda>(key, v) d. dict_set d key v) values [])"

definition build_cli_cfg_from_config_parameters :: "(string \<times> conf) list \<Rightarrow> conf res" where
  "build_cli_cfg_from_config_parameters values =
     fold_res (\<lambda>(key, v) c. put_at c (split_key key) v) (sorted_parameters values) (CDict [])"

definition with_options :: "(string, conf) dict \<Rightarrow> cli_options \<Rightarrow> (string, conf) dict res" where
  "with_options c co =
     (let ca_path = (if co_insecure co then Some (CBool False) else map_option CStr (co_ca_path co)) in
      bind_res (set_in_section ''clickhouse'' ''host'' (map_option CStr (co_host co)) c) (\<lambda>c.
      bind_res (set_in_section ''clickhouse'' ''protocol'' (map_option CStr (co_protocol co)) c) (\<lambda>c.
      bind_res (set_in_section ''clickhouse'' ''port'' (map_option CInt (co_port co)) c) (\<lambda>c.
      bind_res (set_in_section ''clickhouse'' ''ca_path'' ca_path c) (\<lambda>c.
        set_in_section ''zookeeper'' ''hosts'' (map_option CStr (co_zk_hosts co)) c)))))"

definition cli_config :: "string \<Rightarrow> conf res \<Rightarrow> cli_options \<Rightarrow> (string, conf) dict res" where
  "cli_config hostname parsed co =
     bind_res (new_config hostname parsed) (\<lambda>c.
     bind_res (with_options c co) (\<lambda>c.
     bind_res (build_cli_cfg_from_config_parameters (co_parameters co)) (\<lambda>p.
       case p of CDict patch \<Rightarrow> merge_config c patch | _ \<Rightarrow> Inl TypeError)))"

section \<open>Names and lists\<close>

definition mutually_exclusive :: "bool list \<Rightarrow> bool" where
  "mutually_exclusive bs \<longleftrightarrow> length (filter id bs) \<le> 1"

definition check_constraints :: "bool list list \<Rightarrow> unit res" where
  "check_constraints groups = (if list_all mutually_exclusive groups then Inr () else Inl usage_error)"

definition DATABASES_FORMAT :: rx where "DATABASES_FORMAT = plus1 word_char"
definition TABLES_FORMAT :: rx where "TABLES_FORMAT = plus1 (Chr (\<lambda>c. is_word c \<or> c = CHR ''.''))"
definition PATTERNS_FORMAT :: rx where
  "PATTERNS_FORMAT = cats [plus1 word_char, lit ''.'', plus1 (Chr (\<lambda>c. is_word c \<or> c = CHR ''*''))]"
definition NAME_FORMAT :: rx where "NAME_FORMAT = plus1 (Chr (\<lambda>c. is_word c \<or> c = CHR ''-''))"

definition list_option :: "rx \<Rightarrow> string option \<Rightarrow> string list option res" where
  "list_option format v =
     (case v of None \<Rightarrow> Inr None
      | Some s \<Rightarrow> bind_res (convert_list CHR '','' (Some format) s) (\<lambda>xs. Inr (Some xs)))"

definition list_to_database_names :: "string list option \<Rightarrow> string list" where
  "list_to_database_names dbs = option_or dbs []"

definition key_values_to_tables_metadata :: "(string, string list) dict option \<Rightarrow> table_metadata list" where
  "key_values_to_tables_metadata kvs =
     concat (map (\<lambda>(k, vs). map (\<lambda>v. new_table_metadata k v '''' (Some '''')) vs) (option_or kvs []))"

definition cli_list :: "'w program \<Rightarrow> backup_state option \<Rightarrow> ('w, backup_metadata list) act" where
  "cli_list pg state = list_backups (retention_ctx_of pg None None) state"

definition validate_and_resolve_name :: "'w program \<Rightarrow> string \<Rightarrow> backup_state option \<Rightarrow> ('w, string) act" where
  "validate_and_resolve_name pg name state =
     bind_act (cli_list pg state) (\<lambda>backups.
       if name = ''LAST'' then (case backups of [] \<Rightarrow> raise usage_error | b # _ \<Rightarrow> ret (bm_name b))
       else if List.member (map bm_name backups) name then ret name
       else raise usage_error)"

section \<open>Listing and showing\<close>

record backup_record =
  br_name :: string
  br_state :: string
  br_start_time :: string
  br_end_time :: "string option"
  br_size :: int
  br_real_size :: int
  br_ch_version :: string

datatype listing =
    Names_listing string
  | Json_listing "(backup_record \<times> (string, string option) dict \<times> string list \<times> string option) list"
  | Table_listing "(backup_record \<times> string) list"

definition start_time_str :: "time_codec \<Rightarrow> backup_metadata \<Rightarrow> string res" where
  "start_time_str tc b =
     (case bm_start_time b of None \<Rightarrow> Inl (OtherException ''AttributeError'') | Some t \<Rightarrow> Inr (tc_format tc (bm_time_format b) t))"

definition end_time_str :: "time_codec \<Rightarrow> backup_metadata \<Rightarrow> string option" where
  "end_time_str tc b = map_option (tc_format tc (bm_time_format b)) (bm_end_time b)"

definition backup_record_of :: "time_codec \<Rightarrow> backup_metadata \<Rightarrow> backup_record res" where
  "backup_record_of tc b =
     bind_res (start_time_str tc b) (\<lambda>start.
       Inr \<lparr>br_name = bm_name b, br_state = state_value (bm_state b), br_start_time = start, br_end_time = end_time_str tc b,
         br_size = bm_size b, br_real_size = bm_real_size b, br_ch_version = bm_ch_version b\<rparr>)"

definition NEWLINE :: string where "NEWLINE = [CHR 0x0A]"

definition labels_text :: "(string, string option) dict \<Rightarrow> string" where
  "labels_text labels = join_str NEWLINE (map (\<lambda>(n, v). n @ '': '' @ option_or v ''None'') labels)"

definition list_command :: "'w program \<Rightarrow> bool \<Rightarrow> bool \<Rightarrow> bool \<Rightarrow> ('w, listing) act" where
  "list_command pg verbose all_backups as_json =
     bind_act (cli_list pg (if all_backups then None else Some CREATED)) (\<lambda>backups.
       if \<not> verbose then ret (Names_listing (join_str NEWLINE (map bm_name backups)))
       else
         bind_act (lift_res (map_res (backup_record_of (ly_tc (pg_layout pg))) backups)) (\<lambda>records.
           ret (if as_json
                then Json_listing (map (\<lambda>(r, b). (r, bm_labels b, cs_disks (bm_cloud_storage b), bm_exception b)) (zip records backups))
                else Table_listing (map (\<lambda>(r, b). (r, labels_text (bm_labels b))) (zip records backups)))))"

definition show_command :: "'w program \<Rightarrow> string \<Rightarrow> string option \<Rightarrow> string option \<Rightarrow> ('w, backup_doc) act" where
  "show_command pg name database table =
     bind_act (validate_and_resolve_name pg name None) (\<lambda>name.
       try_act
         (bind_act (load_backup pg name) (\<lambda>b. lift_res (bm_dump_json (ly_tc (pg_layout pg)) False database table b)))
         (\<lambda>e. e = ValueError) (\<lambda>_. raise usage_error))"

section \<open>Backup and restore\<close>

record source_flags =
  sf_access :: bool
  sf_data :: bool
  sf_schema :: bool
  sf_udf :: bool
  sf_nc :: bool
  sf_workload :: bool
  sf_schema_only :: bool

definition flag_constraints :: "source_flags \<Rightarrow> bool list list" where
  "flag_constraints f =
     map (\<lambda>b. [sf_schema_only f, b]) [sf_access f, sf_data f, sf_schema f, sf_udf f, sf_nc f, sf_workload f]
     @ [[sf_data f, sf_schema f]]"

definition sources_of :: "source_flags \<Rightarrow> backup_sources" where
  "sources_of f =
     \<lparr>bs_access = sf_access f, bs_data = sf_data f, bs_schema = sf_schema f, bs_udf = sf_udf f,
      bs_named_collections = sf_nc f, bs_workload_entities = sf_workload f\<rparr>"

record backup_options =
  bo_name :: string
  bo_labels :: "string list"
  bo_databases :: "string option"
  bo_tables :: "string option"
  bo_flags :: source_flags
  bo_freeze_timeout :: "string option"
  bo_force :: bool

text \<open>\<open>key=value\<close>, or a key alone, whose value is \<open>None\<close>.\<close>

definition labels_of :: "string list \<Rightarrow> (string, string option) dict" where
  "labels_of labels =
     fold (\<lambda>l d. case split_max CHR ''='' 1 l of
         k # v # _ \<Rightarrow> dict_set d k (Some v)
       | [k] \<Rightarrow> dict_set d k None
       | [] \<Rightarrow> d) labels []"

text \<open>\<open>ch_backup.reload_config(ch_backup.config.merge({"clickhouse": {"freeze_timeout": t}}))\<close>: the context that is made
  after it takes the timeout from the configuration.\<close>

definition with_freeze_timeout :: "int option \<Rightarrow> 'x clickhouse_backup \<Rightarrow> 'w program \<Rightarrow> 'w program res" where
  "with_freeze_timeout freeze_timeout cb pg =
     (case freeze_timeout of
        None \<Rightarrow> Inr pg
      | Some t \<Rightarrow>
          if t = 0 then Inr pg
          else
            bind_res (merge_config (cb_config cb) [(''clickhouse'', CDict [(''freeze_timeout'', CInt t)])]) (\<lambda>config.
            bind_res (cb_reload_config config cb) (\<lambda>cb1.
              Inr (pg\<lparr>pg_ctl := (pg_ctl pg)\<lparr>cc_freeze_timeout := t\<rparr>\<rparr>))))"

text \<open>The parameters are the reader of time spans and the values of the macros of names. The result is what is printed
  to the error stream and to the output.\<close>

definition backup_command ::
  "(string \<Rightarrow> int res) \<Rightarrow> (string, string) dict \<Rightarrow> 'x clickhouse_backup \<Rightarrow> 'w program \<Rightarrow> backup_options \<Rightarrow>
   ('w, string option \<times> string) act" where
  "backup_command parse_timespan macros cb pg bo =
     (let f = bo_flags bo in
      bind_act (lift_res (convert_string (Some NAME_FORMAT) macros (bo_name bo))) (\<lambda>name.
      bind_act (lift_res (list_option DATABASES_FORMAT (bo_databases bo))) (\<lambda>databases.
      bind_act (lift_res (list_option TABLES_FORMAT (bo_tables bo))) (\<lambda>tables.
      bind_act
        (lift_res (case bo_freeze_timeout bo of None \<Rightarrow> Inr None
                   | Some t \<Rightarrow> bind_res (convert_time_span parse_timespan t) (\<lambda>n. Inr (Some n)))) (\<lambda>timeout.
      bind_act (lift_res (check_constraints ([databases \<noteq> None, tables \<noteq> None] # flag_constraints f))) (\<lambda>_.
      bind_act (lift_res (with_freeze_timeout timeout cb pg)) (\<lambda>pg.
      bind_act
        (backup_cmd pg (for_backup (sources_of f) (sf_schema_only f)) name databases
           (option_or tables []) (bo_force bo) (labels_of (bo_labels bo)))
        (\<lambda>(name, msg). ret (non_empty msg, name)))))))))"

record restore_options =
  ro_name :: string
  ro_databases :: "string option"
  ro_exclude_databases :: "string option"
  ro_flags :: source_flags
  ro_override_replica_name :: "string option"
  ro_force_non_replicated :: bool
  ro_replica_name :: "string option"
  ro_source :: cloud_source
  ro_skip_cloud_storage :: bool
  ro_clean_zookeeper_mode :: clean_zookeeper_mode
  ro_included :: "string option"
  ro_excluded :: "string option"
  ro_keep_going :: bool
  ro_restore_tables_in_replicated_database :: bool

text \<open>The second assignment replaces the filter of the first.\<close>

definition restore_matcher :: "string list option \<Rightarrow> string list option \<Rightarrow> restore_filter option res" where
  "restore_matcher included excluded =
     (let filter_of = (\<lambda>inverted patterns m.
            if option_or patterns [] = [] then Inr m
            else bind_res (new_filter inverted (option_or patterns [])) (\<lambda>f. Inr (Some f))) in
      bind_res (filter_of False included None) (filter_of True excluded))"

definition restore_command :: "'w program \<Rightarrow> restore_options \<Rightarrow> ('w, unit) act" where
  "restore_command pg ro =
     (let f = ro_flags ro in
      bind_act (lift_res (list_option DATABASES_FORMAT (ro_databases ro))) (\<lambda>databases.
      bind_act (lift_res (list_option DATABASES_FORMAT (ro_exclude_databases ro))) (\<lambda>exclude_databases.
      bind_act (lift_res (list_option PATTERNS_FORMAT (ro_included ro))) (\<lambda>included.
      bind_act (lift_res (list_option PATTERNS_FORMAT (ro_excluded ro))) (\<lambda>excluded.
      bind_act
        (lift_res (check_constraints ([databases \<noteq> None, exclude_databases \<noteq> None]
           # [included \<noteq> None, exclude_databases \<noteq> None] # flag_constraints f))) (\<lambda>_.
      bind_act (validate_and_resolve_name pg (ro_name ro) None) (\<lambda>name.
      bind_act (lift_res (restore_matcher included excluded)) (\<lambda>matcher.
        restore_cmd pg (for_restore (sources_of f) (sf_schema_only f)) name
          \<lparr>ra_databases = list_to_database_names databases, ra_exclude_databases = list_to_database_names exclude_databases,
           ra_override_replica_name = ro_override_replica_name ro, ra_force_non_replicated = ro_force_non_replicated ro,
           ra_replica_name = ro_replica_name ro, ra_source = ro_source ro, ra_skip_cloud_storage = ro_skip_cloud_storage ro,
           ra_clean_zookeeper_mode = ro_clean_zookeeper_mode ro, ra_keep_going = ro_keep_going ro,
           ra_restore_tables_in_replicated_database = ro_restore_tables_in_replicated_database ro,
           ra_filter = matcher\<rparr>))))))))"

section \<open>The other commands\<close>

definition restore_access_control_command :: "'w program \<Rightarrow> string \<Rightarrow> ('w, unit) act" where
  "restore_access_control_command pg name =
     bind_act (validate_and_resolve_name pg name None) (restore_access_control pg)"

definition fix_admin_user_command :: "'w program \<Rightarrow> bool \<Rightarrow> ('w, unit) act" where
  "fix_admin_user_command pg dryrun = fix_admin_user_cmd pg dryrun"

text \<open>With \<open>--force\<close> every exception met while the name is looked up counts as a missing backup.\<close>

definition delete_command ::
  "'w program \<Rightarrow> int option \<Rightarrow> int option \<Rightarrow> string \<Rightarrow> bool \<Rightarrow> bool \<Rightarrow> ('w, string option \<times> string option) act" where
  "delete_command pg retain_time retain_count name purge_partial force =
     bind_act
       (try_act (bind_act (validate_and_resolve_name pg name None) (\<lambda>n. ret (Some n))) is_exception
         (\<lambda>e. if force then ret None else raise e)) (\<lambda>n.
       case n of
         None \<Rightarrow> ret (None, None)
       | Some n \<Rightarrow>
           bind_act (delete_cmd (retention_ctx_of pg retain_time retain_count) n purge_partial) (\<lambda>(deleted, msg).
             ret (non_empty msg, non_empty deleted)))"

definition purge_command :: "'w program \<Rightarrow> int option \<Rightarrow> int option \<Rightarrow> ('w, string option \<times> string) act" where
  "purge_command pg retain_time retain_count =
     bind_act (purge (retention_ctx_of pg retain_time retain_count)) (\<lambda>(names, msg).
       ret (non_empty msg, join_str NEWLINE names))"

definition get_cloud_storage_metadata_command :: "'w program \<Rightarrow> string \<Rightarrow> string \<Rightarrow> string \<Rightarrow> ('w, string option) act" where
  "get_cloud_storage_metadata_command pg name disk_name local_path =
     bind_act (validate_and_resolve_name pg name (Some CREATED)) (\<lambda>name.
     bind_act (get_cloud_storage_metadata pg name disk_name (Some local_path)) (\<lambda>downloaded.
       ret (if downloaded then None
            else Some (''Metadata for disk '' @ disk_name @ '' and backup '' @ name @ '' is already present''))))"

section \<open>Where a setting comes from\<close>

text \<open>The settings that options name.\<close>

definition present :: "(string \<times> conf option) list \<Rightarrow> (string \<times> conf) list" where
  "present xs = concat (map (\<lambda>(k, v). case v of None \<Rightarrow> [] | Some c \<Rightarrow> [(k, c)]) xs)"

definition given_options :: "cli_options \<Rightarrow> conf" where
  "given_options co = CDict
     [(''clickhouse'', CDict (present
        [(''host'', map_option CStr (co_host co)), (''protocol'', map_option CStr (co_protocol co)),
         (''port'', map_option CInt (co_port co)),
         (''ca_path'', if co_insecure co then Some (CBool False) else map_option CStr (co_ca_path co))])),
      (''zookeeper'', CDict (present [(''hosts'', map_option CStr (co_zk_hosts co))]))]"

definition override :: "conf \<Rightarrow> conf \<Rightarrow> string list \<Rightarrow> conf option" where
  "override patch base ks = (if decides patch ks then setting patch ks else setting base ks)"

lemma plain_decides: "setting x [] \<noteq> None \<Longrightarrow> decides x ks"
  by (cases x) auto

lemma set_in_section_setting:
  assumes "set_in_section s k v c = Inr c'" "\<And>x. v = Some x \<Longrightarrow> setting x [] \<noteq> None"
  shows "setting (CDict c') ks = override (CDict [(s, CDict (present [(k, v)]))]) (CDict c) ks"
proof (cases v)
  case (Some x)
  with assms(1) obtain d where d: "map_of c s = Some (CDict d)" and c': "c' = dict_set c s (CDict (dict_set d k x))"
    by (auto simp: set_in_section_def config_item_def set_config_item_def dict_get_def split: option.splits conf.splits)
  show ?thesis
    using plain_decides [OF assms(2) [OF Some]]
    by (cases ks; cases "tl ks") (auto simp: c' d Some override_def present_def setting_dict_set)
qed (use assms(1) in \<open>simp add: set_in_section_def override_def present_def; cases ks; cases "tl ks"; simp\<close>)

lemma with_options_setting:
  assumes "with_options c co = Inr c'"
  shows "setting (CDict c') ks = override (given_options co) (CDict c) ks"
proof -
  let ?ca = "if co_insecure co then Some (CBool False) else map_option CStr (co_ca_path co)"
  from assms obtain c1 c2 c3 c4 where
    1: "set_in_section ''clickhouse'' ''host'' (map_option CStr (co_host co)) c = Inr c1" and
    2: "set_in_section ''clickhouse'' ''protocol'' (map_option CStr (co_protocol co)) c1 = Inr c2" and
    3: "set_in_section ''clickhouse'' ''port'' (map_option CInt (co_port co)) c2 = Inr c3" and
    4: "set_in_section ''clickhouse'' ''ca_path'' ?ca c3 = Inr c4" and
    5: "set_in_section ''zookeeper'' ''hosts'' (map_option CStr (co_zk_hosts co)) c4 = Inr c'"
    by (auto simp: with_options_def Let_def)
  have steps:
    "setting (CDict c1) ks = override (CDict [(''clickhouse'', CDict (present [(''host'', map_option CStr (co_host co))]))]) (CDict c) ks"
    "setting (CDict c2) ks = override (CDict [(''clickhouse'', CDict (present [(''protocol'', map_option CStr (co_protocol co))]))]) (CDict c1) ks"
    "setting (CDict c3) ks = override (CDict [(''clickhouse'', CDict (present [(''port'', map_option CInt (co_port co))]))]) (CDict c2) ks"
    "setting (CDict c4) ks = override (CDict [(''clickhouse'', CDict (present [(''ca_path'', ?ca)]))]) (CDict c3) ks"
    "setting (CDict c') ks = override (CDict [(''zookeeper'', CDict (present [(''hosts'', map_option CStr (co_zk_hosts co))]))]) (CDict c4) ks"
    by (rule set_in_section_setting [OF 1] set_in_section_setting [OF 2] set_in_section_setting [OF 3]
        set_in_section_setting [OF 4] set_in_section_setting [OF 5]; auto split: if_splits)+
  consider "ks = []" | a where "ks = [a]" | a b rest where "ks = a # b # rest" by (cases ks; cases "tl ks") auto
  then show ?thesis
  proof cases
    case 3
    show ?thesis
      unfolding steps [unfolded override_def] unfolding override_def given_options_def present_def 3
      by (cases "co_host co"; cases "co_protocol co"; cases "co_port co"; cases ?ca; cases "co_zk_hosts co") auto
  qed (unfold steps [unfolded override_def], simp_all add: override_def given_options_def)
qed

text \<open>A parameter stays as it was set: the paths that are set later are no shorter.\<close>

lemma put_at_plain:
  "setting c [] \<noteq> None \<Longrightarrow> ks \<noteq> [] \<Longrightarrow> put_at c ks v = Inl TypeError"
  by (induction c ks v rule: put_at.induct) (auto split: conf.splits)

lemma put_at_sets: "put_at c ks v = Inr c' \<Longrightarrow> ks \<noteq> [] \<Longrightarrow> setting c' ks = setting v []"
proof (induction c ks v arbitrary: c' rule: put_at.induct)
  case (2 c k v)
  then show ?case by (cases c) auto
next
  case (3 c k j ks v)
  show ?case
  proof (cases c)
    case (CDict d)
    with 3 show ?thesis by auto
  qed (use 3 put_at_plain [of c "k # j # ks" v] in auto)
qed simp

lemma put_at_keeps:
  "put_at c qs x = Inr c' \<Longrightarrow> setting c ps = Some v \<Longrightarrow> length ps \<le> length qs \<Longrightarrow> ps \<noteq> qs \<Longrightarrow> setting c' ps = Some v"
proof (induction c qs x arbitrary: c' ps rule: put_at.induct)
  case (2 c k x)
  then show ?case by (cases c; cases ps) auto
next
  case (3 c k j ks x)
  have "setting c [] = None"
    using "3.prems"(1) put_at_plain [of c "k # j # ks" x] by (metis Inl_Inr_False list.distinct(1))
  show ?case
  proof (cases c)
    case (CDict d)
    with "3.prems" obtain p ps' s where ps: "ps = p # ps'" and s: "put_at (config_get d k (CDict [])) (j # ks) x = Inr s"
      and c': "c' = CDict (dict_set d k s)" by (cases ps) auto
    show ?thesis
      using "3.IH"(7) [OF CDict s, of ps'] "3.prems"(2-) CDict
      by (auto simp: ps c' config_get_def split: option.splits)
  qed (use \<open>setting c [] = None\<close> in simp_all)
qed auto

lemma put_at_ok:
  "put_at c ks v = Inr c' \<Longrightarrow> conf_ok c \<Longrightarrow> conf_ok v \<Longrightarrow> conf_ok c'"
proof (induction c ks v arbitrary: c' rule: put_at.induct)
  case (2 c k v)
  then show ?case by (cases c) (auto intro: conf_ok_dict_set simp del: conf_ok.simps)
next
  case (3 c k j ks v)
  show ?case
  proof (cases c)
    case (CDict d)
    with "3.prems"(1) obtain s where s: "put_at (config_get d k (CDict [])) (j # ks) v = Inr s"
      and c': "c' = CDict (dict_set d k s)" by auto
    have "conf_ok (config_get d k (CDict []))"
      using conf_ok_section "3.prems"(2) CDict by (fastforce simp: config_get_def split: option.splits)
    with "3.IH"(7) [OF CDict s] "3.prems"(2,3) show ?thesis by (simp add: c' CDict conf_ok_dict_set del: conf_ok.simps)
  qed (use 3 in auto)
qed simp

lemma sorted_parameters_dict:
  "map_of (sorted_parameters values) key = map_of (rev values) key" "dict_ok (sorted_parameters values)"
  "set (sorted_parameters values) \<subseteq> set values"
proof -
  let ?d = "fold (\<lambda>(key, v) d. dict_set d key v) values []"
  have d: "dict_ok d \<Longrightarrow> dict_ok (fold (\<lambda>(key, v) d. dict_set d key v) vs d) \<and>
      map_of (fold (\<lambda>(key, v) d. dict_set d key v) vs d) = map_of d ++ map_of (rev vs) \<and>
      set (fold (\<lambda>(key, v) d. dict_set d key v) vs d) \<subseteq> set d \<union> set vs" for vs d :: "(string \<times> conf) list"
  proof (induction vs arbitrary: d)
    case (Cons p vs)
    obtain k v where p: "p = (k, v)" by (cases p)
    have "(\<lambda>a. if a = k then Some v else map_of d a) = (map_of d)(k \<mapsto> v)" by auto
    with Cons.IH [of "dict_set d k v"] Cons.prems set_dict_set [of k v d] show ?case by (auto simp: p)
  qed simp
  from d [of "[]" "values"] have all: "dict_ok ?d" "map_of ?d = map_of (rev values)" "set ?d \<subseteq> set values" by auto
  then have "mset (map fst (sorted_parameters values)) = mset (map fst ?d)" by (simp add: sorted_parameters_def)
  with all(1) show ok: "dict_ok (sorted_parameters values)" unfolding dict_ok_def by (metis mset_eq_imp_distinct_iff)
  have same: "set (sorted_parameters values) = set ?d" by (simp add: sorted_parameters_def)
  with all(3) show "set (sorted_parameters values) \<subseteq> set values" by simp
  have "map_of (sorted_parameters values) key = Some v \<longleftrightarrow> map_of ?d key = Some v" for v
    using dict_ok_map_of [OF ok, of key v] dict_ok_map_of [OF all(1), of key v] same by simp
  then show "map_of (sorted_parameters values) key = map_of (rev values) key"
    unfolding all(2) [symmetric] by (cases "map_of ?d key"; cases "map_of (sorted_parameters values) key") auto
qed

lemma split_key_inject: "split_key a = split_key b \<Longrightarrow> a = b"
  unfolding split_key_def by (metis join_split_on)

lemma parameters_ok:
  "build_cli_cfg_from_config_parameters values = Inr c \<Longrightarrow> (\<And>key v. (key, v) \<in> set values \<Longrightarrow> conf_ok v) \<Longrightarrow> conf_ok c"
  unfolding build_cli_cfg_from_config_parameters_def
  by (erule fold_res_inv) (use sorted_parameters_dict(3) [of "values"] in \<open>auto intro: put_at_ok\<close>)

lemma parameter_set:
  assumes "build_cli_cfg_from_config_parameters values = Inr c" "map_of (rev values) key = Some v" "setting v [] \<noteq> None"
  shows "setting c (split_key key) = Some v"
proof -
  let ?f = "\<lambda>(key, v) c. put_at c (split_key key) v"
  have "map_of (sorted_parameters values) key = Some v" using assms(2) by (simp add: sorted_parameters_dict)
  then obtain xs ys where split: "sorted_parameters values = xs @ (key, v) # ys" by (auto dest!: map_of_SomeD split_list)
  have sorted: "sorted (map (\<lambda>(key, v). length (split_key key)) (sorted_parameters values))"
    by (simp add: sorted_parameters_def)
  have longer: "\<forall>q \<in> set ys. length (split_key key) \<le> length (split_key (fst q))"
    using sorted unfolding split by (auto simp: sorted_append split_beta)
  have other: "key \<notin> fst ` set ys"
    using sorted_parameters_dict(2) [of "values"] unfolding split dict_ok_def by simp
  from assms(1) split obtain c1 c2 where 1: "put_at c1 (split_key key) v = Inr c2" and 2: "fold_res ?f ys c2 = Inr c"
    by (auto simp: build_cli_cfg_from_config_parameters_def fold_res_append)
  have "setting c2 (split_key key) = Some v"
    using put_at_sets [OF 1] assms(3) by (cases v) (auto simp: split_key_def)
  with 2 show ?thesis
  proof (rule fold_res_inv)
    fix q c c' assume q: "q \<in> set ys" and c: "setting c (split_key key) = Some v" and put: "?f q c = Inr c'"
    from q other have "split_key key \<noteq> split_key (fst q)" using split_key_inject by force
    with q longer put_at_keeps [of c "split_key (fst q)" "snd q" c' "split_key key" v] c put
    show "setting c' (split_key key) = Some v" by (simp add: split_beta)
  qed
qed

lemma cli_config_steps:
  assumes "cli_config hostname parsed co = Inr c"
  obtains c1 c2 p where "read_config (DEFAULT_CONFIG hostname) parsed = Inr c1" "with_options c1 co = Inr c2"
    "build_cli_cfg_from_config_parameters (co_parameters co) = Inr (CDict p)" "recursively_update c2 p = Inr c"
proof -
  from assms obtain c1 c2 q where 1: "read_config (DEFAULT_CONFIG hostname) parsed = Inr c1" "with_options c1 co = Inr c2"
    "build_cli_cfg_from_config_parameters (co_parameters co) = Inr q"
    and 2: "(case q of CDict patch \<Rightarrow> merge_config c2 patch | _ \<Rightarrow> Inl TypeError) = Inr c"
    by (auto simp: cli_config_def new_config_def)
  from 2 obtain p where "q = CDict p" "recursively_update c2 p = Inr c" by (cases q) (auto simp: merge_config_def)
  with 1 that show thesis by blast
qed

text \<open>The last parameter of a key decides, before the options, the file and the default values.\<close>

lemma cli_config_setting:
  assumes "cli_config hostname (Inr (CDict file)) co = Inr c" "conf_ok (CDict file)"
    and "\<And>key v. (key, v) \<in> set (co_parameters co) \<Longrightarrow> conf_ok v"
  obtains patch where "build_cli_cfg_from_config_parameters (co_parameters co) = Inr patch" "conf_ok patch"
    "\<And>ks. setting (CDict c) ks =
      (if decides patch ks then setting patch ks
       else if decides (given_options co) ks then setting (given_options co) ks
       else override (CDict file) (CDict (DEFAULT_CONFIG hostname)) ks)"
proof -
  from assms(1) obtain c1 c2 p where 1: "read_config (DEFAULT_CONFIG hostname) (Inr (CDict file)) = Inr c1"
    and 2: "with_options c1 co = Inr c2" and 3: "build_cli_cfg_from_config_parameters (co_parameters co) = Inr (CDict p)"
    and 4: "recursively_update c2 p = Inr c" by (rule cli_config_steps)
  have ok: "conf_ok (CDict p)" using parameters_ok [OF 3] assms(3) by blast
  have "setting (CDict c1) ks = override (CDict file) (CDict (DEFAULT_CONFIG hostname)) ks" for ks
    using 1 recursively_update_setting [of "DEFAULT_CONFIG hostname" "file" c1] assms(2)
    by (auto simp: read_config_def conf_true_def override_def split: if_splits)
  then have "setting (CDict c) ks =
      (if decides (CDict p) ks then setting (CDict p) ks
       else if decides (given_options co) ks then setting (given_options co) ks
       else override (CDict file) (CDict (DEFAULT_CONFIG hostname)) ks)" for ks
    using recursively_update_setting [OF 4 ok] with_options_setting [OF 2]
    by (simp add: override_def)
  with that 3 ok show thesis by blast
qed

text \<open>C37. Where a setting of the running program comes from: what a parameter of the command line says of its path wins
  over the other options, they win over the configuration file, and that wins over the default value. A section is never
  replaced as a whole: the settings of a section that nobody mentions keep their default.\<close>

theorem configuration_precedence:
  assumes "cli_config hostname (Inr (CDict file)) co = Inr c" "conf_ok (CDict file)"
    and "\<And>key v. (key, v) \<in> set (co_parameters co) \<Longrightarrow> conf_ok v"
  shows "\<exists>patch. build_cli_cfg_from_config_parameters (co_parameters co) = Inr patch \<and>
    (\<forall>ks. setting (CDict c) ks =
      (if decides patch ks then setting patch ks
       else if decides (given_options co) ks then setting (given_options co) ks
       else if decides (CDict file) ks then setting (CDict file) ks
       else setting (CDict (DEFAULT_CONFIG hostname)) ks))"
  using assms by (rule cli_config_setting) (auto simp: override_def)

text \<open>C38. A parameter of the command line takes effect: when the configuration could be made, the setting at its path is the
  value that was given last for this path, whatever the file, the other options and the other parameters say, and in whatever
  order they were given.\<close>

theorem parameter_takes_effect:
  assumes "cli_config hostname (Inr (CDict file)) co = Inr c" "conf_ok (CDict file)"
    and "\<And>key v. (key, v) \<in> set (co_parameters co) \<Longrightarrow> conf_ok v"
    and "map_of (rev (co_parameters co)) key = Some v" "setting v [] \<noteq> None"
  shows "setting (CDict c) (split_key key) = Some v"
  using assms(1-3)
proof (rule cli_config_setting)
  fix patch
  assume "build_cli_cfg_from_config_parameters (co_parameters co) = Inr patch"
  from parameter_set [OF this assms(4,5)] have "setting patch (split_key key) = Some v" .
  moreover assume "setting (CDict c) ks =
    (if decides patch ks then setting patch ks
     else if decides (given_options co) ks then setting (given_options co) ks
     else override (CDict file) (CDict (DEFAULT_CONFIG hostname)) ks)" for ks
  ultimately show ?thesis using setting_decides by simp
qed

lemma set_in_section_ok:
  assumes "set_in_section s k v c = Inr c'" "conf_ok (CDict c)" "\<And>x. v = Some x \<Longrightarrow> conf_ok x"
  shows "conf_ok (CDict c')"
proof (cases v)
  case (Some x)
  with assms(1) obtain d where "map_of c s = Some (CDict d)" "c' = dict_set c s (CDict (dict_set d k x))"
    by (auto simp: set_in_section_def config_item_def set_config_item_def dict_get_def split: option.splits conf.splits)
  with conf_ok_section [OF assms(2)] assms(2) assms(3) [OF Some] show ?thesis by (metis conf_ok_dict_set)
qed (use assms in \<open>simp add: set_in_section_def\<close>)

lemma with_options_ok: "with_options c co = Inr c' \<Longrightarrow> conf_ok (CDict c) \<Longrightarrow> conf_ok (CDict c')"
  by (auto simp: with_options_def Let_def simp del: conf_ok.simps(1) split: if_splits dest!: set_in_section_ok)

lemma default_config_ok: "conf_ok (CDict (DEFAULT_CONFIG hostname))"
  by code_simp


section \<open>Patterns to include and to exclude\<close>

text \<open>A restore with patterns to include and patterns to exclude ignores the patterns to include: it does what the
  restore without them does.\<close>

theorem excluded_patterns_replace_included:
  assumes "list_option PATTERNS_FORMAT (ro_included ro) = Inr included" "new_filter False (option_or included []) = Inr f"
    and "list_option PATTERNS_FORMAT (ro_excluded ro) = Inr (Some (p # ps))" "ro_exclude_databases ro = None"
  shows "restore_command pg ro = restore_command pg (ro\<lparr>ro_included := None\<rparr>)"
proof -
  have "restore_matcher included (Some (p # ps)) = restore_matcher None (Some (p # ps))"
    using assms(2) by (cases "new_filter True (p # ps)") (simp_all add: restore_matcher_def option_or_def Let_def)
  then show ?thesis
    using assms by (simp add: restore_command_def list_option_def [of _ None] check_constraints_def mutually_exclusive_def Let_def)
qed

section \<open>Examples\<close>

text \<open>A file that sets a port and a path, an option with another port, and parameters with a third one, given twice.\<close>

definition example_file :: "(string, conf) dict" where
  "example_file =
     [(''clickhouse'', CDict [(''port'', CInt 1), (''tmp_path'', CStr ''/t'')]), (''backup'', CDict [(''min_interval'', CDict [(''hours'', CInt 1)])])]"

definition example_options :: cli_options where
  "example_options =
     \<lparr>co_protocol = None, co_host = Some ''h2'', co_port = Some 2, co_ca_path = None, co_insecure = True, co_zk_hosts = None,
      co_parameters = [(''clickhouse.port'', CInt 3), (''backup.min_interval.minutes'', CInt 5), (''clickhouse.port'', CInt 4)]\<rparr>"

lemma example_config: "\<exists>c. cli_config ''h'' (Inr (CDict example_file)) example_options = Inr c"
proof -
  have "\<not> isl (cli_config ''h'' (Inr (CDict example_file)) example_options)" by code_simp
  then show ?thesis by (cases "cli_config ''h'' (Inr (CDict example_file)) example_options") auto
qed

lemma example_ok: "conf_ok (CDict example_file)" "(key, v) \<in> set (co_parameters example_options) \<Longrightarrow> conf_ok v"
  by (auto simp: example_file_def example_options_def)

theorem configuration_precedence_witness:
  "\<exists>c. cli_config ''h'' (Inr (CDict example_file)) example_options = Inr c \<and>
     setting (CDict c) [''clickhouse'', ''host''] = Some (CStr ''h2'') \<and>
     setting (CDict c) [''clickhouse'', ''tmp_path''] = Some (CStr ''/t'') \<and>
     setting (CDict c) [''backup'', ''min_interval'', ''minutes''] = Some (CInt 5) \<and>
     setting (CDict c) [''clickhouse'', ''timeout''] = Some (CInt 90)"
proof -
  obtain c where c: "cli_config ''h'' (Inr (CDict example_file)) example_options = Inr c" using example_config by blast
  obtain patch where patch: "build_cli_cfg_from_config_parameters (co_parameters example_options) = Inr patch"
    and set: "\<And>ks. setting (CDict c) ks =
      (if decides patch ks then setting patch ks
       else if decides (given_options example_options) ks then setting (given_options example_options) ks
       else if decides (CDict example_file) ks then setting (CDict example_file) ks
       else setting (CDict (DEFAULT_CONFIG ''h'')) ks)"
    using configuration_precedence [OF c example_ok(1)] example_ok(2) by blast
  have "build_cli_cfg_from_config_parameters (co_parameters example_options) =
      Inr (CDict [(''clickhouse'', CDict [(''port'', CInt 4)]), (''backup'', CDict [(''min_interval'', CDict [(''minutes'', CInt 5)])])])"
    by code_simp
  with patch have "patch = CDict [(''clickhouse'', CDict [(''port'', CInt 4)]),
      (''backup'', CDict [(''min_interval'', CDict [(''minutes'', CInt 5)])])]" by simp
  then have "setting (CDict c) [''clickhouse'', ''host''] = Some (CStr ''h2'')"
    "setting (CDict c) [''clickhouse'', ''tmp_path''] = Some (CStr ''/t'')"
    "setting (CDict c) [''backup'', ''min_interval'', ''minutes''] = Some (CInt 5)"
    "setting (CDict c) [''clickhouse'', ''timeout''] = Some (CInt 90)"
    unfolding set
    by (simp_all add: given_options_def present_def example_options_def example_file_def DEFAULT_CONFIG_def default_sections)
  with c show ?thesis by blast
qed

theorem parameter_takes_effect_witness:
  "\<exists>c. cli_config ''h'' (Inr (CDict example_file)) example_options = Inr c \<and>
     setting (CDict c) [''clickhouse'', ''port''] = Some (CInt 4)"
proof -
  obtain c where c: "cli_config ''h'' (Inr (CDict example_file)) example_options = Inr c" using example_config by blast
  have "split_key ''clickhouse.port'' = [''clickhouse'', ''port'']" by code_simp
  moreover have "setting (CDict c) (split_key ''clickhouse.port'') = Some (CInt 4)"
    by (rule parameter_takes_effect [OF c example_ok(1)], rule example_ok(2)) (simp_all add: example_options_def)
  ultimately show ?thesis using c by simp
qed


text \<open>Of the tables of \<open>d\<close>, \<open>d.a\<close> is to be included and \<open>d.b\<close> excluded: \<open>d.c\<close> is restored.\<close>

definition include_and_exclude :: "restore_options" where
  "include_and_exclude =
     \<lparr>ro_name = ''LAST'', ro_databases = None, ro_exclude_databases = None,
      ro_flags = \<lparr>sf_access = False, sf_data = False, sf_schema = False, sf_udf = False, sf_nc = False, sf_workload = False,
        sf_schema_only = False\<rparr>,
      ro_override_replica_name = None, ro_force_non_replicated = False, ro_replica_name = None, ro_source = (None, None, None),
      ro_skip_cloud_storage = False, ro_clean_zookeeper_mode = REPLICA_ONLY, ro_included = Some ''d.a'',
      ro_excluded = Some ''d.b'', ro_keep_going = False, ro_restore_tables_in_replicated_database = False\<rparr>"

lemma pattern_options:
  "list_option PATTERNS_FORMAT (Some ''d.a'') = Inr (Some [''d.a''])"
  "list_option PATTERNS_FORMAT (Some ''d.b'') = Inr (Some [''d.b''])"
  by code_simp+

lemma other_table_accepted:
  "restore_matcher (Some [''d.a'']) (Some [''d.b''])
     = Inr (Some \<lparr>rf_inverted = True, rf_patterns = [\<lparr>rp_database = ''d'', rp_table_pattern = ''b''\<rparr>]\<rparr>)"
  "accept_table \<lparr>rf_inverted = True, rf_patterns = [\<lparr>rp_database = ''d'', rp_table_pattern = ''b''\<rparr>]\<rparr> ''d'' ''c''"
  by code_simp+

theorem excluded_patterns_replace_included_witness:
  "\<forall>pg. restore_command pg include_and_exclude = restore_command pg (include_and_exclude\<lparr>ro_included := None\<rparr>)"
proof
  fix pg
  have "new_filter False (option_or (Some [''d.a'']) []) = Inr \<lparr>rf_inverted = False, rf_patterns = [\<lparr>rp_database = ''d'', rp_table_pattern = ''a''\<rparr>]\<rparr>"
    by code_simp
  then show "restore_command pg include_and_exclude = restore_command pg (include_and_exclude\<lparr>ro_included := None\<rparr>)"
    by (intro excluded_patterns_replace_included) (simp_all add: include_and_exclude_def pattern_options)
qed

end
