(* ===== verification/Session.thy ===== *)
theory Session
  imports Setup Cli
begin

text \<open>
  The run of a command (\<^verbatim>\<open>cli.py\<close>, \<^verbatim>\<open>logging.py\<close>): the records that the functions of the log make, the handler of
  signals, the body of the group \<open>cli\<close>, which prepares the process and makes the object \<open>ClickhouseBackup\<close>, and the
  decorator \<open>command\<close>, which profiles a command and logs its beginning and its outcome.
\<close>

section \<open>The log\<close>

text \<open>The levels of loguru, and those that the standard library has by their number alone.\<close>

datatype severity = TRACE | DEBUG | INFO | SUCCESS | WARNING | ERROR | CRITICAL | Numbered int

record log_record =
  lr_logger :: string
  lr_level :: severity
  lr_message :: string
  lr_exception :: bool

fun severity_no :: "severity \<Rightarrow> int" where
  "severity_no TRACE = 5"
| "severity_no DEBUG = 10"
| "severity_no INFO = 20"
| "severity_no SUCCESS = 25"
| "severity_no WARNING = 30"
| "severity_no ERROR = 40"
| "severity_no CRITICAL = 50"
| "severity_no (Numbered n) = n"

text \<open>The state of a run: the host, the process, and the records given to loguru, the oldest first.\<close>

record 'w session =
  ss_world :: 'w
  ss_process :: process
  ss_log :: "log_record list"
  ss_handlers :: "log_handler list"

definition in_world :: "('w, 'a) act \<Rightarrow> ('w session, 'a) act" where
  "in_world m s = (case m (ss_world s) of (r, w) \<Rightarrow> (r, s\<lparr>ss_world := w\<rparr>))"

definition in_process :: "(process, 'a) act \<Rightarrow> ('w session, 'a) act" where
  "in_process m s = (case m (ss_process s) of (r, p) \<Rightarrow> (r, s\<lparr>ss_process := p\<rparr>))"

text \<open>\<open>message.format(*args)\<close>, for messages whose only fields are \<open>{}\<close>. A message without arguments is not formatted.\<close>

fun fill_fields :: "string \<Rightarrow> string list \<Rightarrow> string res" where
  "fill_fields [] args = Inr []"
| "fill_fields (c # cs) args =
     (case cs of
        [] \<Rightarrow> Inr [c]
      | d # ds \<Rightarrow>
          if c = CHR 0x7B \<and> d = CHR 0x7D then
            (case args of [] \<Rightarrow> Inl IndexError | a # as \<Rightarrow> bind_res (fill_fields ds as) (\<lambda>t. Inr (a @ t)))
          else bind_res (fill_fields cs args) (\<lambda>t. Inr (c # t)))"

definition log_text :: "string \<Rightarrow> string list \<Rightarrow> string res" where
  "log_text msg args = (if args = [] then Inr msg else fill_fields msg args)"

text \<open>\<open>getLogger(name).opt(exception=exc_info).log(level, msg, *args)\<close>.\<close>

definition log_call ::
  "string \<Rightarrow> severity \<Rightarrow> bool \<Rightarrow> string \<Rightarrow> string list \<Rightarrow> ('w session, unit) act" where
  "log_call logger sev with_exception msg args s =
     (case log_text msg args of
        Inl e \<Rightarrow> (Inl e, s)
      | Inr text \<Rightarrow>
          (Inr (), s\<lparr>ss_log := ss_log s @
             [\<lparr>lr_logger = logger, lr_level = sev, lr_message = text, lr_exception = with_exception\<rparr>]\<rparr>))"

definition LOGGER :: string where "LOGGER = ''ch-backup''"

text \<open>The argument \<open>exc_info\<close> is \<open>None\<close> when it is not given.\<close>

definition log_critical :: "bool option \<Rightarrow> string \<Rightarrow> string list \<Rightarrow> ('w session, unit) act" where
  "log_critical exc_info = log_call LOGGER CRITICAL (option_or exc_info False)"

definition log_error :: "bool option \<Rightarrow> string \<Rightarrow> string list \<Rightarrow> ('w session, unit) act" where
  "log_error exc_info = log_call LOGGER ERROR (option_or exc_info False)"

definition log_exception :: "bool option \<Rightarrow> string \<Rightarrow> string list \<Rightarrow> ('w session, unit) act" where
  "log_exception exc_info = log_call LOGGER DEBUG (option_or exc_info True)"

definition log_warning :: "bool option \<Rightarrow> string \<Rightarrow> string list \<Rightarrow> ('w session, unit) act" where
  "log_warning exc_info = log_call LOGGER WARNING (option_or exc_info False)"

definition log_info :: "bool option \<Rightarrow> string \<Rightarrow> string list \<Rightarrow> ('w session, unit) act" where
  "log_info exc_info = log_call LOGGER INFO (option_or exc_info False)"

definition log_debug :: "bool option \<Rightarrow> string \<Rightarrow> string list \<Rightarrow> ('w session, unit) act" where
  "log_debug exc_info = log_call LOGGER DEBUG (option_or exc_info False)"

lemmas log_defs =
  log_critical_def log_error_def log_exception_def log_warning_def log_info_def log_debug_def

text \<open>Does a handler of its own name write a record? Without a level it takes those from DEBUG on. A level that is not
  the name of one is left to loguru, as are the filters by module.\<close>

definition severity_named :: "string \<Rightarrow> severity option" where
  "severity_named name =
     map_of [(''TRACE'', TRACE), (''DEBUG'', DEBUG), (''INFO'', INFO), (''SUCCESS'', SUCCESS), (''WARNING'', WARNING),
       (''ERROR'', ERROR), (''CRITICAL'', CRITICAL)] name"

definition least_severity :: "log_handler \<Rightarrow> int option" where
  "least_severity lh =
     (case lh_level lh of
        None \<Rightarrow> Some (severity_no DEBUG)
      | Some (CStr name) \<Rightarrow> map_option severity_no (severity_named name)
      | Some (CInt n) \<Rightarrow> Some n
      | Some _ \<Rightarrow> None)"

definition writes :: "log_handler \<Rightarrow> log_record \<Rightarrow> bool" where
  "writes lh r =
     (case (lh_filter lh, least_severity lh) of
        (Own_name name, Some least) \<Rightarrow> own_name name (Some (lr_logger r)) \<and> least \<le> severity_no (lr_level r)
      | _ \<Rightarrow> False)"

text \<open>\<open>InterceptHandler.emit\<close>: a record of the standard library, with the level of its name when loguru has one, else
  with its number. The search for the calling frame is left out.\<close>

definition intercept :: "string \<Rightarrow> string \<Rightarrow> int \<Rightarrow> bool \<Rightarrow> string \<Rightarrow> ('w session, unit) act" where
  "intercept name levelname levelno exc_info message =
     log_call name (option_or (severity_named levelname) (Numbered levelno)) exc_info message []"

section \<open>Memory\<close>

text \<open>The processes as psutil shows them, and the text of a size in humanfriendly's form.\<close>

record 'w memory_info =
  mi_main :: "('w, int) act"
  mi_children :: "('w, int list) act"
  mi_rss_shared :: "int \<Rightarrow> ('w, int \<times> int) act"
  mi_format_size :: "int \<Rightarrow> string"

definition memory_usage :: "'w memory_info \<Rightarrow> ('w session, unit) act" where
  "memory_usage mi =
     try_act
       (bind_act (in_world (mi_main mi)) (\<lambda>main_proc_usage.
        bind_act (in_world (mi_children mi)) (\<lambda>children.
        bind_act
          (for_act children (\<lambda>pid usage.
             bind_act (in_world (mi_rss_shared mi pid)) (\<lambda>(rss, shared). ret (usage + (rss - shared)))) 0)
          (\<lambda>worker_procs_usage.
             log_debug None ''Memory usage: {} (main process: {}, worker processes: {})''
               (map (mi_format_size mi) [main_proc_usage + worker_procs_usage, main_proc_usage, worker_procs_usage])))))
       is_exception (\<lambda>e. log_warning (Some True) ''Unable to get memory usage'' [])"

section \<open>What the profiler logs\<close>

text \<open>The statistics of a snapshot, the largest first, without the frames that the code filters out.\<close>

record trace_stat =
  ts_size :: int
  ts_lines :: "string list"

definition log_stat :: "(int \<Rightarrow> string) \<Rightarrow> nat \<times> trace_stat \<Rightarrow> ('w session, unit) act" where
  "log_stat format_size entry =
     (case entry of (index, stat) \<Rightarrow>
        bind_act (log_debug None ''  #{}: {}'' [nat_str index, format_size (ts_size stat)]) (\<lambda>_.
          for_act (ts_lines stat) (\<lambda>line _. log_debug None ''    {}'' [line]) ()))"

definition log_top :: "(int \<Rightarrow> string) \<Rightarrow> nat \<Rightarrow> trace_stat list \<Rightarrow> ('w session, unit) act" where
  "log_top format_size limit top_stats =
     bind_act (log_debug None ''TraceMalloc top {} lines'' [nat_str limit]) (\<lambda>_.
     bind_act (for_act (enumerate 1 (take limit top_stats)) (\<lambda>entry _. log_stat format_size entry) ()) (\<lambda>_.
     let other = drop limit top_stats in
     bind_act
       (when_act (other \<noteq> [])
          (log_debug None ''    {} other: {}'' [nat_str (length other), format_size (\<Sum>stat \<leftarrow> other. ts_size stat)])) (\<lambda>_.
     log_debug None ''    Total allocated size: {}'' [format_size (\<Sum>stat \<leftarrow> top_stats. ts_size stat)])))"

section \<open>Signals\<close>

definition signal_handler :: "int \<Rightarrow> ('w session, unit) act" where
  "signal_handler signum =
     bind_act (log_info None (''Received signal '' @ int_str signum) []) (\<lambda>_. raise TerminatingSignal)"

section \<open>The group of the commands\<close>

text \<open>The calls of the host may look at the process that makes them. An account that the configuration names by a
  number is a \<open>TypeError\<close> here.\<close>

record 'w cli_env =
  ce_hostname :: string
  ce_load_yaml :: "string \<Rightarrow> ('w session, conf) act"
  ce_mkdir :: "string \<Rightarrow> ('w session, unit) act"
  ce_files :: "'w session host_files"
  ce_chdir :: "string \<Rightarrow> ('w session, unit) act"
  ce_accounts :: accounts
  ce_repr :: "conf \<Rightarrow> string"

definition config_text :: "(string, conf) dict \<Rightarrow> string \<Rightarrow> string \<Rightarrow> string res" where
  "config_text cfg section k = bind_res (dict_get cfg section) (\<lambda>s. bind_res (conf_item s k) conf_str)"

definition config_section :: "(string, conf) dict \<Rightarrow> string \<Rightarrow> (string, conf) dict res" where
  "config_section cfg section =
     bind_res (dict_get cfg section) (\<lambda>s. case s of CDict d \<Rightarrow> Inr d | _ \<Rightarrow> Inl TypeError)"

definition configure_log :: "(string, conf) dict \<Rightarrow> ('w session, unit) act" where
  "configure_log config_loguru s =
     (case log_handlers config_loguru of
        Inl e \<Rightarrow> (Inl e, s)
      | Inr handlers \<Rightarrow> (Inr (), s\<lparr>ss_handlers := handlers\<rparr>))"

definition prepare_process :: "'w cli_env \<Rightarrow> (string, conf) dict \<Rightarrow> ('w session, unit) act" where
  "prepare_process ce cfg =
     bind_act (lift_res (config_text cfg ''loguru'' ''logs_directory'')) (\<lambda>logs_directory.
     bind_act (ce_mkdir ce logs_directory) (\<lambda>_.
     bind_act (lift_res (config_text cfg ''main'' ''user'')) (\<lambda>user.
     bind_act (lift_res (config_text cfg ''main'' ''group'')) (\<lambda>grp.
     bind_act (chown_dir_contents (ce_files ce) user grp logs_directory False) (\<lambda>_.
     bind_act (lift_res (config_text cfg ''main'' ''working_dir'')) (\<lambda>working_dir.
     bind_act (ce_chdir ce working_dir) (\<lambda>_.
     bind_act (lift_res (config_section cfg ''main'')) (\<lambda>main_conf.
     bind_act (in_process (setup_environment (ce_repr ce) main_conf)) (\<lambda>_.
     bind_act (in_process (drop_privileges (ce_accounts ce) main_conf)) (\<lambda>dropped.
     bind_act (when_act (\<not> dropped) (log_warning None ''Drop privileges was disabled in config file.'' [])) (\<lambda>_.
     bind_act (lift_res (config_section cfg ''loguru'')) configure_log)))))))))))"

definition cli :: "'w cli_env \<Rightarrow> string \<Rightarrow> cli_options \<Rightarrow> ('w session, 'x clickhouse_backup) act" where
  "cli ce config co s =
     (case ce_load_yaml ce config s of (parsed, s1) \<Rightarrow>
        bind_act (lift_res (cli_config (ce_hostname ce) parsed co)) (\<lambda>cfg.
        bind_act (prepare_process ce cfg) (\<lambda>_. ret (new_clickhouse_backup cfg))) s1)"

section \<open>The decorator of the commands\<close>

text \<open>What is logged of the call is text: the parameters, the arguments and the version.\<close>

record call_info =
  ci_name :: string
  ci_params :: string
  ci_args :: string
  ci_version :: string

definition command_body :: "call_info \<Rightarrow> ('w session, 'a) act \<Rightarrow> ('w session, 'a) act" where
  "command_body ci f =
     try_act
       (bind_act (log_info None ''Executing command '{}', params: {}, args: {}, version: {}''
          [ci_name ci, ci_params ci, ci_args ci, ci_version ci]) (\<lambda>_.
        bind_act f (\<lambda>result.
        bind_act (log_info None ''Command '{}' completed'' [ci_name ci]) (\<lambda>_. ret result))))
       (\<lambda>e. is_exception e \<or> e = TerminatingSignal)
       (\<lambda>e. bind_act (log_exception None ''Command '{}' failed'' [ci_name ci]) (\<lambda>_. raise e))"

definition command :: "'w session profiler \<Rightarrow> call_info \<Rightarrow> ('w session, 'a) act \<Rightarrow> ('w session, 'a) act" where
  "command pf ci f = profile_call pf 0 (command_body ci f)"

section \<open>What is logged of a command\<close>

definition begun_record :: "call_info \<Rightarrow> log_record" where
  "begun_record ci =
     \<lparr>lr_logger = LOGGER, lr_level = INFO,
      lr_message = ''Executing command '' @ [CHR 0x27] @ ci_name ci @ [CHR 0x27] @ '', params: '' @ ci_params ci @ '', args: ''
        @ ci_args ci @ '', version: '' @ ci_version ci,
      lr_exception = False\<rparr>"

definition ended_record :: "call_info \<Rightarrow> 'a res \<Rightarrow> log_record" where
  "ended_record ci r =
     \<lparr>lr_logger = LOGGER, lr_level = (if isl r then DEBUG else INFO),
      lr_message = ''Command '' @ [CHR 0x27] @ ci_name ci @ [CHR 0x27] @ (if isl r then '' failed'' else '' completed''),
      lr_exception = isl r\<rparr>"

definition untraced :: "'w session profiler \<Rightarrow> 'w session \<Rightarrow> bool" where
  "untraced pf s \<longleftrightarrow> pf_environ pf s = pr_environ (ss_process s) \<and>
     map_of (pr_environ (ss_process s)) ''PYTHONTRACEMALLOC'' = None"

lemma command_body_outcome:
  assumes "f (s\<lparr>ss_log := ss_log s @ [begun_record ci]\<rparr>) = (r, t)" "r \<noteq> Inl SystemExit" "r \<noteq> Inl Hangs"
  shows "command_body ci f s = (r, t\<lparr>ss_log := ss_log t @ [ended_record ci r]\<rparr>)"
proof (cases r)
  case (Inl e)
  with assms show ?thesis
    by (auto simp: command_body_def log_info_def log_exception_def log_call_def log_text_def try_act_def bind_act_def
        option_or_def begun_record_def ended_record_def is_exception_def)
next
  case (Inr x)
  with assms show ?thesis
    by (auto simp: command_body_def log_info_def log_exception_def log_call_def log_text_def try_act_def bind_act_def
        option_or_def begun_record_def ended_record_def)
qed

lemma command_untraced:
  "untraced pf s \<Longrightarrow> command pf ci f s = command_body ci f s"
  by (simp add: command_def untraced_def profile_off)

lemma command_outcome:
  assumes "untraced pf s" "g (ss_world s) = (r, w)" "r \<noteq> Inl SystemExit" "r \<noteq> Inl Hangs"
  shows "command pf ci (in_world g) s =
    (r, s\<lparr>ss_world := w, ss_log := ss_log s @ [begun_record ci, ended_record ci r]\<rparr>)"
  using assms
  by (simp add: command_untraced command_body_outcome [where r = r and t = "s\<lparr>ss_world := w, ss_log := ss_log s @ [begun_record ci]\<rparr>"]
      in_world_def)

text \<open>A command whose function raises is told to the log by a record of level DEBUG only: a handler of the program's
  own log whose level is above DEBUG writes the beginning of the command and nothing of its end. The exception and the
  effects of the function are passed on.\<close>

theorem failure_below_error:
  assumes "untraced pf s" "g (ss_world s) = (Inl e, w)" "e \<noteq> SystemExit" "e \<noteq> Hangs"
    and "lh_filter lh = Own_name LOGGER" "least_severity lh = Some least" "severity_no DEBUG < least" "least \<le> severity_no INFO"
  shows "\<exists>s'. command pf ci (in_world g) s = (Inl e, s') \<and> ss_world s' = w \<and>
    filter (writes lh) (ss_log s') = filter (writes lh) (ss_log s) @ [begun_record ci]"
proof -
  have "command pf ci (in_world g) s =
      (Inl e, s\<lparr>ss_world := w, ss_log := ss_log s @ [begun_record ci, ended_record ci (Inl e :: 'b res)]\<rparr>)"
    using command_outcome [where g = g, OF assms(1,2)] assms(3,4) by simp
  moreover have "writes lh (begun_record ci)" "\<not> writes lh (ended_record ci (Inl e :: 'b res))"
    using assms(5-8) by (simp_all add: writes_def own_name_def begun_record_def ended_record_def)
  ultimately show ?thesis by simp
qed

section \<open>What a command starts with\<close>

lemma cli_steps:
  assumes "cli ce config co s = (Inr cb, s')"
  obtains parsed s1 cfg where "ce_load_yaml ce config s = (parsed, s1)" "cli_config (ce_hostname ce) parsed co = Inr cfg"
    "prepare_process ce cfg s1 = (Inr (), s')" "cb = new_clickhouse_backup cfg"
  using assms by (auto simp: cli_def bind_act_def split: prod.splits sum.splits)

lemma keeps_result: "keeps P m \<Longrightarrow> m s = (r, t) \<Longrightarrow> P s \<Longrightarrow> P t"
  by (auto simp: keeps_def dest: spec [of _ s])

lemma setup_environment_keeps_uid: "keeps (\<lambda>p. pr_uid p = u) (setup_environment repr cfg)"
proof -
  have "keeps (\<lambda>p. pr_uid p = u) (set_env k v)" for k v
    by (simp add: keeps_def set_env_def)
  then show ?thesis
    unfolding setup_environment_def Let_def
    by (intro keeps_rules) (auto intro!: keeps_rules split: conf.splits)
qed

text \<open>A root process whose configuration asks for it runs the command as the configured user, whatever was prepared before,
  if the calls of the host leave the process as it is.\<close>

theorem commands_run_unprivileged:
  assumes "cli ce config co s = (Inr cb, s')"
    and host: "\<And>p. keeps (\<lambda>s. ss_process s = pr) (ce_load_yaml ce p)" "\<And>p. keeps (\<lambda>s. ss_process s = pr) (ce_mkdir ce p)"
      "\<And>p. keeps (\<lambda>s. ss_process s = pr) (ce_chdir ce p)"
      "\<And>p u g. keeps (\<lambda>s. ss_process s = pr) (chown_dir_contents (ce_files ce) u g p False)"
    and root: "ss_process s = pr" "pr_uid pr = 0"
    and main: "config_section (cb_config cb) ''main'' = Inr m" "map_of m ''drop_privileges'' = Some (CBool True)"
      "map_of m ''user'' = Some (CStr user)" "map_of m ''group'' = Some (CStr grp)"
      "ac_user (ce_accounts ce) user = Some uid" "ac_group (ce_accounts ce) grp = Some gid"
  shows "pr_uid (ss_process s') = uid \<and> pr_gid (ss_process s') = gid"
proof -
  from assms(1) obtain parsed s1 cfg where yaml: "ce_load_yaml ce config s = (parsed, s1)"
    and prepare: "prepare_process ce cfg s1 = (Inr (), s')" and cb: "cb = new_clickhouse_backup cfg" by (rule cli_steps)
  have cfg: "config_section cfg ''main'' = Inr m" using main(1) cb by (simp add: new_clickhouse_backup_def)
  from prepare cfg obtain logs s2 u g s3 dir s4 s5 s6 dropped s7 where
    2: "ce_mkdir ce logs s1 = (Inr (), s2)" and 3: "chown_dir_contents (ce_files ce) u g logs False s2 = (Inr (), s3)" and
    4: "ce_chdir ce dir s3 = (Inr (), s4)" and 5: "in_process (setup_environment (ce_repr ce) m) s4 = (Inr (), s5)" and
    6: "in_process (drop_privileges (ce_accounts ce) m) s5 = (Inr dropped, s6)" and
    7: "when_act (\<not> dropped) (log_warning None ''Drop privileges was disabled in config file.'' []) s6 = (Inr (), s7)" and
    8: "(case config_section cfg ''loguru'' of Inl e \<Rightarrow> (Inl e, s7) | Inr d \<Rightarrow> configure_log d s7) = (Inr (), s')"
    by (auto simp: prepare_process_def bind_act_result split: sum.splits)
  have "ss_process s4 = pr"
    using keeps_result [OF host(3) 4 keeps_result [OF host(4) 3 keeps_result [OF host(2) 2 keeps_result [OF host(1) yaml root(1)]]]] .
  with 5 root(2) have "pr_uid (ss_process s5) = 0"
    using setup_environment_keeps_uid [of 0 "ce_repr ce" m]
    by (auto simp: in_process_def split: prod.splits dest: keeps_result)
  from drop_privileges_as_root [OF this main(2-6)] 6
  have "pr_uid (ss_process s6) = uid" "pr_gid (ss_process s6) = gid" "dropped" by (auto simp: in_process_def)
  with 7 8 show ?thesis
    by (auto simp: when_act_def configure_log_def split: sum.splits)
qed

text \<open>The object is fresh: nothing has asked for its context, so that the configuration cannot be reloaded.\<close>

lemma freeze_timeout_refused:
  assumes "t \<noteq> 0"
  shows "\<exists>e. with_freeze_timeout (Some t) (new_clickhouse_backup cfg) pg = Inl e \<and>
    (\<forall>d. map_of cfg ''clickhouse'' = Some (CDict d) \<longrightarrow> e = OtherException ''AttributeError'')"
proof (cases "merge_config cfg [(''clickhouse'', CDict [(''freeze_timeout'', CInt t)])]")
  case (Inl e)
  then show ?thesis
    using assms by (auto simp: with_freeze_timeout_def new_clickhouse_backup_def merge_config_def)
next
  case (Inr c)
  then show ?thesis
    using assms by (simp add: with_freeze_timeout_def new_clickhouse_backup_def cb_reload_config_def)
qed

text \<open>C40. A backup with \<open>--freeze-timeout\<close> always fails before it has done anything: the object that \<open>cli\<close> made has no context
  yet whose removal is part of the reload. When the options are well formed and the section \<open>clickhouse\<close> is one, the error is
  the \<open>AttributeError\<close> of this removal.\<close>

theorem freeze_timeout_fails:
  assumes "cli ce config co s = (Inr cb, s')"
    and "bo_freeze_timeout bo = Some text" "convert_time_span parse_timespan text = Inr t" "t \<noteq> 0"
  shows "\<exists>e. backup_command parse_timespan macros cb pg bo w = (Inl e, w) \<and>
    (\<forall>name databases tables d.
       convert_string (Some NAME_FORMAT) macros (bo_name bo) = Inr name \<and>
       list_option DATABASES_FORMAT (bo_databases bo) = Inr databases \<and>
       list_option TABLES_FORMAT (bo_tables bo) = Inr tables \<and>
       check_constraints ([databases \<noteq> None, tables \<noteq> None] # flag_constraints (bo_flags bo)) = Inr () \<and>
       map_of (cb_config cb) ''clickhouse'' = Some (CDict d) \<longrightarrow>
       e = OtherException ''AttributeError'')"
proof -
  from assms(1) obtain cfg where cb: "cb = new_clickhouse_backup cfg" by (rule cli_steps)
  then have cfg: "cb_config cb = cfg" by (simp add: new_clickhouse_backup_def)
  obtain e where e: "with_freeze_timeout (Some t) cb pg = Inl e"
    "\<forall>d. map_of cfg ''clickhouse'' = Some (CDict d) \<longrightarrow> e = OtherException ''AttributeError''"
    using freeze_timeout_refused [OF assms(4)] cb by blast
  show ?thesis
    using assms(2,3) e cfg
    by (auto simp: backup_command_def Let_def bind_act_def lift_res_def split: sum.splits)
qed

section \<open>Examples\<close>

text \<open>A host on which every call succeeds, with the accounts of the default configuration, and an empty configuration file.\<close>

definition quiet_files :: "'w host_files" where
  "quiet_files =
     \<lparr>hf_exists = (\<lambda>p. ret True), hf_is_file = (\<lambda>p. ret False), hf_mkdir = (\<lambda>p. ret ()), hf_makedirs = (\<lambda>p. ret ()),
      hf_mkdtemp = (\<lambda>p q. ret p), hf_read = (\<lambda>p. ret ''''), hf_write = (\<lambda>p d. ret ()), hf_append = (\<lambda>p d. ret ()),
      hf_listdir = (\<lambda>p. ret []), hf_walk = (\<lambda>p. ret []), hf_files_below = (\<lambda>p. ret []), hf_file_size = (\<lambda>p. ret 0),
      hf_change_times = (\<lambda>p. ret (0, 0)), hf_copy = (\<lambda>p q. ret ()), hf_rmtree = (\<lambda>p. ret ()), hf_remove = (\<lambda>p. ret ()),
      hf_chown = (\<lambda>p u g. ret ()), hf_chmod = (\<lambda>p n. ret ()), hf_touch = (\<lambda>p. ret ()), hf_md5 = id\<rparr>"

definition example_env :: "unit cli_env" where
  "example_env =
     \<lparr>ce_hostname = ''h'', ce_load_yaml = (\<lambda>p. ret CNull), ce_mkdir = (\<lambda>p. ret ()), ce_files = quiet_files,
      ce_chdir = (\<lambda>p. ret ()), ce_accounts = \<lparr>ac_group = (\<lambda>g. Some 5), ac_user = (\<lambda>u. Some 7)\<rparr>, ce_repr = (\<lambda>c. '''')\<rparr>"

definition no_options :: cli_options where
  "no_options =
     \<lparr>co_protocol = None, co_host = None, co_port = None, co_ca_path = None, co_insecure = False, co_zk_hosts = None,
      co_parameters = []\<rparr>"

definition root_session :: "unit session" where
  "root_session = \<lparr>ss_world = (), ss_process = \<lparr>pr_uid = 0, pr_gid = 0, pr_environ = []\<rparr>, ss_log = [], ss_handlers = []\<rparr>"

definition timeout_option :: backup_options where
  "timeout_option =
     \<lparr>bo_name = ''b1'', bo_labels = [], bo_databases = None, bo_tables = None,
      bo_flags = \<lparr>sf_access = False, sf_data = False, sf_schema = False, sf_udf = False, sf_nc = False, sf_workload = False,
        sf_schema_only = False\<rparr>,
      bo_freeze_timeout = Some ''10 s'', bo_force = False\<rparr>"

lemma example_cli_config: "cli_config ''h'' (Inr CNull) no_options = Inr (DEFAULT_CONFIG ''h'')"
  by (simp add: cli_config_def new_config_def read_config_def conf_true_def with_options_def set_in_section_def no_options_def
      build_cli_cfg_from_config_parameters_def sorted_parameters_def merge_config_def Let_def)

lemma example_cli:
  "\<exists>s. cli example_env ''c'' no_options root_session = (Inr (new_clickhouse_backup (DEFAULT_CONFIG ''h'')), s) \<and>
     pr_uid (ss_process s) = 7 \<and> pr_gid (ss_process s) = 5 \<and> length (ss_handlers s) = 5"
proof -
  have "case prepare_process example_env (DEFAULT_CONFIG ''h'') root_session of
      (r, s) \<Rightarrow> r = Inr () \<and> pr_uid (ss_process s) = 7 \<and> pr_gid (ss_process s) = 5 \<and> length (ss_handlers s) = 5"
    by code_simp
  then show ?thesis
    using example_cli_config
    by (auto simp: cli_def example_env_def bind_act_def split: prod.splits)
qed

theorem freeze_timeout_fails_witness:
  "\<exists>(cb :: 'y clickhouse_backup) s. cli example_env ''c'' no_options root_session = (Inr cb, s) \<and>
     (\<forall>pg w. backup_command (\<lambda>t. Inr 10) [] cb pg timeout_option w = (Inl (OtherException ''AttributeError''), w))"
proof -
  obtain cb :: "'y clickhouse_backup" and s where cb: "cb = new_clickhouse_backup (DEFAULT_CONFIG ''h'')"
    and s: "cli example_env ''c'' no_options root_session = (Inr cb, s)"
    using example_cli by blast
  have name: "convert_string (Some NAME_FORMAT) [] (bo_name timeout_option) = Inr ''b1''" by code_simp
  have rest: "list_option DATABASES_FORMAT (bo_databases timeout_option) = Inr None"
    "list_option TABLES_FORMAT (bo_tables timeout_option) = Inr None"
    "check_constraints ([None \<noteq> None, None \<noteq> None] # flag_constraints (bo_flags timeout_option)) = Inr ()"
    by (simp_all add: timeout_option_def list_option_def check_constraints_def flag_constraints_def mutually_exclusive_def)
  have "\<exists>d. map_of (cb_config cb) ''clickhouse'' = Some (CDict d)"
    by (simp add: cb new_clickhouse_backup_def DEFAULT_CONFIG_def default_clickhouse_def Let_def)
  then have "backup_command (\<lambda>t. Inr 10) [] cb pg timeout_option w =
      (Inl (OtherException ''AttributeError''), w)" for pg :: "'x program" and w
    using freeze_timeout_fails [OF s, of timeout_option "''10 s''" "\<lambda>t. Inr 10" 10 "[]" pg w] name rest
    by (auto simp: timeout_option_def convert_time_span_def)
  with s show ?thesis by blast
qed

end
