(* ===== verification/Runtime.thy ===== *)
theory Runtime
  imports Setup Executor
begin

text \<open>
  What the operations run on: the decorator \<open>retry\<close> and the reading of a stream in chunks (\<^verbatim>\<open>util.py\<close>), the shutdown of the
  worker processes and the thread that ends a worker whose parent is gone (\<^verbatim>\<open>base_pipeline/exec_pool.py\<close>).
\<close>

section \<open>The decorator of the retries\<close>

text \<open>tenacity with \<open>stop_after_attempt\<close>, \<open>wait_random_exponential\<close> (a pause drawn between zero and a bound that doubles with
  every attempt) and \<open>reraise\<close>: an exception that is not to be retried, and that of the last attempt, is raised.\<close>

definition retry_pause_before ::
  "(rat \<Rightarrow> rat \<Rightarrow> ('s, rat) act) \<Rightarrow> (rat \<Rightarrow> ('s, unit) act) \<Rightarrow> (nat \<Rightarrow> rat \<Rightarrow> ('s, unit) act) \<Rightarrow> rat \<Rightarrow> nat \<Rightarrow> ('s, unit) act" where
  "retry_pause_before uniform sleep log_retry max_interval attempt_number =
     bind_act (uniform 0 (sleep_bound (1 / 2) max_interval (attempt_number - 1))) (\<lambda>pause.
       seq_act (log_retry attempt_number pause) (sleep pause))"

definition retry_decorator ::
  "(rat \<Rightarrow> rat \<Rightarrow> ('s, rat) act) \<Rightarrow> (rat \<Rightarrow> ('s, unit) act) \<Rightarrow> (nat \<Rightarrow> rat \<Rightarrow> ('s, unit) act) \<Rightarrow>
   (exn \<Rightarrow> bool) \<Rightarrow> nat \<Rightarrow> rat \<Rightarrow> (exn \<Rightarrow> bool) \<Rightarrow> ('s, 'a) act \<Rightarrow> ('s, 'a option) act" where
  "retry_decorator uniform sleep log_retry exception_types tries max_interval retry_if m =
     retry_rounds (\<lambda>e. exception_types e \<and> retry_if e) (max 1 tries)
       (retry_pause_before uniform sleep log_retry max_interval) m 0"


text \<open>A function that succeeds at the third attempt, on a clock that the pauses advance.\<close>

definition third_attempt :: "(nat, string) act" where
  "third_attempt n = (if n < 2 then (Inl OSError, n + 1) else (Inr ''done'', n))"

definition longest_pause :: "rat \<Rightarrow> rat \<Rightarrow> (nat \<times> rat, rat) act" where
  "longest_pause lo hi = ret hi"

definition advance_clock :: "rat \<Rightarrow> (nat \<times> rat, unit) act" where
  "advance_clock t s = (Inr (), (fst s, snd s + t))"


section \<open>Shutting the workers down\<close>

text \<open>The processes of a pool, by their ids, as multiprocessing offers them; \<open>wp_stop\<close> is the orderly shutdown of the executor.\<close>

record 'w worker_pool =
  wp_stop :: "('w, unit) act"
  wp_ids :: "'w \<Rightarrow> nat list"
  wp_is_alive :: "nat \<Rightarrow> ('w, bool) act"
  wp_terminate :: "nat \<Rightarrow> ('w, unit) act"
  wp_kill :: "nat \<Rightarrow> ('w, unit) act"
  wp_join :: "nat \<Rightarrow> rat \<Rightarrow> ('w, unit) act"
  wp_time :: "('w, rat) act"
  wp_log_exception :: "string \<Rightarrow> ('w, unit) act"

definition TIMEOUT_WORKER_TERMINATING_SEC :: rat where "TIMEOUT_WORKER_TERMINATING_SEC = 5"

definition signal_alive ::
  "'w worker_pool \<Rightarrow> (nat \<Rightarrow> ('w, unit) act) \<Rightarrow> string \<Rightarrow> nat list \<Rightarrow> ('w, unit) act" where
  "signal_alive wp signal msg ids =
     for_act ids (\<lambda>p _.
       bind_act (wp_is_alive wp p) (\<lambda>alive.
         when_act alive (try_act (signal p) is_exception (\<lambda>e. wp_log_exception wp msg)))) ()"

definition join_within :: "'w worker_pool \<Rightarrow> nat list \<Rightarrow> rat \<Rightarrow> ('w, rat) act" where
  "join_within wp ids =
     for_act ids (\<lambda>p remaining_timeout.
       bind_act (wp_time wp) (\<lambda>start.
       bind_act (wp_join wp p remaining_timeout) (\<lambda>_.
       bind_act (wp_time wp) (\<lambda>now.
         ret (max (remaining_timeout - (now - start)) 0)))))"

text \<open>\<open>ProcessExecPool.shutdown\<close>.\<close>

definition shutdown_processes :: "'w worker_pool \<Rightarrow> bool \<Rightarrow> ('w, unit) act" where
  "shutdown_processes wp graceful =
     (if graceful then wp_stop wp
      else
        (\<lambda>w. bind_act (signal_alive wp (wp_terminate wp) ''Failed terminating of worker process. Ignore it'' (wp_ids wp w)) (\<lambda>_ w.
           bind_act (join_within wp (wp_ids wp w) TIMEOUT_WORKER_TERMINATING_SEC) (\<lambda>_ w.
             signal_alive wp (wp_kill wp) ''Failed killing of worker process. Ignore it'' (wp_ids wp w) w) w) w))"

text \<open>However many workers there are, waiting for them takes at most the time allowed.\<close>

lemma join_within_time:
  assumes time: "\<And>w. wp_time wp w = (Inr (clock w), w)"
    and join: "\<And>p t w r w'. 0 \<le> t \<Longrightarrow> wp_join wp p t w = (r, w') \<Longrightarrow> clock w \<le> clock w' \<and> clock w' \<le> clock w + t"
  shows "0 \<le> t \<Longrightarrow> join_within wp ids t w = (r, w') \<Longrightarrow> clock w' \<le> clock w + t"
proof (induction ids arbitrary: t w)
  case Nil
  then show ?case by (simp add: join_within_def)
next
  case (Cons p ids)
  obtain q v where v: "wp_join wp p t w = (q, v)" by fastforce
  have b: "clock w \<le> clock v" "clock v \<le> clock w + t" using join [OF Cons.prems(1) v] by auto
  show ?case
  proof (cases q)
    case (Inl e)
    with Cons.prems(2) v b show ?thesis by (auto simp: join_within_def bind_act_def time)
  next
    case (Inr u)
    with Cons.prems(2) v have "join_within wp ids (max (t - (clock v - clock w)) 0) v = (r, w')"
      by (simp add: join_within_def bind_act_def time)
    then have "clock w' \<le> clock v + max (t - (clock v - clock w)) 0" by (rule Cons.IH [rotated]) simp
    with b show ?thesis by (simp add: max_def split: if_splits)
  qed
qed

text \<open>What the host promises: whether a process is alive is known, no call brings one back or changes the list of the
  processes, and a process that is killed is gone. \<open>terminate\<close> may raise, and a process may ignore it.\<close>

definition only_ends :: "'w worker_pool \<Rightarrow> ('w \<Rightarrow> nat set) \<Rightarrow> ('w, 'a) act \<Rightarrow> bool" where
  "only_ends wp alive m \<longleftrightarrow> (\<forall>A ids. keeps (\<lambda>w. alive w \<subseteq> A \<and> wp_ids wp w = ids) m)"

definition host_ends_processes :: "'w worker_pool \<Rightarrow> ('w \<Rightarrow> nat set) \<Rightarrow> bool" where
  "host_ends_processes wp alive \<longleftrightarrow>
     (\<forall>p w. wp_is_alive wp p w = (Inr (p \<in> alive w), w)) \<and>
     (\<forall>p. only_ends wp alive (wp_terminate wp p)) \<and> (\<forall>p t. only_ends wp alive (wp_join wp p t)) \<and>
     (\<forall>p. only_ends wp alive (wp_kill wp p)) \<and> only_ends wp alive (wp_time wp) \<and>
     (\<forall>msg. only_ends wp alive (wp_log_exception wp msg)) \<and>
     (\<forall>p w. \<exists>w'. wp_kill wp p w = (Inr (), w') \<and> p \<notin> alive w')"

lemma only_endsD: "only_ends wp alive m \<Longrightarrow> m w = (r, w') \<Longrightarrow> alive w' \<subseteq> alive w \<and> wp_ids wp w' = wp_ids wp w"
  unfolding only_ends_def keeps_def by (metis snd_conv subset_refl)

lemma only_ends_signal:
  assumes "host_ends_processes wp alive" "\<And>p. only_ends wp alive (signal p)"
  shows "only_ends wp alive (signal_alive wp signal msg ids)"
proof -
  have "keeps P (wp_is_alive wp p)" for P p
    using assms(1) by (simp add: host_ends_processes_def keeps_def)
  then show ?thesis
    using assms unfolding only_ends_def signal_alive_def host_ends_processes_def
    by (intro allI keeps_rules) auto
qed

lemma only_ends_join:
  assumes "host_ends_processes wp alive"
  shows "only_ends wp alive (join_within wp ids t)"
  using assms unfolding only_ends_def join_within_def host_ends_processes_def
  by (intro allI keeps_rules) auto

lemma signal_alive_kills:
  assumes "host_ends_processes wp alive" "signal_alive wp (wp_kill wp) msg ids w = (r, w')"
  shows "alive w' \<inter> set ids = {}"
  using assms(2)
proof (induction ids arbitrary: w)
  case Nil
  then show ?case by simp
next
  case (Cons p ids)
  obtain v where v: "wp_kill wp p w = (Inr (), v)" "p \<notin> alive v"
    using assms(1) unfolding host_ends_processes_def by blast
  let ?u = "if p \<in> alive w then v else w"
  have "signal_alive wp (wp_kill wp) msg ids ?u = (r, w')"
    using Cons.prems assms(1) v(1)
    by (simp add: signal_alive_def bind_act_def when_act_def try_act_def host_ends_processes_def split: if_splits)
  note rest = this
  have "only_ends wp alive (signal_alive wp (wp_kill wp) msg ids)"
    by (rule only_ends_signal) (use assms(1) in \<open>simp_all add: host_ends_processes_def\<close>)
  from only_endsD [OF this rest] Cons.IH [OF rest] v(2) show ?case by (auto split: if_splits)
qed

text \<open>After an abrupt shutdown no worker is left, whether the workers heeded the first signal or not.\<close>

theorem shutdown_leaves_no_worker:
  assumes "host_ends_processes wp alive" "shutdown_processes wp False w = (Inr (), w')"
  shows "alive w' \<inter> set (wp_ids wp w) = {}"
proof -
  from assms(2) obtain u w1 t w2 msg msg2 where
    1: "signal_alive wp (wp_terminate wp) msg (wp_ids wp w) w = (Inr u, w1)" and
    2: "join_within wp (wp_ids wp w1) TIMEOUT_WORKER_TERMINATING_SEC w1 = (Inr t, w2)" and
    3: "signal_alive wp (wp_kill wp) msg2 (wp_ids wp w2) w2 = (Inr (), w')"
    by (auto simp: shutdown_processes_def bind_act_result)
  have "only_ends wp alive (signal_alive wp (wp_terminate wp) msg (wp_ids wp w))"
    by (rule only_ends_signal) (use assms(1) in \<open>simp_all add: host_ends_processes_def\<close>)
  from only_endsD [OF this 1] only_endsD [OF only_ends_join [OF assms(1)] 2] have "wp_ids wp w2 = wp_ids wp w" by simp
  with signal_alive_kills [OF assms(1) 3] show ?thesis by simp
qed

text \<open>The time of the waiting, for the whole shutdown.\<close>

theorem shutdown_time:
  assumes time: "\<And>w. wp_time wp w = (Inr (clock w), w)"
    and join: "\<And>p t w r w'. 0 \<le> t \<Longrightarrow> wp_join wp p t w = (r, w') \<Longrightarrow> clock w \<le> clock w' \<and> clock w' \<le> clock w + t"
    and signals: "\<And>c p. keeps (\<lambda>w. clock w = c) (wp_is_alive wp p)" "\<And>c p. keeps (\<lambda>w. clock w = c) (wp_terminate wp p)"
      "\<And>c p. keeps (\<lambda>w. clock w = c) (wp_kill wp p)" "\<And>c msg. keeps (\<lambda>w. clock w = c) (wp_log_exception wp msg)"
    and run: "shutdown_processes wp False w = (r, w')"
  shows "clock w' \<le> clock w + 5"
proof -
  have sig: "keeps (\<lambda>w. clock w = c) (signal_alive wp f msg ids)" if "\<And>p. keeps (\<lambda>w. clock w = c) (f p)" for c f msg ids
    unfolding signal_alive_def using signals(1,4) that by (intro keeps_rules) auto
  obtain msg msg2 r1 w1 r2 w2 where
    1: "signal_alive wp (wp_terminate wp) msg (wp_ids wp w) w = (r1, w1)" and
    2: "join_within wp (wp_ids wp w1) TIMEOUT_WORKER_TERMINATING_SEC w1 = (r2, w2)" and
    3: "(r, w') = (if isl r1 then (Inl (projl r1), w1) else if isl r2 then (Inl (projl r2), w2)
        else signal_alive wp (wp_kill wp) msg2 (wp_ids wp w2) w2)"
  proof -
    obtain r1 w1 where 1: "signal_alive wp (wp_terminate wp) ''Failed terminating of worker process. Ignore it'' (wp_ids wp w) w = (r1, w1)"
      by fastforce
    obtain r2 w2 where 2: "join_within wp (wp_ids wp w1) TIMEOUT_WORKER_TERMINATING_SEC w1 = (r2, w2)" by fastforce
    from run 1 2 show thesis
      by (intro that [OF 1 2, of "''Failed killing of worker process. Ignore it''"])
        (cases r1; cases r2; auto simp: shutdown_processes_def bind_act_def)
  qed
  have "keeps (\<lambda>v. clock v = clock w) (signal_alive wp (wp_terminate wp) msg (wp_ids wp w))"
    by (rule sig [OF signals(2)])
  from keepsD [OF this, of w] have "clock w1 = clock w" using 1 by simp
  moreover have "clock w2 \<le> clock w1 + 5"
    using join_within_time [OF time join _ 2] by (simp add: TIMEOUT_WORKER_TERMINATING_SEC_def)
  moreover have "clock w1 \<le> clock w1 + 5" by simp
  moreover have "keeps (\<lambda>v. clock v = clock w2) (signal_alive wp (wp_kill wp) msg2 (wp_ids wp w2))"
    by (rule sig [OF signals(3)])
  then have "clock (snd (signal_alive wp (wp_kill wp) msg2 (wp_ids wp w2) w2)) = clock w2"
    by (rule keepsD) simp
  ultimately show ?thesis using 3 by (auto split: if_splits dest: arg_cong [where f = snd])
qed

section \<open>The watch over the parent\<close>

text \<open>The thread of a worker: it looks every ten seconds whether the process has another parent, and then ends the process.
  A worker that was started by the process 1 ends at once.\<close>

record 'w process_calls =
  pc_getppid :: "'w \<Rightarrow> int"
  pc_signal_self :: "string \<Rightarrow> ('w, unit) act"
  pc_sleep :: "rat \<Rightarrow> ('w, unit) act"

definition end_process :: "'w process_calls \<Rightarrow> ('w, unit) act" where
  "end_process pc =
     bind_act (pc_signal_self pc ''SIGTERM'') (\<lambda>_. bind_act (pc_sleep pc 10) (\<lambda>_. pc_signal_self pc ''SIGKILL''))"

partial_function (option) watch_parent :: "'w process_calls \<Rightarrow> int \<Rightarrow> 'w \<Rightarrow> (unit res \<times> 'w) option" where
  "watch_parent pc initial_ppid w =
     (if initial_ppid = 1 \<or> pc_getppid pc w \<noteq> initial_ppid then Some (end_process pc w)
      else
        (case pc_sleep pc 10 w of
           (Inl e, w1) \<Rightarrow> Some (Inl e, w1)
         | (Inr _, w1) \<Rightarrow> watch_parent pc initial_ppid w1))"

definition run_terminate_thread :: "'w process_calls \<Rightarrow> 'w \<Rightarrow> (unit res \<times> 'w) option" where
  "run_terminate_thread pc w = watch_parent pc (pc_getppid pc w) w"

definition slept :: "'w process_calls \<Rightarrow> 'w \<Rightarrow> 'w" where
  "slept pc w = snd (pc_sleep pc 10 w)"

text \<open>A worker ends at the first look after its parent is gone, and does not end before.\<close>

theorem orphan_ends:
  assumes "\<And>w. fst (pc_sleep pc 10 w) = Inr ()" "pc_getppid pc w \<noteq> 1"
    and "\<forall>m < n. pc_getppid pc ((slept pc ^^ m) w) = pc_getppid pc w"
    and "pc_getppid pc ((slept pc ^^ n) w) \<noteq> pc_getppid pc w"
  shows "run_terminate_thread pc w = Some (end_process pc ((slept pc ^^ n) w))"
proof -
  have "\<forall>m < n. pc_getppid pc ((slept pc ^^ m) v) = i \<Longrightarrow> pc_getppid pc ((slept pc ^^ n) v) \<noteq> i \<Longrightarrow> i \<noteq> 1 \<Longrightarrow>
      watch_parent pc i v = Some (end_process pc ((slept pc ^^ n) v))" for i v
  proof (induction n arbitrary: v)
    case 0
    then show ?case by (simp add: watch_parent.simps)
  next
    case (Suc n)
    have step: "pc_sleep pc 10 v = (Inr (), slept pc v)"
      using assms(1) [of v] by (simp add: slept_def prod_eq_iff)
    have "pc_getppid pc v = i" using Suc.prems(1) by (auto dest: spec [of _ 0])
    moreover have "watch_parent pc i (slept pc v) = Some (end_process pc ((slept pc ^^ n) (slept pc v)))"
      using Suc.prems by (intro Suc.IH) (auto simp: funpow_swap1)
    ultimately show ?case
      using Suc.prems(3) step by (subst watch_parent.simps) (simp add: funpow_swap1)
  qed
  from this [of w "pc_getppid pc w"] assms(2-4) show ?thesis by (simp add: run_terminate_thread_def)
qed

end
