(* ===== verification/Spec2Isabelle.thy ===== *)
theory Spec2Isabelle
  imports DeleteSafety StoreRoundtrip Handlers Session Runtime
begin

text \<open>
  ch-backup: a verification development.

  \<^bold>\<open>The program.\<close> \<^verbatim>\<open>ch-backup\<close> makes backups of a ClickHouse server in an S3 bucket, restores, lists and deletes them. A
  command (\<^verbatim>\<open>cli.py\<close>) calls an operation of \<^verbatim>\<open>ClickhouseBackup\<close> (\<^verbatim>\<open>ch_backup.py\<close>). It takes the lock, asks the managers of
  \<^verbatim>\<open>logic/\<close> to back up or restore databases, tables, access entities, functions, named collections and workloads, and keeps
  the metadata of the backup (\<^verbatim>\<open>backup/metadata/\<close>). The managers talk to the server through the control tool
  (\<^verbatim>\<open>clickhouse/control.py\<close>, \<^verbatim>\<open>client.py\<close>) and to the storage through the layout (\<^verbatim>\<open>backup/layout.py\<close>), which names the
  objects. Below the layout the loader (\<^verbatim>\<open>storage/loader.py\<close>) gives every transfer to the pipeline executor, which runs a
  pipeline of stages in a pool of processes; the last stage is the S3 engine. Parts that an earlier backup has stored already
  are not uploaded again (\<^verbatim>\<open>backup/deduplication.py\<close>): backups share objects, and deleting one has to spare what others use.

  \<^bold>\<open>How code is modelled.\<close> (theory \<open>Prelude\<close>) An operation with effects is an \<open>('w, 'a) act\<close>: from a world \<open>'w\<close> to a result
  and a new world, and an exception (\<open>Inl\<close>) keeps the effects made before it. \<open>try_act\<close>, \<open>finally_act\<close>, \<open>for_act\<close> and
  \<open>retry_act\<close> are the statements of Python and the retries of the program. A pure function that may raise is a \<open>res\<close>. Objects
  are records, enumerations and values are datatypes, dictionaries are association lists in the order of insertion, Python's
  integers are \<open>int\<close>, texts and bytes are lists of characters. External code is a record of operations of the world: the HTTP
  server (\<open>ch_client\<close>), the host's files (\<open>host_files\<close>, \<open>file_system\<close>), boto3 (\<open>s3_client\<close>), kazoo (\<open>zookeeper\<close>), the clock, the
  box of PyNaCl, zlib, tarfile, the texts of JSON and YAML. What a theorem needs of such code is a hypothesis or a law of a
  locale, and every locale is interpreted on definitions of the model.
\<close>

text \<open>
  \<^bold>\<open>The theories\<close>, from the bottom.

  \<^item> \<open>Prelude\<close>, \<open>PyStr\<close>, \<open>Regex\<close>: results, effects, dictionaries; strings and POSIX paths; the regular expressions of the
    code run by a backtracking matcher. \<open>keeps P m\<close> says that \<open>m\<close> preserves \<open>P\<close> also when it raises; its rules are the
    collection \<open>keeps_rules\<close>.
  \<^item> \<open>Models\<close>, \<open>Parts\<close>, \<open>BackupMeta\<close>, \<open>BackupOps\<close>: disks, tables, databases and parts (\<^verbatim>\<open>clickhouse/models.py\<close>,
    \<^verbatim>\<open>part_metadata.py\<close>, \<^verbatim>\<open>table_metadata.py\<close>), the backup metadata, its dump, load and methods (\<^verbatim>\<open>backup_metadata.py\<close>). The size
    counters are the sums over the parts, and dumped metadata loads to the same backup.
  \<^item> \<open>Fifo\<close>, \<open>Calculators\<close>, \<open>Chunking\<close>, \<open>Crypto\<close>, \<open>Tar\<close>: the circular buffer refines a queue; sizes; chunking equals cutting the
    whole stream; the rate limiter; encryption and its exact size; the TAR writer and the reader's state machine.
  \<^item> \<open>Storage\<close>, \<open>Engine\<close>, \<open>Threads\<close>, \<open>Pipelines\<close>, \<open>Executor\<close>: the interface of the loader; the S3 engine with its retries; pools
    whose jobs run in any order (an argument, the schedule); the pipelines; the executor and the loader itself.
  \<^item> \<open>StoreLaws\<close>, \<open>LoaderLaws\<close>, \<open>Bucket\<close>: the laws of a store (\<open>object_store\<close>, \<open>engine_store\<close>, \<open>pool_store\<close>), proved for the
    engine, the pipelines and the loader of the model, and a bucket in memory on which they hold. \<open>Builder\<close> has the stages
    of a pipeline as data, put together as \<^verbatim>\<open>pipeline_builder.py\<close> does, and shows that running them is the composition of
    \<open>Pipelines\<close>. \<open>Handlers\<close> has the classes of the stages with their state and the way a stage runs its handler on the
    elements of a queue (\<^verbatim>\<open>base_pipeline/handler.py\<close>, \<^verbatim>\<open>map.py\<close>, \<^verbatim>\<open>flat_map.py\<close>, \<^verbatim>\<open>input.py\<close>), and shows that the run is
    the function of lists with which the pipelines are composed (the theorems \<open>..._stage_runs\<close>).
  \<^item> \<open>Layout\<close>, \<open>LayoutOps\<close>, \<open>LayoutFacts\<close>, \<open>Dedup\<close>: every method of \<^verbatim>\<open>layout.py\<close> over the loader, and deduplication.
  \<^item> \<open>Retention\<close>, \<open>RetentionSafety\<close>, \<open>MemoryBackup\<close>, \<open>PurgeSafety\<close>, \<open>DeleteSafety\<close>: get, list, delete and purge of
    \<^verbatim>\<open>ch_backup.py\<close>, what they select, and that they never lose the data of a backup that is kept. \<open>StoreRoundtrip\<close>: data and
    metadata come back as they were uploaded.
  \<^item> \<open>Sql\<close>, \<open>Client\<close>, \<open>Control\<close>, \<open>Schema\<close>: quoting and masking; one HTTP request per attempt; a definition for each method of
    the control tool, with the texts of its statements; rewriting of create statements (\<^verbatim>\<open>schema.py\<close>).
  \<^item> \<open>Zookeeper\<close>, \<open>Cleaner\<close>, \<open>Locks\<close>, \<open>Sync\<close>: the counted connection, the cleaner of replicas, the lock manager, the wait for
    replicated databases (\<^verbatim>\<open>database_sync.py\<close>).
  \<^item> \<open>TableBackup\<close>, \<open>RestoreContext\<close>, \<open>RestoreTables\<close>, \<open>TempDisks\<close>, \<open>RestoreData\<close>, \<open>Databases\<close>: the table manager (\<^verbatim>\<open>table.py\<close>)
    with the restore's state file, its order and retries, temporary disks, parts; the database manager.
  \<^item> \<open>ChConfig\<close>, \<open>Workloads\<close>, \<open>Entities\<close>, \<open>Access\<close>, \<open>PartialRestore\<close>, \<open>Sources\<close>: the server's configuration, and the other
    managers of \<^verbatim>\<open>logic/\<close>.
  \<^item> \<open>TopLevel\<close>, \<open>Config\<close>, \<open>Params\<close>, \<open>Cli\<close>: \<open>backup\<close> and \<open>restore\<close> as a whole, and the program's configuration and commands.
    \<open>Context\<close>: the objects that the managers share, each made on first use (\<^verbatim>\<open>backup_context.py\<close>; the locale \<open>attribute\<close>),
    and the object that holds the context.
  \<^item> \<open>Setup\<close>: what a command prepares and rests on: privileges and environment, the log, the profiler, the HTTP session, the
    S3 client and the pauses of its retries, the waiting loop, the scan of a directory. \<open>Session\<close>: the run of a command from the
    preparation of the process to the record of its outcome (the group \<open>cli\<close>, the decorator \<open>command\<close>, \<^verbatim>\<open>logging.py\<close>, the
    handler of signals). \<open>Runtime\<close>: the decorator \<open>retry\<close>, the shutdown of the workers, which ends in bounded time and leaves none
    of them, and the thread that ends a worker without a parent.
\<close>

text \<open>
  \<^bold>\<open>What the theorems show.\<close>

  \<^item> No loss of data: C1, C2 (purging and deleting leave every object of every part of a retained backup as it is, also when
    they stop with an error), C9, C10 (which backups they select), C11 (a race of the code between the names and the lock).
  \<^item> Round trips: C3, C4 end to end through loader, pipelines and engine, for any chunking, schedule and retries (C35: the pipelines are
    those that are built); C14 for the
    documents, C18 for encryption, C27 for the state of a restore.
  \<^item> Outcomes: C5 (the state stored for a backup), C6, C29 (every table is restored or reported, after a bounded number of
    attempts), C8, C7, C32, C33 (databases, and the wait for them: what it guarantees, that it ends, that it succeeds for a
    replica that goes on), C34 (locks).
  \<^item> The parts: C13, C15, C16 (order and counters), C17, C19 to C21, C23 (buffer, chunks, rates, sizes), C22, C30, C31 (orders of a
    restore), C24, C25 (SQL texts), C12, C26, C36 (retries), C37 to C39 (where a setting comes from).
  \<^item> Behaviour that the code has against its own documentation or purpose: C11, C28, C40, and the
    theorems the findings name.

  \<^bold>\<open>Loops and bounds.\<close> Loops that may run forever are \<open>partial_function (option)\<close> (the loops of chunking, rate limiting,
  downloading, reading TAR and polling); the operation then ends with \<open>Hangs\<close>, which no handler catches, and a theorem says when
  it returns (C19, C32; C4 and C18 state a result, which excludes \<open>Hangs\<close>). The matcher of \<open>Regex\<close> has as many rounds as the text
  has characters, and one more: every round of a repetition or replacement consumes a character. The queue of the tables
  is bounded by the measure of its list (C29), and the retries by their number of attempts (C12). The calculators divide
  exactly where the code uses floating point.

  \<^bold>\<open>Not modelled.\<close> The parser of the command line and what it prints; the libraries behind the log and the memory profiles, and
  what they print; the delivery of signals; boto3, kazoo and requests themselves; the text of JSON, YAML and XML, whose readers and writers are parameters (repeated
  elements of an XML section, undecodable bytes and characters outside ASCII in classes of patterns are left out); what the server
  does with a statement. The worker threads of one pipeline are the composition of its stages, since the stages pass
  their data on in order. A time is an instant with an offset; sleeping is an operation only where its order matters.
\<close>

end
